(* ===== verification/Prelude.thy ===== *)
theory Prelude
  imports Complex_Main "HOL-Library.AList"
begin

text \<open>
  Shared vocabulary of the development.

  \<^item> Names of the model's basic types: a UUID is a natural number, a point in time is an
    integer number of seconds, a date an integer number of days, a Python float a real number
    (the arithmetic of the code is read exactly, without binary rounding).
  \<^item> Computations that read and write a state and may raise: \<open>('e, 's, 'a) comp\<close>. The state
    reached before an exception is part of the result, as mutations survive a Python exception;
    \<open>transaction\<close> is the database session that is left without a commit.
  \<^item> Python's \<open>round\<close>, insertion-ordered dictionaries, \<open>dict.fromkeys\<close> and the slice \<open>xs[-n:]\<close>.
\<close>

named_theorems comp_simps "unfolding rules of the computations"
named_theorems table_simps "rewriting rules of tables and rows"

type_synonym uuid = nat
type_synonym time = int
type_synonym date = int
type_synonym pyfloat = real

subsection \<open>Computations with state and exceptions\<close>

type_synonym ('e, 's, 'a) comp = "'s \<Rightarrow> ('e + 'a) \<times> 's"

definition ret :: "'a \<Rightarrow> ('e, 's, 'a) comp" where
  "ret a = (\<lambda>s. (Inr a, s))"

definition throw :: "'e \<Rightarrow> ('e, 's, 'a) comp" where
  "throw e = (\<lambda>s. (Inl e, s))"

definition andthen :: "('e, 's, 'a) comp \<Rightarrow> ('a \<Rightarrow> ('e, 's, 'b) comp) \<Rightarrow> ('e, 's, 'b) comp" where
  "andthen m k = (\<lambda>s. case m s of (Inl e, s') \<Rightarrow> (Inl e, s') | (Inr a, s') \<Rightarrow> k a s')"

definition handle :: "('e, 's, 'a) comp \<Rightarrow> ('e \<Rightarrow> ('e, 's, 'a) comp) \<Rightarrow> ('e, 's, 'a) comp" where
  "handle m h = (\<lambda>s. case m s of (Inl e, s') \<Rightarrow> h e s' | (Inr a, s') \<Rightarrow> (Inr a, s'))"

definition gets :: "('s \<Rightarrow> 'a) \<Rightarrow> ('e, 's, 'a) comp" where
  "gets f = (\<lambda>s. (Inr (f s), s))"

definition modify :: "('s \<Rightarrow> 's) \<Rightarrow> ('e, 's, unit) comp" where
  "modify f = (\<lambda>s. (Inr (), f s))"

definition require :: "bool \<Rightarrow> 'e \<Rightarrow> ('e, 's, unit) comp" where
  "require b e = (if b then ret () else throw e)"

text \<open>A call of a pure function that may raise.\<close>

definition lift_result :: "'e + 'a \<Rightarrow> ('e, 's, 'a) comp" where
  "lift_result r = (\<lambda>s. (r, s))"

text \<open>A session that raises is closed without a commit: the database keeps its old contents.\<close>

definition transaction :: "('e, 's, 'a) comp \<Rightarrow> ('e, 's, 'a) comp" where
  "transaction m = (\<lambda>s. case m s of (Inl e, _) \<Rightarrow> (Inl e, s) | (Inr a, s') \<Rightarrow> (Inr a, s'))"

lemma ret_apply [comp_simps]: "ret a s = (Inr a, s)"
  by (simp add: ret_def)

lemma throw_apply [comp_simps]: "throw e s = (Inl e, s)"
  by (simp add: throw_def)

lemma gets_apply [simp, comp_simps]: "gets f s = (Inr (f s), s)"
  by (simp add: gets_def)

lemma modify_apply [simp, comp_simps]: "modify f s = (Inr (), f s)"
  by (simp add: modify_def)

lemma lift_result_apply [comp_simps]: "lift_result r s = (r, s)"
  by (simp add: lift_result_def)

lemma lift_result_Inr [simp]: "lift_result (Inr a) = ret a"
  by (simp add: lift_result_def ret_def)

lemma lift_result_Inl [simp]: "lift_result (Inl e) = throw e"
  by (simp add: lift_result_def throw_def)

lemma require_apply [comp_simps]: "require b e s = (if b then (Inr (), s) else (Inl e, s))"
  by (simp add: require_def ret_def throw_def)

lemma andthen_apply [comp_simps]:
  "andthen m k s = (case m s of (Inl e, s') \<Rightarrow> (Inl e, s') | (Inr a, s') \<Rightarrow> k a s')"
  by (simp add: andthen_def)

lemma handle_apply [comp_simps]:
  "handle m h s = (case m s of (Inl e, s') \<Rightarrow> h e s' | (Inr a, s') \<Rightarrow> (Inr a, s'))"
  by (simp add: handle_def)

lemma andthen_ret [simp]: "andthen (ret a) k = k a"
  by (simp add: andthen_def ret_def fun_eq_iff)

lemma andthen_throw [simp]: "andthen (throw e) k = throw e"
  by (simp add: andthen_def throw_def fun_eq_iff)

lemma ret_eq [simp]: "ret a s = (r, s') \<longleftrightarrow> r = Inr a \<and> s' = s"
  by (auto simp: ret_def)

lemma throw_eq [simp]: "throw e s = (r, s') \<longleftrightarrow> r = Inl e \<and> s' = s"
  by (auto simp: throw_def)

lemma lift_result_eq [simp]: "lift_result x s = (r, s') \<longleftrightarrow> x = r \<and> s' = s"
  by (auto simp: lift_result_def)

lemma andthen_ret_right [simp]: "andthen m ret = m"
  by (auto simp: andthen_def ret_def fun_eq_iff split: prod.splits sum.splits)

lemma andthen_assoc: "andthen (andthen m k) l = andthen m (\<lambda>a. andthen (k a) l)"
  by (auto simp: andthen_def fun_eq_iff split: prod.splits sum.splits)

lemma andthen_InrE:
  assumes "andthen m k s = (Inr b, s'')"
  obtains a s' where "m s = (Inr a, s')" and "k a s' = (Inr b, s'')"
  using assms by (auto simp: andthen_def split: prod.splits sum.splits)

lemma andthen_InlE:
  assumes "andthen m k s = (Inl e, s'')"
  obtains (first) "m s = (Inl e, s'')"
    | (second) a s' where "m s = (Inr a, s')" and "k a s' = (Inl e, s'')"
  using assms by (auto simp: andthen_def split: prod.splits sum.splits)

lemma transaction_Inl [simp]: "m s = (Inl e, s') \<Longrightarrow> transaction m s = (Inl e, s)"
  by (simp add: transaction_def)

lemma transaction_Inr [simp]: "m s = (Inr a, s') \<Longrightarrow> transaction m s = (Inr a, s')"
  by (simp add: transaction_def)

lemma transaction_rollback: "transaction m s = (Inl e, s') \<Longrightarrow> s' = s"
  by (auto simp: transaction_def split: prod.splits sum.splits)

lemma transaction_InrD: "transaction m s = (Inr a, s') \<Longrightarrow> m s = (Inr a, s')"
  by (auto simp: transaction_def split: prod.splits sum.splits)

text \<open>
  \<open>keeps P m\<close>: the computation \<open>m\<close> keeps the state predicate \<open>P\<close>, whether it returns or raises.
\<close>

definition keeps :: "('s \<Rightarrow> bool) \<Rightarrow> ('e, 's, 'a) comp \<Rightarrow> bool" where
  "keeps P m \<longleftrightarrow> (\<forall>s. P s \<longrightarrow> P (snd (m s)))"

lemma keepsI: "(\<And>s. P s \<Longrightarrow> P (snd (m s))) \<Longrightarrow> keeps P m"
  by (simp add: keeps_def)

lemma keepsD: "keeps P m \<Longrightarrow> P s \<Longrightarrow> P (snd (m s))"
  by (simp add: keeps_def)

lemma keeps_resultD: "keeps P m \<Longrightarrow> P s \<Longrightarrow> m s = (r, s') \<Longrightarrow> P s'"
  by (metis keepsD snd_conv)

lemma keeps_ret [simp, intro]: "keeps P (ret a)"
  by (simp add: keeps_def ret_def)

lemma keeps_throw [simp, intro]: "keeps P (throw e)"
  by (simp add: keeps_def throw_def)

lemma keeps_gets [simp, intro]: "keeps P (gets f)"
  by (simp add: keeps_def)

lemma keeps_lift_result [simp, intro]: "keeps P (lift_result r)"
  by (simp add: keeps_def lift_result_def)

lemma keeps_require [simp, intro]: "keeps P (require b e)"
  by (simp add: keeps_def comp_simps)

lemma keeps_modify: "(\<And>s. P s \<Longrightarrow> P (f s)) \<Longrightarrow> keeps P (modify f)"
  by (simp add: keeps_def)

lemma keeps_andthen [intro]:
  "keeps P m \<Longrightarrow> (\<And>a. keeps P (k a)) \<Longrightarrow> keeps P (andthen m k)"
  by (fastforce simp: keeps_def andthen_def split: prod.splits sum.splits)

lemma keeps_handle [intro]:
  "keeps P m \<Longrightarrow> (\<And>e. keeps P (h e)) \<Longrightarrow> keeps P (handle m h)"
  by (fastforce simp: keeps_def handle_def split: prod.splits sum.splits)

lemma keeps_transaction [intro]: "keeps P m \<Longrightarrow> keeps P (transaction m)"
  by (fastforce simp: keeps_def transaction_def split: prod.splits sum.splits)

lemma keeps_option [intro]:
  "(x = None \<Longrightarrow> keeps P m) \<Longrightarrow> (\<And>a. x = Some a \<Longrightarrow> keeps P (k a)) \<Longrightarrow>
    keeps P (case x of None \<Rightarrow> m | Some a \<Rightarrow> k a)"
  by (cases x) auto

lemma keeps_if [intro]: "(b \<Longrightarrow> keeps P m) \<Longrightarrow> (\<not> b \<Longrightarrow> keeps P n) \<Longrightarrow> keeps P (if b then m else n)"
  by simp

text \<open>
  \<open>triple P m Q E\<close>: from a state with \<open>P\<close>, a result \<open>a\<close> of \<open>m\<close> comes with \<open>Q a\<close> of the state reached
  and an exception \<open>e\<close> with \<open>E e\<close>.
\<close>

definition triple ::
  "('s \<Rightarrow> bool) \<Rightarrow> ('e, 's, 'a) comp \<Rightarrow> ('a \<Rightarrow> 's \<Rightarrow> bool) \<Rightarrow> ('e \<Rightarrow> 's \<Rightarrow> bool) \<Rightarrow> bool" where
  "triple P m Q E \<longleftrightarrow>
    (\<forall>s. P s \<longrightarrow> (case m s of (Inr a, s') \<Rightarrow> Q a s' | (Inl e, s') \<Rightarrow> E e s'))"

lemma tripleI:
  assumes "\<And>s a s'. P s \<Longrightarrow> m s = (Inr a, s') \<Longrightarrow> Q a s'"
    and "\<And>s e s'. P s \<Longrightarrow> m s = (Inl e, s') \<Longrightarrow> E e s'"
  shows "triple P m Q E"
  using assms by (auto simp: triple_def split: prod.splits sum.splits)

lemma triple_InrD: "triple P m Q E \<Longrightarrow> P s \<Longrightarrow> m s = (Inr a, s') \<Longrightarrow> Q a s'"
  by (fastforce simp: triple_def)

lemma triple_InlD: "triple P m Q E \<Longrightarrow> P s \<Longrightarrow> m s = (Inl e, s') \<Longrightarrow> E e s'"
  by (fastforce simp: triple_def)

lemma triple_ret: "(\<And>s. P s \<Longrightarrow> Q a s) \<Longrightarrow> triple P (ret a) Q E"
  by (simp add: triple_def ret_def)

lemma triple_throw: "(\<And>s. P s \<Longrightarrow> E e s) \<Longrightarrow> triple P (throw e) Q E"
  by (simp add: triple_def throw_def)

lemma triple_gets: "(\<And>s. P s \<Longrightarrow> Q (f s) s) \<Longrightarrow> triple P (gets f) Q E"
  by (simp add: triple_def)

lemma triple_modify: "(\<And>s. P s \<Longrightarrow> Q () (f s)) \<Longrightarrow> triple P (modify f) Q E"
  by (simp add: triple_def)

lemma triple_require:
  "(\<And>s. P s \<Longrightarrow> b \<Longrightarrow> Q () s) \<Longrightarrow> (\<And>s. P s \<Longrightarrow> \<not> b \<Longrightarrow> E e s) \<Longrightarrow> triple P (require b e) Q E"
  by (simp add: triple_def comp_simps)

lemma triple_lift_result:
  "(\<And>s a. P s \<Longrightarrow> r = Inr a \<Longrightarrow> Q a s) \<Longrightarrow> (\<And>s e. P s \<Longrightarrow> r = Inl e \<Longrightarrow> E e s) \<Longrightarrow>
    triple P (lift_result r) Q E"
  by (auto simp: triple_def lift_result_def split: sum.splits)

lemma triple_andthen:
  "triple P m Q' E \<Longrightarrow> (\<And>a. triple (Q' a) (k a) Q E) \<Longrightarrow> triple P (andthen m k) Q E"
  by (fastforce simp: triple_def andthen_def split: prod.splits sum.splits)

lemma triple_handle:
  "triple P m Q E' \<Longrightarrow> (\<And>e. triple (E' e) (h e) Q E) \<Longrightarrow> triple P (handle m h) Q E"
  by (fastforce simp: triple_def handle_def split: prod.splits sum.splits)

lemma triple_if:
  "(b \<Longrightarrow> triple P m Q E) \<Longrightarrow> (\<not> b \<Longrightarrow> triple P n Q E) \<Longrightarrow> triple P (if b then m else n) Q E"
  by simp

lemma triple_option:
  "(x = None \<Longrightarrow> triple P m Q E) \<Longrightarrow> (\<And>a. x = Some a \<Longrightarrow> triple P (k a) Q E) \<Longrightarrow>
    triple P (case x of None \<Rightarrow> m | Some a \<Rightarrow> k a) Q E"
  by (cases x) auto

lemma triple_split:
  "(\<And>a b. p = (a, b) \<Longrightarrow> triple P (k a b) Q E) \<Longrightarrow> triple P (case p of (a, b) \<Rightarrow> k a b) Q E"
  by (cases p) auto

lemma triple_weaken:
  "triple P m Q E \<Longrightarrow> (\<And>s. P' s \<Longrightarrow> P s) \<Longrightarrow> (\<And>a s. Q a s \<Longrightarrow> Q' a s) \<Longrightarrow> (\<And>e s. E e s \<Longrightarrow> E' e s)
    \<Longrightarrow> triple P' m Q' E'"
  by (rule tripleI) (blast dest: triple_InrD triple_InlD)+

lemma triple_pre: "(\<And>s. P s \<Longrightarrow> triple ((=) s) m Q E) \<Longrightarrow> triple P m Q E"
  by (auto simp: triple_def)

lemma keeps_triple: "keeps P m \<Longrightarrow> triple P m (\<lambda>_. P) (\<lambda>_. P)"
  by (rule tripleI) (auto dest: keeps_resultD)

lemma triple_result: "(\<And>s a s'. P s \<Longrightarrow> m s = (Inr a, s') \<Longrightarrow> Q a s') \<Longrightarrow> triple P m Q (\<lambda>_ _. True)"
  by (rule tripleI) auto

text \<open>A step whose exceptions do not matter.\<close>

lemma triple_seq:
  "keeps P m \<Longrightarrow> (\<And>a. triple P (k a) Q (\<lambda>_ _. True)) \<Longrightarrow> triple P (andthen m k) Q (\<lambda>_ _. True)"
  by (rule triple_andthen [where Q' = "\<lambda>_. P"], rule triple_weaken [OF keeps_triple]) auto

lemma triple_step:
  assumes "keeps P m" and "\<And>s. P s \<Longrightarrow> R s" and "\<And>a. triple P (k a) Q (\<lambda>_. R)"
  shows "triple P (andthen m k) Q (\<lambda>_. R)"
proof (rule triple_andthen [where Q' = "\<lambda>_. P"])
  show "triple P m (\<lambda>_. P) (\<lambda>_. R)"
    by (rule triple_weaken [OF keeps_triple [OF assms(1)]]) (use assms(2) in auto)
qed (rule assms(3))

lemma keeps_from_triple:
  assumes "triple P m (\<lambda>_. P) (\<lambda>_. P)"
  shows "keeps P m"
proof (rule keepsI)
  fix s
  assume "P s"
  obtain r s' where "m s = (r, s')" by (cases "m s")
  with \<open>P s\<close> assms show "P (snd (m s))"
    by (cases r) (auto dest: triple_InrD triple_InlD)
qed

lemmas triple_intros = triple_ret triple_throw triple_gets triple_modify triple_require
  triple_lift_result triple_if triple_option

text \<open>\<open>grows f c m\<close>: running \<open>m\<close> raises the counter \<open>f\<close> of the state by at most \<open>c\<close>.\<close>

definition grows :: "('s \<Rightarrow> nat) \<Rightarrow> nat \<Rightarrow> ('e, 's, 'a) comp \<Rightarrow> bool" where
  "grows f c m \<longleftrightarrow> (\<forall>s. f (snd (m s)) \<le> f s + c)"

lemma grows_ret: "grows f c (ret a)"
  by (simp add: grows_def ret_def)

lemma grows_throw: "grows f c (throw e)"
  by (simp add: grows_def throw_def)

lemma grows_gets: "grows f c (gets g)"
  by (simp add: grows_def)

lemma grows_lift_result: "grows f c (lift_result r)"
  by (simp add: grows_def lift_result_def)

lemma grows_if: "(b \<Longrightarrow> grows f c m) \<Longrightarrow> (\<not> b \<Longrightarrow> grows f c n) \<Longrightarrow> grows f c (if b then m else n)"
  by simp

lemma grows_option:
  "(x = None \<Longrightarrow> grows f c m) \<Longrightarrow> (\<And>a. x = Some a \<Longrightarrow> grows f c (k a)) \<Longrightarrow>
    grows f c (case x of None \<Rightarrow> m | Some a \<Rightarrow> k a)"
  by (cases x) auto

lemma grows_mono: "grows f b m \<Longrightarrow> b \<le> c \<Longrightarrow> grows f c m"
  unfolding grows_def by (meson add_left_mono le_trans)

lemma grows_andthen: "grows f b m \<Longrightarrow> (\<And>a. grows f c (k a)) \<Longrightarrow> grows f (b + c) (andthen m k)"
proof (unfold grows_def, intro allI)
  fix s
  assume m: "\<forall>s. f (snd (m s)) \<le> f s + b" and k: "\<And>a. \<forall>s. f (snd (k a s)) \<le> f s + c"
  obtain r s' where ms: "m s = (r, s')" by (cases "m s")
  have 1: "f s' \<le> f s + b" using m [rule_format, of s] ms by simp
  have 2: "f (snd (k a s')) \<le> f s + (b + c)" for a using k [rule_format, of a s'] 1 by linarith
  show "f (snd (andthen m k s)) \<le> f s + (b + c)"
    using 1 2 ms by (cases r) (auto simp: andthen_def)
qed

lemma grows_handle: "grows f b m \<Longrightarrow> (\<And>e. grows f c (h e)) \<Longrightarrow> grows f (b + c) (handle m h)"
proof (unfold grows_def, intro allI)
  fix s
  assume m: "\<forall>s. f (snd (m s)) \<le> f s + b" and k: "\<And>a. \<forall>s. f (snd (h a s)) \<le> f s + c"
  obtain r s' where ms: "m s = (r, s')" by (cases "m s")
  have 1: "f s' \<le> f s + b" using m [rule_format, of s] ms by simp
  have 2: "f (snd (h a s')) \<le> f s + (b + c)" for a using k [rule_format, of a s'] 1 by linarith
  show "f (snd (handle m h s)) \<le> f s + (b + c)"
    using 1 2 ms by (cases r) (auto simp: handle_def)
qed

lemma grows_andthen0:
  "grows f 0 m \<Longrightarrow> (\<And>a. grows f c (k a)) \<Longrightarrow> grows f c (andthen m k)"
  using grows_andthen [of f 0 m c k] by simp

lemmas grows_intros = grows_ret grows_throw grows_gets grows_lift_result grows_if grows_option

subsection \<open>Python's round\<close>

text \<open>\<open>round(x)\<close> rounds half to even; \<open>round(x, 4)\<close> keeps four decimals.\<close>

definition py_round :: "pyfloat \<Rightarrow> int" where
  "py_round x = (let f = \<lfloor>x\<rfloor>; d = x - of_int f in
     if d < 1 / 2 then f
     else if 1 / 2 < d then f + 1
     else if even f then f else f + 1)"

definition round_dp :: "nat \<Rightarrow> pyfloat \<Rightarrow> pyfloat" where
  "round_dp n x = of_int (py_round (x * 10 ^ n)) / 10 ^ n"

lemma py_round_of_int [simp]: "py_round (of_int i) = i"
  by (simp add: py_round_def)

lemma py_round_dist: "\<bar>of_int (py_round x) - x\<bar> \<le> 1 / 2"
  unfolding py_round_def Let_def by (auto simp: abs_le_iff)

lemma py_round_ge_floor: "\<lfloor>x\<rfloor> \<le> py_round x"
  by (simp add: py_round_def Let_def)

lemma py_round_lower: "of_int a \<le> x \<Longrightarrow> a \<le> py_round x"
  using py_round_ge_floor [of x] le_floor_iff [of a x] by linarith

lemma py_round_upper: "x \<le> of_int b \<Longrightarrow> py_round x \<le> b"
proof -
  assume x: "x \<le> of_int b"
  have le: "\<lfloor>x\<rfloor> \<le> b" using x by linarith
  show ?thesis
  proof (cases "\<lfloor>x\<rfloor> = b")
    case True
    with x have "x - of_int \<lfloor>x\<rfloor> < 1 / 2" by linarith
    with True show ?thesis by (simp add: py_round_def Let_def)
  next
    case False
    with le have "\<lfloor>x\<rfloor> + 1 \<le> b" by simp
    then show ?thesis by (simp add: py_round_def Let_def)
  qed
qed

lemma py_round_mono: "x \<le> y \<Longrightarrow> py_round x \<le> py_round y"
proof (cases "\<lfloor>x\<rfloor> = \<lfloor>y\<rfloor>")
  case True
  assume "x \<le> y"
  with True show ?thesis unfolding py_round_def Let_def by auto
next
  case False
  assume "x \<le> y"
  with False have "\<lfloor>x\<rfloor> + 1 \<le> \<lfloor>y\<rfloor>" using floor_mono [of x y] by linarith
  moreover have "py_round x \<le> \<lfloor>x\<rfloor> + 1" by (rule py_round_upper) linarith
  moreover have "\<lfloor>y\<rfloor> \<le> py_round y" by (rule py_round_lower) linarith
  ultimately show ?thesis by linarith
qed

lemma round_dp_lower: "of_int a / 10 ^ n \<le> x \<Longrightarrow> of_int a / 10 ^ n \<le> round_dp n x"
  unfolding round_dp_def
  by (intro divide_right_mono) (auto intro!: py_round_lower simp: divide_le_eq)

lemma round_dp_upper: "x \<le> of_int b / 10 ^ n \<Longrightarrow> round_dp n x \<le> of_int b / 10 ^ n"
  unfolding round_dp_def
  by (intro divide_right_mono) (auto intro!: py_round_upper simp: le_divide_eq)

lemma round_dp_nonneg: "0 \<le> x \<Longrightarrow> 0 \<le> round_dp n x"
  using round_dp_lower [of 0 n x] by simp

lemma round_dp_le_1: "x \<le> 1 \<Longrightarrow> round_dp n x \<le> 1"
  using round_dp_upper [of x "10 ^ n" n] by simp

lemma round_dp_mono: "x \<le> y \<Longrightarrow> round_dp n x \<le> round_dp n y"
  unfolding round_dp_def by (intro divide_right_mono) (auto intro!: py_round_mono mult_right_mono)

subsection \<open>Lists and dictionaries\<close>

text \<open>
  A Python dictionary is an association list in insertion order with distinct keys: \<open>map_of\<close>
  looks a key up (\<open>d.get(k)\<close>), \<open>AList.update\<close> assigns in place or appends (\<open>d[k] = v\<close>), and
  \<open>AList.delete\<close> removes (\<open>d.pop(k, None)\<close>).
\<close>

type_synonym ('k, 'v) dict = "('k \<times> 'v) list"

definition dict_get :: "('k, 'v) dict \<Rightarrow> 'k \<Rightarrow> 'v \<Rightarrow> 'v" where
  "dict_get d k dflt = (case map_of d k of None \<Rightarrow> dflt | Some v \<Rightarrow> v)"

text \<open>\<open>list(dict.fromkeys(xs))\<close>: the first occurrence of every element, in order.\<close>

definition fromkeys :: "'a list \<Rightarrow> 'a list" where
  "fromkeys xs = rev (remdups (rev xs))"

text \<open>The slice \<open>xs[-n:]\<close> for a positive \<open>n\<close>.\<close>

definition take_last :: "nat \<Rightarrow> 'a list \<Rightarrow> 'a list" where
  "take_last n xs = drop (length xs - n) xs"

text \<open>\<open>sum(f(x) for x in xs)\<close> over Python integers.\<close>

abbreviation sum_of :: "('a \<Rightarrow> 'b::monoid_add) \<Rightarrow> 'a list \<Rightarrow> 'b" where
  "sum_of f xs \<equiv> sum_list (map f xs)"

text \<open>A stable sort by descending key: \<open>sorted(xs, key=f, reverse=True)\<close>.\<close>

definition sort_desc :: "('a \<Rightarrow> pyfloat) \<Rightarrow> 'a list \<Rightarrow> 'a list" where
  "sort_desc f xs = sort_key (\<lambda>x. - f x) xs"

lemma set_fromkeys [simp]: "set (fromkeys xs) = set xs"
  by (simp add: fromkeys_def)

lemma distinct_fromkeys [simp]: "distinct (fromkeys xs)"
  by (simp add: fromkeys_def)

lemma fromkeys_Nil [simp]: "fromkeys [] = []"
  by (simp add: fromkeys_def)

lemma fromkeys_eq_Nil [simp]: "fromkeys xs = [] \<longleftrightarrow> xs = []"
  by (simp add: fromkeys_def)

lemma fromkeys_distinct: "distinct xs \<Longrightarrow> fromkeys xs = xs"
  by (simp add: fromkeys_def distinct_remdups_id)

lemma length_take_last [simp]: "length (take_last n xs) = min n (length xs)"
  by (simp add: take_last_def)

lemma set_take_last: "set (take_last n xs) \<subseteq> set xs"
  by (simp add: take_last_def set_drop_subset)

lemma last_take_last: "0 < n \<Longrightarrow> xs \<noteq> [] \<Longrightarrow> last (take_last n xs) = last xs"
  by (cases xs) (auto simp: take_last_def last_drop)

lemma take_last_all [simp]: "length xs \<le> n \<Longrightarrow> take_last n xs = xs"
  by (simp add: take_last_def)

lemma set_sort_desc [simp]: "set (sort_desc f xs) = set xs"
  by (simp add: sort_desc_def)

lemma distinct_sort_desc [simp]: "distinct (sort_desc f xs) = distinct xs"
  by (simp add: sort_desc_def)

lemma sorted_sort_desc: "sorted_wrt (\<lambda>x y. f y \<le> f x) (sort_desc f xs)"
proof -
  have "sorted (map (\<lambda>x. - f x) (sort_desc f xs))"
    by (simp add: sort_desc_def)
  then show ?thesis by (simp add: sorted_map)
qed

lemma sum_of_nonneg: "(\<And>x. x \<in> set xs \<Longrightarrow> (0::int) \<le> f x) \<Longrightarrow> 0 \<le> sum_of f xs"
  by (induction xs) auto

lemma sum_of_member_le:
  "(\<And>x. x \<in> set xs \<Longrightarrow> (0::int) \<le> f x) \<Longrightarrow> y \<in> set xs \<Longrightarrow> f y \<le> sum_of f xs"
proof (induction xs)
  case (Cons x xs)
  have "0 \<le> sum_of f xs" using Cons.prems(1) by (intro sum_of_nonneg) auto
  with Cons show ?case by (auto intro: order_trans)
qed simp

lemma update_fresh: "map_of d k = None \<Longrightarrow> AList.update k v d = d @ [(k, v)]"
  by (induction d) (auto split: if_splits)

lemma map_of_filter_key:
  "map_of (filter (\<lambda>kv. P (fst kv)) d) k = (if P k then map_of d k else None)"
  by (induction d) auto

subsection \<open>Tables\<close>

text \<open>
  A table is the list of its rows in insertion order. \<open>update_rows P f\<close> assigns fields of the
  rows that satisfy \<open>P\<close>; \<open>fresh_id\<close> is an identifier that no row has, as \<open>uuid4\<close> returns one.
\<close>

definition update_rows :: "('r \<Rightarrow> bool) \<Rightarrow> ('r \<Rightarrow> 'r) \<Rightarrow> 'r list \<Rightarrow> 'r list" where
  "update_rows P f rows = map (\<lambda>r. if P r then f r else r) rows"

definition fresh_id :: "uuid list \<Rightarrow> uuid" where
  "fresh_id ids = Suc (foldr max ids 0)"

lemma le_foldr_max: "i \<in> set ids \<Longrightarrow> i \<le> foldr max ids (0::nat)"
  by (induction ids) auto

lemma fresh_id_notin [simp]: "fresh_id ids \<notin> set ids"
  using le_foldr_max by (fastforce simp: fresh_id_def)

lemma fresh_id_notin_image [simp]: "fresh_id (map f xs) \<notin> f ` set xs"
  using fresh_id_notin [of "map f xs"] by simp

lemma length_update_rows [simp]: "length (update_rows P f rows) = length rows"
  by (simp add: update_rows_def)

lemma update_rows_Nil [simp]: "update_rows P f [] = []"
  by (simp add: update_rows_def)

lemma update_rows_Cons [simp]:
  "update_rows P f (r # rows) = (if P r then f r else r) # update_rows P f rows"
  by (simp add: update_rows_def)

lemma update_rows_append [simp]:
  "update_rows P f (xs @ ys) = update_rows P f xs @ update_rows P f ys"
  by (simp add: update_rows_def)

lemma map_update_rows:
  "(\<And>r. P r \<Longrightarrow> g (f r) = g r) \<Longrightarrow> map g (update_rows P f rows) = map g rows"
  by (simp add: update_rows_def)

lemma set_update_rowsE:
  assumes "r' \<in> set (update_rows P f rows)"
  obtains r where "r \<in> set rows" and "r' = (if P r then f r else r)"
  using assms by (auto simp: update_rows_def)

lemma update_rows_hit: "r \<in> set rows \<Longrightarrow> P r \<Longrightarrow> f r \<in> set (update_rows P f rows)"
  by (auto simp: update_rows_def)

lemma update_rows_miss: "r \<in> set rows \<Longrightarrow> \<not> P r \<Longrightarrow> r \<in> set (update_rows P f rows)"
  by (force simp: update_rows_def)

lemma update_rows_ident: "(\<And>r. r \<in> set rows \<Longrightarrow> \<not> P r) \<Longrightarrow> update_rows P f rows = rows"
  by (induction rows) auto

lemma find_update_rows:
  assumes "\<And>r. P r \<Longrightarrow> Q (f r) = Q r"
  shows "find Q (update_rows P f rows) = map_option (\<lambda>r. if P r then f r else r) (find Q rows)"
  using assms by (induction rows) auto

lemma find_update_rows_other:
  assumes "\<And>r. P r \<Longrightarrow> \<not> Q r" and "\<And>r. P r \<Longrightarrow> \<not> Q (f r)"
  shows "find Q (update_rows P f rows) = find Q rows"
  using assms by (induction rows) auto

lemma find_append: "find Q (xs @ ys) = (case find Q xs of None \<Rightarrow> find Q ys | Some r \<Rightarrow> Some r)"
  by (induction xs) auto

lemma find_SomeD: "find Q xs = Some r \<Longrightarrow> r \<in> set xs \<and> Q r"
  by (induction xs) (auto split: if_splits)

lemma find_None: "find Q xs = None \<longleftrightarrow> (\<forall>r \<in> set xs. \<not> Q r)"
  by (induction xs) auto

lemmas table_lemmas = find_update_rows find_update_rows_other find_append map_update_rows

subsection \<open>Strings\<close>

text \<open>\<open>s.startswith(p)\<close>.\<close>

fun startswith :: "string \<Rightarrow> string \<Rightarrow> bool" where
  "startswith s [] = True"
| "startswith [] (p # ps) = False"
| "startswith (c # cs) (p # ps) = (c = p \<and> startswith cs ps)"

text \<open>The truth value of a nullable string: \<open>None\<close> and the empty string are false.\<close>

definition str_truthy :: "string option \<Rightarrow> bool" where
  "str_truthy s = (case s of None \<Rightarrow> False | Some t \<Rightarrow> t \<noteq> [])"

lemma startswith_append: "startswith (p @ s) p"
  by (induction p) auto

lemma str_truthy_simps [simp]:
  "str_truthy None = False" "str_truthy (Some t) = (t \<noteq> [])"
  by (simp_all add: str_truthy_def)

end
