(* ===== verification/Enums.thy ===== *)
theory Enums
  imports Prelude
begin

text \<open>
  The enumerations of \<^verbatim>\<open>app/domain/enums.py\<close> that the modelled code branches on. A constructor is the
  Python member with a prefix that names its class, since members such as \<open>PENDING\<close> occur in
  several classes. \<open>Difficulty\<close> is ordered by its position in the class, as
  \<open>list(Difficulty).index\<close> orders it.
\<close>

datatype (plugins only: code size) user_status = User_ACTIVE | User_DELETION_PENDING | User_DISABLED

datatype (plugins only: code size) user_role = Role_STUDENT | Role_REVIEWER | Role_ADMIN

datatype (plugins only: code size) student_stage =
  Stage_FOUNDATION | Stage_STRENGTHEN | Stage_TRUE_EXAM | Stage_MOCK_EXAM | Stage_SPRINT

datatype (plugins only: code size) difficulty = Diff_BASIC | Diff_MEDIUM | Diff_COMPREHENSIVE | Diff_TRUE_EXAM

datatype (plugins only: code size) source_type =
  Source_TRUE_EXAM | Source_TEXTBOOK | Source_HANDOUT | Source_USER_UPLOAD | Source_GENERATED
  | Source_WRONG_QUESTION | Source_DEMO

datatype (plugins only: code size) question_quality =
  Quality_DRAFT | Quality_VALIDATING | Quality_REVIEW_REQUIRED | Quality_VALID | Quality_REJECTED

datatype (plugins only: code size) task_type =
  TT_COURSE_LEARNING | TT_HANDOUT_PRACTICE | TT_ERROR_REVIEW | TT_KNOWLEDGE_SUMMARY
  | TT_CHAPTER_TRUE_EXAM | TT_FULL_TRUE_EXAM | TT_SPECIALIZED_PRACTICE | TT_THEORY_REVIEW
  | TT_BASIC_QUESTION | TT_MEDIUM_QUESTION | TT_COMPREHENSIVE_QUESTION | TT_TRUE_EXAM_QUESTION
  | TT_WRONG_QUESTION_REVIEW | TT_MOCK_EXAM

datatype (plugins only: code size) task_origin = Origin_SYSTEM | Origin_STUDENT | Origin_AGENT | Origin_LEGACY

datatype (plugins only: code size) change_actor = Actor_SYSTEM | Actor_STUDENT | Actor_AGENT

datatype (plugins only: code size) knowledge_learning_status =
  Learn_NOT_STARTED | Learn_LEARNING | Learn_STRENGTHENING | Learn_STRENGTHENED

datatype (plugins only: code size) resource_type = Res_COURSE | Res_HANDOUT | Res_OTHER

datatype (plugins only: code size) resource_status =
  ResStatus_DRAFT | ResStatus_PROCESSING | ResStatus_REVIEW_REQUIRED | ResStatus_PUBLISHED
  | ResStatus_REJECTED

datatype (plugins only: code size) resource_import_status =
  Import_QUEUED | Import_PARSING | Import_MAPPING | Import_REVIEW_REQUIRED | Import_SUCCEEDED
  | Import_FAILED

datatype (plugins only: code size) target_school_change_status = Change_PREVIEW | Change_APPLIED | Change_EXPIRED

datatype (plugins only: code size) plan_status =
  Plan_DRAFT | Plan_ACTIVE | Plan_SUPERSEDED | Plan_COMPLETED | Plan_CANCELLED

datatype (plugins only: code size) task_status =
  Task_PENDING | Task_IN_PROGRESS | Task_COMPLETED | Task_SKIPPED | Task_SUPERSEDED
  | Task_SUPERSEDED_LEGACY

datatype (plugins only: code size) attempt_context = Ctx_PRACTICE | Ctx_TRUE_EXAM | Ctx_MOCK_EXAM

datatype (plugins only: code size) job_status =
  Job_QUEUED | Job_RUNNING | Job_RETRY_WAIT | Job_SUCCEEDED | Job_FAILED | Job_DEAD_LETTER
  | Job_CANCELLED | Job_WAITING_FOR_REVIEW

datatype (plugins only: code size) agent_run_status =
  Run_PENDING | Run_RUNNING | Run_COMPLETED | Run_FAILED | Run_STALLED | Run_CANCEL_REQUESTED
  | Run_CANCELLED

datatype (plugins only: code size) proposal_type =
  PT_MASTERY_UPDATE | PT_ERROR_PROFILE_UPDATE | PT_MINOR_ADJUST | PT_MAJOR_REPLAN
  | PT_STAGE_TRANSITION | PT_MOCK_STRATEGY

datatype (plugins only: code size) proposal_status =
  Prop_PENDING | Prop_AUTO_COMMITTED | Prop_AWAITING_CONFIRMATION | Prop_APPROVED | Prop_APPLYING
  | Prop_APPLIED | Prop_APPLY_FAILED | Prop_REJECTED | Prop_EXPIRED

datatype (plugins only: code size) exam_status =
  Exam_DRAFT | Exam_WAITING_FOR_REVIEW | Exam_PUBLISHED | Exam_IN_PROGRESS | Exam_COMPLETED

datatype (plugins only: code size) mock_exam_type = Mock_SPECIALIZED | Mock_FULL

datatype (plugins only: code size) error_type =
  Err_CONCEPT | Err_FORMULA | Err_MODELING | Err_CALCULATION | Err_PROCEDURE | Err_PREREQUISITE
  | Err_READING | Err_CARELESS | Err_TIME_PRESSURE | Err_UNKNOWN

text \<open>The position of a difficulty in its class, and the order it gives.\<close>

fun difficulty_index :: "difficulty \<Rightarrow> nat" where
  "difficulty_index Diff_BASIC = 0"
| "difficulty_index Diff_MEDIUM = 1"
| "difficulty_index Diff_COMPREHENSIVE = 2"
| "difficulty_index Diff_TRUE_EXAM = 3"

lemma difficulty_index_inj: "difficulty_index d = difficulty_index e \<Longrightarrow> d = e"
  by (cases d; cases e) auto

instantiation difficulty :: linorder
begin

definition less_eq_difficulty :: "difficulty \<Rightarrow> difficulty \<Rightarrow> bool" where
  "less_eq_difficulty d e \<longleftrightarrow> difficulty_index d \<le> difficulty_index e"

definition less_difficulty :: "difficulty \<Rightarrow> difficulty \<Rightarrow> bool" where
  "less_difficulty d e \<longleftrightarrow> difficulty_index d < difficulty_index e"

instance
  by intro_classes
    (auto simp: less_eq_difficulty_def less_difficulty_def intro: difficulty_index_inj)

end

text \<open>The member values that the code writes as strings.\<close>

fun difficulty_value :: "difficulty \<Rightarrow> string" where
  "difficulty_value Diff_BASIC = ''BASIC''"
| "difficulty_value Diff_MEDIUM = ''MEDIUM''"
| "difficulty_value Diff_COMPREHENSIVE = ''COMPREHENSIVE''"
| "difficulty_value Diff_TRUE_EXAM = ''TRUE_EXAM''"

fun task_type_value :: "task_type \<Rightarrow> string" where
  "task_type_value TT_COURSE_LEARNING = ''COURSE_LEARNING''"
| "task_type_value TT_HANDOUT_PRACTICE = ''HANDOUT_PRACTICE''"
| "task_type_value TT_ERROR_REVIEW = ''ERROR_REVIEW''"
| "task_type_value TT_KNOWLEDGE_SUMMARY = ''KNOWLEDGE_SUMMARY''"
| "task_type_value TT_CHAPTER_TRUE_EXAM = ''CHAPTER_TRUE_EXAM''"
| "task_type_value TT_FULL_TRUE_EXAM = ''FULL_TRUE_EXAM''"
| "task_type_value TT_SPECIALIZED_PRACTICE = ''SPECIALIZED_PRACTICE''"
| "task_type_value TT_THEORY_REVIEW = ''THEORY_REVIEW''"
| "task_type_value TT_BASIC_QUESTION = ''BASIC_QUESTION''"
| "task_type_value TT_MEDIUM_QUESTION = ''MEDIUM_QUESTION''"
| "task_type_value TT_COMPREHENSIVE_QUESTION = ''COMPREHENSIVE_QUESTION''"
| "task_type_value TT_TRUE_EXAM_QUESTION = ''TRUE_EXAM_QUESTION''"
| "task_type_value TT_WRONG_QUESTION_REVIEW = ''WRONG_QUESTION_REVIEW''"
| "task_type_value TT_MOCK_EXAM = ''MOCK_EXAM''"

fun proposal_type_value :: "proposal_type \<Rightarrow> string" where
  "proposal_type_value PT_MASTERY_UPDATE = ''MASTERY_UPDATE''"
| "proposal_type_value PT_ERROR_PROFILE_UPDATE = ''ERROR_PROFILE_UPDATE''"
| "proposal_type_value PT_MINOR_ADJUST = ''MINOR_ADJUST''"
| "proposal_type_value PT_MAJOR_REPLAN = ''MAJOR_REPLAN''"
| "proposal_type_value PT_STAGE_TRANSITION = ''STAGE_TRANSITION''"
| "proposal_type_value PT_MOCK_STRATEGY = ''MOCK_STRATEGY''"

fun proposal_status_value :: "proposal_status \<Rightarrow> string" where
  "proposal_status_value Prop_PENDING = ''PENDING''"
| "proposal_status_value Prop_AUTO_COMMITTED = ''AUTO_COMMITTED''"
| "proposal_status_value Prop_AWAITING_CONFIRMATION = ''AWAITING_CONFIRMATION''"
| "proposal_status_value Prop_APPROVED = ''APPROVED''"
| "proposal_status_value Prop_APPLYING = ''APPLYING''"
| "proposal_status_value Prop_APPLIED = ''APPLIED''"
| "proposal_status_value Prop_APPLY_FAILED = ''APPLY_FAILED''"
| "proposal_status_value Prop_REJECTED = ''REJECTED''"
| "proposal_status_value Prop_EXPIRED = ''EXPIRED''"

fun task_status_value :: "task_status \<Rightarrow> string" where
  "task_status_value Task_PENDING = ''PENDING''"
| "task_status_value Task_IN_PROGRESS = ''IN_PROGRESS''"
| "task_status_value Task_COMPLETED = ''COMPLETED''"
| "task_status_value Task_SKIPPED = ''SKIPPED''"
| "task_status_value Task_SUPERSEDED = ''SUPERSEDED''"
| "task_status_value Task_SUPERSEDED_LEGACY = ''SUPERSEDED_LEGACY''"

fun exam_status_value :: "exam_status \<Rightarrow> string" where
  "exam_status_value Exam_DRAFT = ''DRAFT''"
| "exam_status_value Exam_WAITING_FOR_REVIEW = ''WAITING_FOR_REVIEW''"
| "exam_status_value Exam_PUBLISHED = ''PUBLISHED''"
| "exam_status_value Exam_IN_PROGRESS = ''IN_PROGRESS''"
| "exam_status_value Exam_COMPLETED = ''COMPLETED''"

end
