(* ===== verification/Harness_Contracts.thy ===== *)
theory Harness_Contracts
  imports Enums "HOL-Library.List_Lexorder" "HOL-Library.Char_ord" "HOL-Library.Multiset"
begin

text \<open>
  The data types of the agent harness: JSON values, the records of
  \<^verbatim>\<open>app/harness/contracts.py\<close> and the exceptions of \<^verbatim>\<open>app/harness/errors.py\<close>.

  An exception is a value of \<open>exn\<close>; \<open>exn_code\<close> and \<open>exn_reason\<close> are its \<open>code\<close> and
  \<open>termination_reason\<close> attributes, and \<open>is_tool_error\<close>, \<open>is_tool_transient\<close> and
  \<open>is_harness_error\<close> are the \<open>isinstance\<close> tests of the code. \<open>PyExc\<close> is any exception class
  outside the hierarchy, by its name.
\<close>

subsection \<open>JSON values\<close>

datatype json =
  JNull
| JBool bool
| JInt int
| JFloat pyfloat
| JStr string
| JList "json list"
| JObj "(string \<times> json) list"

type_synonym jobj = "(string, json) dict"

text \<open>
  \<open>json.dumps(value, sort_keys=True)\<close> orders the keys of every object: two values with the same
  canonical form have the same serialization.
\<close>

primrec canon_json :: "json \<Rightarrow> json" where
  "canon_json JNull = JNull"
| "canon_json (JBool b) = JBool b"
| "canon_json (JInt i) = JInt i"
| "canon_json (JFloat x) = JFloat x"
| "canon_json (JStr s) = JStr s"
| "canon_json (JList xs) = JList (map canon_json xs)"
| "canon_json (JObj d) = JObj (sort_key fst (map (map_prod id canon_json) d))"

text \<open>\<open>bool(x)\<close> of a decoded value.\<close>

fun json_truthy :: "json \<Rightarrow> bool" where
  "json_truthy JNull = False"
| "json_truthy (JBool b) = b"
| "json_truthy (JInt i) = (i \<noteq> 0)"
| "json_truthy (JFloat x) = (x \<noteq> 0)"
| "json_truthy (JStr s) = (s \<noteq> [])"
| "json_truthy (JList xs) = (xs \<noteq> [])"
| "json_truthy (JObj d) = (d \<noteq> [])"

text \<open>
  The canonical form does not depend on the order in which an object's keys were inserted:
  sorting by distinct keys has one result.
\<close>

lemma sorted_distinct_mset_eq:
  assumes "mset xs = mset ys" and "sorted (map f xs)" and "sorted (map f ys)"
    and "distinct (map f xs)"
  shows "xs = ys"
  using assms
proof (induction xs arbitrary: ys)
  case (Cons x xs)
  then obtain y ys' where ys: "ys = y # ys'" by (cases ys) auto
  have "y \<in> set (x # xs)" using Cons.prems(1) ys by (metis list.set_intros(1) mset_eq_setD)
  moreover have "x \<in> set (y # ys')" using Cons.prems(1) ys by (metis list.set_intros(1) mset_eq_setD)
  ultimately have "f x \<le> f y" "f y \<le> f x" using Cons.prems(2,3) ys by auto
  then have "f x = f y" by simp
  then have xy: "x = y" using \<open>y \<in> set (x # xs)\<close> Cons.prems(4) by (auto simp: image_iff)
  have "xs = ys'" using Cons.prems ys xy by (intro Cons.IH) auto
  with xy ys show ?case by simp
qed simp

lemma sort_key_canonical:
  assumes "mset xs = mset ys" and "distinct (map f xs)"
  shows "sort_key f xs = sort_key f ys"
  by (rule sorted_distinct_mset_eq [where f = f])
    (use assms in \<open>auto simp: distinct_map dest: inj_on_subset\<close>)

lemma canon_json_key_order:
  assumes "mset d = mset d'" and "distinct (map fst d)"
  shows "canon_json (JObj d) = canon_json (JObj d')"
proof -
  let ?f = "map_prod id canon_json"
  have m: "mset (map ?f d) = mset (map ?f d')"
    using assms(1) by simp
  have "distinct (map fst (map ?f d))"
    using assms(2) by (simp add: comp_def)
  then have "sort_key fst (map ?f d) = sort_key fst (map ?f d')"
    by (rule sort_key_canonical [OF m])
  then show ?thesis by simp
qed

subsection \<open>Contracts\<close>

datatype (plugins only: code size) termination_reason =
  TR_COMPLETED | TR_INVALID_ACTION | TR_STRUCTURED_OUTPUT_ERROR | TR_UNKNOWN_TOOL
| TR_TOOL_VALIDATION_FAILED | TR_TOOL_PERMISSION_DENIED | TR_TOOL_FAILED | TR_TOOL_OUTCOME_UNKNOWN
| TR_CHECKPOINT_INVALID | TR_STEP_BUDGET_EXCEEDED | TR_TOOL_BUDGET_EXCEEDED
| TR_TOKEN_BUDGET_EXCEEDED | TR_MODEL_CALL_BUDGET_EXCEEDED | TR_REPAIR_BUDGET_EXCEEDED
| TR_TIME_BUDGET_EXCEEDED | TR_LOOP_STALLED | TR_MODEL_UNAVAILABLE | TR_CANCELLED
| TR_STALE_WORKER | TR_INTERNAL_ERROR

fun tr_value :: "termination_reason \<Rightarrow> string" where
  "tr_value TR_COMPLETED = ''COMPLETED''"
| "tr_value TR_INVALID_ACTION = ''INVALID_ACTION''"
| "tr_value TR_STRUCTURED_OUTPUT_ERROR = ''STRUCTURED_OUTPUT_ERROR''"
| "tr_value TR_UNKNOWN_TOOL = ''UNKNOWN_TOOL''"
| "tr_value TR_TOOL_VALIDATION_FAILED = ''TOOL_VALIDATION_FAILED''"
| "tr_value TR_TOOL_PERMISSION_DENIED = ''TOOL_PERMISSION_DENIED''"
| "tr_value TR_TOOL_FAILED = ''TOOL_FAILED''"
| "tr_value TR_TOOL_OUTCOME_UNKNOWN = ''TOOL_OUTCOME_UNKNOWN''"
| "tr_value TR_CHECKPOINT_INVALID = ''CHECKPOINT_INVALID''"
| "tr_value TR_STEP_BUDGET_EXCEEDED = ''STEP_BUDGET_EXCEEDED''"
| "tr_value TR_TOOL_BUDGET_EXCEEDED = ''TOOL_BUDGET_EXCEEDED''"
| "tr_value TR_TOKEN_BUDGET_EXCEEDED = ''TOKEN_BUDGET_EXCEEDED''"
| "tr_value TR_MODEL_CALL_BUDGET_EXCEEDED = ''MODEL_CALL_BUDGET_EXCEEDED''"
| "tr_value TR_REPAIR_BUDGET_EXCEEDED = ''REPAIR_BUDGET_EXCEEDED''"
| "tr_value TR_TIME_BUDGET_EXCEEDED = ''TIME_BUDGET_EXCEEDED''"
| "tr_value TR_LOOP_STALLED = ''LOOP_STALLED''"
| "tr_value TR_MODEL_UNAVAILABLE = ''MODEL_UNAVAILABLE''"
| "tr_value TR_CANCELLED = ''CANCELLED''"
| "tr_value TR_STALE_WORKER = ''STALE_WORKER''"
| "tr_value TR_INTERNAL_ERROR = ''INTERNAL_ERROR''"

definition all_termination_reasons :: "termination_reason list" where
  "all_termination_reasons =
    [TR_COMPLETED, TR_INVALID_ACTION, TR_STRUCTURED_OUTPUT_ERROR, TR_UNKNOWN_TOOL,
     TR_TOOL_VALIDATION_FAILED, TR_TOOL_PERMISSION_DENIED, TR_TOOL_FAILED, TR_TOOL_OUTCOME_UNKNOWN,
     TR_CHECKPOINT_INVALID, TR_STEP_BUDGET_EXCEEDED, TR_TOOL_BUDGET_EXCEEDED,
     TR_TOKEN_BUDGET_EXCEEDED, TR_MODEL_CALL_BUDGET_EXCEEDED, TR_REPAIR_BUDGET_EXCEEDED,
     TR_TIME_BUDGET_EXCEEDED, TR_LOOP_STALLED, TR_MODEL_UNAVAILABLE, TR_CANCELLED,
     TR_STALE_WORKER, TR_INTERNAL_ERROR]"

text \<open>\<open>TerminationReason(value)\<close>.\<close>

definition tr_of_value :: "string \<Rightarrow> termination_reason option" where
  "tr_of_value s = find (\<lambda>r. tr_value r = s) all_termination_reasons"

lemma tr_of_value_roundtrip [simp]: "tr_of_value (tr_value r) = Some r"
  by (cases r) (simp_all add: tr_of_value_def all_termination_reasons_def)

datatype (plugins only: code size) stall_reason = REPEATED_ACTION | NO_NEW_EVIDENCE | ACTION_OSCILLATION

fun stall_value :: "stall_reason \<Rightarrow> string" where
  "stall_value REPEATED_ACTION = ''REPEATED_ACTION''"
| "stall_value NO_NEW_EVIDENCE = ''NO_NEW_EVIDENCE''"
| "stall_value ACTION_OSCILLATION = ''ACTION_OSCILLATION''"

definition stall_of_value :: "string \<Rightarrow> stall_reason option" where
  "stall_of_value s =
    find (\<lambda>r. stall_value r = s) [REPEATED_ACTION, NO_NEW_EVIDENCE, ACTION_OSCILLATION]"

lemma stall_of_value_roundtrip [simp]: "stall_of_value (stall_value r) = Some r"
  by (cases r) (simp_all add: stall_of_value_def)

datatype (plugins only: code size) runtime_phase = READY | TOOL_PENDING | FINAL_PENDING | TERMINATED

fun phase_value :: "runtime_phase \<Rightarrow> string" where
  "phase_value READY = ''READY''"
| "phase_value TOOL_PENDING = ''TOOL_PENDING''"
| "phase_value FINAL_PENDING = ''FINAL_PENDING''"
| "phase_value TERMINATED = ''TERMINATED''"

definition phase_of_value :: "string \<Rightarrow> runtime_phase option" where
  "phase_of_value s = find (\<lambda>p. phase_value p = s) [READY, TOOL_PENDING, FINAL_PENDING, TERMINATED]"

lemma phase_of_value_roundtrip [simp]: "phase_of_value (phase_value p) = Some p"
  by (cases p) (simp_all add: phase_of_value_def)

record tool_call =
  tc_name :: string
  tc_arguments :: jobj
  tc_idempotency_key :: "string option"

record model_action =
  ma_decision :: "string option"
  ma_confidence :: pyfloat
  ma_reason_codes :: "string list"
  ma_tool_call :: "tool_call option"
  ma_finish :: bool

text \<open>The dataclass defaults: \<open>ModelAction()\<close>.\<close>

definition default_action :: model_action where
  "default_action = \<lparr>ma_decision = None, ma_confidence = 0, ma_reason_codes = [],
     ma_tool_call = None, ma_finish = False\<rparr>"

record model_attempt =
  at_model_name :: string
  at_purpose :: string
  at_status :: string
  at_input_tokens :: int
  at_output_tokens :: int
  at_latency_ms :: int
  at_error_code :: "string option"

record model_result =
  mr_action :: model_action
  mr_model_name :: string
  mr_input_tokens :: int
  mr_output_tokens :: int
  mr_latency_ms :: int
  mr_attempts :: "model_attempt list"
  mr_repair_calls :: int
  mr_error_code :: "string option"

text \<open>The property \<open>model_call_count\<close>: \<open>len(self.attempts) or 1\<close>.\<close>

definition mr_model_call_count :: "model_result \<Rightarrow> int" where
  "mr_model_call_count r = (if mr_attempts r = [] then 1 else int (length (mr_attempts r)))"

record runtime_state =
  run_id :: string
  student_id :: string
  goal :: string
  user_id :: "string option"
  roles :: "string list"
  loop_count :: int
  model_call_count :: int
  tool_call_count :: int
  input_tokens :: int
  output_tokens :: int
  repair_call_count :: int
  model_call_limit :: int
  repair_call_limit :: int
  started_at :: time
  observations :: "jobj list"
  last_action_fingerprints :: "string list"
  last_observation_fingerprints :: "string list"
  checkpoint_version :: int
  fencing_token :: int
  resumed :: bool
  phase :: runtime_phase
  pending_tool_call :: "tool_call option"
  pending_step_id :: "string option"
  final_action :: "model_action option"
  stall_reason_of :: "stall_reason option"
  termination_reason_of :: "termination_reason option"
  last_error_code :: "string option"

text \<open>The dataclass defaults: \<open>RuntimeState(run_id, student_id, goal)\<close> built at time \<open>now\<close>.\<close>

definition new_runtime_state :: "string \<Rightarrow> string \<Rightarrow> string \<Rightarrow> time \<Rightarrow> runtime_state" where
  "new_runtime_state rid sid g now =
    \<lparr>run_id = rid, student_id = sid, goal = g, user_id = None, roles = [], loop_count = 0,
     model_call_count = 0, tool_call_count = 0, input_tokens = 0, output_tokens = 0,
     repair_call_count = 0, model_call_limit = 10, repair_call_limit = 1, started_at = now,
     observations = [], last_action_fingerprints = [], last_observation_fingerprints = [],
     checkpoint_version = 2, fencing_token = 0, resumed = False, phase = READY,
     pending_tool_call = None, pending_step_id = None, final_action = None,
     stall_reason_of = None, termination_reason_of = None, last_error_code = None\<rparr>"

definition total_tokens :: "runtime_state \<Rightarrow> int" where
  "total_tokens st = input_tokens st + output_tokens st"

definition remaining_model_calls :: "runtime_state \<Rightarrow> int" where
  "remaining_model_calls st = max 0 (model_call_limit st - model_call_count st)"

definition remaining_repair_calls :: "runtime_state \<Rightarrow> int" where
  "remaining_repair_calls st = max 0 (repair_call_limit st - repair_call_count st)"

record tool_execution_result =
  ter_observation :: jobj
  ter_retry_count :: int
  ter_replayed :: bool

subsection \<open>Exceptions\<close>

datatype (plugins only: code size) exn =
  ToolErr
| ToolValidationErr
| UnknownToolErr
| ToolPermissionErr "string option" \<comment> \<open>the \<open>reason_code\<close> of the detail, when it has one\<close>
| ToolBusinessErr
| ToolTransientErr
| ToolRateLimitErr
| ToolTimeoutErr
| ToolUpstreamErr
| ToolOutcomeUnknownErr
| StructuredOutputErr "model_attempt list"
| BudgetExceededErr termination_reason
| ModelUnavailableErr "model_attempt list"
| RunCancelledErr
| StaleWorkerErr
| LeaseUnavailableErr
| CheckpointValidationErr
| AgentRunExecutionErr termination_reason "string option"
| AppErr int string \<comment> \<open>HTTP status and code\<close>
| HttpStatusErr int \<comment> \<open>\<open>httpx.HTTPStatusError\<close> with the response's status\<close>
| PyExc string

fun is_tool_transient :: "exn \<Rightarrow> bool" where
  "is_tool_transient ToolTransientErr = True"
| "is_tool_transient ToolRateLimitErr = True"
| "is_tool_transient ToolTimeoutErr = True"
| "is_tool_transient ToolUpstreamErr = True"
| "is_tool_transient _ = False"

fun is_tool_error :: "exn \<Rightarrow> bool" where
  "is_tool_error ToolErr = True"
| "is_tool_error ToolValidationErr = True"
| "is_tool_error UnknownToolErr = True"
| "is_tool_error (ToolPermissionErr _) = True"
| "is_tool_error ToolBusinessErr = True"
| "is_tool_error ToolOutcomeUnknownErr = True"
| "is_tool_error e = is_tool_transient e"

fun is_harness_error :: "exn \<Rightarrow> bool" where
  "is_harness_error (AppErr _ _) = False"
| "is_harness_error (HttpStatusErr _) = False"
| "is_harness_error (PyExc _) = False"
| "is_harness_error _ = True"

fun exn_code :: "exn \<Rightarrow> string" where
  "exn_code ToolErr = ''TOOL_ERROR''"
| "exn_code ToolValidationErr = ''TOOL_VALIDATION_FAILED''"
| "exn_code UnknownToolErr = ''UNKNOWN_TOOL''"
| "exn_code (ToolPermissionErr _) = ''TOOL_PERMISSION_DENIED''"
| "exn_code ToolBusinessErr = ''TOOL_BUSINESS_ERROR''"
| "exn_code ToolTransientErr = ''TOOL_TRANSIENT_ERROR''"
| "exn_code ToolRateLimitErr = ''TOOL_RATE_LIMITED''"
| "exn_code ToolTimeoutErr = ''TOOL_TIMEOUT''"
| "exn_code ToolUpstreamErr = ''TOOL_UPSTREAM_ERROR''"
| "exn_code ToolOutcomeUnknownErr = ''TOOL_OUTCOME_UNKNOWN''"
| "exn_code (StructuredOutputErr _) = ''STRUCTURED_OUTPUT_ERROR''"
| "exn_code (BudgetExceededErr r) = tr_value r"
| "exn_code (ModelUnavailableErr _) = ''MODEL_UNAVAILABLE''"
| "exn_code RunCancelledErr = ''RUN_CANCELLED''"
| "exn_code StaleWorkerErr = ''STALE_WORKER''"
| "exn_code LeaseUnavailableErr = ''LEASE_UNAVAILABLE''"
| "exn_code CheckpointValidationErr = ''CHECKPOINT_INVALID''"
| "exn_code (AgentRunExecutionErr _ _) = ''AGENT_RUN_FAILED''"
| "exn_code (AppErr _ c) = c"
| "exn_code (HttpStatusErr _) = ''HTTPStatusError''"
| "exn_code (PyExc n) = n"

fun exn_reason :: "exn \<Rightarrow> termination_reason" where
  "exn_reason ToolValidationErr = TR_TOOL_VALIDATION_FAILED"
| "exn_reason UnknownToolErr = TR_UNKNOWN_TOOL"
| "exn_reason (ToolPermissionErr _) = TR_TOOL_PERMISSION_DENIED"
| "exn_reason ToolBusinessErr = TR_TOOL_FAILED"
| "exn_reason ToolTransientErr = TR_TOOL_FAILED"
| "exn_reason ToolRateLimitErr = TR_TOOL_FAILED"
| "exn_reason ToolTimeoutErr = TR_TOOL_FAILED"
| "exn_reason ToolUpstreamErr = TR_TOOL_FAILED"
| "exn_reason ToolOutcomeUnknownErr = TR_TOOL_OUTCOME_UNKNOWN"
| "exn_reason (StructuredOutputErr _) = TR_STRUCTURED_OUTPUT_ERROR"
| "exn_reason (BudgetExceededErr r) = r"
| "exn_reason (ModelUnavailableErr _) = TR_MODEL_UNAVAILABLE"
| "exn_reason RunCancelledErr = TR_CANCELLED"
| "exn_reason StaleWorkerErr = TR_STALE_WORKER"
| "exn_reason LeaseUnavailableErr = TR_STALE_WORKER"
| "exn_reason CheckpointValidationErr = TR_CHECKPOINT_INVALID"
| "exn_reason (AgentRunExecutionErr r _) = r"
| "exn_reason _ = TR_INTERNAL_ERROR"

text \<open>The name of an exception's class, \<open>type(exc).__name__\<close>.\<close>

fun exn_class_name :: "exn \<Rightarrow> string" where
  "exn_class_name ToolErr = ''ToolError''"
| "exn_class_name ToolValidationErr = ''ToolValidationError''"
| "exn_class_name UnknownToolErr = ''UnknownToolError''"
| "exn_class_name (ToolPermissionErr _) = ''ToolPermissionError''"
| "exn_class_name ToolBusinessErr = ''ToolBusinessError''"
| "exn_class_name ToolTransientErr = ''ToolTransientError''"
| "exn_class_name ToolRateLimitErr = ''ToolRateLimitError''"
| "exn_class_name ToolTimeoutErr = ''ToolTimeoutError''"
| "exn_class_name ToolUpstreamErr = ''ToolUpstreamError''"
| "exn_class_name ToolOutcomeUnknownErr = ''ToolOutcomeUnknownError''"
| "exn_class_name (StructuredOutputErr _) = ''StructuredOutputError''"
| "exn_class_name (BudgetExceededErr _) = ''BudgetExceededError''"
| "exn_class_name (ModelUnavailableErr _) = ''ModelUnavailableError''"
| "exn_class_name RunCancelledErr = ''RunCancelledError''"
| "exn_class_name StaleWorkerErr = ''StaleWorkerError''"
| "exn_class_name LeaseUnavailableErr = ''LeaseUnavailableError''"
| "exn_class_name CheckpointValidationErr = ''CheckpointValidationError''"
| "exn_class_name (AgentRunExecutionErr _ _) = ''AgentRunExecutionError''"
| "exn_class_name (AppErr _ _) = ''AppError''"
| "exn_class_name (HttpStatusErr _) = ''HTTPStatusError''"
| "exn_class_name (PyExc n) = n"

lemma tool_transient_is_tool_error: "is_tool_transient e \<Longrightarrow> is_tool_error e"
  by (cases e) auto

lemma tool_error_is_harness_error: "is_tool_error e \<Longrightarrow> is_harness_error e"
  by (cases e) auto

lemma total_tokens_simps [simp]:
  "total_tokens (st\<lparr>phase := p\<rparr>) = total_tokens st"
  "total_tokens (st\<lparr>termination_reason_of := r\<rparr>) = total_tokens st"
  "total_tokens (st\<lparr>last_error_code := c\<rparr>) = total_tokens st"
  by (simp_all add: total_tokens_def)

end
