(* ===== verification/Harness_Budget.thy ===== *)
theory Harness_Budget
  imports Harness_Contracts
begin

text \<open>
  The run budget of \<^verbatim>\<open>app/harness/budget.py\<close>: the limits of a run and the checks that the
  runner makes before and after a model call and before a tool call. A check returns \<open>Inl\<close> of
  the \<open>BudgetExceededError\<close> it raises.
\<close>

record run_budget =
  max_steps :: int
  max_model_calls :: int
  max_tool_calls :: int
  max_input_tokens :: int
  max_output_tokens :: int
  max_total_tokens :: int
  max_runtime_seconds :: int
  max_repair_calls :: int

definition default_run_budget :: run_budget where
  "default_run_budget = \<lparr>max_steps = 8, max_model_calls = 10, max_tool_calls = 12,
     max_input_tokens = 64000, max_output_tokens = 8192, max_total_tokens = 72192,
     max_runtime_seconds = 600, max_repair_calls = 1\<rparr>"

definition check_common :: "run_budget \<Rightarrow> time \<Rightarrow> runtime_state \<Rightarrow> exn + unit" where
  "check_common b now st =
    (if max_runtime_seconds b \<le> now - started_at st
       then Inl (BudgetExceededErr TR_TIME_BUDGET_EXCEEDED)
     else if max_input_tokens b < input_tokens st \<or> max_output_tokens b < output_tokens st
          \<or> max_total_tokens b < total_tokens st
       then Inl (BudgetExceededErr TR_TOKEN_BUDGET_EXCEEDED)
     else Inr ())"

definition check_before_model :: "run_budget \<Rightarrow> time \<Rightarrow> runtime_state \<Rightarrow> exn + unit" where
  "check_before_model b now st = (case check_common b now st of Inl e \<Rightarrow> Inl e | Inr _ \<Rightarrow>
     if max_steps b \<le> loop_count st
       then Inl (BudgetExceededErr TR_STEP_BUDGET_EXCEEDED)
     else if max_model_calls b \<le> model_call_count st
       then Inl (BudgetExceededErr TR_MODEL_CALL_BUDGET_EXCEEDED)
     else Inr ())"

definition check_before_tool :: "run_budget \<Rightarrow> time \<Rightarrow> runtime_state \<Rightarrow> exn + unit" where
  "check_before_tool b now st = (case check_common b now st of Inl e \<Rightarrow> Inl e | Inr _ \<Rightarrow>
     if max_tool_calls b \<le> tool_call_count st
       then Inl (BudgetExceededErr TR_TOOL_BUDGET_EXCEEDED)
     else Inr ())"

definition check_after_model :: "run_budget \<Rightarrow> time \<Rightarrow> runtime_state \<Rightarrow> exn + unit" where
  "check_after_model b now st = (case check_common b now st of Inl e \<Rightarrow> Inl e | Inr _ \<Rightarrow>
     if max_model_calls b < model_call_count st
       then Inl (BudgetExceededErr TR_MODEL_CALL_BUDGET_EXCEEDED)
     else if max_repair_calls b < repair_call_count st
       then Inl (BudgetExceededErr TR_REPAIR_BUDGET_EXCEEDED)
     else Inr ())"

text \<open>The configuration of the runner carries the same limits; \<open>as_budget\<close> copies them.\<close>

record agent_runner_config =
  cfg_max_steps :: int
  cfg_max_tool_calls :: int
  cfg_max_runtime_seconds :: int
  cfg_max_model_calls :: int
  cfg_max_input_tokens :: int
  cfg_max_output_tokens :: int
  cfg_max_total_tokens :: int
  cfg_max_repair_calls :: int

definition default_runner_config :: agent_runner_config where
  "default_runner_config = \<lparr>cfg_max_steps = 8, cfg_max_tool_calls = 12,
     cfg_max_runtime_seconds = 600, cfg_max_model_calls = 10, cfg_max_input_tokens = 64000,
     cfg_max_output_tokens = 8192, cfg_max_total_tokens = 72192, cfg_max_repair_calls = 1\<rparr>"

definition as_budget :: "agent_runner_config \<Rightarrow> run_budget" where
  "as_budget c = \<lparr>max_steps = cfg_max_steps c, max_model_calls = cfg_max_model_calls c,
     max_tool_calls = cfg_max_tool_calls c, max_input_tokens = cfg_max_input_tokens c,
     max_output_tokens = cfg_max_output_tokens c, max_total_tokens = cfg_max_total_tokens c,
     max_runtime_seconds = cfg_max_runtime_seconds c, max_repair_calls = cfg_max_repair_calls c\<rparr>"

lemma as_budget_default [simp]: "as_budget default_runner_config = default_run_budget"
  by (simp add: as_budget_def default_runner_config_def default_run_budget_def)

lemma check_common_ok:
  "check_common b now st = Inr () \<longleftrightarrow>
     now - started_at st < max_runtime_seconds b \<and> input_tokens st \<le> max_input_tokens b
     \<and> output_tokens st \<le> max_output_tokens b \<and> total_tokens st \<le> max_total_tokens b"
  by (auto simp: check_common_def)

lemma check_before_model_ok:
  "check_before_model b now st = Inr () \<longleftrightarrow>
     check_common b now st = Inr () \<and> loop_count st < max_steps b
     \<and> model_call_count st < max_model_calls b"
  by (auto simp: check_before_model_def split: sum.splits)

lemma check_before_tool_ok:
  "check_before_tool b now st = Inr () \<longleftrightarrow>
     check_common b now st = Inr () \<and> tool_call_count st < max_tool_calls b"
  by (auto simp: check_before_tool_def split: sum.splits)

lemma check_after_model_ok:
  "check_after_model b now st = Inr () \<longleftrightarrow>
     check_common b now st = Inr () \<and> model_call_count st \<le> max_model_calls b
     \<and> repair_call_count st \<le> max_repair_calls b"
  by (auto simp: check_after_model_def split: sum.splits)

text \<open>A budget check raises nothing but \<open>BudgetExceededError\<close>, with a budget's reason.\<close>

definition budget_reasons :: "termination_reason set" where
  "budget_reasons = {TR_STEP_BUDGET_EXCEEDED, TR_TOOL_BUDGET_EXCEEDED, TR_TOKEN_BUDGET_EXCEEDED,
     TR_MODEL_CALL_BUDGET_EXCEEDED, TR_REPAIR_BUDGET_EXCEEDED, TR_TIME_BUDGET_EXCEEDED}"

lemma check_common_error:
  "check_common b now st = Inl e \<Longrightarrow> \<exists>r \<in> budget_reasons. e = BudgetExceededErr r"
  by (auto simp: check_common_def budget_reasons_def split: if_splits)

lemma budget_check_errors:
  "check_before_model b now st = Inl e \<Longrightarrow> \<exists>r \<in> budget_reasons. e = BudgetExceededErr r"
  "check_before_tool b now st = Inl e \<Longrightarrow> \<exists>r \<in> budget_reasons. e = BudgetExceededErr r"
  "check_after_model b now st = Inl e \<Longrightarrow> \<exists>r \<in> budget_reasons. e = BudgetExceededErr r"
  by (auto simp: check_before_model_def check_before_tool_def check_after_model_def
        budget_reasons_def split: sum.splits if_splits dest: check_common_error)

end
