(* ===== verification/Harness_Stall.thy ===== *)
theory Harness_Stall
  imports Harness_Contracts
begin

text \<open>
  The stall detector of \<^verbatim>\<open>app/harness/termination.py\<close>. The parameter \<open>digest\<close> is
  \<open>sha256(json.dumps(v, sort_keys=True, default=str).encode()).hexdigest()\<close>; it is applied to
  the canonical form of a value, as the serialization sorts the keys. That no two
  different calls collide is the hypothesis \<open>collision_free\<close> where a lemma needs it.
\<close>

definition canonical_fingerprint :: "(json \<Rightarrow> string) \<Rightarrow> json \<Rightarrow> string" where
  "canonical_fingerprint digest v = digest (canon_json v)"

definition action_fingerprint :: "(json \<Rightarrow> string) \<Rightarrow> tool_call \<Rightarrow> string" where
  "action_fingerprint digest call = canonical_fingerprint digest
     (JObj [(''name'', JStr (tc_name call)), (''arguments'', JObj (tc_arguments call))])"

definition observation_fingerprint :: "(json \<Rightarrow> string) \<Rightarrow> jobj \<Rightarrow> string" where
  "observation_fingerprint digest obs =
     canonical_fingerprint digest (dict_get obs ''result'' (JObj obs))"

definition history_limit :: nat where
  "history_limit = 8"

text \<open>\<open>xs[-k]\<close> for a list that is long enough.\<close>

abbreviation from_end :: "'a list \<Rightarrow> nat \<Rightarrow> 'a" where
  "from_end xs k \<equiv> xs ! (length xs - k)"

definition record_action ::
  "(json \<Rightarrow> string) \<Rightarrow> runtime_state \<Rightarrow> tool_call \<Rightarrow> runtime_state \<times> stall_reason option" where
  "record_action digest st call =
    (let actions = take_last history_limit
           (last_action_fingerprints st @ [action_fingerprint digest call]);
         st' = st\<lparr>last_action_fingerprints := actions\<rparr>
     in if 2 \<le> length actions \<and> from_end actions 1 = from_end actions 2
          then (st', Some REPEATED_ACTION)
        else if 4 \<le> length actions \<and> from_end actions 4 = from_end actions 2
             \<and> from_end actions 3 = from_end actions 1 \<and> from_end actions 1 \<noteq> from_end actions 2
          then (st', Some ACTION_OSCILLATION)
        else (st', None))"

definition record_observation ::
  "(json \<Rightarrow> string) \<Rightarrow> runtime_state \<Rightarrow> jobj \<Rightarrow> runtime_state \<times> stall_reason option" where
  "record_observation digest st obs =
    (let evidence = take_last history_limit
           (last_observation_fingerprints st @ [observation_fingerprint digest obs]);
         st' = st\<lparr>last_observation_fingerprints := evidence\<rparr>
     in if 2 \<le> length evidence \<and> from_end evidence 1 = from_end evidence 2
          then (st', Some NO_NEW_EVIDENCE)
        else (st', None))"

subsection \<open>The window\<close>

lemma take_last_from_end:
  assumes "k \<le> n" "k \<le> length xs" "0 < k"
  shows "from_end (take_last n xs) k = from_end xs k"
proof (cases "n \<le> length xs")
  case True
  with assms show ?thesis by (simp add: take_last_def nth_drop)
next
  case False
  then have "take_last n xs = xs" by (intro take_last_all) simp
  then show ?thesis by simp
qed

text \<open>The detector reads the history through its last elements: \<open>latest k xs\<close> is \<open>xs[-k]\<close>.\<close>

definition latest :: "nat \<Rightarrow> 'a list \<Rightarrow> 'a option" where
  "latest k xs = (if 0 < k \<and> k \<le> length xs then Some (from_end xs k) else None)"

lemma latest_take_last: "k \<le> n \<Longrightarrow> latest k (take_last n xs) = latest k xs"
  by (auto simp: latest_def take_last_from_end [simplified])

lemma latest_snoc: "latest (Suc k) (xs @ [x]) = (if k = 0 then Some x else latest k xs)"
  by (auto simp: latest_def nth_append)

lemma latest_simps:
  "latest 1 (xs @ [x]) = Some x"
  "latest 2 (xs @ [x]) = latest 1 xs"
  "latest 3 (xs @ [x]) = latest 2 xs"
  "latest 4 (xs @ [x]) = latest 3 xs"
  using latest_snoc [of 0 xs x] latest_snoc [of 1 xs x] latest_snoc [of 2 xs x]
    latest_snoc [of 3 xs x] by (simp_all add: numeral_eq_Suc)

lemma from_end_eq_latest:
  "k \<le> length xs \<and> j \<le> length xs \<and> 0 < k \<and> 0 < j \<Longrightarrow>
     from_end xs k = from_end xs j \<longleftrightarrow> latest k xs = latest j xs"
  by (simp add: latest_def)

definition action_stall :: "string list \<Rightarrow> string \<Rightarrow> stall_reason option" where
  "action_stall h fp =
    (if latest 1 h = Some fp then Some REPEATED_ACTION
     else if latest 2 h = Some fp \<and> latest 1 h = latest 3 h \<and> latest 3 h \<noteq> None
       then Some ACTION_OSCILLATION
     else None)"

text \<open>The test \<open>len(w) >= 2 and w[-1] == w[-2]\<close> on the trimmed history, for both records.\<close>

lemma window_repeat:
  fixes h :: "string list" and fp :: string
  defines "w \<equiv> take_last history_limit (h @ [fp])"
  shows "2 \<le> length w \<and> from_end w 1 = from_end w 2 \<longleftrightarrow> latest 1 h = Some fp"
proof -
  have lat: "latest k w = latest k (h @ [fp])" if "k \<le> 4" for k
    using that by (simp add: w_def latest_take_last history_limit_def)
  have len: "length w = min 8 (Suc (length h))"
    by (simp add: w_def history_limit_def)
  show ?thesis
  proof (cases "2 \<le> length w")
    case True
    then have "from_end w 1 = from_end w 2 \<longleftrightarrow> latest 1 w = latest 2 w"
      by (intro from_end_eq_latest) auto
    with True show ?thesis by (auto simp: lat latest_simps simp del: One_nat_def)
  next
    case False
    with len have "h = []" by (cases h) (auto simp: min_def split: if_splits)
    with False show ?thesis by (simp add: latest_def)
  qed
qed

lemma record_action_spec:
  "record_action digest st call =
    (let fp = action_fingerprint digest call; h = last_action_fingerprints st in
     (st\<lparr>last_action_fingerprints := take_last history_limit (h @ [fp])\<rparr>, action_stall h fp))"
proof -
  define fp where "fp = action_fingerprint digest call"
  define h where "h = last_action_fingerprints st"
  define w where "w = take_last history_limit (h @ [fp])"
  have lat: "latest k w = latest k (h @ [fp])" if "k \<le> 4" for k
    using that by (simp add: w_def latest_take_last history_limit_def)
  have len: "length w = min 8 (Suc (length h))"
    by (simp add: w_def history_limit_def)
  have two: "2 \<le> length w \<and> from_end w 1 = from_end w 2 \<longleftrightarrow> latest 1 h = Some fp"
    unfolding w_def by (rule window_repeat)
  have four: "4 \<le> length w \<and> from_end w 4 = from_end w 2 \<and> from_end w 3 = from_end w 1
      \<longleftrightarrow> latest 2 h = Some fp \<and> latest 1 h = latest 3 h \<and> latest 3 h \<noteq> None"
  proof (cases "4 \<le> length w")
    case True
    then have "from_end w 4 = from_end w 2 \<longleftrightarrow> latest 4 w = latest 2 w"
      and "from_end w 3 = from_end w 1 \<longleftrightarrow> latest 3 w = latest 1 w"
      by (intro from_end_eq_latest; auto)+
    moreover have "latest 3 h \<noteq> None" using True len by (auto simp: latest_def)
    ultimately show ?thesis using True
      by (auto simp: lat latest_simps simp del: One_nat_def)
  next
    case False
    with len have "latest 3 h = None" by (auto simp: latest_def min_def split: if_splits)
    with False show ?thesis by auto
  qed
  show ?thesis
    unfolding record_action_def Let_def fp_def [symmetric] h_def [symmetric] w_def [symmetric]
      action_stall_def
    using two four by auto
qed

lemma record_observation_spec:
  "record_observation digest st obs =
    (let fp = observation_fingerprint digest obs; h = last_observation_fingerprints st in
     (st\<lparr>last_observation_fingerprints := take_last history_limit (h @ [fp])\<rparr>,
      if latest 1 h = Some fp then Some NO_NEW_EVIDENCE else None))"
  unfolding record_observation_def Let_def
  by (simp only: window_repeat [simplified] window_repeat) simp

text \<open>Two calls are the same when their names and their arguments agree, up to the order of keys; a
  digest is collision-free on the calls of a history when only the same calls share a fingerprint.\<close>

definition same_call :: "tool_call \<Rightarrow> tool_call \<Rightarrow> bool" where
  "same_call a b \<longleftrightarrow> tc_name a = tc_name b
     \<and> canon_json (JObj (tc_arguments a)) = canon_json (JObj (tc_arguments b))"

definition collision_free :: "(json \<Rightarrow> string) \<Rightarrow> tool_call list \<Rightarrow> bool" where
  "collision_free digest calls \<longleftrightarrow> list_all (\<lambda>a. list_all (\<lambda>b.
     action_fingerprint digest a = action_fingerprint digest b \<longrightarrow> same_call a b) calls) calls"

lemma action_fingerprint_same:
  "same_call a b \<Longrightarrow> action_fingerprint digest a = action_fingerprint digest b"
  by (simp add: same_call_def action_fingerprint_def canonical_fingerprint_def)

lemma action_fingerprint_eq:
  assumes "collision_free digest calls" and "a \<in> set calls" and "b \<in> set calls"
  shows "action_fingerprint digest a = action_fingerprint digest b \<longleftrightarrow> same_call a b"
  using assms by (auto simp: collision_free_def list_all_iff intro: action_fingerprint_same)

end
