(* ===== verification/Harness_Tools.thy ===== *)
theory Harness_Tools
  imports Harness_Stall
begin

text \<open>
  Tool definitions, the tool registry, the retry policy and the policy engine:
  \<^verbatim>\<open>app/harness/tools.py\<close> (up to \<open>ToolRegistry\<close>), \<^verbatim>\<open>app/harness/retry.py\<close> and
  \<^verbatim>\<open>app/harness/policy.py\<close>.

  A tool's handler is a computation over the world \<open>'w\<close>, the state that tools can read and
  change. The argument model of a tool is a class of pydantic: \<open>am_dump\<close> is its validation
  followed by \<open>model_dump\<close>, and \<open>am_schema\<close> its JSON schema.
\<close>

datatype (plugins only: code size) tool_risk = Risk_READ | Risk_PROPOSAL

datatype (plugins only: code size) tool_side_effect =
  Effect_NONE | Effect_IDEMPOTENT_WRITE | Effect_NON_IDEMPOTENT_WRITE

datatype (plugins only: code size) tool_ledger_status =
  Ledger_STARTED | Ledger_SUCCEEDED | Ledger_FAILED | Ledger_UNKNOWN

fun ledger_status_value :: "tool_ledger_status \<Rightarrow> string" where
  "ledger_status_value Ledger_STARTED = ''STARTED''"
| "ledger_status_value Ledger_SUCCEEDED = ''SUCCEEDED''"
| "ledger_status_value Ledger_FAILED = ''FAILED''"
| "ledger_status_value Ledger_UNKNOWN = ''UNKNOWN''"

definition ledger_status_of_value :: "string \<Rightarrow> tool_ledger_status option" where
  "ledger_status_of_value s = find (\<lambda>x. ledger_status_value x = s)
     [Ledger_STARTED, Ledger_SUCCEEDED, Ledger_FAILED, Ledger_UNKNOWN]"

lemma ledger_status_roundtrip [simp]: "ledger_status_of_value (ledger_status_value x) = Some x"
  by (cases x) (simp_all add: ledger_status_of_value_def)

subsection \<open>Retry policy\<close>

record retry_policy =
  rp_max_attempts :: int
  rp_base_delay_seconds :: pyfloat
  rp_max_delay_seconds :: pyfloat
  rp_retry_budget_seconds :: pyfloat
  rp_jitter_ratio :: pyfloat

definition default_retry_policy :: retry_policy where
  "default_retry_policy = \<lparr>rp_max_attempts = 3, rp_base_delay_seconds = 1 / 4,
     rp_max_delay_seconds = 2, rp_retry_budget_seconds = 5, rp_jitter_ratio = 1 / 5\<rparr>"

text \<open>\<open>RetryPolicy.delay(retry_number)\<close> for the random sample in [0, 1) that it draws.\<close>

definition retry_delay :: "retry_policy \<Rightarrow> nat \<Rightarrow> pyfloat \<Rightarrow> pyfloat" where
  "retry_delay p n sample =
    (let raw = min (rp_max_delay_seconds p) (rp_base_delay_seconds p * 2 ^ (n - 1));
         jitter = raw * rp_jitter_ratio p * (sample * 2 - 1);
         result = raw + jitter
     in if 0 < result then result else 0)"

lemma retry_delay_nonneg [simp]: "0 \<le> retry_delay p n sample"
  by (simp add: retry_delay_def Let_def)

lemma retry_delay_bound:
  assumes "0 \<le> sample" "sample \<le> 1" "0 \<le> rp_jitter_ratio p" "0 \<le> rp_max_delay_seconds p"
    and "0 \<le> rp_base_delay_seconds p"
  shows "retry_delay p n sample \<le> rp_max_delay_seconds p * (1 + rp_jitter_ratio p)"
proof -
  let ?m = "rp_max_delay_seconds p" and ?j = "rp_jitter_ratio p"
  define raw where "raw = min ?m (rp_base_delay_seconds p * 2 ^ (n - 1))"
  have raw: "0 \<le> raw" "raw \<le> ?m" using assms by (simp_all add: raw_def)
  have "?j * (sample * 2 - 1) \<le> ?j" using assms by (simp add: mult_left_le)
  then have "raw * (1 + ?j * (sample * 2 - 1)) \<le> raw * (1 + ?j)"
    using raw by (intro mult_left_mono) auto
  also have "\<dots> \<le> ?m * (1 + ?j)"
    using raw assms by (intro mult_right_mono) auto
  finally have "raw + raw * ?j * (sample * 2 - 1) \<le> ?m * (1 + ?j)"
    by (simp add: algebra_simps)
  moreover have "0 \<le> ?m * (1 + ?j)" using assms by simp
  moreover have "retry_delay p n sample =
      (let r = raw + raw * ?j * (sample * 2 - 1) in if 0 < r then r else 0)"
    by (simp only: retry_delay_def Let_def raw_def)
  ultimately show ?thesis
    by (simp add: Let_def)
qed

subsection \<open>Tool definitions\<close>

record tool_availability_context =
  av_environment :: string
  av_roles :: "string list"
  av_feature_flags :: "string list"

definition default_availability :: tool_availability_context where
  "default_availability = \<lparr>av_environment = ''local'', av_roles = [], av_feature_flags = []\<rparr>"

record args_model =
  am_dump :: "jobj \<Rightarrow> jobj option"
  am_schema :: json

record 'w tool_definition =
  td_name :: string
  td_description :: string
  td_input_schema :: json
  td_handler :: "jobj \<Rightarrow> (exn, 'w, json) comp"
  td_risk :: tool_risk
  td_version :: string
  td_timeout_seconds :: pyfloat
  td_retry_policy :: retry_policy
  td_args_model :: "args_model option"
  td_side_effect_level :: tool_side_effect
  td_idempotency_required :: bool
  td_required_permissions :: "string list"
  td_requires_confirmation :: bool
  td_reconcile_handler :: "(jobj \<Rightarrow> (exn, 'w, jobj option) comp) option"
  td_enabled_environments :: "string list"
  td_feature_flag :: "string option"
  td_minimum_role :: "string option"
  td_terminal_decision :: "string option"

text \<open>\<open>_compact_model_schema\<close>.\<close>

fun compact_model_schema :: "json \<Rightarrow> json" where
  "compact_model_schema (JObj d) =
     JObj (map (\<lambda>kv. (fst kv, compact_model_schema (snd kv)))
       (filter (\<lambda>kv. fst kv \<noteq> ''title'' \<and> fst kv \<noteq> ''examples'') d))"
| "compact_model_schema (JList xs) = JList (map compact_model_schema xs)"
| "compact_model_schema v = v"

definition as_model_tool :: "'w tool_definition \<Rightarrow> json" where
  "as_model_tool d =
    (let raw = (case td_args_model d of Some m \<Rightarrow> am_schema m | None \<Rightarrow> td_input_schema d) in
     JObj [(''type'', JStr ''function''),
           (''function'', JObj [(''name'', JStr (td_name d)),
              (''description'', JStr (td_description d)),
              (''parameters'', compact_model_schema raw)])])"

definition is_enabled :: "'w tool_definition \<Rightarrow> tool_availability_context \<Rightarrow> bool" where
  "is_enabled d ctx =
    (if td_enabled_environments d \<noteq> [] \<and> av_environment ctx \<notin> set (td_enabled_environments d)
       then False
     else if str_truthy (td_feature_flag d) \<and> the (td_feature_flag d) \<notin> set (av_feature_flags ctx)
       then False
     else \<not> str_truthy (td_minimum_role d) \<or> the (td_minimum_role d) \<in> set (av_roles ctx))"

subsection \<open>Registry\<close>

type_synonym 'w tool_registry = "(string, 'w tool_definition) dict"

definition value_error :: exn where
  "value_error = PyExc ''ValueError''"

definition register :: "'w tool_definition \<Rightarrow> 'w tool_registry \<Rightarrow> exn + 'w tool_registry" where
  "register d reg =
    (if map_of reg (td_name d) \<noteq> None then Inl value_error
     else if td_risk d = Risk_PROPOSAL \<and> \<not> startswith (td_name d) ''propose_'' then Inl value_error
     else if td_risk d = Risk_PROPOSAL \<and> td_side_effect_level d = Effect_NONE then Inl value_error
     else if td_risk d = Risk_PROPOSAL \<and> \<not> td_idempotency_required d then Inl value_error
     else if td_side_effect_level d = Effect_NON_IDEMPOTENT_WRITE then Inl value_error
     else if str_truthy (td_terminal_decision d) \<and> td_risk d \<noteq> Risk_PROPOSAL then Inl value_error
     else Inr (AList.update (td_name d) d reg))"

definition registry_get ::
  "'w tool_registry \<Rightarrow> string \<Rightarrow> tool_availability_context option \<Rightarrow> exn + 'w tool_definition" where
  "registry_get reg name ctx =
    (case map_of reg name of
       None \<Rightarrow> Inl UnknownToolErr
     | Some d \<Rightarrow> (case ctx of
         Some c \<Rightarrow> if \<not> is_enabled d c then Inl UnknownToolErr else Inr d
       | None \<Rightarrow> Inr d))"

definition model_tools ::
  "'w tool_registry \<Rightarrow> tool_availability_context option \<Rightarrow> json list" where
  "model_tools reg ctx = map as_model_tool
    (case ctx of None \<Rightarrow> map snd reg
     | Some c \<Rightarrow> filter (\<lambda>d. is_enabled d c) (map snd reg))"

definition definitions_of :: "'w tool_registry \<Rightarrow> 'w tool_definition list" where
  "definitions_of reg = map snd reg"

text \<open>Registering a list of tools, as the constructor of a run's registry does.\<close>

fun register_all :: "'w tool_definition list \<Rightarrow> 'w tool_registry \<Rightarrow> exn + 'w tool_registry" where
  "register_all [] reg = Inr reg"
| "register_all (d # ds) reg =
     (case register d reg of Inl e \<Rightarrow> Inl e | Inr reg' \<Rightarrow> register_all ds reg')"

text \<open>The contract of a registered tool.\<close>

definition tool_ok :: "'w tool_definition \<Rightarrow> bool" where
  "tool_ok d \<longleftrightarrow>
    (td_risk d = Risk_PROPOSAL \<longrightarrow> startswith (td_name d) ''propose_''
       \<and> td_side_effect_level d = Effect_IDEMPOTENT_WRITE \<and> td_idempotency_required d)
    \<and> td_side_effect_level d \<noteq> Effect_NON_IDEMPOTENT_WRITE
    \<and> (str_truthy (td_terminal_decision d) \<longrightarrow> td_risk d = Risk_PROPOSAL)"

definition registry_ok :: "'w tool_registry \<Rightarrow> bool" where
  "registry_ok reg \<longleftrightarrow> distinct (map fst reg)
     \<and> (\<forall>(n, d) \<in> set reg. n = td_name d \<and> tool_ok d)"

lemma registry_ok_Nil [simp]: "registry_ok []"
  by (simp add: registry_ok_def)

lemma register_InrD:
  assumes "register d reg = Inr reg'"
  shows "map_of reg (td_name d) = None" and "tool_ok d" and "reg' = reg @ [(td_name d, d)]"
proof -
  show m: "map_of reg (td_name d) = None"
    using assms by (auto simp: register_def split: if_splits)
  show "tool_ok d"
    using assms by (cases "td_side_effect_level d"; cases "td_risk d")
      (auto simp: register_def tool_ok_def split: if_splits)
  have "AList.update (td_name d) d reg = reg @ [(td_name d, d)]"
    using m by (rule update_fresh)
  then show "reg' = reg @ [(td_name d, d)]"
    using assms by (auto simp: register_def split: if_splits)
qed

lemma register_ok:
  assumes "registry_ok reg" and "register d reg = Inr reg'"
  shows "registry_ok reg'"
  using register_InrD [OF assms(2)] assms(1)
  by (auto simp: registry_ok_def map_of_eq_None_iff)

lemma register_all_ok: "registry_ok reg \<Longrightarrow> register_all ds reg = Inr reg' \<Longrightarrow> registry_ok reg'"
  by (induction ds arbitrary: reg) (auto split: sum.splits dest: register_ok)

lemma registry_getD:
  assumes "registry_get reg name ctx = Inr d"
  shows "map_of reg name = Some d" and "\<And>c. ctx = Some c \<Longrightarrow> is_enabled d c"
  using assms by (auto simp: registry_get_def split: option.splits if_splits)

lemma registry_get_ok:
  assumes "registry_ok reg" and "registry_get reg name ctx = Inr d"
  shows "td_name d = name" and "tool_ok d"
  using assms registry_getD(1) [OF assms(2)] by (auto simp: registry_ok_def dest!: map_of_SomeD)

subsection \<open>Policy engine\<close>

record policy_decision =
  pd_allowed :: bool
  pd_reason_code :: string

definition policy_version_v2 :: string where
  "policy_version_v2 = ''agent_policy_v2''"

definition forbidden_prefixes :: "string list" where
  "forbidden_prefixes = [''update_'', ''commit_'', ''delete_'', ''publish_'']"

definition policy_validate ::
  "'w tool_definition \<Rightarrow> tool_call \<Rightarrow> string list \<Rightarrow> exn + policy_decision" where
  "policy_validate d call permissions =
    (if list_ex (startswith (tc_name call)) forbidden_prefixes
       then Inl (ToolPermissionErr (Some ''DIRECT_MUTATION_FORBIDDEN''))
     else if td_idempotency_required d \<and> \<not> str_truthy (tc_idempotency_key call)
       then Inl (ToolPermissionErr (Some ''IDEMPOTENCY_KEY_REQUIRED''))
     else if filter (\<lambda>p. p \<notin> set permissions) (td_required_permissions d) \<noteq> []
       then Inl (ToolPermissionErr (Some ''MISSING_PERMISSION''))
     else Inr \<lparr>pd_allowed = True, pd_reason_code = ''ALLOWED''\<rparr>)"

lemma policy_validate_allows:
  "(\<exists>dec. policy_validate d call permissions = Inr dec) \<longleftrightarrow>
     (\<forall>p \<in> set forbidden_prefixes. \<not> startswith (tc_name call) p)
     \<and> (td_idempotency_required d \<longrightarrow> str_truthy (tc_idempotency_key call))
     \<and> set (td_required_permissions d) \<subseteq> set permissions"
  by (auto simp: policy_validate_def list_ex_iff filter_empty_conv)

lemma policy_validate_error:
  "policy_validate d call permissions = Inl e \<Longrightarrow> exn_reason e = TR_TOOL_PERMISSION_DENIED"
  by (auto simp: policy_validate_def split: if_splits)

end
