(* ===== verification/Harness_Ledger.thy ===== *)
theory Harness_Ledger
  imports Harness_Tools
begin

text \<open>
  The tool execution ledger: the protocol \<open>ToolExecutionLedger\<close> of \<^verbatim>\<open>app/harness/tools.py\<close> as a
  record of operations, the contract that the executor relies on as a locale, and the in-memory
  ledger of \<^verbatim>\<open>app/harness/fakes.py\<close>, which satisfies it.
\<close>

record ledger_entry =
  le_record_id :: uuid
  le_status :: tool_ledger_status
  le_is_new :: bool
  le_result :: "jobj option"

record 'w tool_ledger =
  tl_begin :: "runtime_state \<Rightarrow> 'w tool_definition \<Rightarrow> tool_call \<Rightarrow> string
    \<Rightarrow> (exn, 'w, ledger_entry) comp"
  tl_mark_started :: "runtime_state \<Rightarrow> uuid \<Rightarrow> (exn, 'w, unit) comp"
  tl_succeed :: "runtime_state \<Rightarrow> uuid \<Rightarrow> jobj \<Rightarrow> (exn, 'w, unit) comp"
  tl_fail :: "runtime_state \<Rightarrow> uuid \<Rightarrow> string \<Rightarrow> (exn, 'w, unit) comp"
  tl_unknown :: "runtime_state \<Rightarrow> uuid \<Rightarrow> string \<Rightarrow> (exn, 'w, unit) comp"

subsection \<open>The contract\<close>

text \<open>
  \<open>entry w st n k\<close> is what the ledger in the world \<open>w\<close> holds for the run of \<open>st\<close>, the tool \<open>n\<close> and
  the idempotency key \<open>k\<close>; \<open>good\<close> is the ledger's own invariant.
\<close>

definition same_record :: "ledger_entry \<Rightarrow> ledger_entry \<Rightarrow> bool" where
  "same_record x y \<longleftrightarrow> le_record_id x = le_record_id y \<and> le_status x = le_status y
     \<and> le_result x = le_result y"

locale ledger_contract =
  fixes L :: "'w tool_ledger"
    and entry :: "'w \<Rightarrow> runtime_state \<Rightarrow> string \<Rightarrow> string \<Rightarrow> ledger_entry option"
    and good :: "'w \<Rightarrow> bool"
  assumes entry_run: "run_id st = run_id st' \<Longrightarrow> entry w st = entry w st'"
    and begin_good: "good w \<Longrightarrow> good (snd (tl_begin L st d call dg w))"
    and begin_raises: "tl_begin L st d call dg w = (Inl err, w') \<Longrightarrow> w' = w"
    and begin_new: "good w \<Longrightarrow> tc_idempotency_key call = Some k \<Longrightarrow>
        tl_begin L st d call dg w = (Inr e, w') \<Longrightarrow> le_is_new e \<Longrightarrow>
        entry w st (td_name d) k = None \<and>
        (\<exists>x. entry w' st (td_name d) k = Some x \<and> same_record x e)"
    and begin_old: "good w \<Longrightarrow> tc_idempotency_key call = Some k \<Longrightarrow>
        tl_begin L st d call dg w = (Inr e, w') \<Longrightarrow> \<not> le_is_new e \<Longrightarrow>
        w' = w \<and> (\<exists>x. entry w st (td_name d) k = Some x \<and> same_record x e)"
    and mark_good: "good w \<Longrightarrow> good (snd (tl_mark_started L st rid w))"
    and mark_keeps: "good w \<Longrightarrow> entry w st n k = Some x \<Longrightarrow>
        \<exists>y. entry (snd (tl_mark_started L st rid w)) st n k = Some y
          \<and> le_record_id y = le_record_id x"
    and unknown_good: "good w \<Longrightarrow> good (snd (tl_unknown L st rid c w))"
    and unknown_keeps: "good w \<Longrightarrow> entry w st n k = Some x \<Longrightarrow>
        \<exists>y. entry (snd (tl_unknown L st rid c w)) st n k = Some y
          \<and> le_record_id y = le_record_id x"
    and succeed_good: "good w \<Longrightarrow> good (snd (tl_succeed L st rid v w))"
    and succeed_raises: "tl_succeed L st rid v w = (Inl err, w') \<Longrightarrow> w' = w"
    and succeed_stores: "good w \<Longrightarrow> entry w st n k = Some x \<Longrightarrow> le_record_id x = rid \<Longrightarrow>
        tl_succeed L st rid v w = (Inr (), w') \<Longrightarrow>
        \<exists>y. entry w' st n k = Some y \<and> le_status y = Ledger_SUCCEEDED \<and> le_result y = Some v"
begin

text \<open>A key that the ledger knows is never opened as new.\<close>

lemma begin_found:
  assumes "good w" "tc_idempotency_key call = Some k" "entry w st (td_name d) k = Some x"
    and "tl_begin L st d call dg w = (Inr e, w')"
  shows "\<not> le_is_new e" "w' = w" "same_record x e"
  using begin_new [OF assms(1,2,4)] begin_old [OF assms(1,2,4)] assms(3) by auto

text \<open>The laws about the state reached, for a call whose result is named.\<close>

lemma begin_goodD: "tl_begin L st d call dg w = (r, w') \<Longrightarrow> good w \<Longrightarrow> good w'"
  using begin_good [of w st d call dg] by simp

lemma mark_goodD: "tl_mark_started L st rid w = (r, w') \<Longrightarrow> good w \<Longrightarrow> good w'"
  using mark_good [of w st rid] by simp

lemma unknown_goodD: "tl_unknown L st rid c w = (r, w') \<Longrightarrow> good w \<Longrightarrow> good w'"
  using unknown_good [of w st rid c] by simp

lemma succeed_goodD: "tl_succeed L st rid v w = (r, w') \<Longrightarrow> good w \<Longrightarrow> good w'"
  using succeed_good [of w st rid v] by simp

lemma mark_keepsD:
  "tl_mark_started L st rid w = (r, w') \<Longrightarrow> good w \<Longrightarrow> entry w st n k = Some x \<Longrightarrow>
    \<exists>y. entry w' st n k = Some y \<and> le_record_id y = le_record_id x"
  using mark_keeps [of w st n k x rid] by simp

lemma unknown_keepsD:
  "tl_unknown L st rid c w = (r, w') \<Longrightarrow> good w \<Longrightarrow> entry w st n k = Some x \<Longrightarrow>
    \<exists>y. entry w' st n k = Some y \<and> le_record_id y = le_record_id x"
  using unknown_keeps [of w st n k x rid c] by simp

end

subsection \<open>The in-memory ledger\<close>

text \<open>
  \<open>MemoryToolExecutionLedger\<close>: the dictionary \<open>records\<close>, kept in the first component of the
  world. \<open>_replace\<close> rewrites the first item with the record's id.
\<close>

type_synonym memory_records = "(string \<times> string \<times> string, ledger_entry) dict"

definition mem_begin ::
  "runtime_state \<Rightarrow> (memory_records \<times> 'x) tool_definition \<Rightarrow> tool_call \<Rightarrow> string
   \<Rightarrow> (exn, memory_records \<times> 'x, ledger_entry) comp" where
  "mem_begin st d call dg = (\<lambda>(recs, x).
     case tc_idempotency_key call of
       None \<Rightarrow> (Inl (PyExc ''AssertionError''), (recs, x))
     | Some k \<Rightarrow>
         (let key = (run_id st, td_name d, k) in
          case map_of recs key of
            Some e \<Rightarrow> (Inr (e\<lparr>le_is_new := False\<rparr>), (recs, x))
          | None \<Rightarrow>
              (let e = \<lparr>le_record_id = fresh_id (map (le_record_id \<circ> snd) recs),
                        le_status = Ledger_STARTED, le_is_new = True, le_result = None\<rparr>
               in (Inr e, (AList.update key e recs, x)))))"

fun mem_replace_in ::
  "uuid \<Rightarrow> tool_ledger_status \<Rightarrow> jobj option \<Rightarrow> memory_records \<Rightarrow> memory_records option" where
  "mem_replace_in rid s v [] = None"
| "mem_replace_in rid s v ((key, e) # recs) =
     (if le_record_id e = rid
        then Some ((key, \<lparr>le_record_id = rid, le_status = s, le_is_new = False, le_result = v\<rparr>) # recs)
      else map_option (\<lambda>rs. (key, e) # rs) (mem_replace_in rid s v recs))"

definition mem_replace ::
  "uuid \<Rightarrow> tool_ledger_status \<Rightarrow> jobj option \<Rightarrow> (exn, memory_records \<times> 'x, unit) comp" where
  "mem_replace rid s v = (\<lambda>(recs, x). case mem_replace_in rid s v recs of
     Some recs' \<Rightarrow> (Inr (), (recs', x))
   | None \<Rightarrow> (Inl (PyExc ''KeyError''), (recs, x)))"

definition memory_ledger :: "(memory_records \<times> 'x) tool_ledger" where
  "memory_ledger = \<lparr>tl_begin = mem_begin,
     tl_mark_started = \<lambda>st rid. mem_replace rid Ledger_STARTED None,
     tl_succeed = \<lambda>st rid v. mem_replace rid Ledger_SUCCEEDED (Some v),
     tl_fail = \<lambda>st rid c. mem_replace rid Ledger_FAILED None,
     tl_unknown = \<lambda>st rid c. mem_replace rid Ledger_UNKNOWN None\<rparr>"

definition mem_entry ::
  "memory_records \<times> 'x \<Rightarrow> runtime_state \<Rightarrow> string \<Rightarrow> string \<Rightarrow> ledger_entry option" where
  "mem_entry w st n k = map_of (fst w) (run_id st, n, k)"

definition mem_inv :: "memory_records \<times> 'x \<Rightarrow> bool" where
  "mem_inv w \<longleftrightarrow> distinct (map fst (fst w)) \<and> distinct (map (le_record_id \<circ> snd) (fst w))"

lemma mem_replace_in_keys:
  assumes "mem_replace_in rid s v recs = Some recs'"
  shows "map fst recs' = map fst recs" "map (le_record_id \<circ> snd) recs' = map (le_record_id \<circ> snd) recs"
  using assms by (induction recs arbitrary: recs') (auto split: if_splits)

lemma mem_replace_in_map_of:
  assumes "mem_replace_in rid s v recs = Some recs'" and "map_of recs key = Some x"
    and "distinct (map fst recs)" and "distinct (map (le_record_id \<circ> snd) recs)"
  shows "map_of recs' key = Some (if le_record_id x = rid
    then \<lparr>le_record_id = rid, le_status = s, le_is_new = False, le_result = v\<rparr> else x)"
  using assms
proof (induction recs arbitrary: recs')
  case (Cons r recs)
  obtain k e where r: "r = (k, e)" by (cases r)
  show ?case
  proof (cases "le_record_id e = rid")
    case True
    have "le_record_id x \<noteq> rid" if "key \<noteq> k"
    proof -
      have "map_of recs key = Some x" using Cons.prems(2) r that by auto
      then have "le_record_id x \<in> set (map (le_record_id \<circ> snd) recs)"
        by (force dest: map_of_SomeD)
      moreover have "rid \<notin> set (map (le_record_id \<circ> snd) recs)"
        using Cons.prems(4) True r by simp
      ultimately show ?thesis by metis
    qed
    then show ?thesis using Cons.prems r True by (auto split: if_splits)
  next
    case False
    then obtain rs where "mem_replace_in rid s v recs = Some rs" "recs' = (k, e) # rs"
      using Cons.prems(1) r by auto
    then show ?thesis using Cons r False by (auto split: if_splits)
  qed
qed simp

lemma mem_replace_laws:
  assumes "mem_inv w"
  shows "mem_inv (snd (mem_replace rid s v w))"
    and "mem_entry w st n k = Some x \<Longrightarrow>
      \<exists>y. mem_entry (snd (mem_replace rid s v w)) st n k = Some y \<and> le_record_id y = le_record_id x"
    and "mem_entry w st n k = Some x \<Longrightarrow> le_record_id x = rid \<Longrightarrow>
      mem_replace rid s v w = (Inr (), w') \<Longrightarrow>
      \<exists>y. mem_entry w' st n k = Some y \<and> le_status y = s \<and> le_result y = v"
proof -
  obtain recs x' where w: "w = (recs, x')" by (cases w)
  show "mem_inv (snd (mem_replace rid s v w))"
    using assms mem_replace_in_keys
    by (auto simp: mem_replace_def mem_inv_def w split: option.splits)
  show "\<exists>y. mem_entry (snd (mem_replace rid s v w)) st n k = Some y \<and> le_record_id y = le_record_id x"
    if "mem_entry w st n k = Some x"
    using assms that mem_replace_in_map_of [of rid s v recs _ "(run_id st, n, k)" x]
    by (auto simp: mem_replace_def mem_inv_def mem_entry_def w split: option.splits)
  show "\<exists>y. mem_entry w' st n k = Some y \<and> le_status y = s \<and> le_result y = v"
    if "mem_entry w st n k = Some x" "le_record_id x = rid" "mem_replace rid s v w = (Inr (), w')"
    using assms that mem_replace_in_map_of [of rid s v recs _ "(run_id st, n, k)" x]
    by (auto simp: mem_replace_def mem_inv_def mem_entry_def w split: option.splits)
qed

lemma mem_replace_raises: "mem_replace rid s v w = (Inl e, w') \<Longrightarrow> w' = w"
  by (auto simp: mem_replace_def split: prod.splits option.splits)

lemma mem_begin_cases:
  assumes "tc_idempotency_key call = Some k" and "mem_begin st d call dg w = (Inr e, w')"
  obtains (found) x where "mem_entry w st (td_name d) k = Some x" "e = x\<lparr>le_is_new := False\<rparr>" "w' = w"
    | (opened) "mem_entry w st (td_name d) k = None" "le_is_new e"
      "w' = (fst w @ [((run_id st, td_name d, k), e)], snd w)"
  using assms
  by (auto simp: mem_begin_def mem_entry_def Let_def update_fresh split: prod.splits option.splits)

lemma mem_fresh: "fresh_id (map (le_record_id \<circ> snd) recs) = le_record_id e \<Longrightarrow> (key, e) \<notin> set recs"
  using fresh_id_notin_image [of "le_record_id \<circ> snd" recs] by force

lemma mem_begin_raises: "mem_begin st d call dg w = (Inl err, w') \<Longrightarrow> w' = w"
  by (auto simp: mem_begin_def Let_def split: prod.splits option.splits)

lemma mem_entry_run: "run_id st = run_id st' \<Longrightarrow> mem_entry w st = mem_entry w st'"
  by (simp add: mem_entry_def fun_eq_iff)

lemma mem_begin_inv: "mem_inv w \<Longrightarrow> mem_inv (snd (mem_begin st d call dg w))"
  by (auto simp: mem_begin_def mem_inv_def Let_def update_fresh map_of_eq_None_iff
      dest: mem_fresh split: prod.splits option.splits)

interpretation mem: ledger_contract memory_ledger mem_entry mem_inv
proof unfold_locales
  fix w :: "memory_records \<times> 'x" and st d call dg k e w'
  assume "mem_inv w" and key: "tc_idempotency_key call = Some k"
    and b: "tl_begin memory_ledger st d call dg w = (Inr e, w')"
  then have b': "mem_begin st d call dg w = (Inr e, w')" by (simp add: memory_ledger_def)
  { assume "le_is_new e"
    then show "mem_entry w st (td_name d) k = None
        \<and> (\<exists>x. mem_entry w' st (td_name d) k = Some x \<and> same_record x e)"
      using b' by (cases rule: mem_begin_cases [OF key b'])
        (auto simp: mem_entry_def same_record_def map_add_Some_iff) }
  { assume "\<not> le_is_new e"
    then show "w' = w \<and> (\<exists>x. mem_entry w st (td_name d) k = Some x \<and> same_record x e)"
      by (cases rule: mem_begin_cases [OF key b']) (auto simp: same_record_def) }
qed (auto simp: memory_ledger_def mem_begin_inv mem_replace_laws(1)
  dest: mem_replace_raises mem_begin_raises mem_replace_laws(2,3) mem_entry_run)

end
