(* ===== verification/Harness_Executor.thy ===== *)
theory Harness_Executor
  imports Harness_Ledger
begin

text \<open>
  \<open>ToolExecutor\<close> of \<^verbatim>\<open>app/harness/tools.py\<close>: validation of the arguments, the policy check, the
  execution ledger, retries and reconciliation.

  The parameters of the environment are the injected collaborators: the ledger, \<open>sleep\<close>,
  \<open>time.monotonic\<close>, \<open>random.random\<close>, the digest of a canonical JSON value and \<open>str\<close> of a JSON value
  that is not a string. A handler that exceeds \<open>asyncio.timeout\<close> raises \<open>TimeoutError\<close>:
  in the model it is a handler whose result in that world is \<open>Inl (PyExc ''TimeoutError'')\<close>.
\<close>

record 'w exec_env =
  ee_registry :: "'w tool_registry"
  ee_ledger :: "'w tool_ledger option"
  ee_availability :: tool_availability_context
  ee_permissions :: "string list"
  ee_sleep :: "pyfloat \<Rightarrow> (exn, 'w, unit) comp"
  ee_monotonic :: "'w \<Rightarrow> pyfloat"
  ee_random :: "'w \<Rightarrow> pyfloat \<times> 'w"
  ee_digest :: "json \<Rightarrow> string"
  ee_repr :: "json \<Rightarrow> string"

subsection \<open>Arguments\<close>

definition validated_arguments :: "'w tool_definition \<Rightarrow> tool_call \<Rightarrow> exn + jobj" where
  "validated_arguments d call =
    (case td_args_model d of
       None \<Rightarrow> Inr (tc_arguments call)
     | Some m \<Rightarrow>
         (let raw = (if td_risk d = Risk_PROPOSAL
                     then AList.delete ''evidence_refs'' (tc_arguments call) else tc_arguments call)
          in case am_dump m raw of None \<Rightarrow> Inl ToolValidationErr | Some payload \<Rightarrow> Inr payload))"

text \<open>\<open>str(x)\<close>, and the items that a \<open>for\<close> loop over a decoded value visits.\<close>

definition py_str :: "(json \<Rightarrow> string) \<Rightarrow> json \<Rightarrow> string" where
  "py_str repr j = (case j of JStr s \<Rightarrow> s | _ \<Rightarrow> repr j)"

fun json_iter :: "json \<Rightarrow> exn + json list" where
  "json_iter (JList xs) = Inr xs"
| "json_iter (JStr s) = Inr (map (\<lambda>c. JStr [c]) s)"
| "json_iter (JObj d) = Inr (map (\<lambda>kv. JStr (fst kv)) d)"
| "json_iter _ = Inl (PyExc ''TypeError'')"

definition observation_refs :: "(json \<Rightarrow> string) \<Rightarrow> jobj \<Rightarrow> exn + string list" where
  "observation_refs repr obs =
    (let task = (case map_of obs ''task_id'' of
           Some t \<Rightarrow> if json_truthy t then [py_str repr t] else [] | None \<Rightarrow> [])
     in case map_of obs ''result'' of
          Some (JObj result) \<Rightarrow>
            (case json_iter (dict_get result ''attempt_ids'' (JList [])) of
               Inl e \<Rightarrow> Inl e
             | Inr items \<Rightarrow> Inr (task @ map (py_str repr) items))
        | _ \<Rightarrow> Inr task)"

fun collect_refs :: "(json \<Rightarrow> string) \<Rightarrow> jobj list \<Rightarrow> exn + string list" where
  "collect_refs repr [] = Inr []"
| "collect_refs repr (obs # rest) =
     (case observation_refs repr obs of Inl e \<Rightarrow> Inl e | Inr xs \<Rightarrow>
       (case collect_refs repr rest of Inl e \<Rightarrow> Inl e | Inr ys \<Rightarrow> Inr (xs @ ys)))"

definition runtime_evidence_refs :: "(json \<Rightarrow> string) \<Rightarrow> runtime_state \<Rightarrow> exn + string list" where
  "runtime_evidence_refs repr st =
    (case collect_refs repr (observations st) of Inl e \<Rightarrow> Inl e | Inr refs \<Rightarrow> Inr (fromkeys refs))"

text \<open>The checks that precede the ledger: the tool, its arguments with the evidence, the policy.\<close>

definition prepare_call ::
  "'w exec_env \<Rightarrow> runtime_state \<Rightarrow> tool_call \<Rightarrow> exn + ('w tool_definition \<times> jobj)" where
  "prepare_call env st call =
    (case registry_get (ee_registry env) (tc_name call) (Some (ee_availability env)) of
       Inl e \<Rightarrow> Inl e
     | Inr d \<Rightarrow> (case validated_arguments d call of
         Inl e \<Rightarrow> Inl e
       | Inr args0 \<Rightarrow>
           (case (if td_risk d = Risk_PROPOSAL
                  then map_sum id (\<lambda>refs. AList.update ''evidence_refs'' (JList (map JStr refs)) args0)
                         (runtime_evidence_refs (ee_repr env) st)
                  else Inr args0) of
              Inl e \<Rightarrow> Inl e
            | Inr args \<Rightarrow> (case policy_validate d call (ee_permissions env) of
                Inl e \<Rightarrow> Inl e
              | Inr _ \<Rightarrow> Inr (d, args)))))"

text \<open>\<open>dict(arguments)\<close> with the key \<open>_idempotency_key\<close>, as handlers receive it.\<close>

definition handler_arguments :: "tool_call \<Rightarrow> jobj \<Rightarrow> jobj" where
  "handler_arguments call args =
    (if str_truthy (tc_idempotency_key call)
     then AList.update ''_idempotency_key'' (JStr (the (tc_idempotency_key call))) args else args)"

subsection \<open>Ledger and reconciliation\<close>

definition begin_ledger ::
  "'w exec_env \<Rightarrow> runtime_state \<Rightarrow> 'w tool_definition \<Rightarrow> tool_call \<Rightarrow> jobj
   \<Rightarrow> (exn, 'w, ledger_entry option) comp" where
  "begin_ledger env st d call args =
    (case ee_ledger env of
       None \<Rightarrow> ret None
     | Some L \<Rightarrow>
         if td_side_effect_level d = Effect_NONE then ret None
         else if \<not> str_truthy (tc_idempotency_key call) then throw (ToolPermissionErr None)
         else andthen (tl_begin L st d call (canonical_fingerprint (ee_digest env) (JObj args)))
                (\<lambda>e. ret (Some e)))"

definition reconcile ::
  "'w tool_definition \<Rightarrow> jobj \<Rightarrow> tool_call \<Rightarrow> (exn, 'w, jobj option) comp" where
  "reconcile d args call =
    (case td_reconcile_handler d of
       None \<Rightarrow> ret None
     | Some h \<Rightarrow> h (handler_arguments call args))"

definition ledger_succeed ::
  "'w exec_env \<Rightarrow> runtime_state \<Rightarrow> uuid \<Rightarrow> jobj \<Rightarrow> (exn, 'w, unit) comp" where
  "ledger_succeed env st rid v =
    (case ee_ledger env of None \<Rightarrow> ret () | Some L \<Rightarrow> tl_succeed L st rid v)"

text \<open>
  The ledger calls of the retry loop. They are guarded by \<open>record_id is not None\<close>; a record
  id exists only when there is a ledger.
\<close>

definition on_ledger ::
  "'w exec_env \<Rightarrow> uuid option \<Rightarrow> ('w tool_ledger \<Rightarrow> uuid \<Rightarrow> (exn, 'w, unit) comp)
   \<Rightarrow> (exn, 'w, unit) comp" where
  "on_ledger env rid f =
    (case rid of None \<Rightarrow> ret () | Some i \<Rightarrow>
      (case ee_ledger env of None \<Rightarrow> throw (PyExc ''AssertionError'') | Some L \<Rightarrow> f L i))"

definition attempt_limit :: "'w tool_definition \<Rightarrow> tool_call \<Rightarrow> int" where
  "attempt_limit d call = (case td_side_effect_level d of
     Effect_NON_IDEMPOTENT_WRITE \<Rightarrow> 1
   | Effect_IDEMPOTENT_WRITE \<Rightarrow>
       if str_truthy (tc_idempotency_key call) then rp_max_attempts (td_retry_policy d) else 1
   | Effect_NONE \<Rightarrow> rp_max_attempts (td_retry_policy d))"

definition timeout_classes :: "string list" where
  "timeout_classes = [''TimeoutError'', ''TimeoutException'', ''ConnectTimeout'', ''ReadTimeout'',
     ''WriteTimeout'', ''PoolTimeout'']"

definition network_classes :: "string list" where
  "network_classes = [''NetworkError'', ''ConnectError'', ''ReadError'', ''WriteError'',
     ''CloseError'', ''OperationalError'']"

definition map_error :: "exn \<Rightarrow> exn" where
  "map_error e =
    (if is_tool_error e then e
     else case e of
       HttpStatusErr status \<Rightarrow>
         if status = 429 then ToolRateLimitErr
         else if 500 \<le> status then ToolUpstreamErr
         else ToolBusinessErr
     | PyExc n \<Rightarrow>
         if n \<in> set timeout_classes then ToolTimeoutErr
         else if n \<in> set network_classes then ToolUpstreamErr
         else if n = ''PermissionError'' then ToolPermissionErr None
         else ToolBusinessErr
     | _ \<Rightarrow> ToolBusinessErr)"

lemma map_error_is_tool_error [simp]: "is_tool_error (map_error e)"
  by (cases e) (auto simp: map_error_def)

lemma map_error_tool [simp]: "is_tool_error e \<Longrightarrow> map_error e = e"
  by (simp add: map_error_def)

subsection \<open>The retry loop\<close>

text \<open>The body of \<open>try\<close>: one call of the handler and the success record.\<close>

definition try_handler ::
  "'w exec_env \<Rightarrow> 'w tool_definition \<Rightarrow> runtime_state \<Rightarrow> tool_call \<Rightarrow> jobj \<Rightarrow> uuid option \<Rightarrow> nat
   \<Rightarrow> (exn, 'w, tool_execution_result) comp" where
  "try_handler env d st call args rid retry_count =
    andthen (td_handler d (handler_arguments call args)) (\<lambda>result.
      case result of
        JObj v \<Rightarrow> andthen (case rid of None \<Rightarrow> ret () | Some i \<Rightarrow> ledger_succeed env st i v) (\<lambda>_.
            ret \<lparr>ter_observation = v, ter_retry_count = int retry_count, ter_replayed = False\<rparr>)
      | _ \<Rightarrow> throw ToolBusinessErr)"

text \<open>A transient failure of a recorded call: mark it unknown and ask the reconcile handler.\<close>

definition after_transient ::
  "'w exec_env \<Rightarrow> 'w tool_definition \<Rightarrow> runtime_state \<Rightarrow> tool_call \<Rightarrow> jobj \<Rightarrow> uuid option \<Rightarrow> nat
   \<Rightarrow> exn \<Rightarrow> (exn, 'w, tool_execution_result option) comp" where
  "after_transient env d st call args rid retry_count mapped =
    (case rid of
       None \<Rightarrow> ret None
     | Some i \<Rightarrow>
         if \<not> is_tool_transient mapped then ret None
         else andthen (on_ledger env rid (\<lambda>L r. tl_unknown L st r (exn_code mapped))) (\<lambda>_.
           andthen (reconcile d args call) (\<lambda>rec.
             case rec of
               None \<Rightarrow> ret None
             | Some v \<Rightarrow> andthen (ledger_succeed env st i v) (\<lambda>_.
                 ret (Some \<lparr>ter_observation = v, ter_retry_count = int retry_count,
                            ter_replayed = True\<rparr>)))))"

text \<open>
  \<open>for attempt in range(1, attempts + 1)\<close>: the recursion is on the remaining attempt numbers,
  \<open>limit\<close> is \<open>attempts\<close>, \<open>started\<close> the monotonic time before the loop.
\<close>

fun tool_attempts ::
  "'w exec_env \<Rightarrow> 'w tool_definition \<Rightarrow> runtime_state \<Rightarrow> tool_call \<Rightarrow> jobj \<Rightarrow> uuid option
   \<Rightarrow> int \<Rightarrow> pyfloat \<Rightarrow> nat \<Rightarrow> int list \<Rightarrow> (exn, 'w, tool_execution_result) comp" where
  "tool_attempts env d st call args rid limit started retry_count [] = throw ToolBusinessErr"
| "tool_attempts env d st call args rid limit started retry_count (attempt # rest) =
    andthen (if 1 < attempt then on_ledger env rid (\<lambda>L i. tl_mark_started L st i) else ret ()) (\<lambda>_.
      handle (try_handler env d st call args rid retry_count) (\<lambda>err.
        let mapped = map_error err in
        andthen (after_transient env d st call args rid retry_count mapped) (\<lambda>done.
          case done of
            Some result \<Rightarrow> ret result
          | None \<Rightarrow>
              if \<not> (is_tool_transient mapped \<and> attempt < limit) then
                andthen (if \<not> is_tool_transient mapped
                         then on_ledger env rid (\<lambda>L i. tl_fail L st i (exn_code mapped))
                         else ret ()) (\<lambda>_. throw mapped)
              else
                andthen (\<lambda>w. (Inr (fst (ee_random env w)), snd (ee_random env w))) (\<lambda>sample.
                  let delay = retry_delay (td_retry_policy d) (Suc retry_count) sample in
                  andthen (gets (ee_monotonic env)) (\<lambda>now.
                    if rp_retry_budget_seconds (td_retry_policy d) < now - started + delay
                    then throw mapped
                    else andthen (ee_sleep env delay) (\<lambda>_.
                      tool_attempts env d st call args rid limit started (Suc retry_count) rest))))))"

definition run_attempts ::
  "'w exec_env \<Rightarrow> 'w tool_definition \<Rightarrow> runtime_state \<Rightarrow> tool_call \<Rightarrow> jobj \<Rightarrow> uuid option
   \<Rightarrow> (exn, 'w, tool_execution_result) comp" where
  "run_attempts env d st call args rid =
    andthen (gets (ee_monotonic env)) (\<lambda>started.
      tool_attempts env d st call args rid (attempt_limit d call) started 0
        [1..attempt_limit d call])"

text \<open>A call that the ledger already knows.\<close>

definition resume_known ::
  "'w exec_env \<Rightarrow> 'w tool_definition \<Rightarrow> runtime_state \<Rightarrow> tool_call \<Rightarrow> jobj \<Rightarrow> ledger_entry
   \<Rightarrow> (exn, 'w, tool_execution_result) comp" where
  "resume_known env d st call args e =
    (if le_status e = Ledger_SUCCEEDED \<and> le_result e \<noteq> None
     then ret \<lparr>ter_observation = the (le_result e), ter_retry_count = 0, ter_replayed = True\<rparr>
     else andthen (reconcile d args call) (\<lambda>rec.
       case rec of
         Some v \<Rightarrow> andthen (ledger_succeed env st (le_record_id e) v) (\<lambda>_.
           ret \<lparr>ter_observation = v, ter_retry_count = 0, ter_replayed = True\<rparr>)
       | None \<Rightarrow>
           if td_side_effect_level d = Effect_IDEMPOTENT_WRITE \<and> td_reconcile_handler d \<noteq> None
              \<and> ee_ledger env \<noteq> None
           then andthen (on_ledger env (Some (le_record_id e)) (\<lambda>L i. tl_mark_started L st i)) (\<lambda>_.
             run_attempts env d st call args (Some (le_record_id e)))
           else throw ToolOutcomeUnknownErr))"

definition execute ::
  "'w exec_env \<Rightarrow> runtime_state \<Rightarrow> tool_call \<Rightarrow> (exn, 'w, tool_execution_result) comp" where
  "execute env st call =
    andthen (lift_result (prepare_call env st call)) (\<lambda>(d, args).
      andthen (begin_ledger env st d call args) (\<lambda>e.
        case e of
          None \<Rightarrow> run_attempts env d st call args None
        | Some entry \<Rightarrow>
            if \<not> le_is_new entry then resume_known env d st call args entry
            else run_attempts env d st call args (Some (le_record_id entry))))"

subsection \<open>A recorded call is executed once\<close>

text \<open>
  The collaborators other than the ledger leave the ledger's records alone; nothing else is
  assumed of them.
\<close>

definition leaves :: "('w \<Rightarrow> bool) \<Rightarrow> ('w \<Rightarrow> 'b) \<Rightarrow> (exn, 'w, 'a) comp \<Rightarrow> bool" where
  "leaves good f m \<longleftrightarrow> (\<forall>w. good w \<longrightarrow> good (snd (m w)) \<and> f (snd (m w)) = f w)"

definition quiet_tool ::
  "('w \<Rightarrow> bool) \<Rightarrow> ('w \<Rightarrow> 'b) \<Rightarrow> 'w exec_env \<Rightarrow> 'w tool_definition \<Rightarrow> bool" where
  "quiet_tool good f env d \<longleftrightarrow>
     (\<forall>args. leaves good f (td_handler d args))
     \<and> (\<forall>h args. td_reconcile_handler d = Some h \<longrightarrow> leaves good f (h args))
     \<and> (\<forall>delay. leaves good f (ee_sleep env delay))
     \<and> (\<forall>w. good w \<longrightarrow> good (snd (ee_random env w)) \<and> f (snd (ee_random env w)) = f w)"

lemma leaves_triple:
  assumes "leaves good f m" and "\<And>s s'. P s \<Longrightarrow> good s' \<Longrightarrow> f s' = f s \<Longrightarrow> P s'"
    and "\<And>s. P s \<Longrightarrow> good s"
  shows "triple P m (\<lambda>_. P) (\<lambda>_. P)"
  using assms by (intro tripleI) (metis leaves_def snd_conv)+

context ledger_contract
begin

definition holds :: "runtime_state \<Rightarrow> string \<Rightarrow> string \<Rightarrow> uuid \<Rightarrow> 'w \<Rightarrow> bool" where
  "holds st n k i w \<longleftrightarrow> good w \<and> (\<exists>x. entry w st n k = Some x \<and> le_record_id x = i)"

definition stored :: "runtime_state \<Rightarrow> string \<Rightarrow> string \<Rightarrow> jobj \<Rightarrow> 'w \<Rightarrow> bool" where
  "stored st n k v w \<longleftrightarrow> good w \<and>
     (\<exists>x. entry w st n k = Some x \<and> le_status x = Ledger_SUCCEEDED \<and> le_result x = Some v)"

lemma leaves_holds:
  "leaves good entry m \<Longrightarrow> triple (holds st n k i) m (\<lambda>_. holds st n k i) (\<lambda>_. holds st n k i)"
  by (erule leaves_triple) (auto simp: holds_def)

lemma succeed_triple:
  "ee_ledger env = Some L \<Longrightarrow>
    triple (holds st n k i) (ledger_succeed env st i v) (\<lambda>_. stored st n k v) (\<lambda>_. holds st n k i)"
proof (rule tripleI, goal_cases)
  case (1 w u w')
  then obtain x where x: "good w" "entry w st n k = Some x" "le_record_id x = i"
    and run: "tl_succeed L st i v w = (Inr (), w')"
    by (auto simp: holds_def ledger_succeed_def)
  show ?case
    using succeed_stores [OF x run] succeed_goodD [OF run x(1)] by (simp add: stored_def)
next
  case (2 w e w')
  then have "w' = w" by (intro succeed_raises) (simp add: ledger_succeed_def)
  with 2 show ?case by simp
qed

lemma mark_triple:
  "ee_ledger env = Some L \<Longrightarrow> triple (holds st n k i)
    (on_ledger env (Some i) (\<lambda>L' r. tl_mark_started L' st r)) (\<lambda>_. holds st n k i) (\<lambda>_ _. True)"
  by (rule tripleI) (auto simp: on_ledger_def holds_def dest: mark_goodD mark_keepsD)

lemma unknown_triple:
  "ee_ledger env = Some L \<Longrightarrow> triple (holds st n k i)
    (on_ledger env (Some i) (\<lambda>L' r. tl_unknown L' st r c)) (\<lambda>_. holds st n k i) (\<lambda>_ _. True)"
  by (rule tripleI) (auto simp: on_ledger_def holds_def dest: unknown_goodD unknown_keepsD)

lemma reconcile_triple:
  "quiet_tool good entry env d \<Longrightarrow> triple (holds st n k i) (reconcile d args call)
    (\<lambda>_. holds st n k i) (\<lambda>_. holds st n k i)"
  unfolding reconcile_def
  by (rule triple_option) (auto simp: quiet_tool_def intro: triple_ret leaves_holds)

lemma try_handler_triple:
  assumes "ee_ledger env = Some L" and "quiet_tool good entry env d"
  shows "triple (holds st n k i) (try_handler env d st call args (Some i) rc)
    (\<lambda>r. stored st n k (ter_observation r)) (\<lambda>_. holds st n k i)"
  unfolding try_handler_def
proof (rule triple_andthen)
  show "triple (holds st n k i) (td_handler d (handler_arguments call args))
      (\<lambda>_. holds st n k i) (\<lambda>_. holds st n k i)"
    using assms(2) by (auto simp: quiet_tool_def intro: leaves_holds)
next
  fix a
  show "triple (holds st n k i)
      (case a of JObj v \<Rightarrow> andthen (case Some i of None \<Rightarrow> ret () | Some i \<Rightarrow> ledger_succeed env st i v)
          (\<lambda>_. ret \<lparr>ter_observation = v, ter_retry_count = int rc, ter_replayed = False\<rparr>)
       | _ \<Rightarrow> throw ToolBusinessErr)
      (\<lambda>r. stored st n k (ter_observation r)) (\<lambda>_. holds st n k i)"
    by (cases a) (auto intro!: triple_throw triple_andthen [OF succeed_triple] triple_ret assms(1))
qed

lemma after_transient_triple:
  assumes "ee_ledger env = Some L" and "quiet_tool good entry env d"
  shows "triple (holds st n k i) (after_transient env d st call args (Some i) rc e)
    (\<lambda>r. case r of Some x \<Rightarrow> stored st n k (ter_observation x) | None \<Rightarrow> holds st n k i) (\<lambda>_ _. True)"
  unfolding after_transient_def option.case
  by (intro triple_if triple_andthen [OF unknown_triple]
      triple_andthen [OF triple_weaken [OF reconcile_triple]] triple_option
      triple_andthen [OF triple_weaken [OF succeed_triple]] triple_ret)
    (use assms in auto)

lemma tool_attempts_triple:
  assumes "ee_ledger env = Some L" and "quiet_tool good entry env d"
  shows "triple (holds st n k i) (tool_attempts env d st call args (Some i) limit t rc as)
    (\<lambda>r. stored st n k (ter_observation r)) (\<lambda>_ _. True)"
proof (induction "as" arbitrary: rc)
  case (Cons a as)
  have random: "triple (holds st n k i) (\<lambda>w. (Inr (fst (ee_random env w)), snd (ee_random env w)))
      (\<lambda>_. holds st n k i) (\<lambda>_ _. True)"
    using assms(2) by (auto simp: triple_def holds_def quiet_tool_def)
  have sleep: "triple (holds st n k i) (ee_sleep env x) (\<lambda>_. holds st n k i) (\<lambda>_ _. True)" for x
    using assms(2) by (intro triple_weaken [OF leaves_holds]) (auto simp: quiet_tool_def)
  have fail: "triple (holds st n k i) (andthen m (\<lambda>_. throw x)) Q (\<lambda>_ _. True)"
    for m :: "(exn, 'w, unit) comp" and x and Q :: "tool_execution_result \<Rightarrow> 'w \<Rightarrow> bool"
    by (rule tripleI) (auto elim!: andthen_InrE)
  have mark: "triple (holds st n k i)
      (if 1 < a then on_ledger env (Some i) (\<lambda>L r. tl_mark_started L st r) else ret ())
      (\<lambda>_. holds st n k i) (\<lambda>_ _. True)"
    by (intro triple_if mark_triple triple_ret assms(1))
  have clock: "triple (holds st n k i) (gets (ee_monotonic env)) (\<lambda>_. holds st n k i) (\<lambda>_ _. True)"
    by (rule triple_gets)
  have again: "triple (holds st n k i) (andthen (ee_sleep env delay)
        (\<lambda>_. tool_attempts env d st call args (Some i) limit t (Suc rc) as))
      (\<lambda>r. stored st n k (ter_observation r)) (\<lambda>_ _. True)" for delay
    by (rule triple_andthen [OF sleep]) (rule Cons.IH)
  have stop: "triple (holds st n k i) (throw e) Q (\<lambda>_ _. True)"
    for e :: exn and Q :: "tool_execution_result \<Rightarrow> 'w \<Rightarrow> bool"
    by (rule triple_throw) simp
  show ?case
    unfolding tool_attempts.simps Let_def
  proof (rule triple_andthen [OF mark], rule triple_handle [OF try_handler_triple [OF assms]],
      rule triple_andthen [OF after_transient_triple [OF assms]], goal_cases)
    case (1 u e outcome)
    show ?case
    proof (cases outcome)
      case None
      show ?thesis
        unfolding None option.case
        by (rule triple_if, rule fail, rule triple_andthen [OF random],
            rule triple_andthen [OF clock], rule triple_if, rule stop, rule again)
    next
      case (Some r)
      show ?thesis unfolding Some option.case by (rule triple_ret) simp
    qed
  qed
qed (auto intro: triple_throw)

lemma run_attempts_triple:
  "ee_ledger env = Some L \<Longrightarrow> quiet_tool good entry env d \<Longrightarrow>
    triple (holds st n k i) (run_attempts env d st call args (Some i))
      (\<lambda>r. stored st n k (ter_observation r)) (\<lambda>_ _. True)"
  unfolding run_attempts_def
  by (rule triple_andthen [where Q' = "\<lambda>_. holds st n k i"])
    (auto intro: tool_attempts_triple triple_gets)

lemma resume_known_triple:
  assumes "ee_ledger env = Some L" and "quiet_tool good entry env d"
  shows "triple (\<lambda>w. good w \<and> (\<exists>x. entry w st n k = Some x \<and> same_record x e))
    (resume_known env d st call args e) (\<lambda>r. stored st n k (ter_observation r)) (\<lambda>_ _. True)"
proof (cases "le_status e = Ledger_SUCCEEDED \<and> le_result e \<noteq> None")
  case True
  then show ?thesis
    by (auto simp: resume_known_def same_record_def stored_def intro!: triple_ret)
next
  case False
  have succeed: "triple (holds st n k (le_record_id e)) (ledger_succeed env st (le_record_id e) v)
      (\<lambda>_. stored st n k v) (\<lambda>_ _. True)" for v
    by (rule triple_weaken [OF succeed_triple [OF assms(1)]]) auto
  have reconcile: "triple (holds st n k (le_record_id e)) (reconcile d args call)
      (\<lambda>_. holds st n k (le_record_id e)) (\<lambda>_ _. True)"
    by (rule triple_weaken [OF reconcile_triple [OF assms(2)]]) auto
  have "triple (holds st n k (le_record_id e)) (resume_known env d st call args e)
      (\<lambda>r. stored st n k (ter_observation r)) (\<lambda>_ _. True)"
    unfolding resume_known_def if_not_P [OF False]
  proof (rule triple_andthen [OF reconcile], goal_cases)
    case (1 outcome)
    show ?case
    proof (cases outcome)
      case None
      show ?thesis
        unfolding None option.case
        by (rule triple_if, rule triple_andthen [OF mark_triple [OF assms(1)]],
            rule run_attempts_triple [OF assms], rule triple_throw, simp)
    next
      case (Some v)
      show ?thesis
        unfolding Some option.case
        by (rule triple_andthen [OF succeed], rule triple_ret, simp)
    qed
  qed
  then show ?thesis
    by (rule triple_weaken) (auto simp: holds_def same_record_def)
qed

theorem execute_triple:
  assumes "ee_ledger env = Some L" and "quiet_tool good entry env d"
    and "tc_idempotency_key call = Some k" and "k \<noteq> []"
    and "prepare_call env st call = Inr (d, args)" and "td_side_effect_level d \<noteq> Effect_NONE"
  shows "triple good (execute env st call)
    (\<lambda>r. stored st (td_name d) k (ter_observation r)) (\<lambda>_ _. True)"
proof (rule tripleI, goal_cases)
  case (1 w r w')
  let ?dg = "canonical_fingerprint (ee_digest env) (JObj args)"
  from 1(2) obtain e w1 where b: "tl_begin L st d call ?dg w = (Inr e, w1)"
    and c: "(if \<not> le_is_new e then resume_known env d st call args e
             else run_attempts env d st call args (Some (le_record_id e))) w1 = (Inr r, w')"
    using assms by (auto simp: execute_def begin_ledger_def andthen_assoc elim!: andthen_InrE)
  have good: "good w1" using begin_goodD [OF b 1(1)] .
  show ?case
  proof (cases "le_is_new e")
    case True
    then have "holds st (td_name d) k (le_record_id e) w1"
      using begin_new [OF 1(1) assms(3) b] good by (auto simp: holds_def same_record_def)
    with True c show ?thesis
      by (auto dest: triple_InrD [OF run_attempts_triple [OF assms(1,2)]])
  next
    case False
    then have "good w1 \<and> (\<exists>x. entry w1 st (td_name d) k = Some x \<and> same_record x e)"
      using begin_old [OF 1(1) assms(3) b] good by auto
    then show ?thesis
      by (rule triple_InrD [OF resume_known_triple [OF assms(1,2)]]) (use False c in simp)
  qed
qed simp

text \<open>
  Once a result is recorded under a key, executing the key again never reaches the handler:
  the recorded result is returned and the world does not change, or the ledger refuses.
\<close>

theorem execute_again:
  assumes "ee_ledger env = Some L" and "tc_idempotency_key call = Some k" and "k \<noteq> []"
    and "prepare_call env st call = Inr (d, args)" and "td_side_effect_level d \<noteq> Effect_NONE"
    and "stored st0 (td_name d) k v w" and "run_id st = run_id st0"
  shows "execute env st call w =
      (Inr \<lparr>ter_observation = v, ter_retry_count = 0, ter_replayed = True\<rparr>, w)
    \<or> (\<exists>err. execute env st call w = (Inl err, w))"
proof -
  let ?dg = "canonical_fingerprint (ee_digest env) (JObj args)"
  obtain x where x: "good w" "entry w st (td_name d) k = Some x"
    "le_status x = Ledger_SUCCEEDED" "le_result x = Some v"
    using assms(6) entry_run [OF assms(7)] by (auto simp: stored_def)
  have ex: "execute env st call w = (case tl_begin L st d call ?dg w of
      (Inl err, w1) \<Rightarrow> (Inl err, w1)
    | (Inr e, w1) \<Rightarrow> (if \<not> le_is_new e then resume_known env d st call args e
        else run_attempts env d st call args (Some (le_record_id e))) w1)"
    using assms by (auto simp: execute_def begin_ledger_def comp_simps split: prod.splits sum.splits)
  show ?thesis
  proof (cases "tl_begin L st d call ?dg w")
    case (Pair r w1)
    show ?thesis
    proof (cases r)
      case (Inl err)
      then show ?thesis using ex Pair begin_raises [of st d call ?dg w err w1] by simp
    next
      case (Inr e)
      have e: "\<not> le_is_new e" "w1 = w" "same_record x e"
        using begin_found [OF x(1) assms(2) x(2)] Pair Inr by auto
      have "le_status e = Ledger_SUCCEEDED" "le_result e = Some v"
        using e(3) x(3,4) by (simp_all add: same_record_def)
      then show ?thesis
        using ex Pair Inr e by (simp add: resume_known_def)
    qed
  qed
qed

end

subsection \<open>The number of handler calls\<close>

text \<open>
  \<open>calls\<close> is any counter of the world that a handler call raises by at most one and that the
  ledger, the reconcile handler, the clock and the pauses do not raise.
\<close>

definition counts_handler ::
  "('w \<Rightarrow> nat) \<Rightarrow> 'w exec_env \<Rightarrow> 'w tool_definition \<Rightarrow> bool" where
  "counts_handler calls env d \<longleftrightarrow>
     (\<forall>args. grows calls 1 (td_handler d args))
     \<and> (\<forall>h args. td_reconcile_handler d = Some h \<longrightarrow> grows calls 0 (h args))
     \<and> (\<forall>delay. grows calls 0 (ee_sleep env delay))
     \<and> (\<forall>w. calls (snd (ee_random env w)) \<le> calls w)
     \<and> (\<forall>L st. ee_ledger env = Some L \<longrightarrow>
         (\<forall>call dg. grows calls 0 (tl_begin L st d call dg))
         \<and> (\<forall>i. grows calls 0 (tl_mark_started L st i))
         \<and> (\<forall>i v. grows calls 0 (tl_succeed L st i v))
         \<and> (\<forall>i c. grows calls 0 (tl_fail L st i c))
         \<and> (\<forall>i c. grows calls 0 (tl_unknown L st i c)))"

lemma counts_handlerD:
  assumes "counts_handler calls env d"
  shows "grows calls 1 (td_handler d args)" "grows calls 0 (ee_sleep env delay)"
    "grows calls 0 (reconcile d args call)" "grows calls 0 (begin_ledger env st d call args)"
    "grows calls 0 (ledger_succeed env st i v)"
    "grows calls 0 (\<lambda>w. (Inr (fst (ee_random env w)), snd (ee_random env w)))"
  using assms
  by (auto simp: counts_handler_def reconcile_def begin_ledger_def ledger_succeed_def
      grows_def [of calls 0 "\<lambda>w. (Inr (fst (ee_random env w)), snd (ee_random env w))"]
      intro!: grows_intros grows_andthen0)

lemma counts_on_ledger:
  assumes "counts_handler calls env d"
  shows "grows calls 0 (on_ledger env rid (\<lambda>L i. tl_mark_started L st i))"
    "grows calls 0 (on_ledger env rid (\<lambda>L i. tl_fail L st i c))"
    "grows calls 0 (on_ledger env rid (\<lambda>L i. tl_unknown L st i c))"
  using assms by (auto simp: counts_handler_def on_ledger_def intro!: grows_intros)

lemma try_handler_grows:
  assumes "counts_handler calls env d"
  shows "grows calls 1 (try_handler env d st call args rid rc)"
proof -
  have "grows calls (1 + 0) (try_handler env d st call args rid rc)"
    unfolding try_handler_def
    by (rule grows_andthen [OF counts_handlerD(1) [OF assms]])
      (auto intro!: grows_intros grows_andthen0 counts_handlerD [OF assms] split: json.split)
  then show ?thesis by simp
qed

lemma after_transient_grows:
  assumes "counts_handler calls env d"
  shows "grows calls 0 (after_transient env d st call args rid rc e)"
  unfolding after_transient_def
  by (intro grows_intros grows_andthen0 counts_on_ledger [OF assms] counts_handlerD [OF assms])

lemma tool_attempts_grows:
  assumes "counts_handler calls env d"
  shows "grows calls (length as) (tool_attempts env d st call args rid limit t rc as)"
proof (induction "as" arbitrary: rc)
  case (Cons a as)
  note rules = counts_on_ledger [OF assms] counts_handlerD [OF assms]
  have "grows calls (1 + length as) (tool_attempts env d st call args rid limit t rc (a # as))"
    unfolding tool_attempts.simps Let_def
    by (rule grows_andthen0, intro grows_intros rules,
        rule grows_handle [OF try_handler_grows [OF assms]],
        rule grows_andthen0 [OF after_transient_grows [OF assms]])
      (intro grows_intros grows_andthen0 rules Cons.IH)
  then show ?case by simp
qed (simp add: grows_throw)

lemma run_attempts_grows:
  assumes "counts_handler calls env d"
  shows "grows calls (nat (attempt_limit d call)) (run_attempts env d st call args rid)"
  unfolding run_attempts_def
proof (rule grows_andthen0 [OF grows_gets])
  fix t
  show "grows calls (nat (attempt_limit d call)) (tool_attempts env d st call args rid
      (attempt_limit d call) t 0 [1..attempt_limit d call])"
    using tool_attempts_grows [OF assms, of "[1..attempt_limit d call]"] by simp
qed

lemma execute_grows:
  assumes "registry_get (ee_registry env) (tc_name call) (Some (ee_availability env)) = Inr d"
    and "counts_handler calls env d"
  shows "grows calls (nat (attempt_limit d call)) (execute env st call)"
proof (cases "prepare_call env st call")
  case (Inl e)
  then show ?thesis by (simp add: execute_def grows_throw)
next
  case (Inr p)
  obtain args where p: "p = (d, args)"
    using Inr assms(1) by (auto simp: prepare_call_def split: sum.splits)
  note rules = counts_on_ledger [OF assms(2)] counts_handlerD [OF assms(2)]
    run_attempts_grows [OF assms(2)]
  show ?thesis
    unfolding execute_def Inr p lift_result_Inr andthen_ret split_conv resume_known_def
    by (intro grows_andthen0 grows_intros rules)
qed

text \<open>The limit is the policy's for a recorded or read-only call, and one otherwise.\<close>

lemma attempt_limit_le: "attempt_limit d call \<le> max 1 (rp_max_attempts (td_retry_policy d))"
  by (simp add: attempt_limit_def split: tool_side_effect.split)

subsection \<open>What an execution can change\<close>

text \<open>
  A predicate of the world that the tool's handlers, the ledger, the clock and the pauses keep
  survives an execution, whatever its outcome.
\<close>

definition tool_keeps :: "('w \<Rightarrow> bool) \<Rightarrow> 'w exec_env \<Rightarrow> 'w tool_definition \<Rightarrow> bool" where
  "tool_keeps P env d \<longleftrightarrow>
     (\<forall>args. keeps P (td_handler d args))
     \<and> (\<forall>h args. td_reconcile_handler d = Some h \<longrightarrow> keeps P (h args))
     \<and> (\<forall>delay. keeps P (ee_sleep env delay))
     \<and> (\<forall>w. P w \<longrightarrow> P (snd (ee_random env w)))
     \<and> (\<forall>L st. ee_ledger env = Some L \<longrightarrow>
         (\<forall>call dg. keeps P (tl_begin L st d call dg))
         \<and> (\<forall>i. keeps P (tl_mark_started L st i))
         \<and> (\<forall>i v. keeps P (tl_succeed L st i v))
         \<and> (\<forall>i c. keeps P (tl_fail L st i c))
         \<and> (\<forall>i c. keeps P (tl_unknown L st i c)))"

lemma tool_keepsD:
  assumes "tool_keeps P env d"
  shows "keeps P (td_handler d args)" "keeps P (ee_sleep env delay)"
    "keeps P (reconcile d args call)" "keeps P (begin_ledger env st d call args)"
    "keeps P (ledger_succeed env st i v)"
    "keeps P (\<lambda>w. (Inr (fst (ee_random env w)), snd (ee_random env w)))"
    "keeps P (on_ledger env rid (\<lambda>L i. tl_mark_started L st i))"
    "keeps P (on_ledger env rid (\<lambda>L i. tl_fail L st i c))"
    "keeps P (on_ledger env rid (\<lambda>L i. tl_unknown L st i c))"
  using assms
  by (auto simp: tool_keeps_def reconcile_def begin_ledger_def ledger_succeed_def on_ledger_def
      keeps_def [of P "\<lambda>w. (Inr (fst (ee_random env w)), snd (ee_random env w))"]
      intro!: keeps_option keeps_if keeps_andthen)

lemma tool_attempts_keeps:
  assumes "tool_keeps P env d"
  shows "keeps P (tool_attempts env d st call args rid limit t rc as)"
proof (induction "as" arbitrary: rc)
  case (Cons a as)
  note rules = tool_keepsD [OF assms]
  have handler: "keeps P (try_handler env d st call args rid rc)" for rc
    unfolding try_handler_def
    by (intro keeps_andthen rules)
      (auto intro!: keeps_andthen keeps_option keeps_ret keeps_throw rules split: json.split)
  have transient: "keeps P (after_transient env d st call args rid rc e)" for rc e
    unfolding after_transient_def by (intro keeps_option keeps_if keeps_andthen keeps_ret rules)
  show ?case
    unfolding tool_attempts.simps Let_def
    by (intro keeps_andthen keeps_handle keeps_if keeps_option keeps_ret keeps_throw keeps_gets
        handler transient rules Cons.IH)
qed simp

lemma execute_keeps:
  assumes "\<And>d. registry_get (ee_registry env) (tc_name call) (Some (ee_availability env)) = Inr d
    \<Longrightarrow> tool_keeps P env d"
  shows "keeps P (execute env st call)"
proof (cases "prepare_call env st call")
  case (Inl e)
  then show ?thesis by (simp add: execute_def)
next
  case (Inr p)
  obtain d args where p: "p = (d, args)" by (cases p)
  then have d: "tool_keeps P env d"
    using Inr by (intro assms) (auto simp: prepare_call_def split: sum.splits)
  have attempts: "keeps P (run_attempts env d st call args rid)" for rid
    unfolding run_attempts_def by (intro keeps_andthen keeps_gets tool_attempts_keeps d)
  show ?thesis
    unfolding execute_def Inr p lift_result_Inr andthen_ret split_conv resume_known_def
    by (intro keeps_andthen keeps_if keeps_option keeps_ret keeps_throw attempts tool_keepsD [OF d])
qed

end
