(* ===== verification/Harness_Runner.thy ===== *)
theory Harness_Runner
  imports Harness_Budget Harness_Executor
begin

text \<open>
  \<open>AgentRunner\<close> of \<^verbatim>\<open>app/harness/runner.py\<close>: the loop that asks the model for an action, executes
  tools, keeps the budgets and writes a checkpoint at every phase change.

  The runner's state is the mutable \<open>RuntimeState\<close> and the world of its collaborators, reached
  through the ports: the model gateway, the checkpoint store, the trace recorder, the run
  control and the clock. Metrics, logging and tracing spans are left out.
\<close>

record 'w ports =
  po_decide :: "runtime_state \<Rightarrow> json list \<Rightarrow> (exn, 'w, model_result) comp"
  po_save :: "runtime_state \<Rightarrow> (exn, 'w, unit) comp"
  po_record_step :: "runtime_state \<Rightarrow> model_result \<Rightarrow> (exn, 'w, string) comp"
  po_record_tool :: "runtime_state \<Rightarrow> string \<Rightarrow> tool_call \<Rightarrow> jobj \<Rightarrow> int \<Rightarrow> int \<Rightarrow> string
    \<Rightarrow> string option \<Rightarrow> bool \<Rightarrow> (exn, 'w, unit) comp"
  po_record_guardrail :: "runtime_state \<Rightarrow> string option \<Rightarrow> string option \<Rightarrow> string \<Rightarrow> string
    \<Rightarrow> (exn, 'w, unit) comp"
  po_assert_active :: "runtime_state \<Rightarrow> (exn, 'w, unit) comp"
  po_now :: "'w \<Rightarrow> time"

record 'w agent_runner =
  ar_ports :: "'w ports"
  ar_registry :: "'w tool_registry"
  ar_executor :: "'w exec_env"
  ar_config :: agent_runner_config
  ar_tool_context :: tool_availability_context

record agent_run_result =
  arr_decision :: "string option"
  arr_confidence :: pyfloat
  arr_reason_codes :: "string list"
  arr_termination_reason :: string
  arr_state :: runtime_state

type_synonym ('w, 'a) run_comp = "(exn, runtime_state \<times> 'w, 'a) comp"

subsection \<open>Access to the state and the ports\<close>

definition on_world :: "(runtime_state \<Rightarrow> (exn, 'w, 'a) comp) \<Rightarrow> ('w, 'a) run_comp" where
  "on_world f = (\<lambda>(st, w). case f st w of (r, w') \<Rightarrow> (r, (st, w')))"

definition set_state :: "(runtime_state \<Rightarrow> runtime_state) \<Rightarrow> ('w, unit) run_comp" where
  "set_state f = modify (\<lambda>(st, w). (f st, w))"

definition get_state :: "('w, runtime_state) run_comp" where
  "get_state = gets fst"

definition check_budget ::
  "'w agent_runner \<Rightarrow> (run_budget \<Rightarrow> time \<Rightarrow> runtime_state \<Rightarrow> exn + unit) \<Rightarrow> ('w, unit) run_comp" where
  "check_budget rn chk =
    (\<lambda>(st, w). (chk (as_budget (ar_config rn)) (po_now (ar_ports rn) w) st, (st, w)))"

definition assert_active :: "'w agent_runner \<Rightarrow> ('w, unit) run_comp" where
  "assert_active rn = on_world (po_assert_active (ar_ports rn))"

definition save_checkpoint :: "'w agent_runner \<Rightarrow> ('w, unit) run_comp" where
  "save_checkpoint rn = on_world (po_save (ar_ports rn))"

definition monotonic :: "'w agent_runner \<Rightarrow> ('w, pyfloat) run_comp" where
  "monotonic rn = gets (\<lambda>(st, w). ee_monotonic (ar_executor rn) w)"

subsection \<open>Results\<close>

definition run_result :: "runtime_state \<Rightarrow> termination_reason \<Rightarrow> agent_run_result" where
  "run_result st reason = \<lparr>arr_decision = None, arr_confidence = 0, arr_reason_codes = [],
     arr_termination_reason = tr_value reason, arr_state = st\<rparr>"

definition final_result :: "model_action \<Rightarrow> termination_reason \<Rightarrow> runtime_state \<Rightarrow> agent_run_result" where
  "final_result a reason st = \<lparr>arr_decision = ma_decision a, arr_confidence = ma_confidence a,
     arr_reason_codes = ma_reason_codes a, arr_termination_reason = tr_value reason,
     arr_state = st\<rparr>"

definition terminate_run :: "'w agent_runner \<Rightarrow> termination_reason \<Rightarrow> ('w, agent_run_result) run_comp" where
  "terminate_run rn reason =
    andthen (set_state (\<lambda>st. st\<lparr>phase := TERMINATED, termination_reason_of := Some reason\<rparr>)) (\<lambda>_.
      handle
        (andthen (save_checkpoint rn) (\<lambda>_. andthen get_state (\<lambda>st. ret (run_result st reason))))
        (\<lambda>err. if err = StaleWorkerErr
           then andthen get_state (\<lambda>st. ret (run_result st TR_STALE_WORKER)) else throw err))"

definition complete_run :: "'w agent_runner \<Rightarrow> ('w, agent_run_result) run_comp" where
  "complete_run rn =
    andthen (assert_active rn) (\<lambda>_.
      andthen get_state (\<lambda>st.
        case final_action st of
          None \<Rightarrow> terminate_run rn TR_INVALID_ACTION
        | Some action \<Rightarrow>
            andthen (set_state (\<lambda>st. st\<lparr>phase := TERMINATED,
                termination_reason_of := Some TR_COMPLETED, last_error_code := None\<rparr>)) (\<lambda>_.
              andthen (save_checkpoint rn) (\<lambda>_.
                andthen get_state (\<lambda>st. ret (final_result action TR_COMPLETED st))))))"

subsection \<open>The pending tool\<close>

text \<open>\<open>float(confidence) if isinstance(confidence, (int, float)) else 0.0\<close>; a bool is an int.\<close>

fun json_confidence :: "json \<Rightarrow> pyfloat" where
  "json_confidence (JInt i) = of_int i"
| "json_confidence (JFloat x) = x"
| "json_confidence (JBool b) = (if b then 1 else 0)"
| "json_confidence _ = 0"

definition terminal_action :: "(json \<Rightarrow> string) \<Rightarrow> string \<Rightarrow> tool_call \<Rightarrow> model_action" where
  "terminal_action repr decision call =
    \<lparr>ma_decision = Some decision,
     ma_confidence = json_confidence (dict_get (tc_arguments call) ''confidence'' (JFloat 0)),
     ma_reason_codes = (case dict_get (tc_arguments call) ''reason_codes'' (JList []) of
        JList items \<Rightarrow> map (py_str repr) items | _ \<Rightarrow> []),
     ma_tool_call = None, ma_finish = True\<rparr>"

definition tool_observation :: "tool_call \<Rightarrow> tool_execution_result \<Rightarrow> jobj" where
  "tool_observation call ex =
    [(''tool'', JStr (tc_name call)), (''result'', JObj (ter_observation ex)),
     (''replayed'', JBool (ter_replayed ex))]"

text \<open>After the execution: the phase, the terminal decision of the tool and the stall check.\<close>

definition settle_tool ::
  "'w agent_runner \<Rightarrow> 'w tool_definition \<Rightarrow> tool_call \<Rightarrow> jobj \<Rightarrow> runtime_state
   \<Rightarrow> runtime_state \<times> stall_reason option" where
  "settle_tool rn d call obs st0 =
    (let st = st0\<lparr>pending_tool_call := None, pending_step_id := None\<rparr>;
         (st', stall) =
           (if str_truthy (td_terminal_decision d)
            then (st\<lparr>final_action := Some (terminal_action (ee_repr (ar_executor rn))
                       (the (td_terminal_decision d)) call),
                    phase := FINAL_PENDING\<rparr>, None)
            else record_observation (ee_digest (ar_executor rn)) (st\<lparr>phase := READY\<rparr>) obs)
     in (if stall = None then st' else st'\<lparr>stall_reason_of := stall\<rparr>, stall))"

definition execute_pending_tool :: "'w agent_runner \<Rightarrow> ('w, bool) run_comp" where
  "execute_pending_tool rn =
    andthen get_state (\<lambda>st.
      case (pending_tool_call st, pending_step_id st) of
        (Some call, Some step_id) \<Rightarrow>
          andthen (assert_active rn) (\<lambda>_.
          andthen (check_budget rn check_before_tool) (\<lambda>_.
          andthen (monotonic rn) (\<lambda>started.
          andthen (lift_result (registry_get (ar_registry rn) (tc_name call)
                     (Some (ar_tool_context rn)))) (\<lambda>d.
          andthen (on_world (\<lambda>st. execute (ar_executor rn) st call)) (\<lambda>ex.
          andthen (set_state (\<lambda>st. st\<lparr>tool_call_count := tool_call_count st + 1,
                     observations := observations st @ [tool_observation call ex]\<rparr>)) (\<lambda>_.
          andthen (monotonic rn) (\<lambda>finished.
          andthen (on_world (\<lambda>st. po_record_tool (ar_ports rn) st step_id call (ter_observation ex)
                     (py_round ((finished - started) * 1000)) (ter_retry_count ex)
                     ''SUCCEEDED'' None (ter_replayed ex))) (\<lambda>_.
          andthen get_state (\<lambda>st.
            let (st', stall) = settle_tool rn d call (tool_observation call ex) st in
            andthen (set_state (\<lambda>_. st')) (\<lambda>_.
            andthen (assert_active rn) (\<lambda>_.
            andthen (save_checkpoint rn) (\<lambda>_.
            ret (stall \<noteq> None)))))))))))))
      | _ \<Rightarrow> throw (PyExc ''RuntimeError''))"

definition record_tool_failure :: "'w agent_runner \<Rightarrow> exn \<Rightarrow> ('w, unit) run_comp" where
  "record_tool_failure rn err =
    andthen get_state (\<lambda>st.
      case (pending_tool_call st, pending_step_id st) of
        (Some call, Some step_id) \<Rightarrow>
          on_world (\<lambda>st. po_record_tool (ar_ports rn) st step_id call [] 0 0 ''FAILED''
            (Some (exn_code err)) False)
      | _ \<Rightarrow> ret ())"

subsection \<open>One turn of the loop\<close>

definition record_model_failure ::
  "'w agent_runner \<Rightarrow> exn \<Rightarrow> model_attempt list \<Rightarrow> ('w, unit) run_comp" where
  "record_model_failure rn err attempts =
    andthen (set_state (\<lambda>st.
      let st' = st\<lparr>loop_count := loop_count st + 1,
            model_call_count := model_call_count st + int (length attempts),
            input_tokens := input_tokens st + sum_of at_input_tokens attempts,
            output_tokens := output_tokens st + sum_of at_output_tokens attempts\<rparr>
      in if (case err of StructuredOutputErr _ \<Rightarrow> True | _ \<Rightarrow> False) \<and> 1 < length attempts
         then st'\<lparr>repair_call_count := repair_call_count st' + (int (length attempts) - 1)\<rparr>
         else st')) (\<lambda>_.
    andthen (on_world (\<lambda>st. po_record_step (ar_ports rn) st
      \<lparr>mr_action = default_action,
       mr_model_name = (if attempts = [] then ''unknown'' else at_model_name (last attempts)),
       mr_input_tokens = sum_of at_input_tokens attempts,
       mr_output_tokens = sum_of at_output_tokens attempts,
       mr_latency_ms = sum_of at_latency_ms attempts,
       mr_attempts = attempts,
       mr_repair_calls = max 0 (int (length attempts) - 1),
       mr_error_code = Some (exn_code err)\<rparr>)) (\<lambda>_. ret ()))"

definition ask_model :: "'w agent_runner \<Rightarrow> ('w, model_result) run_comp" where
  "ask_model rn =
    handle
      (on_world (\<lambda>st. po_decide (ar_ports rn) st
        (model_tools (ar_registry rn) (Some (ar_tool_context rn)))))
      (\<lambda>err. case err of
         StructuredOutputErr attempts \<Rightarrow>
           andthen (record_model_failure rn err attempts) (\<lambda>_. throw err)
       | ModelUnavailableErr attempts \<Rightarrow>
           andthen (record_model_failure rn err attempts) (\<lambda>_. throw err)
       | _ \<Rightarrow> throw err)"

definition add_usage :: "model_result \<Rightarrow> runtime_state \<Rightarrow> runtime_state" where
  "add_usage result st = st\<lparr>loop_count := loop_count st + 1,
     model_call_count := model_call_count st + mr_model_call_count result,
     input_tokens := input_tokens st + mr_input_tokens result,
     output_tokens := output_tokens st + mr_output_tokens result,
     repair_call_count := repair_call_count st + mr_repair_calls result\<rparr>"

definition finish_action ::
  "'w agent_runner \<Rightarrow> model_action \<Rightarrow> string \<Rightarrow> ('w, agent_run_result option) run_comp" where
  "finish_action rn action step_id =
    (if ma_tool_call action \<noteq> None \<or> ma_decision action = None
     then andthen (terminate_run rn TR_INVALID_ACTION) (\<lambda>r. ret (Some r))
     else
       andthen (set_state (\<lambda>st. st\<lparr>final_action := Some action, pending_step_id := Some step_id,
                  phase := FINAL_PENDING\<rparr>)) (\<lambda>_.
       andthen (save_checkpoint rn) (\<lambda>_.
       andthen (complete_run rn) (\<lambda>r. ret (Some r)))))"

text \<open>A tool call, before and after the stall detector's verdict on it.\<close>

definition dispatch_tool ::
  "'w agent_runner \<Rightarrow> tool_call \<Rightarrow> string \<Rightarrow> stall_reason option
   \<Rightarrow> ('w, agent_run_result option) run_comp" where
  "dispatch_tool rn call step_id stall =
    (if stall \<noteq> None then
       andthen (set_state (\<lambda>st. st\<lparr>stall_reason_of := stall\<rparr>)) (\<lambda>_.
       andthen (save_checkpoint rn) (\<lambda>_.
       andthen (terminate_run rn TR_LOOP_STALLED) (\<lambda>r. ret (Some r))))
     else
       andthen (check_budget rn check_before_tool) (\<lambda>_.
       andthen (set_state (\<lambda>st. st\<lparr>pending_tool_call := Some call,
                  pending_step_id := Some step_id, phase := TOOL_PENDING\<rparr>)) (\<lambda>_.
       andthen (save_checkpoint rn) (\<lambda>_.
       andthen (execute_pending_tool rn) (\<lambda>stalled.
         if stalled then andthen (terminate_run rn TR_LOOP_STALLED) (\<lambda>r. ret (Some r))
         else andthen get_state (\<lambda>st.
           if phase st = FINAL_PENDING then andthen (complete_run rn) (\<lambda>r. ret (Some r))
           else ret None))))))"

definition tool_action ::
  "'w agent_runner \<Rightarrow> tool_call \<Rightarrow> string \<Rightarrow> ('w, agent_run_result option) run_comp" where
  "tool_action rn call step_id =
    andthen get_state (\<lambda>st.
      let (st', stall) = record_action (ee_digest (ar_executor rn)) st call in
      andthen (set_state (\<lambda>_. st')) (\<lambda>_. dispatch_tool rn call step_id stall))"

text \<open>The body of \<open>while True\<close>: \<open>Some\<close> result when it returns, \<open>None\<close> when it goes round again.\<close>

definition model_turn :: "'w agent_runner \<Rightarrow> ('w, agent_run_result option) run_comp" where
  "model_turn rn =
    andthen (assert_active rn) (\<lambda>_.
    andthen (check_budget rn check_before_model) (\<lambda>_.
    andthen (ask_model rn) (\<lambda>result.
    andthen (set_state (add_usage result)) (\<lambda>_.
    andthen (check_budget rn check_after_model) (\<lambda>_.
    andthen (on_world (\<lambda>st. po_record_step (ar_ports rn) st result)) (\<lambda>step_id.
      if ma_finish (mr_action result) then finish_action rn (mr_action result) step_id
      else case ma_tool_call (mr_action result) of
        None \<Rightarrow> andthen (terminate_run rn TR_INVALID_ACTION) (\<lambda>r. ret (Some r))
      | Some call \<Rightarrow> tool_action rn call step_id))))))"

subsection \<open>The loop terminates\<close>

text \<open>
  What one turn does to the step counter: going round again needs a free step and uses it. The
  counter is a field of the runtime state, which the ports do not touch.
\<close>

lemma triple_set_state:
  "(\<And>st w. P (st, w) \<Longrightarrow> Q () (f st, w)) \<Longrightarrow> triple P (set_state f) Q E"
  by (auto simp: set_state_def triple_def)

lemma triple_check_budget:
  "(\<And>st w. P (st, w) \<Longrightarrow> chk (as_budget (ar_config rn)) (po_now (ar_ports rn) w) st = Inr () \<Longrightarrow>
      Q () (st, w)) \<Longrightarrow>
   (\<And>st w e. P (st, w) \<Longrightarrow> chk (as_budget (ar_config rn)) (po_now (ar_ports rn) w) st = Inl e \<Longrightarrow>
      E e (st, w)) \<Longrightarrow> triple P (check_budget rn chk) Q E"
  by (rule tripleI) (auto simp: check_budget_def split: prod.splits)

lemma keeps_on_world: "keeps (\<lambda>s. P (fst s)) (on_world f)"
  by (auto simp: keeps_def on_world_def split: prod.splits)

lemma keeps_set_state: "(\<And>st. P st \<Longrightarrow> P (f st)) \<Longrightarrow> keeps (\<lambda>s. P (fst s)) (set_state f)"
  by (auto simp: keeps_def set_state_def)

lemma keeps_get_state: "keeps P get_state"
  by (simp add: get_state_def keeps_gets)

lemma keeps_check_budget: "keeps P (check_budget rn chk)"
  by (auto simp: check_budget_def keeps_def)

lemma keeps_monotonic: "keeps P (monotonic rn)"
  by (simp add: monotonic_def keeps_gets)

lemma keeps_assert_active: "keeps (\<lambda>s. P (fst s)) (assert_active rn)"
  by (simp add: assert_active_def keeps_on_world)

lemma keeps_save_checkpoint: "keeps (\<lambda>s. P (fst s)) (save_checkpoint rn)"
  by (simp add: save_checkpoint_def keeps_on_world)

lemmas keeps_runner = keeps_on_world keeps_set_state keeps_get_state keeps_check_budget
  keeps_monotonic keeps_assert_active keeps_save_checkpoint keeps_ret keeps_throw
  keeps_lift_result

lemma settle_tool_loop_count [simp]: "loop_count (fst (settle_tool rn d call obs st)) = loop_count st"
  by (auto simp: settle_tool_def record_observation_def Let_def)

lemma record_action_loop_count [simp]: "loop_count (fst (record_action dg st call)) = loop_count st"
  by (simp add: record_action_def Let_def)

lemma get_state_triple:
  "(\<And>st. triple (\<lambda>s. P s \<and> fst s = st) (k st) Q E) \<Longrightarrow> triple P (andthen get_state k) Q E"
  by (auto simp: triple_def get_state_def andthen_def)

lemma keeps_get_stateI:
  "(\<And>st. P st \<Longrightarrow> keeps (\<lambda>s. P (fst s)) (k st)) \<Longrightarrow> keeps (\<lambda>s. P (fst s)) (andthen get_state k)"
  by (auto simp: keeps_def get_state_def andthen_def)

lemma keeps_split:
  "(\<And>a b. p = (a, b) \<Longrightarrow> keeps P (k a b)) \<Longrightarrow> keeps P (case p of (a, b) \<Rightarrow> k a b)"
  by (cases p) auto

lemma execute_pending_tool_keeps_step:
  "keeps (\<lambda>s. loop_count (fst s) = n) (execute_pending_tool rn)"
  unfolding execute_pending_tool_def Let_def
  by (intro keeps_get_stateI keeps_split keeps_option keeps_andthen keeps_runner)
    (auto dest: arg_cong [where f = "\<lambda>p. loop_count (fst p)"])

text \<open>A turn that returns a result has nothing to show about the next turn.\<close>

definition returns_some :: "('w, 'a option) run_comp \<Rightarrow> bool" where
  "returns_some m \<longleftrightarrow> (\<forall>s s'. m s \<noteq> (Inr None, s'))"

lemma returns_some_andthen: "(\<And>a. returns_some (k a)) \<Longrightarrow> returns_some (andthen m k)"
  unfolding returns_some_def by (metis andthen_InrE)

lemma returns_some_ret: "returns_some (ret (Some r))"
  by (simp add: returns_some_def)

lemma returns_some_triple:
  assumes "returns_some m"
  shows "triple P m (\<lambda>r s. r = None \<longrightarrow> Q s) (\<lambda>_ _. True)"
proof (rule triple_result, rule impI)
  fix s a s'
  assume "m s = (Inr a, s')" "a = None"
  with assms show "Q s'" unfolding returns_some_def by blast
qed

lemma returns_some_if: "returns_some m \<Longrightarrow> returns_some n \<Longrightarrow> returns_some (if b then m else n)"
  by simp

lemma returns_some_finish: "returns_some (finish_action rn action step_id)"
  unfolding finish_action_def by (intro returns_some_if returns_some_andthen returns_some_ret)

lemma dispatch_tool_continues:
  "triple (\<lambda>s. loop_count (fst s) = n) (dispatch_tool rn call step_id stall)
     (\<lambda>r s. r = None \<longrightarrow> loop_count (fst s) = n) (\<lambda>_ _. True)"
  unfolding dispatch_tool_def
proof (rule triple_if, goal_cases)
  case 1
  show ?case by (intro returns_some_triple returns_some_andthen returns_some_ret)
next
  case 2
  show ?case
    by (rule triple_seq [OF keeps_check_budget], rule triple_seq [OF keeps_set_state], simp,
        rule triple_seq [OF keeps_save_checkpoint],
        rule triple_seq [OF execute_pending_tool_keeps_step], rule triple_if,
        intro returns_some_triple returns_some_andthen returns_some_ret,
        rule triple_seq [OF keeps_get_state], rule triple_if,
        intro returns_some_triple returns_some_andthen returns_some_ret, rule triple_ret, simp)
qed

lemma tool_action_continues:
  "triple (\<lambda>s. loop_count (fst s) = n) (tool_action rn call step_id)
     (\<lambda>r s. r = None \<longrightarrow> loop_count (fst s) = n) (\<lambda>_ _. True)"
  unfolding tool_action_def
proof (rule get_state_triple, goal_cases)
  case (1 st)
  obtain st' stall where r: "record_action (ee_digest (ar_executor rn)) st call = (st', stall)"
    by fastforce
  then have "loop_count st' = loop_count st"
    using record_action_loop_count [of "ee_digest (ar_executor rn)" st call] by simp
  then have set: "triple (\<lambda>s. loop_count (fst s) = n \<and> fst s = st) (set_state (\<lambda>_. st'))
      (\<lambda>_ s. loop_count (fst s) = n) (\<lambda>_ _. True)"
    by (auto simp: triple_def set_state_def)
  show ?case
    unfolding r Let_def split_conv by (rule triple_andthen [OF set dispatch_tool_continues])
qed

lemma ask_model_keeps_step:
  "triple (\<lambda>s. loop_count (fst s) = n) (ask_model rn) (\<lambda>_ s. loop_count (fst s) = n) (\<lambda>_ _. True)"
  unfolding ask_model_def
proof (rule triple_handle [OF keeps_triple [OF keeps_on_world]], goal_cases)
  case (1 e)
  have "triple (\<lambda>s. loop_count (fst s) = n) (andthen m (\<lambda>_. throw e)) Q (\<lambda>_ _. True)"
    for m :: "('a, unit) run_comp" and Q :: "model_result \<Rightarrow> runtime_state \<times> 'a \<Rightarrow> bool"
    by (rule triple_result) (auto elim!: andthen_InrE)
  then show ?case by (auto intro: triple_throw split: exn.split)
qed

lemma model_turn_continues:
  "triple (\<lambda>s. loop_count (fst s) = n) (model_turn rn)
     (\<lambda>r s. r = None \<longrightarrow> n < cfg_max_steps (ar_config rn) \<and> loop_count (fst s) = n + 1)
     (\<lambda>_ _. True)"
proof -
  let ?at = "\<lambda>n s :: runtime_state \<times> 'a. loop_count (fst s) = n"
  let ?free = "\<lambda>s. ?at n s \<and> n < cfg_max_steps (ar_config rn)"
  let ?used = "\<lambda>s. ?at (n + 1) s \<and> n < cfg_max_steps (ar_config rn)"
  let ?post = "\<lambda>r s. r = None \<longrightarrow> n < cfg_max_steps (ar_config rn) \<and> ?at (n + 1) s"
  have budget: "triple (?at n) (check_budget rn check_before_model) (\<lambda>_. ?free) (\<lambda>_ _. True)"
    by (auto simp: triple_def check_budget_def check_before_model_ok as_budget_def
        split: sum.splits prod.splits)
  have ask: "triple ?free (ask_model rn) (\<lambda>_. ?free) (\<lambda>_ _. True)"
  proof (cases "n < cfg_max_steps (ar_config rn)")
    case True
    then show ?thesis using ask_model_keeps_step [of n rn] by simp
  qed (simp add: triple_def)
  have used: "triple ?free (set_state (add_usage r)) (\<lambda>_. ?used) (\<lambda>_ _. True)" for r
    by (auto simp: triple_def set_state_def add_usage_def)
  have check: "keeps ?used (check_budget rn check_after_model)"
    by (rule keeps_check_budget)
  have recorded: "keeps ?used (on_world (\<lambda>st. po_record_step (ar_ports rn) st r))" for r
    by (auto simp: keeps_def on_world_def split: prod.splits)
  have tool: "triple ?used (tool_action rn call step_id) ?post (\<lambda>_ _. True)" for call step_id
    using tool_action_continues [of "n + 1" rn call step_id]
    by (fastforce simp: triple_def split: sum.splits prod.splits)
  have active: "keeps (?at n) (assert_active rn)"
    by (rule keeps_assert_active)
  show ?thesis
    unfolding model_turn_def
    by (rule triple_seq [OF active], rule triple_andthen [OF budget], rule triple_andthen [OF ask],
        rule triple_andthen [OF used], rule triple_seq [OF check], rule triple_seq [OF recorded],
        rule triple_if, rule returns_some_triple [OF returns_some_finish], rule triple_option,
        intro returns_some_triple returns_some_andthen returns_some_ret, rule tool)
qed

lemma model_turn_continuesD:
  "model_turn rn s = (Inr None, s') \<Longrightarrow>
    loop_count (fst s) < cfg_max_steps (ar_config rn) \<and> loop_count (fst s') = loop_count (fst s) + 1"
  using triple_InrD [OF model_turn_continues refl] by blast

text \<open>\<open>while True\<close>: every round trip uses one of the free steps.\<close>

function run_loop ::
  "'w agent_runner \<Rightarrow> runtime_state \<times> 'w \<Rightarrow> (exn + agent_run_result) \<times> runtime_state \<times> 'w" where
  "run_loop rn s = (case model_turn rn s of
     (Inl e, s') \<Rightarrow> (Inl e, s')
   | (Inr (Some r), s') \<Rightarrow> (Inr r, s')
   | (Inr None, s') \<Rightarrow> run_loop rn s')"
  by pat_completeness auto

termination
proof (relation "measure (\<lambda>(rn, s). nat (cfg_max_steps (ar_config rn) - loop_count (fst s)))",
    goal_cases)
  case (2 rn s r s')
  have "model_turn rn s = (Inr None, s')" using 2 by simp
  from model_turn_continuesD [OF this] show ?case by simp
qed simp

declare run_loop.simps [simp del]

text \<open>A proof about one turn is a proof about the loop.\<close>

lemma run_loop_triple:
  assumes "triple P (model_turn rn) (\<lambda>r s. case r of None \<Rightarrow> P s | Some x \<Rightarrow> Q x s) E"
  shows "triple P (run_loop rn) Q E"
proof -
  have "P s \<Longrightarrow> (case run_loop rn s of (Inr a, s') \<Rightarrow> Q a s' | (Inl e, s') \<Rightarrow> E e s')" for s
    using assms
  proof (induction rn s rule: run_loop.induct)
    case (1 rn s)
    obtain r s' where turn: "model_turn rn s = (r, s')" by (cases "model_turn rn s")
    show ?case
    proof (cases r)
      case (Inl e)
      then show ?thesis
        using turn triple_InlD [OF 1(3)] 1(2) by (simp add: run_loop.simps [of rn s])
    next
      case (Inr x)
      then show ?thesis
        using turn triple_InrD [OF 1(3) 1(2), of x s'] 1(1) [of r s'] 1(3)
        by (cases x) (simp_all add: run_loop.simps [of rn s])
    qed
  qed
  then show ?thesis by (auto simp: triple_def)
qed

subsection \<open>The run\<close>

definition run_phases :: "'w agent_runner \<Rightarrow> ('w, agent_run_result) run_comp" where
  "run_phases rn =
    andthen get_state (\<lambda>st.
      if phase st = TERMINATED \<and> termination_reason_of st \<noteq> None then
        (case (termination_reason_of st, final_action st) of
           (Some TR_COMPLETED, Some action) \<Rightarrow> ret (final_result action TR_COMPLETED st)
         | (reason, _) \<Rightarrow> ret (run_result st (the reason)))
      else if phase st = FINAL_PENDING \<and> final_action st \<noteq> None then complete_run rn
      else if phase st = TOOL_PENDING then
        andthen (execute_pending_tool rn) (\<lambda>stalled.
          if stalled then terminate_run rn TR_LOOP_STALLED
          else andthen get_state (\<lambda>st.
            if final_action st \<noteq> None then complete_run rn else run_loop rn))
      else run_loop rn)"

definition guardrail_reason :: "exn \<Rightarrow> string" where
  "guardrail_reason err = (case err of ToolPermissionErr (Some r) \<Rightarrow> r | _ \<Rightarrow> exn_code err)"

definition record_guardrail :: "'w agent_runner \<Rightarrow> exn \<Rightarrow> ('w, unit) run_comp" where
  "record_guardrail rn err =
    (if exn_reason err = TR_TOOL_PERMISSION_DENIED \<or> exn_reason err = TR_UNKNOWN_TOOL
     then on_world (\<lambda>st. po_record_guardrail (ar_ports rn) st (pending_step_id st)
            (map_option tc_name (pending_tool_call st)) ''BLOCKED'' (guardrail_reason err))
     else ret ())"

definition set_error :: "string \<Rightarrow> ('w, unit) run_comp" where
  "set_error code = set_state (\<lambda>st. st\<lparr>last_error_code := Some code\<rparr>)"

definition on_exception :: "'w agent_runner \<Rightarrow> exn \<Rightarrow> ('w, agent_run_result) run_comp" where
  "on_exception rn err =
    (case err of
       BudgetExceededErr reason \<Rightarrow> andthen (set_error (exn_code err)) (\<lambda>_. terminate_run rn reason)
     | StaleWorkerErr \<Rightarrow> andthen (set_error ''STALE_WORKER'') (\<lambda>_.
         andthen get_state (\<lambda>st. ret (run_result st TR_STALE_WORKER)))
     | _ \<Rightarrow>
         if is_tool_error err then
           andthen (set_error (exn_code err)) (\<lambda>_.
           andthen (record_tool_failure rn err) (\<lambda>_.
           andthen (record_guardrail rn err) (\<lambda>_. terminate_run rn (exn_reason err))))
         else if is_harness_error err then
           andthen (set_error (exn_code err)) (\<lambda>_. terminate_run rn (exn_reason err))
         else
           andthen (set_error (exn_class_name err)) (\<lambda>_. terminate_run rn TR_INTERNAL_ERROR))"

definition run_agent :: "'w agent_runner \<Rightarrow> ('w, agent_run_result) run_comp" where
  "run_agent rn =
    andthen (set_state (\<lambda>st. st\<lparr>model_call_limit := cfg_max_model_calls (ar_config rn),
               repair_call_limit := cfg_max_repair_calls (ar_config rn)\<rparr>)) (\<lambda>_.
      handle (run_phases rn) (on_exception rn))"

subsection \<open>The counters stay within the budget\<close>

text \<open>\<open>counts p\<close>: the predicate \<open>p\<close> of the step and the tool counter.\<close>

definition counts :: "(int \<Rightarrow> int \<Rightarrow> bool) \<Rightarrow> runtime_state \<times> 'w \<Rightarrow> bool" where
  "counts p s \<longleftrightarrow> p (loop_count (fst s)) (tool_call_count (fst s))"

lemma counts_on_world: "keeps (counts p) (on_world f)"
  by (auto simp: keeps_def on_world_def counts_def split: prod.splits)

lemma counts_set_state:
  "(\<And>st. loop_count (f st) = loop_count st) \<Longrightarrow> (\<And>st. tool_call_count (f st) = tool_call_count st) \<Longrightarrow>
    keeps (counts p) (set_state f)"
  by (auto simp: keeps_def set_state_def counts_def)

lemma counts_ports:
  "keeps (counts p) (assert_active rn)" "keeps (counts p) (save_checkpoint rn)"
  by (simp_all add: assert_active_def save_checkpoint_def counts_on_world)

lemmas counts_rules = counts_on_world counts_set_state counts_ports keeps_get_state
  keeps_check_budget keeps_monotonic keeps_ret keeps_throw keeps_lift_result

lemma counts_terminate: "keeps (counts p) (terminate_run rn reason)"
  unfolding terminate_run_def
  by (intro keeps_andthen keeps_handle keeps_if counts_rules) simp_all

lemma counts_complete: "keeps (counts p) (complete_run rn)"
  unfolding complete_run_def
  by (intro keeps_andthen keeps_option counts_terminate counts_rules) simp_all

lemma counts_finish: "keeps (counts p) (finish_action rn action step_id)"
  unfolding finish_action_def
  by (intro keeps_andthen keeps_if counts_terminate counts_complete counts_rules) simp_all

lemma counts_record_tool_failure: "keeps (counts p) (record_tool_failure rn err)"
  unfolding record_tool_failure_def
  by (intro keeps_andthen keeps_split keeps_option counts_rules)

lemma counts_record_guardrail: "keeps (counts p) (record_guardrail rn err)"
  unfolding record_guardrail_def by (intro keeps_if counts_rules)

lemma counts_set_error: "keeps (counts p) (set_error c)"
  unfolding set_error_def by (rule counts_set_state) simp_all

lemma counts_on_exception: "keeps (counts p) (on_exception rn err)"
  unfolding on_exception_def
  by (cases err) (auto intro!: keeps_andthen counts_terminate counts_record_tool_failure
      counts_record_guardrail counts_set_error counts_rules)

lemma settle_tool_counts [simp]:
  "tool_call_count (fst (settle_tool rn d call obs st)) = tool_call_count st"
  by (auto simp: settle_tool_def record_observation_def Let_def)

lemma record_action_counts [simp]:
  "tool_call_count (fst (record_action dg st call)) = tool_call_count st"
  by (simp add: record_action_def Let_def)

abbreviation in_budget :: "'w agent_runner \<Rightarrow> runtime_state \<times> 'w \<Rightarrow> bool" where
  "in_budget rn \<equiv> counts (\<lambda>l t. l \<le> cfg_max_steps (ar_config rn) \<and> t \<le> cfg_max_tool_calls (ar_config rn))"

abbreviation tool_free :: "'w agent_runner \<Rightarrow> runtime_state \<times> 'w \<Rightarrow> bool" where
  "tool_free rn \<equiv> counts (\<lambda>l t. l \<le> cfg_max_steps (ar_config rn) \<and> t < cfg_max_tool_calls (ar_config rn))"

abbreviation step_free :: "'w agent_runner \<Rightarrow> runtime_state \<times> 'w \<Rightarrow> bool" where
  "step_free rn \<equiv> counts (\<lambda>l t. l < cfg_max_steps (ar_config rn) \<and> t \<le> cfg_max_tool_calls (ar_config rn))"

lemma in_budget_check_before_tool:
  "triple (in_budget rn) (check_budget rn check_before_tool) (\<lambda>_. tool_free rn) (\<lambda>_. in_budget rn)"
  by (rule triple_check_budget) (auto simp: counts_def check_before_tool_ok as_budget_def)

lemma in_budget_check_before_model:
  "triple (in_budget rn) (check_budget rn check_before_model) (\<lambda>_. step_free rn) (\<lambda>_. in_budget rn)"
  by (rule triple_check_budget) (auto simp: counts_def check_before_model_ok as_budget_def)

lemma free_in_budget: "tool_free rn s \<Longrightarrow> in_budget rn s" "step_free rn s \<Longrightarrow> in_budget rn s"
  by (simp_all add: counts_def)

lemma in_budget_execute_pending_tool: "keeps (in_budget rn) (execute_pending_tool rn)"
proof (rule keeps_from_triple)
  have count: "triple (tool_free rn) (set_state (\<lambda>st. st\<lparr>tool_call_count := tool_call_count st + 1,
      observations := observations st @ [obs]\<rparr>)) (\<lambda>_. in_budget rn) (\<lambda>_. in_budget rn)" for obs
    by (rule triple_set_state) (simp add: counts_def)
  have settle: "keeps (in_budget rn) (andthen get_state (\<lambda>st.
      let (st', stall) = settle_tool rn d call obs st in
      andthen (set_state (\<lambda>_. st')) (\<lambda>_. andthen (assert_active rn) (\<lambda>_.
      andthen (save_checkpoint rn) (\<lambda>_. ret (stall \<noteq> None))))))" for d call obs
    unfolding Let_def counts_def
    by (intro keeps_get_stateI keeps_split keeps_andthen keeps_runner)
      (auto dest: arg_cong [where f = "\<lambda>p. (loop_count (fst p), tool_call_count (fst p))"])
  show "triple (in_budget rn) (execute_pending_tool rn) (\<lambda>_. in_budget rn) (\<lambda>_. in_budget rn)"
    unfolding execute_pending_tool_def
  proof (rule triple_step [OF keeps_get_state], assumption, goal_cases)
    case (1 st)
    show ?case
    proof (cases "pending_tool_call st = None \<or> pending_step_id st = None")
      case True
      then show ?thesis by (auto intro: triple_throw split: option.split)
    next
      case False
      then obtain call step_id where "pending_tool_call st = Some call" "pending_step_id st = Some step_id"
        by auto
      then show ?thesis
        by (simp only: prod.case option.case)
          (rule triple_step [OF counts_ports(1)], assumption,
           rule triple_andthen [OF in_budget_check_before_tool],
           rule triple_step [OF keeps_monotonic], erule free_in_budget,
           rule triple_step [OF keeps_lift_result], erule free_in_budget,
           rule triple_step [OF counts_on_world], erule free_in_budget,
           rule triple_andthen [OF count], rule triple_step [OF keeps_monotonic], assumption,
           rule triple_step [OF counts_on_world], assumption,
           rule keeps_triple [OF settle])
    qed
  qed
qed

lemma in_budget_dispatch_tool: "keeps (in_budget rn) (dispatch_tool rn call step_id stall)"
proof -
  have check: "keeps (in_budget rn) (check_budget rn check_before_tool)"
    by (rule keeps_check_budget)
  show ?thesis
    unfolding dispatch_tool_def
    by (intro keeps_if keeps_andthen check in_budget_execute_pending_tool counts_terminate
        counts_complete counts_rules) simp_all
qed

lemma in_budget_tool_action: "keeps (in_budget rn) (tool_action rn call step_id)"
proof -
  have "keeps (in_budget rn) (andthen get_state (\<lambda>st.
      let (st', stall) = record_action dg st call in
      andthen (set_state (\<lambda>_. st')) (\<lambda>_. dispatch_tool rn call step_id stall)))" for dg
    unfolding Let_def counts_def
    by (intro keeps_get_stateI keeps_split keeps_andthen keeps_runner
        in_budget_dispatch_tool [unfolded counts_def])
      (auto dest: arg_cong [where f = "\<lambda>p. (loop_count (fst p), tool_call_count (fst p))"])
  then show ?thesis unfolding tool_action_def .
qed

lemma in_budget_record_model_failure:
  "triple (step_free rn) (record_model_failure rn err attempts) (\<lambda>_. in_budget rn) (\<lambda>_. in_budget rn)"
  unfolding record_model_failure_def
  by (rule triple_andthen [where Q' = "\<lambda>_. in_budget rn"],
      rule triple_set_state, simp add: counts_def Let_def,
      rule triple_step [OF counts_on_world], assumption, rule triple_ret, assumption)

lemma in_budget_ask_model:
  "triple (step_free rn) (ask_model rn) (\<lambda>_. step_free rn) (\<lambda>_. in_budget rn)"
  unfolding ask_model_def
proof (rule triple_handle [OF keeps_triple [OF counts_on_world]], goal_cases)
  case (1 e)
  have fail: "triple (step_free rn) (andthen (record_model_failure rn err attempts) (\<lambda>_. throw err))
      (\<lambda>_. step_free rn) (\<lambda>_. in_budget rn)" for err attempts
    by (rule triple_andthen [OF in_budget_record_model_failure triple_throw])
  show ?case
    by (cases e) (auto intro: fail triple_throw free_in_budget)
qed

lemma in_budget_model_turn: "keeps (in_budget rn) (model_turn rn)"
proof (rule keeps_from_triple)
  have usage: "triple (step_free rn) (set_state (add_usage r)) (\<lambda>_. in_budget rn) (\<lambda>_. in_budget rn)" for r
    by (rule triple_set_state) (simp add: counts_def add_usage_def)
  have rest: "keeps (in_budget rn)
      (if ma_finish action then finish_action rn action step_id
       else case ma_tool_call action of
         None \<Rightarrow> andthen (terminate_run rn TR_INVALID_ACTION) (\<lambda>r. ret (Some r))
       | Some call \<Rightarrow> tool_action rn call step_id)" for action step_id
    by (intro keeps_if keeps_option keeps_andthen counts_finish counts_terminate counts_rules
        in_budget_tool_action)
  show "triple (in_budget rn) (model_turn rn) (\<lambda>_. in_budget rn) (\<lambda>_. in_budget rn)"
    unfolding model_turn_def
    by (rule triple_step [OF counts_ports(1)], assumption,
        rule triple_andthen [OF in_budget_check_before_model],
        rule triple_andthen [OF in_budget_ask_model], rule triple_andthen [OF usage],
        rule triple_step [OF keeps_check_budget], assumption,
        rule triple_step [OF counts_on_world], assumption, rule keeps_triple [OF rest])
qed

text \<open>From one turn to the loop, and from the loop to the run.\<close>

lemma keeps_run_loop:
  assumes "keeps P (model_turn rn)"
  shows "keeps P (run_loop rn)"
  by (rule keeps_from_triple, rule run_loop_triple, rule triple_weaken [OF keeps_triple [OF assms]])
    (auto split: option.split)

lemma in_budget_run_phases: "keeps (in_budget rn) (run_phases rn)"
  unfolding run_phases_def
  by (intro keeps_andthen keeps_if keeps_run_loop in_budget_model_turn in_budget_execute_pending_tool
      counts_complete counts_terminate counts_rules)
    (auto split: option.split termination_reason.split)

lemma in_budget_run_agent: "keeps (in_budget rn) (run_agent rn)"
  unfolding run_agent_def
  by (intro keeps_andthen keeps_handle in_budget_run_phases counts_on_exception counts_rules) simp_all

end
