(* ===== verification/Harness_Safety.thy ===== *)
theory Harness_Safety
  imports Harness_Runner
begin

text \<open>
  What a run guarantees to the world of its collaborators: a tool starts only under a
  checkpoint that names it, a decision is reported only after its checkpoint is written, a
  finished run is not run again, and no exception leaves the run when its stores are sound.

  The guarantees are stated for any collaborators: \<open>last_saved\<close> observes what the checkpoint store
  wrote last, and \<open>I\<close> is any predicate of the world.
\<close>

definition steady :: "('w \<Rightarrow> 'b) \<Rightarrow> ('w \<Rightarrow> bool) \<Rightarrow> (exn, 'w, 'a) comp \<Rightarrow> bool" where
  "steady f I m \<longleftrightarrow> (\<forall>w. f (snd (m w)) = f w \<and> (I w \<longrightarrow> I (snd (m w))))"

definition saves :: "('w \<Rightarrow> runtime_state option) \<Rightarrow> 'w ports \<Rightarrow> bool" where
  "saves last_saved p \<longleftrightarrow> (\<forall>st w w'. po_save p st w = (Inr (), w') \<longrightarrow> last_saved w' = Some st)"

definition names_call :: "('w \<Rightarrow> runtime_state option) \<Rightarrow> tool_call \<Rightarrow> 'w \<Rightarrow> bool" where
  "names_call last_saved call w \<longleftrightarrow> (\<exists>s. last_saved w = Some s \<and> phase s = TOOL_PENDING
     \<and> pending_tool_call s = Some call)"

text \<open>
  \<open>I\<close> survives every collaborator, but the execution of a call only in a world whose last
  checkpoint is \<open>TOOL_PENDING\<close> with that call.
\<close>

definition tools_need_checkpoint ::
  "('w \<Rightarrow> runtime_state option) \<Rightarrow> ('w \<Rightarrow> bool) \<Rightarrow> 'w agent_runner \<Rightarrow> bool" where
  "tools_need_checkpoint last_saved I rn \<longleftrightarrow>
     saves last_saved (ar_ports rn)
     \<and> (\<forall>st w. I w \<longrightarrow> I (snd (po_save (ar_ports rn) st w)))
     \<and> (\<forall>st tools. steady last_saved I (po_decide (ar_ports rn) st tools))
     \<and> (\<forall>st. steady last_saved I (po_assert_active (ar_ports rn) st))
     \<and> (\<forall>st r. steady last_saved I (po_record_step (ar_ports rn) st r))
     \<and> (\<forall>st i c v l n s e b. steady last_saved I (po_record_tool (ar_ports rn) st i c v l n s e b))
     \<and> (\<forall>st i n d r. steady last_saved I (po_record_guardrail (ar_ports rn) st i n d r))
     \<and> (\<forall>st call w. I w \<and> names_call last_saved call w \<longrightarrow> I (snd (execute (ar_executor rn) st call w)))"

abbreviation world_ok :: "('w \<Rightarrow> bool) \<Rightarrow> runtime_state \<times> 'w \<Rightarrow> bool" where
  "world_ok I \<equiv> (\<lambda>s. I (snd s))"

lemma world_on_world:
  "(\<And>st w. I w \<Longrightarrow> I (snd (f st w))) \<Longrightarrow> keeps (world_ok I) (on_world f)"
  by (auto simp: keeps_def on_world_def split: prod.splits) (metis snd_conv)

lemma world_set_state: "keeps (world_ok I) (set_state f)"
  by (auto simp: keeps_def set_state_def)

lemma world_ports:
  assumes "tools_need_checkpoint last_saved I rn"
  shows "keeps (world_ok I) (assert_active rn)" "keeps (world_ok I) (save_checkpoint rn)"
    "keeps (world_ok I) (on_world (\<lambda>st. po_decide (ar_ports rn) st tools))"
    "keeps (world_ok I) (on_world (\<lambda>st. po_record_step (ar_ports rn) st r))"
    "keeps (world_ok I) (on_world (\<lambda>st. po_record_tool (ar_ports rn) st i c v l n x e b))"
    "keeps (world_ok I) (on_world (\<lambda>st. po_record_guardrail (ar_ports rn) st (g st) (h st) d u))"
  using assms
  by (auto simp: tools_need_checkpoint_def steady_def assert_active_def save_checkpoint_def
      intro!: world_on_world)

lemmas plain_rules = world_set_state keeps_get_state keeps_check_budget
  keeps_monotonic keeps_ret keeps_throw keeps_lift_result

text \<open>The state before a pending tool is executed: the checkpoint names the pending call.\<close>

definition pending_saved ::
  "('w \<Rightarrow> runtime_state option) \<Rightarrow> ('w \<Rightarrow> bool) \<Rightarrow> runtime_state \<times> 'w \<Rightarrow> bool" where
  "pending_saved last_saved I s \<longleftrightarrow> I (snd s)
     \<and> (\<forall>call. pending_tool_call (fst s) = Some call \<longrightarrow> names_call last_saved call (snd s))"

lemma pending_saved_keeps:
  assumes "tools_need_checkpoint last_saved I rn"
  shows "keeps (\<lambda>s. pending_saved last_saved I s \<and> fst s = st) (assert_active rn)"
  using assms
  by (auto simp: keeps_def pending_saved_def names_call_def assert_active_def on_world_def
      tools_need_checkpoint_def steady_def split: prod.splits) (metis snd_conv)+

lemma pending_tool_executes_safely:
  assumes "tools_need_checkpoint last_saved I rn"
  shows "triple (pending_saved last_saved I) (execute_pending_tool rn)
    (\<lambda>_. world_ok I) (\<lambda>_. world_ok I)"
  unfolding execute_pending_tool_def
proof (rule get_state_triple, goal_cases)
  case (1 st)
  note rules = world_ports [OF assms] plain_rules
  let ?P = "\<lambda>s. pending_saved last_saved I s \<and> fst s = st"
  have ok: "?P s \<Longrightarrow> world_ok I s" for s by (simp add: pending_saved_def)
  show ?case
  proof (cases "pending_tool_call st = None \<or> pending_step_id st = None")
    case True
    then show ?thesis by (auto intro!: triple_throw ok split: option.split)
  next
    case False
    then obtain call step_id where call: "pending_tool_call st = Some call"
      and step: "pending_step_id st = Some step_id" by auto
    have exec: "triple ?P (on_world (\<lambda>st. execute (ar_executor rn) st call))
        (\<lambda>_. world_ok I) (\<lambda>_. world_ok I)"
      using assms call
      by (intro tripleI) (auto simp: on_world_def tools_need_checkpoint_def pending_saved_def
          split: prod.splits, (metis snd_conv)+)
    have settle: "keeps (world_ok I) (andthen get_state (\<lambda>st.
        let (st', stall) = settle_tool rn d call obs st in
        andthen (set_state (\<lambda>_. st')) (\<lambda>_. andthen (assert_active rn) (\<lambda>_.
        andthen (save_checkpoint rn) (\<lambda>_. ret (stall \<noteq> None))))))" for d obs
      unfolding Let_def by (intro keeps_andthen keeps_split rules)
    show ?thesis
      unfolding call step prod.case option.case
      by (rule triple_step [OF pending_saved_keeps [OF assms]], erule ok,
          rule triple_step [OF keeps_check_budget], erule ok,
          rule triple_step [OF keeps_monotonic], erule ok,
          rule triple_step [OF keeps_lift_result], erule ok,
          rule triple_andthen [OF exec], rule keeps_triple)
        (intro keeps_andthen settle rules)
  qed
qed

lemma world_terminate:
  "tools_need_checkpoint last_saved I rn \<Longrightarrow> keeps (world_ok I) (terminate_run rn reason)"
  unfolding terminate_run_def by (intro keeps_andthen keeps_handle keeps_if world_ports plain_rules)

lemma world_complete:
  "tools_need_checkpoint last_saved I rn \<Longrightarrow> keeps (world_ok I) (complete_run rn)"
  unfolding complete_run_def
  by (intro keeps_andthen keeps_option world_terminate world_ports plain_rules)

lemma world_finish:
  "tools_need_checkpoint last_saved I rn \<Longrightarrow> keeps (world_ok I) (finish_action rn action step_id)"
  unfolding finish_action_def
  by (intro keeps_andthen keeps_if world_terminate world_complete world_ports plain_rules)

lemma world_ask_model:
  assumes "tools_need_checkpoint last_saved I rn"
  shows "keeps (world_ok I) (ask_model rn)"
proof -
  have fail: "keeps (world_ok I) (record_model_failure rn err attempts)" for err attempts
    unfolding record_model_failure_def by (intro keeps_andthen world_ports [OF assms] plain_rules)
  show ?thesis
    unfolding ask_model_def
    by (intro keeps_handle world_ports [OF assms] plain_rules)
      (auto intro!: keeps_andthen fail split: exn.split)
qed

lemma world_dispatch_tool:
  assumes need: "tools_need_checkpoint last_saved I rn"
  shows "keeps (world_ok I) (dispatch_tool rn call step_id stall)"
proof (rule keeps_from_triple)
  note rules = world_ports [OF need] plain_rules world_terminate [OF need] world_complete [OF need]
  have set: "triple (world_ok I) (set_state (\<lambda>st. st\<lparr>pending_tool_call := Some call,
      pending_step_id := Some step_id, phase := TOOL_PENDING\<rparr>))
      (\<lambda>_ s. I (snd s) \<and> phase (fst s) = TOOL_PENDING \<and> pending_tool_call (fst s) = Some call)
      (\<lambda>_. world_ok I)"
    by (rule triple_set_state) simp
  have save: "triple
      (\<lambda>s. I (snd s) \<and> phase (fst s) = TOOL_PENDING \<and> pending_tool_call (fst s) = Some call)
      (save_checkpoint rn) (\<lambda>_. pending_saved last_saved I) (\<lambda>_. world_ok I)"
    using need
    by (intro tripleI) (auto simp: save_checkpoint_def on_world_def tools_need_checkpoint_def
        saves_def pending_saved_def names_call_def split: prod.splits, (metis snd_conv)+)
  show "triple (world_ok I) (dispatch_tool rn call step_id stall)
      (\<lambda>_. world_ok I) (\<lambda>_. world_ok I)"
    unfolding dispatch_tool_def
    by (rule triple_if, rule keeps_triple, intro keeps_andthen rules,
        rule triple_step [OF keeps_check_budget], assumption,
        rule triple_andthen [OF set], rule triple_andthen [OF save],
        rule triple_andthen [OF pending_tool_executes_safely [OF need]],
        rule keeps_triple, intro keeps_if keeps_andthen rules)
qed

lemma world_model_turn:
  assumes need: "tools_need_checkpoint last_saved I rn"
  shows "keeps (world_ok I) (model_turn rn)"
  unfolding model_turn_def tool_action_def Let_def
  by (intro keeps_andthen keeps_if keeps_option keeps_split world_ports [OF need] plain_rules
      world_ask_model [OF need] world_finish [OF need] world_terminate [OF need]
      world_dispatch_tool [OF need])

lemma world_on_exception:
  assumes need: "tools_need_checkpoint last_saved I rn"
  shows "keeps (world_ok I) (on_exception rn err)"
proof -
  have "keeps (world_ok I) (record_tool_failure rn err)" for err
    unfolding record_tool_failure_def
    by (intro keeps_andthen keeps_split keeps_option world_ports [OF need] plain_rules)
  moreover have "keeps (world_ok I) (record_guardrail rn err)" for err
    unfolding record_guardrail_def by (intro keeps_if world_ports [OF need] plain_rules)
  moreover have "keeps (world_ok I) (set_error c)" for c
    unfolding set_error_def by (rule world_set_state)
  ultimately show ?thesis
    unfolding on_exception_def
    by (cases err) (auto intro!: keeps_andthen world_terminate [OF need] keeps_get_state)
qed

lemma world_run_agent:
  assumes need: "tools_need_checkpoint last_saved I rn"
  shows "triple (\<lambda>s. world_ok I s \<and> (phase (fst s) = TOOL_PENDING \<longrightarrow> pending_saved last_saved I s))
    (run_agent rn) (\<lambda>_. world_ok I) (\<lambda>_. world_ok I)"
proof -
  note rules = world_ports [OF need] plain_rules world_terminate [OF need] world_complete [OF need]
    keeps_run_loop [OF world_model_turn [OF need]]
  let ?P = "\<lambda>s. world_ok I s \<and> (phase (fst s) = TOOL_PENDING \<longrightarrow> pending_saved last_saved I s)"
  have loop: "triple ?P m (\<lambda>_. world_ok I) (\<lambda>_. world_ok I)" if "keeps (world_ok I) m"
    for m :: "('a, agent_run_result) run_comp"
    by (rule triple_weaken [OF keeps_triple [OF that]]) auto
  have phases: "triple ?P (run_phases rn) (\<lambda>_. world_ok I) (\<lambda>_. world_ok I)"
    unfolding run_phases_def
  proof (rule get_state_triple, goal_cases)
    case (1 st)
    have tool: "triple (\<lambda>s. ?P s \<and> fst s = st) (execute_pending_tool rn)
        (\<lambda>_. world_ok I) (\<lambda>_. world_ok I)" if "phase st = TOOL_PENDING"
      by (rule triple_weaken [OF pending_tool_executes_safely [OF need]]) (use that in auto)
    have other: "triple (\<lambda>s. ?P s \<and> fst s = st) m (\<lambda>_. world_ok I) (\<lambda>_. world_ok I)"
      if "keeps (world_ok I) m" for m :: "('a, agent_run_result) run_comp"
      by (rule triple_weaken [OF keeps_triple [OF that]]) auto
    show ?case
      by (intro triple_if other keeps_ret rules triple_andthen [OF tool] keeps_triple keeps_if
          keeps_andthen) (auto split: option.split termination_reason.split)
  qed
  have limits: "triple ?P (set_state (\<lambda>st. st\<lparr>model_call_limit := m, repair_call_limit := r\<rparr>))
      (\<lambda>_. ?P) (\<lambda>_. world_ok I)" for m r
    by (rule triple_set_state) (simp add: pending_saved_def)
  show ?thesis
    unfolding run_agent_def
    by (rule triple_andthen [OF limits], rule triple_handle [OF phases])
      (rule keeps_triple [OF world_on_exception [OF need]])
qed

subsection \<open>A reported decision is saved\<close>

definition decided ::
  "('w \<Rightarrow> runtime_state option) \<Rightarrow> agent_run_result \<Rightarrow> runtime_state \<times> 'w \<Rightarrow> bool" where
  "decided last_saved r s \<longleftrightarrow>
     last_saved (snd s) = Some (fst s) \<and> phase (fst s) = TERMINATED
     \<and> termination_reason_of (fst s) = Some TR_COMPLETED
     \<and> (\<exists>a. final_action (fst s) = Some a \<and> r = final_result a TR_COMPLETED (fst s))"

definition undecided :: "('w, agent_run_result) run_comp \<Rightarrow> bool" where
  "undecided m \<longleftrightarrow> triple (\<lambda>_. True) m (\<lambda>r _. arr_decision r = None) (\<lambda>_ _. True)"

lemma triple_any: "(\<And>a. triple (\<lambda>_. True) (k a) Q (\<lambda>_ _. True)) \<Longrightarrow>
    triple (\<lambda>_. True) (andthen m k) Q (\<lambda>_ _. True)"
  by (rule triple_andthen [where Q' = "\<lambda>_ _. True"]) (rule tripleI, simp_all)

lemma run_result_undecided [simp]: "arr_decision (run_result st reason) = None"
  by (simp add: run_result_def)

lemma terminate_run_undecided: "undecided (terminate_run rn reason)"
  unfolding undecided_def terminate_run_def
  by (intro triple_any triple_handle [where E' = "\<lambda>_ _. True"] triple_if triple_ret triple_throw)
    simp_all

lemma on_exception_undecided: "undecided (on_exception rn err)"
  using terminate_run_undecided unfolding on_exception_def undecided_def
  by (cases err) (auto intro!: triple_any triple_ret)

lemma complete_run_decided:
  assumes "saves last_saved (ar_ports rn)"
  shows "triple (\<lambda>_. True) (complete_run rn)
    (\<lambda>r s. arr_decision r \<noteq> None \<longrightarrow> decided last_saved r s) (\<lambda>_ _. True)"
proof -
  have save: "triple (\<lambda>s. P (fst s)) (save_checkpoint rn)
      (\<lambda>_ s. P (fst s) \<and> last_saved (snd s) = Some (fst s)) (\<lambda>_ _. True)" for P
    using assms by (intro tripleI) (auto simp: save_checkpoint_def on_world_def saves_def
        split: prod.splits)
  have get: "triple P (andthen get_state (\<lambda>st. ret (f st))) Q (\<lambda>_ _. True)"
    if "\<And>s. P s \<Longrightarrow> Q (f (fst s)) s"
    for P Q and f :: "runtime_state \<Rightarrow> agent_run_result"
    by (intro get_state_triple triple_ret) (auto intro: that)
  show ?thesis
    unfolding complete_run_def
  proof (rule triple_any, rule get_state_triple, rule triple_option, goal_cases)
    case (1 u st)
    show ?case
      by (rule triple_weaken [OF terminate_run_undecided [unfolded undecided_def]]) auto
  next
    case (2 u st action)
    let ?P = "\<lambda>st. phase st = TERMINATED \<and> termination_reason_of st = Some TR_COMPLETED
      \<and> final_action st = Some action"
    have set: "triple (\<lambda>s. True \<and> fst s = st) (set_state (\<lambda>st. st\<lparr>phase := TERMINATED,
        termination_reason_of := Some TR_COMPLETED, last_error_code := None\<rparr>))
        (\<lambda>_ s. ?P (fst s)) (\<lambda>_ _. True)"
      using 2 by (intro triple_set_state) simp
    show ?case
      by (rule triple_andthen [OF set], rule triple_andthen [OF save], rule get)
        (auto simp: decided_def)
  qed
qed

abbreviation final_decided ::
  "('w \<Rightarrow> runtime_state option) \<Rightarrow> agent_run_result \<Rightarrow> runtime_state \<times> 'w \<Rightarrow> bool" where
  "final_decided last_saved r s \<equiv> arr_decision r \<noteq> None \<longrightarrow> decided last_saved r s"

abbreviation turn_decided ::
  "('w \<Rightarrow> runtime_state option) \<Rightarrow> agent_run_result option \<Rightarrow> runtime_state \<times> 'w \<Rightarrow> bool" where
  "turn_decided last_saved r s \<equiv> \<forall>x. r = Some x \<longrightarrow> final_decided last_saved x s"

lemma undecided_final: "undecided m \<Longrightarrow> triple P m (final_decided last_saved) (\<lambda>_ _. True)"
  unfolding undecided_def by (erule triple_weaken) auto

lemma final_turn:
  "triple P m (final_decided last_saved) (\<lambda>_ _. True) \<Longrightarrow>
    triple P (andthen m (\<lambda>r. ret (Some r))) (turn_decided last_saved) (\<lambda>_ _. True)"
  by (erule triple_andthen) (rule triple_ret, simp)

lemma model_turn_decided:
  assumes "saves last_saved (ar_ports rn)"
  shows "triple (\<lambda>_. True) (model_turn rn) (turn_decided last_saved) (\<lambda>_ _. True)"
proof -
  note stop = final_turn [OF undecided_final [OF terminate_run_undecided]]
  note fin = final_turn [OF complete_run_decided [OF assms]]
  have finish: "triple (\<lambda>_. True) (finish_action rn action step_id) (turn_decided last_saved) (\<lambda>_ _. True)"
    for action step_id
    unfolding finish_action_def by (rule triple_if, rule stop, intro triple_any fin)
  have dispatch: "triple (\<lambda>_. True) (dispatch_tool rn call step_id stall) (turn_decided last_saved) (\<lambda>_ _. True)"
    for call step_id stall
    unfolding dispatch_tool_def
    by (rule triple_if, rule triple_any, rule triple_any, rule stop,
        rule triple_any, rule triple_any, rule triple_any, rule triple_any, rule triple_if,
        rule stop, rule triple_any, rule triple_if, rule fin, rule triple_ret, simp)
  have tool: "triple (\<lambda>_. True) (tool_action rn call step_id) (turn_decided last_saved) (\<lambda>_ _. True)"
    for call step_id
    unfolding tool_action_def Let_def
    by (rule triple_any, rule triple_split, rule triple_any, rule dispatch)
  show ?thesis
    unfolding model_turn_def
    by (rule triple_any, rule triple_any, rule triple_any, rule triple_any, rule triple_any,
        rule triple_any, rule triple_if, rule finish, rule triple_option, rule stop, rule tool)
qed

lemma run_loop_decided:
  assumes "saves last_saved (ar_ports rn)"
  shows "triple (\<lambda>_. True) (run_loop rn) (final_decided last_saved) (\<lambda>_ _. True)"
  by (rule run_loop_triple, rule triple_weaken [OF model_turn_decided [OF assms]])
    (auto split: option.split)

lemma run_agent_decided:
  assumes "saves last_saved (ar_ports rn)"
  shows "triple (\<lambda>s. phase (fst s) \<noteq> TERMINATED) (run_agent rn) (final_decided last_saved) (\<lambda>_ _. True)"
proof -
  have phases: "triple (\<lambda>s. phase (fst s) \<noteq> TERMINATED) (run_phases rn)
      (final_decided last_saved) (\<lambda>_ _. True)"
    unfolding run_phases_def
  proof (rule get_state_triple, goal_cases)
    case (1 st)
    let ?P = "\<lambda>s :: runtime_state \<times> 'a. phase (fst s) \<noteq> TERMINATED \<and> fst s = st"
    have any: "triple ?P m Q (\<lambda>_ _. True)" if "triple (\<lambda>_. True) m Q (\<lambda>_ _. True)"
      for m :: "('a, agent_run_result) run_comp" and Q
      by (rule triple_weaken [OF that]) auto
    have impossible: "phase st = TERMINATED \<and> b \<Longrightarrow> triple ?P m Q (\<lambda>_ _. True)"
      for m :: "('a, agent_run_result) run_comp" and Q b
      by (auto simp: triple_def)
    show ?case
      by (rule triple_if, erule impossible, rule triple_if, rule any,
          rule complete_run_decided [OF assms], rule triple_if, rule any, rule triple_any,
          rule triple_if, rule undecided_final [OF terminate_run_undecided], rule triple_any,
          rule triple_if, rule complete_run_decided [OF assms],
          rule run_loop_decided [OF assms], rule any, rule run_loop_decided [OF assms])
  qed
  have limits: "triple (\<lambda>s. phase (fst s) \<noteq> TERMINATED)
      (set_state (\<lambda>st. st\<lparr>model_call_limit := m, repair_call_limit := r\<rparr>))
      (\<lambda>_ s. phase (fst s) \<noteq> TERMINATED) (\<lambda>_ _. True)" for m r
    by (rule triple_set_state) simp
  show ?thesis
    unfolding run_agent_def
    by (rule triple_andthen [OF limits], rule triple_handle [OF phases],
        rule undecided_final [OF on_exception_undecided])
qed

subsection \<open>A finished run is not run again\<close>

lemma run_agent_terminated:
  assumes "phase st = TERMINATED" and "termination_reason_of st = Some reason"
  shows "\<exists>r st'. run_agent rn (st, w) = (Inr r, (st', w))
    \<and> arr_termination_reason r = tr_value reason
    \<and> (arr_decision r = (if reason = TR_COMPLETED then Option.bind (final_action st) ma_decision else None))"
proof -
  let ?st = "st\<lparr>model_call_limit := cfg_max_model_calls (ar_config rn),
     repair_call_limit := cfg_max_repair_calls (ar_config rn)\<rparr>"
  have "run_phases rn (?st, w) = (Inr (case (reason, final_action st) of
      (TR_COMPLETED, Some a) \<Rightarrow> final_result a TR_COMPLETED ?st
    | _ \<Rightarrow> run_result ?st reason), (?st, w))"
    using assms by (cases reason; cases "final_action st")
      (simp_all add: run_phases_def get_state_def andthen_apply)
  then have "run_agent rn (st, w) = (Inr (case (reason, final_action st) of
      (TR_COMPLETED, Some a) \<Rightarrow> final_result a TR_COMPLETED ?st
    | _ \<Rightarrow> run_result ?st reason), (?st, w))"
    by (simp add: run_agent_def set_state_def andthen_apply handle_apply)
  then show ?thesis
    by (cases reason; cases "final_action st") (auto simp: run_result_def final_result_def)
qed

subsection \<open>No exception leaves a run with sound stores\<close>

definition sound_stores :: "'w ports \<Rightarrow> bool" where
  "sound_stores p \<longleftrightarrow>
     (\<forall>st w e w'. po_save p st w = (Inl e, w') \<longrightarrow> e = StaleWorkerErr)
     \<and> (\<forall>st i c v l n s e b w err w'. po_record_tool p st i c v l n s e b w \<noteq> (Inl err, w'))
     \<and> (\<forall>st i n d r w err w'. po_record_guardrail p st i n d r w \<noteq> (Inl err, w'))"

lemma terminate_run_returns:
  assumes "sound_stores (ar_ports rn)"
  shows "triple (\<lambda>_. True) (terminate_run rn reason) (\<lambda>_ _. True) (\<lambda>_ _. False)"
proof -
  have save: "triple (\<lambda>_. True) (save_checkpoint rn) (\<lambda>_ _. True) (\<lambda>e _. e = StaleWorkerErr)"
    using assms by (intro tripleI) (auto simp: save_checkpoint_def on_world_def sound_stores_def
        split: prod.splits)
  have get: "triple (\<lambda>_. True) (andthen get_state (\<lambda>st. ret (f st))) (\<lambda>_ _. True) E"
    for f :: "runtime_state \<Rightarrow> agent_run_result" and E
    by (intro get_state_triple triple_ret) simp
  show ?thesis
    unfolding terminate_run_def
    by (rule triple_andthen [where Q' = "\<lambda>_ _. True"], rule triple_set_state, simp,
        rule triple_handle [where E' = "\<lambda>e _. e = StaleWorkerErr"],
        rule triple_andthen [OF save get], rule triple_if, rule triple_weaken [OF get], simp_all,
        rule triple_throw, simp)
qed

lemma on_exception_returns:
  assumes "sound_stores (ar_ports rn)"
  shows "triple (\<lambda>_. True) (on_exception rn err) (\<lambda>_ _. True) (\<lambda>_ _. False)"
proof -
  have seq: "triple (\<lambda>_. True) (andthen m k) Q (\<lambda>_ _. False)"
    if "triple (\<lambda>_. True) m (\<lambda>_ _. True) (\<lambda>_ _. False)"
      and "\<And>a. triple (\<lambda>_. True) (k a) Q (\<lambda>_ _. False)"
    for m :: "('a, 'b) run_comp" and k :: "'b \<Rightarrow> ('a, agent_run_result) run_comp" and Q
    using that by (rule triple_andthen)
  have err: "triple (\<lambda>_. True) (set_error c) (\<lambda>_ _. True) (\<lambda>_ _. False)" for c
    unfolding set_error_def by (rule triple_set_state) simp
  have tool: "triple (\<lambda>_. True) (record_tool_failure rn e) (\<lambda>_ _. True) (\<lambda>_ _. False)" for e
    using assms by (intro tripleI) (auto simp: record_tool_failure_def get_state_def andthen_apply
        on_world_def sound_stores_def split: option.splits prod.splits)
  have guard: "triple (\<lambda>_. True) (record_guardrail rn e) (\<lambda>_ _. True) (\<lambda>_ _. False)" for e
    using assms by (intro tripleI) (auto simp: record_guardrail_def on_world_def sound_stores_def
        split: if_splits prod.splits)
  have stale: "triple (\<lambda>_. True) (andthen get_state (\<lambda>st. ret (f st))) (\<lambda>_ _. True) (\<lambda>_ _. False)"
    for f :: "runtime_state \<Rightarrow> agent_run_result"
    by (intro get_state_triple triple_ret) simp
  show ?thesis
    unfolding on_exception_def
    by (cases err) (simp_all add: seq err tool guard stale terminate_run_returns [OF assms])
qed

lemma run_agent_returns:
  assumes "sound_stores (ar_ports rn)"
  shows "triple (\<lambda>_. True) (run_agent rn) (\<lambda>_ _. True) (\<lambda>_ _. False)"
  unfolding run_agent_def
  by (rule triple_andthen [where Q' = "\<lambda>_ _. True"], rule triple_set_state, simp,
      rule triple_handle [where E' = "\<lambda>_ _. True"], rule tripleI, simp_all add:
      on_exception_returns [OF assms])

end
