(* ===== verification/Text.thy ===== *)
theory Text
  imports Prelude
begin

text \<open>
  Text that the code builds: decimal numerals (\<open>str(n)\<close>), \<open>f''{x:.2f}''\<close>, and literals with
  characters outside ASCII, which are written as their UTF-8 bytes.
\<close>

definition show_digit :: "nat \<Rightarrow> char" where
  "show_digit n = ''0123456789'' ! n"

fun show_nat :: "nat \<Rightarrow> string" where
  "show_nat n = (if n < 10 then [show_digit n] else show_nat (n div 10) @ [show_digit (n mod 10)])"

declare show_nat.simps [simp del]

definition show_int :: "int \<Rightarrow> string" where
  "show_int i = (if i < 0 then CHR ''-'' # show_nat (nat (- i)) else show_nat (nat i))"

definition pad2 :: "nat \<Rightarrow> string" where
  "pad2 n = [show_digit (n div 10), show_digit (n mod 10)]"

definition fixed2 :: "pyfloat \<Rightarrow> string" where
  "fixed2 x = (let n = py_round (x * 100); m = nat \<bar>n\<bar> in
     (if n < 0 then ''-'' else []) @ show_nat (m div 100) @ ''.'' @ pad2 (m mod 100))"

definition utf8 :: "nat list \<Rightarrow> string" where
  "utf8 = map char_of"

lemma length_show_nat [simp]: "show_nat n \<noteq> []"
  by (subst show_nat.simps) simp

end
