(* ===== verification/Harness_Fakes.thy ===== *)
theory Harness_Fakes
  imports Harness_Safety Text
begin

text \<open>
  The in-memory collaborators of \<^verbatim>\<open>app/harness/fakes.py\<close>: the scripted model, the memory
  checkpoint store and the memory trace. The memory ledger is in \<open>Harness_Ledger\<close>; the world is
  its dictionary with the other fakes' attributes, and a component for the tools' own state.
\<close>

record 'x fake_state =
  fk_results :: "model_result list"
  fk_states :: "runtime_state list"
  fk_steps :: "model_result list"
  fk_tools :: "(tool_call \<times> jobj) list"
  fk_guardrails :: "(string \<times> string) list"
  fk_own :: 'x

type_synonym 'x fake_world = "memory_records \<times> 'x fake_state"

definition scripted_decide ::
  "runtime_state \<Rightarrow> json list \<Rightarrow> (exn, 'x fake_world, model_result) comp" where
  "scripted_decide st tools = (\<lambda>(recs, f). case fk_results f of
     [] \<Rightarrow> (Inl (PyExc ''RuntimeError''), (recs, f))
   | r # rs \<Rightarrow> (Inr r, (recs, f\<lparr>fk_results := rs\<rparr>)))"

definition memory_save :: "runtime_state \<Rightarrow> (exn, 'x fake_world, unit) comp" where
  "memory_save st = modify (\<lambda>(recs, f). (recs, f\<lparr>fk_states := fk_states f @ [st]\<rparr>))"

definition memory_load_latest :: "(exn, 'x fake_world, runtime_state option) comp" where
  "memory_load_latest = gets (\<lambda>(recs, f).
     if fk_states f \<noteq> [] then Some (last (fk_states f)) else None)"

definition memory_record_step ::
  "runtime_state \<Rightarrow> model_result \<Rightarrow> (exn, 'x fake_world, string) comp" where
  "memory_record_step st result =
     andthen (modify (\<lambda>(recs, f). (recs, f\<lparr>fk_steps := fk_steps f @ [result]\<rparr>)))
       (\<lambda>_. ret (''step-'' @ show_int (loop_count st)))"

definition memory_record_tool :: "tool_call \<Rightarrow> jobj \<Rightarrow> (exn, 'x fake_world, unit) comp" where
  "memory_record_tool call obs =
     modify (\<lambda>(recs, f). (recs, f\<lparr>fk_tools := fk_tools f @ [(call, obs)]\<rparr>))"

definition memory_record_guardrail :: "string \<Rightarrow> string \<Rightarrow> (exn, 'x fake_world, unit) comp" where
  "memory_record_guardrail decision reason =
     modify (\<lambda>(recs, f). (recs, f\<lparr>fk_guardrails := fk_guardrails f @ [(decision, reason)]\<rparr>))"

text \<open>The fakes as ports; \<open>NoopRunControl\<close> accepts every state, the clock stands at \<open>now\<close>.\<close>

definition fake_ports :: "time \<Rightarrow> 'x fake_world ports" where
  "fake_ports now = \<lparr>
     po_decide = scripted_decide,
     po_save = memory_save,
     po_record_step = memory_record_step,
     po_record_tool = (\<lambda>st i call obs l r s e b. memory_record_tool call obs),
     po_record_guardrail = (\<lambda>st i n decision reason. memory_record_guardrail decision reason),
     po_assert_active = (\<lambda>st. ret ()),
     po_now = (\<lambda>w. now)\<rparr>"

definition memory_last :: "'x fake_world \<Rightarrow> runtime_state option" where
  "memory_last w = (if fk_states (snd w) \<noteq> [] then Some (last (fk_states (snd w))) else None)"

lemma memory_load_saved:
  "memory_save st w = (Inr (), w') \<Longrightarrow> memory_load_latest w' = (Inr (Some st), w')"
  by (cases w) (auto simp: memory_save_def memory_load_latest_def)

lemma fake_ports_save: "saves memory_last (fake_ports now)"
  by (auto simp: saves_def fake_ports_def memory_save_def memory_last_def)

lemma fake_ports_sound: "sound_stores (fake_ports now)"
  by (simp add: sound_stores_def fake_ports_def memory_save_def memory_record_tool_def
      memory_record_guardrail_def)

subsection \<open>An example run\<close>

text \<open>
  A registry with one read-only tool, whose handler clears the flag \<open>fk_own\<close> when it is called
  without a checkpoint that is \<open>TOOL_PENDING\<close>; and a script of one tool call and one decision.
\<close>

definition example_handler :: "jobj \<Rightarrow> (exn, bool fake_world, json) comp" where
  "example_handler args = andthen (modify (\<lambda>(recs, f). (recs, f\<lparr>fk_own := fk_own f \<and>
      (case memory_last (recs, f) of Some s \<Rightarrow> phase s = TOOL_PENDING | None \<Rightarrow> False)\<rparr>)))
    (\<lambda>_. ret (JObj [(''minutes'', JInt 30)]))"

definition example_tool :: "bool fake_world tool_definition" where
  "example_tool = \<lparr>td_name = ''get_availability'', td_description = ''minutes per day'',
     td_input_schema = JObj [], td_handler = example_handler, td_risk = Risk_READ,
     td_version = ''v1'', td_timeout_seconds = 10, td_retry_policy = default_retry_policy,
     td_args_model = None, td_side_effect_level = Effect_NONE, td_idempotency_required = False,
     td_required_permissions = [], td_requires_confirmation = False, td_reconcile_handler = None,
     td_enabled_environments = [], td_feature_flag = None, td_minimum_role = None,
     td_terminal_decision = None\<rparr>"

definition example_env :: "bool fake_world exec_env" where
  "example_env = \<lparr>ee_registry = [(''get_availability'', example_tool)],
     ee_ledger = Some memory_ledger, ee_availability = default_availability, ee_permissions = [],
     ee_sleep = (\<lambda>delay. ret ()), ee_monotonic = (\<lambda>w. 0), ee_random = (\<lambda>w. (1 / 2, w)),
     ee_digest = (\<lambda>j. ''digest''), ee_repr = (\<lambda>j. ''repr'')\<rparr>"

definition example_runner :: "bool fake_world agent_runner" where
  "example_runner = \<lparr>ar_ports = fake_ports 0,
     ar_registry = [(''get_availability'', example_tool)], ar_executor = example_env,
     ar_config = default_runner_config, ar_tool_context = default_availability\<rparr>"

definition example_script :: "model_result list" where
  "example_script =
    [\<lparr>mr_action = default_action\<lparr>ma_tool_call := Some \<lparr>tc_name = ''get_availability'',
        tc_arguments = [], tc_idempotency_key = None\<rparr>\<rparr>, mr_model_name = ''scripted'',
      mr_input_tokens = 10, mr_output_tokens = 5, mr_latency_ms = 1, mr_attempts = [],
      mr_repair_calls = 0, mr_error_code = None\<rparr>,
     \<lparr>mr_action = default_action\<lparr>ma_decision := Some ''NO_CHANGE'', ma_confidence := 1,
        ma_finish := True\<rparr>, mr_model_name = ''scripted'',
      mr_input_tokens = 10, mr_output_tokens = 5, mr_latency_ms = 1, mr_attempts = [],
      mr_repair_calls = 0, mr_error_code = None\<rparr>]"

definition example_world :: "bool fake_world" where
  "example_world = ([], \<lparr>fk_results = example_script, fk_states = [], fk_steps = [], fk_tools = [],
     fk_guardrails = [], fk_own = True\<rparr>)"

definition example_state :: runtime_state where
  "example_state = new_runtime_state ''run'' ''student'' ''WEEKLY_PLAN'' 0"

lemma example_registry: "map_of (ee_registry example_env) n = Some d \<Longrightarrow> d = example_tool"
  by (auto simp: example_env_def split: if_splits)

end
