(* ===== verification/Harness_Schemas.thy ===== *)
theory Harness_Schemas
  imports Harness_Contracts
begin

text \<open>
  The payload schemas of \<^verbatim>\<open>app/harness/schemas.py\<close>: the model's tool calls and final decisions, and
  the serialization of a runtime state into a checkpoint.

  Validation is pydantic's. A strict payload accepts a value of the field's own type only (an
  integer is accepted for a float); \<open>RuntimeStatePayload\<close> is not strict, so what its fields
  accept beyond their own type is the parameter \<open>coercions\<close>, of which \<open>pydantic_ok\<close> states what
  the code relies on: a value of the right type is accepted unchanged, and \<open>co_datetime\<close> reads
  back what \<open>isof\<close>, the JSON form of a timezone-aware datetime, writes.
\<close>

record coercions =
  co_str :: "json \<Rightarrow> string option"
  co_int :: "json \<Rightarrow> int option"
  co_bool :: "json \<Rightarrow> bool option"
  co_datetime :: "json \<Rightarrow> time option"

definition pydantic_ok :: "coercions \<Rightarrow> (time \<Rightarrow> string) \<Rightarrow> bool" where
  "pydantic_ok co isof \<longleftrightarrow>
     (\<forall>s. co_str co (JStr s) = Some s) \<and> (\<forall>i. co_int co (JInt i) = Some i)
     \<and> (\<forall>b. co_bool co (JBool b) = Some b) \<and> (\<forall>t. co_datetime co (JStr (isof t)) = Some t)"

subsection \<open>Strict fields\<close>

fun strict_str :: "json \<Rightarrow> string option" where
  "strict_str (JStr s) = Some s"
| "strict_str _ = None"

fun strict_bool :: "json \<Rightarrow> bool option" where
  "strict_bool (JBool b) = Some b"
| "strict_bool _ = None"

fun strict_float :: "json \<Rightarrow> pyfloat option" where
  "strict_float (JFloat x) = Some x"
| "strict_float (JInt i) = Some (of_int i)"
| "strict_float _ = None"

fun strict_obj :: "json \<Rightarrow> jobj option" where
  "strict_obj (JObj d) = Some d"
| "strict_obj _ = None"

fun nullable :: "(json \<Rightarrow> 'a option) \<Rightarrow> json \<Rightarrow> 'a option option" where
  "nullable r JNull = Some None"
| "nullable r j = map_option Some (r j)"

fun read_all :: "(json \<Rightarrow> 'a option) \<Rightarrow> json list \<Rightarrow> 'a list option" where
  "read_all r [] = Some []"
| "read_all r (x # xs) = (case r x of None \<Rightarrow> None | Some y \<Rightarrow> map_option ((#) y) (read_all r xs))"

fun read_list :: "(json \<Rightarrow> 'a option) \<Rightarrow> json \<Rightarrow> 'a list option" where
  "read_list r (JList xs) = read_all r xs"
| "read_list r _ = None"

definition checked :: "('a \<Rightarrow> bool) \<Rightarrow> (json \<Rightarrow> 'a option) \<Rightarrow> json \<Rightarrow> 'a option" where
  "checked P r j = (case r j of Some a \<Rightarrow> if P a then Some a else None | None \<Rightarrow> None)"

definition need :: "jobj \<Rightarrow> string \<Rightarrow> (json \<Rightarrow> 'a option) \<Rightarrow> 'a option" where
  "need d k r = (case map_of d k of None \<Rightarrow> None | Some v \<Rightarrow> r v)"

definition optional :: "jobj \<Rightarrow> string \<Rightarrow> (json \<Rightarrow> 'a option) \<Rightarrow> 'a \<Rightarrow> 'a option" where
  "optional d k r dflt = (case map_of d k of None \<Rightarrow> Some dflt | Some v \<Rightarrow> r v)"

definition only_keys :: "string list \<Rightarrow> jobj \<Rightarrow> bool" where
  "only_keys ks d \<longleftrightarrow> (\<forall>kv \<in> set d. fst kv \<in> set ks)"

lemma read_all_map [simp]: "(\<And>x. r (f x) = Some x) \<Longrightarrow> read_all r (map f xs) = Some xs"
  by (induction xs) auto

lemma need_Cons [simp]: "need ((k, v) # d) k' r = (if k = k' then r v else need d k' r)"
  by (simp add: need_def)

lemma optional_Cons [simp]:
  "optional ((k, v) # d) k' r x = (if k = k' then r v else optional d k' r x)"
  by (simp add: optional_def)

subsection \<open>What a model may answer\<close>

definition name_char :: "char \<Rightarrow> bool" where
  "name_char c \<longleftrightarrow> (CHR ''a'' \<le> c \<and> c \<le> CHR ''z'') \<or> (CHR ''0'' \<le> c \<and> c \<le> CHR ''9'') \<or> c = CHR ''_''"

text \<open>\<open>min_length=1, max_length=96, pattern=^[a-z][a-z0-9_]*$\<close>.\<close>

definition tool_name_ok :: "string \<Rightarrow> bool" where
  "tool_name_ok s \<longleftrightarrow> s \<noteq> [] \<and> length s \<le> 96 \<and> CHR ''a'' \<le> hd s \<and> hd s \<le> CHR ''z'' \<and> list_all name_char s"

definition length_between :: "nat \<Rightarrow> nat \<Rightarrow> 'a list \<Rightarrow> bool" where
  "length_between a b xs \<longleftrightarrow> a \<le> length xs \<and> length xs \<le> b"

definition in_unit :: "pyfloat \<Rightarrow> bool" where
  "in_unit x \<longleftrightarrow> 0 \<le> x \<and> x \<le> 1"

text \<open>\<open>parse_tool_call(name, arguments, idempotency_key)\<close>.\<close>

definition parse_tool_call :: "json \<Rightarrow> json \<Rightarrow> json \<Rightarrow> exn + tool_call" where
  "parse_tool_call name arguments key =
    (case (checked tool_name_ok strict_str name, strict_obj arguments,
           nullable (checked (length_between 1 128) strict_str) key) of
       (Some n, Some args, Some k) \<Rightarrow>
         Inr \<lparr>tc_name = n, tc_arguments = args, tc_idempotency_key = k\<rparr>
     | _ \<Rightarrow> Inl (StructuredOutputErr []))"

fun literal_true :: "json \<Rightarrow> unit option" where
  "literal_true (JBool True) = Some ()"
| "literal_true _ = None"

definition parse_final_decision :: "json \<Rightarrow> exn + model_action" where
  "parse_final_decision value =
    (case value of
       JObj d \<Rightarrow>
         if only_keys [''decision'', ''confidence'', ''reason_codes'', ''finish''] d then
           (case (need d ''decision'' (checked (length_between 1 64) strict_str),
                  need d ''confidence'' (checked in_unit strict_float),
                  optional d ''reason_codes''
                    (checked (\<lambda>xs. length xs \<le> 32) (read_list strict_str)) [],
                  need d ''finish'' literal_true) of
              (Some dec, Some conf, Some codes, Some _) \<Rightarrow>
                Inr \<lparr>ma_decision = Some dec, ma_confidence = conf, ma_reason_codes = codes,
                     ma_tool_call = None, ma_finish = True\<rparr>
            | _ \<Rightarrow> Inl (StructuredOutputErr []))
         else Inl (StructuredOutputErr [])
     | _ \<Rightarrow> Inl (StructuredOutputErr []))"

lemma parse_tool_call_sound:
  assumes "parse_tool_call name arguments key = Inr call"
  shows "tool_name_ok (tc_name call)"
    and "\<And>k. tc_idempotency_key call = Some k \<Longrightarrow> length_between 1 128 k"
    and "name = JStr (tc_name call)" and "arguments = JObj (tc_arguments call)"
  using assms
  by (cases name; cases arguments; cases key;
      auto simp: parse_tool_call_def checked_def split: option.splits if_splits)+

lemma parse_final_decision_sound:
  assumes "parse_final_decision value = Inr a"
  shows "ma_finish a" and "ma_tool_call a = None" and "in_unit (ma_confidence a)"
    and "length (ma_reason_codes a) \<le> 32"
    and "\<exists>dec. ma_decision a = Some dec \<and> dec \<noteq> [] \<and> length dec \<le> 64"
  using assms
  by (cases "value"; auto simp: parse_final_decision_def checked_def need_def optional_def
      length_between_def split: option.splits if_splits)+

subsection \<open>Checkpoints\<close>

definition json_of_option :: "('a \<Rightarrow> json) \<Rightarrow> 'a option \<Rightarrow> json" where
  "json_of_option f x = (case x of None \<Rightarrow> JNull | Some a \<Rightarrow> f a)"

definition stored_tool :: "tool_call \<Rightarrow> json" where
  "stored_tool c = JObj [(''name'', JStr (tc_name c)), (''arguments'', JObj (tc_arguments c)),
     (''idempotency_key'', json_of_option JStr (tc_idempotency_key c))]"

definition stored_action :: "model_action \<Rightarrow> json" where
  "stored_action a = JObj [(''decision'', json_of_option JStr (ma_decision a)),
     (''confidence'', JFloat (ma_confidence a)),
     (''reason_codes'', JList (map JStr (ma_reason_codes a))),
     (''tool_call'', json_of_option stored_tool (ma_tool_call a)),
     (''finish'', JBool (ma_finish a))]"

text \<open>The validators of \<open>StoredModelAction\<close> and of \<open>RuntimeStatePayload\<close>.\<close>

definition action_shape_ok :: "model_action \<Rightarrow> bool" where
  "action_shape_ok a \<longleftrightarrow> in_unit (ma_confidence a) \<and> ma_finish a \<noteq> (ma_tool_call a \<noteq> None)
     \<and> (ma_finish a \<longrightarrow> ma_decision a \<noteq> None)"

definition phase_shape_ok :: "runtime_state \<Rightarrow> bool" where
  "phase_shape_ok st \<longleftrightarrow> (phase st = TOOL_PENDING \<longrightarrow> pending_tool_call st \<noteq> None)
     \<and> (phase st = FINAL_PENDING \<longrightarrow> final_action st \<noteq> None)"

definition state_ok :: "runtime_state \<Rightarrow> bool" where
  "state_ok st \<longleftrightarrow> 0 \<le> loop_count st \<and> 0 \<le> model_call_count st \<and> 0 \<le> tool_call_count st
     \<and> 0 \<le> input_tokens st \<and> 0 \<le> output_tokens st \<and> 0 \<le> repair_call_count st
     \<and> 1 \<le> model_call_limit st \<and> 0 \<le> repair_call_limit st \<and> checkpoint_version st = 2
     \<and> 0 \<le> fencing_token st
     \<and> (case final_action st of None \<Rightarrow> True | Some a \<Rightarrow> action_shape_ok a) \<and> phase_shape_ok st"

text \<open>\<open>serialize_runtime_state\<close>: the constructor validates, then the payload is dumped.\<close>

definition dump_state :: "(time \<Rightarrow> string) \<Rightarrow> runtime_state \<Rightarrow> jobj" where
  "dump_state isof st =
    [(''run_id'', JStr (run_id st)), (''student_id'', JStr (student_id st)), (''goal'', JStr (goal st)),
     (''user_id'', json_of_option JStr (user_id st)), (''roles'', JList (map JStr (roles st))),
     (''loop_count'', JInt (loop_count st)), (''model_call_count'', JInt (model_call_count st)),
     (''tool_call_count'', JInt (tool_call_count st)), (''input_tokens'', JInt (input_tokens st)),
     (''output_tokens'', JInt (output_tokens st)), (''repair_call_count'', JInt (repair_call_count st)),
     (''model_call_limit'', JInt (model_call_limit st)),
     (''repair_call_limit'', JInt (repair_call_limit st)), (''started_at'', JStr (isof (started_at st))),
     (''observations'', JList (map JObj (observations st))),
     (''last_action_fingerprints'', JList (map JStr (last_action_fingerprints st))),
     (''last_observation_fingerprints'', JList (map JStr (last_observation_fingerprints st))),
     (''checkpoint_version'', JInt 2), (''fencing_token'', JInt (fencing_token st)),
     (''resumed'', JBool (resumed st)), (''phase'', JStr (phase_value (phase st))),
     (''pending_tool_call'', json_of_option stored_tool (pending_tool_call st)),
     (''pending_step_id'', json_of_option JStr (pending_step_id st)),
     (''final_action'', json_of_option stored_action (final_action st)),
     (''stall_reason'', json_of_option (\<lambda>r. JStr (stall_value r)) (stall_reason_of st)),
     (''termination_reason'', json_of_option (\<lambda>r. JStr (tr_value r)) (termination_reason_of st)),
     (''last_error_code'', json_of_option JStr (last_error_code st))]"

definition serialize_runtime_state :: "(time \<Rightarrow> string) \<Rightarrow> runtime_state \<Rightarrow> exn + jobj" where
  "serialize_runtime_state isof st =
    (if state_ok (st\<lparr>checkpoint_version := 2\<rparr>) then Inr (dump_state isof st)
     else Inl (PyExc ''ValidationError''))"

definition read_stored_tool :: "json \<Rightarrow> tool_call option" where
  "read_stored_tool j = (case j of
     JObj d \<Rightarrow>
       if only_keys [''name'', ''arguments'', ''idempotency_key''] d then
         (case (need d ''name'' strict_str, need d ''arguments'' strict_obj,
                optional d ''idempotency_key'' (nullable strict_str) None) of
            (Some n, Some args, Some k) \<Rightarrow>
              Some \<lparr>tc_name = n, tc_arguments = args, tc_idempotency_key = k\<rparr>
          | _ \<Rightarrow> None)
       else None
   | _ \<Rightarrow> None)"

definition read_stored_action :: "json \<Rightarrow> model_action option" where
  "read_stored_action j = (case j of
     JObj d \<Rightarrow>
       if only_keys [''decision'', ''confidence'', ''reason_codes'', ''tool_call'', ''finish''] d then
         (case (optional d ''decision'' (nullable strict_str) None,
                optional d ''confidence'' strict_float 0,
                optional d ''reason_codes'' (read_list strict_str) [],
                optional d ''tool_call'' (nullable read_stored_tool) None,
                optional d ''finish'' strict_bool False) of
            (Some dec, Some conf, Some codes, Some call, Some fin) \<Rightarrow>
              (let a = \<lparr>ma_decision = dec, ma_confidence = conf, ma_reason_codes = codes,
                        ma_tool_call = call, ma_finish = fin\<rparr>
               in if action_shape_ok a then Some a else None)
          | _ \<Rightarrow> None)
       else None
   | _ \<Rightarrow> None)"

fun read_enum :: "(string \<Rightarrow> 'a option) \<Rightarrow> json \<Rightarrow> 'a option" where
  "read_enum f (JStr s) = f s"
| "read_enum f _ = None"

definition state_keys :: "string list" where
  "state_keys = [''run_id'', ''student_id'', ''goal'', ''user_id'', ''roles'', ''loop_count'',
     ''model_call_count'', ''tool_call_count'', ''input_tokens'', ''output_tokens'',
     ''repair_call_count'', ''model_call_limit'', ''repair_call_limit'', ''started_at'',
     ''observations'', ''last_action_fingerprints'', ''last_observation_fingerprints'',
     ''checkpoint_version'', ''fencing_token'', ''resumed'', ''phase'', ''pending_tool_call'',
     ''pending_step_id'', ''final_action'', ''stall_reason'', ''termination_reason'',
     ''last_error_code'']"

text \<open>The fields of \<open>RuntimeStatePayload\<close>, read one after the other.\<close>

definition read_state :: "coercions \<Rightarrow> jobj \<Rightarrow> runtime_state option" where
  "read_state co d =
    Option.bind (need d ''run_id'' (co_str co)) (\<lambda>rid.
    Option.bind (need d ''student_id'' (co_str co)) (\<lambda>sid.
    Option.bind (need d ''goal'' (co_str co)) (\<lambda>gl.
    Option.bind (optional d ''user_id'' (nullable (co_str co)) None) (\<lambda>uid.
    Option.bind (optional d ''roles'' (read_list (co_str co)) []) (\<lambda>rls.
    Option.bind (need d ''loop_count'' (co_int co)) (\<lambda>lc.
    Option.bind (need d ''model_call_count'' (co_int co)) (\<lambda>mc.
    Option.bind (need d ''tool_call_count'' (co_int co)) (\<lambda>tc.
    Option.bind (need d ''input_tokens'' (co_int co)) (\<lambda>it.
    Option.bind (need d ''output_tokens'' (co_int co)) (\<lambda>ot.
    Option.bind (need d ''repair_call_count'' (co_int co)) (\<lambda>rc.
    Option.bind (need d ''model_call_limit'' (co_int co)) (\<lambda>ml.
    Option.bind (need d ''repair_call_limit'' (co_int co)) (\<lambda>rl.
    Option.bind (need d ''started_at'' (co_datetime co)) (\<lambda>sta.
    Option.bind (need d ''observations'' (read_list strict_obj)) (\<lambda>obs.
    Option.bind (need d ''last_action_fingerprints'' (read_list (co_str co))) (\<lambda>laf.
    Option.bind (need d ''last_observation_fingerprints'' (read_list (co_str co))) (\<lambda>lof.
    Option.bind (need d ''checkpoint_version'' (co_int co)) (\<lambda>cv.
    Option.bind (need d ''fencing_token'' (co_int co)) (\<lambda>ft.
    Option.bind (need d ''resumed'' (co_bool co)) (\<lambda>res.
    Option.bind (need d ''phase'' (read_enum phase_of_value)) (\<lambda>ph.
    Option.bind (optional d ''pending_tool_call'' (nullable read_stored_tool) None) (\<lambda>ptc.
    Option.bind (optional d ''pending_step_id'' (nullable (co_str co)) None) (\<lambda>psi.
    Option.bind (optional d ''final_action'' (nullable read_stored_action) None) (\<lambda>fa.
    Option.bind (optional d ''stall_reason'' (nullable (read_enum stall_of_value)) None) (\<lambda>sr.
    Option.bind (optional d ''termination_reason'' (nullable (read_enum tr_of_value)) None) (\<lambda>tr.
    Option.bind (optional d ''last_error_code'' (nullable (co_str co)) None) (\<lambda>lec.
    Some \<lparr>run_id = rid, student_id = sid, goal = gl, user_id = uid, roles = rls, loop_count = lc,
       model_call_count = mc, tool_call_count = tc, input_tokens = it, output_tokens = ot,
       repair_call_count = rc, model_call_limit = ml, repair_call_limit = rl, started_at = sta,
       observations = obs, last_action_fingerprints = laf, last_observation_fingerprints = lof,
       checkpoint_version = cv, fencing_token = ft, resumed = res, phase = ph,
       pending_tool_call = ptc, pending_step_id = psi, final_action = fa, stall_reason_of = sr,
       termination_reason_of = tr, last_error_code = lec\<rparr>)))))))))))))))))))))))))))"

definition deserialize_runtime_state :: "coercions \<Rightarrow> json \<Rightarrow> exn + runtime_state" where
  "deserialize_runtime_state co j = (case j of
     JObj d \<Rightarrow>
       if only_keys state_keys d then
         (case read_state co d of
            Some st \<Rightarrow> if state_ok st then Inr (st\<lparr>resumed := True\<rparr>) else Inl CheckpointValidationErr
          | None \<Rightarrow> Inl CheckpointValidationErr)
       else Inl CheckpointValidationErr
   | _ \<Rightarrow> Inl CheckpointValidationErr)"

subsection \<open>The round trip\<close>

lemma read_stored_tool_roundtrip [simp]: "read_stored_tool (stored_tool c) = Some c"
  by (cases c; cases "tc_idempotency_key c")
    (simp_all add: read_stored_tool_def stored_tool_def only_keys_def json_of_option_def)

lemma stored_tool_not_null: "stored_tool c \<noteq> JNull"
  by (simp add: stored_tool_def)

lemma nullable_roundtrip:
  "(\<And>a. r (f a) = Some a) \<Longrightarrow> (\<And>a. f a \<noteq> JNull) \<Longrightarrow> nullable r (json_of_option f x) = Some x"
  by (cases x; cases "f (the x)") (auto simp: json_of_option_def, (metis nullable.simps option.map(2) option.sel)+)

lemma read_stored_action_roundtrip:
  assumes "action_shape_ok a"
  shows "read_stored_action (stored_action a) = Some a"
proof -
  have "nullable strict_str (json_of_option JStr x) = Some x" for x
    by (rule nullable_roundtrip) simp_all
  moreover have "nullable read_stored_tool (json_of_option stored_tool x) = Some x" for x
    by (rule nullable_roundtrip) (simp_all add: stored_tool_not_null)
  ultimately show ?thesis
    using assms by (cases a) (simp add: read_stored_action_def stored_action_def only_keys_def Let_def)
qed

lemma nullable_final_action:
  assumes "\<And>a. x = Some a \<Longrightarrow> action_shape_ok a"
  shows "nullable read_stored_action (json_of_option stored_action x) = Some x"
proof (cases x)
  case (Some a)
  have "nullable read_stored_action (stored_action a) = Some (Some a)"
    using read_stored_action_roundtrip [of a] assms Some by (simp add: stored_action_def)
  with Some show ?thesis by (simp add: json_of_option_def)
qed (simp add: json_of_option_def)

lemma read_dump_state:
  assumes "pydantic_ok co isof" and "\<And>a. final_action st = Some a \<Longrightarrow> action_shape_ok a"
  shows "read_state co (dump_state isof st) = Some (st\<lparr>checkpoint_version := 2\<rparr>)"
proof -
  have co: "\<And>s. co_str co (JStr s) = Some s" "\<And>i. co_int co (JInt i) = Some i"
    "\<And>b. co_bool co (JBool b) = Some b" "\<And>t. co_datetime co (JStr (isof t)) = Some t"
    using assms(1) by (simp_all add: pydantic_ok_def)
  have null: "nullable (co_str co) (json_of_option JStr x) = Some x"
    "nullable read_stored_tool (json_of_option stored_tool y) = Some y"
    "nullable (read_enum stall_of_value) (json_of_option (\<lambda>r. JStr (stall_value r)) z) = Some z"
    "nullable (read_enum tr_of_value) (json_of_option (\<lambda>r. JStr (tr_value r)) u) = Some u" for x y z u
    by (rule nullable_roundtrip; simp add: co stored_tool_not_null)+
  have list: "read_list (co_str co) (JList (map JStr xs)) = Some xs"
    "read_list strict_obj (JList (map JObj os)) = Some os" for xs os
    by (simp_all add: co)
  show ?thesis
    unfolding read_state_def dump_state_def
    by (simp add: co null list nullable_final_action assms(2) del: read_list.simps)
qed

theorem checkpoint_roundtrip:
  assumes "pydantic_ok co isof" and "serialize_runtime_state isof st = Inr d"
  shows "deserialize_runtime_state co (JObj d) = Inr (st\<lparr>resumed := True, checkpoint_version := 2\<rparr>)"
proof -
  have ok: "state_ok (st\<lparr>checkpoint_version := 2\<rparr>)" and d: "d = dump_state isof st"
    using assms(2) by (auto simp: serialize_runtime_state_def split: if_splits)
  have "only_keys state_keys d"
    by (simp add: d only_keys_def state_keys_def dump_state_def)
  moreover have "read_state co d = Some (st\<lparr>checkpoint_version := 2\<rparr>)"
    unfolding d using ok by (intro read_dump_state assms(1)) (auto simp: state_ok_def)
  ultimately show ?thesis
    using ok by (simp add: deserialize_runtime_state_def)
qed

lemma deserialize_state_ok:
  assumes "deserialize_runtime_state co j = Inr st"
  shows "state_ok (st\<lparr>resumed := False\<rparr>)" and "resumed st"
  using assms
  by (auto simp: deserialize_runtime_state_def state_ok_def phase_shape_ok_def
      split: json.splits option.splits if_splits)

end
