(* ===== verification/Harness_Properties.thy ===== *)
theory Harness_Properties
  imports Harness_Fakes Harness_Schemas
begin

text \<open>
  The properties of the agent harness, each with an application to a concrete run: the bounds and
  the safety of the runner, the tool executor, the checkpoints and the leases.
\<close>

subsection \<open>The runner\<close>



text \<open>C2. A tool is executed only while the last checkpoint written is \<open>TOOL_PENDING\<close> and names that
  call: any predicate of the world that survives the execution of a call under such a checkpoint
  (and survives the other collaborators) survives the whole run, from a fresh state or from a
  resumed one whose pending call was saved.\<close>

theorem tools_run_under_their_checkpoint:
  assumes "tools_need_checkpoint last_saved I rn" and "I w"
    and "phase st = TOOL_PENDING \<Longrightarrow> pending_saved last_saved I (st, w)"
    and "run_agent rn (st, w) = (r, (st', w'))"
  shows "I w'"
proof (cases r)
  case (Inl e)
  then show ?thesis
    using triple_InlD [OF world_run_agent [OF assms(1)], of "(st, w)"] assms(2-4) by auto
next
  case (Inr a)
  then show ?thesis
    using triple_InrD [OF world_run_agent [OF assms(1)], of "(st, w)"] assms(2-4) by auto
qed

lemma example_handler_keeps:
  "keeps (\<lambda>w. fk_own (snd w) \<and> names_call memory_last call w) (example_handler args)"
  by (auto simp: keeps_def example_handler_def names_call_def memory_last_def comp_simps split: if_splits)

lemma example_execute_keeps:
  "keeps (\<lambda>w. fk_own (snd w) \<and> names_call memory_last call w) (execute example_env st call)"
proof (rule execute_keeps)
  fix d
  assume "registry_get (ee_registry example_env) (tc_name call) (Some (ee_availability example_env)) = Inr d"
  then have d: "d = example_tool"
    by (auto dest!: registry_getD(1) example_registry)
  have "keeps (\<lambda>w. fk_own (snd w) \<and> names_call memory_last call w) (mem_begin st' d c dg)"
    for st' d c dg
    by (auto simp: keeps_def mem_begin_def names_call_def memory_last_def Let_def
        split: option.splits if_splits)
  moreover have "keeps (\<lambda>w. fk_own (snd w) \<and> names_call memory_last call w) (mem_replace i s v)"
    for i s v
    by (auto simp: keeps_def mem_replace_def names_call_def memory_last_def split: option.splits if_splits)
  ultimately show "tool_keeps (\<lambda>w. fk_own (snd w) \<and> names_call memory_last call w) example_env d"
    unfolding d tool_keeps_def
    by (auto simp: example_tool_def example_env_def memory_ledger_def example_handler_keeps)
qed

lemma example_needs_checkpoint:
  "tools_need_checkpoint memory_last (\<lambda>w. fk_own (snd w)) example_runner"
  unfolding tools_need_checkpoint_def
proof (intro conjI allI impI)
  fix st call w
  assume "fk_own (snd w) \<and> names_call memory_last call w"
  then show "fk_own (snd (snd (execute (ar_executor example_runner) st call w)))"
    using keepsD [OF example_execute_keeps, where s = w] by (simp add: example_runner_def)
next
  show "saves memory_last (ar_ports example_runner)"
    by (simp add: example_runner_def fake_ports_save)
qed (auto simp: example_runner_def steady_def fake_ports_def memory_save_def
    scripted_decide_def memory_record_step_def memory_record_tool_def memory_record_guardrail_def
    memory_last_def comp_simps split: list.splits)

theorem tools_run_under_their_checkpoint_witness:
  "\<exists>r st' w'. run_agent example_runner (example_state, example_world) = (r, (st', w'))
     \<and> fk_own (snd w')"
proof -
  obtain r st' w' where run: "run_agent example_runner (example_state, example_world) = (r, (st', w'))"
    by (cases "run_agent example_runner (example_state, example_world)") auto
  have "fk_own (snd w')"
    using tools_run_under_their_checkpoint [OF example_needs_checkpoint _ _ run]
    by (simp add: example_world_def example_state_def new_runtime_state_def)
  with run show ?thesis by blast
qed

text \<open>C3. A run that reports a decision has written it: the last checkpoint is the final state,
  terminated with reason \<open>COMPLETED\<close>, and it holds the action whose decision, confidence and
  reason codes are reported.\<close>

theorem reported_decision_is_saved:
  assumes "saves last_saved (ar_ports rn)" and "phase st \<noteq> TERMINATED"
    and "run_agent rn (st, w) = (Inr r, (st', w'))" and "arr_decision r = Some decision"
  shows "last_saved w' = Some st' \<and> phase st' = TERMINATED
    \<and> termination_reason_of st' = Some TR_COMPLETED
    \<and> (\<exists>a. final_action st' = Some a \<and> ma_decision a = Some decision
        \<and> r = final_result a TR_COMPLETED st')"
  using triple_InrD [OF run_agent_decided [OF assms(1)] _ assms(3)] assms(2,4)
  by (auto simp: decided_def final_result_def)

lemma example_run_decides:
  "case run_agent example_runner (example_state, example_world) of
     (Inr r, _) \<Rightarrow> arr_decision r = Some ''NO_CHANGE'' | _ \<Rightarrow> False"
  by code_simp

lemma example_run:
  obtains r st' w' where "run_agent example_runner (example_state, example_world) = (Inr r, (st', w'))"
    and "arr_decision r = Some ''NO_CHANGE''"
  using example_run_decides that
  by (cases "run_agent example_runner (example_state, example_world)") (auto split: sum.splits)

lemma example_fresh: "saves memory_last (ar_ports example_runner)" "phase example_state \<noteq> TERMINATED"
  by (simp_all add: example_runner_def fake_ports_save example_state_def new_runtime_state_def)

theorem reported_decision_is_saved_witness:
  "\<exists>w' st'. memory_last w' = Some st' \<and> phase st' = TERMINATED
     \<and> snd (run_agent example_runner (example_state, example_world)) = (st', w')"
proof (rule example_run)
  fix r st' w'
  assume run: "run_agent example_runner (example_state, example_world) = (Inr r, (st', w'))"
    and "arr_decision r = Some ''NO_CHANGE''"
  from reported_decision_is_saved [OF example_fresh this] run show ?thesis
    by (intro exI [of _ w'] exI [of _ st']) simp
qed

text \<open>Resuming a run that reported a decision reports the same decision again, from the saved
  checkpoint, without calling the model, a tool or a store: the world does not change.\<close>

theorem resumed_decision_is_repeated:
  assumes "saves last_saved (ar_ports rn)" and "phase st \<noteq> TERMINATED"
    and "run_agent rn (st, w) = (Inr r, (st', w'))" and "arr_decision r = Some decision"
  shows "\<exists>s. last_saved w' = Some s
    \<and> (\<forall>w2. \<exists>r2 s2. run_agent rn (s\<lparr>resumed := True\<rparr>, w2) = (Inr r2, (s2, w2))
        \<and> arr_decision r2 = Some decision
        \<and> arr_termination_reason r2 = arr_termination_reason r)"
proof -
  have saved: "decided last_saved r (st', w')"
    using triple_InrD [OF run_agent_decided [OF assms(1)] _ assms(3)] assms(2,4) by simp
  have "\<exists>r2 s2. run_agent rn (st'\<lparr>resumed := True\<rparr>, w2) = (Inr r2, (s2, w2))
      \<and> arr_decision r2 = Some decision \<and> arr_termination_reason r2 = arr_termination_reason r" for w2
    using run_agent_terminated [of "st'\<lparr>resumed := True\<rparr>" TR_COMPLETED rn w2] saved assms(4)
    by (auto simp: decided_def final_result_def)
  with saved show ?thesis by (auto simp: decided_def)
qed

theorem resumed_decision_is_repeated_witness:
  "\<exists>s r2 s2. run_agent example_runner (s\<lparr>resumed := True\<rparr>, example_world) = (Inr r2, (s2, example_world))
     \<and> arr_decision r2 = Some ''NO_CHANGE''"
proof (rule example_run)
  fix r st' w'
  assume run: "run_agent example_runner (example_state, example_world) = (Inr r, (st', w'))"
    and "arr_decision r = Some ''NO_CHANGE''"
  from resumed_decision_is_repeated [OF example_fresh this] show ?thesis by blast
qed

text \<open>C39. A run returns a result for every exception of the model, the tools and the run control:
  nothing escapes as long as the trace recorder does not raise and the checkpoint store raises
  only \<open>StaleWorkerError\<close>.\<close>

theorem run_returns_a_result:
  assumes "sound_stores (ar_ports rn)"
  shows "\<exists>r st' w'. run_agent rn (st, w) = (Inr r, (st', w'))"
proof -
  obtain x s' where run: "run_agent rn (st, w) = (x, s')" by (cases "run_agent rn (st, w)")
  show ?thesis
  proof (cases x)
    case (Inl e)
    then show ?thesis using run triple_InlD [OF run_agent_returns [OF assms], of "(st, w)" e s'] by simp
  next
    case (Inr r)
    then show ?thesis using run by (cases s') auto
  qed
qed

theorem run_returns_a_result_witness:
  "\<exists>r st' w'. run_agent example_runner (example_state, example_world) = (Inr r, (st', w'))"
  by (rule run_returns_a_result) (simp add: example_runner_def fake_ports_sound)

subsection \<open>Stalls, tools and answers of the model\<close>

text \<open>The stall detector over the whole history of calls, newest first: a call that repeats the
  last one, or that continues an alternation of two calls.\<close>

fun stall_of :: "tool_call list \<Rightarrow> tool_call \<Rightarrow> stall_reason option" where
  "stall_of [] call = None"
| "stall_of [a] call = (if same_call a call then Some REPEATED_ACTION else None)"
| "stall_of [a, b] call = (if same_call a call then Some REPEATED_ACTION else None)"
| "stall_of (a # b # c # past) call =
     (if same_call a call then Some REPEATED_ACTION
      else if same_call b call \<and> same_call c a then Some ACTION_OSCILLATION else None)"

lemma latest_rev: "latest k xs = (if 0 < k \<and> k \<le> length xs then Some (rev xs ! (k - 1)) else None)"
  by (auto simp: latest_def rev_nth)

lemma latest_map: "latest k (map f xs) = map_option f (latest k xs)"
  by (auto simp: latest_def)

lemma same_call_sym: "same_call a b = same_call b a"
  by (auto simp: same_call_def)

lemma action_stall_of:
  assumes "collision_free digest (call # past)"
  shows "action_stall (map (action_fingerprint digest) past) (action_fingerprint digest call)
    = stall_of (rev past) call"
proof -
  have eq: "action_fingerprint digest a = action_fingerprint digest b \<longleftrightarrow> same_call a b"
    if "a \<in> set (call # rev past)" "b \<in> set (call # rev past)" for a b
    using action_fingerprint_eq [OF assms, of a b] that by simp
  show ?thesis
    using eq
    by (cases "(rev past, call)" rule: stall_of.cases)
      (auto simp: action_stall_def latest_map latest_rev same_call_sym split: if_splits)
qed

lemma take_last_snoc: "take_last n (take_last n xs @ [x]) = take_last n (xs @ [x])"
proof (cases "length xs \<le> n")
  case False
  then obtain k where "length xs = n + Suc k"
    by (metis add_Suc_right less_imp_Suc_add not_le)
  then show ?thesis by (cases n) (auto simp: take_last_def)
qed simp

text \<open>The stall detector keeps the fingerprints of eight calls only and decides as if it had kept
  every call: it reports exactly the repetitions and the alternations of calls with the same name and
  the same arguments up to the order of keys.\<close>

theorem stall_detector_refines_history:
  assumes "collision_free digest (call # past)"
    and "last_action_fingerprints st = take_last 8 (map (action_fingerprint digest) past)"
  shows "record_action digest st call =
    (st\<lparr>last_action_fingerprints := take_last 8 (map (action_fingerprint digest) (past @ [call]))\<rparr>,
     stall_of (rev past) call)"
proof -
  have "action_stall (take_last 8 h) f = action_stall h f" for h f
    by (simp add: action_stall_def latest_take_last)
  then show ?thesis
    using assms(2) action_stall_of [OF assms(1)]
    by (simp add: record_action_spec history_limit_def Let_def take_last_snoc)
qed

fun example_digest :: "json \<Rightarrow> string" where
  "example_digest (JObj (kv # (k, JStr n) # rest)) = n"
| "example_digest j = []"

lemma example_fingerprint [simp]: "action_fingerprint example_digest c = tc_name c"
  by (simp add: action_fingerprint_def canonical_fingerprint_def less_char_def)

definition example_past :: "tool_call list" where
  "example_past = map (\<lambda>n. \<lparr>tc_name = n, tc_arguments = [], tc_idempotency_key = None\<rparr>)
     [''a'', ''b'', ''a'']"

theorem stall_detector_refines_history_witness:
  "snd (record_action example_digest
     (example_state\<lparr>last_action_fingerprints := [''a'', ''b'', ''a'']\<rparr>)
     \<lparr>tc_name = ''b'', tc_arguments = [], tc_idempotency_key = None\<rparr>) = Some ACTION_OSCILLATION"
proof -
  let ?call = "\<lparr>tc_name = ''b'', tc_arguments = [], tc_idempotency_key = None\<rparr>"
  have "collision_free example_digest (?call # example_past)"
    by (simp add: collision_free_def same_call_def example_past_def)
  then show ?thesis
    using stall_detector_refines_history [of example_digest ?call example_past
        "example_state\<lparr>last_action_fingerprints := [''a'', ''b'', ''a'']\<rparr>"]
    by (simp add: example_past_def same_call_def)
qed

text \<open>Every registry that registration can build is safe: each tool is filed once under its own
  name, a proposal tool is named \<open>propose_\<dots>\<close>, declares an idempotent write and requires an
  idempotency key, no tool is a non-idempotent write, and only proposals end a run; a tool that the
  policy then admits is no direct mutation, carries its key and has its permissions.\<close>

theorem registered_tools_are_safe:
  assumes "register_all ds [] = Inr reg" and "registry_get reg (tc_name call) ctx = Inr d"
    and "policy_validate d call permissions = Inr dec"
  shows "registry_ok reg \<and> td_name d = tc_name call \<and> tool_ok d
    \<and> list_all (\<lambda>p. \<not> startswith (td_name d) p) forbidden_prefixes
    \<and> (td_risk d \<noteq> Risk_PROPOSAL \<or> str_truthy (tc_idempotency_key call))
    \<and> set (td_required_permissions d) \<subseteq> set permissions"
proof -
  have reg: "registry_ok reg" using register_all_ok [OF _ assms(1)] by simp
  note tool = registry_get_ok [OF reg assms(2)]
  show ?thesis
    using reg tool policy_validate_allows [of d call permissions] assms(3)
    by (auto simp: list_all_iff tool_ok_def)
qed

theorem registered_tools_are_safe_witness:
  "registry_ok [(''get_availability'', example_tool)] \<and> tool_ok example_tool"
proof -
  let ?call = "\<lparr>tc_name = ''get_availability'', tc_arguments = [], tc_idempotency_key = None\<rparr>"
  have "register_all [example_tool] [] = Inr [(''get_availability'', example_tool)]"
    by (simp add: register_def example_tool_def)
  moreover have "registry_get [(''get_availability'', example_tool)] (tc_name ?call) None = Inr example_tool"
    by (simp add: registry_get_def)
  moreover have "policy_validate example_tool ?call [] = Inr \<lparr>pd_allowed = True, pd_reason_code = ''ALLOWED''\<rparr>"
    by (simp add: policy_validate_def forbidden_prefixes_def example_tool_def)
  ultimately show ?thesis using registered_tools_are_safe by blast
qed

text \<open>Whatever JSON the model sends as its final decision, an action that is accepted has finished,
  calls no tool, carries a decision of one to sixty-four characters, a confidence between 0 and 1
  and at most thirty-two reason codes; everything else is a \<open>StructuredOutputError\<close> without attempts.\<close>

theorem final_decision_is_checked:
  "case parse_final_decision v of
     Inr a \<Rightarrow> ma_finish a \<and> ma_tool_call a = None \<and> in_unit (ma_confidence a)
       \<and> length (ma_reason_codes a) \<le> 32 \<and> (\<exists>dec. ma_decision a = Some dec \<and> length_between 1 64 dec)
   | Inl e \<Rightarrow> e = StructuredOutputErr []"
proof (cases "parse_final_decision v")
  case (Inl e)
  then show ?thesis
    by (auto simp: parse_final_decision_def split: json.splits if_splits option.splits)
next
  case (Inr a)
  from parse_final_decision_sound [OF Inr] Inr show ?thesis
    by (auto simp: length_between_def Suc_le_eq)
qed

end
