(* ===== verification/Rows_Runs.thy ===== *)
theory Rows_Runs
  imports Harness_Contracts
begin

text \<open>
  Rows of \<^verbatim>\<open>app/infrastructure/db/models.py\<close>: accounts, background jobs, agent runs with their steps, invocations, checkpoints, the tool ledger and proposals.
  A row is the record of a mapped class; its fields carry a prefix for the class. The column
  \<open>updated_at\<close>, which no code reads, is left out.
\<close>

text \<open>\<open>User\<close>.\<close>

record user_row =
  usr_id :: uuid
  usr_phone_lookup_hash :: string
  usr_phone_ciphertext :: string
  usr_status :: user_status
  usr_version :: int
  usr_created_at :: time

text \<open>\<open>UserRole\<close>.\<close>

record user_role_row =
  ur_user_id :: uuid
  ur_role :: user_role

text \<open>\<open>RefreshSession\<close>.\<close>

record refresh_session_row =
  rs_id :: uuid
  rs_user_id :: uuid
  rs_token_hash :: string
  rs_expires_at :: time
  rs_revoked_at :: "time option"
  rs_replaced_by_id :: "uuid option"
  rs_created_at :: time

text \<open>\<open>AccountDeletion\<close>.\<close>

record account_deletion_row =
  ad_id :: uuid
  ad_user_id :: uuid
  ad_requested_at :: time
  ad_purge_after :: time
  ad_cancelled_at :: "time option"
  ad_purged_at :: "time option"
  ad_created_at :: time

text \<open>\<open>BackgroundJob\<close>.\<close>

record background_job_row =
  bj_id :: uuid
  bj_user_id :: "uuid option"
  bj_job_type :: string
  bj_status :: job_status
  bj_payload :: jobj
  bj_result :: "jobj option"
  bj_error_code :: "string option"
  bj_idempotency_key :: string
  bj_available_at :: time
  bj_started_at :: "time option"
  bj_finished_at :: "time option"
  bj_dispatched_at :: "time option"
  bj_attempt_count :: int
  bj_max_attempts :: int
  bj_next_retry_at :: "time option"
  bj_dead_lettered_at :: "time option"
  bj_version :: int
  bj_created_at :: time

text \<open>\<open>DomainEvent\<close>.\<close>

record domain_event_row =
  ev_id :: uuid
  ev_aggregate_type :: string
  ev_aggregate_id :: uuid
  ev_aggregate_version :: int
  ev_event_type :: string
  ev_payload :: jobj
  ev_strategy_versions :: "(string, string) dict"
  ev_occurred_at :: time
  ev_published_at :: "time option"

text \<open>\<open>AgentRun\<close>.\<close>

record agent_run_row =
  ag_id :: uuid
  ag_job_id :: uuid
  ag_student_id :: uuid
  ag_goal :: string
  ag_status :: agent_run_status
  ag_model_version :: string
  ag_prompt_version :: string
  ag_policy_version :: string
  ag_loop_count :: int
  ag_model_call_count :: int
  ag_tool_call_count :: int
  ag_input_tokens :: int
  ag_output_tokens :: int
  ag_resumed_count :: int
  ag_termination_reason :: "string option"
  ag_lease_owner :: "string option"
  ag_lease_expires_at :: "time option"
  ag_fencing_token :: int
  ag_heartbeat_at :: "time option"
  ag_cancel_requested_at :: "time option"
  ag_cancelled_at :: "time option"
  ag_version :: int
  ag_created_at :: time

text \<open>\<open>AgentStep\<close>.\<close>

record agent_step_row =
  stp_id :: uuid
  stp_run_id :: uuid
  stp_step_number :: int
  stp_action :: jobj
  stp_observation_digest :: "string option"
  stp_model_name :: string
  stp_input_tokens :: int
  stp_output_tokens :: int
  stp_latency_ms :: int
  stp_prompt_version :: string
  stp_policy_version :: string
  stp_action_type :: string
  stp_decision :: "string option"
  stp_confidence :: pyfloat
  stp_reason_codes :: "string list"
  stp_stall_reason :: "string option"
  stp_created_at :: time

text \<open>\<open>ModelInvocation\<close>.\<close>

record model_invocation_row =
  mi_id :: uuid
  mi_run_id :: uuid
  mi_step_id :: uuid
  mi_attempt_number :: int
  mi_purpose :: string
  mi_model_name :: string
  mi_status :: string
  mi_input_tokens :: int
  mi_output_tokens :: int
  mi_latency_ms :: int
  mi_error_code :: "string option"
  mi_response_action :: "jobj option"
  mi_created_at :: time

text \<open>\<open>ToolInvocation\<close>.\<close>

record tool_invocation_row =
  ti_id :: uuid
  ti_run_id :: uuid
  ti_step_id :: uuid
  ti_tool_name :: string
  ti_tool_version :: string
  ti_args_digest :: string
  ti_observation_digest :: "string option"
  ti_status :: string
  ti_latency_ms :: int
  ti_idempotency_key :: "string option"
  ti_risk :: string
  ti_retry_count :: int
  ti_error_code :: "string option"
  ti_replayed :: bool
  ti_created_at :: time

text \<open>\<open>Checkpoint\<close>.\<close>

record checkpoint_row =
  ck_id :: uuid
  ck_run_id :: uuid
  ck_step_number :: int
  ck_state :: jobj
  ck_checkpoint_version :: int
  ck_state_hash :: string
  ck_resume_safe :: bool
  ck_fencing_token :: int
  ck_created_at :: time

text \<open>\<open>ToolExecutionRecord\<close>.\<close>

record tool_execution_record_row =
  txr_id :: uuid
  txr_run_id :: uuid
  txr_tool_name :: string
  txr_tool_version :: string
  txr_idempotency_key :: string
  txr_args_digest :: string
  txr_status :: string
  txr_result :: "jobj option"
  txr_result_digest :: "string option"
  txr_error_code :: "string option"
  txr_started_at :: time
  txr_finished_at :: "time option"
  txr_fencing_token :: int
  txr_created_at :: time

text \<open>\<open>GuardrailEvent\<close>.\<close>

record guardrail_event_row =
  ge_id :: uuid
  ge_run_id :: uuid
  ge_step_id :: "uuid option"
  ge_tool_name :: "string option"
  ge_policy_version :: string
  ge_decision :: string
  ge_reason_code :: string
  ge_created_at :: time

text \<open>\<open>Proposal\<close>.\<close>

record proposal_row =
  pr_id :: uuid
  pr_run_id :: uuid
  pr_student_id :: uuid
  pr_proposal_type :: proposal_type
  pr_status :: proposal_status
  pr_payload :: jobj
  pr_reason_codes :: "string list"
  pr_confidence :: pyfloat
  pr_evidence_refs :: "string list"
  pr_evidence_snapshot :: "jobj list"
  pr_idempotency_key :: string
  pr_decided_at :: "time option"
  pr_approval_expires_at :: "time option"
  pr_reviewer_user_id :: "uuid option"
  pr_review_reason :: "string option"
  pr_applied_at :: "time option"
  pr_apply_error_code :: "string option"
  pr_version :: int
  pr_created_at :: time

text \<open>\<open>ShadowEvaluation\<close>.\<close>

record shadow_evaluation_row =
  se_id :: uuid
  se_source_run_id :: uuid
  se_requested_by_user_id :: uuid
  se_job_id :: "uuid option"
  se_status :: string
  se_baseline_model :: string
  se_baseline_prompt_version :: string
  se_baseline_decision :: "string option"
  se_baseline_confidence :: "pyfloat option"
  se_candidate_model :: string
  se_candidate_prompt_version :: string
  se_candidate_decision :: "string option"
  se_candidate_confidence :: "pyfloat option"
  se_comparison :: "jobj option"
  se_error_code :: "string option"
  se_started_at :: "time option"
  se_finished_at :: "time option"
  se_created_at :: time

end
