(* ===== verification/Rows_Learning.thy ===== *)
theory Rows_Learning
  imports Harness_Contracts
begin

text \<open>
  Rows of \<^verbatim>\<open>app/infrastructure/db/models.py\<close>: schools, students, knowledge, resources, questions and weekly plans.
  A row is the record of a mapped class; its fields carry a prefix for the class. The column
  \<open>updated_at\<close>, which no code reads, is left out.
\<close>

text \<open>\<open>SchoolProfile\<close>.\<close>

record school_profile_row =
  sp_id :: uuid
  sp_code :: string
  sp_school_name :: string
  sp_major :: string
  sp_subject_code :: string
  sp_subject_name :: string
  sp_syllabus_version :: string
  sp_source_version :: string
  sp_status :: string
  sp_created_at :: time

text \<open>\<open>Student\<close>.\<close>

record student_row =
  stu_id :: uuid
  stu_user_id :: uuid
  stu_target_school_id :: "uuid option"
  stu_exam_subject :: string
  stu_exam_date :: "date option"
  stu_current_stage :: student_stage
  stu_version :: int
  stu_created_at :: time

text \<open>\<open>StudentAvailability\<close>.\<close>

record student_availability_row =
  sa_id :: uuid
  sa_student_id :: uuid
  sa_available_date :: date
  sa_available_minutes :: int
  sa_created_at :: time

text \<open>\<open>StudentAvailabilityTemplate\<close>.\<close>

record student_availability_template_row =
  sat_id :: uuid
  sat_student_id :: uuid
  sat_weekday :: int
  sat_available_minutes :: int
  sat_created_at :: time

text \<open>\<open>KnowledgeNode\<close>.\<close>

record knowledge_node_row =
  kn_id :: uuid
  kn_code :: string
  kn_parent_id :: "uuid option"
  kn_level :: int
  kn_name :: string
  kn_description :: string
  kn_tree_version :: string
  kn_created_at :: time

text \<open>\<open>StudentKnowledgeProgress\<close>.\<close>

record student_knowledge_progress_row =
  skp_id :: uuid
  skp_student_id :: uuid
  skp_knowledge_id :: uuid
  skp_status :: knowledge_learning_status
  skp_strengthened_at :: "time option"
  skp_strengthened_by_user :: bool
  skp_true_exam_snapshot_version :: "string option"
  skp_true_exam_completed_at :: "time option"
  skp_specialized_unlocked_at :: "time option"
  skp_version :: int
  skp_created_at :: time

text \<open>\<open>LearningResource\<close>.\<close>

record learning_resource_row =
  lr_id :: uuid
  lr_title :: string
  lr_resource_type :: resource_type
  lr_status :: resource_status
  lr_school_profile_id :: "uuid option"
  lr_description :: string
  lr_current_version_id :: "uuid option"
  lr_published_at :: "time option"
  lr_version :: int
  lr_created_at :: time

text \<open>\<open>ResourceVersion\<close>.\<close>

record resource_version_row =
  rv_id :: uuid
  rv_resource_id :: uuid
  rv_version_number :: int
  rv_original_filename :: string
  rv_media_type :: string
  rv_content_hash :: string
  rv_storage_path :: string
  rv_size_bytes :: int
  rv_parser_version :: string
  rv_created_at :: time

text \<open>\<open>ResourceSection\<close>.\<close>

record resource_section_row =
  rsec_id :: uuid
  rsec_resource_version_id :: uuid
  rsec_parent_id :: "uuid option"
  rsec_title :: string
  rsec_section_path :: string
  rsec_level :: int
  rsec_sequence :: int
  rsec_page_start :: "int option"
  rsec_page_end :: "int option"
  rsec_suggested_units :: "int option"
  rsec_unit_type :: "string option"
  rsec_version :: int
  rsec_created_at :: time

text \<open>\<open>ResourceKnowledgeMapping\<close>.\<close>

record resource_knowledge_mapping_row =
  rkm_id :: uuid
  rkm_section_id :: uuid
  rkm_knowledge_id :: uuid
  rkm_confidence :: pyfloat
  rkm_source :: string
  rkm_reviewer_confirmed :: bool
  rkm_created_at :: time

text \<open>\<open>SchoolKnowledgeStat\<close>.\<close>

record school_knowledge_stat_row =
  sks_school_profile_id :: uuid
  sks_knowledge_id :: uuid
  sks_count :: int
  sks_total_questions :: int
  sks_normalized_weight :: pyfloat
  sks_syllabus_order :: int
  sks_years_covered :: int
  sks_last_seen_year :: "int option"
  sks_trend :: string
  sks_source_refs :: "string list"

text \<open>\<open>Question\<close>.\<close>

record question_row =
  q_id :: uuid
  q_code :: string
  q_source_type :: source_type
  q_school_profile_id :: "uuid option"
  q_year :: "int option"
  q_question_type :: string
  q_difficulty :: difficulty
  q_score :: int
  q_estimated_duration_minutes :: int
  q_content :: string
  q_solution :: string
  q_answer :: string
  q_provenance :: jobj
  q_quality_status :: question_quality
  q_content_version :: string
  q_created_at :: time

text \<open>\<open>QuestionKnowledge\<close>.\<close>

record question_knowledge_row =
  qk_question_id :: uuid
  qk_knowledge_id :: uuid
  qk_is_primary :: bool

text \<open>\<open>WeeklyPlan\<close>.\<close>

record weekly_plan_row =
  wp_id :: uuid
  wp_student_id :: uuid
  wp_start_date :: date
  wp_end_date :: date
  wp_revision :: int
  wp_parent_plan_id :: "uuid option"
  wp_planner_version :: string
  wp_status :: plan_status
  wp_generated_reason :: string
  wp_timezone :: string
  wp_last_rolled_at :: "time option"
  wp_version :: int
  wp_created_at :: time

text \<open>\<open>PlanTask\<close>.\<close>

record plan_task_row =
  pt_id :: uuid
  pt_plan_id :: uuid
  pt_task_date :: date
  pt_task_type :: task_type
  pt_title :: string
  pt_description :: string
  pt_resource_section_id :: "uuid option"
  pt_suggested_scope :: "string option"
  pt_target_count :: int
  pt_planned_units :: "int option"
  pt_unit_type :: "string option"
  pt_estimated_min_minutes :: int
  pt_estimated_max_minutes :: int
  pt_system_suggested_minutes :: int
  pt_student_estimated_minutes :: "int option"
  pt_effective_minutes :: int
  pt_priority :: pyfloat
  pt_status :: task_status
  pt_origin :: task_origin
  pt_is_personal :: bool
  pt_has_capacity_warning :: bool
  pt_reason :: string
  pt_modified_reason :: "string option"
  pt_sequence :: int
  pt_superseded_by_id :: "uuid option"
  pt_version :: int
  pt_created_at :: time

text \<open>\<open>PlanTaskChangeEvent\<close>.\<close>

record plan_task_change_event_row =
  pce_id :: uuid
  pce_plan_id :: uuid
  pce_task_id :: "uuid option"
  pce_change_sequence :: int
  pce_actor :: change_actor
  pce_actor_user_id :: "uuid option"
  pce_operation :: string
  pce_before :: "jobj option"
  pce_after :: "jobj option"
  pce_reason :: string
  pce_occurred_at :: time

text \<open>\<open>PlanTaskKnowledge\<close>.\<close>

record plan_task_knowledge_row =
  ptk_task_id :: uuid
  ptk_knowledge_id :: uuid

text \<open>\<open>PlanTaskQuestion\<close>.\<close>

record plan_task_question_row =
  ptq_task_id :: uuid
  ptq_question_id :: uuid
  ptq_sequence :: int

end
