(* ===== verification/Rows_Exams.thy ===== *)
theory Rows_Exams
  imports Harness_Contracts
begin

text \<open>
  Rows of \<^verbatim>\<open>app/infrastructure/db/models.py\<close>: attempts, feedback, knowledge states, exams and their attempts.
  A row is the record of a mapped class; its fields carry a prefix for the class. The column
  \<open>updated_at\<close>, which no code reads, is left out.
\<close>

text \<open>\<open>QuestionAttempt\<close>.\<close>

record question_attempt_row =
  qa_id :: uuid
  qa_student_id :: uuid
  qa_question_id :: uuid
  qa_plan_task_id :: "uuid option"
  qa_true_exam_attempt_id :: "uuid option"
  qa_chapter_true_exam_session_id :: "uuid option"
  qa_mock_exam_id :: "uuid option"
  qa_context :: attempt_context
  qa_started_at :: "time option"
  qa_finished_at :: "time option"
  qa_actual_duration_seconds :: int
  qa_score_ratio :: pyfloat
  qa_looked_at_solution :: bool
  qa_self_difficulty :: "int option"
  qa_student_error_note :: "string option"
  qa_agent_error_type :: "error_type option"
  qa_idempotency_key :: string
  qa_created_at :: time

text \<open>\<open>Feedback\<close>.\<close>

record feedback_row =
  fb_id :: uuid
  fb_student_id :: uuid
  fb_task_id :: uuid
  fb_completion_ratio :: pyfloat
  fb_actual_duration_seconds :: int
  fb_completed_count :: int
  fb_correct_count :: int
  fb_looked_at_solution :: bool
  fb_perceived_difficulty :: "int option"
  fb_free_text :: "string option"
  fb_idempotency_key :: string
  fb_feedback_version :: int
  fb_detail :: jobj
  fb_mastery_self_score :: "int option"
  fb_progress_marker :: "string option"
  fb_created_at :: time

text \<open>\<open>StudentKnowledgeState\<close>.\<close>

record student_knowledge_state_row =
  ks_id :: uuid
  ks_student_id :: uuid
  ks_knowledge_id :: uuid
  ks_mastery_score :: pyfloat
  ks_confidence :: pyfloat
  ks_last_practiced_at :: "time option"
  ks_recent_accuracy :: "pyfloat option"
  ks_recent_avg_duration :: "pyfloat option"
  ks_error_streak :: int
  ks_correct_streak :: int
  ks_evidence_count :: int
  ks_model_version :: string
  ks_version :: int
  ks_created_at :: time

text \<open>\<open>ErrorProfile\<close>.\<close>

record error_profile_row =
  ep_id :: uuid
  ep_student_id :: uuid
  ep_knowledge_id :: uuid
  ep_error_type :: error_type
  ep_occurrence_count :: int
  ep_recent_count :: int
  ep_last_seen_at :: "time option"
  ep_evidence_attempt_ids :: "uuid list"
  ep_confidence :: pyfloat
  ep_created_at :: time

text \<open>\<open>EfficiencyProfile\<close>.\<close>

record efficiency_profile_row =
  efp_id :: uuid
  efp_student_id :: uuid
  efp_task_type :: task_type
  efp_knowledge_id :: "uuid option"
  efp_sample_count :: int
  efp_recent_samples_seconds :: "int list"
  efp_p50_duration_seconds :: int
  efp_p75_duration_seconds :: int
  efp_average_duration_seconds :: int
  efp_confidence :: pyfloat
  efp_created_at :: time

text \<open>\<open>ExamProfile\<close>.\<close>

record exam_profile_row =
  xp_id :: uuid
  xp_school_profile_id :: uuid
  xp_total_score :: int
  xp_duration_minutes :: int
  xp_question_count :: int
  xp_structure :: jobj
  xp_difficulty_distribution :: "(string, pyfloat) dict"
  xp_knowledge_distribution :: "(string, pyfloat) dict"
  xp_profile_version :: string
  xp_created_at :: time

text \<open>\<open>TrueExam\<close>.\<close>

record true_exam_row =
  te_id :: uuid
  te_school_profile_id :: uuid
  te_year :: int
  te_title :: string
  te_total_score :: int
  te_duration_minutes :: int
  te_source_version :: string
  te_created_at :: time

text \<open>\<open>TrueExamQuestion\<close>.\<close>

record true_exam_question_row =
  teq_true_exam_id :: uuid
  teq_question_id :: uuid
  teq_sequence :: int

text \<open>\<open>ChapterTrueExamSession\<close>.\<close>

record chapter_true_exam_session_row =
  cs_id :: uuid
  cs_student_id :: uuid
  cs_knowledge_id :: uuid
  cs_school_profile_id :: uuid
  cs_question_snapshot_version :: string
  cs_status :: string
  cs_total_questions :: int
  cs_completed_questions :: int
  cs_completed_at :: "time option"
  cs_version :: int
  cs_created_at :: time

text \<open>\<open>ChapterTrueExamSessionQuestion\<close>.\<close>

record chapter_true_exam_session_question_row =
  csq_session_id :: uuid
  csq_question_id :: uuid
  csq_sequence :: int
  csq_completed_at :: "time option"

text \<open>\<open>TargetSchoolChangePreview\<close>.\<close>

record target_school_change_preview_row =
  tcp_id :: uuid
  tcp_student_id :: uuid
  tcp_from_school_id :: "uuid option"
  tcp_to_school_id :: uuid
  tcp_status :: target_school_change_status
  tcp_preview :: jobj
  tcp_expires_at :: time
  tcp_applied_at :: "time option"
  tcp_version :: int
  tcp_created_at :: time

text \<open>\<open>TrueExamAttempt\<close>.\<close>

record true_exam_attempt_row =
  tea_id :: uuid
  tea_student_id :: uuid
  tea_true_exam_id :: uuid
  tea_score :: pyfloat
  tea_duration_seconds :: int
  tea_idempotency_key :: string
  tea_created_at :: time

text \<open>\<open>TrueExamProfile\<close>.\<close>

record true_exam_profile_row =
  tep_id :: uuid
  tep_student_id :: uuid
  tep_school_profile_id :: uuid
  tep_knowledge_id :: uuid
  tep_attempt_count :: int
  tep_accuracy :: pyfloat
  tep_average_score_ratio :: pyfloat
  tep_average_duration_seconds :: int
  tep_created_at :: time

text \<open>\<open>MockExam\<close>.\<close>

record mock_exam_row =
  me_id :: uuid
  me_student_id :: uuid
  me_exam_profile_id :: uuid
  me_job_id :: "uuid option"
  me_mock_type :: mock_exam_type
  me_status :: exam_status
  me_target_knowledge_id :: "uuid option"
  me_total_score :: int
  me_duration_minutes :: int
  me_strategy_version :: string
  me_validation_result :: "jobj option"
  me_version :: int
  me_created_at :: time

text \<open>\<open>MockExamQuestion\<close>.\<close>

record mock_exam_question_row =
  meq_mock_exam_id :: uuid
  meq_question_id :: uuid
  meq_sequence :: int
  meq_score :: int

text \<open>\<open>MockExamAttempt\<close>.\<close>

record mock_exam_attempt_row =
  mea_id :: uuid
  mea_student_id :: uuid
  mea_mock_exam_id :: uuid
  mea_score :: pyfloat
  mea_duration_seconds :: int
  mea_idempotency_key :: string
  mea_created_at :: time

text \<open>\<open>GeneratedQuestionCandidate\<close>.\<close>

record generated_question_candidate_row =
  gqc_id :: uuid
  gqc_requested_by_student_id :: "uuid option"
  gqc_mock_exam_id :: "uuid option"
  gqc_content :: string
  gqc_answer :: string
  gqc_solution :: string
  gqc_metadata_json :: jobj
  gqc_generator_model :: string
  gqc_prompt_version :: string
  gqc_generation_seed :: string
  gqc_validation_result :: jobj
  gqc_quality_status :: question_quality
  gqc_created_at :: time

text \<open>\<open>ReviewDecision\<close>.\<close>

record review_decision_row =
  rd_id :: uuid
  rd_candidate_id :: uuid
  rd_reviewer_user_id :: uuid
  rd_decision :: string
  rd_reason :: "string option"
  rd_created_at :: time

end
