(* ===== verification/Database.thy ===== *)
theory Database
  imports Rows_Runs Rows_Learning Rows_Exams
begin

text \<open>
  The database: one table for every mapped class of \<^verbatim>\<open>app/infrastructure/db/models.py\<close> that the
  modelled code uses, each the list of its rows in insertion order.

  A service is a computation over the database. \<open>session.scalar(select(T).where(...))\<close> is
  \<open>find\<close> on the table, an assignment to an attribute of a row is \<open>update_rows\<close>, \<open>session.add\<close>
  appends a row with a fresh identifier, and a session that raises before its commit is
  \<open>transaction\<close>. Row locks (\<open>with_for_update\<close>) serialize sessions: one session runs at a time.
\<close>

record db =
  db_users :: "user_row list"
  db_user_roles :: "user_role_row list"
  db_refresh_sessions :: "refresh_session_row list"
  db_account_deletions :: "account_deletion_row list"
  db_background_jobs :: "background_job_row list"
  db_domain_events :: "domain_event_row list"
  db_agent_runs :: "agent_run_row list"
  db_agent_steps :: "agent_step_row list"
  db_model_invocations :: "model_invocation_row list"
  db_tool_invocations :: "tool_invocation_row list"
  db_checkpoints :: "checkpoint_row list"
  db_tool_execution_records :: "tool_execution_record_row list"
  db_guardrail_events :: "guardrail_event_row list"
  db_proposals :: "proposal_row list"
  db_shadow_evaluations :: "shadow_evaluation_row list"
  db_school_profiles :: "school_profile_row list"
  db_students :: "student_row list"
  db_student_availability :: "student_availability_row list"
  db_student_availability_templates :: "student_availability_template_row list"
  db_knowledge_nodes :: "knowledge_node_row list"
  db_student_knowledge_progress :: "student_knowledge_progress_row list"
  db_learning_resources :: "learning_resource_row list"
  db_resource_versions :: "resource_version_row list"
  db_resource_sections :: "resource_section_row list"
  db_resource_knowledge_mappings :: "resource_knowledge_mapping_row list"
  db_school_knowledge_stats :: "school_knowledge_stat_row list"
  db_questions :: "question_row list"
  db_question_knowledge :: "question_knowledge_row list"
  db_weekly_plans :: "weekly_plan_row list"
  db_plan_tasks :: "plan_task_row list"
  db_plan_task_change_events :: "plan_task_change_event_row list"
  db_plan_task_knowledge :: "plan_task_knowledge_row list"
  db_plan_task_questions :: "plan_task_question_row list"
  db_question_attempts :: "question_attempt_row list"
  db_feedback :: "feedback_row list"
  db_student_knowledge_states :: "student_knowledge_state_row list"
  db_error_profiles :: "error_profile_row list"
  db_efficiency_profiles :: "efficiency_profile_row list"
  db_exam_profiles :: "exam_profile_row list"
  db_true_exams :: "true_exam_row list"
  db_true_exam_questions :: "true_exam_question_row list"
  db_chapter_true_exam_sessions :: "chapter_true_exam_session_row list"
  db_chapter_true_exam_session_questions :: "chapter_true_exam_session_question_row list"
  db_target_school_change_previews :: "target_school_change_preview_row list"
  db_true_exam_attempts :: "true_exam_attempt_row list"
  db_true_exam_profiles :: "true_exam_profile_row list"
  db_mock_exams :: "mock_exam_row list"
  db_mock_exam_questions :: "mock_exam_question_row list"
  db_mock_exam_attempts :: "mock_exam_attempt_row list"
  db_generated_question_candidates :: "generated_question_candidate_row list"
  db_review_decisions :: "review_decision_row list"

definition empty_db :: db where
  "empty_db = \<lparr>db_users = [],
     db_user_roles = [],
     db_refresh_sessions = [],
     db_account_deletions = [],
     db_background_jobs = [],
     db_domain_events = [],
     db_agent_runs = [],
     db_agent_steps = [],
     db_model_invocations = [],
     db_tool_invocations = [],
     db_checkpoints = [],
     db_tool_execution_records = [],
     db_guardrail_events = [],
     db_proposals = [],
     db_shadow_evaluations = [],
     db_school_profiles = [],
     db_students = [],
     db_student_availability = [],
     db_student_availability_templates = [],
     db_knowledge_nodes = [],
     db_student_knowledge_progress = [],
     db_learning_resources = [],
     db_resource_versions = [],
     db_resource_sections = [],
     db_resource_knowledge_mappings = [],
     db_school_knowledge_stats = [],
     db_questions = [],
     db_question_knowledge = [],
     db_weekly_plans = [],
     db_plan_tasks = [],
     db_plan_task_change_events = [],
     db_plan_task_knowledge = [],
     db_plan_task_questions = [],
     db_question_attempts = [],
     db_feedback = [],
     db_student_knowledge_states = [],
     db_error_profiles = [],
     db_efficiency_profiles = [],
     db_exam_profiles = [],
     db_true_exams = [],
     db_true_exam_questions = [],
     db_chapter_true_exam_sessions = [],
     db_chapter_true_exam_session_questions = [],
     db_target_school_change_previews = [],
     db_true_exam_attempts = [],
     db_true_exam_profiles = [],
     db_mock_exams = [],
     db_mock_exam_questions = [],
     db_mock_exam_attempts = [],
     db_generated_question_candidates = [],
     db_review_decisions = []\<rparr>"

type_synonym 'a db_comp = "(exn, db, 'a) comp"

end
