(* ===== verification/Harness_Lease.thy ===== *)
theory Harness_Lease
  imports Database
begin

text \<open>
  Run leases and fencing tokens: \<^verbatim>\<open>app/harness/lease.py\<close>.

  Every acquisition of a run's lease increments the fencing token of its row; the fenced writes
  of \<^verbatim>\<open>app/infrastructure/adapters/harness_store.py\<close> and \<open>tool_ledger.py\<close> compare their
  token with it. A lease manager is the object of one worker; the step relation interleaves the
  sessions of any number of workers.
\<close>

record run_lease =
  ls_run_id :: uuid
  ls_owner :: string
  ls_fencing_token :: int
  ls_expires_at :: time

record lease_manager =
  lm_run_id :: uuid
  lm_owner :: string
  lm_lease_seconds :: int
  lm_heartbeat_seconds :: int
  lm_lease :: "run_lease option"

definition new_lease_manager :: "uuid \<Rightarrow> string \<Rightarrow> lease_manager" where
  "new_lease_manager rid owner = \<lparr>lm_run_id = rid, lm_owner = owner, lm_lease_seconds = 45,
     lm_heartbeat_seconds = 10, lm_lease = None\<rparr>"

type_synonym 'a lease_comp = "(exn, lease_manager \<times> db, 'a) comp"

subsection \<open>Rows of agent runs\<close>

definition find_run :: "uuid \<Rightarrow> db \<Rightarrow> agent_run_row option" where
  "find_run rid d = find (\<lambda>r. ag_id r = rid) (db_agent_runs d)"

definition update_run :: "uuid \<Rightarrow> (agent_run_row \<Rightarrow> agent_run_row) \<Rightarrow> db \<Rightarrow> db" where
  "update_run rid f d = d\<lparr>db_agent_runs := update_rows (\<lambda>r. ag_id r = rid) f (db_agent_runs d)\<rparr>"

lemma find_run_update:
  "(\<And>r. ag_id (f r) = ag_id r) \<Longrightarrow>
    find_run rid (update_run rid' f d) =
      map_option (\<lambda>r. if rid = rid' then f r else r) (find_run rid d)"
  by (auto simp: find_run_def update_run_def find_update_rows option.map_comp
      dest: find_SomeD intro!: option.map_cong)

subsection \<open>The fence\<close>

definition assert_run_fence :: "agent_run_row \<Rightarrow> int \<Rightarrow> string option \<Rightarrow> time \<Rightarrow> exn + unit" where
  "assert_run_fence run token owner now =
    (if ag_fencing_token run \<noteq> token then Inl StaleWorkerErr
     else if owner \<noteq> None \<and> ag_lease_owner run \<noteq> owner then Inl StaleWorkerErr
     else if ag_lease_expires_at run = None \<or> the (ag_lease_expires_at run) \<le> now
       then Inl StaleWorkerErr
     else Inr ())"

definition assert_fence ::
  "uuid \<Rightarrow> int \<Rightarrow> string option \<Rightarrow> time \<Rightarrow> agent_run_row db_comp" where
  "assert_fence rid token owner now =
    andthen (gets (find_run rid)) (\<lambda>r. case r of
      None \<Rightarrow> throw StaleWorkerErr
    | Some run \<Rightarrow> andthen (lift_result (assert_run_fence run token owner now)) (\<lambda>_. ret run))"

definition fence_ok :: "uuid \<Rightarrow> int \<Rightarrow> time \<Rightarrow> db \<Rightarrow> bool" where
  "fence_ok rid token now d \<longleftrightarrow> (\<exists>run e. find_run rid d = Some run \<and> ag_fencing_token run = token
     \<and> ag_lease_expires_at run = Some e \<and> now < e)"

lemma assert_fence_cases:
  "assert_fence rid token None now d =
    (if fence_ok rid token now d then (Inr (the (find_run rid d)), d) else (Inl StaleWorkerErr, d))"
  by (auto simp: assert_fence_def assert_run_fence_def fence_ok_def comp_simps not_le
      split: option.splits)

lemma assert_fence_db: "assert_fence rid token owner now d = (r, d') \<Longrightarrow> d' = d"
  by (auto simp: assert_fence_def assert_run_fence_def comp_simps split: option.splits sum.splits)

lemma assert_fence_owner:
  "assert_fence rid token owner now d = (Inr run, d') \<Longrightarrow> fence_ok rid token now d"
  by (auto simp: assert_fence_def assert_run_fence_def fence_ok_def comp_simps not_le
      split: option.splits sum.splits if_splits)

subsection \<open>The lease manager\<close>

definition db_only :: "'a db_comp \<Rightarrow> 'a lease_comp" where
  "db_only m = (\<lambda>(lm, d). case m d of (r, d') \<Rightarrow> (r, (lm, d')))"

definition set_lease :: "run_lease option \<Rightarrow> unit lease_comp" where
  "set_lease l = modify (\<lambda>(lm, d). (lm\<lparr>lm_lease := l\<rparr>, d))"

text \<open>The database session of \<open>acquire\<close>; the manager's own \<open>_lease\<close> is set after its commit.\<close>

definition acquire_session :: "lease_manager \<Rightarrow> time \<Rightarrow> run_lease db_comp" where
  "acquire_session lm now = transaction
    (andthen (gets (find_run (lm_run_id lm))) (\<lambda>r. case r of
       None \<Rightarrow> throw (PyExc ''RuntimeError'')
     | Some run \<Rightarrow>
         if ag_status run = Run_CANCEL_REQUESTED \<or> ag_status run = Run_CANCELLED
           then throw RunCancelledErr
         else if str_truthy (ag_lease_owner run) \<and> ag_lease_owner run \<noteq> Some (lm_owner lm)
              \<and> (\<exists>e. ag_lease_expires_at run = Some e \<and> now < e)
           then throw LeaseUnavailableErr
         else
           andthen (modify (update_run (lm_run_id lm) (\<lambda>r. r\<lparr>
              ag_fencing_token := ag_fencing_token r + 1, ag_lease_owner := Some (lm_owner lm),
              ag_heartbeat_at := Some now, ag_lease_expires_at := Some (now + lm_lease_seconds lm),
              ag_status := Run_RUNNING\<rparr>))) (\<lambda>_.
           ret \<lparr>ls_run_id = ag_id run, ls_owner = lm_owner lm,
                ls_fencing_token = ag_fencing_token run + 1,
                ls_expires_at = now + lm_lease_seconds lm\<rparr>)))"

definition acquire :: "time \<Rightarrow> run_lease lease_comp" where
  "acquire now = andthen (gets fst) (\<lambda>lm.
     andthen (db_only (acquire_session lm now)) (\<lambda>l.
     andthen (set_lease (Some l)) (\<lambda>_. ret l)))"

definition renew_session :: "lease_manager \<Rightarrow> run_lease \<Rightarrow> time \<Rightarrow> run_lease db_comp" where
  "renew_session lm l now = transaction
    (andthen (gets (find_run (lm_run_id lm))) (\<lambda>r. case r of
       None \<Rightarrow> throw StaleWorkerErr
     | Some run \<Rightarrow>
         andthen (lift_result (assert_run_fence run (ls_fencing_token l) (Some (ls_owner l)) now)) (\<lambda>_.
           if ag_status run = Run_CANCEL_REQUESTED then throw RunCancelledErr
           else
             andthen (modify (update_run (lm_run_id lm) (\<lambda>r. r\<lparr>ag_heartbeat_at := Some now,
                ag_lease_expires_at := Some (now + lm_lease_seconds lm)\<rparr>))) (\<lambda>_.
             ret \<lparr>ls_run_id = ag_id run, ls_owner = ls_owner l,
                  ls_fencing_token = ls_fencing_token l,
                  ls_expires_at = now + lm_lease_seconds lm\<rparr>))))"

definition renew :: "time \<Rightarrow> unit lease_comp" where
  "renew now = andthen (gets fst) (\<lambda>lm. case lm_lease lm of
     None \<Rightarrow> throw (PyExc ''RuntimeError'')
   | Some l \<Rightarrow> andthen (db_only (renew_session lm l now)) (\<lambda>l'. set_lease (Some l')))"

definition release :: "unit lease_comp" where
  "release = andthen (gets fst) (\<lambda>lm. case lm_lease lm of
     None \<Rightarrow> ret ()
   | Some l \<Rightarrow>
       andthen (db_only (andthen (gets (find_run (lm_run_id lm))) (\<lambda>r. case r of
           Some run \<Rightarrow>
             if ag_fencing_token run = ls_fencing_token l \<and> ag_lease_owner run = Some (ls_owner l)
             then modify (update_run (lm_run_id lm)
                    (\<lambda>r. r\<lparr>ag_lease_owner := None, ag_lease_expires_at := None\<rparr>))
             else ret ()
         | None \<Rightarrow> ret ()))) (\<lambda>_. set_lease None))"

definition lease_assert_active :: "lease_manager \<Rightarrow> time \<Rightarrow> runtime_state \<Rightarrow> unit db_comp" where
  "lease_assert_active lm now st = (case lm_lease lm of
     None \<Rightarrow> throw (PyExc ''RuntimeError'')
   | Some l \<Rightarrow>
       if fencing_token st \<noteq> ls_fencing_token l then throw StaleWorkerErr
       else andthen (gets (find_run (lm_run_id lm))) (\<lambda>r. case r of
         None \<Rightarrow> throw StaleWorkerErr
       | Some run \<Rightarrow>
           if ag_status run = Run_CANCEL_REQUESTED then throw RunCancelledErr
           else lift_result (assert_run_fence run (ls_fencing_token l) (Some (ls_owner l)) now)))"

subsection \<open>Workers that share a run\<close>

text \<open>
  The system of workers: the database, the clock and the manager of every worker, by its owner
  name. A step is one committed or failed session of a worker, the passing of time, or any
  other write that leaves the lease columns alone (a fenced write, a cancellation request).
\<close>

record lease_system =
  sys_db :: db
  sys_now :: time
  sys_manager :: "string \<Rightarrow> lease_manager"

definition lease_columns_kept :: "uuid \<Rightarrow> db \<Rightarrow> db \<Rightarrow> bool" where
  "lease_columns_kept rid d d' \<longleftrightarrow>
     map_option (\<lambda>r. (ag_fencing_token r, ag_lease_owner r, ag_lease_expires_at r)) (find_run rid d')
     = map_option (\<lambda>r. (ag_fencing_token r, ag_lease_owner r, ag_lease_expires_at r)) (find_run rid d)"

inductive lease_step :: "uuid \<Rightarrow> lease_system \<Rightarrow> lease_system \<Rightarrow> bool" for rid where
  step_acquire: "acquire (sys_now s) (sys_manager s w, sys_db s) = (r, (m', d')) \<Longrightarrow>
    lease_step rid s (s\<lparr>sys_manager := (sys_manager s)(w := m'), sys_db := d'\<rparr>)"
| step_renew: "renew (sys_now s) (sys_manager s w, sys_db s) = (r, (m', d')) \<Longrightarrow>
    lease_step rid s (s\<lparr>sys_manager := (sys_manager s)(w := m'), sys_db := d'\<rparr>)"
| step_release: "release (sys_manager s w, sys_db s) = (r, (m', d')) \<Longrightarrow>
    lease_step rid s (s\<lparr>sys_manager := (sys_manager s)(w := m'), sys_db := d'\<rparr>)"
| step_tick: "sys_now s \<le> t \<Longrightarrow> lease_step rid s (s\<lparr>sys_now := t\<rparr>)"
| step_write: "lease_columns_kept rid (sys_db s) d' \<Longrightarrow> lease_step rid s (s\<lparr>sys_db := d'\<rparr>)"

inductive_cases lease_stepE: "lease_step rid s s'"

definition lease_start :: "uuid \<Rightarrow> lease_system \<Rightarrow> bool" where
  "lease_start rid s \<longleftrightarrow> find_run rid (sys_db s) \<noteq> None \<and>
     (\<forall>w. lm_owner (sys_manager s w) = w \<and> lm_run_id (sys_manager s w) = rid
        \<and> lm_lease (sys_manager s w) = None)"

inductive lease_reachable :: "uuid \<Rightarrow> lease_system \<Rightarrow> bool" for rid where
  reach_start: "lease_start rid s \<Longrightarrow> lease_reachable rid s"
| reach_step: "lease_reachable rid s \<Longrightarrow> lease_step rid s s' \<Longrightarrow> lease_reachable rid s'"

text \<open>The invariant: tokens are never ahead of the row and belong to one worker each.\<close>

definition run_token :: "uuid \<Rightarrow> db \<Rightarrow> int" where
  "run_token rid d = (case find_run rid d of Some r \<Rightarrow> ag_fencing_token r | None \<Rightarrow> 0)"

definition lease_inv :: "uuid \<Rightarrow> lease_system \<Rightarrow> bool" where
  "lease_inv rid s \<longleftrightarrow> find_run rid (sys_db s) \<noteq> None
     \<and> (\<forall>w. lm_owner (sys_manager s w) = w \<and> lm_run_id (sys_manager s w) = rid)
     \<and> (\<forall>w l. lm_lease (sys_manager s w) = Some l \<longrightarrow>
          ls_owner l = w \<and> ls_fencing_token l \<le> run_token rid (sys_db s))
     \<and> (\<forall>w l w' l'. lm_lease (sys_manager s w) = Some l \<and> lm_lease (sys_manager s w') = Some l'
          \<and> ls_fencing_token l = ls_fencing_token l' \<longrightarrow> w = w')"

lemma acquire_outcome:
  assumes "acquire now (lm, d) = (r, (lm', d'))"
  obtains (failed) e where "r = Inl e" "lm' = lm" "d' = d"
    | (acquired) run l where "r = Inr l" "lm' = lm\<lparr>lm_lease := Some l\<rparr>"
        "find_run (lm_run_id lm) d = Some run"
        "ls_owner l = lm_owner lm" "ls_fencing_token l = ag_fencing_token run + 1"
        "run_token (lm_run_id lm) d' = ag_fencing_token run + 1"
        "find_run (lm_run_id lm) d' \<noteq> None"
  using assms
  by (auto simp: acquire_def acquire_session_def db_only_def set_lease_def transaction_def comp_simps
      find_run_update run_token_def split: option.splits if_splits sum.splits prod.splits)

lemma renew_outcome:
  assumes "renew now (lm, d) = (r, (lm', d'))"
  obtains (failed) e where "r = Inl e" "lm' = lm" "d' = d"
    | (renewed) l l' where "lm_lease lm = Some l" "lm' = lm\<lparr>lm_lease := Some l'\<rparr>"
        "ls_owner l' = ls_owner l" "ls_fencing_token l' = ls_fencing_token l"
        "run_token (lm_run_id lm) d' = run_token (lm_run_id lm) d"
        "find_run (lm_run_id lm) d' \<noteq> None"
proof (cases "lm_lease lm")
  case None
  then show ?thesis using assms failed by (auto simp: renew_def comp_simps)
next
  case (Some l)
  have session: "(\<exists>e. renew_session lm l now d = (Inl e, d)) \<or>
      (\<exists>run. find_run (lm_run_id lm) d = Some run \<and> renew_session lm l now d =
        (Inr \<lparr>ls_run_id = ag_id run, ls_owner = ls_owner l, ls_fencing_token = ls_fencing_token l,
              ls_expires_at = now + lm_lease_seconds lm\<rparr>,
         update_run (lm_run_id lm) (\<lambda>r. r\<lparr>ag_heartbeat_at := Some now,
                ag_lease_expires_at := Some (now + lm_lease_seconds lm)\<rparr>) d))"
    by (cases "find_run (lm_run_id lm) d")
      (auto simp: renew_session_def transaction_def comp_simps assert_run_fence_def)
  from session show ?thesis
  proof (elim disjE exE conjE)
    fix e
    assume "renew_session lm l now d = (Inl e, d)"
    then show ?thesis using assms Some failed by (auto simp: renew_def db_only_def comp_simps)
  next
    fix run
    assume "find_run (lm_run_id lm) d = Some run" and "renew_session lm l now d =
        (Inr \<lparr>ls_run_id = ag_id run, ls_owner = ls_owner l, ls_fencing_token = ls_fencing_token l,
              ls_expires_at = now + lm_lease_seconds lm\<rparr>,
         update_run (lm_run_id lm) (\<lambda>r. r\<lparr>ag_heartbeat_at := Some now,
                ag_lease_expires_at := Some (now + lm_lease_seconds lm)\<rparr>) d)"
    then show ?thesis using assms Some renewed
      by (auto simp: renew_def db_only_def set_lease_def comp_simps find_run_update run_token_def)
  qed
qed

lemma release_outcome:
  assumes "release (lm, d) = (r, (lm', d'))"
  shows "lm' = lm\<lparr>lm_lease := None\<rparr>" and "run_token (lm_run_id lm) d' = run_token (lm_run_id lm) d"
    and "find_run (lm_run_id lm) d' \<noteq> None \<longleftrightarrow> find_run (lm_run_id lm) d \<noteq> None"
  using assms
  by (auto simp: release_def db_only_def set_lease_def comp_simps find_run_update run_token_def
      split: option.splits if_splits sum.splits prod.splits)

lemma lease_inv_start: "lease_start rid s \<Longrightarrow> lease_inv rid s"
  by (auto simp: lease_start_def lease_inv_def)

lemma lease_inv_manager:
  assumes "lease_inv rid s"
  shows "lm_owner (sys_manager s w) = w" "lm_run_id (sys_manager s w) = rid"
  using assms by (auto simp: lease_inv_def)

lemma lease_columns_keptD:
  "lease_columns_kept rid d d' \<Longrightarrow> run_token rid d' = run_token rid d
     \<and> (find_run rid d' \<noteq> None \<longleftrightarrow> find_run rid d \<noteq> None)"
  by (cases "find_run rid d"; cases "find_run rid d'") (auto simp: lease_columns_kept_def run_token_def)

lemma lease_inv_step:
  assumes "lease_step rid s s'" and "lease_inv rid s"
  shows "lease_inv rid s'"
  using assms
proof (cases rule: lease_step.cases)
  case (step_acquire w r m' d')
  note lm = lease_inv_manager [OF assms(2), of w]
  from step_acquire(2) show ?thesis
  proof (cases rule: acquire_outcome)
    case (failed e)
    then show ?thesis using step_acquire(1) assms(2) by simp
  next
    case (acquired run l)
    have old: "ls_fencing_token k \<le> ag_fencing_token run" if "lm_lease (sys_manager s v) = Some k" for v k
      using assms(2) that acquired(3) lm by (auto simp: lease_inv_def run_token_def)
    show ?thesis
      using step_acquire(1) assms(2) acquired lm old
      by (fastforce simp: lease_inv_def split: if_splits dest: old)
  qed
next
  case (step_renew w r m' d')
  note lm = lease_inv_manager [OF assms(2), of w]
  from step_renew(2) show ?thesis
  proof (cases rule: renew_outcome)
    case (failed e)
    then show ?thesis using step_renew(1) assms(2) by simp
  next
    case (renewed l l')
    show ?thesis
      using step_renew(1) assms(2) renewed lm
      by (fastforce simp: lease_inv_def split: if_splits)
  qed
next
  case (step_release w r m' d')
  note lm = lease_inv_manager [OF assms(2), of w]
  show ?thesis
    using step_release(1) assms(2) release_outcome [OF step_release(2)] lm
    by (auto simp: lease_inv_def split: if_splits)
next
  case (step_tick t)
  then show ?thesis using assms(2) unfolding lease_inv_def by auto
next
  case (step_write d')
  then show ?thesis using assms(2) lease_columns_keptD [of rid "sys_db s" d'] by (auto simp: lease_inv_def)
qed

lemma lease_reachable_inv: "lease_reachable rid s \<Longrightarrow> lease_inv rid s"
  by (induction rule: lease_reachable.induct) (auto intro: lease_inv_start lease_inv_step)

end
