(* ===== verification/Harness_Store.thy ===== *)
theory Harness_Store
  imports Harness_Lease Harness_Schemas Harness_Stall
begin

text \<open>
  The database stores of the harness, \<^verbatim>\<open>app/infrastructure/adapters/harness_store.py\<close>:
  \<open>DatabaseCheckpointStore\<close> and \<open>DatabaseTraceRecorder\<close>. Every write is one session, checks the
  fencing token first and is rolled back when it raises.

  Parameters: \<open>isof\<close> and \<open>co\<close> as in the schemas, \<open>digest\<close> the hash of a canonical JSON value,
  \<open>dumps\<close> its serialization, and \<open>uuid_str\<close>/\<open>uuid_of\<close> the text form of a UUID.
\<close>

record store_env =
  sv_isof :: "time \<Rightarrow> string"
  sv_coercions :: coercions
  sv_digest :: "json \<Rightarrow> string"
  sv_dumps :: "json \<Rightarrow> string"
  sv_uuid_str :: "uuid \<Rightarrow> string"
  sv_uuid_of :: "string \<Rightarrow> uuid option"

definition store_env_ok :: "store_env \<Rightarrow> bool" where
  "store_env_ok env \<longleftrightarrow> pydantic_ok (sv_coercions env) (sv_isof env)
     \<and> (\<forall>u. sv_uuid_of env (sv_uuid_str env u) = Some u)"

record run_store =
  rst_run_id :: uuid
  rst_fencing_token :: int

definition state_digest :: "store_env \<Rightarrow> jobj \<Rightarrow> string" where
  "state_digest env d = sv_digest env (canon_json (JObj d))"

subsection \<open>Checkpoints\<close>

definition checkpoint_at :: "uuid \<Rightarrow> int \<Rightarrow> checkpoint_row \<Rightarrow> bool" where
  "checkpoint_at rid n r \<longleftrightarrow> ck_run_id r = rid \<and> ck_step_number r = n"

definition put_checkpoint :: "run_store \<Rightarrow> time \<Rightarrow> runtime_state \<Rightarrow> jobj \<Rightarrow> string \<Rightarrow> db \<Rightarrow> db" where
  "put_checkpoint cs now st serialized hash d =
    (let here = checkpoint_at (rst_run_id cs) (loop_count st) in
     if find here (db_checkpoints d) = None then
       d\<lparr>db_checkpoints := db_checkpoints d @
         [\<lparr>ck_id = fresh_id (map ck_id (db_checkpoints d)), ck_run_id = rst_run_id cs,
           ck_step_number = loop_count st, ck_state = serialized,
           ck_checkpoint_version = checkpoint_version st, ck_state_hash = hash,
           ck_resume_safe = True, ck_fencing_token = rst_fencing_token cs, ck_created_at = now\<rparr>]\<rparr>
     else
       d\<lparr>db_checkpoints := update_rows here (\<lambda>r. r\<lparr>ck_state := serialized,
           ck_checkpoint_version := checkpoint_version st, ck_state_hash := hash,
           ck_resume_safe := True, ck_fencing_token := rst_fencing_token cs\<rparr>) (db_checkpoints d)\<rparr>)"

definition checkpoint_save :: "store_env \<Rightarrow> run_store \<Rightarrow> time \<Rightarrow> runtime_state \<Rightarrow> unit db_comp" where
  "checkpoint_save env cs now st =
    andthen (lift_result (serialize_runtime_state (sv_isof env) st)) (\<lambda>serialized.
      transaction
        (andthen (assert_fence (rst_run_id cs) (rst_fencing_token cs) None now) (\<lambda>_.
           modify (put_checkpoint cs now st serialized (state_digest env serialized)))))"

text \<open>\<open>order_by(step_number.desc(), created_at.desc()).limit(1)\<close>.\<close>

definition later_checkpoint :: "checkpoint_row \<Rightarrow> checkpoint_row \<Rightarrow> bool" where
  "later_checkpoint r b \<longleftrightarrow> ck_step_number b < ck_step_number r
     \<or> (ck_step_number b = ck_step_number r \<and> ck_created_at b < ck_created_at r)"

fun newest_checkpoint :: "checkpoint_row list \<Rightarrow> checkpoint_row option" where
  "newest_checkpoint [] = None"
| "newest_checkpoint (r # rs) = (case newest_checkpoint rs of
     None \<Rightarrow> Some r
   | Some b \<Rightarrow> if later_checkpoint b r then Some b else Some r)"

definition checkpoint_load_latest ::
  "store_env \<Rightarrow> run_store \<Rightarrow> time \<Rightarrow> runtime_state option db_comp" where
  "checkpoint_load_latest env cs now =
    andthen (assert_fence (rst_run_id cs) (rst_fencing_token cs) None now) (\<lambda>_.
    andthen (gets (\<lambda>d. newest_checkpoint
        (filter (\<lambda>r. ck_run_id r = rst_run_id cs \<and> ck_resume_safe r) (db_checkpoints d)))) (\<lambda>c.
      case c of
        None \<Rightarrow> ret None
      | Some r \<Rightarrow>
          if ck_checkpoint_version r \<noteq> 2 then throw CheckpointValidationErr
          else if ck_state_hash r \<noteq> state_digest env (ck_state r) then throw CheckpointValidationErr
          else andthen (lift_result (deserialize_runtime_state (sv_coercions env) (JObj (ck_state r)))) (\<lambda>st.
            if run_id st \<noteq> sv_uuid_str env (rst_run_id cs) then throw CheckpointValidationErr
            else ret (Some st))))"

lemma newest_checkpoint_None [simp]: "newest_checkpoint rs = None \<longleftrightarrow> rs = []"
  by (cases rs) (auto split: option.split)

lemma newest_checkpoint_in: "newest_checkpoint rs = Some r \<Longrightarrow> r \<in> set rs"
  by (induction rs arbitrary: r) (auto split: option.splits if_splits)

lemma newest_checkpoint_max:
  "newest_checkpoint rs = Some r \<Longrightarrow> x \<in> set rs \<Longrightarrow> ck_step_number x \<le> ck_step_number r"
proof (induction rs arbitrary: r x)
  case (Cons a rs)
  show ?case
  proof (cases "newest_checkpoint rs")
    case None
    then show ?thesis using Cons.prems by simp
  next
    case (Some b)
    have "ck_step_number y \<le> ck_step_number b" if "y \<in> set rs" for y
      using Cons.IH [OF Some that] .
    then show ?thesis
      using Cons.prems Some
      by (auto simp: later_checkpoint_def split: if_splits) (meson linorder_not_le order.strict_trans2 order_trans)+
  qed
qed simp

text \<open>The rows that a save leaves: the one it wrote, and the ones of other steps and runs.\<close>

lemma put_checkpoint_rows:
  assumes "r \<in> set (db_checkpoints (put_checkpoint cs now st s h d))"
  shows "checkpoint_at (rst_run_id cs) (loop_count st) r \<and> ck_state r = s \<and> ck_state_hash r = h
      \<and> ck_checkpoint_version r = checkpoint_version st \<and> ck_resume_safe r
    \<or> \<not> checkpoint_at (rst_run_id cs) (loop_count st) r \<and> r \<in> set (db_checkpoints d)"
  using assms
  by (auto simp: put_checkpoint_def Let_def checkpoint_at_def find_None split: if_splits
      elim!: set_update_rowsE)

lemma put_checkpoint_exists:
  "\<exists>r \<in> set (db_checkpoints (put_checkpoint cs now st s h d)).
     checkpoint_at (rst_run_id cs) (loop_count st) r \<and> ck_resume_safe r"
proof (cases "find (checkpoint_at (rst_run_id cs) (loop_count st)) (db_checkpoints d)")
  case None
  then show ?thesis by (simp add: put_checkpoint_def checkpoint_at_def)
next
  case (Some r)
  then have "r \<in> set (db_checkpoints d)" "checkpoint_at (rst_run_id cs) (loop_count st) r"
    using find_SomeD by fastforce+
  note hit = update_rows_hit [of r "db_checkpoints d" "checkpoint_at (rst_run_id cs) (loop_count st)",
      OF this, of "\<lambda>r. r\<lparr>ck_state := s, ck_checkpoint_version := checkpoint_version st,
        ck_state_hash := h, ck_resume_safe := True, ck_fencing_token := rst_fencing_token cs\<rparr>"]
  show ?thesis
    using hit Some \<open>checkpoint_at (rst_run_id cs) (loop_count st) r\<close>
    by (intro bexI [of _ "r\<lparr>ck_state := s, ck_checkpoint_version := checkpoint_version st,
        ck_state_hash := h, ck_resume_safe := True, ck_fencing_token := rst_fencing_token cs\<rparr>"])
      (simp_all add: put_checkpoint_def checkpoint_at_def Let_def)
qed

lemma checkpoint_save_cases:
  "checkpoint_save env cs now st d =
    (case serialize_runtime_state (sv_isof env) st of
       Inl e \<Rightarrow> (Inl e, d)
     | Inr s \<Rightarrow> if fence_ok (rst_run_id cs) (rst_fencing_token cs) now d
         then (Inr (), put_checkpoint cs now st s (state_digest env s) d)
         else (Inl StaleWorkerErr, d))"
  by (auto simp: checkpoint_save_def transaction_def comp_simps assert_fence_cases split: sum.split)

lemma fence_ok_put_checkpoint [simp]:
  "fence_ok rid token now (put_checkpoint cs now' st s h d) = fence_ok rid token now d"
  by (auto simp: fence_ok_def find_run_def put_checkpoint_def Let_def)

theorem load_after_save:
  assumes env: "store_env_ok env" and save: "checkpoint_save env cs now st d = (Inr (), d')"
    and fence: "fence_ok (rst_run_id cs) (rst_fencing_token cs) now' d'"
    and own: "run_id st = sv_uuid_str env (rst_run_id cs)" and ver: "checkpoint_version st = 2"
    and last: "\<And>r. r \<in> set (db_checkpoints d) \<Longrightarrow> ck_run_id r = rst_run_id cs \<Longrightarrow>
      ck_step_number r \<le> loop_count st"
  shows "checkpoint_load_latest env cs now' d' = (Inr (Some (st\<lparr>resumed := True\<rparr>)), d')"
proof -
  obtain s where s: "serialize_runtime_state (sv_isof env) st = Inr s"
    and d': "d' = put_checkpoint cs now st s (state_digest env s) d"
    using save by (auto simp: checkpoint_save_cases split: sum.splits if_splits)
  let ?mine = "filter (\<lambda>r. ck_run_id r = rst_run_id cs \<and> ck_resume_safe r) (db_checkpoints d')"
  obtain w where w: "w \<in> set ?mine" "ck_step_number w = loop_count st"
    using put_checkpoint_exists [of cs now st s "state_digest env s" d]
    by (auto simp: d' checkpoint_at_def)
  then obtain r where r: "newest_checkpoint ?mine = Some r"
    by (metis empty_iff list.set(1) newest_checkpoint_None not_Some_eq)
  have mem: "r \<in> set (db_checkpoints d')" "ck_run_id r = rst_run_id cs"
    using newest_checkpoint_in [OF r] by auto
  have "ck_step_number r \<le> loop_count st"
    using put_checkpoint_rows [OF mem(1) [unfolded d']] mem(2) last by (auto simp: checkpoint_at_def)
  moreover have "loop_count st \<le> ck_step_number r"
    using newest_checkpoint_max [OF r w(1)] w(2) by simp
  ultimately have "checkpoint_at (rst_run_id cs) (loop_count st) r"
    using mem(2) by (simp add: checkpoint_at_def)
  then have row: "ck_state r = s" "ck_state_hash r = state_digest env s" "ck_checkpoint_version r = 2"
    using put_checkpoint_rows [OF mem(1) [unfolded d']] ver by auto
  have "deserialize_runtime_state (sv_coercions env) (JObj s) =
      Inr (st\<lparr>resumed := True, checkpoint_version := 2\<rparr>)"
    using env s by (intro checkpoint_roundtrip) (auto simp: store_env_ok_def)
  moreover have "st\<lparr>resumed := True, checkpoint_version := 2\<rparr> = st\<lparr>resumed := True\<rparr>"
    using ver by simp
  ultimately show ?thesis
    using fence own row r
    by (simp add: checkpoint_load_latest_def comp_simps assert_fence_cases)
qed

lemma checkpoint_save_stale:
  "\<not> fence_ok (rst_run_id cs) (rst_fencing_token cs) now d \<Longrightarrow>
    \<exists>e. checkpoint_save env cs now st d = (Inl e, d)"
  by (auto simp: checkpoint_save_cases split: sum.split)

subsection \<open>The trace\<close>

definition action_json :: "model_result \<Rightarrow> jobj" where
  "action_json result = (let a = mr_action result in
    [(''decision'', json_of_option JStr (ma_decision a)),
     (''confidence'', JFloat (ma_confidence a)),
     (''reason_codes'', JList (map JStr (ma_reason_codes a))),
     (''tool_name'', json_of_option (\<lambda>c. JStr (tc_name c)) (ma_tool_call a)),
     (''finish'', JBool (ma_finish a)),
     (''error_code'', json_of_option JStr (mr_error_code result))])"

definition action_type :: "model_result \<Rightarrow> string" where
  "action_type result =
    (if str_truthy (mr_error_code result) then ''MODEL_ERROR''
     else if ma_finish (mr_action result) then ''FINAL'' else ''TOOL_CALL'')"

definition step_at :: "uuid \<Rightarrow> int \<Rightarrow> agent_step_row \<Rightarrow> bool" where
  "step_at rid n r \<longleftrightarrow> stp_run_id r = rid \<and> stp_step_number r = n"

definition new_step ::
  "run_store \<Rightarrow> agent_run_row \<Rightarrow> time \<Rightarrow> runtime_state \<Rightarrow> model_result \<Rightarrow> uuid \<Rightarrow> agent_step_row" where
  "new_step cs run now st result i = (let a = mr_action result in
    \<lparr>stp_id = i, stp_run_id = rst_run_id cs, stp_step_number = loop_count st,
     stp_action = action_json result, stp_observation_digest = None,
     stp_model_name = mr_model_name result, stp_input_tokens = mr_input_tokens result,
     stp_output_tokens = mr_output_tokens result, stp_latency_ms = mr_latency_ms result,
     stp_prompt_version = ag_prompt_version run, stp_policy_version = ag_policy_version run,
     stp_action_type = action_type result, stp_decision = ma_decision a,
     stp_confidence = ma_confidence a, stp_reason_codes = ma_reason_codes a,
     stp_stall_reason = map_option stall_value (stall_reason_of st), stp_created_at = now\<rparr>)"

definition repeat_step :: "model_result \<Rightarrow> agent_step_row \<Rightarrow> agent_step_row" where
  "repeat_step result r = (let a = mr_action result in
    r\<lparr>stp_action := action_json result, stp_model_name := mr_model_name result,
      stp_input_tokens := stp_input_tokens r + mr_input_tokens result,
      stp_output_tokens := stp_output_tokens r + mr_output_tokens result,
      stp_latency_ms := stp_latency_ms r + mr_latency_ms result,
      stp_action_type := action_type result, stp_decision := ma_decision a,
      stp_confidence := ma_confidence a, stp_reason_codes := ma_reason_codes a\<rparr>)"

text \<open>\<open>select(func.max(attempt_number)) ... or 0\<close>.\<close>

definition current_attempt :: "uuid \<Rightarrow> model_invocation_row list \<Rightarrow> int" where
  "current_attempt i rows =
    (case map mi_attempt_number (filter (\<lambda>m. mi_step_id m = i) rows) of
       [] \<Rightarrow> 0 | n # ns \<Rightarrow> fold max ns n)"

text \<open>The invocation rows of a result; \<open>ids\<close> supplies their identifiers.\<close>

definition result_attempts :: "model_result \<Rightarrow> model_attempt list" where
  "result_attempts result =
    (if mr_attempts result = [] then
       [\<lparr>at_model_name = mr_model_name result, at_purpose = ''PRIMARY'', at_status = ''SUCCEEDED'',
         at_input_tokens = mr_input_tokens result, at_output_tokens = mr_output_tokens result,
         at_latency_ms = mr_latency_ms result, at_error_code = None\<rparr>]
     else mr_attempts result)"

definition new_invocation ::
  "run_store \<Rightarrow> time \<Rightarrow> uuid \<Rightarrow> uuid \<Rightarrow> int \<Rightarrow> jobj option \<Rightarrow> model_attempt \<Rightarrow> model_invocation_row" where
  "new_invocation cs now i step_id n response a =
    \<lparr>mi_id = i, mi_run_id = rst_run_id cs, mi_step_id = step_id, mi_attempt_number = n,
     mi_purpose = at_purpose a, mi_model_name = at_model_name a, mi_status = at_status a,
     mi_input_tokens = at_input_tokens a, mi_output_tokens = at_output_tokens a,
     mi_latency_ms = at_latency_ms a, mi_error_code = at_error_code a,
     mi_response_action = response, mi_created_at = now\<rparr>"

fun add_invocations ::
  "run_store \<Rightarrow> time \<Rightarrow> uuid \<Rightarrow> int \<Rightarrow> jobj \<Rightarrow> model_attempt list \<Rightarrow> model_invocation_row list
   \<Rightarrow> model_invocation_row list" where
  "add_invocations cs now step_id n response [] rows = rows"
| "add_invocations cs now step_id n response (a # as) rows =
     add_invocations cs now step_id (n + 1) response as
       (rows @ [new_invocation cs now (fresh_id (map mi_id rows)) step_id (n + 1)
          (if as = [] then Some response else None) a])"

definition trace_record_step ::
  "store_env \<Rightarrow> run_store \<Rightarrow> time \<Rightarrow> runtime_state \<Rightarrow> model_result \<Rightarrow> string db_comp" where
  "trace_record_step env cs now st result = transaction
    (andthen (assert_fence (rst_run_id cs) (rst_fencing_token cs) None now) (\<lambda>run.
     andthen (gets (\<lambda>d. find (step_at (rst_run_id cs) (loop_count st)) (db_agent_steps d))) (\<lambda>step.
     andthen
       (case step of
          None \<Rightarrow> andthen (gets (\<lambda>d. fresh_id (map stp_id (db_agent_steps d)))) (\<lambda>i.
            andthen (modify (\<lambda>d. d\<lparr>db_agent_steps := db_agent_steps d @ [new_step cs run now st result i]\<rparr>))
              (\<lambda>_. ret i))
        | Some r \<Rightarrow> andthen (modify (\<lambda>d. d\<lparr>db_agent_steps :=
              update_rows (\<lambda>x. stp_id x = stp_id r) (repeat_step result) (db_agent_steps d)\<rparr>))
            (\<lambda>_. ret (stp_id r))) (\<lambda>i.
     andthen (modify (\<lambda>d. d\<lparr>db_model_invocations :=
         add_invocations cs now i (current_attempt i (db_model_invocations d)) (action_json result)
           (result_attempts result) (db_model_invocations d)\<rparr>)) (\<lambda>_.
     ret (sv_uuid_str env i))))))"

text \<open>
  \<open>_redact_sensitive\<close>: the value of a key whose lower-case form contains a sensitive part is
  replaced, at every depth.
\<close>

fun contains :: "string \<Rightarrow> string \<Rightarrow> bool" where
  "contains part [] = (part = [])"
| "contains part (c # cs) = (startswith (c # cs) part \<or> contains part cs)"

definition lower_char :: "char \<Rightarrow> char" where
  "lower_char c = (if CHR ''A'' \<le> c \<and> c \<le> CHR ''Z'' then char_of (of_char c + 32 :: nat) else c)"

definition sensitive_parts :: "string list" where
  "sensitive_parts = [''phone'', ''token'', ''secret'', ''password'', ''api_key'']"

definition sensitive_key :: "string \<Rightarrow> bool" where
  "sensitive_key k \<longleftrightarrow> list_ex (\<lambda>part. contains part (map lower_char k)) sensitive_parts"

fun redact_sensitive :: "json \<Rightarrow> json" where
  "redact_sensitive (JObj d) = JObj (map (\<lambda>kv. (fst kv,
     if sensitive_key (fst kv) then JStr ''[REDACTED]'' else redact_sensitive (snd kv))) d)"
| "redact_sensitive (JList xs) = JList (map redact_sensitive xs)"
| "redact_sensitive v = v"

definition safe_observation :: "store_env \<Rightarrow> json \<Rightarrow> string" where
  "safe_observation env v = take 4000 (sv_dumps env (canon_json (redact_sensitive v)))"

definition trace_record_tool ::
  "store_env \<Rightarrow> run_store \<Rightarrow> time \<Rightarrow> string \<Rightarrow> tool_call \<Rightarrow> jobj \<Rightarrow> int \<Rightarrow> int \<Rightarrow> string
   \<Rightarrow> string option \<Rightarrow> bool \<Rightarrow> unit db_comp" where
  "trace_record_tool env cs now step_id call obs latency retries status err replayed =
    (case sv_uuid_of env step_id of
       None \<Rightarrow> throw (PyExc ''ValueError'')
     | Some sid \<Rightarrow> transaction
         (andthen (assert_fence (rst_run_id cs) (rst_fencing_token cs) None now) (\<lambda>_.
          modify (\<lambda>d.
            let here = (\<lambda>r. ti_run_id r = rst_run_id cs \<and> ti_step_id r = sid);
                text = safe_observation env (JObj obs)
            in if find here (db_tool_invocations d) = None then
                 d\<lparr>db_tool_invocations := db_tool_invocations d @
                   [\<lparr>ti_id = fresh_id (map ti_id (db_tool_invocations d)), ti_run_id = rst_run_id cs,
                     ti_step_id = sid, ti_tool_name = tc_name call, ti_tool_version = ''v1'',
                     ti_args_digest = state_digest env (tc_arguments call),
                     ti_observation_digest = Some text, ti_status = status, ti_latency_ms = latency,
                     ti_idempotency_key = tc_idempotency_key call,
                     ti_risk = (if startswith (tc_name call) ''propose_'' then ''PROPOSAL'' else ''READ''),
                     ti_retry_count = retries, ti_error_code = err, ti_replayed = replayed,
                     ti_created_at = now\<rparr>]\<rparr>
               else
                 d\<lparr>db_tool_invocations := update_rows here (\<lambda>r. r\<lparr>ti_observation_digest := Some text,
                     ti_status := status, ti_latency_ms := ti_latency_ms r + latency,
                     ti_retry_count := ti_retry_count r + retries, ti_error_code := err,
                     ti_replayed := ti_replayed r \<or> replayed\<rparr>) (db_tool_invocations d)\<rparr>))))"

definition trace_record_guardrail ::
  "store_env \<Rightarrow> run_store \<Rightarrow> time \<Rightarrow> string option \<Rightarrow> string option \<Rightarrow> string \<Rightarrow> string
   \<Rightarrow> unit db_comp" where
  "trace_record_guardrail env cs now step_id tool_name decision reason_code = transaction
    (andthen (assert_fence (rst_run_id cs) (rst_fencing_token cs) None now) (\<lambda>run.
     andthen (if str_truthy step_id then
         (case sv_uuid_of env (the step_id) of
            None \<Rightarrow> throw (PyExc ''ValueError'') | Some i \<Rightarrow> ret (Some i))
       else ret None) (\<lambda>sid.
     modify (\<lambda>d. d\<lparr>db_guardrail_events := db_guardrail_events d @
       [\<lparr>ge_id = fresh_id (map ge_id (db_guardrail_events d)), ge_run_id = rst_run_id cs,
         ge_step_id = sid, ge_tool_name = tool_name, ge_policy_version = ag_policy_version run,
         ge_decision = decision, ge_reason_code = reason_code, ge_created_at = now\<rparr>]\<rparr>))))"

subsection \<open>What the trace keeps\<close>

text \<open>A redacted value has no text under a sensitive key, at any depth.\<close>

fun redacted :: "json \<Rightarrow> bool" where
  "redacted (JObj d) = list_all (\<lambda>kv. (sensitive_key (fst kv) \<longrightarrow> snd kv = JStr ''[REDACTED]'')
     \<and> redacted (snd kv)) d"
| "redacted (JList xs) = list_all redacted xs"
| "redacted _ = True"

lemma redact_sensitive_redacted: "redacted (redact_sensitive v)"
  by (induction v rule: redact_sensitive.induct) (auto simp: list_all_iff)

text \<open>The attempts of a step are numbered without gaps or repetitions.\<close>

definition attempts_numbered :: "model_invocation_row list \<Rightarrow> bool" where
  "attempts_numbered rows \<longleftrightarrow> distinct (map (\<lambda>m. (mi_step_id m, mi_attempt_number m)) rows)"

lemma fold_max_ge: "(x::int) \<in> set ns \<or> x \<le> n \<Longrightarrow> x \<le> fold max ns n"
  by (induction ns arbitrary: n) (auto simp: le_max_iff_disj)

lemma current_attempt_ge:
  assumes "m \<in> set rows" and "mi_step_id m = i"
  shows "mi_attempt_number m \<le> current_attempt i rows"
proof -
  let ?ns = "map mi_attempt_number (filter (\<lambda>m. mi_step_id m = i) rows)"
  have m: "mi_attempt_number m \<in> set ?ns" using assms by auto
  show ?thesis
  proof (cases ?ns)
    case Nil
    then show ?thesis using m by (simp only: list.set empty_iff)
  next
    case (Cons n ns)
    then have "current_attempt i rows = fold max ns n" by (simp add: current_attempt_def)
    with m show ?thesis unfolding Cons by (auto intro: fold_max_ge)
  qed
qed

lemma add_invocations_numbered:
  assumes "attempts_numbered rows"
    and "\<And>m. m \<in> set rows \<Longrightarrow> mi_step_id m = i \<Longrightarrow> mi_attempt_number m \<le> n"
  shows "attempts_numbered (add_invocations cs now i n response as rows)"
  using assms
proof (induction cs now i n response "as" rows rule: add_invocations.induct)
  case (2 cs now i n response a "as" rows)
  let ?rows = "rows @ [new_invocation cs now (fresh_id (map mi_id rows)) i (n + 1)
      (if as = [] then Some response else None) a]"
  have "attempts_numbered ?rows"
    using 2(2,3) by (force simp: attempts_numbered_def new_invocation_def)
  moreover have "mi_attempt_number m \<le> n + 1" if "m \<in> set ?rows" "mi_step_id m = i" for m
  proof (cases "m \<in> set rows")
    case True
    then show ?thesis using 2(3) [of m] that(2) by simp
  next
    case False
    then have "m = new_invocation cs now (fresh_id (map mi_id rows)) i (n + 1)
        (if as = [] then Some response else None) a" using that(1) by simp
    then show ?thesis by (simp only: new_invocation_def model_invocation_row.simps)
  qed
  ultimately show ?case using 2(1) by simp
qed simp

lemma trace_record_step_numbered:
  "keeps (\<lambda>d. attempts_numbered (db_model_invocations d)) (trace_record_step env cs now st result)"
proof -
  have fence: "keeps P (assert_fence rid token owner now)" for P rid token owner now
    by (auto simp: keeps_def dest: assert_fence_db) (metis assert_fence_db prod.collapse)
  have add: "keeps (\<lambda>d. attempts_numbered (db_model_invocations d)) (modify (\<lambda>d. d\<lparr>db_model_invocations :=
      add_invocations cs now i (current_attempt i (db_model_invocations d)) r as (db_model_invocations d)\<rparr>))"
    for i r "as"
    by (rule keeps_modify) (auto intro!: add_invocations_numbered current_attempt_ge)
  show ?thesis
    unfolding trace_record_step_def
    by (intro keeps_transaction keeps_andthen keeps_option keeps_ret keeps_gets fence add keeps_modify) auto
qed

end
