(* ===== verification/Harness_Db_Ledger.thy ===== *)
theory Harness_Db_Ledger
  imports Harness_Store Harness_Safety
begin

text \<open>
  The tool execution ledger of the database, \<^verbatim>\<open>app/infrastructure/adapters/tool_ledger.py\<close>, and the
  runner as the worker builds it: stores, trace, ledger and lease of one run over one database.

  The world is the current time with the database; each operation is one session at that time.
  The ledger satisfies the executor's contract, so a recorded tool call is executed once.
\<close>

type_synonym db_world = "time \<times> db"

definition timed :: "(time \<Rightarrow> 'a db_comp) \<Rightarrow> (exn, db_world, 'a) comp" where
  "timed m = (\<lambda>(now, d). case m now d of (r, d') \<Rightarrow> (r, (now, d')))"

subsection \<open>The ledger\<close>

definition txr_at :: "uuid \<Rightarrow> string \<Rightarrow> string \<Rightarrow> tool_execution_record_row \<Rightarrow> bool" where
  "txr_at rid n k r \<longleftrightarrow> txr_run_id r = rid \<and> txr_tool_name r = n \<and> txr_idempotency_key r = k"

definition ledger_begin ::
  "run_store \<Rightarrow> string \<Rightarrow> string \<Rightarrow> tool_call \<Rightarrow> string \<Rightarrow> time \<Rightarrow> ledger_entry db_comp" where
  "ledger_begin cs name tool_version call dg now =
    (case tc_idempotency_key call of
       None \<Rightarrow> throw ToolValidationErr
     | Some k \<Rightarrow> transaction
         (andthen (assert_fence (rst_run_id cs) (rst_fencing_token cs) None now) (\<lambda>_.
          andthen (gets (\<lambda>d. find (txr_at (rst_run_id cs) name k) (db_tool_execution_records d))) (\<lambda>found.
            case found of
              Some r \<Rightarrow>
                if txr_args_digest r \<noteq> dg then throw ToolValidationErr
                else (case ledger_status_of_value (txr_status r) of
                    None \<Rightarrow> throw value_error
                  | Some s \<Rightarrow> ret \<lparr>le_record_id = txr_id r, le_status = s, le_is_new = False,
                                   le_result = txr_result r\<rparr>)
            | None \<Rightarrow>
                andthen (gets (\<lambda>d. fresh_id (map txr_id (db_tool_execution_records d)))) (\<lambda>i.
                andthen (modify (\<lambda>d. d\<lparr>db_tool_execution_records := db_tool_execution_records d @
                    [\<lparr>txr_id = i, txr_run_id = rst_run_id cs, txr_tool_name = name,
                      txr_tool_version = tool_version, txr_idempotency_key = k, txr_args_digest = dg,
                      txr_status = ledger_status_value Ledger_STARTED, txr_result = None,
                      txr_result_digest = None, txr_error_code = None, txr_started_at = now,
                      txr_finished_at = None, txr_fencing_token = rst_fencing_token cs,
                      txr_created_at = now\<rparr>]\<rparr>)) (\<lambda>_.
                ret \<lparr>le_record_id = i, le_status = Ledger_STARTED, le_is_new = True,
                     le_result = None\<rparr>))))))"

definition ledger_update ::
  "store_env \<Rightarrow> run_store \<Rightarrow> uuid \<Rightarrow> tool_ledger_status \<Rightarrow> jobj option \<Rightarrow> string option \<Rightarrow> time
   \<Rightarrow> unit db_comp" where
  "ledger_update env cs i status result err now = transaction
    (andthen (assert_fence (rst_run_id cs) (rst_fencing_token cs) None now) (\<lambda>_.
     andthen (gets (\<lambda>d. find (\<lambda>r. txr_id r = i) (db_tool_execution_records d))) (\<lambda>found.
       case found of
         None \<Rightarrow> throw (PyExc ''RuntimeError'')
       | Some r \<Rightarrow>
           if txr_run_id r \<noteq> rst_run_id cs then throw (PyExc ''RuntimeError'')
           else modify (\<lambda>d. d\<lparr>db_tool_execution_records := update_rows (\<lambda>r. txr_id r = i)
              (\<lambda>r. r\<lparr>txr_status := ledger_status_value status, txr_result := result,
                     txr_result_digest := map_option (state_digest env) result,
                     txr_error_code := err, txr_fencing_token := rst_fencing_token cs,
                     txr_started_at := (if status = Ledger_STARTED then now else txr_started_at r),
                     txr_finished_at := (if status = Ledger_STARTED then None else Some now)\<rparr>)
              (db_tool_execution_records d)\<rparr>))))"

definition db_ledger :: "store_env \<Rightarrow> run_store \<Rightarrow> db_world tool_ledger" where
  "db_ledger env cs = \<lparr>
     tl_begin = (\<lambda>st d call dg. timed (ledger_begin cs (td_name d) (td_version d) call dg)),
     tl_mark_started = (\<lambda>st i. timed (ledger_update env cs i Ledger_STARTED None None)),
     tl_succeed = (\<lambda>st i v. timed (ledger_update env cs i Ledger_SUCCEEDED (Some v) None)),
     tl_fail = (\<lambda>st i c. timed (ledger_update env cs i Ledger_FAILED None (Some c))),
     tl_unknown = (\<lambda>st i c. timed (ledger_update env cs i Ledger_UNKNOWN None (Some c)))\<rparr>"

subsection \<open>The contract holds\<close>

definition entry_of_row :: "tool_execution_record_row \<Rightarrow> ledger_entry" where
  "entry_of_row r = \<lparr>le_record_id = txr_id r,
     le_status = the (ledger_status_of_value (txr_status r)), le_is_new = False,
     le_result = txr_result r\<rparr>"

definition db_entry ::
  "run_store \<Rightarrow> db_world \<Rightarrow> runtime_state \<Rightarrow> string \<Rightarrow> string \<Rightarrow> ledger_entry option" where
  "db_entry cs w st n k = map_option entry_of_row
     (find (txr_at (rst_run_id cs) n k) (db_tool_execution_records (snd w)))"

definition db_ledger_good :: "db_world \<Rightarrow> bool" where
  "db_ledger_good w \<longleftrightarrow> distinct (map txr_id (db_tool_execution_records (snd w)))"

lemma find_by_id:
  "distinct (map g rows) \<Longrightarrow> r \<in> set rows \<Longrightarrow> g r = i \<Longrightarrow> find (\<lambda>r. g r = i) rows = Some r"
  by (induction rows) (auto simp: image_iff)

lemma ledger_begin_cases:
  assumes "tc_idempotency_key call = Some k" and "ledger_begin cs n v call dg now d = (r, d')"
  obtains (raised) e where "r = Inl e" "d' = d"
    | (found) row where "find (txr_at (rst_run_id cs) n k) (db_tool_execution_records d) = Some row"
        "r = Inr (entry_of_row row)" "d' = d"
    | (opened) row where "find (txr_at (rst_run_id cs) n k) (db_tool_execution_records d) = None"
        "txr_at (rst_run_id cs) n k row"
        "r = Inr ((entry_of_row row)\<lparr>le_is_new := True\<rparr>)"
        "txr_id row = fresh_id (map txr_id (db_tool_execution_records d))"
        "d' = d\<lparr>db_tool_execution_records := db_tool_execution_records d @ [row]\<rparr>"
proof (cases "fence_ok (rst_run_id cs) (rst_fencing_token cs) now d")
  case False
  then show ?thesis using assms raised
    by (auto simp: ledger_begin_def transaction_def comp_simps assert_fence_cases)
next
  case True
  show ?thesis
  proof (cases "find (txr_at (rst_run_id cs) n k) (db_tool_execution_records d)")
    case (Some row)
    then show ?thesis using assms True raised found
      by (auto simp: ledger_begin_def transaction_def comp_simps assert_fence_cases entry_of_row_def
          split: if_splits option.splits)
  next
    case None
    let ?row = "\<lparr>txr_id = fresh_id (map txr_id (db_tool_execution_records d)),
        txr_run_id = rst_run_id cs, txr_tool_name = n, txr_tool_version = v,
        txr_idempotency_key = k, txr_args_digest = dg,
        txr_status = ledger_status_value Ledger_STARTED, txr_result = None,
        txr_result_digest = None, txr_error_code = None, txr_started_at = now,
        txr_finished_at = None, txr_fencing_token = rst_fencing_token cs, txr_created_at = now\<rparr>"
    have "r = Inr ((entry_of_row ?row)\<lparr>le_is_new := True\<rparr>)"
      "d' = d\<lparr>db_tool_execution_records := db_tool_execution_records d @ [?row]\<rparr>"
      using assms True None
      by (auto simp: ledger_begin_def transaction_def comp_simps assert_fence_cases entry_of_row_def
          simp del: ledger_status_value.simps)
    then show ?thesis
      by (intro opened [of ?row] None) (simp_all add: txr_at_def)
  qed
qed

lemma ledger_update_cases:
  assumes "ledger_update env cs i s v c now d = (r, d')"
  obtains (raised) e where "r = Inl e" "d' = d"
    | (updated) f where "r = Inr ()"
        "d' = d\<lparr>db_tool_execution_records := update_rows (\<lambda>r. txr_id r = i) f (db_tool_execution_records d)\<rparr>"
        "\<And>x. txr_id (f x) = txr_id x" "\<And>x. txr_result (f x) = v"
        "\<And>x. txr_status (f x) = ledger_status_value s"
        "\<And>x. txr_at (rst_run_id cs) n k (f x) = txr_at (rst_run_id cs) n k x"
proof (cases "fence_ok (rst_run_id cs) (rst_fencing_token cs) now d")
  case False
  then show ?thesis using assms raised
    by (auto simp: ledger_update_def transaction_def comp_simps assert_fence_cases)
next
  case True
  let ?f = "\<lambda>r. r\<lparr>txr_status := ledger_status_value s, txr_result := v,
     txr_result_digest := map_option (state_digest env) v, txr_error_code := c,
     txr_fencing_token := rst_fencing_token cs,
     txr_started_at := (if s = Ledger_STARTED then now else txr_started_at r),
     txr_finished_at := (if s = Ledger_STARTED then None else Some now)\<rparr>"
  show ?thesis
  proof (cases "\<exists>e. r = Inl e")
    case True
    then obtain e where e: "r = Inl e" by blast
    then have "d' = d"
      using assms unfolding ledger_update_def by (blast dest: transaction_rollback)
    with e show ?thesis by (rule raised)
  next
    case False
    have "r = Inr ()" "d' = d\<lparr>db_tool_execution_records :=
        update_rows (\<lambda>r. txr_id r = i) ?f (db_tool_execution_records d)\<rparr>"
      using assms False True
      by (auto simp: ledger_update_def transaction_def comp_simps assert_fence_cases
          split: option.splits if_splits)
    then show ?thesis by (rule updated) (simp_all add: txr_at_def)
  qed
qed

lemma ledger_update_laws:
  assumes "timed (ledger_update env cs i s v c) w = (r, w')" and "db_ledger_good w"
  shows "db_ledger_good w'"
    and "db_entry cs w st n k = Some x \<Longrightarrow>
      \<exists>y. db_entry cs w' st n k = Some y \<and> le_record_id y = le_record_id x"
    and "db_entry cs w st n k = Some x \<Longrightarrow> le_record_id x = i \<Longrightarrow> r = Inr () \<Longrightarrow>
      \<exists>y. db_entry cs w' st n k = Some y \<and> le_status y = s \<and> le_result y = v"
proof -
  obtain now d d' where w: "w = (now, d)" "w' = (now, d')"
    and u: "ledger_update env cs i s v c now d = (r, d')"
    using assms(1) by (cases w) (auto simp: timed_def split: prod.splits)
  from u have "db_ledger_good w'
    \<and> (db_entry cs w st n k = Some x \<longrightarrow>
        (\<exists>y. db_entry cs w' st n k = Some y \<and> le_record_id y = le_record_id x
           \<and> (le_record_id x = i \<and> r = Inr () \<longrightarrow> le_status y = s \<and> le_result y = v)))"
  proof (cases rule: ledger_update_cases [where n = n and k = k])
    case (raised e)
    then show ?thesis using assms(2) w by simp
  next
    case (updated f)
    have find: "find (txr_at (rst_run_id cs) n k) (db_tool_execution_records d') =
        map_option (\<lambda>r. if txr_id r = i then f r else r)
          (find (txr_at (rst_run_id cs) n k) (db_tool_execution_records d))"
      using updated(6) by (auto simp: updated(2) intro: find_update_rows)
    have "map txr_id (db_tool_execution_records d') = map txr_id (db_tool_execution_records d)"
      using updated(3) by (simp add: updated(2) map_update_rows)
    then have good: "db_ledger_good w'"
      using assms(2) w by (simp add: db_ledger_good_def)
    show ?thesis
    proof (cases "find (txr_at (rst_run_id cs) n k) (db_tool_execution_records d)")
      case None
      then show ?thesis using good w by (simp add: db_entry_def)
    next
      case (Some z)
      then have "db_entry cs w' st n k = Some (entry_of_row (if txr_id z = i then f z else z))"
        and "db_entry cs w st n k = Some (entry_of_row z)"
        using find w by (simp_all add: db_entry_def)
      then show ?thesis using good updated(3,4,5) by (auto simp: entry_of_row_def)
    qed
  qed
  then show "db_ledger_good w'"
    and "db_entry cs w st n k = Some x \<Longrightarrow>
      \<exists>y. db_entry cs w' st n k = Some y \<and> le_record_id y = le_record_id x"
    and "db_entry cs w st n k = Some x \<Longrightarrow> le_record_id x = i \<Longrightarrow> r = Inr () \<Longrightarrow>
      \<exists>y. db_entry cs w' st n k = Some y \<and> le_status y = s \<and> le_result y = v"
    by blast+
qed

lemma ledger_update_raises: "timed (ledger_update env cs i s v c) w = (Inl e, w') \<Longrightarrow> w' = w"
  by (cases w) (auto simp: timed_def ledger_update_def dest: transaction_rollback split: prod.splits)

lemma ledger_begin_raises: "timed (ledger_begin cs n v call dg) w = (Inl e, w') \<Longrightarrow> w' = w"
  by (cases w) (auto simp: timed_def ledger_begin_def dest: transaction_rollback
      split: prod.splits option.splits)

lemma ledger_begin_laws:
  assumes "timed (ledger_begin cs n v call dg) w = (Inr e, w')" and "tc_idempotency_key call = Some k"
    and "db_ledger_good w"
  shows "db_ledger_good w'
    \<and> (if le_is_new e then db_entry cs w st n k = None else w' = w)
    \<and> (\<exists>x. db_entry cs w' st n k = Some x \<and> same_record x e)"
proof -
  obtain now d d' where w: "w = (now, d)" "w' = (now, d')"
    and b: "ledger_begin cs n v call dg now d = (Inr e, d')"
    using assms(1) by (cases w) (auto simp: timed_def split: prod.splits)
  show ?thesis
    using assms(2) b
  proof (cases rule: ledger_begin_cases)
    case (found row)
    then show ?thesis using assms(3) w by (simp add: db_entry_def entry_of_row_def same_record_def)
  next
    case (opened row)
    then show ?thesis using assms(3) w
      by (auto simp: db_entry_def entry_of_row_def same_record_def db_ledger_good_def find_append)
  qed simp
qed

lemma ledger_begin_good:
  assumes "db_ledger_good w"
  shows "db_ledger_good (snd (timed (ledger_begin cs n v call dg) w))"
proof -
  obtain r w' where Pair: "timed (ledger_begin cs n v call dg) w = (r, w')"
    by (cases "timed (ledger_begin cs n v call dg) w")
  show ?thesis
  proof (cases r)
    case (Inl e)
    then show ?thesis using Pair assms ledger_begin_raises by fastforce
  next
    case (Inr e)
    show ?thesis
    proof (cases "tc_idempotency_key call")
      case None
      then show ?thesis using Pair Inr
        by (cases w) (auto simp: timed_def ledger_begin_def comp_simps)
    next
      case (Some k)
      then show ?thesis using ledger_begin_laws [of cs n v call dg w e w' k] Pair Inr assms by simp
    qed
  qed
qed

lemma ledger_update_snd:
  assumes "db_ledger_good w"
  shows "db_ledger_good (snd (timed (ledger_update env cs i s v c) w))"
    and "db_entry cs w st n k = Some x \<Longrightarrow>
      \<exists>y. db_entry cs (snd (timed (ledger_update env cs i s v c) w)) st n k = Some y
        \<and> le_record_id y = le_record_id x"
  using ledger_update_laws(1,2) [OF surjective_pairing assms] by blast+

lemma db_entry_run: "db_entry cs w st = db_entry cs w st'"
  by (simp add: db_entry_def fun_eq_iff)

interpretation dbl: ledger_contract "db_ledger env cs" "db_entry cs" db_ledger_good for env cs
proof (unfold_locales, goal_cases)
  case (1 st st' w)
  show ?case by (rule db_entry_run)
next
  case (4 w call k st d dg e w')
  then show ?case
    using ledger_begin_laws [of cs "td_name d" "td_version d" call dg w e w' k st]
    by (simp add: db_ledger_def)
next
  case (5 w call k st d dg e w')
  then show ?case
    using ledger_begin_laws [of cs "td_name d" "td_version d" call dg w e w' k st]
    by (auto simp: db_ledger_def)
next
  case (12 w st n k x rid v w')
  then show ?case
    using ledger_update_laws(3) [of env cs rid Ledger_SUCCEEDED "Some v" None w "Inr ()" w' st n k x]
    by (simp add: db_ledger_def)
qed (auto simp: db_ledger_def ledger_begin_good ledger_update_snd
  dest: ledger_begin_raises ledger_update_raises)

subsection \<open>The worker's runner\<close>

text \<open>
  The collaborators that \<^verbatim>\<open>app/workers/tasks.py\<close> gives the runner of one run: every store works
  on the run with the fencing token of the worker's lease; the model gateway stays a parameter.
\<close>

definition db_ports ::
  "store_env \<Rightarrow> lease_manager \<Rightarrow> run_store
   \<Rightarrow> (runtime_state \<Rightarrow> json list \<Rightarrow> (exn, db_world, model_result) comp) \<Rightarrow> db_world ports" where
  "db_ports env lm cs decide = \<lparr>
     po_decide = decide,
     po_save = (\<lambda>st. timed (\<lambda>now. checkpoint_save env cs now st)),
     po_record_step = (\<lambda>st result. timed (\<lambda>now. trace_record_step env cs now st result)),
     po_record_tool = (\<lambda>st step_id call obs latency retries status err replayed.
       timed (\<lambda>now. trace_record_tool env cs now step_id call obs latency retries status err replayed)),
     po_record_guardrail = (\<lambda>st step_id name decision reason.
       timed (\<lambda>now. trace_record_guardrail env cs now step_id name decision reason)),
     po_assert_active = (\<lambda>st. timed (\<lambda>now. lease_assert_active lm now st)),
     po_now = fst\<rparr>"

text \<open>A worker that lost its fence changes nothing: every store refuses before it writes.\<close>

lemma transaction_stale:
  assumes "\<not> fence_ok rid token now d"
  shows "transaction (andthen (assert_fence rid token None now) k) d = (Inl StaleWorkerErr, d)"
  using assms by (simp add: transaction_def comp_simps assert_fence_cases)

lemma timed_stale: "m now d = (Inl e, d) \<Longrightarrow> timed m (now, d) = (Inl e, (now, d))"
  by (simp add: timed_def)

theorem stale_stores_refuse:
  assumes "\<not> fence_ok (rst_run_id cs) (rst_fencing_token cs) now d"
  shows "\<exists>e. timed (\<lambda>now. checkpoint_save env cs now st) (now, d) = (Inl e, (now, d))"
    and "timed (\<lambda>now. trace_record_step env cs now st result) (now, d) = (Inl StaleWorkerErr, (now, d))"
    and "\<exists>e. timed (\<lambda>now. trace_record_tool env cs now step_id call obs l r s c b) (now, d)
      = (Inl e, (now, d))"
    and "timed (\<lambda>now. trace_record_guardrail env cs now sid tn dec rc) (now, d)
      = (Inl StaleWorkerErr, (now, d))"
    and "\<exists>e. timed (ledger_begin cs n v call dg) (now, d) = (Inl e, (now, d))"
    and "timed (ledger_update env cs i st' res err) (now, d) = (Inl StaleWorkerErr, (now, d))"
  using checkpoint_save_stale [OF assms, of env st]
  by (auto simp: timed_def trace_record_step_def trace_record_tool_def trace_record_guardrail_def
      ledger_begin_def ledger_update_def transaction_stale [OF assms] throw_apply split: option.split)

end
