(* ===== verification/Harness_Db_Properties.thy ===== *)
theory Harness_Db_Properties
  imports Harness_Db_Ledger
begin

text \<open>
  The properties of the harness over the database: the tool executor with the recorded ledger, the
  checkpoints, the trace and the leases, each applied to a small concrete database.
\<close>

subsection \<open>Example rows and parameters\<close>

definition example_isof :: "time \<Rightarrow> string" where
  "example_isof t = (if 0 \<le> t then replicate (nat t) CHR ''1''
     else CHR ''-'' # replicate (nat (- t)) CHR ''1'')"

definition example_time_of :: "string \<Rightarrow> time" where
  "example_time_of s = (case s of [] \<Rightarrow> 0
     | c # cs \<Rightarrow> if c = CHR ''-'' then - int (length cs) else int (length s))"

lemma example_time_of [simp]: "example_time_of (example_isof t) = t"
proof (cases "nat t")
  case 0
  then show ?thesis by (auto simp: example_time_of_def example_isof_def)
next
  case (Suc n)
  then have "t = int n + 1" by simp
  then show ?thesis by (simp add: example_time_of_def example_isof_def nat_add_distrib)
qed

definition example_coercions :: coercions where
  "example_coercions = \<lparr>co_str = strict_str,
     co_int = (\<lambda>j. case j of JInt i \<Rightarrow> Some i | _ \<Rightarrow> None), co_bool = strict_bool,
     co_datetime = (\<lambda>j. case j of JStr s \<Rightarrow> Some (example_time_of s) | _ \<Rightarrow> None)\<rparr>"

definition example_store_env :: store_env where
  "example_store_env = \<lparr>sv_isof = example_isof, sv_coercions = example_coercions,
     sv_digest = (\<lambda>j. ''digest''), sv_dumps = (\<lambda>j. ''text''),
     sv_uuid_str = (\<lambda>u. replicate u CHR ''1''), sv_uuid_of = (\<lambda>s. Some (length s))\<rparr>"

lemma example_store_env_ok: "store_env_ok example_store_env"
  by (simp add: store_env_ok_def example_store_env_def pydantic_ok_def example_coercions_def)

text \<open>Run 1, held by the worker \<open>w1\<close> with token 1 until time 45.\<close>

definition example_run :: agent_run_row where
  "example_run = \<lparr>ag_id = 1, ag_job_id = 1, ag_student_id = 1, ag_goal = ''WEEKLY_PLAN'',
     ag_status = Run_RUNNING, ag_model_version = ''v'', ag_prompt_version = ''v'',
     ag_policy_version = ''v'', ag_loop_count = 0, ag_model_call_count = 0, ag_tool_call_count = 0,
     ag_input_tokens = 0, ag_output_tokens = 0, ag_resumed_count = 0, ag_termination_reason = None,
     ag_lease_owner = Some ''w1'', ag_lease_expires_at = Some 45, ag_fencing_token = 1,
     ag_heartbeat_at = Some 0, ag_cancel_requested_at = None, ag_cancelled_at = None,
     ag_version = 1, ag_created_at = 0\<rparr>"

definition example_db :: db where
  "example_db = empty_db\<lparr>db_agent_runs := [example_run]\<rparr>"

lemma example_no_records [simp]: "db_tool_execution_records example_db = []"
  by (simp add: example_db_def empty_db_def)

lemma fence_ok_records [simp]:
  "fence_ok rid token now (d\<lparr>db_tool_execution_records := rows\<rparr>) = fence_ok rid token now d"
  by (simp add: fence_ok_def find_run_def)

definition example_store :: run_store where
  "example_store = \<lparr>rst_run_id = 1, rst_fencing_token = 1\<rparr>"

lemma example_fence: "fence_ok (Suc 0) 1 now example_db \<longleftrightarrow> now < 45"
  by (simp add: fence_ok_def find_run_def example_db_def example_run_def empty_db_def)

definition example_write :: "db_world tool_definition" where
  "example_write = \<lparr>td_name = ''propose_plan'', td_description = ''proposal'',
     td_input_schema = JObj [],
     td_handler = (\<lambda>args. andthen (modify (\<lambda>(now, d). (now + 1, d))) (\<lambda>_. ret (JObj [(''id'', JInt 7)]))),
     td_risk = Risk_PROPOSAL, td_version = ''v1'', td_timeout_seconds = 10,
     td_retry_policy = default_retry_policy, td_args_model = None,
     td_side_effect_level = Effect_IDEMPOTENT_WRITE, td_idempotency_required = True,
     td_required_permissions = [], td_requires_confirmation = False, td_reconcile_handler = None,
     td_enabled_environments = [], td_feature_flag = None, td_minimum_role = None,
     td_terminal_decision = None\<rparr>"

definition example_db_env :: "db_world exec_env" where
  "example_db_env = \<lparr>ee_registry = [(''propose_plan'', example_write)],
     ee_ledger = Some (db_ledger example_store_env example_store),
     ee_availability = default_availability, ee_permissions = [],
     ee_sleep = (\<lambda>delay. ret ()), ee_monotonic = (\<lambda>w. of_int (fst w)),
     ee_random = (\<lambda>w. (1 / 2, w)), ee_digest = (\<lambda>j. ''digest''), ee_repr = (\<lambda>j. ''repr'')\<rparr>"

definition example_call :: tool_call where
  "example_call = \<lparr>tc_name = ''propose_plan'', tc_arguments = [], tc_idempotency_key = Some ''k1''\<rparr>"

subsection \<open>A recorded tool call runs once\<close>

text \<open>C4. A tool with side effects runs once per idempotency key: after an execution that returned a
  result, executing the same call again, in this or in a resumed run, returns the recorded result
  as a replay or raises (the lease is lost, the arguments changed), and in both cases it calls no
  handler: the world, with the database, stays as it is.\<close>

theorem recorded_call_runs_once:
  assumes "ee_ledger env = Some (db_ledger senv cs)"
    and "quiet_tool db_ledger_good (db_entry cs) env d"
    and "tc_idempotency_key call = Some k" and "k \<noteq> []"
    and "prepare_call env st call = Inr (d, args)" and "td_side_effect_level d \<noteq> Effect_NONE"
    and "db_ledger_good w" and "execute env st call w = (Inr r, w')"
    and "prepare_call env st2 call = Inr (d, args2)" and "run_id st2 = run_id st"
  shows "execute env st2 call w' =
      (Inr \<lparr>ter_observation = ter_observation r, ter_retry_count = 0, ter_replayed = True\<rparr>, w')
    \<or> (\<exists>err. execute env st2 call w' = (Inl err, w'))"
  using dbl.execute_again [OF assms(1,3,4,9,6) _ assms(10), of "ter_observation r" w']
    triple_InrD [OF dbl.execute_triple [OF assms(1-6)], of w r w', OF assms(7,8)]
  by simp

definition example_rstate :: runtime_state where
  "example_rstate = new_runtime_state ''1'' ''student'' ''WEEKLY_PLAN'' 0"

lemma example_prepare:
  "prepare_call example_db_env example_rstate example_call = Inr (example_write, [(''evidence_refs'', JList [])])"
  by (simp add: prepare_call_def example_db_env_def example_call_def registry_get_def is_enabled_def
      validated_arguments_def runtime_evidence_refs_def example_rstate_def new_runtime_state_def
      policy_validate_def forbidden_prefixes_def example_write_def)

lemma example_quiet: "quiet_tool db_ledger_good (db_entry example_store) example_db_env example_write"
  by (auto simp: quiet_tool_def leaves_def example_write_def example_db_env_def comp_simps
      db_ledger_good_def db_entry_def fun_eq_iff)

lemma example_executes:
  "case execute example_db_env example_rstate example_call (0, example_db) of
     (Inr r, w') \<Rightarrow> ter_observation r = [(''id'', JInt 7)] \<and> fst w' = 1 | _ \<Rightarrow> False"
  unfolding execute_def example_prepare
  by (simp add: comp_simps begin_ledger_def example_db_env_def example_write_def example_call_def
      db_ledger_def timed_def ledger_begin_def transaction_def assert_fence_cases example_fence
      example_store_def ledger_update_def run_attempts_def attempt_limit_def default_retry_policy_def
      upto_rec1 try_handler_def ledger_succeed_def txr_at_def)

theorem recorded_call_runs_once_witness:
  "\<exists>w'. fst w' = 1 \<and>
    (execute example_db_env example_rstate example_call w' =
      (Inr \<lparr>ter_observation = [(''id'', JInt 7)], ter_retry_count = 0, ter_replayed = True\<rparr>, w')
    \<or> (\<exists>err. execute example_db_env example_rstate example_call w' = (Inl err, w')))"
proof -
  obtain r w' where run: "execute example_db_env example_rstate example_call (0, example_db) = (Inr r, w')"
    and r: "ter_observation r = [(''id'', JInt 7)]" "fst w' = 1"
    using example_executes
    by (cases "execute example_db_env example_rstate example_call (0, example_db)")
      (auto split: sum.splits)
  have "ee_ledger example_db_env = Some (db_ledger example_store_env example_store)"
    "tc_idempotency_key example_call = Some ''k1''" "td_side_effect_level example_write \<noteq> Effect_NONE"
    "db_ledger_good (0, example_db)"
    by (simp_all add: example_db_env_def example_call_def example_write_def db_ledger_good_def
        example_db_def empty_db_def)
  from recorded_call_runs_once [OF this(1) example_quiet this(2) _ example_prepare this(3,4) run
      example_prepare] r
  show ?thesis by (intro exI [of _ w']) simp
qed

text \<open>The handler of a tool is called at most as often as its retry policy allows, and at most
  once for a write that is not idempotent, whatever it raises: any counter that only the handler
  raises, by one per call, bounds the executions.\<close>

theorem handler_calls_are_bounded:
  assumes "registry_get (ee_registry env) (tc_name call) (Some (ee_availability env)) = Inr d"
    and "counts_handler calls env d" and "execute env st call w = (r, w')"
  shows "calls w' \<le> calls w + nat (max 1 (rp_max_attempts (td_retry_policy d)))
    \<and> (td_side_effect_level d = Effect_NON_IDEMPOTENT_WRITE \<longrightarrow> calls w' \<le> calls w + 1)"
proof -
  have "calls w' \<le> calls w + nat (attempt_limit d call)"
    using execute_grows [OF assms(1,2), of st] assms(3) by (metis grows_def snd_conv)
  moreover have "nat (attempt_limit d call) \<le> nat (max 1 (rp_max_attempts (td_retry_policy d)))"
    using attempt_limit_le [of d call] by simp
  moreover have "td_side_effect_level d = Effect_NON_IDEMPOTENT_WRITE \<Longrightarrow> attempt_limit d call = 1"
    by (simp add: attempt_limit_def)
  ultimately show ?thesis by auto
qed

definition failing_tool :: "nat tool_definition" where
  "failing_tool = \<lparr>td_name = ''get_progress'', td_description = ''progress'',
     td_input_schema = JObj [],
     td_handler = (\<lambda>args. andthen (modify Suc) (\<lambda>_. throw (PyExc ''TimeoutError''))),
     td_risk = Risk_READ, td_version = ''v1'', td_timeout_seconds = 10,
     td_retry_policy = default_retry_policy, td_args_model = None,
     td_side_effect_level = Effect_NONE, td_idempotency_required = False,
     td_required_permissions = [], td_requires_confirmation = False, td_reconcile_handler = None,
     td_enabled_environments = [], td_feature_flag = None, td_minimum_role = None,
     td_terminal_decision = None\<rparr>"

definition failing_env :: "nat exec_env" where
  "failing_env = \<lparr>ee_registry = [(''get_progress'', failing_tool)], ee_ledger = None,
     ee_availability = default_availability, ee_permissions = [],
     ee_sleep = (\<lambda>delay. ret ()), ee_monotonic = (\<lambda>w. 0),
     ee_random = (\<lambda>w. (1 / 2, w)), ee_digest = (\<lambda>j. ''digest''), ee_repr = (\<lambda>j. ''repr'')\<rparr>"

theorem handler_calls_are_bounded_witness:
  "snd (execute failing_env example_rstate
      \<lparr>tc_name = ''get_progress'', tc_arguments = [], tc_idempotency_key = None\<rparr> 0) \<le> 3"
proof -
  let ?call = "\<lparr>tc_name = ''get_progress'', tc_arguments = [], tc_idempotency_key = None\<rparr>"
  obtain r w' where run: "execute failing_env example_rstate ?call 0 = (r, w')"
    by (cases "execute failing_env example_rstate ?call 0")
  have "registry_get (ee_registry failing_env) (tc_name ?call) (Some (ee_availability failing_env)) =
      Inr failing_tool"
    by (simp add: failing_env_def registry_get_def failing_tool_def is_enabled_def)
  moreover have "counts_handler id failing_env failing_tool"
    by (simp add: counts_handler_def failing_env_def failing_tool_def grows_def comp_simps)
  ultimately have "id w' \<le> id 0 + nat (max 1 (rp_max_attempts (td_retry_policy failing_tool)))"
    using handler_calls_are_bounded [OF _ _ run, of failing_tool id] by blast
  with run show ?thesis by (simp add: failing_tool_def default_retry_policy_def)
qed

subsection \<open>Checkpoints\<close>

text \<open>A checkpoint that was saved is the one a later worker resumes from: as long as it holds the
  fence and the run's earlier checkpoints have smaller step numbers, \<open>load_latest\<close> returns exactly
  the state that was saved, marked as resumed.\<close>

theorem saved_checkpoint_is_loaded:
  assumes "store_env_ok env" and "checkpoint_save env cs now st d = (Inr (), d')"
    and "fence_ok (rst_run_id cs) (rst_fencing_token cs) now' d'"
    and "run_id st = sv_uuid_str env (rst_run_id cs)" and "checkpoint_version st = 2"
    and "list_all (\<lambda>r. ck_run_id r = rst_run_id cs \<longrightarrow> ck_step_number r \<le> loop_count st)
           (db_checkpoints d)"
  shows "checkpoint_load_latest env cs now' d' = (Inr (Some (st\<lparr>resumed := True\<rparr>)), d')"
  by (rule load_after_save [OF assms(1-5)]) (use assms(6) in \<open>auto simp: list_all_iff\<close>)

lemma example_saves:
  "fst (checkpoint_save example_store_env example_store 0 example_rstate example_db) = Inr ()"
  by (simp add: checkpoint_save_cases serialize_runtime_state_def state_ok_def phase_shape_ok_def
      example_rstate_def new_runtime_state_def example_store_def example_fence)

theorem saved_checkpoint_is_loaded_witness:
  "\<exists>d'. fst (checkpoint_load_latest example_store_env example_store 10 d') =
     Inr (Some (example_rstate\<lparr>resumed := True\<rparr>))"
proof -
  obtain d' where save: "checkpoint_save example_store_env example_store 0 example_rstate example_db = (Inr (), d')"
    using example_saves by (metis prod.collapse)
  have fence: "fence_ok (rst_run_id example_store) (rst_fencing_token example_store) 10 d'"
    using save by (auto simp: checkpoint_save_cases example_store_def example_fence
        split: sum.splits if_splits)
  have "run_id example_rstate = sv_uuid_str example_store_env (rst_run_id example_store)"
    "checkpoint_version example_rstate = 2" "db_checkpoints example_db = []"
    by (simp_all add: example_rstate_def new_runtime_state_def example_store_env_def
        example_store_def example_db_def empty_db_def)
  then show ?thesis
    using saved_checkpoint_is_loaded [OF example_store_env_ok save fence] by (intro exI [of _ d']) simp
qed

subsection \<open>Leases\<close>

text \<open>C5. Mutual exclusion: whatever the workers do and however their sessions interleave with the
  passing of time and with other writes, at most one worker's lease passes the fence of the run's
  stores. A worker whose lease was taken over can no longer write, even if it still believes it
  holds the lease.\<close>

theorem one_worker_passes_the_fence:
  assumes "lease_reachable rid s"
    and "lm_lease (sys_manager s w) = Some l" and "lm_lease (sys_manager s w') = Some l'"
    and "fence_ok rid (ls_fencing_token l) (sys_now s) (sys_db s)"
    and "fence_ok rid (ls_fencing_token l') (sys_now s) (sys_db s)"
  shows "w = w'"
  using lease_reachable_inv [OF assms(1)] assms(2-5) by (fastforce simp: lease_inv_def fence_ok_def)

definition example_lease_system :: lease_system where
  "example_lease_system = \<lparr>sys_db = example_db, sys_now = 50,
     sys_manager = new_lease_manager 1\<rparr>"

lemma example_lease_start: "lease_start 1 example_lease_system"
  by (simp add: lease_start_def example_lease_system_def new_lease_manager_def find_run_def
      example_db_def example_run_def empty_db_def)

definition example_leased :: lease_system where
  "example_leased = (let (r, (m, d)) = acquire 50 (new_lease_manager 1 ''w2'', example_db)
     in example_lease_system\<lparr>sys_manager := (sys_manager example_lease_system)(''w2'' := m), sys_db := d\<rparr>)"

lemma example_leased_reachable: "lease_reachable 1 example_leased"
proof -
  obtain r m d where run: "acquire 50 (new_lease_manager 1 ''w2'', example_db) = (r, (m, d))"
    by (cases "acquire 50 (new_lease_manager 1 ''w2'', example_db)") auto
  then have step: "acquire (sys_now example_lease_system) (sys_manager example_lease_system ''w2'',
      sys_db example_lease_system) = (r, (m, d))"
    by (simp add: example_lease_system_def)
  have "example_leased = example_lease_system\<lparr>sys_manager :=
      (sys_manager example_lease_system)(''w2'' := m), sys_db := d\<rparr>"
    using run by (simp add: example_leased_def)
  then show ?thesis
    using reach_step [OF reach_start [OF example_lease_start] step_acquire [OF step]] by simp
qed

lemma example_leased_fence:
  "\<exists>l. lm_lease (sys_manager example_leased ''w2'') = Some l
     \<and> fence_ok 1 (ls_fencing_token l) (sys_now example_leased) (sys_db example_leased)"
  by (simp add: example_leased_def example_lease_system_def acquire_def acquire_session_def db_only_def
      set_lease_def new_lease_manager_def transaction_def comp_simps find_run_def example_db_def
      example_run_def empty_db_def update_run_def fence_ok_def)

theorem one_worker_passes_the_fence_witness:
  "\<forall>w. (case lm_lease (sys_manager example_leased w) of None \<Rightarrow> True
     | Some l \<Rightarrow> \<not> fence_ok 1 (ls_fencing_token l) (sys_now example_leased) (sys_db example_leased)
         \<or> ''w2'' = w)"
proof
  fix w
  obtain l where l: "lm_lease (sys_manager example_leased ''w2'') = Some l"
    "fence_ok 1 (ls_fencing_token l) (sys_now example_leased) (sys_db example_leased)"
    using example_leased_fence by blast
  show "case lm_lease (sys_manager example_leased w) of None \<Rightarrow> True
     | Some l \<Rightarrow> \<not> fence_ok 1 (ls_fencing_token l) (sys_now example_leased) (sys_db example_leased)
         \<or> ''w2'' = w"
    using one_worker_passes_the_fence [OF example_leased_reachable l(1) _ l(2)]
    by (auto split: option.splits)
qed

text \<open>A lease is never stolen while it is valid: when a worker acquires a run whose lease column
  names another owner, that lease had expired; the new token is the old one plus one, so every
  write of the former owner is refused from then on, and the new owner passes the fence.\<close>

theorem acquire_takes_over_expired_leases_only:
  assumes "acquire now (lm, d) = (Inr l, (lm', d'))" and "0 < lm_lease_seconds lm"
    and "find_run (lm_run_id lm) d = Some run"
    and "ag_lease_owner run = Some w" and "w \<noteq> []" and "w \<noteq> lm_owner lm"
  shows "(\<forall>e. ag_lease_expires_at run \<noteq> Some e \<or> e \<le> now)
    \<and> ls_fencing_token l = ag_fencing_token run + 1
    \<and> (\<forall>t. \<not> fence_ok (lm_run_id lm) (ag_fencing_token run) t d')
    \<and> fence_ok (lm_run_id lm) (ls_fencing_token l) now d'"
  using assms
  by (auto simp: acquire_def acquire_session_def db_only_def set_lease_def transaction_def comp_simps
      find_run_update fence_ok_def not_less split: option.splits if_splits sum.splits prod.splits)

lemma example_takes_over:
  "\<exists>l lm' d'. acquire 50 (new_lease_manager 1 ''w2'', example_db) = (Inr l, (lm', d'))"
  by (simp add: acquire_def acquire_session_def db_only_def
      set_lease_def new_lease_manager_def transaction_def comp_simps find_run_def example_db_def
      example_run_def empty_db_def)

theorem acquire_takes_over_expired_leases_only_witness:
  "\<exists>(l::run_lease) d'. ls_fencing_token l = 2 \<and> fence_ok 1 (ls_fencing_token l) 50 d' \<and> \<not> fence_ok 1 1 50 d'"
proof -
  obtain l lm' d' where run: "acquire 50 (new_lease_manager 1 ''w2'', example_db) = (Inr l, (lm', d'))"
    using example_takes_over by blast
  have "find_run (lm_run_id (new_lease_manager 1 ''w2'')) example_db = Some example_run"
    "ag_lease_owner example_run = Some ''w1''"
    by (simp_all add: find_run_def new_lease_manager_def example_db_def example_run_def empty_db_def)
  from acquire_takes_over_expired_leases_only [OF run _ this]
  have "ls_fencing_token l = 2 \<and> fence_ok 1 (ls_fencing_token l) 50 d' \<and> \<not> fence_ok 1 1 50 d'"
    by (auto simp: new_lease_manager_def example_run_def)
  then show ?thesis by blast
qed

text \<open>C6. A worker that lost its fence changes nothing: the checkpoint store, the trace recorder
  and the tool ledger all raise before they write, and the database keeps its contents.\<close>

theorem stale_worker_writes_nothing:
  assumes "\<not> fence_ok (rst_run_id cs) (rst_fencing_token cs) now d"
  shows "(\<exists>e. checkpoint_save env cs now st d = (Inl e, d))
    \<and> trace_record_step env cs now st result d = (Inl StaleWorkerErr, d)
    \<and> (\<exists>e. trace_record_tool env cs now step_id call obs l r s c b d = (Inl e, d))
    \<and> trace_record_guardrail env cs now sid tn dec rc d = (Inl StaleWorkerErr, d)
    \<and> (\<exists>e. ledger_begin cs n v call dg now d = (Inl e, d))
    \<and> ledger_update env cs i st' res err now d = (Inl StaleWorkerErr, d)"
  using stale_stores_refuse(1) [OF assms, of env st] stale_stores_refuse(2) [OF assms, of env st result]
    stale_stores_refuse(3) [OF assms, of env step_id call obs l r s c b]
    stale_stores_refuse(4) [OF assms, of env sid tn dec rc]
    stale_stores_refuse(5) [OF assms, of n v call dg] stale_stores_refuse(6) [OF assms, of env i st' res err]
  by (auto simp: timed_def split: prod.splits)

theorem stale_worker_writes_nothing_witness:
  "ledger_update example_store_env example_store 1 Ledger_FAILED None None 60 example_db =
     (Inl StaleWorkerErr, example_db)"
  using stale_worker_writes_nothing [where cs = example_store and now = 60 and d = example_db
      and env = example_store_env and i = 1 and st' = Ledger_FAILED and res = None and err = None]
  by (simp add: example_store_def example_fence)

subsection \<open>The trace\<close>

text \<open>The model invocations of a step stay numbered without repetition: recording a step, for the
  first time or again after a resume, never gives two attempts of one step the same number.\<close>

theorem attempts_stay_numbered:
  assumes "attempts_numbered (db_model_invocations d)"
    and "trace_record_step env cs now st result d = (r, d')"
  shows "attempts_numbered (db_model_invocations d')"
  by (rule keeps_resultD [OF trace_record_step_numbered _ assms(2)]) (rule assms(1))

theorem attempts_stay_numbered_witness:
  "attempts_numbered (db_model_invocations (snd
     (trace_record_step example_store_env example_store 0 example_rstate
       \<lparr>mr_action = default_action, mr_model_name = ''m'', mr_input_tokens = 1, mr_output_tokens = 1,
        mr_latency_ms = 1, mr_attempts = [], mr_repair_calls = 0, mr_error_code = None\<rparr> example_db)))"
  by (rule attempts_stay_numbered [OF _ prod.collapse [symmetric]])
    (simp add: attempts_numbered_def example_db_def empty_db_def)

text \<open>A tool observation that is written to the trace carries no text under a sensitive key
  (a key whose lower-case form contains phone, token, secret, password or api_key), at any depth
  of objects and lists.\<close>

theorem observations_are_redacted: "redacted (redact_sensitive v)"
  by (rule redact_sensitive_redacted)

end
