(* ===== verification/Learning_Domain.thy ===== *)
theory Learning_Domain
  imports Enums Harness_Contracts
begin

text \<open>
  The learning rules of \<^verbatim>\<open>app/domain/learning\<close>: mastery (\<open>mastery.py\<close>), duration estimates
  (\<open>efficiency.py\<close>) and the anomaly detector (\<open>anomaly.py\<close>). Pure functions over exact numbers.
\<close>

subsection \<open>Mastery\<close>

fun difficulty_weight :: "difficulty \<Rightarrow> pyfloat" where
  "difficulty_weight Diff_BASIC = 8 / 10"
| "difficulty_weight Diff_MEDIUM = 1"
| "difficulty_weight Diff_COMPREHENSIVE = 12 / 10"
| "difficulty_weight Diff_TRUE_EXAM = 13 / 10"

record mastery_observation =
  mo_score_ratio :: pyfloat
  mo_difficulty :: difficulty
  mo_looked_at_solution :: bool

record mastery_result =
  mr_score :: pyfloat
  mr_confidence :: pyfloat
  mr_evidence_count :: int

definition py_value_error :: exn where
  "py_value_error = PyExc ''ValueError''"

text \<open>\<open>MasteryObservation(...)\<close> runs \<open>__post_init__\<close>.\<close>

definition new_observation :: "pyfloat \<Rightarrow> difficulty \<Rightarrow> bool \<Rightarrow> exn + mastery_observation" where
  "new_observation ratio d looked =
    (if \<not> (0 \<le> ratio \<and> ratio \<le> 1) then Inl py_value_error
     else Inr \<lparr>mo_score_ratio = ratio, mo_difficulty = d, mo_looked_at_solution = looked\<rparr>)"

text \<open>\<open>MasteryStrategy(alpha)\<close>; the strategy is its \<open>_alpha\<close>.\<close>

definition mastery_strategy :: "pyfloat \<Rightarrow> exn + pyfloat" where
  "mastery_strategy alpha = (if \<not> (0 < alpha \<and> alpha \<le> 1) then Inl py_value_error else Inr alpha)"

definition default_alpha :: pyfloat where
  "default_alpha = 2 / 10"

definition observed_score :: "mastery_observation \<Rightarrow> pyfloat" where
  "observed_score obs =
    (if mo_looked_at_solution obs then min (mo_score_ratio obs) (6 / 10) else mo_score_ratio obs)"

definition evidence_confidence :: "int \<Rightarrow> pyfloat" where
  "evidence_confidence n = min (95 / 100) (1 - exp (- of_int n / 5))"

definition mastery_update ::
  "pyfloat \<Rightarrow> pyfloat \<Rightarrow> int \<Rightarrow> mastery_observation \<Rightarrow> exn + mastery_result" where
  "mastery_update alpha current evidence obs =
    (if \<not> (0 \<le> current \<and> current \<le> 1) then Inl py_value_error
     else
       let updated = current + alpha * difficulty_weight (mo_difficulty obs)
             * (observed_score obs - current);
           n = evidence + 1
       in Inr \<lparr>mr_score = round_dp 4 (min 1 (max 0 updated)),
               mr_confidence = round_dp 4 (evidence_confidence n), mr_evidence_count = n\<rparr>)"

lemma difficulty_weight_bounds: "0 < difficulty_weight d \<and> difficulty_weight d \<le> 13 / 10"
  by (cases d) auto

lemma mastery_update_InrD:
  assumes "mastery_update alpha current evidence obs = Inr r"
  shows "0 \<le> current" and "current \<le> 1"
    and "mr_score r = round_dp 4 (min 1 (max 0 (current + alpha * difficulty_weight (mo_difficulty obs)
          * (observed_score obs - current))))"
    and "mr_confidence r = round_dp 4 (evidence_confidence (evidence + 1))"
    and "mr_evidence_count r = evidence + 1"
  using assms by (auto simp: mastery_update_def Let_def split: if_splits)

lemma mastery_score_unit:
  assumes "mastery_update alpha current evidence obs = Inr r"
  shows "0 \<le> mr_score r \<and> mr_score r \<le> 1"
  using mastery_update_InrD(3) [OF assms]
  by (simp add: round_dp_nonneg round_dp_le_1)

lemma mastery_confidence_bounds:
  assumes "mastery_update alpha current evidence obs = Inr r" and "0 \<le> evidence"
  shows "0 \<le> mr_confidence r \<and> mr_confidence r \<le> 95 / 100"
proof -
  have "0 \<le> evidence_confidence (evidence + 1)"
    using assms(2) by (simp add: evidence_confidence_def)
  moreover have "evidence_confidence (evidence + 1) \<le> of_int 9500 / 10 ^ 4"
    unfolding evidence_confidence_def by (rule order_trans [OF min.cobounded1]) simp
  ultimately show ?thesis
    using mastery_update_InrD(4) [OF assms(1)] round_dp_nonneg round_dp_upper [of _ 9500 4] by simp
qed

text \<open>With a gain of at most one the new score lies between the old one and the observation.\<close>

lemma mastery_moves_towards:
  assumes "mastery_update alpha current evidence obs = Inr r"
    and "0 \<le> alpha * difficulty_weight (mo_difficulty obs)"
    and "alpha * difficulty_weight (mo_difficulty obs) \<le> 1"
    and "0 \<le> observed_score obs" and "observed_score obs \<le> 1"
  shows "round_dp 4 (min current (observed_score obs)) \<le> mr_score r
    \<and> mr_score r \<le> round_dp 4 (max current (observed_score obs))"
proof -
  let ?g = "alpha * difficulty_weight (mo_difficulty obs)" and ?o = "observed_score obs"
  define u where "u = current + ?g * (?o - current)"
  have u: "u = (1 - ?g) * current + ?g * ?o" by (simp add: u_def algebra_simps)
  have "min current ?o = (1 - ?g) * min current ?o + ?g * min current ?o" by (simp add: algebra_simps)
  also have "\<dots> \<le> u"
    unfolding u using assms(2,3) by (intro add_mono mult_left_mono) auto
  finally have low: "min current ?o \<le> u" .
  have "u \<le> (1 - ?g) * max current ?o + ?g * max current ?o"
    unfolding u using assms(2,3) by (intro add_mono mult_left_mono) auto
  also have "\<dots> = max current ?o" by (simp add: algebra_simps)
  finally have high: "u \<le> max current ?o" .
  have "0 \<le> min current ?o" "max current ?o \<le> 1"
    using assms(4,5) mastery_update_InrD(1,2) [OF assms(1)] by auto
  with low high have "min 1 (max 0 u) = u" by auto
  then show ?thesis
    using mastery_update_InrD(3) [OF assms(1)] low high by (simp add: u_def round_dp_mono)
qed

lemma mastery_confidence_mono:
  assumes "mastery_update alpha c1 n1 o1 = Inr r1" and "mastery_update alpha c2 n2 o2 = Inr r2"
    and "n1 \<le> n2"
  shows "mr_confidence r1 \<le> mr_confidence r2"
proof -
  have "evidence_confidence (n1 + 1) \<le> evidence_confidence (n2 + 1)"
    unfolding evidence_confidence_def using assms(3)
    by (intro min.mono order_refl diff_left_mono) (simp add: divide_right_mono)
  then show ?thesis
    using mastery_update_InrD(4) [OF assms(1)] mastery_update_InrD(4) [OF assms(2)]
    by (simp add: round_dp_mono)
qed

subsection \<open>Efficiency\<close>

fun cold_start_seconds :: "task_type \<Rightarrow> int option" where
  "cold_start_seconds TT_THEORY_REVIEW = Some (30 * 60)"
| "cold_start_seconds TT_BASIC_QUESTION = Some (8 * 60)"
| "cold_start_seconds TT_MEDIUM_QUESTION = Some (15 * 60)"
| "cold_start_seconds TT_COMPREHENSIVE_QUESTION = Some (25 * 60)"
| "cold_start_seconds TT_TRUE_EXAM_QUESTION = Some (25 * 60)"
| "cold_start_seconds TT_WRONG_QUESTION_REVIEW = Some (12 * 60)"
| "cold_start_seconds TT_MOCK_EXAM = Some (180 * 60)"
| "cold_start_seconds _ = None"

record duration_estimate =
  de_p50_seconds :: int
  de_p75_seconds :: int
  de_confidence :: pyfloat
  de_sample_count :: int

definition max_samples :: nat where
  "max_samples = 20"

text \<open>\<open>_percentile\<close> of a sorted list that is not empty.\<close>

definition percentile :: "int list \<Rightarrow> pyfloat \<Rightarrow> int" where
  "percentile vs p =
    (let index = of_nat (length vs - 1) * p;
         lower = nat \<lfloor>index\<rfloor>; upper = nat \<lceil>index\<rceil>
     in if lower = upper then vs ! lower
        else let fraction = index - of_nat lower in
          py_round (of_int (vs ! lower) + of_int (vs ! upper - vs ! lower) * fraction))"

definition estimate :: "task_type \<Rightarrow> int list \<Rightarrow> exn + duration_estimate" where
  "estimate tt samples =
    (let valid = sort (filter (\<lambda>v. 0 < v) (take_last max_samples samples)) in
     if valid = [] then
       (case cold_start_seconds tt of
          None \<Rightarrow> Inl (PyExc ''KeyError'')
        | Some baseline \<Rightarrow> Inr \<lparr>de_p50_seconds = baseline,
            de_p75_seconds = \<lceil>(of_int baseline :: pyfloat) * (5 / 4)\<rceil>,
            de_confidence = 2 / 10, de_sample_count = 0\<rparr>)
     else Inr \<lparr>de_p50_seconds = percentile valid (1 / 2), de_p75_seconds = percentile valid (3 / 4),
       de_confidence = round_dp 4 (min (95 / 100) (of_nat (length valid) / of_nat max_samples)),
       de_sample_count = int (length valid)\<rparr>)"

text \<open>Linear interpolation between the neighbours of an index of a sorted list.\<close>

definition between_values :: "int list \<Rightarrow> pyfloat \<Rightarrow> pyfloat" where
  "between_values vs x = (let l = nat \<lfloor>x\<rfloor> in
     of_int (vs ! l) + of_int (vs ! nat \<lceil>x\<rceil> - vs ! l) * (x - of_nat l))"

lemma percentile_between:
  assumes "0 \<le> p"
  shows "percentile vs p = py_round (between_values vs (of_nat (length vs - 1) * p))"
proof -
  define x :: pyfloat where "x = of_nat (length vs - 1) * p"
  have x: "0 \<le> x" using assms by (simp add: x_def)
  have "py_round (between_values vs x) = (if nat \<lfloor>x\<rfloor> = nat \<lceil>x\<rceil> then vs ! nat \<lfloor>x\<rfloor>
      else py_round (of_int (vs ! nat \<lfloor>x\<rfloor>) + of_int (vs ! nat \<lceil>x\<rceil> - vs ! nat \<lfloor>x\<rfloor>) * (x - of_nat (nat \<lfloor>x\<rfloor>))))"
    by (simp add: between_values_def Let_def)
  then show ?thesis by (simp add: percentile_def Let_def x_def)
qed

lemma between_values_bounds:
  assumes "sorted vs" and "0 \<le> x" and "x \<le> of_nat (length vs - 1)" and "vs \<noteq> []"
  shows "of_int (vs ! nat \<lfloor>x\<rfloor>) \<le> between_values vs x \<and> between_values vs x \<le> of_int (vs ! nat \<lceil>x\<rceil>)"
proof -
  have len: "nat \<lceil>x\<rceil> < length vs"
    using assms(3,4) by (cases vs) (auto simp: ceiling_le_iff nat_less_iff less_Suc_eq_le le_nat_iff)
  have le: "vs ! nat \<lfloor>x\<rfloor> \<le> vs ! nat \<lceil>x\<rceil>"
    by (rule sorted_nth_mono [OF assms(1) _ len]) (simp add: floor_le_ceiling nat_mono)
  have f: "0 \<le> x - of_nat (nat \<lfloor>x\<rfloor>)" "x - of_nat (nat \<lfloor>x\<rfloor>) \<le> 1"
    using assms(2) by simp_all linarith+
  define a b :: pyfloat where "a = of_int (vs ! nat \<lfloor>x\<rfloor>)" and "b = of_int (vs ! nat \<lceil>x\<rceil>)"
  have "0 \<le> b - a" using le by (simp add: a_def b_def)
  then have "0 \<le> (b - a) * (x - of_nat (nat \<lfloor>x\<rfloor>))" "(b - a) * (x - of_nat (nat \<lfloor>x\<rfloor>)) \<le> (b - a) * 1"
    using f by (simp_all only: mult_nonneg_nonneg mult_left_mono)
  moreover have "between_values vs x = a + (b - a) * (x - of_nat (nat \<lfloor>x\<rfloor>))"
    by (simp add: between_values_def a_def b_def Let_def)
  ultimately show ?thesis by (simp add: a_def [symmetric] b_def [symmetric])
qed

lemma between_values_mono:
  assumes "sorted vs" and "0 \<le> x" and "x \<le> y" and "y \<le> of_nat (length vs - 1)" and "vs \<noteq> []"
  shows "between_values vs x \<le> between_values vs y"
proof (cases "\<lfloor>x\<rfloor> = \<lfloor>y\<rfloor>")
  case True
  show ?thesis
  proof (cases "\<lceil>x\<rceil> = \<lceil>y\<rceil>")
    case same: True
    have le: "vs ! nat \<lfloor>x\<rfloor> \<le> vs ! nat \<lceil>x\<rceil>"
      using between_values_bounds [OF assms(1,2) _ assms(5)] assms(3,4) by fastforce
    then show ?thesis
      using True same assms(3) by (simp add: between_values_def Let_def mult_left_mono)
  next
    case False
    have "\<lceil>x\<rceil> = \<lfloor>x\<rfloor>" using True False assms(3) by linarith
    then have "between_values vs x = of_int (vs ! nat \<lfloor>x\<rfloor>)"
      by (simp add: between_values_def Let_def)
    then show ?thesis
      using between_values_bounds [OF assms(1) _ assms(4,5)] assms(2,3) True by auto
  qed
next
  case False
  with assms(3) have "\<lceil>x\<rceil> \<le> \<lfloor>y\<rfloor>" by linarith
  have "nat \<lfloor>y\<rfloor> < length vs"
    using assms(4,5) by (cases vs) (simp_all add: floor_less_iff nat_less_iff, linarith)
  then have "vs ! nat \<lceil>x\<rceil> \<le> vs ! nat \<lfloor>y\<rfloor>"
    using nat_mono [OF \<open>\<lceil>x\<rceil> \<le> \<lfloor>y\<rfloor>\<close>] by (intro sorted_nth_mono [OF assms(1)]) assumption+
  then show ?thesis
    using between_values_bounds [OF assms(1,2) _ assms(5)] between_values_bounds [OF assms(1) _ assms(4,5)]
      assms(2-4) by fastforce
qed

lemma percentile_mono:
  assumes "sorted vs" and "vs \<noteq> []" and "0 \<le> p" and "p \<le> q" and "q \<le> 1"
  shows "percentile vs p \<le> percentile vs q"
proof -
  have "q * of_nat (length vs - 1) \<le> 1 * of_nat (length vs - 1)"
    using assms(5) by (rule mult_right_mono) simp
  then show ?thesis
    using assms unfolding percentile_between [OF assms(3)] percentile_between [OF order_trans [OF assms(3,4)]]
    by (intro py_round_mono between_values_mono) (auto simp: mult_left_mono mult_right_mono mult.commute)
qed

lemma percentile_range:
  assumes "sorted vs" and "vs \<noteq> []" and "0 \<le> p" and "p \<le> 1"
  shows "hd vs \<le> percentile vs p \<and> percentile vs p \<le> last vs"
proof -
  have "percentile vs 0 = hd vs" using assms(2) by (simp add: percentile_def hd_conv_nth)
  moreover have "percentile vs 1 = last vs" using assms(2) by (simp add: percentile_def last_conv_nth)
  ultimately show ?thesis
    using percentile_mono [OF assms(1,2), of 0 p] percentile_mono [OF assms(1,2), of p 1] assms(3,4) by simp
qed

lemma estimate_cases:
  assumes "estimate tt samples = Inr e"
  obtains (cold) b where "cold_start_seconds tt = Some b" "de_p50_seconds e = b"
      "de_p75_seconds e = \<lceil>(of_int b :: pyfloat) * (5 / 4)\<rceil>" "de_confidence e = 2 / 10" "de_sample_count e = 0"
    | (samples) vs where "vs = sort (filter (\<lambda>v. 0 < v) (take_last max_samples samples))" "vs \<noteq> []"
      "de_p50_seconds e = percentile vs (1 / 2)" "de_p75_seconds e = percentile vs (3 / 4)"
      "de_confidence e = round_dp 4 (min (95 / 100) (of_nat (length vs) / 20))"
      "de_sample_count e = int (length vs)"
  using assms by (auto simp: estimate_def Let_def max_samples_def split: if_splits option.splits)

subsection \<open>Anomalies\<close>

record feedback_signals =
  fs_completion_ratio :: pyfloat
  fs_actual_duration_seconds :: int
  fs_expected_p75_seconds :: int
  fs_recent_accuracy :: pyfloat
  fs_recent_attempt_count :: int
  fs_same_error_streak :: int
  fs_consecutive_low_completion_days :: int

record anomaly_decision =
  an_requires_agent :: bool
  an_reason_codes :: "string list"

definition detect :: "feedback_signals \<Rightarrow> anomaly_decision" where
  "detect s =
    (let reasons =
       (if of_int (fs_expected_p75_seconds s) * (3 / 2) < (of_int (fs_actual_duration_seconds s) :: pyfloat)
        then [''TIME_OVERRUN''] else [])
       @ (if 5 \<le> fs_recent_attempt_count s \<and> fs_recent_accuracy s < 4 / 10 then [''LOW_ACCURACY''] else [])
       @ (if 3 \<le> fs_same_error_streak s then [''REPEATED_ERROR''] else [])
       @ (if 2 \<le> fs_consecutive_low_completion_days s \<and> fs_completion_ratio s < 6 / 10
          then [''LOW_COMPLETION''] else [])
     in \<lparr>an_requires_agent = (reasons \<noteq> []), an_reason_codes = reasons\<rparr>)"

end
