(* ===== verification/Planner.thy ===== *)
theory Planner
  imports Enums Text "HOL-Library.Sublist"
begin

text \<open>
  The weekly planner, \<open>PlanningStrategy\<close> of \<^verbatim>\<open>app/domain/planning/planner.py\<close>: the question plan
  \<open>build_week\<close> and the learning plan \<open>build_learning_week\<close>, both greedy selections under the
  minutes of each day. The scores are exact rationals rounded to four decimals.
\<close>

subsection \<open>Candidates\<close>

record knowledge_priority =
  kp_knowledge_id :: string
  kp_school_weight :: pyfloat
  kp_mastery_gap :: pyfloat
  kp_error_recency :: pyfloat
  kp_error_frequency :: pyfloat
  kp_forgetting_risk :: pyfloat
  kp_stage_weight :: pyfloat
  kp_prerequisite_blocked :: bool

definition kp_score :: "knowledge_priority \<Rightarrow> pyfloat" where
  "kp_score p = (let base = kp_school_weight p * (30 / 100) + kp_mastery_gap p * (30 / 100)
       + kp_error_recency p * (15 / 100) + kp_error_frequency p * (10 / 100)
       + kp_forgetting_risk p * (10 / 100) + kp_stage_weight p * (5 / 100)
     in round_dp 4 (min 1 (base + (if kp_prerequisite_blocked p then 15 / 100 else 0))))"

record candidate_question =
  cq_question_id :: string
  cq_knowledge_id :: string
  cq_difficulty :: difficulty
  cq_question_type :: string
  cq_p50 :: int
  cq_p75 :: int
  cq_school_weight :: pyfloat
  cq_weakness :: pyfloat
  cq_difficulty_fit :: pyfloat
  cq_spacing_score :: pyfloat
  cq_diversity_score :: pyfloat

definition selection_score :: "candidate_question \<Rightarrow> pyfloat" where
  "selection_score q = round_dp 4 (cq_weakness q * (35 / 100) + cq_school_weight q * (25 / 100)
     + cq_difficulty_fit q * (15 / 100) + cq_spacing_score q * (15 / 100)
     + cq_diversity_score q * (10 / 100))"

record learning_candidate =
  lc_knowledge_id :: string
  lc_task_type :: task_type
  lc_title :: string
  lc_description :: string
  lc_resource_section_id :: "string option"
  lc_suggested_scope :: "string option"
  lc_planned_units :: int
  lc_unit_type :: string
  lc_p50 :: int
  lc_p75 :: int
  lc_priority :: pyfloat
  lc_origin :: task_origin
  lc_is_personal :: bool
  lc_task_identity :: "string option"

record availability_day =
  av_day :: date
  av_minutes :: int

record task_draft =
  dr_day :: date
  dr_task_type :: task_type
  dr_knowledge_id :: string
  dr_question_ids :: "string list"
  dr_min_minutes :: int
  dr_max_minutes :: int
  dr_priority :: pyfloat
  dr_reason :: string
  dr_title :: string
  dr_description :: string
  dr_resource_section_id :: "string option"
  dr_suggested_scope :: "string option"
  dr_planned_units :: "int option"
  dr_unit_type :: "string option"
  dr_origin :: task_origin
  dr_is_personal :: bool
  dr_system_suggested_minutes :: "int option"

text \<open>\<open>PlanDraft.total_max_minutes\<close>; a draft is the list of its tasks.\<close>

definition total_max_minutes :: "task_draft list \<Rightarrow> date \<Rightarrow> int" where
  "total_max_minutes tasks day = sum_of dr_max_minutes (filter (\<lambda>t. dr_day t = day) tasks)"

subsection \<open>The question plan\<close>

text \<open>\<open>_fit_questions\<close>, from \<open>used\<close> minutes and \<open>n\<close> questions already selected.\<close>

fun fit_from :: "int \<Rightarrow> int \<Rightarrow> nat \<Rightarrow> candidate_question list \<Rightarrow> candidate_question list" where
  "fit_from available used n [] = []"
| "fit_from available used n (c # cs) =
     (if available < used + cq_p75 c then fit_from available used n cs
      else if 5 \<le> Suc n then [c]
      else c # fit_from available (used + cq_p75 c) (Suc n) cs)"

definition fit_questions :: "candidate_question list \<Rightarrow> int \<Rightarrow> candidate_question list" where
  "fit_questions cs available = fit_from available 0 0 cs"

fun question_task_type :: "difficulty \<Rightarrow> task_type" where
  "question_task_type Diff_BASIC = TT_BASIC_QUESTION"
| "question_task_type Diff_MEDIUM = TT_MEDIUM_QUESTION"
| "question_task_type Diff_COMPREHENSIVE = TT_COMPREHENSIVE_QUESTION"
| "question_task_type Diff_TRUE_EXAM = TT_TRUE_EXAM_QUESTION"

definition hardest :: "candidate_question list \<Rightarrow> difficulty" where
  "hardest qs = fold max (map cq_difficulty (tl qs)) (cq_difficulty (hd qs))"

definition default_title :: string where
  "default_title = utf8 [0xE5, 0xAD, 0xA6, 0xE4, 0xB9, 0xA0, 0xE4, 0xBB, 0xBB, 0xE5, 0x8A, 0xA1]"

definition make_task :: "date \<Rightarrow> knowledge_priority \<Rightarrow> candidate_question list \<Rightarrow> task_draft" where
  "make_task day p qs = \<lparr>dr_day = day, dr_task_type = question_task_type (hardest qs),
     dr_knowledge_id = kp_knowledge_id p, dr_question_ids = map cq_question_id qs,
     dr_min_minutes = sum_of cq_p50 qs, dr_max_minutes = sum_of cq_p75 qs,
     dr_priority = kp_score p,
     dr_reason = ''priority='' @ fixed2 (kp_score p) @ ''; school and mastery weighted'',
     dr_title = default_title, dr_description = [], dr_resource_section_id = None,
     dr_suggested_scope = None, dr_planned_units = None, dr_unit_type = None,
     dr_origin = Origin_SYSTEM, dr_is_personal = False, dr_system_suggested_minutes = None\<rparr>"

definition smallest_question :: "candidate_question list \<Rightarrow> int" where
  "smallest_question qs = (case map cq_p75 qs of [] \<Rightarrow> 1 | m # ms \<Rightarrow> fold min ms m)"

definition matching ::
  "candidate_question list \<Rightarrow> knowledge_priority \<Rightarrow> string list \<Rightarrow> int \<Rightarrow> candidate_question list" where
  "matching ranked p selected remaining = filter (\<lambda>c. cq_knowledge_id c = kp_knowledge_id p
     \<and> cq_question_id c \<notin> set selected \<and> cq_p75 c \<le> remaining) ranked"

text \<open>The loop over the priorities of one day; \<open>selected\<close> is \<open>selected_ids\<close>.\<close>

fun plan_day ::
  "candidate_question list \<Rightarrow> date \<Rightarrow> knowledge_priority list \<Rightarrow> int \<Rightarrow> string list
   \<Rightarrow> task_draft list \<times> string list" where
  "plan_day ranked day [] remaining selected = ([], selected)"
| "plan_day ranked day (p # ps) remaining selected =
    (let ms = matching ranked p selected remaining; qs = fit_questions ms remaining in
     if ms = [] \<or> qs = [] then plan_day ranked day ps remaining selected
     else
       let remaining' = remaining - sum_of cq_p75 qs;
           selected' = selected @ map cq_question_id qs
       in if remaining' < smallest_question ranked then ([make_task day p qs], selected')
          else case plan_day ranked day ps remaining' selected' of
            (ts, sel) \<Rightarrow> (make_task day p qs # ts, sel))"

fun plan_days ::
  "candidate_question list \<Rightarrow> knowledge_priority list \<Rightarrow> availability_day list \<Rightarrow> string list
   \<Rightarrow> task_draft list" where
  "plan_days ranked ps [] selected = []"
| "plan_days ranked ps (a # as) selected =
    (case plan_day ranked (av_day a) ps (av_minutes a) selected of
       (ts, sel) \<Rightarrow> ts @ plan_days ranked ps as sel)"

definition build_week ::
  "availability_day list \<Rightarrow> knowledge_priority list \<Rightarrow> candidate_question list \<Rightarrow> string list
   \<Rightarrow> task_draft list" where
  "build_week availability priorities candidates excluded =
    plan_days (sort_desc selection_score candidates) (sort_desc kp_score priorities) availability excluded"

subsection \<open>What the question plan keeps\<close>

lemma fit_from_props:
  "subseq (fit_from available used n cs) cs"
  "n < 5 \<Longrightarrow> n + length (fit_from available used n cs) \<le> 5"
  "fit_from available used n cs \<noteq> [] \<Longrightarrow>
    used + sum_of cq_p75 (fit_from available used n cs) \<le> available"
proof (induction available used n cs rule: fit_from.induct)
  case (2 available used n c cs)
  {
    case 1
    show ?case using 2(1,4) by auto
  next
    case 2
    then show ?case using "2.IH"(2) "2.IH"(5) by auto
  next
    case 3
    show ?case
      using 3 "2.IH"(3) "2.IH"(6)
      by (cases "fit_from available (used + cq_p75 c) (Suc n) cs = []") (auto split: if_splits)
  }
qed auto

lemma fit_questions_props:
  "subseq (fit_questions cs available) cs" "length (fit_questions cs available) \<le> 5"
  "fit_questions cs available \<noteq> [] \<Longrightarrow> sum_of cq_p75 (fit_questions cs available) \<le> available"
  using fit_from_props(1) [of available 0 0 cs] fit_from_props(2) [of 0 available 0 cs]
    fit_from_props(3) [of available 0 0 cs] by (simp_all add: fit_questions_def)

lemma subseq_distinct_map: "subseq xs ys \<Longrightarrow> distinct (map f ys) \<Longrightarrow> distinct (map f xs)"
  by (induction rule: list_emb.induct) (auto dest: list_emb_set)

text \<open>A task of the plan, and the questions of a list of tasks.\<close>

definition task_ids :: "task_draft list \<Rightarrow> string list" where
  "task_ids ts = concat (map dr_question_ids ts)"

lemma task_ids_simps [simp]:
  "task_ids [] = []" "task_ids (t # ts) = dr_question_ids t @ task_ids ts"
  "task_ids (ts @ us) = task_ids ts @ task_ids us"
  by (simp_all add: task_ids_def)

lemma make_task_simps [simp]:
  "dr_day (make_task day p qs) = day" "dr_question_ids (make_task day p qs) = map cq_question_id qs"
  "dr_max_minutes (make_task day p qs) = sum_of cq_p75 qs"
  "dr_knowledge_id (make_task day p qs) = kp_knowledge_id p"
  by (simp_all add: make_task_def)

lemma matching_fit:
  assumes "qs = fit_questions (matching ranked p selected remaining) remaining"
    and "distinct (map cq_question_id ranked)"
  shows "distinct (map cq_question_id qs)" and "set (map cq_question_id qs) \<inter> set selected = {}"
    and "set qs \<subseteq> {c \<in> set ranked. cq_knowledge_id c = kp_knowledge_id p}" and "length qs \<le> 5"
proof -
  let ?ms = "matching ranked p selected remaining"
  have sub: "subseq qs ?ms" using fit_questions_props(1) assms(1) by simp
  then have set: "set qs \<subseteq> set ?ms" by (auto dest: list_emb_set)
  have "distinct (map cq_question_id ?ms)"
    using assms(2) by (simp add: matching_def distinct_map_filter)
  then show "distinct (map cq_question_id qs)"
    using subseq_distinct_map [OF sub] by blast
  show "set (map cq_question_id qs) \<inter> set selected = {}"
    "set qs \<subseteq> {c \<in> set ranked. cq_knowledge_id c = kp_knowledge_id p}"
    using set by (auto simp: matching_def)
  show "length qs \<le> 5" using fit_questions_props(2) assms(1) by simp
qed

definition good_task :: "candidate_question list \<Rightarrow> task_draft \<Rightarrow> bool" where
  "good_task ranked t \<longleftrightarrow> dr_question_ids t \<noteq> [] \<and> length (dr_question_ids t) \<le> 5
     \<and> (\<forall>i \<in> set (dr_question_ids t). \<exists>c \<in> set ranked. cq_question_id c = i
          \<and> cq_knowledge_id c = dr_knowledge_id t)"

lemma plan_day_props:
  assumes "plan_day ranked day ps remaining selected = (ts, sel)"
    and "distinct (map cq_question_id ranked)"
  shows "sel = selected @ task_ids ts \<and> distinct (task_ids ts) \<and> set (task_ids ts) \<inter> set selected = {}
    \<and> (\<forall>t \<in> set ts. dr_day t = day \<and> good_task ranked t)
    \<and> (0 \<le> remaining \<longrightarrow> sum_of dr_max_minutes ts \<le> remaining)"
  using assms(1)
proof (induction ps arbitrary: remaining selected ts sel)
  case (Cons p ps)
  define ms where "ms = matching ranked p selected remaining"
  define qs where "qs = fit_questions ms remaining"
  note fit = matching_fit [OF qs_def [unfolded ms_def] assms(2)]
  have good: "good_task ranked (make_task day p qs)" if "qs \<noteq> []"
    using that fit(3,4) by (fastforce simp: good_task_def)
  have used: "sum_of cq_p75 qs \<le> remaining" if "qs \<noteq> []"
    using fit_questions_props(3) that by (simp add: qs_def)
  show ?case
  proof (cases "ms = [] \<or> qs = []")
    case True
    then show ?thesis
      using Cons by (simp add: ms_def [symmetric] qs_def [symmetric])
  next
    case False
    show ?thesis
    proof (cases "remaining - sum_of cq_p75 qs < smallest_question ranked")
      case small: True
      then have "ts = [make_task day p qs]" "sel = selected @ map cq_question_id qs"
        using Cons.prems False by (simp_all add: Let_def ms_def [symmetric] qs_def [symmetric])
      then show ?thesis using fit good used False by simp
    next
      case large: False
      obtain ts' sel' where rec: "plan_day ranked day ps (remaining - sum_of cq_p75 qs)
          (selected @ map cq_question_id qs) = (ts', sel')"
        by fastforce
      then have "ts = make_task day p qs # ts'" "sel = sel'"
        using Cons.prems False large by (simp_all add: Let_def ms_def [symmetric] qs_def [symmetric])
      then show ?thesis
        using Cons.IH [OF rec] fit good used False by auto
    qed
  qed
qed simp

lemma plan_days_props:
  assumes "distinct (map cq_question_id ranked)"
  shows "distinct (task_ids (plan_days ranked ps days selected))
    \<and> set (task_ids (plan_days ranked ps days selected)) \<inter> set selected = {}
    \<and> (\<forall>t \<in> set (plan_days ranked ps days selected). dr_day t \<in> av_day ` set days \<and> good_task ranked t)"
proof (induction days arbitrary: selected)
  case (Cons a days)
  obtain ts sel where day: "plan_day ranked (av_day a) ps (av_minutes a) selected = (ts, sel)"
    by fastforce
  show ?case
    using plan_day_props [OF day assms] Cons.IH [of sel] day by auto
qed simp

lemma plan_days_budget:
  assumes "distinct (map cq_question_id ranked)" and "distinct (map av_day days)"
    and "a \<in> set days" and "0 \<le> av_minutes a"
  shows "total_max_minutes (plan_days ranked ps days selected) (av_day a) \<le> av_minutes a"
  using assms(2,3)
proof (induction days arbitrary: selected)
  case (Cons b days)
  obtain ts sel where day: "plan_day ranked (av_day b) ps (av_minutes b) selected = (ts, sel)"
    by fastforce
  note props = plan_day_props [OF day assms(1)]
  have later: "\<forall>t \<in> set (plan_days ranked ps days sel). dr_day t \<in> av_day ` set days"
    using plan_days_props [OF assms(1)] by blast
  show ?case
  proof (cases "a = b")
    case True
    have "filter (\<lambda>t. dr_day t = av_day a) (plan_days ranked ps days sel) = []"
      unfolding filter_empty_conv using later Cons.prems(1) True
      by (metis distinct.simps(2) list.simps(9) set_map)
    moreover have "filter (\<lambda>t. dr_day t = av_day a) ts = ts"
      using props True by (auto simp: filter_id_conv)
    ultimately show ?thesis using props assms(4) True day by (simp add: total_max_minutes_def)
  next
    case False
    then have a: "a \<in> set days" using Cons.prems(2) by simp
    then have "av_day a \<in> av_day ` set days" by (rule imageI)
    with Cons.prems(1) have "av_day a \<noteq> av_day b" by (metis distinct.simps(2) list.simps(9) set_map)
    then have "filter (\<lambda>t. dr_day t = av_day a) ts = []"
      using props by (auto simp: filter_empty_conv)
    then show ?thesis
      using Cons.IH [of sel] a Cons.prems(1) day by (simp add: total_max_minutes_def)
  qed
qed simp

subsection \<open>The learning plan\<close>

definition task_identity :: "learning_candidate \<Rightarrow> string" where
  "task_identity c = (if str_truthy (lc_task_identity c) then the (lc_task_identity c)
     else lc_knowledge_id c @ '':'' @ task_type_value (lc_task_type c))"

definition learning_task :: "date \<Rightarrow> learning_candidate \<Rightarrow> task_draft" where
  "learning_task day c = \<lparr>dr_day = day, dr_task_type = lc_task_type c,
     dr_knowledge_id = lc_knowledge_id c, dr_question_ids = [], dr_min_minutes = lc_p50 c,
     dr_max_minutes = lc_p75 c, dr_priority = lc_priority c,
     dr_reason = ''knowledge_priority='' @ fixed2 (lc_priority c) @ ''; learning task'',
     dr_title = lc_title c, dr_description = lc_description c,
     dr_resource_section_id = lc_resource_section_id c, dr_suggested_scope = lc_suggested_scope c,
     dr_planned_units = Some (lc_planned_units c), dr_unit_type = Some (lc_unit_type c),
     dr_origin = lc_origin c, dr_is_personal = lc_is_personal c,
     dr_system_suggested_minutes = Some (lc_p50 c)\<rparr>"

text \<open>The candidates chosen for one day, and the identities selected so far.\<close>

fun choose_day ::
  "learning_candidate list \<Rightarrow> int \<Rightarrow> string list \<Rightarrow> learning_candidate list \<times> string list" where
  "choose_day [] remaining selected = ([], selected)"
| "choose_day (c # cs) remaining selected =
    (if task_identity c \<in> set selected \<or> remaining < lc_p75 c then choose_day cs remaining selected
     else
       let remaining' = remaining - lc_p75 c; selected' = selected @ [task_identity c] in
       if remaining' < 15 then ([c], selected')
       else case choose_day cs remaining' selected' of (chosen, sel) \<Rightarrow> (c # chosen, sel))"

fun choose_days ::
  "learning_candidate list \<Rightarrow> availability_day list \<Rightarrow> string list
   \<Rightarrow> (date \<times> learning_candidate) list" where
  "choose_days ranked [] selected = []"
| "choose_days ranked (a # as) selected =
    (case choose_day ranked (av_minutes a) selected of
       (chosen, sel) \<Rightarrow> map (Pair (av_day a)) chosen @ choose_days ranked as sel)"

definition build_learning_week ::
  "availability_day list \<Rightarrow> learning_candidate list \<Rightarrow> task_draft list" where
  "build_learning_week availability candidates =
    map (\<lambda>(day, c). learning_task day c)
      (choose_days (sort_desc lc_priority candidates) availability [])"

lemma choose_day_props:
  assumes "choose_day cs remaining selected = (chosen, sel)"
  shows "sel = selected @ map task_identity chosen \<and> distinct (map task_identity chosen)
    \<and> set (map task_identity chosen) \<inter> set selected = {} \<and> subseq chosen cs
    \<and> (0 \<le> remaining \<longrightarrow> sum_of lc_p75 chosen \<le> remaining)"
  using assms
proof (induction cs remaining selected arbitrary: chosen sel rule: choose_day.induct)
  case (2 c cs remaining selected)
  show ?case
  proof (cases "task_identity c \<in> set selected \<or> remaining < lc_p75 c")
    case True
    then show ?thesis using 2 by auto
  next
    case False
    show ?thesis
    proof (cases "remaining - lc_p75 c < 15")
      case True
      then show ?thesis using 2(3) False by auto
    next
      case large: False
      obtain ch' sel' where rec:
        "choose_day cs (remaining - lc_p75 c) (selected @ [task_identity c]) = (ch', sel')"
        by fastforce
      then have "chosen = c # ch'" "sel = sel'"
        using 2(3) False large by (auto simp: Let_def)
      then show ?thesis using 2(2) [OF False refl refl large rec] False by auto
    qed
  qed
qed simp

lemma choose_days_props:
  "distinct (map (task_identity \<circ> snd) (choose_days ranked days selected))
    \<and> set (map (task_identity \<circ> snd) (choose_days ranked days selected)) \<inter> set selected = {}
    \<and> (\<forall>(d, c) \<in> set (choose_days ranked days selected). d \<in> av_day ` set days \<and> c \<in> set ranked)"
proof (induction days arbitrary: selected)
  case (Cons a days)
  obtain chosen sel where day: "choose_day ranked (av_minutes a) selected = (chosen, sel)"
    by fastforce
  note props = choose_day_props [OF day]
  have "set chosen \<subseteq> set ranked" using props by (auto dest: list_emb_set)
  then show ?case
    using props Cons.IH [of sel] day by (auto simp: comp_def)
qed simp

lemma choose_days_budget:
  assumes "distinct (map av_day days)" and "a \<in> set days" and "0 \<le> av_minutes a"
  shows "sum_of (lc_p75 \<circ> snd) (filter (\<lambda>dc. fst dc = av_day a) (choose_days ranked days selected))
    \<le> av_minutes a"
  using assms(1,2)
proof (induction days arbitrary: selected)
  case (Cons b days)
  obtain chosen sel where day: "choose_day ranked (av_minutes b) selected = (chosen, sel)"
    by fastforce
  note props = choose_day_props [OF day]
  have later: "\<forall>(d, c) \<in> set (choose_days ranked days sel). d \<in> av_day ` set days"
    using choose_days_props by blast
  show ?case
  proof (cases "a = b")
    case True
    have "filter (\<lambda>dc. fst dc = av_day a) (choose_days ranked days sel) = []"
      using later Cons.prems(1) True by (fastforce simp: filter_empty_conv)
    then show ?thesis using props assms(3) True day by (simp add: comp_def filter_map)
  next
    case False
    then have a: "a \<in> set days" using Cons.prems(2) by simp
    then have "av_day a \<in> av_day ` set days" by (rule imageI)
    with Cons.prems(1) have "av_day a \<noteq> av_day b" by (metis distinct.simps(2) list.simps(9) set_map)
    then show ?thesis
      using Cons.IH [of sel] a Cons.prems(1) day by (simp add: filter_map comp_def)
  qed
qed simp

end
