(* ===== verification/Exam_Validator.thy ===== *)
theory Exam_Validator
  imports Enums
begin

text \<open>
  \<open>MockExamValidator\<close> of \<^verbatim>\<open>app/domain/exams/validator.py\<close>. A distribution is a dictionary of expected
  ratios; \<open>Counter\<close> is the count of a key in the list of the questions' keys.
\<close>

record exam_spec =
  sp_total_score :: int
  sp_question_count :: int
  sp_difficulty_distribution :: "(difficulty, pyfloat) dict"
  sp_knowledge_distribution :: "(string, pyfloat) dict"
  sp_distribution_tolerance :: pyfloat

record exam_question =
  eq_question_id :: string
  eq_score :: int
  eq_difficulty :: difficulty
  eq_knowledge_id :: string
  eq_has_answer :: bool
  eq_is_valid :: bool

record exam_validation =
  ev_valid :: bool
  ev_errors :: "string list"

definition default_tolerance :: pyfloat where
  "default_tolerance = 10 / 100"

fun validate_distribution ::
  "'k list \<Rightarrow> ('k, pyfloat) dict \<Rightarrow> nat \<Rightarrow> pyfloat \<Rightarrow> string \<Rightarrow> string list \<Rightarrow> string list" where
  "validate_distribution ks [] n tolerance code errors = errors"
| "validate_distribution ks ((key, ratio) # rest) n tolerance code errors =
    (if tolerance < \<bar>of_nat (count_list ks key) / of_nat n - ratio\<bar> then errors @ [code]
     else validate_distribution ks rest n tolerance code errors)"

definition validate_exam :: "exam_spec \<Rightarrow> exam_question list \<Rightarrow> exam_validation" where
  "validate_exam spec qs =
    (let e1 = (if int (length qs) \<noteq> sp_question_count spec then [''QUESTION_COUNT_MISMATCH''] else []);
         e2 = e1 @ (if \<not> distinct (map eq_question_id qs) then [''DUPLICATE_QUESTION''] else []);
         e3 = e2 @ (if sum_of eq_score qs \<noteq> sp_total_score spec then [''TOTAL_SCORE_MISMATCH''] else []);
         e4 = e3 @ (if list_ex (\<lambda>q. \<not> eq_has_answer q) qs then [''ANSWER_MISSING''] else []);
         e5 = e4 @ (if list_ex (\<lambda>q. \<not> eq_is_valid q) qs then [''INVALID_QUESTION''] else []);
         errors = (if qs \<noteq> [] then
             validate_distribution (map eq_knowledge_id qs) (sp_knowledge_distribution spec)
               (length qs) (sp_distribution_tolerance spec) ''KNOWLEDGE_DISTRIBUTION_MISMATCH''
               (validate_distribution (map eq_difficulty qs) (sp_difficulty_distribution spec)
                 (length qs) (sp_distribution_tolerance spec) ''DIFFICULTY_DISTRIBUTION_MISMATCH'' e5)
           else e5)
     in \<lparr>ev_valid = (errors = []), ev_errors = fromkeys errors\<rparr>)"

text \<open>A list of keys has an expected distribution when every ratio is met within the tolerance.\<close>

definition has_distribution :: "'k list \<Rightarrow> ('k, pyfloat) dict \<Rightarrow> pyfloat \<Rightarrow> bool" where
  "has_distribution ks expected tolerance \<longleftrightarrow>
    list_all (\<lambda>(key, ratio). \<bar>of_nat (count_list ks key) / of_nat (length ks) - ratio\<bar> \<le> tolerance) expected"

lemma validate_distribution_spec:
  "n = length ks \<Longrightarrow> validate_distribution ks expected n tol code errors =
    errors @ (if has_distribution ks expected tol then [] else [code])"
  by (induction ks expected n tol code errors rule: validate_distribution.induct)
    (auto simp: has_distribution_def not_less)

text \<open>The errors of an exam, each under its condition.\<close>

definition exam_errors :: "exam_spec \<Rightarrow> exam_question list \<Rightarrow> string list" where
  "exam_errors spec qs = map fst (filter snd
    [(''QUESTION_COUNT_MISMATCH'', int (length qs) \<noteq> sp_question_count spec),
     (''DUPLICATE_QUESTION'', \<not> distinct (map eq_question_id qs)),
     (''TOTAL_SCORE_MISMATCH'', sum_of eq_score qs \<noteq> sp_total_score spec),
     (''ANSWER_MISSING'', \<not> list_all eq_has_answer qs),
     (''INVALID_QUESTION'', \<not> list_all eq_is_valid qs),
     (''DIFFICULTY_DISTRIBUTION_MISMATCH'', qs \<noteq> [] \<and> \<not> has_distribution (map eq_difficulty qs)
        (sp_difficulty_distribution spec) (sp_distribution_tolerance spec)),
     (''KNOWLEDGE_DISTRIBUTION_MISMATCH'', qs \<noteq> [] \<and> \<not> has_distribution (map eq_knowledge_id qs)
        (sp_knowledge_distribution spec) (sp_distribution_tolerance spec))])"

lemma distinct_exam_errors: "distinct (exam_errors spec qs)"
proof -
  have sub: "distinct (map fst xs) \<Longrightarrow> distinct (map fst (filter snd xs))" for xs :: "(string \<times> bool) list"
    by (rule distinct_map_filter)
  show ?thesis unfolding exam_errors_def by (rule sub) simp
qed

lemma validate_exam_errors:
  "ev_errors (validate_exam spec qs) = exam_errors spec qs
    \<and> (ev_valid (validate_exam spec qs) \<longleftrightarrow> exam_errors spec qs = [])"
proof -
  have ex: "list_ex (\<lambda>q. \<not> P q) qs = (\<not> list_all P qs)" for P
    by (auto simp: list_ex_iff list_all_iff)
  have "ev_errors (validate_exam spec qs) = fromkeys (exam_errors spec qs)
    \<and> (ev_valid (validate_exam spec qs) \<longleftrightarrow> exam_errors spec qs = [])"
    by (simp add: validate_exam_def validate_distribution_spec Let_def ex exam_errors_def)
  then show ?thesis by (simp add: fromkeys_distinct distinct_exam_errors)
qed

end
