(* ===== verification/Domain_Properties.thy ===== *)
theory Domain_Properties
  imports Learning_Domain Planner Exam_Validator
begin

text \<open>
  The properties of the domain rules: mastery, duration estimates, the anomaly detector, the weekly
  planner and the exam validator, each applied to a concrete input.
\<close>

subsection \<open>Mastery and duration\<close>

text \<open>A mastery update keeps the score between 0 and 1 and the confidence between 0 and 0.95,
  counts the evidence, and moves the score towards the observation without overshooting it (up to the
  rounding to four decimals) whenever the gain of the strategy and the difficulty is at most one.\<close>

theorem mastery_update_is_bounded:
  assumes "mastery_strategy a = Inr alpha" and "new_observation ratio d looked = Inr obs"
    and "0 \<le> evidence" and "mastery_update alpha current evidence obs = Inr r"
  shows "0 \<le> mr_score r \<and> mr_score r \<le> 1 \<and> 0 \<le> mr_confidence r \<and> mr_confidence r \<le> 95 / 100
    \<and> mr_evidence_count r = evidence + 1
    \<and> (alpha * difficulty_weight d \<le> 1 \<longrightarrow>
        round_dp 4 (min current (observed_score obs)) \<le> mr_score r
        \<and> mr_score r \<le> round_dp 4 (max current (observed_score obs)))"
proof -
  have alpha: "0 < alpha" using assms(1) by (auto simp: mastery_strategy_def split: if_splits)
  have obs: "mo_difficulty obs = d" "0 \<le> observed_score obs" "observed_score obs \<le> 1"
    using assms(2) by (auto simp: new_observation_def observed_score_def split: if_splits)
  have "0 \<le> alpha * difficulty_weight d"
    using alpha difficulty_weight_bounds [of d] by simp
  then show ?thesis
    using mastery_score_unit [OF assms(4)] mastery_confidence_bounds [OF assms(4,3)]
      mastery_update_InrD(5) [OF assms(4)] mastery_moves_towards [OF assms(4)] obs by simp
qed

definition example_observation :: mastery_observation where
  "example_observation = \<lparr>mo_score_ratio = 1, mo_difficulty = Diff_COMPREHENSIVE,
     mo_looked_at_solution = False\<rparr>"

theorem mastery_update_is_bounded_witness:
  "\<exists>r. mastery_update (2 / 10) (5 / 10) 0 example_observation = Inr r
     \<and> round_dp 4 (5 / 10) \<le> mr_score r \<and> mr_score r \<le> round_dp 4 1"
proof -
  obtain r where r: "mastery_update (2 / 10) (5 / 10) 0 example_observation = Inr r"
    by (auto simp: mastery_update_def Let_def)
  have "mastery_strategy (2 / 10) = Inr (2 / 10)"
    "new_observation 1 Diff_COMPREHENSIVE False = Inr example_observation"
    by (simp_all add: mastery_strategy_def new_observation_def example_observation_def)
  from mastery_update_is_bounded [OF this order_refl r] r show ?thesis
    by (simp add: observed_score_def example_observation_def)
qed

text \<open>A duration estimate is consistent: the 75th percentile is never below the median, both lie
  between the smallest and the largest of the (at most twenty) positive samples used, and the
  confidence stays below 0.95; without samples the cold-start values are used with confidence 0.2.\<close>

theorem estimate_is_consistent:
  assumes "estimate tt samples = Inr e"
  shows "de_p50_seconds e \<le> de_p75_seconds e \<and> 0 < de_p50_seconds e
    \<and> 0 \<le> de_confidence e \<and> de_confidence e \<le> 95 / 100 \<and> de_sample_count e \<le> 20
    \<and> (de_sample_count e = 0 \<longleftrightarrow> list_all (\<lambda>v. v \<le> 0) (take_last 20 samples))
    \<and> (\<forall>lo hi. list_all (\<lambda>v. lo \<le> v \<and> v \<le> hi) samples \<and> 0 < de_sample_count e \<longrightarrow>
        lo \<le> de_p50_seconds e \<and> de_p75_seconds e \<le> hi)"
  using assms
proof (cases rule: estimate_cases)
  case (cold b)
  have b: "0 < b" using cold(1) by (cases tt) auto
  have "of_int b \<le> (of_int b :: pyfloat) * (5 / 4)" using b by simp
  then have "b \<le> \<lceil>(of_int b :: pyfloat) * (5 / 4)\<rceil>" by (simp add: le_ceiling_iff)
  moreover have "filter ((<) 0) (take_last 20 samples) = []"
    using assms cold(5) by (auto simp: estimate_def Let_def max_samples_def split: if_splits)
      (metis length_0_conv length_sort)
  then have "list_all (\<lambda>v. v \<le> 0) (take_last 20 samples)"
    by (auto simp: filter_empty_conv list_all_iff)
  ultimately show ?thesis using cold b by simp
next
  case (samples vs)
  have sorted: "sorted vs" and set: "set vs = {v \<in> set (take_last 20 samples). 0 < v}"
    using samples(1) by (auto simp: max_samples_def)
  have mem: "hd vs \<in> set vs" "last vs \<in> set vs" using samples(2) by simp_all
  have len: "length vs \<le> 20"
    using samples(1) length_filter_le [of "(<) 0" "take_last max_samples samples"]
    by (simp add: max_samples_def)
  have r50: "hd vs \<le> percentile vs (1 / 2)" and r75: "percentile vs (3 / 4) \<le> last vs"
    and mono: "percentile vs (1 / 2) \<le> percentile vs (3 / 4)"
    using percentile_range [OF sorted samples(2)] percentile_mono [OF sorted samples(2)] by simp_all
  have "0 < hd vs" using mem set by blast
  moreover have "\<not> list_all (\<lambda>v. v \<le> 0) (take_last 20 samples)"
    using mem(1) set by (fastforce simp: list_all_iff)
  moreover have "de_confidence e \<le> of_int 9500 / 10 ^ 4"
    unfolding samples(5) by (rule round_dp_upper) simp
  moreover have "0 \<le> de_confidence e"
    unfolding samples(5) by (rule round_dp_nonneg) simp
  moreover have "lo \<le> hd vs" "last vs \<le> hi" if "list_all (\<lambda>v. lo \<le> v \<and> v \<le> hi) samples" for lo hi
    using that mem set set_take_last [of 20 samples] by (auto simp: list_all_iff)
  ultimately show ?thesis
    using r50 r75 mono samples(2-6) len by fastforce
qed

theorem estimate_is_consistent_witness:
  "\<exists>e. estimate TT_BASIC_QUESTION [300, 60, 120, 600] = Inr e
     \<and> de_p50_seconds e \<le> de_p75_seconds e \<and> de_p75_seconds e \<le> 600"
proof -
  obtain e where e: "estimate TT_BASIC_QUESTION [300, 60, 120, 600] = Inr e" "0 < de_sample_count e"
    by (auto simp: estimate_def Let_def max_samples_def)
  from estimate_is_consistent [OF e(1)] e show ?thesis
    by (intro exI [of _ e]) (auto simp: e(1) dest: spec [of _ 60])
qed

text \<open>The anomaly detector asks for the agent exactly when one of its four rules fires, and reports
  the codes of the rules that fired: a time overrun by more than half, an accuracy below 0.4 over at
  least five attempts, an error repeated three times, two days of low completion.\<close>

theorem anomaly_detector_reports_exactly:
  "an_requires_agent (detect s) = (an_reason_codes (detect s) \<noteq> []) \<and> distinct (an_reason_codes (detect s))
   \<and> set (an_reason_codes (detect s)) =
       {c. c = ''TIME_OVERRUN'' \<and> 3 * fs_expected_p75_seconds s < 2 * fs_actual_duration_seconds s}
       \<union> {c. c = ''LOW_ACCURACY'' \<and> 5 \<le> fs_recent_attempt_count s \<and> fs_recent_accuracy s < 4 / 10}
       \<union> {c. c = ''REPEATED_ERROR'' \<and> 3 \<le> fs_same_error_streak s}
       \<union> {c. c = ''LOW_COMPLETION'' \<and> 2 \<le> fs_consecutive_low_completion_days s
            \<and> fs_completion_ratio s < 6 / 10}"
proof -
  have "of_int e * (3 / 2) < (of_int a :: pyfloat) \<longleftrightarrow> 3 * e < 2 * a" for e a :: int
    by (simp add: field_simps flip: of_int_mult) linarith
  then show ?thesis by (auto simp: detect_def Let_def)
qed

subsection \<open>The weekly planner\<close>

text \<open>C16. A question plan respects every day's minutes (with the pessimistic estimates), repeats no
  question, uses none that was excluded, and each of its tasks has one to five questions, all of them
  candidates of the task's knowledge point.\<close>

theorem week_plan_is_sound:
  assumes "distinct (map cq_question_id candidates)" and "distinct (map av_day availability)"
    and "list_all (\<lambda>a. 0 \<le> av_minutes a) availability"
    and "plan = build_week availability priorities candidates excluded"
  shows "list_all (\<lambda>a. total_max_minutes plan (av_day a) \<le> av_minutes a) availability
    \<and> distinct (task_ids plan) \<and> set (task_ids plan) \<inter> set excluded = {}
    \<and> list_all (\<lambda>t. dr_day t \<in> av_day ` set availability \<and> good_task candidates t) plan"
proof -
  let ?ranked = "sort_desc selection_score candidates"
  have ranked: "distinct (map cq_question_id ?ranked)"
    using assms(1) by (auto simp: distinct_map)
  have "good_task ?ranked t = good_task candidates t" for t by (simp add: good_task_def)
  then show ?thesis
    using plan_days_props [OF ranked] plan_days_budget [OF ranked assms(2)] assms(3,4)
    by (auto simp: build_week_def list_all_iff)
qed

definition example_question :: "string \<Rightarrow> int \<Rightarrow> candidate_question" where
  "example_question i p75 = \<lparr>cq_question_id = i, cq_knowledge_id = ''k1'', cq_difficulty = Diff_MEDIUM,
     cq_question_type = ''CALCULATION'', cq_p50 = 10, cq_p75 = p75, cq_school_weight = 9 / 10,
     cq_weakness = 8 / 10, cq_difficulty_fit = 1, cq_spacing_score = 1, cq_diversity_score = 1\<rparr>"

definition example_priority :: knowledge_priority where
  "example_priority = \<lparr>kp_knowledge_id = ''k1'', kp_school_weight = 1, kp_mastery_gap = 1,
     kp_error_recency = 0, kp_error_frequency = 0, kp_forgetting_risk = 0, kp_stage_weight = 0,
     kp_prerequisite_blocked = False\<rparr>"

theorem week_plan_is_sound_witness:
  "total_max_minutes (build_week [\<lparr>av_day = 1, av_minutes = 60\<rparr>] [example_priority]
     [example_question ''q1'' 40, example_question ''q2'' 30, example_question ''q3'' 20] [''q2'']) 1 \<le> 60"
  using week_plan_is_sound [of
      "[example_question ''q1'' 40, example_question ''q2'' 30, example_question ''q3'' 20]"
      "[\<lparr>av_day = 1, av_minutes = 60\<rparr>]" _ "[example_priority]" "[''q2'']"]
  by (simp add: example_question_def)

text \<open>A learning plan respects every day's minutes and schedules no task identity twice: its tasks
  come from candidates with different identities, in the days of the availability.\<close>

theorem learning_week_is_sound:
  assumes "distinct (map av_day availability)"
    and "list_all (\<lambda>a. 0 \<le> av_minutes a) availability"
    and "plan = build_learning_week availability candidates"
  shows "list_all (\<lambda>a. total_max_minutes plan (av_day a) \<le> av_minutes a) availability
    \<and> (\<exists>chosen. plan = map (\<lambda>(day, c). learning_task day c) chosen
         \<and> distinct (map (task_identity \<circ> snd) chosen) \<and> snd ` set chosen \<subseteq> set candidates)"
proof
  let ?ranked = "sort_desc lc_priority candidates"
  let ?chosen = "choose_days ?ranked availability []"
  have total: "total_max_minutes plan day =
      sum_of (lc_p75 \<circ> snd) (filter (\<lambda>dc. fst dc = day) ?chosen)" for day
    unfolding assms(3) build_learning_week_def total_max_minutes_def
    by (simp add: filter_map comp_def case_prod_beta learning_task_def)
  show "list_all (\<lambda>a. total_max_minutes plan (av_day a) \<le> av_minutes a) availability"
    using choose_days_budget [OF assms(1)] assms(2) by (simp add: list_all_iff total)
  show "\<exists>chosen. plan = map (\<lambda>(day, c). learning_task day c) chosen
      \<and> distinct (map (task_identity \<circ> snd) chosen) \<and> snd ` set chosen \<subseteq> set candidates"
    using choose_days_props [of ?ranked availability "[]"] assms(3)
    by (intro exI [of _ ?chosen]) (auto simp: build_learning_week_def)
qed

definition example_learning :: "string \<Rightarrow> int \<Rightarrow> learning_candidate" where
  "example_learning k p75 = \<lparr>lc_knowledge_id = k, lc_task_type = TT_COURSE_LEARNING, lc_title = ''t'',
     lc_description = [], lc_resource_section_id = None, lc_suggested_scope = None,
     lc_planned_units = 1, lc_unit_type = ''LESSON'', lc_p50 = 30, lc_p75 = p75, lc_priority = 1 / 2,
     lc_origin = Origin_SYSTEM, lc_is_personal = False, lc_task_identity = None\<rparr>"

theorem learning_week_is_sound_witness:
  "total_max_minutes (build_learning_week [\<lparr>av_day = 1, av_minutes = 60\<rparr>]
     [example_learning ''k1'' 45, example_learning ''k1'' 45, example_learning ''k2'' 45]) 1 \<le> 60"
  using learning_week_is_sound [of "[\<lparr>av_day = 1, av_minutes = 60\<rparr>]" _
      "[example_learning ''k1'' 45, example_learning ''k1'' 45, example_learning ''k2'' 45]"]
  by simp

subsection \<open>Mock exam validation\<close>

text \<open>C40. The exam validator reports exactly the violated rules: number of questions, repeated
  questions, total score, missing answers, invalid questions, and the two distributions within the
  tolerance; an exam is valid exactly when none is violated.\<close>

theorem exam_validator_reports_exactly:
  "ev_errors (validate_exam spec qs) = exam_errors spec qs
    \<and> (ev_valid (validate_exam spec qs) \<longleftrightarrow> exam_errors spec qs = [])"
  by (rule validate_exam_errors)

end
