(* ===== verification/App_Base.thy ===== *)
theory App_Base
  imports Database Text
begin

text \<open>
  What the application services share: the settings of \<^verbatim>\<open>app/config.py\<close>, the text forms of
  identifiers and dates, the calendar, and the reading and writing of rows in a session.

  A time is a number of seconds since 1970-01-01 UTC and a date a number of days since then. The
  environment \<open>app_env\<close> holds the standard library's text forms: \<open>str\<close> and \<open>uuid.UUID\<close> of an
  identifier, \<open>isoformat\<close> and \<open>fromisoformat\<close> of dates and times, \<open>str\<close> of a JSON value that
  is not a string, \<open>int\<close> and \<open>float\<close> of a string. \<open>app_env_ok\<close> states that parsing reads back what was written.
\<close>

subsection \<open>Settings\<close>

record settings =
  cfg_app_env :: string
  cfg_access_token_minutes :: int
  cfg_refresh_token_days :: int
  cfg_sms_provider :: string
  cfg_fixed_sms_code :: string
  cfg_qwen_api_key :: string
  cfg_pii_encryption_key :: string
  cfg_qwen_plus_model :: string
  cfg_qwen_flash_model :: string
  cfg_use_fake_model :: bool
  cfg_agent_max_steps :: int
  cfg_agent_max_model_calls :: int
  cfg_agent_max_tool_calls :: int
  cfg_agent_max_input_tokens :: int
  cfg_agent_max_output_tokens :: int
  cfg_agent_max_total_tokens :: int
  cfg_agent_max_runtime_seconds :: int
  cfg_agent_max_repair_calls :: int
  cfg_agent_model_max_output_tokens :: int
  cfg_agent_lease_seconds :: int
  cfg_agent_heartbeat_seconds :: int
  cfg_agent_shadow_enabled :: bool
  cfg_agent_shadow_model :: "string option"
  cfg_agent_shadow_prompt_version :: string
  cfg_agent_tool_feature_flags :: "string list"
  cfg_job_max_attempts :: int
  cfg_job_retry_base_seconds :: pyfloat
  cfg_job_retry_max_seconds :: pyfloat
  cfg_job_reconciliation_seconds :: int

definition default_settings :: settings where
  "default_settings = \<lparr>cfg_app_env = ''local'', cfg_access_token_minutes = 15,
     cfg_refresh_token_days = 30, cfg_sms_provider = ''fixed'', cfg_fixed_sms_code = ''246810'',
     cfg_qwen_api_key = [], cfg_pii_encryption_key = [],
     cfg_qwen_plus_model = ''qwen3.7-plus-2026-05-26'',
     cfg_qwen_flash_model = ''qwen3.7-flash-2026-07-15'', cfg_use_fake_model = True,
     cfg_agent_max_steps = 8, cfg_agent_max_model_calls = 10, cfg_agent_max_tool_calls = 12,
     cfg_agent_max_input_tokens = 64000, cfg_agent_max_output_tokens = 8192,
     cfg_agent_max_total_tokens = 72192, cfg_agent_max_runtime_seconds = 600,
     cfg_agent_max_repair_calls = 1, cfg_agent_model_max_output_tokens = 2048,
     cfg_agent_lease_seconds = 45, cfg_agent_heartbeat_seconds = 10,
     cfg_agent_shadow_enabled = False, cfg_agent_shadow_model = None,
     cfg_agent_shadow_prompt_version = ''diagnosis_shadow_v1'', cfg_agent_tool_feature_flags = [],
     cfg_job_max_attempts = 3, cfg_job_retry_base_seconds = 1, cfg_job_retry_max_seconds = 60,
     cfg_job_reconciliation_seconds = 90\<rparr>"

text \<open>\<open>validate_production_safety\<close> on the parsed fields.\<close>

definition validate_settings :: "settings \<Rightarrow> exn + settings" where
  "validate_settings s =
    (if cfg_agent_lease_seconds s \<le> cfg_agent_heartbeat_seconds s then Inl (PyExc ''ValueError'')
     else if cfg_app_env s \<noteq> ''production'' then Inr s
     else if cfg_sms_provider s \<in> {''fixed'', ''unconfigured''} then Inl (PyExc ''ValueError'')
     else if cfg_use_fake_model s then Inl (PyExc ''ValueError'')
     else if cfg_qwen_api_key s = [] then Inl (PyExc ''ValueError'')
     else if cfg_pii_encryption_key s = [] then Inl (PyExc ''ValueError'')
     else Inr s)"

subsection \<open>Text forms\<close>

record app_env =
  ae_uuid_str :: "uuid \<Rightarrow> string"
  ae_uuid_of :: "string \<Rightarrow> uuid option"
  ae_date_iso :: "date \<Rightarrow> string"
  ae_date_of :: "string \<Rightarrow> date option"
  ae_isoformat :: "time \<Rightarrow> string"
  ae_repr :: "json \<Rightarrow> string"
  ae_int_of :: "string \<Rightarrow> int option"
  ae_float_of :: "string \<Rightarrow> pyfloat option"

definition app_env_ok :: "app_env \<Rightarrow> bool" where
  "app_env_ok env \<longleftrightarrow> (\<forall>u. ae_uuid_of env (ae_uuid_str env u) = Some u)
     \<and> (\<forall>d. ae_date_of env (ae_date_iso env d) = Some d) \<and> inj (ae_isoformat env)"

definition json_str :: "app_env \<Rightarrow> json \<Rightarrow> string" where
  "json_str env j = (case j of JStr s \<Rightarrow> s | _ \<Rightarrow> ae_repr env j)"

text \<open>\<open>uuid.UUID(str(value))\<close>.\<close>

definition parse_uuid :: "app_env \<Rightarrow> json \<Rightarrow> exn + uuid" where
  "parse_uuid env j = (case ae_uuid_of env (json_str env j) of
     None \<Rightarrow> Inl (PyExc ''ValueError'') | Some u \<Rightarrow> Inr u)"

text \<open>\<open>int(value)\<close> and \<open>float(value)\<close> of a JSON value.\<close>

definition json_int :: "app_env \<Rightarrow> json \<Rightarrow> exn + int" where
  "json_int env j = (case j of
     JInt i \<Rightarrow> Inr i
   | JFloat x \<Rightarrow> Inr (if 0 \<le> x then \<lfloor>x\<rfloor> else \<lceil>x\<rceil>)
   | JBool b \<Rightarrow> Inr (if b then 1 else 0)
   | JStr s \<Rightarrow> (case ae_int_of env s of None \<Rightarrow> Inl (PyExc ''ValueError'') | Some i \<Rightarrow> Inr i)
   | _ \<Rightarrow> Inl (PyExc ''TypeError''))"

definition json_float :: "app_env \<Rightarrow> json \<Rightarrow> exn + pyfloat" where
  "json_float env j = (case j of
     JInt i \<Rightarrow> Inr (of_int i)
   | JFloat x \<Rightarrow> Inr x
   | JBool b \<Rightarrow> Inr (if b then 1 else 0)
   | JStr s \<Rightarrow> (case ae_float_of env s of None \<Rightarrow> Inl (PyExc ''ValueError'') | Some x \<Rightarrow> Inr x)
   | _ \<Rightarrow> Inl (PyExc ''TypeError''))"

lemma app_env_uuid [simp]: "app_env_ok env \<Longrightarrow> ae_uuid_of env (ae_uuid_str env u) = Some u"
  by (simp add: app_env_ok_def)

lemma app_env_uuid_inj: "app_env_ok env \<Longrightarrow> ae_uuid_str env u = ae_uuid_str env v \<longleftrightarrow> u = v"
  by (metis app_env_uuid option.inject)

lemma parse_uuid_str [simp]: "app_env_ok env \<Longrightarrow> parse_uuid env (JStr (ae_uuid_str env u)) = Inr u"
  by (simp add: parse_uuid_def json_str_def)

subsection \<open>Calendar\<close>

definition date_of_time :: "time \<Rightarrow> date" where
  "date_of_time t = t div 86400"

definition days :: "int \<Rightarrow> time" where
  "days n = n * 86400"

text \<open>\<open>date.weekday()\<close>: Monday is 0; 1970-01-01 was a Thursday.\<close>

definition weekday :: "date \<Rightarrow> int" where
  "weekday d = (d + 3) mod 7"

lemma weekday_range: "0 \<le> weekday d \<and> weekday d < 7"
  by (simp add: weekday_def)

subsection \<open>Rows\<close>

lemma find_row_by_id:
  "distinct (map g rows) \<Longrightarrow> r \<in> set rows \<Longrightarrow> g r = i \<Longrightarrow> find (\<lambda>r. g r = i) rows = Some r"
  by (induction rows) (auto simp: image_iff)

definition app_error :: "int \<Rightarrow> string \<Rightarrow> 'a db_comp" where
  "app_error status code = throw (AppErr status code)"

text \<open>The result of a query that must exist.\<close>

definition found_or :: "'a option \<Rightarrow> exn \<Rightarrow> 'a db_comp" where
  "found_or x e = (case x of None \<Rightarrow> throw e | Some a \<Rightarrow> ret a)"

lemma keeps_found_or [simp, intro]: "keeps P (found_or x e)"
  by (simp add: found_or_def split: option.split)

lemma keeps_app_error [simp, intro]: "keeps P (app_error s c)"
  by (simp add: app_error_def)

lemma found_or_simps [simp]: "found_or None e = throw e" "found_or (Some a) e = ret a"
  by (simp_all add: found_or_def)

lemma found_or_InrD: "found_or x e s = (Inr a, s') \<Longrightarrow> x = Some a \<and> s' = s"
  by (cases x) (simp_all add: ret_apply throw_apply)

lemma app_error_apply [comp_simps]: "app_error status code s = (Inl (AppErr status code), s)"
  by (simp add: app_error_def throw_apply)

end
