(* ===== verification/Jobs.thy ===== *)
theory Jobs
  imports App_Base
begin

text \<open>
  Background jobs: creation (\<^verbatim>\<open>app/application/jobs.py\<close>), the dispatcher
  (\<^verbatim>\<open>app/workers/dispatcher.py\<close>) and the worker (\<^verbatim>\<open>app/workers/tasks.py\<close>).

  A session is a computation over the database at one time; the sessions of \<open>execute_job\<close> run one
  after the other. The five services that \<open>_dispatch\<close> calls are the fields of \<open>job_services\<close>; the
  state that a service leaves with an exception is what it had committed. \<open>random.uniform\<close> is a
  sample of the unit interval. Metrics and logging are left out.
\<close>

subsection \<open>Rows\<close>

definition get_job :: "uuid \<Rightarrow> db \<Rightarrow> background_job_row option" where
  "get_job i d = find (\<lambda>j. bj_id j = i) (db_background_jobs d)"

definition set_job :: "uuid \<Rightarrow> (background_job_row \<Rightarrow> background_job_row) \<Rightarrow> unit db_comp" where
  "set_job i f = modify (\<lambda>d. d\<lparr>db_background_jobs :=
     update_rows (\<lambda>j. bj_id j = i) f (db_background_jobs d)\<rparr>)"

definition get_proposal :: "uuid \<Rightarrow> db \<Rightarrow> proposal_row option" where
  "get_proposal i d = find (\<lambda>p. pr_id p = i) (db_proposals d)"

definition set_proposal :: "uuid \<Rightarrow> (proposal_row \<Rightarrow> proposal_row) \<Rightarrow> unit db_comp" where
  "set_proposal i f = modify (\<lambda>d. d\<lparr>db_proposals :=
     update_rows (\<lambda>p. pr_id p = i) f (db_proposals d)\<rparr>)"

definition add_event :: "string \<Rightarrow> uuid \<Rightarrow> int \<Rightarrow> string \<Rightarrow> jobj \<Rightarrow> (string, string) dict \<Rightarrow> time \<Rightarrow> unit db_comp" where
  "add_event agg i v event payload versions now = modify (\<lambda>d. d\<lparr>db_domain_events := db_domain_events d @
     [\<lparr>ev_id = fresh_id (map ev_id (db_domain_events d)), ev_aggregate_type = agg,
       ev_aggregate_id = i, ev_aggregate_version = v, ev_event_type = event, ev_payload = payload,
       ev_strategy_versions = versions, ev_occurred_at = now, ev_published_at = None\<rparr>]\<rparr>)"

subsection \<open>Creation\<close>

text \<open>\<open>JobService.create\<close>; dictionaries are compared without regard to the order of keys.\<close>

definition new_job ::
  "settings \<Rightarrow> time \<Rightarrow> uuid \<Rightarrow> uuid \<Rightarrow> string \<Rightarrow> jobj \<Rightarrow> string \<Rightarrow> background_job_row" where
  "new_job cfg now i user job_type payload key = \<lparr>bj_id = i, bj_user_id = Some user,
     bj_job_type = job_type, bj_status = Job_QUEUED, bj_payload = payload, bj_result = None,
     bj_error_code = None, bj_idempotency_key = key, bj_available_at = now, bj_started_at = None,
     bj_finished_at = None, bj_dispatched_at = None, bj_attempt_count = 0,
     bj_max_attempts = cfg_job_max_attempts cfg, bj_next_retry_at = None,
     bj_dead_lettered_at = None, bj_version = 1, bj_created_at = now\<rparr>"

definition job_keyed :: "uuid \<Rightarrow> string \<Rightarrow> string \<Rightarrow> background_job_row \<Rightarrow> bool" where
  "job_keyed user job_type key j \<longleftrightarrow> bj_user_id j = Some user \<and> bj_job_type j = job_type
     \<and> bj_idempotency_key j = key"

definition create_job ::
  "app_env \<Rightarrow> settings \<Rightarrow> time \<Rightarrow> uuid \<Rightarrow> string \<Rightarrow> jobj \<Rightarrow> string \<Rightarrow> background_job_row db_comp" where
  "create_job env cfg now user job_type payload key = transaction
    (andthen (gets (\<lambda>d. find (job_keyed user job_type key) (db_background_jobs d))) (\<lambda>existing.
      case existing of
        Some j \<Rightarrow>
          if canon_json (JObj (bj_payload j)) \<noteq> canon_json (JObj payload)
          then app_error 409 ''IDEMPOTENCY_CONFLICT'' else ret j
      | None \<Rightarrow>
          andthen (gets (\<lambda>d. new_job cfg now (fresh_id (map bj_id (db_background_jobs d)))
                     user job_type payload key)) (\<lambda>j.
          andthen (modify (\<lambda>d. d\<lparr>db_background_jobs := db_background_jobs d @ [j]\<rparr>)) (\<lambda>_.
          andthen (add_event ''BackgroundJob'' (bj_id j) 1 ''BackgroundJobCreated''
                    [(''job_id'', JStr (ae_uuid_str env (bj_id j))), (''job_type'', JStr job_type)] [] now)
            (\<lambda>_. ret j)))))"

definition get_owned_job :: "uuid \<Rightarrow> uuid \<Rightarrow> background_job_row db_comp" where
  "get_owned_job user i = andthen (gets (get_job i)) (\<lambda>j. case j of
     None \<Rightarrow> app_error 404 ''JOB_NOT_FOUND''
   | Some j \<Rightarrow> if bj_user_id j \<noteq> Some user then app_error 404 ''JOB_NOT_FOUND'' else ret j)"

subsection \<open>The dispatcher\<close>

text \<open>The jobs of one round, with their delivery identifiers, marked as dispatched.\<close>

definition dispatchable :: "time \<Rightarrow> background_job_row \<Rightarrow> bool" where
  "dispatchable now j \<longleftrightarrow> bj_status j \<in> {Job_QUEUED, Job_RETRY_WAIT} \<and> bj_available_at j \<le> now
     \<and> bj_dispatched_at j = None"

definition dispatch_once :: "app_env \<Rightarrow> time \<Rightarrow> string list db_comp" where
  "dispatch_once env now =
    andthen (gets (\<lambda>d. take 100 (sort_key bj_created_at (filter (dispatchable now) (db_background_jobs d)))))
      (\<lambda>jobs.
    andthen (modify (\<lambda>d. d\<lparr>db_background_jobs := update_rows (\<lambda>j. bj_id j \<in> set (map bj_id jobs))
        (\<lambda>j. j\<lparr>bj_dispatched_at := Some now\<rparr>) (db_background_jobs d)\<rparr>)) (\<lambda>_.
    ret (map (\<lambda>j. ae_uuid_str env (bj_id j) @ '':'' @ show_int (bj_attempt_count j + 1)) jobs)))"

subsection \<open>The proposal of a job\<close>

definition job_proposal :: "app_env \<Rightarrow> background_job_row \<Rightarrow> proposal_row option db_comp" where
  "job_proposal env j = (let v = dict_get (bj_payload j) ''proposal_id'' JNull in
     if \<not> json_truthy v then ret None
     else andthen (lift_result (parse_uuid env v)) (\<lambda>i. gets (get_proposal i)))"

definition mark_proposal_applying :: "app_env \<Rightarrow> background_job_row \<Rightarrow> unit db_comp" where
  "mark_proposal_applying env j = andthen (job_proposal env j) (\<lambda>p. case p of
     None \<Rightarrow> ret ()
   | Some p \<Rightarrow> if pr_status p = Prop_APPROVED
       then set_proposal (pr_id p) (\<lambda>p. p\<lparr>pr_status := Prop_APPLYING\<rparr>) else ret ())"

definition mark_proposal_applied :: "app_env \<Rightarrow> time \<Rightarrow> background_job_row \<Rightarrow> unit db_comp" where
  "mark_proposal_applied env now j = andthen (job_proposal env j) (\<lambda>p. case p of
     None \<Rightarrow> ret ()
   | Some p \<Rightarrow> if pr_status p = Prop_APPLYING
       then set_proposal (pr_id p) (\<lambda>p. p\<lparr>pr_status := Prop_APPLIED, pr_applied_at := Some now,
              pr_apply_error_code := None\<rparr>) else ret ())"

definition mark_proposal_failed :: "app_env \<Rightarrow> string \<Rightarrow> background_job_row \<Rightarrow> unit db_comp" where
  "mark_proposal_failed env code j = andthen (job_proposal env j) (\<lambda>p. case p of
     None \<Rightarrow> ret ()
   | Some p \<Rightarrow> if pr_status p \<in> {Prop_APPROVED, Prop_APPLYING}
       then set_proposal (pr_id p) (\<lambda>p. p\<lparr>pr_status := Prop_APPLY_FAILED,
              pr_apply_error_code := Some (take 64 code)\<rparr>) else ret ())"

subsection \<open>The worker\<close>

definition terminal_job_statuses :: "job_status set" where
  "terminal_job_statuses = {Job_SUCCEEDED, Job_FAILED, Job_DEAD_LETTER, Job_CANCELLED,
     Job_WAITING_FOR_REVIEW}"

text \<open>The first session of \<open>execute_job\<close>: whether this delivery runs the job.\<close>

definition claim_job :: "app_env \<Rightarrow> time \<Rightarrow> uuid \<Rightarrow> bool db_comp" where
  "claim_job env now i = transaction
    (andthen (gets (get_job i)) (\<lambda>j. case j of
       None \<Rightarrow> ret False
     | Some j \<Rightarrow>
         if bj_status j \<in> terminal_job_statuses then ret False
         else if bj_status j = Job_RUNNING then ret False
         else if bj_status j = Job_RETRY_WAIT \<and> (\<exists>t. bj_next_retry_at j = Some t \<and> now < t) then ret False
         else
           andthen (set_job i (\<lambda>j. j\<lparr>bj_status := Job_RUNNING, bj_started_at := Some now,
                      bj_attempt_count := bj_attempt_count j + 1, bj_next_retry_at := None\<rparr>)) (\<lambda>_.
           andthen (mark_proposal_applying env j) (\<lambda>_. ret True))))"

record job_services =
  js_generate_plan :: "background_job_row \<Rightarrow> unit db_comp"
  js_agent_diagnosis :: "background_job_row \<Rightarrow> unit db_comp"
  js_generate_mock :: "background_job_row \<Rightarrow> unit db_comp"
  js_parse_resource :: "uuid \<Rightarrow> string db_comp"
  js_shadow_evaluation :: "background_job_row \<Rightarrow> unit db_comp"

definition run_service :: "app_env \<Rightarrow> job_services \<Rightarrow> background_job_row \<Rightarrow> unit db_comp" where
  "run_service env svc j =
    (if bj_job_type j = ''GENERATE_PLAN'' then js_generate_plan svc j
     else if bj_job_type j = ''AGENT_DIAGNOSIS'' then js_agent_diagnosis svc j
     else if bj_job_type j = ''GENERATE_MOCK'' then js_generate_mock svc j
     else if bj_job_type j = ''PARSE_RESOURCE'' then
       (case map_of (bj_payload j) ''resource_import_run_id'' of
          None \<Rightarrow> throw (PyExc ''KeyError'')
        | Some v \<Rightarrow>
            andthen (lift_result (parse_uuid env v)) (\<lambda>rid.
            andthen (js_parse_resource svc rid) (\<lambda>status.
            set_job (bj_id j) (\<lambda>j. j\<lparr>bj_result := Some
              [(''resource_import_run_id'', JStr (ae_uuid_str env rid)), (''status'', JStr status)]\<rparr>))))
     else if bj_job_type j = ''SHADOW_EVALUATION'' then js_shadow_evaluation svc j
     else throw (PyExc ''ValueError''))"

text \<open>\<open>job.result and job.result.get("termination_reason") == "CANCELLED"\<close>.\<close>

definition result_cancelled :: "background_job_row \<Rightarrow> bool" where
  "result_cancelled j = (case bj_result j of None \<Rightarrow> False
     | Some r \<Rightarrow> map_of r ''termination_reason'' = Some (JStr ''CANCELLED''))"

definition finish_job :: "app_env \<Rightarrow> time \<Rightarrow> uuid \<Rightarrow> unit db_comp" where
  "finish_job env now i = transaction (andthen (gets (get_job i)) (\<lambda>j. case j of
     None \<Rightarrow> ret ()
   | Some j \<Rightarrow>
       if bj_status j \<noteq> Job_RUNNING then ret ()
       else
         andthen (set_job i (\<lambda>k. k\<lparr>bj_status := (if result_cancelled j then Job_CANCELLED
                    else Job_SUCCEEDED), bj_finished_at := Some now\<rparr>)) (\<lambda>_.
         if result_cancelled j then ret () else mark_proposal_applied env now j)))"

text \<open>
  \<open>_dispatch\<close>. The agent's diagnosis commits in sessions of its own; the other services write in
  the session of \<open>_dispatch\<close>, which an exception rolls back.
\<close>

definition dispatch_job :: "app_env \<Rightarrow> job_services \<Rightarrow> time \<Rightarrow> uuid \<Rightarrow> unit db_comp" where
  "dispatch_job env svc now i = andthen (gets (get_job i)) (\<lambda>j. case j of
     None \<Rightarrow> ret ()
   | Some j \<Rightarrow>
       if bj_status j \<noteq> Job_RUNNING then ret ()
       else (let body = andthen (run_service env svc j) (\<lambda>_. finish_job env now i) in
         if bj_job_type j = ''AGENT_DIAGNOSIS'' then body else transaction body))"

definition is_transient_exn :: "exn \<Rightarrow> bool" where
  "is_transient_exn e = (case e of
     ModelUnavailableErr _ \<Rightarrow> True
   | PyExc n \<Rightarrow> n \<in> {''TimeoutException'', ''ConnectTimeout'', ''ReadTimeout'', ''WriteTimeout'',
       ''PoolTimeout'', ''NetworkError'', ''ConnectError'', ''ReadError'', ''WriteError'', ''CloseError'',
       ''RedisError'', ''OperationalError'', ''TimeoutError''}
   | _ \<Rightarrow> is_tool_transient e)"

text \<open>\<open>_retry_delay\<close> with \<open>random.uniform(0.8, 1.2)\<close> of the sample \<open>u\<close>.\<close>

definition job_retry_delay :: "settings \<Rightarrow> pyfloat \<Rightarrow> int \<Rightarrow> pyfloat" where
  "job_retry_delay cfg u attempts =
    (let raw = min (cfg_job_retry_max_seconds cfg)
           (cfg_job_retry_base_seconds cfg * 2 ^ nat (max 0 (attempts - 1)));
         result = raw * (8 / 10 + u * (4 / 10))
     in if 1 / 10 < result then result else 1 / 10)"

definition set_evaluation_failed :: "time \<Rightarrow> uuid \<Rightarrow> string \<Rightarrow> unit db_comp" where
  "set_evaluation_failed now i code = modify (\<lambda>d. d\<lparr>db_shadow_evaluations :=
     update_rows (\<lambda>e. se_id e = i) (\<lambda>e. e\<lparr>se_status := ''FAILED'', se_error_code := Some (take 64 code),
       se_finished_at := Some now\<rparr>) (db_shadow_evaluations d)\<rparr>)"

definition fail_evaluation :: "app_env \<Rightarrow> time \<Rightarrow> background_job_row \<Rightarrow> string \<Rightarrow> unit db_comp" where
  "fail_evaluation env now j code = (let v = dict_get (bj_payload j) ''shadow_evaluation_id'' JNull in
     if bj_job_type j = ''SHADOW_EVALUATION'' \<and> json_truthy v
     then andthen (lift_result (parse_uuid env v)) (\<lambda>i. set_evaluation_failed now i code) else ret ())"

text \<open>The update of a failed job's row.\<close>

definition record_failure ::
  "settings \<Rightarrow> pyfloat \<Rightarrow> time \<Rightarrow> exn \<Rightarrow> background_job_row \<Rightarrow> background_job_row" where
  "record_failure cfg u now err j0 =
    (let j = j0\<lparr>bj_error_code := Some (take 64 (exn_code err)), bj_finished_at := Some now\<rparr>;
         retry_at = now + py_round (job_retry_delay cfg u (bj_attempt_count j))
     in if is_transient_exn err \<and> bj_attempt_count j < bj_max_attempts j then
          j\<lparr>bj_status := Job_RETRY_WAIT, bj_next_retry_at := Some retry_at,
            bj_available_at := retry_at, bj_dispatched_at := None\<rparr>
        else if is_transient_exn err then
          j\<lparr>bj_status := Job_DEAD_LETTER, bj_dead_lettered_at := Some now\<rparr>
        else j\<lparr>bj_status := Job_FAILED\<rparr>)"

definition handle_failure :: "app_env \<Rightarrow> settings \<Rightarrow> pyfloat \<Rightarrow> time \<Rightarrow> uuid \<Rightarrow> exn \<Rightarrow> unit db_comp" where
  "handle_failure env cfg u now i err = transaction
    (andthen (gets (get_job i)) (\<lambda>j. case j of
       None \<Rightarrow> ret ()
     | Some j \<Rightarrow>
         andthen (set_job i (record_failure cfg u now err)) (\<lambda>_.
           if is_transient_exn err \<and> bj_attempt_count j < bj_max_attempts j then ret ()
           else andthen (mark_proposal_failed env (exn_code err) j) (\<lambda>_.
             fail_evaluation env now j (exn_code err)))))"

definition mark_cancelled :: "time \<Rightarrow> uuid \<Rightarrow> unit db_comp" where
  "mark_cancelled now i = andthen (gets (get_job i)) (\<lambda>j. case j of
     None \<Rightarrow> ret ()
   | Some j \<Rightarrow>
       andthen (set_job i (\<lambda>j. j\<lparr>bj_status := Job_CANCELLED, bj_finished_at := Some now\<rparr>)) (\<lambda>_.
       modify (\<lambda>d. case find (\<lambda>r. ag_job_id r = i) (db_agent_runs d) of
          None \<Rightarrow> d
        | Some run \<Rightarrow> d\<lparr>db_agent_runs := update_rows (\<lambda>r. ag_id r = ag_id run)
            (\<lambda>r. r\<lparr>ag_status := Run_CANCELLED, ag_cancelled_at := Some now,
                   ag_termination_reason := Some ''CANCELLED''\<rparr>) (db_agent_runs d)\<rparr>)))"

text \<open>\<open>execute_job\<close>; \<open>now\<close> is the time of the claim and \<open>later\<close> that of the following sessions.\<close>

definition execute_job ::
  "app_env \<Rightarrow> settings \<Rightarrow> job_services \<Rightarrow> pyfloat \<Rightarrow> time \<Rightarrow> time \<Rightarrow> uuid \<Rightarrow> unit db_comp" where
  "execute_job env cfg svc u now later i =
    andthen (claim_job env now i) (\<lambda>claimed.
      if \<not> claimed then ret ()
      else handle (dispatch_job env svc later i) (\<lambda>err.
        if err = LeaseUnavailableErr \<or> err = StaleWorkerErr then ret ()
        else if err = RunCancelledErr then mark_cancelled later i
        else handle_failure env cfg u later i err))"

subsection \<open>Reconciliation\<close>

definition still_running :: "settings \<Rightarrow> time \<Rightarrow> db \<Rightarrow> background_job_row \<Rightarrow> bool" where
  "still_running cfg now d j \<longleftrightarrow>
    (if bj_job_type j = ''AGENT_DIAGNOSIS'' then
       (case find (\<lambda>r. ag_job_id r = bj_id j) (db_agent_runs d) of
          None \<Rightarrow> False
        | Some run \<Rightarrow> (case ag_lease_expires_at run of None \<Rightarrow> False | Some t \<Rightarrow> now < t))
     else (case bj_started_at j of None \<Rightarrow> False
        | Some t \<Rightarrow> now - max (cfg_job_reconciliation_seconds cfg) 660 < t))"

text \<open>The update of one stale job's row.\<close>

definition reconcile_row :: "time \<Rightarrow> background_job_row \<Rightarrow> background_job_row" where
  "reconcile_row now j =
    (if bj_max_attempts j \<le> bj_attempt_count j
     then j\<lparr>bj_status := Job_DEAD_LETTER, bj_dead_lettered_at := Some now\<rparr>
     else j\<lparr>bj_status := Job_RETRY_WAIT, bj_next_retry_at := Some now, bj_available_at := now,
            bj_dispatched_at := None, bj_error_code := Some ''STALE_JOB_RECONCILED''\<rparr>)"

definition reconcile_job :: "app_env \<Rightarrow> time \<Rightarrow> background_job_row \<Rightarrow> unit db_comp" where
  "reconcile_job env now j =
    andthen (set_job (bj_id j) (reconcile_row now)) (\<lambda>_.
      if bj_max_attempts j \<le> bj_attempt_count j
      then mark_proposal_failed env ''STALE_JOB_EXHAUSTED'' j else ret ())"

fun reconcile_jobs :: "app_env \<Rightarrow> settings \<Rightarrow> time \<Rightarrow> background_job_row list \<Rightarrow> nat db_comp" where
  "reconcile_jobs env cfg now [] = ret 0"
| "reconcile_jobs env cfg now (j # js) =
    andthen (gets (\<lambda>d. still_running cfg now d j)) (\<lambda>running.
      if running then reconcile_jobs env cfg now js
      else andthen (reconcile_job env now j) (\<lambda>_.
        andthen (reconcile_jobs env cfg now js) (\<lambda>n. ret (Suc n))))"

definition reconcile_stale_jobs :: "app_env \<Rightarrow> settings \<Rightarrow> time \<Rightarrow> nat db_comp" where
  "reconcile_stale_jobs env cfg now = transaction
    (andthen (gets (\<lambda>d. filter (\<lambda>j. bj_status j = Job_RUNNING
        \<and> (\<exists>t. bj_started_at j = Some t \<and> t < now - cfg_job_reconciliation_seconds cfg))
        (db_background_jobs d))) (reconcile_jobs env cfg now))"

definition expiring :: "time \<Rightarrow> proposal_row \<Rightarrow> bool" where
  "expiring now p \<longleftrightarrow> pr_status p = Prop_AWAITING_CONFIRMATION
     \<and> (\<exists>t. pr_approval_expires_at p = Some t \<and> t \<le> now)"

definition expire_proposals :: "time \<Rightarrow> nat db_comp" where
  "expire_proposals now =
    andthen (gets (\<lambda>d. length (filter (expiring now) (db_proposals d)))) (\<lambda>n.
    andthen (modify (\<lambda>d. d\<lparr>db_proposals := update_rows (expiring now)
        (\<lambda>p. p\<lparr>pr_status := Prop_EXPIRED, pr_decided_at := Some now\<rparr>) (db_proposals d)\<rparr>)) (\<lambda>_.
    ret n))"

subsection \<open>The life of a job\<close>

text \<open>
  The abstract machine of one job: its status, the attempts made and the limit. The sessions of the
  workers, whatever their services do, move every job along this machine.
\<close>

type_synonym job_view = "job_status \<times> int \<times> int"

definition view_of :: "background_job_row \<Rightarrow> job_view" where
  "view_of j = (bj_status j, bj_attempt_count j, bj_max_attempts j)"

definition job_view :: "uuid \<Rightarrow> db \<Rightarrow> job_view option" where
  "job_view k d = map_option view_of (get_job k d)"

inductive job_move :: "job_view \<Rightarrow> job_view \<Rightarrow> bool" where
  move_stay: "job_move v v"
| move_claim: "s \<in> {Job_QUEUED, Job_RETRY_WAIT} \<Longrightarrow> job_move (s, a, m) (Job_RUNNING, a + 1, m)"
| move_end: "s \<in> {Job_SUCCEEDED, Job_CANCELLED, Job_FAILED} \<Longrightarrow> job_move (Job_RUNNING, a, m) (s, a, m)"
| move_retry: "a < m \<Longrightarrow> job_move (Job_RUNNING, a, m) (Job_RETRY_WAIT, a, m)"
| move_dead: "m \<le> a \<Longrightarrow> job_move (Job_RUNNING, a, m) (Job_DEAD_LETTER, a, m)"

inductive_cases job_moveE: "job_move v v'"

lemmas job_move_intros = job_move.intros

text \<open>
  A computation leaves the jobs alone when it changes the view of none of them; \<open>keeps_ids\<close> when
  it neither adds nor removes a job.
\<close>

definition job_ids :: "db \<Rightarrow> uuid list" where
  "job_ids d = map bj_id (db_background_jobs d)"

definition keeps_ids :: "'a db_comp \<Rightarrow> bool" where
  "keeps_ids m \<longleftrightarrow> (\<forall>ids. keeps (\<lambda>d. job_ids d = ids) m)"

definition leaves_jobs :: "'a db_comp \<Rightarrow> bool" where
  "leaves_jobs m \<longleftrightarrow> keeps_ids m \<and> (\<forall>k v. keeps (\<lambda>d. job_view k d = v) m)"

lemma leaves_jobsD: "leaves_jobs m \<Longrightarrow> m d = (r, d') \<Longrightarrow> job_view k d' = job_view k d"
  by (auto simp: leaves_jobs_def dest: keeps_resultD)

lemma leaves_jobs_ids: "leaves_jobs m \<Longrightarrow> keeps_ids m"
  by (simp add: leaves_jobs_def)

lemma keeps_idsD: "keeps_ids m \<Longrightarrow> m d = (r, d') \<Longrightarrow> job_ids d' = job_ids d"
  by (auto simp: keeps_ids_def dest: keeps_resultD)

lemma keeps_ids_rules:
  "keeps_ids (ret a)" "keeps_ids (throw e)" "keeps_ids (gets g)" "keeps_ids (lift_result x)"
  "keeps_ids m \<Longrightarrow> (\<And>a. keeps_ids (k a)) \<Longrightarrow> keeps_ids (andthen m k)"
  "keeps_ids m \<Longrightarrow> (\<And>e. keeps_ids (h e)) \<Longrightarrow> keeps_ids (handle m h)"
  "keeps_ids m \<Longrightarrow> keeps_ids (transaction m)"
  "(b \<Longrightarrow> keeps_ids m) \<Longrightarrow> (\<not> b \<Longrightarrow> keeps_ids n) \<Longrightarrow> keeps_ids (if b then m else n)"
  by (auto simp: keeps_ids_def)

lemma keeps_ids_option: "keeps_ids m \<Longrightarrow> (\<And>a. keeps_ids (l a)) \<Longrightarrow>
    keeps_ids (case x of None \<Rightarrow> m | Some a \<Rightarrow> l a)"
  by (cases x) auto

lemma keeps_ids_set_job: "(\<And>j. bj_id (f j) = bj_id j) \<Longrightarrow> keeps_ids (set_job i f)"
  by (auto simp: keeps_ids_def set_job_def job_ids_def map_update_rows intro!: keeps_modify)

lemma leaves_jobs_intros [intro]:
  "leaves_jobs (ret a)" "leaves_jobs (throw e)" "leaves_jobs (gets g)" "leaves_jobs (lift_result x)"
  "leaves_jobs m \<Longrightarrow> (\<And>a. leaves_jobs (k a)) \<Longrightarrow> leaves_jobs (andthen m k)"
  "leaves_jobs m \<Longrightarrow> leaves_jobs (transaction m)"
  "(\<And>d. db_background_jobs (f d) = db_background_jobs d) \<Longrightarrow> leaves_jobs (modify f)"
  by (auto simp: leaves_jobs_def keeps_ids_def job_ids_def job_view_def get_job_def keeps_modify)

lemma leaves_jobs_if: "(b \<Longrightarrow> leaves_jobs m) \<Longrightarrow> (\<not> b \<Longrightarrow> leaves_jobs n) \<Longrightarrow> leaves_jobs (if b then m else n)"
  by simp

lemma leaves_jobs_option: "leaves_jobs m \<Longrightarrow> (\<And>a. leaves_jobs (k a)) \<Longrightarrow>
    leaves_jobs (case x of None \<Rightarrow> m | Some a \<Rightarrow> k a)"
  by (cases x) auto

lemmas leaves_jobs_rules = leaves_jobs_intros(1-6) leaves_jobs_if leaves_jobs_option

lemma leaves_jobs_set_proposal [simp, intro]: "leaves_jobs (set_proposal i f)"
  by (auto simp: set_proposal_def)

lemma leaves_jobs_job_proposal: "leaves_jobs (job_proposal env j)"
  unfolding job_proposal_def Let_def by (intro leaves_jobs_rules)

lemma leaves_jobs_marks [simp, intro]:
  "leaves_jobs (mark_proposal_applying env j)" "leaves_jobs (mark_proposal_applied env now j)"
  "leaves_jobs (mark_proposal_failed env code j)"
  unfolding mark_proposal_applying_def mark_proposal_applied_def mark_proposal_failed_def
  by (intro leaves_jobs_rules leaves_jobs_job_proposal leaves_jobs_set_proposal)+

lemma leaves_jobs_fail_evaluation [simp, intro]: "leaves_jobs (fail_evaluation env now j code)"
  unfolding fail_evaluation_def set_evaluation_failed_def Let_def
  by (intro leaves_jobs_rules leaves_jobs_intros(7)) simp_all

lemma get_job_id: "get_job i d = Some j \<Longrightarrow> bj_id j = i"
  by (auto simp: get_job_def dest: find_SomeD)

lemma get_job_set:
  "(\<And>j. bj_id (f j) = bj_id j) \<Longrightarrow> set_job i f d = (r, d') \<Longrightarrow>
    get_job k d' = map_option (\<lambda>j. if k = i then f j else j) (get_job k d)"
  by (auto simp: set_job_def get_job_def find_update_rows option.map_comp comp_def
      dest: find_SomeD intro!: option.map_cong)

lemma job_view_set:
  "(\<And>j. bj_id (f j) = bj_id j) \<Longrightarrow> set_job i f d = (r, d') \<Longrightarrow>
    job_view k d' = (if k = i then map_option (\<lambda>j. view_of (f j)) (get_job i d) else job_view k d)"
  using get_job_set [of f i d r d' k] by (auto simp: job_view_def option.map_comp comp_def)

text \<open>Changing the view of one job from \<open>v\<close> to \<open>v'\<close>.\<close>

definition moved :: "uuid \<Rightarrow> job_view option \<Rightarrow> db \<Rightarrow> db \<Rightarrow> bool" where
  "moved i v' d d' \<longleftrightarrow> (\<forall>k. job_view k d' = (if k = i then v' else job_view k d))"

lemma moved_leave: "moved i v d d' \<Longrightarrow> leaves_jobs m \<Longrightarrow> m d' = (r, d'') \<Longrightarrow> moved i v d d''"
  by (simp add: moved_def leaves_jobsD [of m d' r d''])

lemma moved_refl: "moved i (job_view i d) d d"
  by (simp add: moved_def)

lemma set_job_moved:
  "(\<And>j. bj_id (f j) = bj_id j) \<Longrightarrow> get_job i d = Some j \<Longrightarrow> set_job i f d = (r, d') \<Longrightarrow>
    r = Inr () \<and> moved i (Some (view_of (f j))) d d'"
  using job_view_set [of f i d r d'] by (auto simp: moved_def set_job_def)

lemma claim_job_cases:
  assumes "claim_job env now i d = (r, d')"
  obtains (none) "r \<noteq> Inr True" "d' = d"
    | (claimed) j where "r = Inr True" "get_job i d = Some j" "bj_status j \<in> {Job_QUEUED, Job_RETRY_WAIT}"
      "moved i (Some (Job_RUNNING, bj_attempt_count j + 1, bj_max_attempts j)) d d'"
proof (cases "get_job i d")
  case None
  then show ?thesis using assms none by (auto simp: claim_job_def transaction_def comp_simps)
next
  case (Some j)
  let ?f = "\<lambda>j. j\<lparr>bj_status := Job_RUNNING, bj_started_at := Some now,
      bj_attempt_count := bj_attempt_count j + 1, bj_next_retry_at := None\<rparr>"
  obtain u d1 where set: "set_job i ?f d = (u, d1)" by fastforce
  have step: "u = Inr ()" "moved i (Some (view_of (?f j))) d d1"
    using set_job_moved [OF _ Some set] by simp_all
  obtain x d2 where mark: "mark_proposal_applying env j d1 = (x, d2)" by fastforce
  have moved: "moved i (Some (view_of (?f j))) d d2"
    by (rule moved_leave [OF step(2) leaves_jobs_marks(1) mark])
  have open_status: "bj_status j \<in> {Job_QUEUED, Job_RETRY_WAIT}"
    if "bj_status j \<notin> terminal_job_statuses" "bj_status j \<noteq> Job_RUNNING"
    using that by (cases "bj_status j") (auto simp: terminal_job_statuses_def)
  show ?thesis
  proof (cases "bj_status j \<in> terminal_job_statuses \<or> bj_status j = Job_RUNNING
      \<or> (bj_status j = Job_RETRY_WAIT \<and> (\<exists>t. bj_next_retry_at j = Some t \<and> now < t))")
    case True
    then show ?thesis using assms Some none
      by (auto simp: claim_job_def transaction_def comp_simps split: if_splits)
  next
    case False
    then have run: "claim_job env now i d = (case x of Inl e \<Rightarrow> (Inl e, d) | Inr _ \<Rightarrow> (Inr True, d2))"
      using Some set step(1) mark
      by (auto simp: claim_job_def transaction_def comp_simps split: sum.split)
    show ?thesis
    proof (cases x)
      case (Inl e)
      then show ?thesis using run assms none by simp
    next
      case (Inr y)
      then show ?thesis
        using run assms claimed Some open_status moved False by (auto simp: view_of_def)
    qed
  qed
qed

text \<open>Services leave the views of all jobs alone; they may set a job's result.\<close>

definition services_ok :: "job_services \<Rightarrow> bool" where
  "services_ok svc \<longleftrightarrow> (\<forall>j. leaves_jobs (js_generate_plan svc j) \<and> leaves_jobs (js_agent_diagnosis svc j)
     \<and> leaves_jobs (js_generate_mock svc j) \<and> leaves_jobs (js_shadow_evaluation svc j))
     \<and> (\<forall>i. leaves_jobs (js_parse_resource svc i))"

lemma leaves_jobs_set_result [intro]:
  assumes "\<And>j. bj_id (f j) = bj_id j" and "\<And>j. view_of (f j) = view_of j"
  shows "leaves_jobs (set_job i f)"
  unfolding leaves_jobs_def
  by (intro conjI keeps_ids_set_job assms(1) allI keepsI)
    (simp add: set_job_def job_view_def get_job_def find_update_rows assms
      option.map_comp comp_def if_distrib cong: if_cong)

lemma run_service_leaves: "services_ok svc \<Longrightarrow> leaves_jobs (run_service env svc j)"
  unfolding run_service_def services_ok_def
  by (intro leaves_jobs_rules leaves_jobs_set_result) (simp_all add: view_of_def)

lemma finish_job_cases:
  assumes "finish_job env now i d = (r, d')" and "job_view i d = Some (s, a, m)"
  shows "d' = d \<or> (s = Job_RUNNING \<and> r = Inr ()
    \<and> (\<exists>s' \<in> {Job_SUCCEEDED, Job_CANCELLED}. moved i (Some (s', a, m)) d d'))"
proof -
  obtain j where j: "get_job i d = Some j" and v: "view_of j = (s, a, m)"
    using assms(2) by (auto simp: job_view_def)
  let ?s = "if result_cancelled j then Job_CANCELLED else Job_SUCCEEDED"
  let ?f = "\<lambda>k. k\<lparr>bj_status := ?s, bj_finished_at := Some now\<rparr>"
  obtain u d1 where set: "set_job i ?f d = (u, d1)" by fastforce
  have step: "u = Inr ()" "moved i (Some (view_of (?f j))) d d1"
    using set_job_moved [OF _ j set] by simp_all
  define m2 where "m2 = (if result_cancelled j then ret () else mark_proposal_applied env now j)"
  obtain x d2 where mark: "m2 d1 = (x, d2)" by fastforce
  have moved: "moved i (Some (?s, a, m)) d d2"
    using moved_leave [OF step(2), of m2 x d2] mark v leaves_jobs_intros(1) [of "()"]
    by (auto simp: m2_def view_of_def)
  show ?thesis
  proof (cases "s = Job_RUNNING")
    case True
    then have "finish_job env now i d = (case x of Inl e \<Rightarrow> (Inl e, d) | Inr _ \<Rightarrow> (Inr (), d2))"
      using j v set step(1) mark
      by (auto simp: finish_job_def transaction_def comp_simps view_of_def m2_def [symmetric] split: sum.split)
    then show ?thesis using assms(1) moved True by (cases x) (auto split: if_splits)
  next
    case False
    then show ?thesis using assms(1) j v
      by (auto simp: finish_job_def transaction_def comp_simps view_of_def)
  qed
qed

lemma dispatch_job_cases:
  assumes "dispatch_job env svc now i d = (r, d')" and "job_view i d = Some (Job_RUNNING, a, m)"
    and "services_ok svc"
  shows "(case r of Inl _ \<Rightarrow> moved i (Some (Job_RUNNING, a, m)) d d'
    | Inr _ \<Rightarrow> \<exists>s \<in> {Job_RUNNING, Job_SUCCEEDED, Job_CANCELLED}. moved i (Some (s, a, m)) d d')"
proof -
  obtain j where j: "get_job i d = Some j" and v: "view_of j = (Job_RUNNING, a, m)"
    using assms(2) by (auto simp: job_view_def)
  define body where "body = andthen (run_service env svc j) (\<lambda>_. finish_job env now i)"
  have run: "dispatch_job env svc now i d =
      (if bj_job_type j = ''AGENT_DIAGNOSIS'' then body d else transaction body d)"
    using j v by (simp add: dispatch_job_def comp_simps view_of_def body_def Let_def)
  have refl: "moved i (Some (Job_RUNNING, a, m)) d d"
    using moved_refl [of i d] assms(2) by simp
  obtain x d1 where svc: "run_service env svc j d = (x, d1)" by fastforce
  have same: "moved i (Some (Job_RUNNING, a, m)) d d1"
    by (rule moved_leave [OF refl run_service_leaves [OF assms(3)] svc])
  have body: "case fst (body d) of Inl _ \<Rightarrow> moved i (Some (Job_RUNNING, a, m)) d (snd (body d))
    | Inr _ \<Rightarrow> \<exists>s \<in> {Job_RUNNING, Job_SUCCEEDED, Job_CANCELLED}. moved i (Some (s, a, m)) d (snd (body d))"
  proof (cases x)
    case (Inl e)
    then show ?thesis using svc same by (simp add: body_def comp_simps)
  next
    case (Inr y)
    obtain z d2 where fin: "finish_job env now i d1 = (z, d2)" by fastforce
    have "job_view i d1 = Some (Job_RUNNING, a, m)" using same by (simp add: moved_def)
    from finish_job_cases [OF fin this] same
    show ?thesis using svc Inr fin
      by (auto simp: body_def comp_simps moved_def split: sum.split)
  qed
  obtain z d2 where bd: "body d = (z, d2)" by fastforce
  show ?thesis
    using run body assms(1) refl unfolding bd
    by (cases z) (auto simp: transaction_def bd split: if_splits)
qed

lemma record_failure_view:
  "bj_id (record_failure cfg u now err j) = bj_id j"
  "view_of (record_failure cfg u now err j) =
    (if is_transient_exn err \<and> bj_attempt_count j < bj_max_attempts j then Job_RETRY_WAIT
     else if is_transient_exn err then Job_DEAD_LETTER else Job_FAILED,
     bj_attempt_count j, bj_max_attempts j)"
  by (simp_all add: record_failure_def view_of_def Let_def)

lemma handle_failure_cases:
  assumes "handle_failure env cfg u now i err d = (r, d')" and "job_view i d = Some (Job_RUNNING, a, m)"
  shows "d' = d \<or> (\<exists>s \<in> {Job_RETRY_WAIT, Job_DEAD_LETTER, Job_FAILED}.
    job_move (Job_RUNNING, a, m) (s, a, m) \<and> moved i (Some (s, a, m)) d d'
    \<and> (s = Job_RETRY_WAIT \<longrightarrow> is_transient_exn err))"
proof (cases r)
  case (Inl e)
  then show ?thesis using assms(1) by (auto simp: handle_failure_def dest: transaction_rollback)
next
  case (Inr y)
  obtain j where j: "get_job i d = Some j" and v: "view_of j = (Job_RUNNING, a, m)"
    using assms(2) by (auto simp: job_view_def)
  then have am: "bj_attempt_count j = a" "bj_max_attempts j = m" by (simp_all add: view_of_def)
  let ?s = "if is_transient_exn err \<and> a < m then Job_RETRY_WAIT
     else if is_transient_exn err then Job_DEAD_LETTER else Job_FAILED"
  let ?tail = "if is_transient_exn err \<and> a < m then ret ()
    else andthen (mark_proposal_failed env (exn_code err) j)
      (\<lambda>_. fail_evaluation env now j (exn_code err))"
  have tail: "leaves_jobs ?tail"
    by (intro leaves_jobs_rules leaves_jobs_marks leaves_jobs_fail_evaluation)
  obtain z d1 where set: "set_job i (record_failure cfg u now err) d = (z, d1)" by fastforce
  have step: "z = Inr ()" "moved i (Some (?s, a, m)) d d1"
    using set_job_moved [OF _ j set] am by (auto simp: record_failure_view)
  have "?tail d1 = (Inr y, d')"
    using transaction_InrD [OF assms(1) [unfolded Inr handle_failure_def]] j am set step(1)
    by (simp add: andthen_apply)
  from moved_leave [OF step(2) tail this] have "moved i (Some (?s, a, m)) d d'" .
  moreover have "job_move (Job_RUNNING, a, m) (?s, a, m)" by (auto intro: job_move_intros)
  ultimately show ?thesis by (intro disjI2 bexI [of _ ?s]) auto
qed

lemma mark_cancelled_cases:
  assumes "mark_cancelled now i d = (r, d')" and "job_view i d = Some (s, a, m)"
  shows "moved i (Some (Job_CANCELLED, a, m)) d d'"
proof -
  obtain j where j: "get_job i d = Some j" and v: "view_of j = (s, a, m)"
    using assms(2) by (auto simp: job_view_def)
  let ?f = "\<lambda>j. j\<lparr>bj_status := Job_CANCELLED, bj_finished_at := Some now\<rparr>"
  obtain z d1 where set: "set_job i ?f d = (z, d1)" by fastforce
  have step: "z = Inr ()" "moved i (Some (Job_CANCELLED, a, m)) d d1"
    using set_job_moved [OF _ j set] v by (auto simp: view_of_def)
  have "db_background_jobs d' = db_background_jobs d1"
    using assms(1) j set step(1)
    by (auto simp: mark_cancelled_def andthen_apply split: option.splits)
  then show ?thesis using step(2) by (simp add: moved_def job_view_def get_job_def)
qed

text \<open>One delivery of a job moves it along the machine and leaves the other jobs alone.\<close>

lemma execute_job_moves:
  assumes "execute_job env cfg svc u now later i d = (r, d')" and "services_ok svc"
  shows "d' = d \<or> (\<exists>s0 a m s. job_view i d = Some (s0, a, m) \<and> s0 \<in> {Job_QUEUED, Job_RETRY_WAIT}
    \<and> job_move (Job_RUNNING, a + 1, m) (s, a + 1, m) \<and> moved i (Some (s, a + 1, m)) d d')"
proof -
  obtain c d1 where claim: "claim_job env now i d = (c, d1)" by fastforce
  from claim show ?thesis
  proof (cases rule: claim_job_cases)
    case none
    then show ?thesis using assms(1) claim
      by (auto simp: execute_job_def andthen_apply ret_apply split: sum.splits)
  next
    case (claimed j)
    let ?a = "bj_attempt_count j + 1" and ?m = "bj_max_attempts j"
    have view: "job_view i d1 = Some (Job_RUNNING, ?a, ?m)" using claimed(4) by (simp add: moved_def)
    obtain x d2 where disp: "dispatch_job env svc later i d1 = (x, d2)" by fastforce
    have join: "moved i v d d''" if "moved i v d1 d''" for v d''
      using that claimed(4) by (simp add: moved_def)
    have "\<exists>s. job_move (Job_RUNNING, ?a, ?m) (s, ?a, ?m) \<and> moved i (Some (s, ?a, ?m)) d1 d'"
    proof (cases x)
      case (Inr y)
      then have "d' = d2" using assms(1) claim claimed(1) disp
        by (simp add: execute_job_def andthen_apply handle_apply)
      then show ?thesis
        using dispatch_job_cases [OF disp view assms(2)] Inr
        by (auto intro: job_move_intros)
    next
      case (Inl e)
      have same: "moved i (Some (Job_RUNNING, ?a, ?m)) d1 d2"
        using dispatch_job_cases [OF disp view assms(2)] Inl by simp
      then have view2: "job_view i d2 = Some (Job_RUNNING, ?a, ?m)" by (simp add: moved_def)
      have trans: "moved i v d1 d''" if "moved i v d2 d''" for v d''
        using that same by (simp add: moved_def)
      have rest: "(if e = LeaseUnavailableErr \<or> e = StaleWorkerErr then ret ()
          else if e = RunCancelledErr then mark_cancelled later i
          else handle_failure env cfg u later i e) d2 = (r, d')"
        using assms(1) claim claimed(1) disp Inl
        by (simp add: execute_job_def andthen_apply handle_apply)
      show ?thesis
      proof (cases "e = LeaseUnavailableErr \<or> e = StaleWorkerErr \<or> e = RunCancelledErr")
        case True
        show ?thesis
        proof (cases "e = LeaseUnavailableErr \<or> e = StaleWorkerErr")
          case True
          then show ?thesis using rest same move_stay by auto
        next
          case False
          then have "mark_cancelled later i d2 = (r, d')" using rest True by simp
          from mark_cancelled_cases [OF this view2] show ?thesis
            using trans move_end [of Job_CANCELLED] by blast
        qed
      next
        case False
        then have fail: "handle_failure env cfg u later i e d2 = (r, d')" using rest by simp
        from handle_failure_cases [OF fail view2] show ?thesis
        proof (elim disjE bexE conjE)
          assume "d' = d2"
          then show ?thesis using same move_stay by blast
        next
          fix s
          assume "job_move (Job_RUNNING, ?a, ?m) (s, ?a, ?m)" "moved i (Some (s, ?a, ?m)) d2 d'"
          then show ?thesis using trans by blast
        qed
      qed
    qed
    then show ?thesis
      using claimed(2,3) join by (auto simp: job_view_def view_of_def)
  qed
qed

lemma reconcile_job_moved:
  assumes "reconcile_job env now j d = (r, d')" and "job_view (bj_id j) d = Some (view_of j)"
    and "bj_status j = Job_RUNNING"
  shows "\<exists>v'. job_move (view_of j) v' \<and> moved (bj_id j) (Some v') d d'"
proof -
  obtain k where k: "get_job (bj_id j) d = Some k" "view_of k = view_of j"
    using assms(2) by (auto simp: job_view_def)
  obtain z d1 where set: "set_job (bj_id j) (reconcile_row now) d = (z, d1)" by fastforce
  have step: "z = Inr ()" "moved (bj_id j) (Some (view_of (reconcile_row now k))) d d1"
    using set_job_moved [OF _ k(1) set] by (auto simp: reconcile_row_def)
  let ?tail = "if bj_max_attempts j \<le> bj_attempt_count j
      then mark_proposal_failed env ''STALE_JOB_EXHAUSTED'' j else ret ()"
  have "leaves_jobs ?tail" by (intro leaves_jobs_rules leaves_jobs_marks)
  moreover have "?tail d1 = (r, d')"
    using assms(1) set step(1) by (simp add: reconcile_job_def andthen_apply)
  ultimately have "moved (bj_id j) (Some (view_of (reconcile_row now k))) d d'"
    by (rule moved_leave [OF step(2)])
  moreover have "job_move (view_of j) (view_of (reconcile_row now k))"
    using k(2) assms(3) by (auto simp: view_of_def reconcile_row_def intro: job_move_intros)
  ultimately show ?thesis by blast
qed

lemma reconcile_jobs_moves:
  assumes "reconcile_jobs env cfg now js d = (Inr n, d')" and "distinct (map bj_id js)"
    and "\<And>j. j \<in> set js \<Longrightarrow> job_view (bj_id j) d = Some (view_of j) \<and> bj_status j = Job_RUNNING"
    and "job_view k d = Some v"
  shows "\<exists>v'. job_view k d' = Some v' \<and> job_move v v' \<and> (k \<notin> bj_id ` set js \<longrightarrow> v' = v)"
  using assms
proof (induction js arbitrary: d n v)
  case Nil
  then show ?case by (auto intro: move_stay)
next
  case (Cons j js)
  show ?case
  proof (cases "still_running cfg now d j")
    case True
    then show ?thesis
      using Cons.IH [of d n v] Cons.prems by (auto simp: andthen_apply)
  next
    case False
    obtain u d1 n' where b: "reconcile_job env now j d = (Inr u, d1)"
      and rest: "reconcile_jobs env cfg now js d1 = (Inr n', d')"
      using Cons.prems(1) False by (auto simp: andthen_apply ret_apply split: prod.splits sum.splits)
    obtain v1 where v1: "job_move (view_of j) v1" "moved (bj_id j) (Some v1) d d1"
      using reconcile_job_moved [OF b] Cons.prems(3) by auto
    have others: "job_view (bj_id x) d1 = Some (view_of x) \<and> bj_status x = Job_RUNNING" if "x \<in> set js" for x
      using that Cons.prems(2,3) v1(2) by (auto simp: moved_def image_iff)
    have dist: "distinct (map bj_id js)" using Cons.prems(2) by simp
    show ?thesis
    proof (cases "k = bj_id j")
      case False
      then have "job_view k d1 = Some v" using v1(2) Cons.prems(4) by (simp add: moved_def)
      from Cons.IH [OF rest dist others this] False show ?thesis by auto
    next
      case True
      then have "job_view k d1 = Some v1" using v1(2) by (simp add: moved_def)
      from Cons.IH [OF rest dist others this] True v1(1) Cons.prems(2,3,4) show ?thesis by auto
    qed
  qed
qed

lemma execute_job_ids:
  assumes "services_ok svc"
  shows "keeps_ids (execute_job env cfg svc u now later i)"
  unfolding execute_job_def claim_job_def dispatch_job_def finish_job_def handle_failure_def
    mark_cancelled_def Let_def
  by (intro keeps_ids_rules keeps_ids_option keeps_ids_set_job leaves_jobs_ids
      leaves_jobs_marks leaves_jobs_fail_evaluation run_service_leaves [OF assms] leaves_jobs_intros(7))
    (auto simp: record_failure_view split: option.split)

lemma reconcile_stale_jobs_ids: "keeps_ids (reconcile_stale_jobs env cfg now)"
proof -
  have one: "keeps_ids (reconcile_job env now j)" for j
    unfolding reconcile_job_def
    by (intro keeps_ids_rules keeps_ids_set_job leaves_jobs_ids leaves_jobs_marks)
      (simp add: reconcile_row_def)
  have "keeps_ids (reconcile_jobs env cfg now js)" for js
  proof (induction js)
    case (Cons j js)
    show ?case unfolding reconcile_jobs.simps by (intro keeps_ids_rules one Cons.IH)
  qed (simp add: keeps_ids_rules)
  then show ?thesis unfolding reconcile_stale_jobs_def by (intro keeps_ids_rules)
qed

text \<open>The sessions of the application that touch background jobs.\<close>

inductive job_step :: "app_env \<Rightarrow> settings \<Rightarrow> job_services \<Rightarrow> db \<Rightarrow> db \<Rightarrow> bool" for env cfg svc where
  step_create: "create_job env cfg now user job_type payload key d = (x, d') \<Longrightarrow> job_step env cfg svc d d'"
| step_dispatch: "dispatch_once env now d = (y, d') \<Longrightarrow> job_step env cfg svc d d'"
| step_execute: "execute_job env cfg svc u now later i d = (z, d') \<Longrightarrow> job_step env cfg svc d d'"
| step_reconcile: "reconcile_stale_jobs env cfg now d = (n, d') \<Longrightarrow> job_step env cfg svc d d'"
| step_expire: "expire_proposals now d = (n, d') \<Longrightarrow> job_step env cfg svc d d'"

lemma create_job_cases:
  assumes "create_job env cfg now user job_type payload key d = (r, d')"
  obtains (kept) "d' = d"
    | (created) j where "db_background_jobs d' = db_background_jobs d @ [j]"
      "bj_id j = fresh_id (job_ids d)" "view_of j = (Job_QUEUED, 0, cfg_job_max_attempts cfg)"
proof (cases "find (job_keyed user job_type key) (db_background_jobs d)")
  case (Some j)
  then show ?thesis using assms kept
    by (auto simp: create_job_def transaction_def comp_simps app_error_def split: if_splits)
next
  case None
  then show ?thesis
    using assms created [of "new_job cfg now (fresh_id (job_ids d)) user job_type payload key"]
    by (auto simp: create_job_def transaction_def comp_simps add_event_def new_job_def view_of_def job_ids_def)
qed

lemma get_job_append:
  "db_background_jobs d' = db_background_jobs d @ [j] \<Longrightarrow>
    get_job k d' = (case get_job k d of None \<Rightarrow> if bj_id j = k then Some j else None | Some x \<Rightarrow> Some x)"
  by (auto simp: get_job_def find_append split: option.split)

lemma job_view_update_rows:
  assumes "\<And>j. bj_id (f j) = bj_id j" and "\<And>j. view_of (f j) = view_of j"
  shows "job_view k (d\<lparr>db_background_jobs := update_rows P f (db_background_jobs d)\<rparr>) = job_view k d"
  by (simp add: job_view_def get_job_def find_update_rows assms option.map_comp comp_def
      if_distrib cong: if_cong)

text \<open>A step moves every job along the machine; a job that it adds is queued and unattempted.\<close>

definition steps_to :: "settings \<Rightarrow> job_view option \<Rightarrow> job_view option \<Rightarrow> bool" where
  "steps_to cfg x y \<longleftrightarrow> (case x of
     Some v \<Rightarrow> (\<exists>v'. y = Some v' \<and> job_move\<^sup>*\<^sup>* v v')
   | None \<Rightarrow> y = None \<or> y = Some (Job_QUEUED, 0, cfg_job_max_attempts cfg))"

lemma steps_to_refl [simp]: "steps_to cfg x x"
  by (auto simp: steps_to_def split: option.split)

lemma job_step_moves:
  assumes "job_step env cfg svc d d'" and "services_ok svc" and "distinct (job_ids d)"
  shows "distinct (job_ids d') \<and> (\<forall>k. steps_to cfg (job_view k d) (job_view k d'))"
  using assms(1)
proof (cases rule: job_step.cases)
  case (step_create now user job_type payload key x)
  from step_create show ?thesis
  proof (cases rule: create_job_cases)
    case kept
    then show ?thesis using assms(3) by simp
  next
    case (created j)
    have "steps_to cfg (job_view k d) (job_view k d')" for k
      using created(3) get_job_append [OF created(1), of k]
      by (auto simp: job_view_def steps_to_def split: option.split)
    then show ?thesis using assms(3) created(1,2) by (simp add: job_ids_def)
  qed
next
  case (step_dispatch now y)
  have "job_view k d' = job_view k d" for k
    using step_dispatch
    by (auto simp: dispatch_once_def andthen_apply ret_apply view_of_def job_view_update_rows)
  moreover have "job_ids d' = job_ids d"
    using step_dispatch by (auto simp: dispatch_once_def andthen_apply ret_apply job_ids_def map_update_rows)
  ultimately show ?thesis using assms(3) by simp
next
  case (step_execute u now later i z)
  have ids: "job_ids d' = job_ids d"
    by (rule keeps_idsD [OF execute_job_ids [OF assms(2)] step_execute])
  have "steps_to cfg (job_view k d) (job_view k d')" for k
    using execute_job_moves [OF step_execute assms(2)]
  proof (elim disjE exE conjE)
    fix s0 a m s
    assume "job_view i d = Some (s0, a, m)" "s0 \<in> {Job_QUEUED, Job_RETRY_WAIT}"
      "job_move (Job_RUNNING, a + 1, m) (s, a + 1, m)" "moved i (Some (s, a + 1, m)) d d'"
    moreover then have "job_move\<^sup>*\<^sup>* (s0, a, m) (s, a + 1, m)"
      by (meson move_claim converse_rtranclp_into_rtranclp r_into_rtranclp)
    ultimately show ?thesis by (cases "k = i") (auto simp: steps_to_def moved_def split: option.split)
  qed simp
  then show ?thesis using ids assms(3) by simp
next
  case (step_reconcile now n)
  have ids: "job_ids d' = job_ids d"
    by (rule keeps_idsD [OF reconcile_stale_jobs_ids step_reconcile])
  have "steps_to cfg (job_view k d) (job_view k d')" for k
  proof (cases n)
    case (Inl e)
    then show ?thesis using step_reconcile by (auto simp: reconcile_stale_jobs_def dest: transaction_rollback)
  next
    case (Inr c)
    let ?js = "filter (\<lambda>j. bj_status j = Job_RUNNING
        \<and> (\<exists>t. bj_started_at j = Some t \<and> t < now - cfg_job_reconciliation_seconds cfg)) (db_background_jobs d)"
    have run: "reconcile_jobs env cfg now ?js d = (Inr c, d')"
      using transaction_InrD [OF step_reconcile [unfolded reconcile_stale_jobs_def Inr]]
      by (simp add: andthen_apply)
    have dist: "distinct (map bj_id ?js)" using assms(3) by (simp add: job_ids_def distinct_map_filter)
    have found: "job_view (bj_id j) d = Some (view_of j) \<and> bj_status j = Job_RUNNING" if "j \<in> set ?js" for j
      using that assms(3) find_row_by_id [of bj_id "db_background_jobs d" j]
      by (auto simp: job_view_def get_job_def job_ids_def)
    show ?thesis
    proof (cases "job_view k d")
      case None
      then have "k \<notin> set (job_ids d)"
        by (auto simp: job_view_def get_job_def find_None job_ids_def)
      then have "job_view k d' = None"
        unfolding ids [symmetric] by (auto simp: job_view_def get_job_def find_None job_ids_def)
      then show ?thesis using None by simp
    next
      case (Some v)
      from reconcile_jobs_moves [OF run dist found Some] show ?thesis
        using Some by (auto simp: steps_to_def)
    qed
  qed
  then show ?thesis using ids assms(3) by simp
next
  case (step_expire now n)
  then have "db_background_jobs d' = db_background_jobs d"
    by (auto simp: expire_proposals_def andthen_apply ret_apply)
  then show ?thesis using assms(3) by (simp add: job_view_def get_job_def job_ids_def)
qed

text \<open>Reachable databases, starting without jobs.\<close>

inductive job_reachable :: "app_env \<Rightarrow> settings \<Rightarrow> job_services \<Rightarrow> db \<Rightarrow> bool" for env cfg svc where
  jobs_start: "db_background_jobs d = [] \<Longrightarrow> job_reachable env cfg svc d"
| jobs_step: "job_reachable env cfg svc d \<Longrightarrow> job_step env cfg svc d d' \<Longrightarrow> job_reachable env cfg svc d'"

definition view_ok :: "job_view \<Rightarrow> bool" where
  "view_ok v = (case v of (s, a, m) \<Rightarrow> 0 \<le> a \<and> a \<le> m \<and> (s \<in> {Job_QUEUED, Job_RETRY_WAIT} \<longrightarrow> a < m))"

lemma job_move_ok: "job_move v v' \<Longrightarrow> view_ok v \<Longrightarrow> view_ok v'"
  by (induction rule: job_move.induct) (auto simp: view_ok_def)

lemma job_moves_ok: "job_move\<^sup>*\<^sup>* v v' \<Longrightarrow> view_ok v \<Longrightarrow> view_ok v'"
  by (induction rule: rtranclp_induct) (auto intro: job_move_ok)

lemma job_move_terminal: "job_move (s, a, m) v' \<Longrightarrow> s \<in> terminal_job_statuses \<Longrightarrow> v' = (s, a, m)"
  by (auto simp: terminal_job_statuses_def elim: job_moveE)

lemma job_moves_terminal: "job_move\<^sup>*\<^sup>* (s, a, m) v' \<Longrightarrow> s \<in> terminal_job_statuses \<Longrightarrow> v' = (s, a, m)"
  by (induction rule: rtranclp_induct) (auto dest: job_move_terminal)

lemma job_reachable_inv:
  assumes "job_reachable env cfg svc d" and "services_ok svc" and "1 \<le> cfg_job_max_attempts cfg"
  shows "distinct (job_ids d) \<and> (\<forall>k v. job_view k d = Some v \<longrightarrow> view_ok v)"
  using assms(1)
proof (induction rule: job_reachable.induct)
  case (jobs_start d)
  then show ?case by (simp add: job_ids_def job_view_def get_job_def)
next
  case (jobs_step d d')
  have dist: "distinct (job_ids d)" and ok: "\<And>k v. job_view k d = Some v \<Longrightarrow> view_ok v"
    using jobs_step.IH by auto
  have "view_ok v'" if "job_view k d' = Some v'" for k v'
  proof -
    have "steps_to cfg (job_view k d) (Some v')"
      using job_step_moves [OF jobs_step.hyps(2) assms(2) dist] that by metis
    then show ?thesis
      using ok [of k] assms(3)
      by (auto simp: steps_to_def view_ok_def dest: job_moves_ok split: option.splits)
  qed
  then show ?case using job_step_moves [OF jobs_step.hyps(2) assms(2) dist] by blast
qed

lemma terminal_job_stays:
  assumes "job_step env cfg svc d d'" and "services_ok svc" and "distinct (job_ids d)"
    and "job_view k d = Some (s, a, m)" and "s \<in> terminal_job_statuses"
  shows "job_view k d' = Some (s, a, m)"
proof -
  have "steps_to cfg (Some (s, a, m)) (job_view k d')"
    using job_step_moves [OF assms(1-3)] assms(4) by metis
  then show ?thesis using assms(5) by (auto simp: steps_to_def dest: job_moves_terminal)
qed

end
