(* ===== verification/Learning_Tools.thy ===== *)
theory Learning_Tools
  imports Jobs Harness_Db_Ledger
begin

text \<open>
  The agent's tools, \<^verbatim>\<open>app/infrastructure/adapters/learning_tools.py\<close>: the read tools, the
  proposal handlers with their reconcilers, the registry of a run, and the deterministic application
  of a minor adjustment to one plan task.

  \<open>lt\<close> is the closure of \<open>build_learning_tool_registry\<close>: run, student and fencing token. The JSON
  schemas that pydantic generates are the parameter \<open>lt_schema\<close>.
\<close>

record learning_tools =
  lt_env :: app_env
  lt_run_id :: uuid
  lt_student_id :: uuid
  lt_fencing_token :: int
  lt_schema :: "string \<Rightarrow> json"

subsection \<open>Argument models\<close>

definition strict_int :: "json \<Rightarrow> int option" where
  "strict_int j = (case j of JInt i \<Rightarrow> Some i | _ \<Rightarrow> None)"

definition search_recent_attempts_args :: "jobj \<Rightarrow> jobj option" where
  "search_recent_attempts_args d =
    (if \<not> only_keys [''limit''] d then None
     else map_option (\<lambda>n. [(''limit'', JInt n)])
       (optional d ''limit'' (checked (\<lambda>n. 1 \<le> n \<and> n \<le> 20) strict_int) 10))"

definition empty_args :: "jobj \<Rightarrow> jobj option" where
  "empty_args d = (if d = [] then Some [] else None)"

definition proposal_args :: "jobj \<Rightarrow> jobj option" where
  "proposal_args d =
    (if \<not> only_keys [''reason_codes'', ''confidence'', ''adjustment_factor''] d then None
     else case (need d ''reason_codes'' (checked (length_between 1 16) (read_list strict_str)),
                need d ''confidence'' (checked in_unit strict_float),
                optional d ''adjustment_factor''
                  (checked (\<lambda>x. 75 / 100 \<le> x \<and> x \<le> 125 / 100) strict_float) (8 / 10)) of
       (Some codes, Some conf, Some factor) \<Rightarrow>
         Some [(''reason_codes'', JList (map JStr codes)), (''confidence'', JFloat conf),
               (''adjustment_factor'', JFloat factor)]
     | _ \<Rightarrow> None)"

subsection \<open>Read tools\<close>

definition search_recent_attempts :: "learning_tools \<Rightarrow> jobj \<Rightarrow> time \<Rightarrow> json db_comp" where
  "search_recent_attempts lt args now =
    andthen (lift_result (json_int (lt_env lt) (dict_get args ''limit'' (JInt 10)))) (\<lambda>n.
    andthen (gets (\<lambda>d. take (nat (min (max n 1) 20)) (sort_key (\<lambda>a. - qa_created_at a)
        (filter (\<lambda>a. qa_student_id a = lt_student_id lt) (db_question_attempts d))))) (\<lambda>attempts.
    ret (JObj
      [(''attempt_ids'', JList (map (\<lambda>a. JStr (ae_uuid_str (lt_env lt) (qa_id a))) attempts)),
       (''attempts'', JList (map (\<lambda>a. JObj
          [(''question_id'', JStr (ae_uuid_str (lt_env lt) (qa_question_id a))),
           (''score_ratio'', JFloat (qa_score_ratio a)),
           (''duration_seconds'', JInt (qa_actual_duration_seconds a)),
           (''looked_at_solution'', JBool (qa_looked_at_solution a))]) attempts))])))"

definition get_knowledge_states :: "learning_tools \<Rightarrow> jobj \<Rightarrow> time \<Rightarrow> json db_comp" where
  "get_knowledge_states lt args now =
    andthen (gets (\<lambda>d. filter (\<lambda>s. ks_student_id s = lt_student_id lt) (db_student_knowledge_states d)))
      (\<lambda>states. ret (JObj [(''states'', JList (map (\<lambda>s. JObj
         [(''knowledge_id'', JStr (ae_uuid_str (lt_env lt) (ks_knowledge_id s))),
          (''mastery'', JFloat (ks_mastery_score s)), (''confidence'', JFloat (ks_confidence s)),
          (''evidence_count'', JInt (ks_evidence_count s))]) states))]))"

definition get_student :: "uuid \<Rightarrow> db \<Rightarrow> student_row option" where
  "get_student i d = find (\<lambda>s. stu_id s = i) (db_students d)"

definition get_school_stats :: "learning_tools \<Rightarrow> jobj \<Rightarrow> time \<Rightarrow> json db_comp" where
  "get_school_stats lt args now =
    andthen (gets (\<lambda>d. case get_student (lt_student_id lt) d of
        None \<Rightarrow> []
      | Some s \<Rightarrow> (case stu_target_school_id s of
          None \<Rightarrow> []
        | Some school \<Rightarrow> filter (\<lambda>k. sks_school_profile_id k = school) (db_school_knowledge_stats d))))
      (\<lambda>stats. ret (JObj [(''stats'', JList (map (\<lambda>k. JObj
         [(''knowledge_id'', JStr (ae_uuid_str (lt_env lt) (sks_knowledge_id k))),
          (''weight'', JFloat (sks_normalized_weight k)), (''trend'', JStr (sks_trend k))]) stats))]))"

subsection \<open>Proposals\<close>

text \<open>The plan of a task belongs to the student.\<close>

definition owns_plan :: "uuid \<Rightarrow> uuid \<Rightarrow> db \<Rightarrow> bool" where
  "owns_plan student plan d \<longleftrightarrow>
     list_ex (\<lambda>p. wp_id p = plan \<and> wp_student_id p = student) (db_weekly_plans d)"

definition owned_attempts :: "uuid \<Rightarrow> uuid list \<Rightarrow> db \<Rightarrow> question_attempt_row list" where
  "owned_attempts student ids d =
    filter (\<lambda>a. qa_student_id a = student \<and> qa_id a \<in> set ids) (db_question_attempts d)"

definition owned_tasks :: "uuid \<Rightarrow> uuid list \<Rightarrow> db \<Rightarrow> plan_task_row list" where
  "owned_tasks student ids d =
    filter (\<lambda>t. owns_plan student (pt_plan_id t) d \<and> pt_id t \<in> set ids) (db_plan_tasks d)"

definition attempt_evidence :: "app_env \<Rightarrow> question_attempt_row \<Rightarrow> jobj" where
  "attempt_evidence env a = [(''evidence_type'', JStr ''QUESTION_ATTEMPT''),
     (''source_id'', JStr (ae_uuid_str env (qa_id a))),
     (''version'', JStr (ae_isoformat env (qa_created_at a)))]"

definition task_evidence :: "app_env \<Rightarrow> plan_task_row \<Rightarrow> jobj" where
  "task_evidence env t = [(''evidence_type'', JStr ''PLAN_TASK''),
     (''source_id'', JStr (ae_uuid_str env (pt_id t))),
     (''version'', JStr (show_int (pt_version t)))]"

definition proposal_keyed :: "uuid \<Rightarrow> string \<Rightarrow> proposal_row \<Rightarrow> bool" where
  "proposal_keyed run key p \<longleftrightarrow> pr_run_id p = run \<and> pr_idempotency_key p = key"

definition proposal_answer :: "app_env \<Rightarrow> proposal_row \<Rightarrow> jobj" where
  "proposal_answer env p = [(''proposal_id'', JStr (ae_uuid_str env (pr_id p))),
     (''status'', JStr (proposal_status_value (pr_status p)))]"

text \<open>\<open>[str(item) for item in arguments.get(key, [])]\<close>.\<close>

definition str_items :: "app_env \<Rightarrow> jobj \<Rightarrow> string \<Rightarrow> exn + string list" where
  "str_items env args key = map_sum id (map (json_str env)) (json_iter (dict_get args key (JList [])))"

fun parse_uuids :: "app_env \<Rightarrow> string list \<Rightarrow> exn + uuid list" where
  "parse_uuids env [] = Inr []"
| "parse_uuids env (s # ss) = (case ae_uuid_of env s of
     None \<Rightarrow> Inl (PyExc ''ValueError'') | Some u \<Rightarrow> map_sum id ((#) u) (parse_uuids env ss))"

definition new_proposal ::
  "learning_tools \<Rightarrow> time \<Rightarrow> uuid \<Rightarrow> proposal_type \<Rightarrow> string \<Rightarrow> string list \<Rightarrow> jobj list
   \<Rightarrow> string list \<Rightarrow> pyfloat \<Rightarrow> pyfloat \<Rightarrow> proposal_row" where
  "new_proposal lt now i ptype key refs snapshot codes confidence factor =
    \<lparr>pr_id = i, pr_run_id = lt_run_id lt, pr_student_id = lt_student_id lt, pr_proposal_type = ptype,
     pr_status = (if ptype = PT_MINOR_ADJUST then Prop_PENDING else Prop_AWAITING_CONFIRMATION),
     pr_payload = [(''adjustment_factor'', JFloat factor)], pr_reason_codes = codes,
     pr_confidence = confidence, pr_evidence_refs = refs, pr_evidence_snapshot = snapshot,
     pr_idempotency_key = key, pr_decided_at = None,
     pr_approval_expires_at = (if ptype \<noteq> PT_MINOR_ADJUST then Some (now + days 7) else None),
     pr_reviewer_user_id = None, pr_review_reason = None, pr_applied_at = None,
     pr_apply_error_code = None, pr_version = 1, pr_created_at = now\<rparr>"

text \<open>The insertion: evidence that does not belong to the student is refused.\<close>

definition insert_proposal ::
  "learning_tools \<Rightarrow> time \<Rightarrow> proposal_type \<Rightarrow> string \<Rightarrow> jobj \<Rightarrow> string list \<Rightarrow> uuid list \<Rightarrow> proposal_row db_comp" where
  "insert_proposal lt now ptype key args refs ids =
    andthen (gets (owned_attempts (lt_student_id lt) ids)) (\<lambda>attempts.
    andthen (gets (owned_tasks (lt_student_id lt) ids)) (\<lambda>tasks.
      if set (map qa_id attempts) \<union> set (map pt_id tasks) \<noteq> set ids
      then app_error 422 ''PROPOSAL_EVIDENCE_INVALID''
      else
        andthen (lift_result (json_float (lt_env lt) (dict_get args ''adjustment_factor'' (JFloat (8 / 10)))))
          (\<lambda>factor.
        andthen (lift_result (str_items (lt_env lt) args ''reason_codes'')) (\<lambda>codes.
        andthen (lift_result (json_float (lt_env lt) (dict_get args ''confidence'' (JInt 0)))) (\<lambda>conf.
        andthen (gets (\<lambda>d. new_proposal lt now (fresh_id (map pr_id (db_proposals d))) ptype key refs
           (map (attempt_evidence (lt_env lt)) attempts @ map (task_evidence (lt_env lt)) tasks)
           codes conf factor)) (\<lambda>p.
        andthen (modify (\<lambda>d. d\<lparr>db_proposals := db_proposals d @ [p]\<rparr>)) (\<lambda>_. ret p)))))))"

definition propose :: "learning_tools \<Rightarrow> proposal_type \<Rightarrow> jobj \<Rightarrow> time \<Rightarrow> json db_comp" where
  "propose lt ptype arguments now =
    (case map_of arguments ''_idempotency_key'' of
       None \<Rightarrow> throw (PyExc ''KeyError'')
     | Some k \<Rightarrow>
         (let key = json_str (lt_env lt) k; args = AList.delete ''_idempotency_key'' arguments in
          transaction
            (andthen (assert_fence (lt_run_id lt) (lt_fencing_token lt) None now) (\<lambda>_.
             andthen (gets (\<lambda>d. find (proposal_keyed (lt_run_id lt) key) (db_proposals d))) (\<lambda>existing.
               case existing of
                 Some p \<Rightarrow> ret (JObj (proposal_answer (lt_env lt) p))
               | None \<Rightarrow>
                   andthen (lift_result (str_items (lt_env lt) args ''evidence_refs'')) (\<lambda>refs.
                     if refs = [] then app_error 422 ''PROPOSAL_EVIDENCE_REQUIRED''
                     else
                       andthen (lift_result (parse_uuids (lt_env lt) refs)) (\<lambda>ids.
                       andthen (insert_proposal lt now ptype key args refs ids) (\<lambda>p.
                       ret (JObj (proposal_answer (lt_env lt) p))))))))))"

definition reconcile_proposal :: "learning_tools \<Rightarrow> proposal_type \<Rightarrow> jobj \<Rightarrow> time \<Rightarrow> jobj option db_comp" where
  "reconcile_proposal lt ptype arguments now =
    (case map_of arguments ''_idempotency_key'' of
       None \<Rightarrow> throw (PyExc ''KeyError'')
     | Some k \<Rightarrow>
         andthen (gets (\<lambda>d. find (\<lambda>p. proposal_keyed (lt_run_id lt) (json_str (lt_env lt) k) p
                   \<and> pr_proposal_type p = ptype) (db_proposals d))) (\<lambda>existing.
         ret (map_option (proposal_answer (lt_env lt)) existing)))"

subsection \<open>The registry\<close>

definition read_tool ::
  "learning_tools \<Rightarrow> string \<Rightarrow> string \<Rightarrow> json \<Rightarrow> (jobj \<Rightarrow> time \<Rightarrow> json db_comp)
   \<Rightarrow> (jobj \<Rightarrow> jobj option) \<Rightarrow> db_world tool_definition" where
  "read_tool lt name description schema handler dump =
    \<lparr>td_name = name, td_description = description, td_input_schema = schema,
     td_handler = (\<lambda>args. timed (handler args)), td_risk = Risk_READ, td_version = ''v1'',
     td_timeout_seconds = 10, td_retry_policy = default_retry_policy,
     td_args_model = Some \<lparr>am_dump = dump, am_schema = lt_schema lt name\<rparr>,
     td_side_effect_level = Effect_NONE, td_idempotency_required = False,
     td_required_permissions = [''student:evidence:read''], td_requires_confirmation = False,
     td_reconcile_handler = None, td_enabled_environments = [], td_feature_flag = None,
     td_minimum_role = None, td_terminal_decision = None\<rparr>"

definition proposal_schema :: json where
  "proposal_schema = JObj [(''type'', JStr ''object''), (''properties'', JObj
     [(''reason_codes'', JObj [(''type'', JStr ''array''), (''items'', JObj [(''type'', JStr ''string'')])]),
      (''confidence'', JObj [(''type'', JStr ''number'')]),
      (''evidence_refs'', JObj [(''type'', JStr ''array''), (''items'', JObj [(''type'', JStr ''string'')])]),
      (''adjustment_factor'', JObj [(''type'', JStr ''number'')])]),
     (''required'', JList [JStr ''reason_codes'', JStr ''confidence'', JStr ''evidence_refs''])]"

definition proposal_tool :: "learning_tools \<Rightarrow> string \<Rightarrow> proposal_type \<Rightarrow> db_world tool_definition" where
  "proposal_tool lt name ptype =
    \<lparr>td_name = name,
     td_description = ''Create one guarded proposal only after owned evidence has been collected.'',
     td_input_schema = proposal_schema,
     td_handler = (\<lambda>args. timed (propose lt ptype args)), td_risk = Risk_PROPOSAL,
     td_version = ''v1'', td_timeout_seconds = 10,
     td_retry_policy = default_retry_policy\<lparr>rp_max_attempts := 2\<rparr>,
     td_args_model = Some \<lparr>am_dump = proposal_args, am_schema = lt_schema lt name\<rparr>,
     td_side_effect_level = Effect_IDEMPOTENT_WRITE, td_idempotency_required = True,
     td_required_permissions = [''student:proposal:create''],
     td_requires_confirmation = (ptype \<noteq> PT_MINOR_ADJUST),
     td_reconcile_handler = Some (\<lambda>args. timed (reconcile_proposal lt ptype args)),
     td_enabled_environments = [],
     td_feature_flag = (if ptype = PT_STAGE_TRANSITION then Some ''agent-stage-transition'' else None),
     td_minimum_role = None, td_terminal_decision = Some (proposal_type_value ptype)\<rparr>"

definition learning_tool_list :: "learning_tools \<Rightarrow> db_world tool_definition list" where
  "learning_tool_list lt =
    [read_tool lt ''search_recent_attempts''
       ''Feedback diagnosis must call this first. Read recent attempts owned by the student.''
       (JObj [(''type'', JStr ''object''), (''properties'', JObj [(''limit'', JObj
          [(''type'', JStr ''integer''), (''minimum'', JInt 1), (''maximum'', JInt 20)])])])
       (search_recent_attempts lt) search_recent_attempts_args,
     read_tool lt ''get_student_knowledge_states''
       ''After recent attempts, optionally read mastery when it changes the diagnosis.''
       (JObj [(''type'', JStr ''object''), (''properties'', JObj [])])
       (get_knowledge_states lt) empty_args,
     read_tool lt ''get_school_knowledge_stats''
       ''After recent attempts, optionally read school weight for major replanning.''
       (JObj [(''type'', JStr ''object''), (''properties'', JObj [])])
       (get_school_stats lt) empty_args,
     proposal_tool lt ''propose_minor_adjustment'' PT_MINOR_ADJUST,
     proposal_tool lt ''propose_major_replan'' PT_MAJOR_REPLAN,
     proposal_tool lt ''propose_stage_transition'' PT_STAGE_TRANSITION]"

definition build_learning_tool_registry :: "learning_tools \<Rightarrow> exn + db_world tool_registry" where
  "build_learning_tool_registry lt = register_all (learning_tool_list lt) []"

lemma proposal_type_value_nonempty [simp]: "proposal_type_value p \<noteq> []"
  by (cases p) auto

lemma build_registry:
  "build_learning_tool_registry lt = Inr (map (\<lambda>d. (td_name d, d)) (learning_tool_list lt))"
  by (simp add: build_learning_tool_registry_def learning_tool_list_def register_def read_tool_def
      proposal_tool_def)

subsection \<open>Applying a minor adjustment\<close>

definition set_task :: "uuid \<Rightarrow> (plan_task_row \<Rightarrow> plan_task_row) \<Rightarrow> unit db_comp" where
  "set_task i f = modify (\<lambda>d. d\<lparr>db_plan_tasks := update_rows (\<lambda>t. pt_id t = i) f (db_plan_tasks d)\<rparr>)"

text \<open>\<open>_task_day_capacity\<close>.\<close>

definition task_day_capacity :: "uuid \<Rightarrow> date \<Rightarrow> db \<Rightarrow> int" where
  "task_day_capacity student day d =
    (case find (\<lambda>a. sa_student_id a = student \<and> sa_available_date a = day) (db_student_availability d) of
       Some a \<Rightarrow> sa_available_minutes a
     | None \<Rightarrow>
         (case find (\<lambda>t. sat_student_id t = student \<and> sat_weekday t = weekday day)
                 (db_student_availability_templates d) of
            Some t \<Rightarrow> sat_available_minutes t
          | None \<Rightarrow> 120))"

text \<open>The task that the run's job was about, when it is a current task of the student.\<close>

definition payload_task_id :: "app_env \<Rightarrow> proposal_row \<Rightarrow> db \<Rightarrow> exn + uuid option" where
  "payload_task_id env p d =
    (case find (\<lambda>r. ag_id r = pr_run_id p) (db_agent_runs d) of
       None \<Rightarrow> Inr None
     | Some run \<Rightarrow> (case get_job (ag_job_id run) d of
         None \<Rightarrow> Inr None
       | Some job \<Rightarrow> (case dict_get (bj_payload job) ''task_id'' JNull of
           JNull \<Rightarrow> Inr None
         | JStr s \<Rightarrow> (case ae_uuid_of env s of
             None \<Rightarrow> Inl (PyExc ''DBAPIError'') | Some u \<Rightarrow> Inr (Some u))
         | _ \<Rightarrow> Inl (PyExc ''DBAPIError''))))"

definition source_task :: "proposal_row \<Rightarrow> uuid option \<Rightarrow> db \<Rightarrow> plan_task_row option" where
  "source_task p task_id d = find (\<lambda>t. Some (pt_id t) = task_id
     \<and> owns_plan (pr_student_id p) (pt_plan_id t) d \<and> pt_origin t \<noteq> Origin_LEGACY) (db_plan_tasks d)"

definition task_knowledge :: "uuid \<Rightarrow> db \<Rightarrow> uuid option" where
  "task_knowledge i d = map_option ptk_knowledge_id
     (find (\<lambda>k. ptk_task_id k = i) (db_plan_task_knowledge d))"

text \<open>The snapshot's version of the source task, \<open>None\<close> when it has no snapshot.\<close>

definition snapshot_version :: "app_env \<Rightarrow> proposal_row \<Rightarrow> plan_task_row \<Rightarrow> json option" where
  "snapshot_version env p t =
    map_option (\<lambda>s. dict_get s ''version'' JNull)
      (find (\<lambda>s. map_of s ''evidence_type'' = Some (JStr ''PLAN_TASK'')
         \<and> map_of s ''source_id'' = Some (JStr (ae_uuid_str env (pt_id t)))) (pr_evidence_snapshot p))"

definition eligible_task :: "proposal_row \<Rightarrow> plan_task_row \<Rightarrow> uuid \<Rightarrow> date \<Rightarrow> db \<Rightarrow> plan_task_row option" where
  "eligible_task p src knowledge today d =
    (case sort_key pt_task_date (sort_key pt_sequence (filter (\<lambda>t.
        owns_plan (pr_student_id p) (pt_plan_id t) d \<and> pt_plan_id t = pt_plan_id src
        \<and> pt_id t \<noteq> pt_id src \<and> pt_task_type t = pt_task_type src
        \<and> list_ex (\<lambda>k. ptk_task_id k = pt_id t \<and> ptk_knowledge_id k = knowledge) (db_plan_task_knowledge d)
        \<and> pt_status t = Task_PENDING \<and> pt_origin t \<noteq> Origin_LEGACY \<and> today \<le> pt_task_date t)
        (db_plan_tasks d))) of
      [] \<Rightarrow> None | t # _ \<Rightarrow> Some t)"

definition counted :: "uuid \<Rightarrow> date \<Rightarrow> plan_task_row \<Rightarrow> bool" where
  "counted plan day t \<longleftrightarrow> pt_plan_id t = plan \<and> pt_task_date t = day \<and> pt_status t = Task_PENDING
     \<and> pt_origin t \<noteq> Origin_LEGACY"

definition day_total :: "uuid \<Rightarrow> date \<Rightarrow> db \<Rightarrow> int" where
  "day_total plan day d = sum_of pt_effective_minutes (filter (counted plan day) (db_plan_tasks d))"

definition adjusted_task :: "bool \<Rightarrow> int \<Rightarrow> pyfloat \<Rightarrow> plan_task_row \<Rightarrow> plan_task_row" where
  "adjusted_task manual adjusted factor t = t\<lparr>pt_system_suggested_minutes := adjusted,
     pt_effective_minutes := adjusted, pt_estimated_min_minutes := adjusted,
     pt_estimated_max_minutes := adjusted,
     pt_planned_units := (case pt_planned_units t of None \<Rightarrow> None
        | Some n \<Rightarrow> if n = 0 then Some n else Some (max 1 (py_round (of_int n * factor)))),
     pt_origin := Origin_AGENT,
     pt_modified_reason := Some (if manual then ''student-approved duration calibration''
        else ''automatic duration calibration from feedback''),
     pt_version := pt_version t + 1\<rparr>"

text \<open>Refusing the application for a reason.\<close>

definition refused_row :: "bool \<Rightarrow> string \<Rightarrow> proposal_row \<Rightarrow> proposal_row" where
  "refused_row manual code p = p\<lparr>
     pr_status := (if manual then Prop_APPLY_FAILED else Prop_AWAITING_CONFIRMATION),
     pr_apply_error_code := Some code\<rparr>"

definition refuse_minor :: "bool \<Rightarrow> proposal_row \<Rightarrow> string \<Rightarrow> unit db_comp" where
  "refuse_minor manual p code = set_proposal (pr_id p) (refused_row manual code)"

definition applied_row :: "bool \<Rightarrow> time \<Rightarrow> proposal_row \<Rightarrow> proposal_row" where
  "applied_row manual now p = p\<lparr>pr_status := (if manual then Prop_APPLIED else Prop_AUTO_COMMITTED),
     pr_applied_at := Some now, pr_apply_error_code := None, pr_decided_at := Some now\<rparr>"

definition postponed_row :: "time \<Rightarrow> proposal_row \<Rightarrow> proposal_row" where
  "postponed_row now p = p\<lparr>pr_status := Prop_AWAITING_CONFIRMATION,
     pr_approval_expires_at := Some (now + days 7)\<rparr>"

definition clamp_factor :: "pyfloat \<Rightarrow> pyfloat" where
  "clamp_factor x = min (125 / 100) (max (75 / 100) x)"

definition calibrate_task ::
  "app_env \<Rightarrow> time \<Rightarrow> bool \<Rightarrow> proposal_row \<Rightarrow> plan_task_row \<Rightarrow> unit db_comp" where
  "calibrate_task env now manual p t =
    andthen (lift_result (json_float env (dict_get (pr_payload p) ''adjustment_factor'' (JFloat (8 / 10)))))
      (\<lambda>raw. let factor = clamp_factor raw;
          adjusted = max 1 (py_round (of_int (pt_effective_minutes t) * factor)) in
    andthen (gets (\<lambda>d. task_day_capacity (pr_student_id p) (pt_task_date t) d
        < day_total (pt_plan_id t) (pt_task_date t) d - pt_effective_minutes t + adjusted)) (\<lambda>over.
      if over then refuse_minor manual p ''PLAN_CAPACITY_EXCEEDED''
      else
        andthen (set_task (pt_id t) (adjusted_task manual adjusted factor)) (\<lambda>_.
        set_proposal (pr_id p) (applied_row manual now))))"

text \<open>\<open>_apply_minor_proposal\<close>.\<close>

definition apply_minor :: "app_env \<Rightarrow> time \<Rightarrow> date \<Rightarrow> bool \<Rightarrow> proposal_row \<Rightarrow> unit db_comp" where
  "apply_minor env now today manual p =
    (if pr_evidence_refs p = [] \<or> (pr_confidence p < 75 / 100 \<and> \<not> manual) then
       set_proposal (pr_id p) (postponed_row now)
     else
       andthen (gets (payload_task_id env p)) (\<lambda>x.
       andthen (lift_result x) (\<lambda>task_id.
       andthen (gets (source_task p task_id)) (\<lambda>src. case src of
           None \<Rightarrow> refuse_minor manual p ''EVIDENCE_STALE''
         | Some src \<Rightarrow>
             if snapshot_version env p src \<noteq> Some (JStr (show_int (pt_version src)))
             then refuse_minor manual p ''EVIDENCE_STALE''
             else
               andthen (gets (\<lambda>d. case task_knowledge (pt_id src) d of
                    None \<Rightarrow> None | Some k \<Rightarrow> eligible_task p src k today d)) (\<lambda>task. case task of
                   None \<Rightarrow> refuse_minor manual p ''ELIGIBLE_TASK_NOT_FOUND''
                 | Some t \<Rightarrow> calibrate_task env now manual p t)))))"

fun apply_all_minor :: "app_env \<Rightarrow> time \<Rightarrow> date \<Rightarrow> proposal_row list \<Rightarrow> unit db_comp" where
  "apply_all_minor env now today [] = ret ()"
| "apply_all_minor env now today (p # ps) =
    andthen (apply_minor env now today False p) (\<lambda>_. apply_all_minor env now today ps)"

text \<open>\<open>apply_minor_proposals\<close>: after a completed run, under its fence.\<close>

definition apply_minor_proposals :: "app_env \<Rightarrow> time \<Rightarrow> date \<Rightarrow> uuid \<Rightarrow> int \<Rightarrow> unit db_comp" where
  "apply_minor_proposals env now today run token = transaction
    (andthen (assert_fence run token None now) (\<lambda>_.
     andthen (gets (\<lambda>d. filter (\<lambda>p. pr_run_id p = run \<and> pr_proposal_type p = PT_MINOR_ADJUST
        \<and> pr_status p = Prop_PENDING) (db_proposals d))) (apply_all_minor env now today)))"

definition apply_approved_minor_proposal :: "app_env \<Rightarrow> time \<Rightarrow> date \<Rightarrow> proposal_row \<Rightarrow> unit db_comp" where
  "apply_approved_minor_proposal env now today p =
    (if pr_proposal_type p \<noteq> PT_MINOR_ADJUST then throw (PyExc ''ValueError'')
     else apply_minor env now today True p)"

subsection \<open>What an application keeps\<close>

lemma clamp_factor_bounds: "75 / 100 \<le> clamp_factor x \<and> clamp_factor x \<le> 125 / 100"
  by (auto simp: clamp_factor_def)

definition put_proposal :: "uuid \<Rightarrow> (proposal_row \<Rightarrow> proposal_row) \<Rightarrow> db \<Rightarrow> db" where
  "put_proposal i f d = d\<lparr>db_proposals := update_rows (\<lambda>p. pr_id p = i) f (db_proposals d)\<rparr>"

definition put_task :: "uuid \<Rightarrow> (plan_task_row \<Rightarrow> plan_task_row) \<Rightarrow> db \<Rightarrow> db" where
  "put_task i f d = d\<lparr>db_plan_tasks := update_rows (\<lambda>t. pt_id t = i) f (db_plan_tasks d)\<rparr>"

lemma set_rows [simp]:
  "set_proposal i f d = (Inr (), put_proposal i f d)" "set_task i g d = (Inr (), put_task i g d)"
  by (simp_all add: set_proposal_def put_proposal_def set_task_def put_task_def)

definition fits_day :: "proposal_row \<Rightarrow> plan_task_row \<Rightarrow> int \<Rightarrow> db \<Rightarrow> bool" where
  "fits_day p t adjusted d \<longleftrightarrow> day_total (pt_plan_id t) (pt_task_date t) d - pt_effective_minutes t + adjusted
     \<le> task_day_capacity (pr_student_id p) (pt_task_date t) d"

text \<open>The outcome of an attempt to apply a minor proposal: it raised, refused, or changed one task.\<close>

lemma calibrate_task_cases:
  assumes "calibrate_task env now manual p t d = (r, d')"
  obtains (raised) e where "r = Inl e" "d' = d"
    | (refused) code where "r = Inr ()" "d' = put_proposal (pr_id p) (refused_row manual code) d"
    | (applied) adjusted factor where "r = Inr ()" "1 \<le> adjusted" "fits_day p t adjusted d"
        "d' = put_proposal (pr_id p) (applied_row manual now)
           (put_task (pt_id t) (adjusted_task manual adjusted factor) d)"
proof (cases "json_float env (dict_get (pr_payload p) ''adjustment_factor'' (JFloat (8 / 10)))")
  case (Inl e)
  then show ?thesis using assms raised by (simp add: calibrate_task_def)
next
  case (Inr raw)
  define adjusted where "adjusted = max 1 (py_round (of_int (pt_effective_minutes t) * clamp_factor raw))"
  have run: "calibrate_task env now manual p t d =
      (if fits_day p t adjusted d
       then (Inr (), put_proposal (pr_id p) (applied_row manual now)
               (put_task (pt_id t) (adjusted_task manual adjusted (clamp_factor raw)) d))
       else (Inr (), put_proposal (pr_id p) (refused_row manual ''PLAN_CAPACITY_EXCEEDED'') d))"
    using Inr by (simp add: calibrate_task_def lift_result_def andthen_apply Let_def fits_day_def
        adjusted_def refuse_minor_def not_le)
  have "1 \<le> adjusted" by (simp add: adjusted_def)
  then show ?thesis
    using assms run applied [of adjusted "clamp_factor raw"] refused by (auto split: if_splits)
qed

text \<open>
  \<open>apply_minor\<close> changes the proposal's row, and when it commits the proposal one pending task of the
  same plan as the source task.
\<close>

definition minor_applied :: "bool \<Rightarrow> time \<Rightarrow> date \<Rightarrow> proposal_row \<Rightarrow> db \<Rightarrow> db \<Rightarrow> bool" where
  "minor_applied manual now today p d d' \<longleftrightarrow> (\<exists>t adjusted factor.
     t \<in> set (db_plan_tasks d) \<and> counted (pt_plan_id t) (pt_task_date t) t \<and> today \<le> pt_task_date t
     \<and> owns_plan (pr_student_id p) (pt_plan_id t) d \<and> 1 \<le> adjusted \<and> fits_day p t adjusted d
     \<and> pr_evidence_refs p \<noteq> [] \<and> (manual \<or> 75 / 100 \<le> pr_confidence p)
     \<and> d' = put_proposal (pr_id p) (applied_row manual now)
              (put_task (pt_id t) (adjusted_task manual adjusted factor) d))"

lemma first_in_set: "(case xs of [] \<Rightarrow> None | x # _ \<Rightarrow> Some x) = Some y \<Longrightarrow> y \<in> set xs"
  by (cases xs) auto

lemma eligible_taskD:
  assumes "eligible_task p src k today d = Some t"
  shows "t \<in> set (db_plan_tasks d)" "counted (pt_plan_id t) (pt_task_date t) t" "today \<le> pt_task_date t"
    "owns_plan (pr_student_id p) (pt_plan_id t) d"
proof -
  let ?ts = "filter (\<lambda>t. owns_plan (pr_student_id p) (pt_plan_id t) d \<and> pt_plan_id t = pt_plan_id src
        \<and> pt_id t \<noteq> pt_id src \<and> pt_task_type t = pt_task_type src
        \<and> list_ex (\<lambda>x. ptk_task_id x = pt_id t \<and> ptk_knowledge_id x = k) (db_plan_task_knowledge d)
        \<and> pt_status t = Task_PENDING \<and> pt_origin t \<noteq> Origin_LEGACY \<and> today \<le> pt_task_date t)
        (db_plan_tasks d)"
  have "t \<in> set (sort_key pt_task_date (sort_key pt_sequence ?ts))"
    using assms unfolding eligible_task_def by (rule first_in_set)
  then have "t \<in> set ?ts" by (simp only: set_sort)
  then show "t \<in> set (db_plan_tasks d)" "counted (pt_plan_id t) (pt_task_date t) t"
    "today \<le> pt_task_date t" "owns_plan (pr_student_id p) (pt_plan_id t) d"
    by (auto simp: counted_def)
qed

lemma apply_minor_cases:
  assumes "apply_minor env now today manual p d = (r, d')"
  obtains (raised) e where "r = Inl e" "d' = d"
    | (postponed) "r = Inr ()" "d' = put_proposal (pr_id p) (postponed_row now) d"
    | (refused) code where "r = Inr ()" "d' = put_proposal (pr_id p) (refused_row manual code) d"
    | (applied) "r = Inr ()" "minor_applied manual now today p d d'"
proof (cases "pr_evidence_refs p = [] \<or> (pr_confidence p < 75 / 100 \<and> \<not> manual)")
  case True
  then show ?thesis using assms postponed by (simp add: apply_minor_def)
next
  case False
  note ok = False
  show ?thesis
  proof (cases "payload_task_id env p d")
    case (Inl e)
    then show ?thesis using assms raised unfolding apply_minor_def if_not_P [OF ok] by (simp add: andthen_apply)
  next
    case (Inr task_id)
    define after where "after = (case source_task p task_id d of
         None \<Rightarrow> refuse_minor manual p ''EVIDENCE_STALE''
       | Some src \<Rightarrow>
           if snapshot_version env p src \<noteq> Some (JStr (show_int (pt_version src)))
           then refuse_minor manual p ''EVIDENCE_STALE''
           else (case (case task_knowledge (pt_id src) d of
                  None \<Rightarrow> None | Some k \<Rightarrow> eligible_task p src k today d) of
                 None \<Rightarrow> refuse_minor manual p ''ELIGIBLE_TASK_NOT_FOUND''
               | Some t \<Rightarrow> calibrate_task env now manual p t))"
    have run: "after d = (r, d')"
      using assms Inr unfolding apply_minor_def if_not_P [OF ok]
      by (auto simp: andthen_apply ret_apply after_def split: option.split)
    show ?thesis
    proof (cases "\<exists>src k t. source_task p task_id d = Some src
        \<and> snapshot_version env p src = Some (JStr (show_int (pt_version src)))
        \<and> task_knowledge (pt_id src) d = Some k \<and> eligible_task p src k today d = Some t")
      case False
      then show ?thesis
        using run refused by (auto simp: after_def refuse_minor_def split: option.splits if_splits)
    next
      case True
      then obtain src k t where t: "eligible_task p src k today d = Some t"
        and "after = calibrate_task env now manual p t"
        by (auto simp: after_def)
      then have "calibrate_task env now manual p t d = (r, d')" using run by simp
      then show ?thesis
      proof (cases rule: calibrate_task_cases)
        case (applied adjusted factor)
        have "minor_applied manual now today p d d'"
          unfolding minor_applied_def using applied(2-4) eligible_taskD [OF t] ok
          by (intro exI [of _ t] exI [of _ adjusted] exI [of _ factor]) auto
        then show ?thesis using applied(1) that(4) by blast
      qed (use raised refused in auto)
    qed
  qed
qed

text \<open>A committed adjustment keeps the day within the student's capacity.\<close>

lemma sum_filter_update_one:
  assumes "distinct (map g rows)" and "t \<in> set rows" and "P t" and "P (f t)" and "\<And>x. g (f x) = g x"
  shows "sum_of (h::_ \<Rightarrow> int) (filter P (update_rows (\<lambda>x. g x = g t) f rows))
    = sum_of h (filter P rows) - h t + h (f t)"
  using assms(1,2)
proof (induction rows)
  case (Cons r rows)
  show ?case
  proof (cases "g r = g t")
    case True
    then have rt: "r = t" using Cons.prems by (auto simp: image_iff)
    have "update_rows (\<lambda>x. g x = g t) f rows = rows"
      using Cons.prems(1) True by (intro update_rows_ident) (auto simp: image_iff)
    then show ?thesis using rt assms(3,4) by simp
  next
    case False
    then show ?thesis using Cons by auto
  qed
qed simp

lemma minor_applied_capacity:
  assumes "minor_applied manual now today p d d'" and "distinct (map pt_id (db_plan_tasks d))"
  shows "\<exists>t. t \<in> set (db_plan_tasks d) \<and> today \<le> pt_task_date t
    \<and> owns_plan (pr_student_id p) (pt_plan_id t) d
    \<and> day_total (pt_plan_id t) (pt_task_date t) d'
        \<le> task_day_capacity (pr_student_id p) (pt_task_date t) d'
    \<and> (\<forall>x. x \<in> set (db_plan_tasks d) \<and> pt_id x \<noteq> pt_id t \<longrightarrow> x \<in> set (db_plan_tasks d'))"
proof -
  obtain t adjusted factor where t: "t \<in> set (db_plan_tasks d)" "counted (pt_plan_id t) (pt_task_date t) t"
    "today \<le> pt_task_date t" "owns_plan (pr_student_id p) (pt_plan_id t) d" "fits_day p t adjusted d"
    and d': "d' = put_proposal (pr_id p) (applied_row manual now)
       (put_task (pt_id t) (adjusted_task manual adjusted factor) d)"
    using assms(1) by (auto simp: minor_applied_def)
  let ?f = "adjusted_task manual adjusted factor"
  have tasks: "db_plan_tasks d' = update_rows (\<lambda>x. pt_id x = pt_id t) ?f (db_plan_tasks d)"
    by (simp add: d' put_proposal_def put_task_def)
  have "counted (pt_plan_id t) (pt_task_date t) (?f t)"
    using t(2) by (simp add: counted_def adjusted_task_def)
  then have "day_total (pt_plan_id t) (pt_task_date t) d' =
      day_total (pt_plan_id t) (pt_task_date t) d - pt_effective_minutes t + adjusted"
    unfolding day_total_def tasks
    using sum_filter_update_one [where P = "counted (pt_plan_id t) (pt_task_date t)" and f = ?f
        and h = pt_effective_minutes and g = pt_id, OF assms(2) t(1,2)]
    by (simp add: adjusted_task_def)
  moreover have "task_day_capacity student day d' = task_day_capacity student day d" for student day
    by (simp add: d' task_day_capacity_def put_proposal_def put_task_def cong: option.case_cong)
  ultimately show ?thesis
    using t update_rows_miss [of _ "db_plan_tasks d" "\<lambda>x. pt_id x = pt_id t"]
    by (intro exI [of _ t]) (simp add: fits_day_def tasks)
qed

end
