(* ===== verification/Agent_Runs.thy ===== *)
theory Agent_Runs
  imports Learning_Tools Harness_Safety
begin

text \<open>
  The diagnosis service, \<^verbatim>\<open>app/application/agent_runs.py\<close>: the job of a run under its lease, with the
  runner of \<open>Harness_Runner\<close> on the database stores and the learning tools, and the queries,
  cancellations and decisions that the API offers on runs and proposals.

  \<open>ds_gateway\<close> is the model router; what it does to the world is arbitrary, so the heartbeats of the
  lease, the passing of time and the sessions of other workers are part of it. \<open>ds_owner\<close> is the owner
  name of the worker, \<open>ds_today\<close> the local date.
\<close>

record diagnosis_service =
  ds_app_env :: app_env
  ds_store_env :: store_env
  ds_settings :: settings
  ds_owner :: string
  ds_today :: "time \<Rightarrow> date"
  ds_gateway :: "runtime_state \<Rightarrow> json list \<Rightarrow> (exn, db_world, model_result) comp"
  ds_schema :: "string \<Rightarrow> json"
  ds_sleep :: "pyfloat \<Rightarrow> (exn, db_world, unit) comp"
  ds_monotonic :: "db_world \<Rightarrow> pyfloat"
  ds_random :: "db_world \<Rightarrow> pyfloat \<times> db_world"

subsection \<open>Starting a run\<close>

fun role_value :: "user_role \<Rightarrow> string" where
  "role_value Role_STUDENT = ''STUDENT''"
| "role_value Role_REVIEWER = ''REVIEWER''"
| "role_value Role_ADMIN = ''ADMIN''"

definition new_run :: "settings \<Rightarrow> time \<Rightarrow> uuid \<Rightarrow> uuid \<Rightarrow> uuid \<Rightarrow> agent_run_row" where
  "new_run cfg now i job student = \<lparr>ag_id = i, ag_job_id = job, ag_student_id = student,
     ag_goal = ''FEEDBACK_DIAGNOSIS'', ag_status = Run_RUNNING,
     ag_model_version = (if cfg_use_fake_model cfg then ''fake-diagnosis-v2'' else cfg_qwen_plus_model cfg),
     ag_prompt_version = ''diagnosis_v3'', ag_policy_version = policy_version_v2,
     ag_loop_count = 0, ag_model_call_count = 0, ag_tool_call_count = 0, ag_input_tokens = 0,
     ag_output_tokens = 0, ag_resumed_count = 0, ag_termination_reason = None,
     ag_lease_owner = None, ag_lease_expires_at = None, ag_fencing_token = 0,
     ag_heartbeat_at = None, ag_cancel_requested_at = None, ag_cancelled_at = None,
     ag_version = 1, ag_created_at = now\<rparr>"

definition run_of_job :: "uuid \<Rightarrow> db \<Rightarrow> agent_run_row option" where
  "run_of_job job d = find (\<lambda>r. ag_job_id r = job) (db_agent_runs d)"

definition find_or_create_run :: "settings \<Rightarrow> uuid \<Rightarrow> uuid \<Rightarrow> time \<Rightarrow> agent_run_row db_comp" where
  "find_or_create_run cfg job student now = transaction
    (andthen (gets (run_of_job job)) (\<lambda>r. case r of
       Some run \<Rightarrow> ret run
     | None \<Rightarrow>
         andthen (gets (\<lambda>d. new_run cfg now (fresh_id (map ag_id (db_agent_runs d))) job student)) (\<lambda>run.
         andthen (modify (\<lambda>d. d\<lparr>db_agent_runs := db_agent_runs d @ [run]\<rparr>)) (\<lambda>_. ret run))))"

definition roles_of :: "uuid option \<Rightarrow> db \<Rightarrow> string list" where
  "roles_of user d = map (role_value \<circ> ur_role)
     (filter (\<lambda>r. Some (ur_user_id r) = user) (db_user_roles d))"

text \<open>The state of a run that has no checkpoint.\<close>

definition fresh_state ::
  "app_env \<Rightarrow> time \<Rightarrow> background_job_row \<Rightarrow> agent_run_row \<Rightarrow> uuid \<Rightarrow> int \<Rightarrow> runtime_state db_comp" where
  "fresh_state env now job run student token =
    andthen (gets (roles_of (bj_user_id job))) (\<lambda>rs.
    andthen (lift_result (json_iter (dict_get (bj_payload job) ''reason_codes'' (JList [])))) (\<lambda>codes.
    ret ((new_runtime_state (ae_uuid_str env (ag_id run)) (ae_uuid_str env student) (ag_goal run) now)
      \<lparr>user_id := map_option (ae_uuid_str env) (bj_user_id job), roles := rs, fencing_token := token,
       observations := [[(''reason_codes'', JList codes),
         (''task_id'', JStr (json_str env (dict_get (bj_payload job) ''task_id'' (JStr []))))]]\<rparr>)))"

definition retryable_codes :: "string list" where
  "retryable_codes = [''MODEL_UNAVAILABLE'', ''TOOL_TIMEOUT'', ''TOOL_RATE_LIMITED'',
     ''TOOL_UPSTREAM_ERROR'', ''TOOL_OUTCOME_UNKNOWN'']"

definition prepare_retryable_state :: "runtime_state \<Rightarrow> runtime_state" where
  "prepare_retryable_state st =
    (if phase st \<noteq> TERMINATED \<or> last_error_code st \<notin> Some ` set retryable_codes then st
     else st\<lparr>phase := (if pending_tool_call st \<noteq> None \<and> pending_step_id st \<noteq> None
               then TOOL_PENDING else READY),
             termination_reason_of := None, last_error_code := None, final_action := None\<rparr>)"

definition count_resume :: "uuid \<Rightarrow> int \<Rightarrow> string \<Rightarrow> time \<Rightarrow> unit db_comp" where
  "count_resume run token owner now = transaction
    (andthen (assert_fence run token (Some owner) now) (\<lambda>_.
     modify (update_run run (\<lambda>r. r\<lparr>ag_resumed_count := ag_resumed_count r + 1\<rparr>))))"

definition start_state ::
  "diagnosis_service \<Rightarrow> background_job_row \<Rightarrow> agent_run_row \<Rightarrow> uuid \<Rightarrow> run_lease \<Rightarrow> time
   \<Rightarrow> runtime_state db_comp" where
  "start_state ds job run student l now =
    (let cs = \<lparr>rst_run_id = ag_id run, rst_fencing_token = ls_fencing_token l\<rparr> in
     andthen (checkpoint_load_latest (ds_store_env ds) cs now) (\<lambda>loaded. case loaded of
       None \<Rightarrow> fresh_state (ds_app_env ds) now job run student (ls_fencing_token l)
     | Some st \<Rightarrow>
         andthen (count_resume (ag_id run) (ls_fencing_token l) (ds_owner ds) now) (\<lambda>_.
         ret (prepare_retryable_state (st\<lparr>fencing_token := ls_fencing_token l, resumed := True\<rparr>)))))"

subsection \<open>Finishing a run\<close>

definition finished_status :: "string \<Rightarrow> agent_run_status" where
  "finished_status reason =
    (if reason = ''COMPLETED'' then Run_COMPLETED
     else if reason = ''LOOP_STALLED'' then Run_STALLED
     else if reason = ''CANCELLED'' then Run_CANCELLED else Run_FAILED)"

definition finalized_run :: "time \<Rightarrow> agent_run_result \<Rightarrow> agent_run_row \<Rightarrow> agent_run_row" where
  "finalized_run now res r =
    (let st = arr_state res; reason = arr_termination_reason res in
     r\<lparr>ag_loop_count := loop_count st, ag_model_call_count := model_call_count st,
       ag_tool_call_count := tool_call_count st, ag_input_tokens := input_tokens st,
       ag_output_tokens := output_tokens st, ag_termination_reason := Some reason,
       ag_status := finished_status reason,
       ag_cancelled_at := (if reason = ''CANCELLED'' then Some now else ag_cancelled_at r)\<rparr>)"

definition finalize_run :: "uuid \<Rightarrow> int \<Rightarrow> agent_run_result \<Rightarrow> time \<Rightarrow> unit db_comp" where
  "finalize_run run token res now = transaction
    (andthen (assert_fence run token None now) (\<lambda>_. modify (update_run run (finalized_run now res))))"

definition raise_for_retry_or_failure :: "agent_run_result \<Rightarrow> exn + unit" where
  "raise_for_retry_or_failure res =
    (let code = last_error_code (arr_state res) in
     case tr_of_value (arr_termination_reason res) of
       None \<Rightarrow> Inl (PyExc ''ValueError'')
     | Some reason \<Rightarrow>
         if reason = TR_MODEL_UNAVAILABLE then Inl (ModelUnavailableErr [])
         else if code \<in> Some ` {''TOOL_TIMEOUT'', ''TOOL_RATE_LIMITED'', ''TOOL_UPSTREAM_ERROR'',
             ''TOOL_OUTCOME_UNKNOWN''} then Inl ToolUpstreamErr
         else if reason \<notin> {TR_COMPLETED, TR_LOOP_STALLED, TR_CANCELLED}
         then Inl (AgentRunExecutionErr reason code) else Inr ())"

definition diagnosis_result :: "app_env \<Rightarrow> agent_run_row \<Rightarrow> agent_run_result \<Rightarrow> jobj" where
  "diagnosis_result env run res =
    [(''agent_run_id'', JStr (ae_uuid_str env (ag_id run))),
     (''decision'', case arr_decision res of None \<Rightarrow> JNull | Some s \<Rightarrow> JStr s),
     (''termination_reason'', JStr (arr_termination_reason res)),
     (''resumed'', JBool (resumed (arr_state res)))]"

subsection \<open>The job\<close>

definition runner_config :: "settings \<Rightarrow> agent_runner_config" where
  "runner_config cfg = \<lparr>cfg_max_steps = cfg_agent_max_steps cfg,
     cfg_max_tool_calls = cfg_agent_max_tool_calls cfg,
     cfg_max_runtime_seconds = cfg_agent_max_runtime_seconds cfg,
     cfg_max_model_calls = cfg_agent_max_model_calls cfg,
     cfg_max_input_tokens = cfg_agent_max_input_tokens cfg,
     cfg_max_output_tokens = cfg_agent_max_output_tokens cfg,
     cfg_max_total_tokens = cfg_agent_max_total_tokens cfg,
     cfg_max_repair_calls = cfg_agent_max_repair_calls cfg\<rparr>"

definition tool_context :: "settings \<Rightarrow> runtime_state \<Rightarrow> tool_availability_context" where
  "tool_context cfg st = \<lparr>av_environment = cfg_app_env cfg, av_roles = roles st,
     av_feature_flags = cfg_agent_tool_feature_flags cfg\<rparr>"

definition diagnosis_runner ::
  "diagnosis_service \<Rightarrow> lease_manager \<Rightarrow> agent_run_row \<Rightarrow> int \<Rightarrow> db_world tool_registry
   \<Rightarrow> runtime_state \<Rightarrow> db_world agent_runner" where
  "diagnosis_runner ds lm run token reg st =
    (let cs = \<lparr>rst_run_id = ag_id run, rst_fencing_token = token\<rparr>;
         ctx = tool_context (ds_settings ds) st in
     \<lparr>ar_ports = db_ports (ds_store_env ds) lm cs (ds_gateway ds), ar_registry = reg,
      ar_executor = \<lparr>ee_registry = reg, ee_ledger = Some (db_ledger (ds_store_env ds) cs),
        ee_availability = ctx,
        ee_permissions = [''student:evidence:read'', ''student:proposal:create''],
        ee_sleep = ds_sleep ds, ee_monotonic = ds_monotonic ds, ee_random = ds_random ds,
        ee_digest = sv_digest (ds_store_env ds), ee_repr = ae_repr (ds_app_env ds)\<rparr>,
      ar_config = runner_config (ds_settings ds), ar_tool_context = ctx\<rparr>)"

text \<open>\<open>async with lease_manager.hold()\<close>: the lease is released however the body ends.\<close>

definition hold :: "lease_manager \<Rightarrow> (lease_manager \<Rightarrow> run_lease \<Rightarrow> (exn, db_world, 'a) comp)
    \<Rightarrow> (exn, db_world, 'a) comp" where
  "hold lm body = (\<lambda>(now, d). case acquire now (lm, d) of
     (Inl e, (lm', d')) \<Rightarrow> (Inl e, (now, d'))
   | (Inr l, (lm', d')) \<Rightarrow> (case body lm' l (now, d') of
       (r, (now'', d'')) \<Rightarrow> (case release (lm', d'') of
         (Inl e, (_, d3)) \<Rightarrow> (Inl e, (now'', d3))
       | (Inr _, (_, d3)) \<Rightarrow> (r, (now'', d3)))))"

definition run_runner :: "db_world agent_runner \<Rightarrow> runtime_state \<Rightarrow> (exn, db_world, agent_run_result) comp" where
  "run_runner rn st = (\<lambda>w. case run_agent rn (st, w) of (r, (_, w')) \<Rightarrow> (r, w'))"

text \<open>The result of the job is committed with the worker's session, that is when nothing is raised.\<close>

definition diagnose ::
  "diagnosis_service \<Rightarrow> background_job_row \<Rightarrow> agent_run_row \<Rightarrow> uuid \<Rightarrow> lease_manager \<Rightarrow> run_lease
   \<Rightarrow> (exn, db_world, unit) comp" where
  "diagnose ds job run student lm l =
    (let env = ds_app_env ds; token = ls_fencing_token l in
     andthen (timed (start_state ds job run student l)) (\<lambda>st.
     andthen (lift_result (build_learning_tool_registry \<lparr>lt_env = env, lt_run_id = ag_id run,
         lt_student_id = student, lt_fencing_token = token, lt_schema = ds_schema ds\<rparr>)) (\<lambda>reg.
     andthen (run_runner (diagnosis_runner ds lm run token reg st) st) (\<lambda>res.
       if arr_termination_reason res = ''STALE_WORKER'' then throw StaleWorkerErr
       else
         andthen (if arr_termination_reason res = ''COMPLETED''
                  then timed (\<lambda>now. apply_minor_proposals env now (ds_today ds now) (ag_id run) token)
                  else ret ()) (\<lambda>_.
         andthen (timed (finalize_run (ag_id run) token res)) (\<lambda>_.
         andthen (lift_result (raise_for_retry_or_failure res)) (\<lambda>_.
         timed (\<lambda>_. set_job (bj_id job) (\<lambda>j. j\<lparr>bj_result := Some (diagnosis_result env run res)\<rparr>)))))))))"

definition diagnosis_lease :: "diagnosis_service \<Rightarrow> agent_run_row \<Rightarrow> lease_manager" where
  "diagnosis_lease ds run = (new_lease_manager (ag_id run) (ds_owner ds))
     \<lparr>lm_lease_seconds := cfg_agent_lease_seconds (ds_settings ds),
      lm_heartbeat_seconds := cfg_agent_heartbeat_seconds (ds_settings ds)\<rparr>"

definition execute_diagnosis ::
  "diagnosis_service \<Rightarrow> background_job_row \<Rightarrow> (exn, db_world, agent_run_row) comp" where
  "execute_diagnosis ds job =
    (case map_of (bj_payload job) ''student_id'' of
       None \<Rightarrow> throw (PyExc ''KeyError'')
     | Some v \<Rightarrow>
         andthen (lift_result (parse_uuid (ds_app_env ds) v)) (\<lambda>student.
         andthen (timed (find_or_create_run (ds_settings ds) (bj_id job) student)) (\<lambda>run.
         andthen (hold (diagnosis_lease ds run) (diagnose ds job run student)) (\<lambda>_.
         timed (\<lambda>_. andthen (gets (find_run (ag_id run))) (\<lambda>r. found_or r (PyExc ''RuntimeError'')))))))"

text \<open>The service as the worker calls it, at the time of its session.\<close>

definition diagnosis_job :: "diagnosis_service \<Rightarrow> time \<Rightarrow> background_job_row \<Rightarrow> unit db_comp" where
  "diagnosis_job ds now job = (\<lambda>d. case execute_diagnosis ds job (now, d) of
     (r, (_, d')) \<Rightarrow> (map_sum id (\<lambda>_. ()) r, d'))"

subsection \<open>What a run keeps\<close>

text \<open>
  An invariant \<open>I\<close> of the world that every collaborator keeps is kept by the run. Here, unlike in
  \<open>Harness_Safety\<close>, a tool keeps \<open>I\<close> whatever was saved before it.
\<close>

definition collaborators_keep :: "('w \<Rightarrow> bool) \<Rightarrow> 'w agent_runner \<Rightarrow> bool" where
  "collaborators_keep I rn \<longleftrightarrow> (let p = ar_ports rn in
     (\<forall>st. keeps I (po_save p st) \<and> keeps I (po_assert_active p st))
     \<and> (\<forall>st tools. keeps I (po_decide p st tools))
     \<and> (\<forall>st r. keeps I (po_record_step p st r))
     \<and> (\<forall>st i c v l n s e b. keeps I (po_record_tool p st i c v l n s e b))
     \<and> (\<forall>st i n d r. keeps I (po_record_guardrail p st i n d r))
     \<and> (\<forall>st call. keeps I (execute (ar_executor rn) st call)))"

lemma kept_on_world: "(\<And>st. keeps I (f st)) \<Longrightarrow> keeps (world_ok I) (on_world f)"
  by (rule world_on_world) (simp add: keeps_def)

lemma kept_ports:
  assumes "collaborators_keep I rn"
  shows "keeps (world_ok I) (assert_active rn)" "keeps (world_ok I) (save_checkpoint rn)"
    "keeps (world_ok I) (on_world (\<lambda>st. po_decide (ar_ports rn) st tools))"
    "keeps (world_ok I) (on_world (\<lambda>st. po_record_step (ar_ports rn) st r))"
    "keeps (world_ok I) (on_world (\<lambda>st. po_record_tool (ar_ports rn) st i c v l n x e b))"
    "keeps (world_ok I) (on_world (\<lambda>st. po_record_guardrail (ar_ports rn) st (g st) (h st) d u))"
    "keeps (world_ok I) (on_world (\<lambda>st. execute (ar_executor rn) st c))"
  using assms
  by (auto simp: collaborators_keep_def Let_def assert_active_def save_checkpoint_def intro!: kept_on_world)

lemma kept_terminate: "collaborators_keep I rn \<Longrightarrow> keeps (world_ok I) (terminate_run rn reason)"
  unfolding terminate_run_def by (intro keeps_andthen keeps_handle keeps_if kept_ports plain_rules)

lemma kept_complete: "collaborators_keep I rn \<Longrightarrow> keeps (world_ok I) (complete_run rn)"
  unfolding complete_run_def
  by (intro keeps_andthen keeps_option kept_terminate kept_ports plain_rules)

lemma kept_pending_tool: "collaborators_keep I rn \<Longrightarrow> keeps (world_ok I) (execute_pending_tool rn)"
  unfolding execute_pending_tool_def Let_def
  by (intro keeps_andthen keeps_split keeps_option kept_ports plain_rules)

lemma kept_model_turn:
  assumes "collaborators_keep I rn"
  shows "keeps (world_ok I) (model_turn rn)"
proof -
  note rules = kept_ports [OF assms] plain_rules kept_terminate [OF assms] kept_complete [OF assms]
    kept_pending_tool [OF assms]
  have fail: "keeps (world_ok I) (record_model_failure rn err attempts)" for err attempts
    unfolding record_model_failure_def by (intro keeps_andthen rules)
  have ask: "keeps (world_ok I) (ask_model rn)"
    unfolding ask_model_def
    by (intro keeps_handle rules) (auto intro!: keeps_andthen fail rules split: exn.split)
  have finish: "keeps (world_ok I) (finish_action rn action step_id)" for action step_id
    unfolding finish_action_def by (intro keeps_andthen keeps_if rules)
  have dispatch: "keeps (world_ok I) (dispatch_tool rn call step_id stall)" for call step_id stall
    unfolding dispatch_tool_def by (intro keeps_andthen keeps_if rules)
  show ?thesis
    unfolding model_turn_def tool_action_def Let_def
    by (intro keeps_andthen keeps_if keeps_option keeps_split ask finish dispatch rules)
qed

lemma kept_on_exception:
  assumes "collaborators_keep I rn"
  shows "keeps (world_ok I) (on_exception rn err)"
proof -
  note rules = kept_ports [OF assms] plain_rules kept_terminate [OF assms]
  have "keeps (world_ok I) (record_tool_failure rn err)" for err
    unfolding record_tool_failure_def by (intro keeps_andthen keeps_split keeps_option rules)
  moreover have "keeps (world_ok I) (record_guardrail rn err)" for err
    unfolding record_guardrail_def by (intro keeps_if rules)
  moreover have "keeps (world_ok I) (set_error c)" for c
    unfolding set_error_def by (rule world_set_state)
  ultimately show ?thesis
    unfolding on_exception_def by (cases err) (auto intro!: keeps_andthen rules)
qed

lemma kept_run_agent:
  assumes "collaborators_keep I rn"
  shows "keeps (world_ok I) (run_agent rn)"
proof -
  note rules = kept_ports [OF assms] plain_rules kept_terminate [OF assms] kept_complete [OF assms]
    kept_pending_tool [OF assms] keeps_run_loop [OF kept_model_turn [OF assms]]
  have "keeps (world_ok I) (run_phases rn)"
    unfolding run_phases_def
    by (intro keeps_andthen keeps_if rules) (auto intro!: keeps_ret split: option.split termination_reason.split)
  then show ?thesis
    unfolding run_agent_def by (intro keeps_andthen keeps_handle kept_on_exception [OF assms] rules)
qed

lemma kept_run_runner: "collaborators_keep I rn \<Longrightarrow> keeps I (run_runner rn st)"
  using kept_run_agent [of I rn] by (auto simp: keeps_def run_runner_def split: prod.splits) (metis snd_conv)

subsection \<open>A diagnosis leaves the jobs alone\<close>

text \<open>
  \<open>jobs_kept\<close>: the table of jobs is not written. The stores, the ledger, the lease and the learning
  tools keep it, so a diagnosis changes no job but for the result of its own.
\<close>

definition jobs_kept :: "'a db_comp \<Rightarrow> bool" where
  "jobs_kept m \<longleftrightarrow> (\<forall>js. keeps (\<lambda>d. db_background_jobs d = js) m)"

definition same_jobs :: "background_job_row list \<Rightarrow> db_world \<Rightarrow> bool" where
  "same_jobs js w \<longleftrightarrow> db_background_jobs (snd w) = js"

lemma jobs_kept_rules:
  "jobs_kept (ret a)" "jobs_kept (throw e)" "jobs_kept (gets g)" "jobs_kept (lift_result x)"
  "jobs_kept (app_error st c)" "jobs_kept (found_or y e)"
  "jobs_kept m \<Longrightarrow> (\<And>a. jobs_kept (k a)) \<Longrightarrow> jobs_kept (andthen m k)"
  "jobs_kept m \<Longrightarrow> jobs_kept (transaction m)"
  "(b \<Longrightarrow> jobs_kept m) \<Longrightarrow> (\<not> b \<Longrightarrow> jobs_kept n) \<Longrightarrow> jobs_kept (if b then m else n)"
  by (auto simp: jobs_kept_def)

lemma jobs_kept_option:
  "jobs_kept m \<Longrightarrow> (\<And>a. jobs_kept (l a)) \<Longrightarrow> jobs_kept (case x of None \<Rightarrow> m | Some a \<Rightarrow> l a)"
  by (cases x) auto

lemma jobs_kept_modify:
  "(\<And>d. db_background_jobs (f d) = db_background_jobs d) \<Longrightarrow> jobs_kept (modify f)"
  by (auto simp: jobs_kept_def intro!: keeps_modify)

lemma jobs_kept_fence: "jobs_kept (assert_fence rid token owner now)"
  unfolding assert_fence_def by (intro jobs_kept_rules jobs_kept_option)

lemma jobs_kept_set_proposal: "jobs_kept (set_proposal i f)" and jobs_kept_set_task: "jobs_kept (set_task i g)"
  unfolding set_proposal_def set_task_def by (auto intro!: jobs_kept_modify)

lemmas jobs_kept_intros = jobs_kept_rules jobs_kept_option jobs_kept_fence jobs_kept_set_proposal
  jobs_kept_set_task

lemma jobs_kept_checkpoint: "jobs_kept (checkpoint_save env cs now st)"
  unfolding checkpoint_save_def
  by (intro jobs_kept_intros jobs_kept_modify; simp add: put_checkpoint_def Let_def)

lemma jobs_kept_load: "jobs_kept (checkpoint_load_latest env cs now)"
  unfolding checkpoint_load_latest_def by (intro jobs_kept_intros)

lemma jobs_kept_record_step: "jobs_kept (trace_record_step env cs now st r)"
  unfolding trace_record_step_def by (intro jobs_kept_intros jobs_kept_modify; simp)

lemma jobs_kept_record_tool: "jobs_kept (trace_record_tool env cs now i c v l n s e b)"
  unfolding trace_record_tool_def by (intro jobs_kept_intros jobs_kept_modify; simp add: Let_def)

lemma jobs_kept_record_guardrail: "jobs_kept (trace_record_guardrail env cs now si t dn rc)"
  unfolding trace_record_guardrail_def by (intro jobs_kept_intros jobs_kept_modify; simp)

lemma jobs_kept_ledger_begin: "jobs_kept (ledger_begin cs n v call dg now)"
  unfolding ledger_begin_def
  by (intro jobs_kept_intros jobs_kept_modify; simp add: jobs_kept_intros split: option.split)

lemma jobs_kept_ledger_update: "jobs_kept (ledger_update env cs i s r e now)"
  unfolding ledger_update_def by (intro jobs_kept_intros jobs_kept_modify; simp)

lemma jobs_kept_acquire: "jobs_kept (acquire_session lm now)"
  unfolding acquire_session_def by (intro jobs_kept_intros jobs_kept_modify; simp add: update_run_def)

lemma jobs_kept_active: "jobs_kept (lease_assert_active lm now st)"
  unfolding lease_assert_active_def by (intro jobs_kept_intros)

lemmas jobs_kept_stores = jobs_kept_checkpoint jobs_kept_load jobs_kept_record_step
  jobs_kept_record_tool jobs_kept_record_guardrail jobs_kept_ledger_begin jobs_kept_ledger_update
  jobs_kept_acquire jobs_kept_active

lemma jobs_kept_read_tools:
  "jobs_kept (search_recent_attempts lt args now)" "jobs_kept (get_knowledge_states lt args now)"
  "jobs_kept (get_school_stats lt args now)"
  unfolding search_recent_attempts_def get_knowledge_states_def get_school_stats_def
  by (intro jobs_kept_intros)+

lemma jobs_kept_propose: "jobs_kept (propose lt ptype args now)"
  unfolding propose_def insert_proposal_def Let_def
  by (intro jobs_kept_intros jobs_kept_modify; simp)

lemma jobs_kept_reconcile: "jobs_kept (reconcile_proposal lt ptype args now)"
  unfolding reconcile_proposal_def by (intro jobs_kept_intros)

lemma jobs_kept_minor: "jobs_kept (apply_minor env now today manual p)"
  unfolding apply_minor_def calibrate_task_def refuse_minor_def Let_def by (intro jobs_kept_intros)

lemma jobs_kept_minor_proposals: "jobs_kept (apply_minor_proposals env now today run token)"
proof -
  have "jobs_kept (apply_all_minor env now today ps)" for ps
    by (induction ps) (auto intro!: jobs_kept_intros jobs_kept_minor)
  then show ?thesis unfolding apply_minor_proposals_def by (intro jobs_kept_intros)
qed

lemma timed_same_jobs: "(\<And>now. jobs_kept (m now)) \<Longrightarrow> keeps (same_jobs js) (timed m)"
  by (auto simp: jobs_kept_def keeps_def same_jobs_def timed_def split: prod.splits) (metis snd_conv)

text \<open>The collaborators that the model leaves open: the gateway, the clock and the random source.\<close>

definition service_keeps :: "diagnosis_service \<Rightarrow> bool" where
  "service_keeps ds \<longleftrightarrow> (\<forall>js. (\<forall>st tools. keeps (same_jobs js) (ds_gateway ds st tools))
     \<and> (\<forall>delay. keeps (same_jobs js) (ds_sleep ds delay))
     \<and> (\<forall>w. same_jobs js w \<longrightarrow> same_jobs js (snd (ds_random ds w))))"

lemma learning_tools_keep:
  assumes "service_keeps ds" and "build_learning_tool_registry lt = Inr reg"
  shows "collaborators_keep (same_jobs js) (diagnosis_runner ds lm run token reg st)"
proof -
  let ?rn = "diagnosis_runner ds lm run token reg st"
  have ds: "keeps (same_jobs js) (ds_gateway ds st tools)" "keeps (same_jobs js) (ds_sleep ds delay)"
    "same_jobs js w \<Longrightarrow> same_jobs js (snd (ds_random ds w))" for st tools delay w
    using assms(1) by (simp_all add: service_keeps_def del: split_paired_All)
  have handlers: "(\<forall>args. keeps (same_jobs js) (td_handler d args))
      \<and> (\<forall>h args. td_reconcile_handler d = Some h \<longrightarrow> keeps (same_jobs js) (h args))"
    if "d \<in> set (learning_tool_list lt)" for d
    using that
    by (auto simp: learning_tool_list_def read_tool_def proposal_tool_def
        intro!: timed_same_jobs jobs_kept_read_tools jobs_kept_propose jobs_kept_reconcile)
  have tool: "tool_keeps (same_jobs js) (ar_executor ?rn) d"
    if "registry_get reg n (Some ctx) = Inr d" for n ctx d
  proof -
    have "d \<in> set (learning_tool_list lt)"
      using that assms(2)
      by (auto simp: build_registry registry_get_def split: option.splits if_splits
          dest!: map_of_SomeD)
    from handlers [OF this] show ?thesis
      unfolding tool_keeps_def diagnosis_runner_def Let_def
      by (simp add: ds db_ledger_def timed_same_jobs jobs_kept_stores)
  qed
  have "keeps (same_jobs js) (execute (ar_executor ?rn) st call)" for st call
    by (rule execute_keeps, rule tool)
      (simp add: diagnosis_runner_def Let_def)
  then show ?thesis
    unfolding collaborators_keep_def diagnosis_runner_def db_ports_def Let_def
    by (simp add: ds timed_same_jobs jobs_kept_stores)
qed

text \<open>Only the result of the job changes, and with it no job's place in the machine of \<open>Jobs\<close>.\<close>

definition same_views :: "uuid list \<times> (uuid \<Rightarrow> job_view option) \<Rightarrow> db_world \<Rightarrow> bool" where
  "same_views v w \<longleftrightarrow> v = (job_ids (snd w), \<lambda>k. job_view k (snd w))"

lemma same_jobs_views: "(\<And>js. keeps (same_jobs js) m) \<Longrightarrow> keeps (same_views v) m"
  by (fastforce simp: keeps_def same_jobs_def same_views_def job_ids_def job_view_def get_job_def)

lemma kept_views: "(\<And>now. jobs_kept (m now)) \<Longrightarrow> keeps (same_views v) (timed m)"
  by (intro same_jobs_views timed_same_jobs)

lemma leaves_views:
  assumes "\<And>now. leaves_jobs (m now)"
  shows "keeps (same_views v) (timed m)"
proof (rule keepsI)
  fix w assume "same_views v w"
  moreover obtain now d where w: "w = (now, d)" by (cases w)
  moreover obtain r d' where m: "m now d = (r, d')" by fastforce
  ultimately show "same_views v (snd (timed m w))"
    using keeps_idsD [OF leaves_jobs_ids [OF assms] m] leaves_jobsD [OF assms m]
    by (simp add: timed_def same_views_def)
qed

lemma jobs_kept_leaves: "jobs_kept m \<Longrightarrow> leaves_jobs m"
  by (auto simp: jobs_kept_def leaves_jobs_def keeps_ids_def keeps_def job_ids_def job_view_def get_job_def)

lemma jobs_kept_finalize: "jobs_kept (finalize_run run token res now)"
  unfolding finalize_run_def by (intro jobs_kept_intros jobs_kept_modify; simp add: update_run_def)

lemma jobs_kept_start: "jobs_kept (start_state ds job run student l now)"
  unfolding start_state_def fresh_state_def count_resume_def Let_def
  by (intro jobs_kept_intros jobs_kept_modify jobs_kept_load; simp add: update_run_def)

lemma jobs_kept_find_or_create: "jobs_kept (find_or_create_run cfg job student now)"
  unfolding find_or_create_run_def by (intro jobs_kept_intros jobs_kept_modify; simp)

lemma diagnose_views:
  assumes "service_keeps ds"
  shows "keeps (same_views v) (diagnose ds job run student lm l)"
proof -
  have run: "keeps (same_views v) (run_runner (diagnosis_runner ds lm run token reg st) st)"
    if "build_learning_tool_registry lt = Inr reg" for token reg st lt
    by (intro same_jobs_views kept_run_runner learning_tools_keep [OF assms that])
  have result: "leaves_jobs (set_job (bj_id job) (\<lambda>j. j\<lparr>bj_result := Some x\<rparr>))" for x
    by (rule leaves_jobs_set_result) (simp_all add: view_of_def)
  show ?thesis
    unfolding diagnose_def Let_def
    by (auto simp: build_registry intro!: keeps_andthen leaves_views jobs_kept_leaves jobs_kept_start
        jobs_kept_minor_proposals jobs_kept_finalize result run [OF build_registry])
qed

lemma hold_views:
  assumes "\<And>lm l. keeps (same_views v) (body lm l)"
  shows "keeps (same_views v) (hold lm body)"
proof (rule keepsI)
  fix w assume v: "same_views v w"
  obtain now d where w: "w = (now, d)" by (cases w)
  obtain x lm1 d1 where acq: "acquire now (lm, d) = (x, (lm1, d1))" by (metis prod.collapse)
  have d1: "db_background_jobs d1 = db_background_jobs d"
    using acq jobs_kept_acquire [of lm now]
    by (auto simp: acquire_def db_only_def set_lease_def andthen_apply comp_simps jobs_kept_def keeps_def
        split: prod.splits sum.splits) (metis snd_conv)+
  have rel: "db_background_jobs (snd (snd (release (lm2, d2)))) = db_background_jobs d2" for lm2 d2
    by (auto simp: release_def db_only_def set_lease_def comp_simps update_run_def
        split: option.splits prod.splits if_splits)
  show "same_views v (snd (hold lm body w))"
  proof (cases x)
    case (Inl e)
    then show ?thesis
      using v d1 acq w by (simp add: hold_def same_views_def job_ids_def job_view_def get_job_def)
  next
    case (Inr l)
    obtain r now2 d2 where b: "body lm1 l (now, d1) = (r, (now2, d2))" by (metis prod.collapse)
    have "same_views v (now2, d2)"
      using assms [of lm1 l] b v d1 w
      by (auto simp: keeps_def same_views_def job_ids_def job_view_def get_job_def) (metis snd_conv)+
    then show ?thesis
      using rel [of lm1 d2] acq b w Inr
      by (auto simp: hold_def same_views_def job_ids_def job_view_def get_job_def
          split: prod.splits sum.splits)
  qed
qed

lemma diagnosis_leaves_jobs:
  assumes "service_keeps ds"
  shows "leaves_jobs (diagnosis_job ds now job)"
proof -
  have "keeps (same_views v) (execute_diagnosis ds job)" for v
    unfolding execute_diagnosis_def
    by (intro keeps_option keeps_andthen keeps_throw keeps_lift_result kept_views hold_views
        diagnose_views [OF assms] jobs_kept_find_or_create jobs_kept_intros)
  then have "same_views (job_ids d, \<lambda>k. job_view k d) (snd (execute_diagnosis ds job (now, d)))" for d
    by (simp add: keeps_def same_views_def)
  then have "job_ids (snd (diagnosis_job ds now job d)) = job_ids d
      \<and> (\<forall>k. job_view k (snd (diagnosis_job ds now job d)) = job_view k d)" for d
    by (auto simp: diagnosis_job_def same_views_def split: prod.splits) (metis snd_conv fun_cong)+
  then show ?thesis by (simp add: leaves_jobs_def keeps_ids_def keeps_def)
qed

end
