(* ===== verification/Job_Properties.thy ===== *)
theory Job_Properties
  imports Agent_Runs Harness_Db_Properties
begin

text \<open>
  The properties of background jobs and of the diagnosis that runs as one, each applied to a small
  concrete database.
\<close>

subsection \<open>Examples\<close>

definition example_app_env :: app_env where
  "example_app_env = \<lparr>ae_uuid_str = (\<lambda>u. replicate u CHR ''1''), ae_uuid_of = (\<lambda>s. Some (length s)),
     ae_date_iso = example_isof, ae_date_of = (\<lambda>s. Some (example_time_of s)),
     ae_isoformat = example_isof, ae_repr = (\<lambda>j. ''repr''), ae_int_of = (\<lambda>s. None),
     ae_float_of = (\<lambda>s. None)\<rparr>"

lemma example_app_env_ok: "app_env_ok example_app_env"
  using inj_on_inverseI [of UNIV example_time_of example_isof]
  by (simp add: app_env_ok_def example_app_env_def)

definition example_job :: background_job_row where
  "example_job = new_job default_settings 0 1 1 ''GENERATE_PLAN'' [] ''k''"

definition example_job_db :: db where
  "example_job_db = empty_db\<lparr>db_background_jobs := [example_job]\<rparr>"

definition idle_services :: job_services where
  "idle_services = \<lparr>js_generate_plan = (\<lambda>_. ret ()), js_agent_diagnosis = (\<lambda>_. ret ()),
     js_generate_mock = (\<lambda>_. ret ()), js_parse_resource = (\<lambda>_. ret ''PARSED''),
     js_shadow_evaluation = (\<lambda>_. ret ())\<rparr>"

lemma idle_services_ok: "services_ok idle_services"
  by (auto simp: services_ok_def idle_services_def)

lemma example_job_simps [simp]:
  "bj_id example_job = 1" "bj_status example_job = Job_QUEUED" "bj_attempt_count example_job = 0"
  "bj_max_attempts example_job = 3" "bj_payload example_job = []" "bj_user_id example_job = Some 1"
  "bj_job_type example_job = ''GENERATE_PLAN''" "bj_idempotency_key example_job = ''k''"
  "bj_result example_job = None"
  by (simp_all add: example_job_def new_job_def default_settings_def)

lemma example_get_job: "get_job 1 example_job_db = Some example_job"
  by (simp add: get_job_def example_job_db_def)

lemma default_max_attempts [simp]: "cfg_job_max_attempts default_settings = 3"
  by (simp add: default_settings_def)

subsection \<open>The life of a job\<close>


lemma example_creates:
  "create_job example_app_env default_settings 0 1 ''GENERATE_PLAN'' [] ''k'' empty_db =
    (Inr example_job, snd (create_job example_app_env default_settings 0 1 ''GENERATE_PLAN'' [] ''k'' empty_db))"
  by (simp add: create_job_def transaction_def comp_simps add_event_def empty_db_def example_job_def
      new_job_def fresh_id_def)


text \<open>A job that ended (succeeded, failed, dead-lettered, cancelled, or waiting for a review) never
  changes its status again and is never attempted again.\<close>

theorem ended_jobs_stay_ended:
  assumes "job_step env cfg svc d d'" and "services_ok svc" and "distinct (map bj_id (db_background_jobs d))"
    and "get_job k d = Some j" and "bj_status j \<in> terminal_job_statuses"
  shows "\<exists>j'. get_job k d' = Some j' \<and> bj_status j' = bj_status j
    \<and> bj_attempt_count j' = bj_attempt_count j"
  using terminal_job_stays [OF assms(1,2), of k "bj_status j" "bj_attempt_count j" "bj_max_attempts j"]
    assms(3-5)
  by (auto simp: job_view_def view_of_def job_ids_def)

theorem ended_jobs_stay_ended_witness:
  "\<exists>j'. get_job 1 (snd (dispatch_once example_app_env 5 (example_job_db\<lparr>db_background_jobs :=
       [example_job\<lparr>bj_status := Job_FAILED\<rparr>]\<rparr>))) = Some j' \<and> bj_status j' = Job_FAILED"
proof -
  let ?d = "example_job_db\<lparr>db_background_jobs := [example_job\<lparr>bj_status := Job_FAILED\<rparr>]\<rparr>"
  have "job_step example_app_env default_settings idle_services ?d (snd (dispatch_once example_app_env 5 ?d))"
    by (rule step_dispatch [OF prod.collapse [symmetric]])
  from ended_jobs_stay_ended [OF this idle_services_ok, of 1 "example_job\<lparr>bj_status := Job_FAILED\<rparr>"]
  show ?thesis by (auto simp: get_job_def terminal_job_statuses_def)
qed



text \<open>A delivery runs once: after one worker claimed a job, every other delivery of the same job is
  refused, at any time, until the job leaves the state RUNNING, and the refusal writes nothing.\<close>

theorem job_is_claimed_once:
  assumes "claim_job env now i d = (Inr True, d')"
  shows "claim_job env' now' i d' = (Inr False, d')"
  using assms
proof (cases rule: claim_job_cases)
  case (claimed j)
  then have "job_view i d' = Some (Job_RUNNING, bj_attempt_count j + 1, bj_max_attempts j)"
    by (simp add: moved_def)
  then obtain j' where "get_job i d' = Some j'" "bj_status j' = Job_RUNNING"
    by (auto simp: job_view_def view_of_def)
  then show ?thesis by (simp add: claim_job_def transaction_def comp_simps terminal_job_statuses_def)
qed simp

lemma example_claims: "fst (claim_job example_app_env 5 1 example_job_db) = Inr True"
  by (simp add: claim_job_def transaction_def comp_simps example_get_job [simplified]
      terminal_job_statuses_def set_job_def mark_proposal_applying_def job_proposal_def dict_get_def)

theorem job_is_claimed_once_witness:
  "fst (claim_job example_app_env 7 1 (snd (claim_job example_app_env 5 1 example_job_db))) = Inr False"
proof -
  obtain d' where run: "claim_job example_app_env 5 1 example_job_db = (Inr True, d')"
    using example_claims by (metis prod.collapse)
  from job_is_claimed_once [OF run, of example_app_env 7] run show ?thesis by simp
qed

text \<open>Creating a job is idempotent: repeating the request of a job that was created, with a payload
  that is equal up to the order of keys, returns that job and writes nothing; with another payload it
  is refused with 409 and writes nothing.\<close>

theorem job_creation_is_idempotent:
  assumes "create_job env cfg now user job_type payload key d = (Inr j, d')"
  shows "create_job env' cfg' now' user job_type payload' key d' =
    (if canon_json (JObj payload') = canon_json (JObj payload) then Inr j
     else Inl (AppErr 409 ''IDEMPOTENCY_CONFLICT''), d')"
proof -
  have "find (job_keyed user job_type key) (db_background_jobs d') = Some j
      \<and> canon_json (JObj (bj_payload j)) = canon_json (JObj payload)"
  proof (cases "find (job_keyed user job_type key) (db_background_jobs d)")
    case None
    then have "find (job_keyed user job_type key) (db_background_jobs d @ [j]) = Some j"
      if "job_keyed user job_type key j" using that by (simp add: find_append)
    then show ?thesis
      using assms None
      by (auto simp: create_job_def transaction_def comp_simps add_event_def new_job_def job_keyed_def)
  next
    case (Some x)
    then show ?thesis
      using assms by (auto simp: create_job_def transaction_def comp_simps app_error_def split: if_splits)
  qed
  then show ?thesis
    by (auto simp: create_job_def transaction_def comp_simps app_error_def simp del: canon_json.simps)
qed

theorem job_creation_is_idempotent_witness:
  "fst (create_job example_app_env default_settings 9 1 ''GENERATE_PLAN'' [(''x'', JNull)] ''k''
     (snd (create_job example_app_env default_settings 0 1 ''GENERATE_PLAN'' [] ''k'' empty_db)))
   = Inl (AppErr 409 ''IDEMPOTENCY_CONFLICT'')"
  using job_creation_is_idempotent [OF example_creates, of example_app_env default_settings 9
      "[(''x'', JNull)]"]
  by simp

subsection \<open>Failures\<close>

lemma jobs_kept_job_proposal: "jobs_kept (job_proposal env j)"
  unfolding job_proposal_def Let_def by (intro jobs_kept_intros)

lemma jobs_kept_failed: "jobs_kept (mark_proposal_failed env code j)" "jobs_kept (fail_evaluation env now j code)"
  unfolding mark_proposal_failed_def fail_evaluation_def set_evaluation_failed_def Let_def
  by (intro jobs_kept_intros jobs_kept_job_proposal jobs_kept_modify; simp)+

lemma jobs_keptD: "jobs_kept m \<Longrightarrow> m d = (r, d') \<Longrightarrow> db_background_jobs d' = db_background_jobs d"
  by (auto simp: jobs_kept_def dest: keeps_resultD)

lemma handle_failure_row:
  assumes "handle_failure env cfg u now i err d = (Inr (), d')" and "get_job i d = Some j"
  shows "get_job i d' = Some (record_failure cfg u now err j)"
proof -
  obtain z d1 where set: "set_job i (record_failure cfg u now err) d = (z, d1)" by fastforce
  have z: "z = Inr ()" using set by (auto simp: set_job_def modify_def)
  have d1: "get_job i d1 = Some (record_failure cfg u now err j)"
    using get_job_set [OF record_failure_view(1) set, of i] assms(2) by simp
  let ?tail = "if is_transient_exn err \<and> bj_attempt_count j < bj_max_attempts j then ret ()
     else andthen (mark_proposal_failed env (exn_code err) j) (\<lambda>_. fail_evaluation env now j (exn_code err))"
  have "jobs_kept ?tail" by (intro jobs_kept_intros jobs_kept_failed)
  moreover have "?tail d1 = (Inr (), d')"
    using assms set z
    by (cases "is_transient_exn err \<and> bj_attempt_count j < bj_max_attempts j")
      (auto simp: handle_failure_def transaction_def andthen_apply comp_simps split: sum.splits prod.splits)
  ultimately show ?thesis using d1 jobs_keptD [of ?tail d1 "Inr ()" d'] by (simp add: get_job_def)
qed

text \<open>A failed attempt is settled once: a transient failure with an attempt left makes the job wait,
  no delivery claims it before its time and from then on the dispatcher takes it; a transient failure
  of the last attempt dead-letters it, any other failure fails it, and then no delivery claims it.\<close>

theorem failed_attempt_is_settled:
  assumes "handle_failure env cfg u now i err d = (Inr (), d')" and "get_job i d = Some j"
  shows "\<exists>j'. get_job i d' = Some j' \<and> bj_attempt_count j' = bj_attempt_count j
    \<and> (if is_transient_exn err \<and> bj_attempt_count j < bj_max_attempts j
       then bj_status j' = Job_RETRY_WAIT \<and> (\<forall>t. dispatchable t j' \<longleftrightarrow>
              now + py_round (job_retry_delay cfg u (bj_attempt_count j)) \<le> t)
         \<and> (\<forall>t. t < now + py_round (job_retry_delay cfg u (bj_attempt_count j)) \<longrightarrow>
              claim_job env t i d' = (Inr False, d'))
       else bj_status j' = (if is_transient_exn err then Job_DEAD_LETTER else Job_FAILED)
         \<and> (\<forall>t. claim_job env t i d' = (Inr False, d')))"
  using handle_failure_row [OF assms] record_failure_view(2) [of cfg u now err j]
  by (auto simp: record_failure_def Let_def dispatchable_def claim_job_def transaction_def comp_simps
      terminal_job_statuses_def view_of_def)

lemma example_fails:
  "handle_failure example_app_env default_settings 0 7 1 (PyExc ''ValueError'') example_job_db =
    (Inr (), snd (handle_failure example_app_env default_settings 0 7 1 (PyExc ''ValueError'') example_job_db))"
  by (simp add: handle_failure_def transaction_def comp_simps example_get_job [simplified] set_job_def
      mark_proposal_failed_def job_proposal_def dict_get_def is_transient_exn_def fail_evaluation_def)

theorem failed_attempt_is_settled_witness:
  "\<exists>j'. get_job 1 (snd (handle_failure example_app_env default_settings 0 7 1 (PyExc ''ValueError'')
      example_job_db)) = Some j' \<and> bj_status j' = Job_FAILED"
  using failed_attempt_is_settled [OF example_fails example_get_job]
  by (auto simp: is_transient_exn_def)

text \<open>The delay before a retry is at least a tenth of a second, and at most the configured maximum
  plus a fifth of jitter.\<close>

theorem job_retry_delay_is_bounded:
  assumes "0 \<le> u" and "u \<le> 1" and "0 \<le> cfg_job_retry_base_seconds cfg" and "0 \<le> cfg_job_retry_max_seconds cfg"
  shows "1 / 10 \<le> job_retry_delay cfg u n
    \<and> job_retry_delay cfg u n \<le> max (1 / 10) (cfg_job_retry_max_seconds cfg * (12 / 10))"
proof -
  define raw where "raw = min (cfg_job_retry_max_seconds cfg)
    (cfg_job_retry_base_seconds cfg * 2 ^ nat (max 0 (n - 1)))"
  have "0 \<le> raw" "raw \<le> cfg_job_retry_max_seconds cfg" using assms by (simp_all add: raw_def)
  then have "raw * (8 / 10 + u * (4 / 10)) \<le> cfg_job_retry_max_seconds cfg * (12 / 10)"
    using assms by (intro mult_mono) auto
  then show ?thesis by (auto simp: job_retry_delay_def Let_def raw_def)
qed

theorem job_retry_delay_is_bounded_witness: "job_retry_delay default_settings (1 / 2) 9 \<le> 72"
  using job_retry_delay_is_bounded [of "1 / 2" default_settings 9] by (simp add: default_settings_def)

subsection \<open>Reconciliation\<close>

definition stale_job :: "settings \<Rightarrow> time \<Rightarrow> background_job_row \<Rightarrow> bool" where
  "stale_job cfg now j \<longleftrightarrow> bj_status j = Job_RUNNING
     \<and> (\<exists>t. bj_started_at j = Some t \<and> t < now - cfg_job_reconciliation_seconds cfg)"

lemma still_running_cong:
  "db_agent_runs d = db_agent_runs d' \<Longrightarrow> still_running cfg now d = still_running cfg now d'"
  by (simp add: still_running_def fun_eq_iff)

lemma keeps_runs_failed: "keeps (\<lambda>d. db_agent_runs d = rs) (mark_proposal_failed env code j)"
  unfolding mark_proposal_failed_def job_proposal_def set_proposal_def Let_def
  by (intro keeps_andthen keeps_if keeps_option keeps_ret keeps_gets keeps_lift_result keeps_modify) simp

lemma reconcile_job_rows:
  assumes "reconcile_job env now j d = (Inr x, d')" and "get_job (bj_id j) d = Some j"
  shows "db_agent_runs d' = db_agent_runs d
    \<and> get_job k d' = (if k = bj_id j then Some (reconcile_row now j) else get_job k d)"
proof -
  obtain z d1 where set: "set_job (bj_id j) (reconcile_row now) d = (z, d1)" by fastforce
  have z: "z = Inr ()" "db_agent_runs d1 = db_agent_runs d"
    using set by (auto simp: set_job_def modify_def)
  have row: "bj_id (reconcile_row now x) = bj_id x" for x by (simp add: reconcile_row_def)
  have d1: "get_job k d1 = (if k = bj_id j then Some (reconcile_row now j) else get_job k d)"
    using get_job_set [OF row set, of k] assms(2) by (auto simp: get_job_def option.map_ident)
  let ?tail = "if bj_max_attempts j \<le> bj_attempt_count j
      then mark_proposal_failed env ''STALE_JOB_EXHAUSTED'' j else ret ()"
  have tail: "?tail d1 = (Inr x, d')" using assms(1) set z(1) by (simp add: reconcile_job_def andthen_apply)
  have "jobs_kept ?tail" by (intro jobs_kept_intros jobs_kept_failed)
  moreover have "keeps (\<lambda>d. db_agent_runs d = db_agent_runs d1) ?tail"
    by (intro keeps_if keeps_runs_failed keeps_ret)
  ultimately show ?thesis
    using d1 z(2) jobs_keptD [of ?tail d1 "Inr x" d'] tail
      keeps_resultD [of "\<lambda>d. db_agent_runs d = db_agent_runs d1" ?tail d1 "Inr x" d']
    by (simp add: get_job_def)
qed

lemma reconcile_jobs_rows:
  assumes "reconcile_jobs env cfg now js d = (Inr n, d')" and "distinct (map bj_id js)"
    and "\<And>j. j \<in> set js \<Longrightarrow> get_job (bj_id j) d = Some j"
  shows "db_agent_runs d' = db_agent_runs d \<and> (\<forall>k. get_job k d' =
    (case find (\<lambda>j. bj_id j = k) js of
       Some j \<Rightarrow> Some (if still_running cfg now d j then j else reconcile_row now j)
     | None \<Rightarrow> get_job k d))"
  using assms
proof (induction js arbitrary: d n)
  case (Cons j js)
  have out: "find (\<lambda>x. bj_id x = bj_id j) js = None"
    using Cons.prems(2) by (auto simp: find_None_iff image_iff)
  show ?case
  proof (cases "still_running cfg now d j")
    case True
    then have "reconcile_jobs env cfg now js d = (Inr n, d')"
      using Cons.prems(1) by (simp add: andthen_apply comp_simps)
    from Cons.IH [OF this] Cons.prems(2,3) show ?thesis
      using True out by (auto split: option.split)
  next
    case False
    obtain x d1 m where j: "reconcile_job env now j d = (Inr x, d1)"
      and rest: "reconcile_jobs env cfg now js d1 = (Inr m, d')"
      using Cons.prems(1) False by (auto simp: andthen_apply comp_simps split: prod.splits sum.splits)
    have row: "db_agent_runs d1 = db_agent_runs d"
      "get_job k d1 = (if k = bj_id j then Some (reconcile_row now j) else get_job k d)" for k
      using reconcile_job_rows [OF j, of k] Cons.prems(3) [of j] by auto
    have "get_job (bj_id y) d1 = Some y" if "y \<in> set js" for y
      using that Cons.prems(2) row(2) [of "bj_id y"] Cons.prems(3) [of y] by (auto simp: image_iff)
    from Cons.IH [OF rest _ this] Cons.prems(2) show ?thesis
      using row False out still_running_cong [OF row(1)]
      by (auto simp: fun_eq_iff split: option.split)
  qed
qed (simp add: comp_simps)

text \<open>A reconciliation recovers exactly the abandoned jobs: a job that has been RUNNING for longer
  than the reconciliation interval and is not kept alive by the lease of its run (or by its hard limit)
  is dead-lettered when its attempts are used up, and otherwise made available to the dispatcher at
  once; every other job keeps its row.\<close>

theorem abandoned_jobs_are_recovered:
  assumes "reconcile_stale_jobs env cfg now d = (Inr n, d')"
    and "distinct (map bj_id (db_background_jobs d))" and "get_job k d = Some j"
  shows "get_job k d' = Some (if stale_job cfg now j \<and> \<not> still_running cfg now d j
        then reconcile_row now j else j)
    \<and> (bj_attempt_count j < bj_max_attempts j \<longrightarrow> dispatchable now (reconcile_row now j))
    \<and> (bj_max_attempts j \<le> bj_attempt_count j \<longrightarrow> bj_status (reconcile_row now j) = Job_DEAD_LETTER)"
proof -
  let ?js = "filter (stale_job cfg now) (db_background_jobs d)"
  have stale: "stale_job cfg now = (\<lambda>j. bj_status j = Job_RUNNING
      \<and> (\<exists>t. bj_started_at j = Some t \<and> t < now - cfg_job_reconciliation_seconds cfg))"
    by (simp add: stale_job_def fun_eq_iff)
  have run: "reconcile_jobs env cfg now ?js d = (Inr n, d')"
    using assms(1) unfolding stale
    by (auto simp: reconcile_stale_jobs_def transaction_def comp_simps split: prod.splits sum.splits)
  have rows: "get_job (bj_id x) d = Some x" if "x \<in> set ?js" for x
    using that assms(2) by (auto simp: get_job_def intro: find_row_by_id)
  have ids: "distinct (map bj_id ?js)" using assms(2) by (rule distinct_map_filter)
  have jk: "j \<in> set (db_background_jobs d)" "bj_id j = k"
    using assms(3) by (auto simp: get_job_def dest: find_SomeD)
  have "find (\<lambda>x. bj_id x = k) ?js = (if stale_job cfg now j then Some j else None)"
  proof (cases "stale_job cfg now j")
    case True
    then show ?thesis using find_row_by_id [OF ids, of j k] jk by simp
  next
    case False
    have "x = j" if "x \<in> set (db_background_jobs d)" "bj_id x = k" for x
      using that jk assms(2) by (metis find_row_by_id option.inject)
    then show ?thesis using False by (auto simp: find_None_iff)
  qed
  then show ?thesis
    using reconcile_jobs_rows [OF run ids rows] assms(3)
    by (auto simp: reconcile_row_def dispatchable_def)
qed

definition example_stale_job :: background_job_row where
  "example_stale_job = example_job\<lparr>bj_status := Job_RUNNING, bj_started_at := Some 0, bj_attempt_count := 1\<rparr>"

theorem abandoned_jobs_are_recovered_witness:
  "\<exists>d'. get_job 1 d' = Some (reconcile_row 1000 example_stale_job)
     \<and> dispatchable 1000 (reconcile_row 1000 example_stale_job)"
proof -
  let ?d = "example_job_db\<lparr>db_background_jobs := [example_stale_job]\<rparr>"
  have stale: "stale_job default_settings 1000 example_stale_job"
    "\<not> still_running default_settings 1000 ?d example_stale_job"
    by (simp_all add: stale_job_def still_running_def example_stale_job_def default_settings_def)
  have job: "get_job 1 ?d = Some example_stale_job"
    by (simp add: get_job_def example_stale_job_def)
  obtain n d' where run: "reconcile_stale_jobs example_app_env default_settings 1000 ?d = (Inr n, d')"
    by (auto simp: reconcile_stale_jobs_def transaction_def comp_simps reconcile_job_def set_job_def
        example_stale_job_def default_settings_def still_running_def)
  from abandoned_jobs_are_recovered [OF run _ job] stale show ?thesis
    by (intro exI [of _ d']) (simp add: example_stale_job_def)
qed

subsection \<open>A diagnosis as a job\<close>

text \<open>The diagnosis of a run, with its lease, checkpoints, ledger and tools, leaves the machine of
  every background job alone: no job is added, removed, moved or attempted by it, whatever the model
  answers.\<close>

theorem diagnosis_moves_no_job:
  assumes "service_keeps ds" and "diagnosis_job ds now job d = (r, d')"
  shows "map bj_id (db_background_jobs d') = map bj_id (db_background_jobs d)
    \<and> job_view k d' = job_view k d"
  using leaves_jobsD [OF diagnosis_leaves_jobs [OF assms(1)] assms(2)]
    keeps_idsD [OF leaves_jobs_ids [OF diagnosis_leaves_jobs [OF assms(1)]] assms(2)]
  by (simp add: job_ids_def)

definition example_diagnosis :: diagnosis_service where
  "example_diagnosis = \<lparr>ds_app_env = example_app_env, ds_store_env = example_store_env,
     ds_settings = default_settings, ds_owner = ''w1'', ds_today = date_of_time,
     ds_gateway = (\<lambda>st tools. andthen (modify (\<lambda>(now, d). (now + 3, d))) (\<lambda>_. throw (ModelUnavailableErr []))),
     ds_schema = (\<lambda>_. JObj []), ds_sleep = (\<lambda>_. ret ()), ds_monotonic = (\<lambda>w. of_int (fst w)),
     ds_random = (\<lambda>w. (1 / 2, w))\<rparr>"

lemma example_diagnosis_keeps: "service_keeps example_diagnosis"
  by (auto simp: service_keeps_def example_diagnosis_def keeps_def comp_simps same_jobs_def)

theorem diagnosis_moves_no_job_witness:
  "job_view 1 (snd (diagnosis_job example_diagnosis 5
     (example_job\<lparr>bj_payload := [(''student_id'', JStr ''1'')]\<rparr>) example_job_db))
   = Some (Job_QUEUED, 0, 3)"
  using diagnosis_moves_no_job [OF example_diagnosis_keeps prod.collapse [symmetric], where k = 1 and now = 5 and d = example_job_db and job =
      "example_job\<lparr>bj_payload := [(''student_id'', JStr ''1'')]\<rparr>"]
  by (simp add: job_view_def example_get_job [simplified] view_of_def)

end
