(* ===== verification/Proposals.thy ===== *)
theory Proposals
  imports Agent_Runs
begin

text \<open>
  What the API does with runs and proposals: \<open>AgentQueryService\<close> (the owned run, the replay, the
  request to cancel) and \<open>ProposalService\<close> (the decision of the student) of
  \<^verbatim>\<open>app/application/agent_runs.py\<close>, and the shadow evaluations of
  \<^verbatim>\<open>app/application/shadow_evaluations.py\<close>. The run of the candidate model on its simulated tools is
  the parameter \<open>candidate\<close> of \<open>execute_evaluation\<close>.
\<close>

subsection \<open>Runs of a user\<close>

text \<open>The join of a run with its job, restricted to the user's jobs.\<close>

definition owned_run_row :: "uuid \<Rightarrow> uuid \<Rightarrow> db \<Rightarrow> agent_run_row option" where
  "owned_run_row user run d = find (\<lambda>r. ag_id r = run
     \<and> list_ex (\<lambda>j. bj_id j = ag_job_id r \<and> bj_user_id j = Some user) (db_background_jobs d))
     (db_agent_runs d)"

definition owned_run ::
  "uuid \<Rightarrow> uuid \<Rightarrow> (agent_run_row \<times> agent_step_row list \<times> tool_invocation_row list \<times> proposal_row list) db_comp"
where
  "owned_run user run =
    andthen (gets (owned_run_row user run)) (\<lambda>r.
    andthen (found_or r (AppErr 404 ''AGENT_RUN_NOT_FOUND'')) (\<lambda>r.
    gets (\<lambda>d. (r, sort_key stp_step_number (filter (\<lambda>s. stp_run_id s = ag_id r) (db_agent_steps d)),
       filter (\<lambda>t. ti_run_id t = ag_id r) (db_tool_invocations d),
       filter (\<lambda>p. pr_run_id p = ag_id r) (db_proposals d)))))"

fun run_status_value :: "agent_run_status \<Rightarrow> string" where
  "run_status_value Run_PENDING = ''PENDING''"
| "run_status_value Run_RUNNING = ''RUNNING''"
| "run_status_value Run_COMPLETED = ''COMPLETED''"
| "run_status_value Run_FAILED = ''FAILED''"
| "run_status_value Run_STALLED = ''STALLED''"
| "run_status_value Run_CANCEL_REQUESTED = ''CANCEL_REQUESTED''"
| "run_status_value Run_CANCELLED = ''CANCELLED''"

definition json_opt :: "string option \<Rightarrow> json" where
  "json_opt x = (case x of None \<Rightarrow> JNull | Some s \<Rightarrow> JStr s)"

definition replay_attempt :: "model_invocation_row \<Rightarrow> json" where
  "replay_attempt m = JObj [(''attempt_number'', JInt (mi_attempt_number m)),
     (''purpose'', JStr (mi_purpose m)), (''model_name'', JStr (mi_model_name m)),
     (''status'', JStr (mi_status m)), (''input_tokens'', JInt (mi_input_tokens m)),
     (''output_tokens'', JInt (mi_output_tokens m)), (''latency_ms'', JInt (mi_latency_ms m)),
     (''error_code'', json_opt (mi_error_code m))]"

definition replay_tool :: "tool_invocation_row \<Rightarrow> json" where
  "replay_tool t = JObj [(''name'', JStr (ti_tool_name t)), (''status'', JStr (ti_status t)),
     (''retry_count'', JInt (ti_retry_count t)), (''error_code'', json_opt (ti_error_code t)),
     (''replayed'', JBool (ti_replayed t)), (''observation'', json_opt (ti_observation_digest t))]"

definition replay_guardrail :: "guardrail_event_row \<Rightarrow> json" where
  "replay_guardrail g = JObj [(''decision'', JStr (ge_decision g)),
     (''reason_code'', JStr (ge_reason_code g)), (''tool_name'', json_opt (ge_tool_name g))]"

definition replay_checkpoint :: "checkpoint_row \<Rightarrow> json" where
  "replay_checkpoint c = JObj [(''version'', JInt (ck_checkpoint_version c)),
     (''state_hash'', JStr (ck_state_hash c)), (''resume_safe'', JBool (ck_resume_safe c)),
     (''fencing_token'', JInt (ck_fencing_token c))]"

definition json_first :: "('a \<Rightarrow> json) \<Rightarrow> 'a option \<Rightarrow> json" where
  "json_first f x = (case x of None \<Rightarrow> JNull | Some a \<Rightarrow> f a)"

text \<open>One entry of the timeline, from the run's rows in their order.\<close>

definition replay_step ::
  "model_invocation_row list \<Rightarrow> tool_invocation_row list \<Rightarrow> guardrail_event_row list
   \<Rightarrow> checkpoint_row list \<Rightarrow> agent_step_row \<Rightarrow> json" where
  "replay_step models tools guardrails checkpoints s = JObj
     [(''step_number'', JInt (stp_step_number s)), (''action'', JObj (stp_action s)),
      (''model_attempts'', JList (map replay_attempt (filter (\<lambda>m. mi_step_id m = stp_id s) models))),
      (''tool'', json_first replay_tool (find (\<lambda>t. ti_step_id t = stp_id s) tools)),
      (''guardrails'', JList (map replay_guardrail
         (filter (\<lambda>g. ge_step_id g = Some (stp_id s)) guardrails))),
      (''checkpoint'', json_first replay_checkpoint
         (find (\<lambda>c. ck_step_number c = stp_step_number s) checkpoints))]"

definition replay :: "app_env \<Rightarrow> uuid \<Rightarrow> uuid \<Rightarrow> jobj db_comp" where
  "replay env user run =
    andthen (owned_run user run) (\<lambda>(r, steps, tools, proposals).
    gets (\<lambda>d. let
        models = sort_key mi_created_at (filter (\<lambda>m. mi_run_id m = ag_id r) (db_model_invocations d));
        checkpoints = sort_key ck_step_number (filter (\<lambda>c. ck_run_id c = ag_id r) (db_checkpoints d));
        guardrails = sort_key ge_created_at (filter (\<lambda>g. ge_run_id g = ag_id r) (db_guardrail_events d))
      in [(''run_id'', JStr (ae_uuid_str env (ag_id r))),
          (''status'', JStr (run_status_value (ag_status r))),
          (''termination_reason'', json_opt (ag_termination_reason r)),
          (''read_only'', JBool True), (''side_effects_executed'', JBool False),
          (''timeline'', JList (map (replay_step models tools guardrails checkpoints) steps)),
          (''proposal_ids'', JList (map (\<lambda>p. JStr (ae_uuid_str env (pr_id p))) proposals))]))"

definition ended_run :: "agent_run_status \<Rightarrow> bool" where
  "ended_run s \<longleftrightarrow> s \<in> {Run_COMPLETED, Run_FAILED, Run_STALLED, Run_CANCELLED}"

definition request_cancel :: "time \<Rightarrow> uuid \<Rightarrow> uuid \<Rightarrow> agent_run_row db_comp" where
  "request_cancel now user run = transaction
    (andthen (gets (owned_run_row user run)) (\<lambda>r. case r of
       None \<Rightarrow> app_error 404 ''AGENT_RUN_NOT_FOUND''
     | Some r \<Rightarrow>
         if ended_run (ag_status r) then ret r
         else
           (let f = (\<lambda>r. r\<lparr>ag_status := Run_CANCEL_REQUESTED, ag_cancel_requested_at := Some now\<rparr>) in
            andthen (modify (update_run (ag_id r) f)) (\<lambda>_. ret (f r)))))"

subsection \<open>Deciding a proposal\<close>

definition owned_proposal :: "uuid \<Rightarrow> uuid \<Rightarrow> db \<Rightarrow> proposal_row option" where
  "owned_proposal user i d = find (\<lambda>p. pr_id p = i
     \<and> list_ex (\<lambda>r. ag_id r = pr_run_id p
        \<and> list_ex (\<lambda>j. bj_id j = ag_job_id r \<and> bj_user_id j = Some user) (db_background_jobs d))
       (db_agent_runs d)) (db_proposals d)"

text \<open>One entry of the evidence snapshot still describes the row it names.\<close>

definition evidence_matches :: "app_env \<Rightarrow> uuid \<Rightarrow> db \<Rightarrow> jobj \<Rightarrow> exn + bool" where
  "evidence_matches env student d e =
    (let source = dict_get e ''source_id'' JNull; v = dict_get e ''version'' JNull in
     if \<not> json_truthy source \<or> \<not> json_truthy v then Inr False
     else if map_of e ''evidence_type'' = Some (JStr ''QUESTION_ATTEMPT'') then
       map_sum id (\<lambda>i. case find (\<lambda>a. qa_id a = i) (db_question_attempts d) of
           None \<Rightarrow> False
         | Some a \<Rightarrow> qa_student_id a = student \<and> ae_isoformat env (qa_created_at a) = json_str env v)
         (parse_uuid env source)
     else if map_of e ''evidence_type'' = Some (JStr ''PLAN_TASK'') then
       map_sum id (\<lambda>i. case find (\<lambda>t. pt_id t = i \<and> owns_plan student (pt_plan_id t) d) (db_plan_tasks d) of
           None \<Rightarrow> False
         | Some t \<Rightarrow> show_int (pt_version t) = json_str env v)
         (parse_uuid env source)
     else Inr False)"

fun all_evidence_matches :: "app_env \<Rightarrow> uuid \<Rightarrow> db \<Rightarrow> jobj list \<Rightarrow> exn + bool" where
  "all_evidence_matches env student d [] = Inr True"
| "all_evidence_matches env student d (e # es) = (case evidence_matches env student d e of
     Inl err \<Rightarrow> Inl err
   | Inr False \<Rightarrow> Inr False
   | Inr True \<Rightarrow> all_evidence_matches env student d es)"

definition evidence_is_current :: "app_env \<Rightarrow> proposal_row \<Rightarrow> db \<Rightarrow> exn + bool" where
  "evidence_is_current env p d =
    (if pr_evidence_snapshot p = [] then Inr False
     else all_evidence_matches env (pr_student_id p) d (pr_evidence_snapshot p))"

definition expired_proposal :: "time \<Rightarrow> proposal_row \<Rightarrow> bool" where
  "expired_proposal now p \<longleftrightarrow> (case pr_approval_expires_at p of None \<Rightarrow> False | Some t \<Rightarrow> t \<le> now)"

definition decided_row :: "time \<Rightarrow> uuid \<Rightarrow> bool \<Rightarrow> string option \<Rightarrow> proposal_row \<Rightarrow> proposal_row" where
  "decided_row now user approve reason p = p\<lparr>
     pr_status := (if approve then Prop_APPROVED else Prop_REJECTED), pr_decided_at := Some now,
     pr_reviewer_user_id := Some user, pr_review_reason := reason\<rparr>"

definition create_replan_job ::
  "app_env \<Rightarrow> settings \<Rightarrow> time \<Rightarrow> uuid \<Rightarrow> proposal_row \<Rightarrow> string \<Rightarrow> background_job_row db_comp" where
  "create_replan_job env cfg now user p key =
    create_job env cfg now user ''GENERATE_PLAN''
      [(''start_date'', JStr (ae_date_iso env (date_of_time now))),
       (''proposal_id'', JStr (ae_uuid_str env (pr_id p)))] key"

text \<open>What an approval starts, by the type of the proposal.\<close>

definition start_approved ::
  "app_env \<Rightarrow> settings \<Rightarrow> time \<Rightarrow> date \<Rightarrow> string \<Rightarrow> proposal_row \<Rightarrow> background_job_row option db_comp" where
  "start_approved env cfg now today key p = (case pr_proposal_type p of
     PT_MINOR_ADJUST \<Rightarrow> andthen (apply_approved_minor_proposal env now today p) (\<lambda>_. ret None)
   | PT_MAJOR_REPLAN \<Rightarrow>
       andthen (gets (find_run (pr_run_id p))) (\<lambda>run.
       andthen (found_or run (PyExc ''RuntimeError'')) (\<lambda>run.
       andthen (gets (get_job (ag_job_id run))) (\<lambda>job.
       andthen (found_or (Option.bind job bj_user_id) (PyExc ''RuntimeError'')) (\<lambda>owner.
       andthen (create_replan_job env cfg now owner p key) (\<lambda>j. ret (Some j))))))
   | _ \<Rightarrow>
       andthen (set_proposal (pr_id p) (\<lambda>p. p\<lparr>pr_status := Prop_APPLY_FAILED,
         pr_apply_error_code := Some ''DETERMINISTIC_APPLIER_NOT_AVAILABLE''\<rparr>)) (\<lambda>_. ret None))"

definition decide ::
  "app_env \<Rightarrow> settings \<Rightarrow> time \<Rightarrow> date \<Rightarrow> uuid \<Rightarrow> uuid \<Rightarrow> bool \<Rightarrow> string \<Rightarrow> string option
   \<Rightarrow> (proposal_row \<times> background_job_row option) db_comp" where
  "decide env cfg now today user i approve key reason = transaction
    (andthen (gets (owned_proposal user i)) (\<lambda>found.
     andthen (found_or found (AppErr 404 ''PROPOSAL_NOT_FOUND'')) (\<lambda>p.
     andthen
       (if pr_status p \<notin> {Prop_AWAITING_CONFIRMATION, Prop_PENDING} then ret None
        else if expired_proposal now p then
          andthen (set_proposal i (\<lambda>p. p\<lparr>pr_status := Prop_EXPIRED, pr_decided_at := Some now\<rparr>))
            (\<lambda>_. ret None)
        else
          andthen (if approve then andthen (gets (evidence_is_current env p)) lift_result else ret True)
            (\<lambda>current.
            if \<not> current then
              andthen (set_proposal i (\<lambda>p. p\<lparr>pr_status := Prop_EXPIRED, pr_decided_at := Some now,
                pr_apply_error_code := Some ''EVIDENCE_STALE''\<rparr>)) (\<lambda>_. ret None)
            else
              andthen (set_proposal i (decided_row now user approve reason)) (\<lambda>_.
                if approve then start_approved env cfg now today key (decided_row now user approve reason p)
                else ret None))) (\<lambda>job.
     andthen (gets (get_proposal i)) (\<lambda>p'.
     andthen (found_or p' (PyExc ''RuntimeError'')) (\<lambda>p'. ret (p', job)))))))"

subsection \<open>Shadow evaluations\<close>

definition candidate_model :: "settings \<Rightarrow> exn + string" where
  "candidate_model cfg =
    (if cfg_use_fake_model cfg then Inr ''fake-diagnosis-v2''
     else case cfg_agent_shadow_model cfg of
       None \<Rightarrow> Inl (AppErr 422 ''SHADOW_MODEL_REQUIRED'')
     | Some m \<Rightarrow> if m = [] then Inl (AppErr 422 ''SHADOW_MODEL_REQUIRED'') else Inr m)"

definition require_admin :: "uuid \<Rightarrow> unit db_comp" where
  "require_admin user =
    andthen (gets (\<lambda>d. list_ex (\<lambda>r. ur_user_id r = user \<and> ur_role r = Role_ADMIN) (db_user_roles d)))
      (\<lambda>admin. if admin then ret () else app_error 403 ''ADMIN_REQUIRED'')"

definition new_evaluation ::
  "settings \<Rightarrow> time \<Rightarrow> uuid \<Rightarrow> agent_run_row \<Rightarrow> uuid \<Rightarrow> string \<Rightarrow> shadow_evaluation_row" where
  "new_evaluation cfg now i run user candidate = \<lparr>se_id = i, se_source_run_id = ag_id run,
     se_requested_by_user_id = user, se_job_id = None, se_status = ''QUEUED'',
     se_baseline_model = ag_model_version run, se_baseline_prompt_version = ag_prompt_version run,
     se_baseline_decision = None, se_baseline_confidence = None, se_candidate_model = candidate,
     se_candidate_prompt_version = cfg_agent_shadow_prompt_version cfg, se_candidate_decision = None,
     se_candidate_confidence = None, se_comparison = None, se_error_code = None,
     se_started_at = None, se_finished_at = None, se_created_at = now\<rparr>"

definition request_evaluation ::
  "app_env \<Rightarrow> settings \<Rightarrow> time \<Rightarrow> uuid \<Rightarrow> uuid \<Rightarrow> string
   \<Rightarrow> (shadow_evaluation_row \<times> background_job_row) db_comp" where
  "request_evaluation env cfg now user source key = transaction
    (andthen (require_admin user) (\<lambda>_.
     if \<not> cfg_agent_shadow_enabled cfg then app_error 409 ''SHADOW_EVALUATION_DISABLED''
     else
       andthen (gets (find_run source)) (\<lambda>run.
       andthen (found_or run (AppErr 404 ''AGENT_RUN_NOT_FOUND'')) (\<lambda>run.
       andthen (gets (\<lambda>d. find (job_keyed user ''SHADOW_EVALUATION'' key) (db_background_jobs d))) (\<lambda>existing.
       case existing of
         Some j \<Rightarrow>
           andthen (gets (\<lambda>d. find (\<lambda>e. se_job_id e = Some (bj_id j)) (db_shadow_evaluations d))) (\<lambda>e.
           andthen (found_or e (PyExc ''RuntimeError'')) (\<lambda>e. ret (e, j)))
       | None \<Rightarrow>
           andthen (lift_result (candidate_model cfg)) (\<lambda>candidate.
           andthen (gets (\<lambda>d. new_evaluation cfg now
              (fresh_id (map se_id (db_shadow_evaluations d))) run user candidate)) (\<lambda>e.
           andthen (create_job env cfg now user ''SHADOW_EVALUATION''
              [(''shadow_evaluation_id'', JStr (ae_uuid_str env (se_id e)))] key) (\<lambda>j.
           andthen (modify (\<lambda>d. d\<lparr>db_shadow_evaluations :=
              db_shadow_evaluations d @ [e\<lparr>se_job_id := Some (bj_id j)\<rparr>]\<rparr>)) (\<lambda>_.
           ret (e\<lparr>se_job_id := Some (bj_id j)\<rparr>, j))))))))))"

definition get_owned_evaluation :: "uuid \<Rightarrow> uuid \<Rightarrow> shadow_evaluation_row db_comp" where
  "get_owned_evaluation user i =
    andthen (gets (\<lambda>d. find (\<lambda>e. se_id e = i) (db_shadow_evaluations d))) (\<lambda>e. case e of
      None \<Rightarrow> app_error 404 ''SHADOW_EVALUATION_NOT_FOUND''
    | Some e \<Rightarrow> if se_requested_by_user_id e \<noteq> user then app_error 404 ''SHADOW_EVALUATION_NOT_FOUND''
        else ret e)"

text \<open>The registry of a shadow run: a tool with side effects is replaced by a simulation.\<close>

definition dry_definition :: "'w tool_definition \<Rightarrow> 'w tool_definition" where
  "dry_definition d =
    (if td_side_effect_level d = Effect_NONE then d
     else d\<lparr>td_handler := (\<lambda>_. ret (JObj [(''shadow'', JBool True), (''tool_name'', JStr (td_name d)),
              (''side_effect_executed'', JBool False)])),
            td_risk := Risk_READ, td_side_effect_level := Effect_NONE,
            td_idempotency_required := False, td_required_permissions := [],
            td_requires_confirmation := False, td_reconcile_handler := None\<rparr>)"

definition dry_run_registry :: "'w tool_registry \<Rightarrow> exn + 'w tool_registry" where
  "dry_run_registry source = register_all (map dry_definition (definitions_of source)) []"

text \<open>The decision that the evaluation compares with.\<close>

definition run_baseline :: "uuid \<Rightarrow> db \<Rightarrow> string option \<times> pyfloat option" where
  "run_baseline run d =
    (case sort_key (\<lambda>s. - stp_step_number s)
        (filter (\<lambda>s. stp_run_id s = run \<and> stp_action_type s = ''FINAL'') (db_agent_steps d)) of
       s # _ \<Rightarrow> (stp_decision s, Some (stp_confidence s))
     | [] \<Rightarrow> (case sort_key (\<lambda>p. - pr_created_at p) (filter (\<lambda>p. pr_run_id p = run) (db_proposals d)) of
         p # _ \<Rightarrow> (Some (proposal_type_value (pr_proposal_type p)), Some (pr_confidence p))
       | [] \<Rightarrow> (None, None)))"

definition set_evaluation ::
  "uuid \<Rightarrow> (shadow_evaluation_row \<Rightarrow> shadow_evaluation_row) \<Rightarrow> unit db_comp" where
  "set_evaluation i f = modify (\<lambda>d. d\<lparr>db_shadow_evaluations :=
     update_rows (\<lambda>e. se_id e = i) f (db_shadow_evaluations d)\<rparr>)"

definition shadow_state ::
  "app_env \<Rightarrow> time \<Rightarrow> shadow_evaluation_row \<Rightarrow> agent_run_row \<Rightarrow> background_job_row option
   \<Rightarrow> exn + runtime_state" where
  "shadow_state env now e run source =
    (let payload = (case source of None \<Rightarrow> [] | Some j \<Rightarrow> bj_payload j) in
     map_sum id (\<lambda>codes. (new_runtime_state (ae_uuid_str env (se_id e)) (ae_uuid_str env (ag_student_id run))
         (ag_goal run) now)
       \<lparr>observations := [[(''reason_codes'', JList codes),
          (''task_id'', JStr (json_str env (dict_get payload ''task_id'' (JStr [])))),
          (''shadow_source_run_id'', JStr (ae_uuid_str env (ag_id run)))]]\<rparr>)
      (json_iter (dict_get payload ''reason_codes'' (JList []))))"

definition json_float_opt :: "pyfloat option \<Rightarrow> json" where
  "json_float_opt x = (case x of None \<Rightarrow> JNull | Some f \<Rightarrow> JFloat f)"

definition evaluated_row ::
  "time \<Rightarrow> string option \<times> pyfloat option \<Rightarrow> agent_run_result \<Rightarrow> shadow_evaluation_row
   \<Rightarrow> shadow_evaluation_row" where
  "evaluated_row now baseline res e =
    (let ok = arr_termination_reason res = ''COMPLETED'' in
     e\<lparr>se_candidate_decision := arr_decision res, se_candidate_confidence := Some (arr_confidence res),
       se_comparison := Some
         [(''decision_match'', JBool (fst baseline = arr_decision res)),
          (''confidence_delta'', json_float_opt (map_option (\<lambda>c. arr_confidence res - c) (snd baseline))),
          (''side_effects_executed'', JBool False),
          (''termination_reason'', JStr (arr_termination_reason res))],
       se_status := (if ok then ''SUCCEEDED'' else ''FAILED''),
       se_error_code := (if ok then None else Some (arr_termination_reason res)),
       se_finished_at := Some now\<rparr>)"

definition execute_evaluation ::
  "app_env \<Rightarrow> time \<Rightarrow> (string \<Rightarrow> json)
   \<Rightarrow> (shadow_evaluation_row \<Rightarrow> db_world tool_registry \<Rightarrow> runtime_state \<Rightarrow> agent_run_result db_comp)
   \<Rightarrow> background_job_row \<Rightarrow> unit db_comp" where
  "execute_evaluation env now schema candidate job =
    (case map_of (bj_payload job) ''shadow_evaluation_id'' of
       None \<Rightarrow> throw (PyExc ''KeyError'')
     | Some v \<Rightarrow>
         andthen (lift_result (parse_uuid env v)) (\<lambda>i.
         andthen (gets (\<lambda>d. find (\<lambda>e. se_id e = i) (db_shadow_evaluations d))) (\<lambda>found.
         andthen (found_or found (AppErr 404 ''SHADOW_EVALUATION_NOT_FOUND'')) (\<lambda>e.
         andthen (gets (find_run (se_source_run_id e))) (\<lambda>run.
         andthen (found_or run (PyExc ''RuntimeError'')) (\<lambda>run.
         andthen (gets (run_baseline (ag_id run))) (\<lambda>baseline.
         andthen (set_evaluation i (\<lambda>e. e\<lparr>se_status := ''RUNNING'', se_started_at := Some now,
            se_baseline_decision := fst baseline, se_baseline_confidence := snd baseline\<rparr>)) (\<lambda>_.
         andthen (gets (get_job (ag_job_id run))) (\<lambda>source.
         andthen (lift_result (shadow_state env now e run source)) (\<lambda>st.
         andthen (lift_result (build_learning_tool_registry \<lparr>lt_env = env, lt_run_id = ag_id run,
            lt_student_id = ag_student_id run, lt_fencing_token = ag_fencing_token run,
            lt_schema = schema\<rparr>)) (\<lambda>tools.
         andthen (lift_result (dry_run_registry tools)) (\<lambda>reg.
         andthen (candidate e reg st) (\<lambda>res.
         andthen (set_evaluation i (evaluated_row now baseline res)) (\<lambda>_.
         set_job (bj_id job) (\<lambda>j. j\<lparr>bj_result := Some
           [(''shadow_evaluation_id'', JStr (ae_uuid_str env i)),
            (''status'', JStr (if arr_termination_reason res = ''COMPLETED'' then ''SUCCEEDED''
               else ''FAILED''))]\<rparr>)))))))))))))))"

end
