(* ===== verification/Agent_Properties.thy ===== *)
theory Agent_Properties
  imports Proposals Job_Properties
begin

text \<open>
  The properties of the learning tools and of the decisions on proposals, each applied to a small
  concrete database.
\<close>

subsection \<open>Examples\<close>

definition example_task :: "uuid \<Rightarrow> task_status \<Rightarrow> plan_task_row" where
  "example_task i status = \<lparr>pt_id = i, pt_plan_id = 1, pt_task_date = 10, pt_task_type = TT_COURSE_LEARNING,
     pt_title = [], pt_description = [], pt_resource_section_id = None, pt_suggested_scope = None,
     pt_target_count = 1, pt_planned_units = Some 10, pt_unit_type = None,
     pt_estimated_min_minutes = 60, pt_estimated_max_minutes = 60, pt_system_suggested_minutes = 60,
     pt_student_estimated_minutes = None, pt_effective_minutes = 60, pt_priority = 1,
     pt_status = status, pt_origin = Origin_SYSTEM, pt_is_personal = False,
     pt_has_capacity_warning = False, pt_reason = [], pt_modified_reason = None,
     pt_sequence = int i, pt_superseded_by_id = None, pt_version = 1, pt_created_at = 0\<rparr>"

definition example_plan :: weekly_plan_row where
  "example_plan = \<lparr>wp_id = 1, wp_student_id = 1, wp_start_date = 10, wp_end_date = 16,
     wp_revision = 1, wp_parent_plan_id = None, wp_planner_version = ''v1'', wp_status = Plan_ACTIVE,
     wp_generated_reason = [], wp_timezone = ''UTC'', wp_last_rolled_at = None, wp_version = 1,
     wp_created_at = 0\<rparr>"

definition example_proposal :: proposal_row where
  "example_proposal = \<lparr>pr_id = 1, pr_run_id = 1, pr_student_id = 1, pr_proposal_type = PT_MINOR_ADJUST,
     pr_status = Prop_PENDING, pr_payload = [(''adjustment_factor'', JFloat (8 / 10))],
     pr_reason_codes = [''SLOW''], pr_confidence = 8 / 10, pr_evidence_refs = [''1''],
     pr_evidence_snapshot = [[(''evidence_type'', JStr ''PLAN_TASK''), (''source_id'', JStr ''1''),
        (''version'', JStr ''1'')]],
     pr_idempotency_key = ''k1'', pr_decided_at = None, pr_approval_expires_at = None,
     pr_reviewer_user_id = None, pr_review_reason = None, pr_applied_at = None,
     pr_apply_error_code = None, pr_version = 1, pr_created_at = 0\<rparr>"

definition example_agent_db :: db where
  "example_agent_db = example_db\<lparr>
     db_background_jobs := [example_job\<lparr>bj_job_type := ''AGENT_DIAGNOSIS'',
       bj_payload := [(''student_id'', JStr ''1''), (''task_id'', JStr ''1'')]\<rparr>],
     db_weekly_plans := [example_plan],
     db_plan_tasks := [example_task 1 Task_COMPLETED, example_task 2 Task_PENDING],
     db_plan_task_knowledge := [\<lparr>ptk_task_id = 1, ptk_knowledge_id = 1\<rparr>,
       \<lparr>ptk_task_id = 2, ptk_knowledge_id = 1\<rparr>],
     db_proposals := [example_proposal]\<rparr>"

definition example_tools :: learning_tools where
  "example_tools = \<lparr>lt_env = example_app_env, lt_run_id = 1, lt_student_id = 1, lt_fencing_token = 1,
     lt_schema = (\<lambda>_. JObj [])\<rparr>"

definition example_arguments :: jobj where
  "example_arguments = [(''reason_codes'', JList [JStr ''SLOW'']), (''confidence'', JFloat (9 / 10)),
     (''evidence_refs'', JList [JStr ''11'']), (''_idempotency_key'', JStr ''k2'')]"

lemma example_agent_tables [simp]:
  "db_proposals example_agent_db = [example_proposal]" "db_question_attempts example_agent_db = []"
  "db_plan_tasks example_agent_db = [example_task 1 Task_COMPLETED, example_task 2 Task_PENDING]"
  "db_weekly_plans example_agent_db = [example_plan]"
  "db_agent_runs example_agent_db = [example_run]"
  "db_background_jobs example_agent_db = [example_job\<lparr>bj_job_type := ''AGENT_DIAGNOSIS'',
       bj_payload := [(''student_id'', JStr ''1''), (''task_id'', JStr ''1'')]\<rparr>]"
  "db_plan_task_knowledge example_agent_db = [\<lparr>ptk_task_id = 1, ptk_knowledge_id = 1\<rparr>,
       \<lparr>ptk_task_id = 2, ptk_knowledge_id = 1\<rparr>]"
  by (simp_all add: example_agent_db_def example_db_def empty_db_def)

lemma example_agent_fence: "fence_ok (Suc 0) 1 now (d\<lparr>db_proposals := ps\<rparr>) = fence_ok (Suc 0) 1 now d"
  "fence_ok (Suc 0) 1 now example_agent_db \<longleftrightarrow> now < 45"
  by (simp_all add: fence_ok_def find_run_def) (simp add: example_run_def)

lemma example_owns [simp]: "owns_plan (Suc 0) (Suc 0) example_agent_db"
  by (simp add: owns_plan_def example_plan_def)

lemma example_task_simps [simp]:
  "pt_id (example_task i s) = i" "pt_plan_id (example_task i s) = 1" "pt_task_date (example_task i s) = 10"
  "pt_task_type (example_task i s) = TT_COURSE_LEARNING" "pt_status (example_task i s) = s"
  "pt_origin (example_task i s) = Origin_SYSTEM" "pt_version (example_task i s) = 1"
  "pt_effective_minutes (example_task i s) = 60" "pt_sequence (example_task i s) = int i"
  by (simp_all add: example_task_def)

lemma example_owned [simp]:
  "owned_attempts i ids example_agent_db = []"
  "owned_tasks (Suc 0) [Suc (Suc 0)] example_agent_db = [example_task 2 Task_PENDING]"
  by (simp_all add: owned_attempts_def owned_tasks_def)

lemma example_proposes:
  "\<exists>v. propose example_tools PT_MINOR_ADJUST example_arguments 5 example_agent_db =
     (Inr v, snd (propose example_tools PT_MINOR_ADJUST example_arguments 5 example_agent_db))"
  by (simp add: propose_def Let_def transaction_def comp_simps assert_fence_cases example_tools_def
      example_agent_fence example_arguments_def proposal_keyed_def example_proposal_def json_str_def
      str_items_def dict_get_def example_app_env_def insert_proposal_def
      json_float_def map_sum_def)

subsection \<open>Proposing\<close>

definition owned_evidence :: "uuid \<Rightarrow> db \<Rightarrow> uuid \<Rightarrow> bool" where
  "owned_evidence student d u \<longleftrightarrow>
     (\<exists>a \<in> set (db_question_attempts d). qa_id a = u \<and> qa_student_id a = student)
     \<or> (\<exists>t \<in> set (db_plan_tasks d). pt_id t = u \<and> owns_plan student (pt_plan_id t) d)"

lemma parse_uuids_Inr:
  "parse_uuids env ss = Inr us \<Longrightarrow> map (ae_uuid_of env) ss = map Some us"
  by (induction ss arbitrary: us) (auto split: option.splits sum.splits simp: map_sum_def)

lemma insert_proposal_cases:
  assumes "insert_proposal lt now ptype key args refs ids d = (Inr p, d')"
  shows "d' = d\<lparr>db_proposals := db_proposals d @ [p]\<rparr>" "proposal_keyed (lt_run_id lt) key p"
    "pr_evidence_refs p = refs" "pr_student_id p = lt_student_id lt" "pr_proposal_type p = ptype"
    "\<And>u. u \<in> set ids \<Longrightarrow> owned_evidence (lt_student_id lt) d u"
proof -
  let ?as = "owned_attempts (lt_student_id lt) ids d" and ?ts = "owned_tasks (lt_student_id lt) ids d"
  have own: "set (map qa_id ?as) \<union> set (map pt_id ?ts) = set ids"
    using assms by (auto simp: insert_proposal_def andthen_apply comp_simps app_error_def split: if_splits)
  obtain factor codes conf where p: "p = new_proposal lt now (fresh_id (map pr_id (db_proposals d))) ptype key refs
      (map (attempt_evidence (lt_env lt)) ?as @ map (task_evidence (lt_env lt)) ?ts) codes conf factor"
    and d': "d' = d\<lparr>db_proposals := db_proposals d @ [p]\<rparr>"
    using assms own
    by (auto simp: insert_proposal_def andthen_apply comp_simps app_error_def split: if_splits sum.splits)
  show "d' = d\<lparr>db_proposals := db_proposals d @ [p]\<rparr>" by (rule d')
  show "proposal_keyed (lt_run_id lt) key p" "pr_evidence_refs p = refs"
    "pr_student_id p = lt_student_id lt" "pr_proposal_type p = ptype"
    by (simp_all add: p new_proposal_def proposal_keyed_def)
  show "owned_evidence (lt_student_id lt) d u" if "u \<in> set ids" for u
  proof -
    have "u \<in> set (map qa_id ?as) \<union> set (map pt_id ?ts)" using that own by simp
    then show ?thesis by (auto simp: owned_evidence_def owned_attempts_def owned_tasks_def)
  qed
qed

text \<open>What a successful proposal leaves behind.\<close>

lemma propose_cases:
  assumes "propose lt ptype args now d = (Inr v, d')" and "map_of args ''_idempotency_key'' = Some k"
  obtains p where "find (proposal_keyed (lt_run_id lt) (json_str (lt_env lt) k)) (db_proposals d') = Some p"
    "v = JObj (proposal_answer (lt_env lt) p)" "d' = d"
  | p ids where "find (proposal_keyed (lt_run_id lt) (json_str (lt_env lt) k)) (db_proposals d') = Some p"
    "v = JObj (proposal_answer (lt_env lt) p)" "d' = d\<lparr>db_proposals := db_proposals d @ [p]\<rparr>"
    "pr_evidence_refs p \<noteq> []" "pr_student_id p = lt_student_id lt" "pr_proposal_type p = ptype"
    "map (ae_uuid_of (lt_env lt)) (pr_evidence_refs p) = map Some ids"
    "\<And>u. u \<in> set ids \<Longrightarrow> owned_evidence (lt_student_id lt) d u"
proof -
  let ?key = "json_str (lt_env lt) k" and ?args = "AList.delete ''_idempotency_key'' args"
  let ?old = "find (proposal_keyed (lt_run_id lt) ?key) (db_proposals d)"
  have fence: "fence_ok (lt_run_id lt) (lt_fencing_token lt) now d"
    using assms by (auto simp: propose_def Let_def transaction_def andthen_apply assert_fence_cases
        split: if_splits)
  show ?thesis
  proof (cases ?old)
    case (Some p)
    then have "v = JObj (proposal_answer (lt_env lt) p)" "d' = d"
      using assms fence
      by (auto simp: propose_def Let_def transaction_def andthen_apply comp_simps assert_fence_cases
          split: prod.splits sum.splits)
    with Some show ?thesis using that(1) by blast
  next
    case None
    obtain refs ids p where refs: "str_items (lt_env lt) ?args ''evidence_refs'' = Inr refs" "refs \<noteq> []"
      and ids: "parse_uuids (lt_env lt) refs = Inr ids"
      and ins: "insert_proposal lt now ptype ?key ?args refs ids d = (Inr p, d')"
      and v: "v = JObj (proposal_answer (lt_env lt) p)"
      using assms fence None
      by (auto simp: propose_def Let_def transaction_def andthen_apply comp_simps assert_fence_cases
          app_error_def split: prod.splits sum.splits if_splits)
    note new = insert_proposal_cases [OF ins]
    have "find (proposal_keyed (lt_run_id lt) ?key) (db_proposals d') = Some p"
      using None new(1,2) by (simp add: find_append)
    then show ?thesis
      using that(2) [of p ids] v new refs parse_uuids_Inr [OF ids] by simp
  qed
qed

text \<open>A proposal is created once per run and idempotency key: repeating the tool call, with any
  arguments and at any later time at which the worker holds its fence, returns the same answer and
  writes nothing, and the reconciliation of an interrupted call finds it.\<close>

theorem proposal_is_created_once:
  assumes "propose lt ptype args now d = (Inr v, d')"
    and "map_of args ''_idempotency_key'' = Some k" and "map_of args2 ''_idempotency_key'' = Some k"
    and "fence_ok (lt_run_id lt) (lt_fencing_token lt) now2 d'"
  shows "propose lt ptype2 args2 now2 d' = (Inr v, d')"
proof -
  obtain p where "find (proposal_keyed (lt_run_id lt) (json_str (lt_env lt) k)) (db_proposals d') = Some p"
    "v = JObj (proposal_answer (lt_env lt) p)"
    using assms(1,2) by (rule propose_cases) blast+
  then show ?thesis
    using assms(3,4)
    by (auto simp: propose_def Let_def transaction_def andthen_apply comp_simps assert_fence_cases
        split: prod.splits sum.splits)
qed

theorem proposal_is_created_once_witness:
  "\<exists>v d'. propose example_tools PT_MINOR_ADJUST example_arguments 5 example_agent_db = (Inr v, d')
     \<and> propose example_tools PT_MAJOR_REPLAN [(''_idempotency_key'', JStr ''k2'')] 7 d' = (Inr v, d')"
proof -
  obtain v d' where run: "propose example_tools PT_MINOR_ADJUST example_arguments 5 example_agent_db = (Inr v, d')"
    using example_proposes by blast
  have fence: "fence_ok (lt_run_id example_tools) (lt_fencing_token example_tools) 7 d'"
    using run by (rule propose_cases [where k = "JStr ''k2''"])
      (simp_all add: example_arguments_def example_tools_def example_agent_fence)
  show ?thesis
    using proposal_is_created_once [OF run _ _ fence, of "JStr ''k2''"] run
    by (simp add: example_arguments_def)
qed

text \<open>C12. Every proposal that a tool call adds names evidence, and all of it belongs to the student of
  the run: each reference is the identifier of an attempt of the student or of a task in one of the
  student's plans.\<close>

theorem proposals_rest_on_owned_evidence:
  assumes "propose lt ptype args now d = (Inr v, d')" and "map_of args ''_idempotency_key'' = Some k"
    and "p \<in> set (db_proposals d')" and "p \<notin> set (db_proposals d)"
  shows "pr_student_id p = lt_student_id lt \<and> pr_evidence_refs p \<noteq> []
    \<and> (\<forall>ref \<in> set (pr_evidence_refs p). \<exists>u. ae_uuid_of (lt_env lt) ref = Some u
         \<and> owned_evidence (lt_student_id lt) d u)"
  using assms(1,2)
proof (cases rule: propose_cases)
  case (1 q)
  then show ?thesis using assms(3,4) by simp
next
  case (2 q ids)
  then have "q = p" using assms(3,4) by auto
  moreover have "\<exists>u. ae_uuid_of (lt_env lt) ref = Some u \<and> u \<in> set ids"
    if "ref \<in> set (pr_evidence_refs q)" for ref
  proof -
    have "ae_uuid_of (lt_env lt) ref \<in> set (map (ae_uuid_of (lt_env lt)) (pr_evidence_refs q))"
      using that by simp
    then have "ae_uuid_of (lt_env lt) ref \<in> Some ` set ids" by (simp only: 2(7) set_map)
    then show ?thesis by auto
  qed
  ultimately show ?thesis using 2(4,5,8) by blast
qed

theorem proposals_rest_on_owned_evidence_witness:
  "\<exists>d'::db. length (db_proposals d') = 2 \<and> (\<forall>p \<in> set (db_proposals d'). p \<noteq> example_proposal \<longrightarrow>
     pr_student_id p = 1 \<and> pr_evidence_refs p \<noteq> [])"
proof -
  obtain v d' where run: "propose example_tools PT_MINOR_ADJUST example_arguments 5 example_agent_db = (Inr v, d')"
    using example_proposes by blast
  have key: "map_of example_arguments ''_idempotency_key'' = Some (JStr ''k2'')"
    by (simp add: example_arguments_def)
  have "length (db_proposals d') = 2"
    using run key by (rule propose_cases)
      (auto simp: example_tools_def example_proposal_def proposal_keyed_def example_app_env_def json_str_def)
  then show ?thesis
    using proposals_rest_on_owned_evidence [OF run key]
    by (intro exI [of _ d']) (auto simp: example_tools_def)
qed

subsection \<open>Minor adjustments\<close>


lemma example_day: "weekday 10 = 6" by (simp add: weekday_def)

lemma example_proposal_simps [simp]:
  "pr_id example_proposal = 1" "pr_run_id example_proposal = 1" "pr_student_id example_proposal = 1"
  "pr_evidence_refs example_proposal = [''1'']" "pr_confidence example_proposal = 8 / 10"
  "pr_payload example_proposal = [(''adjustment_factor'', JFloat (8 / 10))]"
  "pr_proposal_type example_proposal = PT_MINOR_ADJUST" "pr_status example_proposal = Prop_PENDING"
  "pr_approval_expires_at example_proposal = None"
  by (simp_all add: example_proposal_def)

lemma example_one: "show_int 1 = ''1''" by (simp add: show_int_def show_nat.simps show_digit_def)

lemma example_source:
  "payload_task_id example_app_env example_proposal example_agent_db = Inr (Some 1)"
  "source_task example_proposal (Some (Suc 0)) example_agent_db = Some (example_task 1 Task_COMPLETED)"
  "snapshot_version example_app_env example_proposal (example_task 1 Task_COMPLETED) = Some (JStr ''1'')"
  "task_knowledge (Suc 0) example_agent_db = Some 1"
  by (simp_all add: payload_task_id_def get_job_def source_task_def example_run_def dict_get_def
      snapshot_version_def example_proposal_def task_knowledge_def)
    (simp_all add: example_app_env_def)

lemma example_eligible:
  "eligible_task example_proposal (example_task 1 Task_COMPLETED) (Suc 0) 10 example_agent_db
    = Some (example_task 2 Task_PENDING)"
  by (simp add: eligible_task_def)

lemma example_capacity:
  "day_total (Suc 0) 10 example_agent_db = 60" "task_day_capacity (Suc 0) 10 example_agent_db = 120"
  by (simp_all add: day_total_def counted_def task_day_capacity_def example_agent_db_def example_db_def empty_db_def)

lemma example_rounds: "py_round (of_int 60 * clamp_factor (8 / 10)) = 48"
  by (simp add: clamp_factor_def py_round_def)

lemma example_adjusts:
  "\<exists>d'. apply_minor example_app_env 5 10 False example_proposal example_agent_db = (Inr (), d')
     \<and> map pt_effective_minutes (db_plan_tasks d') = [60, 48]"
  using example_rounds
  by (simp add: apply_minor_def comp_simps example_source [simplified] example_one example_eligible [simplified]
      calibrate_task_def json_float_def dict_get_def example_capacity Let_def put_proposal_def put_task_def
      adjusted_task_def)

lemma example_distinct: "distinct (map pt_id (db_plan_tasks example_agent_db))"
  by simp


subsection \<open>Decisions\<close>

text \<open>A decision keeps the runs and the identifiers of proposals, and only adds jobs.\<close>

definition proposal_keys :: "db \<Rightarrow> (uuid \<times> uuid) list" where
  "proposal_keys d = map (\<lambda>p. (pr_id p, pr_run_id p)) (db_proposals d)"

definition grown :: "db \<Rightarrow> db \<Rightarrow> bool" where
  "grown d d' \<longleftrightarrow> db_agent_runs d' = db_agent_runs d \<and> proposal_keys d' = proposal_keys d
     \<and> (\<exists>js. db_background_jobs d' = db_background_jobs d @ js)"

lemma grown_modify: "(\<And>d'. grown d d' \<Longrightarrow> grown d (f d')) \<Longrightarrow> keeps (grown d) (modify f)"
  by (rule keeps_modify)

lemma grown_set_proposal:
  "(\<And>p. pr_id (f p) = pr_id p \<and> pr_run_id (f p) = pr_run_id p) \<Longrightarrow> keeps (grown d) (set_proposal i f)"
  unfolding set_proposal_def by (rule grown_modify) (simp add: grown_def proposal_keys_def map_update_rows)

lemma grown_set_task: "keeps (grown d) (set_task i f)"
  unfolding set_task_def by (rule grown_modify) (simp add: grown_def proposal_keys_def)

lemma create_job_other_tables:
  "keeps (\<lambda>d. db_agent_runs d = rs \<and> db_proposals d = ps) (create_job env cfg now user jt payload key)"
  unfolding create_job_def add_event_def
  by (intro keeps_transaction keeps_andthen keeps_option keeps_if keeps_ret keeps_gets keeps_app_error
      keeps_modify) simp_all

lemma grown_create_job: "keeps (grown d) (create_job env cfg now user jt payload key)"
proof (rule keepsI)
  fix s assume s: "grown d s"
  obtain r s' where run: "create_job env cfg now user jt payload key s = (r, s')" by fastforce
  have "db_agent_runs s' = db_agent_runs s \<and> db_proposals s' = db_proposals s"
    using keeps_resultD [OF create_job_other_tables [of "db_agent_runs s" "db_proposals s"] _ run] by simp
  with run s have "grown d s'" by (cases rule: create_job_cases) (auto simp: grown_def proposal_keys_def)
  then show "grown d (snd (create_job env cfg now user jt payload key s))" using run by simp
qed

lemma grown_minor: "keeps (grown d) (apply_minor env now today manual p)"
proof -
  have rows: "pr_id (refused_row manual c p) = pr_id p \<and> pr_run_id (refused_row manual c p) = pr_run_id p"
    "pr_id (postponed_row now p) = pr_id p \<and> pr_run_id (postponed_row now p) = pr_run_id p"
    "pr_id (applied_row manual now p) = pr_id p \<and> pr_run_id (applied_row manual now p) = pr_run_id p"
    for c p
    by (simp_all add: refused_row_def postponed_row_def applied_row_def)
  show ?thesis
    unfolding apply_minor_def calibrate_task_def refuse_minor_def Let_def
    by (intro keeps_andthen keeps_if keeps_option keeps_ret keeps_gets keeps_lift_result
        grown_set_proposal grown_set_task rows)
qed

lemma grown_start: "keeps (grown d) (start_approved env cfg now today key p)"
  unfolding start_approved_def create_replan_job_def apply_approved_minor_proposal_def
  by (cases "pr_proposal_type p")
    (auto intro!: keeps_andthen keeps_if keeps_ret keeps_gets keeps_throw keeps_found_or grown_minor
      grown_create_job grown_set_proposal)

lemma grown_decide: "keeps (grown d) (decide env cfg now today user i approve key reason)"
  unfolding decide_def
  by (intro keeps_transaction keeps_andthen keeps_if keeps_ret keeps_gets keeps_found_or
      keeps_lift_result grown_set_proposal grown_start) (simp_all add: decided_row_def)

lemma owned_proposal_grown:
  assumes "owned_proposal user i d = Some p" and "grown d d'" and "get_proposal i d' = Some p'"
    and dist: "distinct (map pr_id (db_proposals d))"
  shows "owned_proposal user i d' = Some p'"
proof -
  obtain js where g: "db_agent_runs d' = db_agent_runs d" "proposal_keys d' = proposal_keys d"
    "db_background_jobs d' = db_background_jobs d @ js"
    using assms(2) by (auto simp: grown_def)
  have ids: "distinct (map fst (proposal_keys d))" using dist by (simp add: proposal_keys_def comp_def)
  have p: "p \<in> set (db_proposals d)" "pr_id p = i" and p': "p' \<in> set (db_proposals d')" "pr_id p' = i"
    using assms(1,3) by (auto simp: get_proposal_def owned_proposal_def dest!: find_SomeD)
  have "(i, pr_run_id p) \<in> set (proposal_keys d)" using p by (auto simp: proposal_keys_def)
  moreover have "(i, pr_run_id p') \<in> set (proposal_keys d)"
    using p' unfolding g(2) [symmetric] by (auto simp: proposal_keys_def)
  ultimately have run: "pr_run_id p' = pr_run_id p"
    using ids by (simp add: eq_key_imp_eq_value)
  define Q where "Q = (\<lambda>p::proposal_row. pr_id p = i \<and> list_ex (\<lambda>r. ag_id r = pr_run_id p
      \<and> list_ex (\<lambda>j. bj_id j = ag_job_id r \<and> bj_user_id j = Some user) (db_background_jobs d'))
     (db_agent_runs d'))"
  have own: "Q p'"
    using find_SomeD [OF assms(1) [unfolded owned_proposal_def]] run p'(2) g
    by (auto simp: list_ex_iff Q_def)
  obtain x where x: "find Q (db_proposals d') = Some x"
    using p'(1) own by (cases "find Q (db_proposals d')") (auto simp: find_None)
  then have "x \<in> set (db_proposals d')" "pr_id x = i" using find_SomeD [OF x] by (auto simp: Q_def)
  moreover have "distinct (map pr_id (db_proposals d'))"
    using ids unfolding g(2) [symmetric] by (simp add: proposal_keys_def comp_def)
  ultimately have "x = p'" using p' by (metis distinct_map inj_onD)
  then show ?thesis using x by (simp add: owned_proposal_def Q_def)
qed

text \<open>What a decision did.\<close>

lemma decide_cases:
  assumes "decide env cfg now today user i approve key reason d = (Inr (p', job), d')"
  obtains (unchanged) "d' = d" "job = None" "get_proposal i d' = Some p'"
    | (expired) f where "d' = put_proposal i f d" "job = None" "get_proposal i d' = Some p'"
    | (decided) p where "owned_proposal user i d = Some p" "get_proposal i d' = Some p'"
        "pr_status p \<in> {Prop_AWAITING_CONFIRMATION, Prop_PENDING}" "\<not> expired_proposal now p"
        "approve \<Longrightarrow> evidence_is_current env p d = Inr True"
        "approve \<Longrightarrow> start_approved env cfg now today key (decided_row now user approve reason p)
           (put_proposal i (decided_row now user approve reason) d) = (Inr job, d')"
        "\<not> approve \<Longrightarrow> job = None \<and> d' = put_proposal i (decided_row now user approve reason) d"
proof -
  obtain p where p: "owned_proposal user i d = Some p"
    using assms by (cases "owned_proposal user i d") (auto simp: decide_def transaction_def comp_simps)
  have last: "get_proposal i d' = Some p'"
    using assms p by (auto simp: decide_def transaction_def andthen_apply comp_simps found_or_def
        split: prod.splits sum.splits option.splits)
  show ?thesis
  proof (cases "pr_status p \<in> {Prop_AWAITING_CONFIRMATION, Prop_PENDING}")
    case False
    then have "d' = d" "job = None"
      using assms p by (auto simp: decide_def transaction_def andthen_apply comp_simps found_or_def
          split: prod.splits sum.splits option.splits)
    then show ?thesis using unchanged last by blast
  next
    case open_: True
    show ?thesis
    proof (cases "expired_proposal now p")
      case True
      then have "d' = put_proposal i (\<lambda>p. p\<lparr>pr_status := Prop_EXPIRED, pr_decided_at := Some now\<rparr>) d \<and> job = None"
        using assms p open_ by (auto simp: decide_def transaction_def andthen_apply comp_simps found_or_def
            split: prod.splits sum.splits option.splits)
      then show ?thesis using expired last by blast
    next
      case False
      show ?thesis
      proof (cases approve)
        case True
        show ?thesis
        proof (cases "evidence_is_current env p d = Inr True")
          case current: True
          then have "start_approved env cfg now today key (decided_row now user approve reason p)
              (put_proposal i (decided_row now user approve reason) d) = (Inr job, d')"
            using assms p open_ False True
            by (auto simp: decide_def transaction_def andthen_apply comp_simps found_or_def
                split: prod.splits sum.splits option.splits)
          then show ?thesis using decided p last open_ False current True by blast
        next
          case stale: False
          then have "d' = put_proposal i (\<lambda>p. p\<lparr>pr_status := Prop_EXPIRED, pr_decided_at := Some now,
              pr_apply_error_code := Some ''EVIDENCE_STALE''\<rparr>) d \<and> job = None"
            using assms p open_ False True
            by (auto simp: decide_def transaction_def andthen_apply comp_simps found_or_def
                split: prod.splits sum.splits option.splits)
          then show ?thesis using expired last by blast
        qed
      next
        case reject: False
        then have "job = None \<and> d' = put_proposal i (decided_row now user approve reason) d"
          using assms p open_ False
          by (auto simp: decide_def transaction_def andthen_apply comp_simps found_or_def
              split: prod.splits sum.splits option.splits)
        then show ?thesis using decided p last open_ False reject by blast
      qed
    qed
  qed
qed

text \<open>C9. A decision is final: once a decision of the user left the proposal in a state other than
  waiting, every further decision, by approval or rejection, with any key, returns the proposal as it
  is, starts no job and writes nothing.\<close>

theorem decision_is_final:
  assumes "decide env cfg now today user i approve key reason d = (Inr (p', job), d')"
    and "distinct (map pr_id (db_proposals d))"
    and "pr_status p' \<notin> {Prop_AWAITING_CONFIRMATION, Prop_PENDING}"
  shows "decide env cfg now2 today2 user i approve2 key2 reason2 d' = (Inr (p', None), d')"
proof -
  have last: "get_proposal i d' = Some p'" using assms(1) by (cases rule: decide_cases)
  obtain p where p: "owned_proposal user i d = Some p"
    using assms(1) by (cases "owned_proposal user i d") (auto simp: decide_def transaction_def comp_simps)
  have "grown d d'"
    using keeps_resultD [OF grown_decide _ assms(1)] by (simp add: grown_def)
  from owned_proposal_grown [OF p this last assms(2)] show ?thesis
    using assms(3) last by (simp add: decide_def transaction_def comp_simps)
qed

lemma example_owned_proposal:
  "owned_proposal (Suc 0) (Suc 0) example_agent_db = Some example_proposal"
  by (simp add: owned_proposal_def example_run_def)

lemma example_rejects:
  "\<exists>p' d'. decide example_app_env default_settings 5 10 1 1 False ''r'' None example_agent_db = (Inr (p', None), d')
     \<and> pr_status p' = Prop_REJECTED"
  by (simp add: decide_def transaction_def comp_simps example_owned_proposal expired_proposal_def
      put_proposal_def get_proposal_def decided_row_def)

theorem decision_is_final_witness:
  "\<exists>p' d'. pr_status p' = Prop_REJECTED
     \<and> decide example_app_env default_settings 9 10 1 1 True ''s'' None d' = (Inr (p', None), d')"
proof -
  obtain p' d' where run: "decide example_app_env default_settings 5 10 1 1 False ''r'' None example_agent_db
      = (Inr (p', None), d')" and rejected: "pr_status p' = Prop_REJECTED"
    using example_rejects by (elim exE conjE)
  from decision_is_final [OF run] rejected show ?thesis
    by (intro exI [of _ p'] exI [of _ d']) simp
qed

text \<open>C10. Nothing is started or changed for a student without consent on current evidence: when a
  decision creates a job or changes a task, it is an approval by the owner of an undecided, unexpired
  proposal, and every row of the proposal's evidence snapshot still has the recorded version.\<close>

theorem approval_needs_current_evidence:
  assumes "decide env cfg now today user i approve key reason d = (Inr (p', job), d')"
    and "job \<noteq> None \<or> db_plan_tasks d' \<noteq> db_plan_tasks d"
  shows "approve \<and> (\<exists>p. owned_proposal user i d = Some p
    \<and> pr_status p \<in> {Prop_AWAITING_CONFIRMATION, Prop_PENDING} \<and> \<not> expired_proposal now p
    \<and> pr_evidence_snapshot p \<noteq> [] \<and> list_all (\<lambda>e. evidence_matches env (pr_student_id p) d e = Inr True)
        (pr_evidence_snapshot p))"
  using assms(1)
proof (cases rule: decide_cases)
  case (decided p)
  have approve
  proof (rule ccontr)
    assume "\<not> approve"
    from decided(7) [OF this] assms(2) show False by (auto simp: put_proposal_def)
  qed
  moreover have "list_all (\<lambda>e. evidence_matches env st d e = Inr True) es"
    if "all_evidence_matches env st d es = Inr True" for st es
    using that by (induction es) (auto split: sum.splits bool.splits)
  ultimately show ?thesis
    using decided(1,3,4) decided(5) by (auto simp: evidence_is_current_def split: if_splits)
qed (use assms(2) in \<open>auto simp: put_proposal_def\<close>)

definition example_replan_db :: db where
  "example_replan_db = example_agent_db\<lparr>db_proposals := [example_proposal\<lparr>
     pr_proposal_type := PT_MAJOR_REPLAN, pr_status := Prop_AWAITING_CONFIRMATION\<rparr>]\<rparr>"

lemma example_replan_tables [simp]:
  "db_proposals example_replan_db = [example_proposal\<lparr>pr_proposal_type := PT_MAJOR_REPLAN,
     pr_status := Prop_AWAITING_CONFIRMATION\<rparr>]"
  "db_agent_runs example_replan_db = [example_run]"
  "db_background_jobs example_replan_db = db_background_jobs example_agent_db"
  by (simp_all add: example_replan_db_def)

lemma example_replan_owned: "owned_proposal (Suc 0) (Suc 0) example_replan_db = Some (example_proposal\<lparr>
     pr_proposal_type := PT_MAJOR_REPLAN, pr_status := Prop_AWAITING_CONFIRMATION\<rparr>)"
  by (simp add: owned_proposal_def example_run_def)

lemma example_replan_evidence: "evidence_is_current example_app_env (example_proposal\<lparr>
     pr_proposal_type := PT_MAJOR_REPLAN, pr_status := Prop_AWAITING_CONFIRMATION\<rparr>) example_replan_db = Inr True"
  by (simp add: evidence_is_current_def example_proposal_def evidence_matches_def dict_get_def
      parse_uuid_def json_str_def example_app_env_def example_replan_db_def owns_plan_def
      example_plan_def example_one)

lemma example_replans:
  "\<exists>p' j d'. decide example_app_env default_settings 5 10 1 1 True ''r'' None example_replan_db
     = (Inr (p', Some j), d') \<and> bj_job_type j = ''GENERATE_PLAN''"
  by (simp add: decide_def transaction_def comp_simps example_replan_owned example_replan_evidence
      expired_proposal_def put_proposal_def decided_row_def start_approved_def find_run_def
      example_run_def get_job_def create_replan_job_def create_job_def
      job_keyed_def add_event_def get_proposal_def new_job_def)

theorem approval_needs_current_evidence_witness:
  "\<exists>p. owned_proposal 1 1 example_replan_db = Some p
     \<and> list_all (\<lambda>e. evidence_matches example_app_env (pr_student_id p) example_replan_db e = Inr True)
         (pr_evidence_snapshot p)"
proof -
  obtain p' j d' where run: "decide example_app_env default_settings 5 10 1 1 True ''r'' None example_replan_db
      = (Inr (p', Some j), d')"
    using example_replans by (elim exE conjE)
  from approval_needs_current_evidence [OF run] show ?thesis by blast
qed

subsection \<open>Cancellation\<close>

text \<open>A cancellation reaches the worker: after the owner's request to cancel a run that had not
  ended, no worker can acquire the run's lease, the check before every step of the running worker
  raises, and neither writes anything.\<close>

theorem cancellation_stops_the_worker:
  assumes "request_cancel now user run d = (Inr r, d')" and "\<not> ended_run (ag_status r)"
    and "lm_run_id lm = run"
  shows "acquire now2 (lm, d') = (Inl RunCancelledErr, (lm, d'))
    \<and> (\<exists>e. lease_assert_active lm now2 st d' = (Inl e, d'))"
proof -
  obtain r0 where r0: "owned_run_row user run d = Some r0"
    using assms(1) by (cases "owned_run_row user run d")
      (auto simp: request_cancel_def transaction_def comp_simps app_error_def)
  let ?f = "\<lambda>r. r\<lparr>ag_status := Run_CANCEL_REQUESTED, ag_cancel_requested_at := Some now\<rparr>"
  have in_d: "r0 \<in> set (db_agent_runs d)" "ag_id r0 = run"
    using r0 by (auto simp: owned_run_row_def dest: find_SomeD)
  have d': "d' = update_run run ?f d"
    using assms(1,2) r0 in_d(2)
    by (auto simp: request_cancel_def transaction_def comp_simps Let_def split: if_splits)
  obtain r1 where "find_run run d = Some r1"
    using in_d by (cases "find_run run d") (auto simp: find_run_def find_None)
  then have "find_run run d' = Some (?f r1)"
    unfolding d' by (subst find_run_update) simp_all
  then show ?thesis
    using assms(3)
    by (auto simp: acquire_def acquire_session_def db_only_def transaction_def comp_simps
        lease_assert_active_def split: option.split)
qed

theorem cancellation_stops_the_worker_witness:
  "\<exists>d'::db. fst (acquire 60 (new_lease_manager 1 ''w2'', d')) = Inl RunCancelledErr"
proof -
  obtain r d' where run: "request_cancel 5 1 1 example_agent_db = (Inr r, d')"
    and open_: "\<not> ended_run (ag_status r)"
    by (simp add: request_cancel_def transaction_def comp_simps owned_run_row_def example_run_def
        ended_run_def Let_def)
  from cancellation_stops_the_worker [OF run open_, of "new_lease_manager 1 ''w2''" 60]
  show ?thesis by (intro exI [of _ d']) (simp add: new_lease_manager_def)
qed

lemma tr_of_valueD: "tr_of_value s = Some r \<Longrightarrow> s = tr_value r"
  by (auto simp: tr_of_value_def dest: find_SomeD)

text \<open>A job is retried only when its run can go on: when a finished run fails its job with a
  transient error, the next attempt that loads the run's last checkpoint continues it, at the pending
  tool or at the next model call, with a valid state.\<close>

theorem retried_runs_can_go_on:
  assumes "raise_for_retry_or_failure res = Inl e" and "is_transient_exn e"
    and "arr_termination_reason res = ''MODEL_UNAVAILABLE'' \<Longrightarrow>
      last_error_code (arr_state res) = Some ''MODEL_UNAVAILABLE''"
    and "state_ok (arr_state res)"
  shows "phase (prepare_retryable_state (arr_state res)) \<noteq> TERMINATED
    \<and> state_ok (prepare_retryable_state (arr_state res))"
proof -
  have "last_error_code (arr_state res) \<in> Some ` set retryable_codes"
    using assms(1-3)
    by (auto dest!: tr_of_valueD simp: raise_for_retry_or_failure_def retryable_codes_def is_transient_exn_def Let_def
        split: option.splits if_splits)
  then show ?thesis
    using assms(4) by (auto simp: prepare_retryable_state_def state_ok_def phase_shape_ok_def)
qed

definition example_failed :: agent_run_result where
  "example_failed = \<lparr>arr_decision = None, arr_confidence = 0, arr_reason_codes = [],
     arr_termination_reason = ''MODEL_UNAVAILABLE'', arr_state = example_rstate\<lparr>phase := TERMINATED,
       termination_reason_of := Some TR_MODEL_UNAVAILABLE, last_error_code := Some ''MODEL_UNAVAILABLE''\<rparr>\<rparr>"

theorem retried_runs_can_go_on_witness:
  "state_ok (prepare_retryable_state (arr_state example_failed))"
proof -
  have "raise_for_retry_or_failure example_failed = Inl (ModelUnavailableErr [])"
    by (simp add: raise_for_retry_or_failure_def example_failed_def tr_of_value_def all_termination_reasons_def)
  moreover have "state_ok (arr_state example_failed)"
    by (simp add: example_failed_def state_ok_def phase_shape_ok_def example_rstate_def new_runtime_state_def)
  ultimately show ?thesis
    using retried_runs_can_go_on [of example_failed] by (simp add: is_transient_exn_def example_failed_def)
qed

subsection \<open>Shadow evaluations\<close>

lemma dry_run_refused:
  "build_learning_tool_registry lt = Inr reg \<Longrightarrow> dry_run_registry reg = Inl (PyExc ''ValueError'')"
  by (auto simp: build_registry dry_run_registry_def definitions_of_def learning_tool_list_def
      dry_definition_def read_tool_def proposal_tool_def register_def value_error_def)

text \<open>No shadow evaluation ever runs: the simulation of a proposal tool becomes a READ tool that
  keeps its terminal decision, which the registration refuses, so the job of every evaluation of an
  existing run raises ValueError before the candidate model is asked.\<close>

theorem shadow_evaluation_always_fails:
  assumes "map_of (bj_payload job) ''shadow_evaluation_id'' = Some (JStr (ae_uuid_str env i))"
    and "app_env_ok env" and "find (\<lambda>e. se_id e = i) (db_shadow_evaluations d) = Some e"
    and "find_run (se_source_run_id e) d = Some run"
    and "get_job (ag_job_id run) d = Some source" and "map_of (bj_payload source) ''reason_codes'' = None"
  shows "fst (execute_evaluation env now schema candidate job d) = Inl (PyExc ''ValueError'')"
proof -
  have "shadow_state env now e run (Some source) \<noteq> Inl err" for err
    using assms(6) by (simp add: shadow_state_def dict_get_def Let_def)
  then obtain st where st: "shadow_state env now e run (Some source) = Inr st"
    by (cases "shadow_state env now e run (Some source)") auto
  have job: "get_job k (d\<lparr>db_shadow_evaluations := es\<rparr>) = get_job k d" for k es
    by (simp add: get_job_def)
  show ?thesis
    using assms(1-5) st
    by (simp add: execute_evaluation_def comp_simps set_evaluation_def job build_registry
        dry_run_refused [OF build_registry])
qed

definition example_evaluation_db :: db where
  "example_evaluation_db = example_agent_db\<lparr>db_shadow_evaluations :=
     [new_evaluation default_settings 0 1 example_run 1 ''candidate'']\<rparr>"

theorem shadow_evaluation_always_fails_witness:
  "fst (execute_evaluation example_app_env 5 (\<lambda>_. JObj []) (\<lambda>_ _ _. throw StaleWorkerErr)
     (example_job\<lparr>bj_payload := [(''shadow_evaluation_id'', JStr ''1'')]\<rparr>) example_evaluation_db)
   = Inl (PyExc ''ValueError'')"
proof (rule shadow_evaluation_always_fails [OF _ example_app_env_ok, where i = 1])
  show "find (\<lambda>e. se_id e = 1) (db_shadow_evaluations example_evaluation_db)
      = Some (new_evaluation default_settings 0 1 example_run 1 ''candidate'')"
    by (simp add: example_evaluation_db_def new_evaluation_def)
  show "find_run (se_source_run_id (new_evaluation default_settings 0 1 example_run 1 ''candidate''))
      example_evaluation_db = Some example_run"
    by (simp add: find_run_def new_evaluation_def example_evaluation_db_def)
  show "get_job (ag_job_id example_run) example_evaluation_db = Some (example_job\<lparr>
      bj_job_type := ''AGENT_DIAGNOSIS'', bj_payload := [(''student_id'', JStr ''1''), (''task_id'', JStr ''1'')]\<rparr>)"
    by (simp add: get_job_def example_evaluation_db_def example_run_def)
qed (simp_all add: example_app_env_def)

end
