(* ===== verification/Learning_Plans.thy ===== *)
theory Learning_Plans
  imports Learning_Tools
begin

text \<open>
  Learning plans, \<^verbatim>\<open>app/application/learning_plans.py\<close>, and the job that generates them
  (\<open>PlanGenerationService.execute_job\<close> of \<^verbatim>\<open>app/application/plans.py\<close>): the first week, the daily
  roll, the window that a student reads, and the edits of a plan with their log.

  The loops over days and candidates compute the tasks to create (\<open>plan_item\<close>), which are then
  inserted in that order: nothing that the loops read is written by the insertions.
\<close>

subsection \<open>Resources of a plan\<close>

record resource_candidate =
  rc_section :: resource_section_row
  rc_title :: string
  rc_knowledge :: uuid
  rc_type :: resource_type

text \<open>The resource that a section belongs to, through its version.\<close>

definition section_resource :: "resource_section_row \<Rightarrow> db \<Rightarrow> learning_resource_row option" where
  "section_resource s d =
    (case find (\<lambda>v. rv_id v = rsec_resource_version_id s) (db_resource_versions d) of
       None \<Rightarrow> None
     | Some v \<Rightarrow> find (\<lambda>r. lr_id r = rv_resource_id v) (db_learning_resources d))"

definition section_candidates :: "uuid option \<Rightarrow> db \<Rightarrow> resource_section_row \<Rightarrow> resource_candidate list" where
  "section_candidates school d s =
    (case section_resource s d of
       None \<Rightarrow> []
     | Some r \<Rightarrow>
         if lr_status r = ResStatus_PUBLISHED \<and> lr_school_profile_id r = school
         then map (\<lambda>m. \<lparr>rc_section = s, rc_title = lr_title r, rc_knowledge = rkm_knowledge_id m,
                rc_type = lr_resource_type r\<rparr>)
              (filter (\<lambda>m. rkm_section_id m = rsec_id s \<and> rkm_reviewer_confirmed m)
                (db_resource_knowledge_mappings d))
         else [])"

text \<open>\<open>_resource_candidates\<close>: confirmed mappings of published resources, by the section's sequence.\<close>

definition resource_candidates :: "uuid set \<Rightarrow> uuid option \<Rightarrow> db \<Rightarrow> resource_candidate list" where
  "resource_candidates excluded school d =
    concat (map (section_candidates school d)
      (sort_key rsec_sequence (filter (\<lambda>s. rsec_id s \<notin> excluded) (db_resource_sections d))))"

text \<open>\<open>_validate_resource\<close>: the section is mapped to the knowledge and its resource is published.\<close>

definition valid_resource :: "uuid \<Rightarrow> uuid \<Rightarrow> db \<Rightarrow> bool" where
  "valid_resource section_id knowledge d \<longleftrightarrow>
    list_ex (\<lambda>m. rkm_section_id m = section_id \<and> rkm_knowledge_id m = knowledge \<and> rkm_reviewer_confirmed m)
      (db_resource_knowledge_mappings d)
    \<and> (case find (\<lambda>s. rsec_id s = section_id) (db_resource_sections d) of
         None \<Rightarrow> False
       | Some s \<Rightarrow> (case section_resource s d of
           None \<Rightarrow> False | Some r \<Rightarrow> lr_status r = ResStatus_PUBLISHED))"

definition validate_resource :: "uuid \<Rightarrow> uuid \<Rightarrow> unit db_comp" where
  "validate_resource section_id knowledge =
    andthen (gets (valid_resource section_id knowledge)) (\<lambda>valid.
    if valid then ret () else app_error 422 ''INVALID_RESOURCE_BINDING'')"

text \<open>\<open>_capacity\<close>: an availability of the day, the template of its weekday, or two hours.\<close>

definition plan_capacity :: "uuid \<Rightarrow> date \<Rightarrow> db \<Rightarrow> int" where
  "plan_capacity student day d =
    (case find (\<lambda>a. sa_student_id a = student \<and> sa_available_date a = day) (db_student_availability d) of
       Some a \<Rightarrow> sa_available_minutes a
     | None \<Rightarrow>
         (case find (\<lambda>t. sat_student_id t = student \<and> sat_weekday t = weekday day)
                 (db_student_availability_templates d) of
            Some t \<Rightarrow> sat_available_minutes t
          | None \<Rightarrow> 120))"

subsection \<open>Filling days\<close>

record plan_item =
  it_candidate :: resource_candidate
  it_day :: date
  it_sequence :: int
  it_minutes :: int
  it_summary :: bool

text \<open>What the loops carry: the tasks so far, the used sections, the knowledge with a summary, the
  minutes that remain on the day and the next sequence number.\<close>

record schedule =
  sch_items :: "plan_item list"
  sch_used :: "uuid set"
  sch_summaries :: "uuid set"
  sch_remaining :: int
  sch_sequence :: int

definition candidate_minutes :: "resource_candidate \<Rightarrow> int" where
  "candidate_minutes c = (if rc_type c = Res_COURSE then 35 else 45)"

definition place :: "date \<Rightarrow> resource_candidate \<Rightarrow> bool \<Rightarrow> int \<Rightarrow> schedule \<Rightarrow> schedule" where
  "place day c summary minutes s = s\<lparr>
     sch_items := sch_items s @ [\<lparr>it_candidate = c, it_day = day, it_sequence = sch_sequence s,
       it_minutes = minutes, it_summary = summary\<rparr>],
     sch_remaining := sch_remaining s - minutes, sch_sequence := sch_sequence s + 1\<rparr>"

definition place_task :: "date \<Rightarrow> resource_candidate \<Rightarrow> schedule \<Rightarrow> schedule" where
  "place_task day c s = (let s' = place day c False (candidate_minutes c) s in
     s'\<lparr>sch_used := insert (rsec_id (rc_section c)) (sch_used s')\<rparr>)"

definition place_summary :: "date \<Rightarrow> resource_candidate \<Rightarrow> schedule \<Rightarrow> schedule" where
  "place_summary day c s =
    (if rc_type c = Res_HANDOUT \<and> rc_knowledge c \<notin> sch_summaries s \<and> 20 \<le> sch_remaining s then
       (let s' = place day c True 20 s in
        s'\<lparr>sch_summaries := insert (rc_knowledge c) (sch_summaries s')\<rparr>)
     else s)"

text \<open>The candidates of one day of the first plan.\<close>

fun initial_day :: "date \<Rightarrow> resource_candidate list \<Rightarrow> schedule \<Rightarrow> schedule" where
  "initial_day day [] s = s"
| "initial_day day (c # cs) s =
    (if rsec_id (rc_section c) \<in> sch_used s \<or> sch_remaining s < candidate_minutes c
     then initial_day day cs s
     else (let s' = place_summary day c (place_task day c s) in
           if sch_remaining s' < 20 then s' else initial_day day cs s'))"

text \<open>The candidates of one day that \<open>_backfill_learning_window\<close> fills: no summaries.\<close>

fun backfill_day :: "date \<Rightarrow> resource_candidate list \<Rightarrow> schedule \<Rightarrow> schedule" where
  "backfill_day day [] s = s"
| "backfill_day day (c # cs) s =
    (if rsec_id (rc_section c) \<in> sch_used s \<or> sch_remaining s < candidate_minutes c
     then backfill_day day cs s
     else (let s' = place_task day c s in
           if sch_remaining s' < 20 then s' else backfill_day day cs s'))"

text \<open>The candidates of a day that \<open>roll_forward\<close> adds: used sections are left out by the query only.\<close>

fun roll_day :: "date \<Rightarrow> resource_candidate list \<Rightarrow> schedule \<Rightarrow> schedule" where
  "roll_day day [] s = s"
| "roll_day day (c # cs) s =
    (if sch_remaining s < candidate_minutes c then roll_day day cs s
     else (let s' = place_task day c s in
           if sch_remaining s' < 20 then s' else roll_day day cs s'))"

text \<open>A range of days from \<open>start\<close>, each with its own capacity.\<close>

fun fill_days :: "(date \<Rightarrow> resource_candidate list \<Rightarrow> schedule \<Rightarrow> schedule) \<Rightarrow> (date \<Rightarrow> int)
    \<Rightarrow> resource_candidate list \<Rightarrow> date \<Rightarrow> nat \<Rightarrow> schedule \<Rightarrow> schedule" where
  "fill_days fill capacity cs start 0 s = s"
| "fill_days fill capacity cs start (Suc n) s =
    fill_days fill capacity cs (start + 1) n (fill start cs (s\<lparr>sch_remaining := capacity start\<rparr>))"

definition start_schedule :: "uuid set \<Rightarrow> int \<Rightarrow> schedule" where
  "start_schedule used sequence = \<lparr>sch_items = [], sch_used = used, sch_summaries = {},
     sch_remaining = 0, sch_sequence = sequence\<rparr>"

text \<open>The days after \<open>plan_end\<close> up to \<open>target\<close>; the candidates are queried again for each day.\<close>

function roll_days :: "(date \<Rightarrow> int) \<Rightarrow> (uuid set \<Rightarrow> resource_candidate list) \<Rightarrow> date \<Rightarrow> date
    \<Rightarrow> schedule \<Rightarrow> schedule" where
  "roll_days capacity candidates plan_end target s =
    (if plan_end < target then
       (let day = plan_end + 1 in
        roll_days capacity candidates day target
          (roll_day day (candidates (sch_used s)) (s\<lparr>sch_remaining := capacity day\<rparr>)))
     else s)"
  by pat_completeness auto
termination by (relation "measure (\<lambda>(_, _, plan_end, target, _). nat (target - plan_end))") auto

declare roll_days.simps [simp del]

subsection \<open>Inserting tasks\<close>

text \<open>\<open>_new_task\<close>.\<close>

definition page_scope :: "resource_section_row \<Rightarrow> string option" where
  "page_scope s = (case (rsec_page_start s, rsec_page_end s) of
     (Some a, Some b) \<Rightarrow>
       if a \<noteq> 0 \<and> b \<noteq> 0
       then Some (utf8 [231, 172, 172, 32] @ show_int a @ ''-'' @ show_int b @ utf8 [32, 233, 161, 181])
       else None
   | _ \<Rightarrow> None)"

definition new_task :: "uuid \<Rightarrow> time \<Rightarrow> uuid \<Rightarrow> plan_item \<Rightarrow> plan_task_row" where
  "new_task i now plan it =
    (let c = it_candidate it; s = rc_section c; minutes = it_minutes it;
         course = rc_type c = Res_COURSE in
     \<lparr>pt_id = i, pt_plan_id = plan, pt_task_date = it_day it,
      pt_task_type = (if course then TT_COURSE_LEARNING else TT_HANDOUT_PRACTICE),
      pt_title = (if course then utf8 [229, 173, 166, 228, 185, 160, 239, 188, 154] else utf8 [232, 174, 178, 228, 185, 137, 239, 188, 154]) @ rsec_title s,
      pt_description = utf8 [228, 189, 191, 231, 148, 168, 230, 173, 163, 229, 188, 143, 232, 181, 132, 230, 186, 144, 227, 128, 138] @ rc_title c @ utf8 [227, 128, 139, 229, 174, 140, 230, 136, 144, 229, 175, 185, 229, 186, 148, 231, 171, 160, 232, 138, 130, 227, 128, 130],
      pt_resource_section_id = Some (rsec_id s), pt_suggested_scope = page_scope s,
      pt_target_count = 0, pt_planned_units = rsec_suggested_units s, pt_unit_type = rsec_unit_type s,
      pt_estimated_min_minutes = minutes, pt_estimated_max_minutes = minutes,
      pt_system_suggested_minutes = minutes, pt_student_estimated_minutes = None,
      pt_effective_minutes = minutes, pt_priority = 5 / 10, pt_status = Task_PENDING,
      pt_origin = Origin_SYSTEM, pt_is_personal = False, pt_has_capacity_warning = False,
      pt_reason = ''daily rolling plan'', pt_modified_reason = None, pt_sequence = it_sequence it,
      pt_superseded_by_id = None, pt_version = 1, pt_created_at = now\<rparr>)"

text \<open>\<open>_new_summary_task\<close>.\<close>

definition new_summary_task :: "uuid \<Rightarrow> time \<Rightarrow> uuid \<Rightarrow> plan_item \<Rightarrow> plan_task_row" where
  "new_summary_task i now plan it =
    (let c = it_candidate it; s = rc_section c in
     \<lparr>pt_id = i, pt_plan_id = plan, pt_task_date = it_day it, pt_task_type = TT_KNOWLEDGE_SUMMARY,
      pt_title = utf8 [230, 128, 187, 231, 187, 147, 239, 188, 154] @ rsec_title s,
      pt_description = utf8 [229, 159, 186, 228, 186, 142, 227, 128, 138] @ rc_title c @ utf8 [227, 128, 139, 230, 149, 180, 231, 144, 134, 229, 174, 154, 228, 185, 137, 227, 128, 129, 229, 133, 172, 229, 188, 143, 227, 128, 129, 232, 167, 163, 233, 162, 152, 230, 173, 165, 233, 170, 164, 229, 146, 140, 231, 150, 145, 233, 151, 174, 227, 128, 130],
      pt_resource_section_id = Some (rsec_id s),
      pt_suggested_scope = Some (utf8 [228, 184, 128, 233, 161, 181, 231, 186, 184, 230, 128, 187, 231, 187, 147]),
      pt_target_count = 0, pt_planned_units = Some 1, pt_unit_type = Some (utf8 [228, 187, 189]),
      pt_estimated_min_minutes = 20, pt_estimated_max_minutes = 20,
      pt_system_suggested_minutes = 20, pt_student_estimated_minutes = None,
      pt_effective_minutes = 20, pt_priority = 45 / 100, pt_status = Task_PENDING,
      pt_origin = Origin_SYSTEM, pt_is_personal = False, pt_has_capacity_warning = False,
      pt_reason = ''knowledge consolidation'', pt_modified_reason = None,
      pt_sequence = it_sequence it, pt_superseded_by_id = None, pt_version = 1, pt_created_at = now\<rparr>)"

definition item_task :: "uuid \<Rightarrow> time \<Rightarrow> uuid \<Rightarrow> plan_item \<Rightarrow> plan_task_row" where
  "item_task i now plan it =
    (if it_summary it then new_summary_task i now plan it else new_task i now plan it)"

definition insert_item :: "time \<Rightarrow> uuid \<Rightarrow> plan_item \<Rightarrow> unit db_comp" where
  "insert_item now plan it =
    andthen (gets (\<lambda>d. fresh_id (map pt_id (db_plan_tasks d)))) (\<lambda>i.
    modify (\<lambda>d. d\<lparr>db_plan_tasks := db_plan_tasks d @ [item_task i now plan it],
      db_plan_task_knowledge := db_plan_task_knowledge d @
        [\<lparr>ptk_task_id = i, ptk_knowledge_id = rc_knowledge (it_candidate it)\<rparr>]\<rparr>))"

fun insert_items :: "time \<Rightarrow> uuid \<Rightarrow> plan_item list \<Rightarrow> unit db_comp" where
  "insert_items now plan [] = ret ()"
| "insert_items now plan (it # its) = andthen (insert_item now plan it) (\<lambda>_. insert_items now plan its)"

subsection \<open>Reading and rolling a plan\<close>

text \<open>\<open>_student\<close> and \<open>_active_plan\<close>.\<close>

definition student_of_user :: "uuid \<Rightarrow> db \<Rightarrow> student_row option" where
  "student_of_user u d = find (\<lambda>s. stu_user_id s = u) (db_students d)"

definition need_student :: "uuid \<Rightarrow> student_row db_comp" where
  "need_student u = andthen (gets (student_of_user u)) (\<lambda>s.
     found_or s (AppErr 404 ''STUDENT_PROFILE_NOT_FOUND''))"

definition active_plan :: "uuid \<Rightarrow> db \<Rightarrow> weekly_plan_row option" where
  "active_plan student d =
    find (\<lambda>p. wp_student_id p = student \<and> wp_status p = Plan_ACTIVE) (db_weekly_plans d)"

definition need_active_plan :: "uuid \<Rightarrow> weekly_plan_row db_comp" where
  "need_active_plan student = andthen (gets (active_plan student)) (\<lambda>p.
     found_or p (AppErr 404 ''ACTIVE_PLAN_NOT_FOUND''))"

definition has_active_plan :: "uuid \<Rightarrow> bool db_comp" where
  "has_active_plan u = andthen (need_student u) (\<lambda>s.
     gets (\<lambda>d. active_plan (stu_id s) d \<noteq> None))"

definition set_plan :: "uuid \<Rightarrow> (weekly_plan_row \<Rightarrow> weekly_plan_row) \<Rightarrow> unit db_comp" where
  "set_plan i f = modify (\<lambda>d. d\<lparr>db_weekly_plans := update_rows (\<lambda>p. wp_id p = i) f (db_weekly_plans d)\<rparr>)"

definition plan_tasks :: "uuid \<Rightarrow> db \<Rightarrow> plan_task_row list" where
  "plan_tasks plan d = filter (\<lambda>t. pt_plan_id t = plan) (db_plan_tasks d)"

definition scheduled_sections :: "plan_task_row list \<Rightarrow> uuid set" where
  "scheduled_sections ts = set (List.map_filter pt_resource_section_id ts)"

definition rolled_items :: "weekly_plan_row \<Rightarrow> student_row \<Rightarrow> date \<Rightarrow> db \<Rightarrow> plan_item list" where
  "rolled_items p s target d =
    (let tasks = plan_tasks (wp_id p) d in
     sch_items (roll_days (\<lambda>day. plan_capacity (stu_id s) day d)
       (\<lambda>used. resource_candidates used (stu_target_school_id s) d) (wp_end_date p) target
       (start_schedule (scheduled_sections tasks) (int (length tasks) + 1))))"

definition roll_forward :: "time \<Rightarrow> uuid \<Rightarrow> date \<Rightarrow> uuid db_comp" where
  "roll_forward now student today = transaction
    (andthen (need_active_plan student) (\<lambda>p.
     andthen (gets (get_student student)) (\<lambda>s.
     andthen (found_or s (AppErr 404 ''STUDENT_PROFILE_NOT_FOUND'')) (\<lambda>s.
     andthen (gets (rolled_items p s (today + 6))) (\<lambda>items.
     andthen (insert_items now (wp_id p) items) (\<lambda>_.
     andthen (set_plan (wp_id p) (\<lambda>p. p\<lparr>wp_end_date := max (wp_end_date p) (today + 6),
       wp_last_rolled_at := Some now\<rparr>)) (\<lambda>_. ret (wp_id p))))))))"

definition first_plan :: "time \<Rightarrow> uuid \<Rightarrow> uuid \<Rightarrow> date \<Rightarrow> weekly_plan_row" where
  "first_plan now i student start = \<lparr>wp_id = i, wp_student_id = student, wp_start_date = start,
     wp_end_date = start + 6, wp_revision = 1, wp_parent_plan_id = None,
     wp_planner_version = ''learning_planner_v1'', wp_status = Plan_ACTIVE,
     wp_generated_reason = ''INITIAL_LEARNING_PLAN'', wp_timezone = ''Asia/Shanghai'',
     wp_last_rolled_at = None, wp_version = 1, wp_created_at = now\<rparr>"

definition first_week :: "student_row \<Rightarrow> date \<Rightarrow> resource_candidate list \<Rightarrow> db \<Rightarrow> plan_item list" where
  "first_week s start candidates d =
    sch_items (fill_days initial_day (\<lambda>day. plan_capacity (stu_id s) day d) candidates start 7
      (start_schedule {} 1))"

definition generate_first :: "time \<Rightarrow> student_row \<Rightarrow> date \<Rightarrow> uuid db_comp" where
  "generate_first now s start = transaction
    (andthen (gets (\<lambda>d. fresh_id (map wp_id (db_weekly_plans d)))) (\<lambda>i.
     andthen (modify (\<lambda>d. d\<lparr>db_weekly_plans := db_weekly_plans d @ [first_plan now i (stu_id s) start]\<rparr>))
       (\<lambda>_.
     andthen (gets (resource_candidates {} (stu_target_school_id s))) (\<lambda>candidates.
       if candidates = [] then app_error 422 ''NO_PUBLISHED_RESOURCE''
       else
         andthen (gets (first_week s start candidates)) (\<lambda>items.
         andthen (insert_items now i items) (\<lambda>_. ret i))))))"

definition generate_or_roll :: "time \<Rightarrow> uuid \<Rightarrow> date \<Rightarrow> uuid db_comp" where
  "generate_or_roll now u start =
    andthen (need_student u) (\<lambda>s.
    andthen (gets (active_plan (stu_id s))) (\<lambda>active. case active of
        Some p \<Rightarrow> roll_forward now (stu_id s) start
      | None \<Rightarrow> generate_first now s start))"

text \<open>\<open>_backfill_learning_window\<close>: a window without any learning task is filled.\<close>

definition learning_task_types :: "task_type list" where
  "learning_task_types = [TT_COURSE_LEARNING, TT_HANDOUT_PRACTICE, TT_ERROR_REVIEW, TT_KNOWLEDGE_SUMMARY]"

definition window_task :: "uuid \<Rightarrow> date \<Rightarrow> date \<Rightarrow> plan_task_row \<Rightarrow> bool" where
  "window_task plan start until t \<longleftrightarrow> pt_plan_id t = plan \<and> start \<le> pt_task_date t \<and> pt_task_date t \<le> until
     \<and> pt_task_type t \<in> set learning_task_types \<and> pt_status t \<notin> {Task_SKIPPED, Task_SUPERSEDED}"

definition next_sequence :: "uuid \<Rightarrow> db \<Rightarrow> int" where
  "next_sequence plan d = (case plan_tasks plan d of
     [] \<Rightarrow> 1 | ts \<Rightarrow> Max (set (map pt_sequence ts)) + 1)"

definition backfill_items :: "weekly_plan_row \<Rightarrow> student_row \<Rightarrow> date \<Rightarrow> date \<Rightarrow> db \<Rightarrow> plan_item list" where
  "backfill_items p s start until d =
    sch_items (fill_days backfill_day (\<lambda>day. plan_capacity (stu_id s) day d)
      (resource_candidates {} (stu_target_school_id s) d) start (nat (until - start + 1))
      (start_schedule {} (next_sequence (wp_id p) d)))"

definition backfill_window :: "time \<Rightarrow> student_row \<Rightarrow> weekly_plan_row \<Rightarrow> date \<Rightarrow> date \<Rightarrow> unit db_comp" where
  "backfill_window now s p start until = transaction
    (andthen (gets (\<lambda>d. list_ex (window_task (wp_id p) start until) (db_plan_tasks d))) (\<lambda>exists.
      if exists then ret ()
      else
        andthen (gets (backfill_items p s start until)) (\<lambda>items.
        andthen (insert_items now (wp_id p) items) (\<lambda>_.
        set_plan (wp_id p) (\<lambda>p. p\<lparr>wp_start_date := min (wp_start_date p) start,
          wp_end_date := max (wp_end_date p) until, wp_version := wp_version p + 1\<rparr>)))))"

text \<open>\<open>current\<close>: the tasks of the window, with their knowledge, resource and feedback.\<close>

record plan_task_data =
  ptd_task :: plan_task_row
  ptd_knowledge_id :: "uuid option"
  ptd_resource_title :: "string option"
  ptd_section_title :: "string option"
  ptd_feedback_version :: "int option"

text \<open>A left outer join: the matching rows, or one row without a match.\<close>

definition outer_join :: "('a \<Rightarrow> bool) \<Rightarrow> 'a list \<Rightarrow> 'a option list" where
  "outer_join P rows = (case filter P rows of [] \<Rightarrow> [None] | xs \<Rightarrow> map Some xs)"

definition shown_task :: "uuid \<Rightarrow> date \<Rightarrow> date \<Rightarrow> plan_task_row \<Rightarrow> bool" where
  "shown_task plan start until t \<longleftrightarrow> pt_plan_id t = plan \<and> start \<le> pt_task_date t \<and> pt_task_date t \<le> until
     \<and> pt_origin t \<noteq> Origin_LEGACY \<and> pt_status t \<notin> {Task_SUPERSEDED, Task_SUPERSEDED_LEGACY}"

definition task_data :: "db \<Rightarrow> plan_task_row \<Rightarrow> plan_task_data list" where
  "task_data d t =
    (let section = (case pt_resource_section_id t of None \<Rightarrow> None
           | Some i \<Rightarrow> find (\<lambda>s. rsec_id s = i) (db_resource_sections d));
         resource = (case section of None \<Rightarrow> None | Some s \<Rightarrow> section_resource s d) in
     concat (map (\<lambda>k. map (\<lambda>f. \<lparr>ptd_task = t, ptd_knowledge_id = map_option ptk_knowledge_id k,
         ptd_resource_title = map_option lr_title resource,
         ptd_section_title = map_option rsec_title section,
         ptd_feedback_version = map_option fb_feedback_version f\<rparr>)
       (outer_join (\<lambda>f. fb_task_id f = pt_id t) (db_feedback d)))
       (outer_join (\<lambda>k. ptk_task_id k = pt_id t) (db_plan_task_knowledge d))))"

definition window_tasks :: "uuid \<Rightarrow> date \<Rightarrow> date \<Rightarrow> db \<Rightarrow> plan_task_data list" where
  "window_tasks plan start until d =
    concat (map (task_data d) (sort_key pt_task_date (sort_key pt_sequence
      (filter (shown_task plan start until) (db_plan_tasks d)))))"

definition current_plan :: "time \<Rightarrow> date \<Rightarrow> uuid \<Rightarrow> date option \<Rightarrow> date option
    \<Rightarrow> (uuid \<times> plan_task_data list) db_comp" where
  "current_plan now today u from_date to_date =
    andthen (need_student u) (\<lambda>s.
    andthen (need_active_plan (stu_id s)) (\<lambda>p.
      let start = (case from_date of None \<Rightarrow> today | Some x \<Rightarrow> x);
          until = (case to_date of None \<Rightarrow> start + 6 | Some x \<Rightarrow> x) in
      andthen (if from_date = None \<and> to_date = None
               then andthen (backfill_window now s p start until) (\<lambda>_.
                    andthen (roll_forward now (stu_id s) start) (\<lambda>_. ret ()))
               else ret ()) (\<lambda>_.
      andthen (gets (window_tasks (wp_id p) start until)) (\<lambda>ts. ret (wp_id p, ts)))))"

definition today_tasks :: "time \<Rightarrow> date \<Rightarrow> uuid \<Rightarrow> date \<Rightarrow> plan_task_data list db_comp" where
  "today_tasks now today u target =
    andthen (current_plan now today u (Some target) (Some target)) (\<lambda>(_, ts).
    ret (filter (\<lambda>x. pt_status (ptd_task x)
      \<notin> {Task_SKIPPED, Task_SUPERSEDED, Task_SUPERSEDED_LEGACY}) ts))"

definition get_plan :: "uuid \<Rightarrow> db \<Rightarrow> weekly_plan_row option" where
  "get_plan i d = find (\<lambda>p. wp_id p = i) (db_weekly_plans d)"

definition plan_events :: "uuid \<Rightarrow> db \<Rightarrow> plan_task_change_event_row list" where
  "plan_events plan d = filter (\<lambda>e. pce_plan_id e = plan) (db_plan_task_change_events d)"

definition plan_changes :: "uuid \<Rightarrow> uuid \<Rightarrow> plan_task_change_event_row list db_comp" where
  "plan_changes u plan_id =
    andthen (need_student u) (\<lambda>s.
    andthen (gets (get_plan plan_id)) (\<lambda>p. case p of
        None \<Rightarrow> app_error 404 ''PLAN_NOT_FOUND''
      | Some p \<Rightarrow>
          if wp_student_id p \<noteq> stu_id s then app_error 404 ''PLAN_NOT_FOUND''
          else gets (\<lambda>d. sort_key pce_change_sequence (plan_events (wp_id p) d))))"

subsection \<open>Editing a plan\<close>

text \<open>\<open>PlanTaskPatchItem\<close>, dumped to a dictionary by the route.\<close>

record task_change =
  tc_operation :: string
  tc_task_id :: "uuid option"
  tc_expected_version :: "int option"
  tc_task_date :: "date option"
  tc_task_type :: "string option"
  tc_title :: "string option"
  tc_description :: "string option"
  tc_knowledge_id :: "uuid option"
  tc_resource_section_id :: "uuid option"
  tc_suggested_scope :: "string option"
  tc_planned_units :: "int option"
  tc_unit_type :: "string option"
  tc_student_estimated_minutes :: "int option"
  tc_sequence :: "int option"
  tc_reason :: "string option"

text \<open>\<open>str(x or default)\<close> of a nullable string and \<open>int(x or default)\<close> of a nullable integer.\<close>

definition str_or :: "string option \<Rightarrow> string \<Rightarrow> string" where
  "str_or x dflt = (case x of None \<Rightarrow> dflt | Some s \<Rightarrow> if s = [] then dflt else s)"

definition int_or :: "int option \<Rightarrow> int \<Rightarrow> int" where
  "int_or x dflt = (case x of None \<Rightarrow> dflt | Some n \<Rightarrow> if n = 0 then dflt else n)"

text \<open>\<open>TaskType(value)\<close>.\<close>

definition all_task_types :: "task_type list" where
  "all_task_types = [TT_COURSE_LEARNING, TT_HANDOUT_PRACTICE, TT_ERROR_REVIEW, TT_KNOWLEDGE_SUMMARY,
     TT_CHAPTER_TRUE_EXAM, TT_FULL_TRUE_EXAM, TT_SPECIALIZED_PRACTICE, TT_THEORY_REVIEW,
     TT_BASIC_QUESTION, TT_MEDIUM_QUESTION, TT_COMPREHENSIVE_QUESTION, TT_TRUE_EXAM_QUESTION,
     TT_WRONG_QUESTION_REVIEW, TT_MOCK_EXAM]"

definition parse_task_type :: "string \<Rightarrow> exn + task_type" where
  "parse_task_type v = (case find (\<lambda>t. task_type_value t = v) all_task_types of
     None \<Rightarrow> Inl (PyExc ''ValueError'') | Some t \<Rightarrow> Inr t)"

definition opt_str :: "string option \<Rightarrow> json" where
  "opt_str x = (case x of None \<Rightarrow> JNull | Some s \<Rightarrow> JStr s)"

definition opt_int :: "int option \<Rightarrow> json" where
  "opt_int x = (case x of None \<Rightarrow> JNull | Some n \<Rightarrow> JInt n)"

definition task_snapshot :: "app_env \<Rightarrow> plan_task_row \<Rightarrow> jobj" where
  "task_snapshot env t =
    [(''task_date'', JStr (ae_date_iso env (pt_task_date t))),
     (''task_type'', JStr (task_type_value (pt_task_type t))),
     (''title'', JStr (pt_title t)), (''description'', JStr (pt_description t)),
     (''resource_section_id'', opt_str (map_option (ae_uuid_str env) (pt_resource_section_id t))),
     (''planned_units'', opt_int (pt_planned_units t)), (''unit_type'', opt_str (pt_unit_type t)),
     (''effective_minutes'', JInt (pt_effective_minutes t)), (''sequence'', JInt (pt_sequence t)),
     (''status'', JStr (task_status_value (pt_status t))), (''version'', JInt (pt_version t))]"

definition new_change_event :: "uuid \<Rightarrow> time \<Rightarrow> uuid \<Rightarrow> uuid \<Rightarrow> uuid \<Rightarrow> string \<Rightarrow> jobj option \<Rightarrow> jobj option
    \<Rightarrow> task_change \<Rightarrow> int \<Rightarrow> plan_task_change_event_row" where
  "new_change_event i now plan task u operation before after c sequence =
    \<lparr>pce_id = i, pce_plan_id = plan, pce_task_id = Some task, pce_change_sequence = sequence,
     pce_actor = Actor_STUDENT, pce_actor_user_id = Some u, pce_operation = operation,
     pce_before = before, pce_after = after, pce_reason = str_or (tc_reason c) ''student plan edit'',
     pce_occurred_at = now\<rparr>"

definition record_change :: "time \<Rightarrow> uuid \<Rightarrow> uuid \<Rightarrow> uuid \<Rightarrow> string \<Rightarrow> jobj option \<Rightarrow> jobj option
    \<Rightarrow> task_change \<Rightarrow> int \<Rightarrow> unit db_comp" where
  "record_change now plan task u operation before after c sequence = modify (\<lambda>d.
     d\<lparr>db_plan_task_change_events := db_plan_task_change_events d @
       [new_change_event (fresh_id (map pce_id (db_plan_task_change_events d))) now plan task u operation
          before after c sequence]\<rparr>)"

definition next_change_sequence :: "uuid \<Rightarrow> db \<Rightarrow> int" where
  "next_change_sequence plan d = (case plan_events plan d of
     [] \<Rightarrow> 1 | es \<Rightarrow> Max (set (map pce_change_sequence es)) + 1)"

definition personal_task :: "uuid \<Rightarrow> time \<Rightarrow> uuid \<Rightarrow> task_change \<Rightarrow> date \<Rightarrow> task_type \<Rightarrow> string \<Rightarrow> uuid
    \<Rightarrow> plan_task_row" where
  "personal_task i now plan c day tt title section_id =
    (let minutes = int_or (tc_student_estimated_minutes c) 30 in
     \<lparr>pt_id = i, pt_plan_id = plan, pt_task_date = day, pt_task_type = tt, pt_title = title,
      pt_description = str_or (tc_description c) [], pt_resource_section_id = Some section_id,
      pt_suggested_scope = tc_suggested_scope c, pt_target_count = 0,
      pt_planned_units = tc_planned_units c, pt_unit_type = tc_unit_type c,
      pt_estimated_min_minutes = minutes, pt_estimated_max_minutes = minutes,
      pt_system_suggested_minutes = minutes, pt_student_estimated_minutes = Some minutes,
      pt_effective_minutes = minutes, pt_priority = 5 / 10, pt_status = Task_PENDING,
      pt_origin = Origin_STUDENT, pt_is_personal = True, pt_has_capacity_warning = False,
      pt_reason = str_or (tc_reason c) ''student created task'', pt_modified_reason = None,
      pt_sequence = int_or (tc_sequence c) 1, pt_superseded_by_id = None, pt_version = 1,
      pt_created_at = now\<rparr>)"

definition add_knowledge :: "uuid \<Rightarrow> uuid \<Rightarrow> unit db_comp" where
  "add_knowledge task knowledge = modify (\<lambda>d. d\<lparr>db_plan_task_knowledge := db_plan_task_knowledge d @
     [\<lparr>ptk_task_id = task, ptk_knowledge_id = knowledge\<rparr>]\<rparr>)"

text \<open>\<open>_create_personal_task\<close>.\<close>

definition create_personal_task :: "time \<Rightarrow> uuid \<Rightarrow> task_change \<Rightarrow> plan_task_row db_comp" where
  "create_personal_task now plan c =
    (case (tc_task_date c, tc_task_type c, tc_title c, tc_knowledge_id c, tc_resource_section_id c) of
       (Some day, Some tt, Some title, Some knowledge, Some section_id) \<Rightarrow>
         andthen (validate_resource section_id knowledge) (\<lambda>_.
         andthen (lift_result (parse_task_type tt)) (\<lambda>tt.
         andthen (gets (\<lambda>d. personal_task (fresh_id (map pt_id (db_plan_tasks d))) now plan c day tt title
           section_id)) (\<lambda>t.
         andthen (modify (\<lambda>d. d\<lparr>db_plan_tasks := db_plan_tasks d @ [t]\<rparr>)) (\<lambda>_.
         andthen (add_knowledge (pt_id t) knowledge) (\<lambda>_. ret t)))))
     | _ \<Rightarrow> app_error 422 ''INCOMPLETE_PLAN_TASK'')"

definition need_task_knowledge :: "uuid \<Rightarrow> uuid db_comp" where
  "need_task_knowledge i = andthen (gets (task_knowledge i)) (\<lambda>k.
     found_or k (AppErr 422 ''TASK_KNOWLEDGE_MISSING''))"

text \<open>The new binding of a task: its first knowledge row is replaced when the knowledge changed.\<close>

definition rebind_knowledge :: "uuid \<Rightarrow> uuid \<Rightarrow> uuid \<Rightarrow> unit db_comp" where
  "rebind_knowledge task old new =
    (if old = new then ret ()
     else andthen (gets (\<lambda>d. list_ex (\<lambda>k. ptk_task_id k = task \<and> ptk_knowledge_id k = new)
            (db_plan_task_knowledge d))) (\<lambda>duplicate.
       if duplicate then throw (PyExc ''IntegrityError'')
       else
         andthen (modify (\<lambda>d. d\<lparr>db_plan_task_knowledge :=
            filter (\<lambda>k. \<not> (ptk_task_id k = task \<and> ptk_knowledge_id k = old)) (db_plan_task_knowledge d)\<rparr>))
          (\<lambda>_. add_knowledge task new)))"

definition rebind_task :: "plan_task_row \<Rightarrow> task_change \<Rightarrow> unit db_comp" where
  "rebind_task t c =
    (if tc_resource_section_id c = None \<and> tc_knowledge_id c = None then ret ()
     else
       andthen (case tc_knowledge_id c of None \<Rightarrow> need_task_knowledge (pt_id t) | Some k \<Rightarrow> ret k) (\<lambda>knowledge.
       andthen (found_or (case tc_resource_section_id c of None \<Rightarrow> pt_resource_section_id t | Some s \<Rightarrow> Some s)
         (PyExc ''ValueError'')) (\<lambda>section_id.
       andthen (validate_resource section_id knowledge) (\<lambda>_.
       andthen (set_task (pt_id t) (\<lambda>t. t\<lparr>pt_resource_section_id := Some section_id\<rparr>)) (\<lambda>_.
       andthen (need_task_knowledge (pt_id t)) (\<lambda>old.
       rebind_knowledge (pt_id t) old knowledge))))))"

text \<open>A field is assigned when the change has a value for it.\<close>

definition opt_set :: "'a option \<Rightarrow> 'a \<Rightarrow> 'a" where
  "opt_set x old = (case x of None \<Rightarrow> old | Some v \<Rightarrow> v)"

definition edited_task :: "task_change \<Rightarrow> task_type option \<Rightarrow> plan_task_row \<Rightarrow> plan_task_row" where
  "edited_task c tt t = t\<lparr>pt_task_date := opt_set (tc_task_date c) (pt_task_date t),
     pt_title := opt_set (tc_title c) (pt_title t),
     pt_description := opt_set (tc_description c) (pt_description t),
     pt_suggested_scope := (if tc_suggested_scope c = None then pt_suggested_scope t else tc_suggested_scope c),
     pt_planned_units := (if tc_planned_units c = None then pt_planned_units t else tc_planned_units c),
     pt_unit_type := (if tc_unit_type c = None then pt_unit_type t else tc_unit_type c),
     pt_sequence := opt_set (tc_sequence c) (pt_sequence t),
     pt_task_type := opt_set tt (pt_task_type t),
     pt_student_estimated_minutes := (if tc_student_estimated_minutes c = None
        then pt_student_estimated_minutes t else tc_student_estimated_minutes c),
     pt_effective_minutes := opt_set (tc_student_estimated_minutes c) (pt_effective_minutes t),
     pt_estimated_min_minutes := opt_set (tc_student_estimated_minutes c) (pt_estimated_min_minutes t),
     pt_estimated_max_minutes := opt_set (tc_student_estimated_minutes c) (pt_estimated_max_minutes t),
     pt_modified_reason := Some (str_or (tc_reason c) ''student edited task'')\<rparr>"

text \<open>\<open>_update_task\<close>.\<close>

definition update_task :: "plan_task_row \<Rightarrow> task_change \<Rightarrow> unit db_comp" where
  "update_task t c =
    andthen (rebind_task t c) (\<lambda>_.
    andthen (lift_result (case tc_task_type c of None \<Rightarrow> Inr None
       | Some v \<Rightarrow> map_sum id Some (parse_task_type v))) (\<lambda>tt.
    set_task (pt_id t) (edited_task c tt)))"

definition get_task :: "uuid \<Rightarrow> db \<Rightarrow> plan_task_row option" where
  "get_task i d = find (\<lambda>t. pt_id t = i) (db_plan_tasks d)"

definition skipped_task :: "task_change \<Rightarrow> plan_task_row \<Rightarrow> plan_task_row" where
  "skipped_task c t = t\<lparr>pt_status := Task_SKIPPED,
     pt_modified_reason := Some (str_or (tc_reason c) ''student removed task'')\<rparr>"

definition change_task :: "plan_task_row \<Rightarrow> task_change \<Rightarrow> unit db_comp" where
  "change_task t c =
    (if tc_operation c = ''DELETE'' then set_task (pt_id t) (skipped_task c)
     else if tc_operation c = ''UPDATE'' then update_task t c
     else app_error 422 ''INVALID_PLAN_OPERATION'')"

text \<open>\<open>_apply_change\<close>: the sequence number after the change.\<close>

definition apply_change :: "app_env \<Rightarrow> time \<Rightarrow> uuid \<Rightarrow> uuid \<Rightarrow> task_change \<Rightarrow> int \<Rightarrow> int db_comp" where
  "apply_change env now plan u c sequence =
    (if tc_operation c = ''CREATE'' then
       andthen (create_personal_task now plan c) (\<lambda>t.
       andthen (record_change now plan (pt_id t) u ''CREATE'' None (Some (task_snapshot env t)) c sequence)
         (\<lambda>_. ret (sequence + 1)))
     else (case tc_task_id c of
         None \<Rightarrow> app_error 422 ''PLAN_TASK_ID_REQUIRED''
       | Some i \<Rightarrow>
           andthen (gets (get_task i)) (\<lambda>t. case t of
               None \<Rightarrow> app_error 404 ''PLAN_TASK_NOT_FOUND''
             | Some t \<Rightarrow>
                 if pt_plan_id t \<noteq> plan then app_error 404 ''PLAN_TASK_NOT_FOUND''
                 else if pt_status t = Task_COMPLETED then app_error 409 ''COMPLETED_TASK_IMMUTABLE''
                 else if tc_expected_version c \<noteq> Some (pt_version t) then app_error 409 ''VERSION_CONFLICT''
                 else
                   andthen (change_task t c) (\<lambda>_.
                   andthen (set_task i (\<lambda>t. t\<lparr>pt_version := pt_version t + 1\<rparr>)) (\<lambda>_.
                   andthen (gets (get_task i)) (\<lambda>after.
                   andthen (record_change now plan i u (tc_operation c) (Some (task_snapshot env t))
                      (map_option (task_snapshot env) after) c sequence) (\<lambda>_.
                   ret (sequence + 1))))))))"

fun apply_changes :: "app_env \<Rightarrow> time \<Rightarrow> uuid \<Rightarrow> uuid \<Rightarrow> task_change list \<Rightarrow> int \<Rightarrow> int db_comp" where
  "apply_changes env now plan u [] sequence = ret sequence"
| "apply_changes env now plan u (c # cs) sequence =
    andthen (apply_change env now plan u c sequence) (apply_changes env now plan u cs)"

text \<open>\<open>_capacity_warnings\<close>: the days whose tasks exceed the student's capacity.\<close>

definition planned_task :: "uuid \<Rightarrow> plan_task_row \<Rightarrow> bool" where
  "planned_task plan t \<longleftrightarrow> pt_plan_id t = plan \<and> pt_origin t \<noteq> Origin_LEGACY
     \<and> pt_status t \<notin> {Task_SKIPPED, Task_SUPERSEDED, Task_SUPERSEDED_LEGACY}"

definition planned_minutes :: "uuid \<Rightarrow> date \<Rightarrow> db \<Rightarrow> int" where
  "planned_minutes plan day d =
    sum_of pt_effective_minutes (filter (\<lambda>t. planned_task plan t \<and> pt_task_date t = day) (db_plan_tasks d))"

definition capacity_warnings :: "uuid \<Rightarrow> uuid \<Rightarrow> db \<Rightarrow> date list" where
  "capacity_warnings student plan d =
    filter (\<lambda>day. plan_capacity student day d < planned_minutes plan day d)
      (remdups (map pt_task_date (filter (planned_task plan) (db_plan_tasks d))))"

definition mark_warnings :: "uuid \<Rightarrow> date list \<Rightarrow> unit db_comp" where
  "mark_warnings plan warned = modify (\<lambda>d. d\<lparr>db_plan_tasks :=
     update_rows (\<lambda>t. pt_plan_id t = plan)
       (\<lambda>t. t\<lparr>pt_has_capacity_warning := (pt_task_date t \<in> set warned)\<rparr>) (db_plan_tasks d)\<rparr>)"

definition owned_plan :: "uuid \<Rightarrow> uuid \<Rightarrow> db \<Rightarrow> weekly_plan_row option" where
  "owned_plan student plan_id d =
    find (\<lambda>p. wp_id p = plan_id \<and> wp_student_id p = student) (db_weekly_plans d)"

definition patch_tasks :: "app_env \<Rightarrow> time \<Rightarrow> uuid \<Rightarrow> uuid \<Rightarrow> int \<Rightarrow> bool \<Rightarrow> task_change list \<Rightarrow> uuid db_comp" where
  "patch_tasks env now u plan_id expected allow changes = transaction
    (andthen (need_student u) (\<lambda>s.
     andthen (gets (owned_plan (stu_id s) plan_id)) (\<lambda>p. case p of
         None \<Rightarrow> app_error 404 ''PLAN_NOT_FOUND''
       | Some p \<Rightarrow>
           if wp_version p \<noteq> expected then app_error 409 ''VERSION_CONFLICT''
           else
             andthen (gets (next_change_sequence (wp_id p))) (\<lambda>sequence.
             andthen (apply_changes env now (wp_id p) u changes sequence) (\<lambda>_.
             andthen (gets (capacity_warnings (stu_id s) (wp_id p))) (\<lambda>warned.
               if warned \<noteq> [] \<and> \<not> allow then app_error 422 ''PLAN_CAPACITY_EXCEEDED''
               else
                 andthen (mark_warnings (wp_id p) warned) (\<lambda>_.
                 andthen (set_plan (wp_id p) (\<lambda>p. p\<lparr>wp_version := wp_version p + 1\<rparr>)) (\<lambda>_.
                 ret (wp_id p)))))))))"

subsection \<open>The job that generates a plan\<close>

text \<open>\<open>PlanGenerationService.execute_job\<close>.\<close>

definition execute_plan_job :: "app_env \<Rightarrow> time \<Rightarrow> background_job_row \<Rightarrow> unit db_comp" where
  "execute_plan_job env now j =
    (case bj_user_id j of
       None \<Rightarrow> app_error 422 ''JOB_HAS_NO_OWNER''
     | Some u \<Rightarrow>
         andthen (gets (student_of_user u)) (\<lambda>s.
           if s = None \<or> (case s of Some s \<Rightarrow> stu_target_school_id s = None | None \<Rightarrow> True)
           then app_error 422 ''STUDENT_PROFILE_INCOMPLETE''
           else
             andthen (found_or (map_of (bj_payload j) ''start_date'') (PyExc ''KeyError'')) (\<lambda>v.
             andthen (found_or (ae_date_of env (json_str env v)) (PyExc ''ValueError'')) (\<lambda>start.
             andthen (generate_or_roll now u start) (\<lambda>i.
             andthen (gets (get_plan i)) (\<lambda>p.
             set_job (bj_id j) (\<lambda>j. j\<lparr>bj_result := Some
               [(''plan_id'', JStr (ae_uuid_str env i)),
                (''revision'', opt_int (map_option wp_revision p))]\<rparr>)))))))"

subsection \<open>What a schedule keeps\<close>

definition item_section :: "plan_item \<Rightarrow> uuid" where
  "item_section it = rsec_id (rc_section (it_candidate it))"

definition item_sections :: "plan_item list \<Rightarrow> uuid list" where
  "item_sections its = map item_section (filter (\<lambda>it. \<not> it_summary it) its)"

definition day_minutes :: "date \<Rightarrow> plan_item list \<Rightarrow> int" where
  "day_minutes day its = sum_of it_minutes (filter (\<lambda>it. it_day it = day) its)"

text \<open>
  While \<open>day\<close> is filled: the minutes of the day and what remains make its capacity, every other day is
  within its capacity, the sequence numbers are consecutive, and the items are of the candidates.
\<close>

definition schedule_ok :: "(date \<Rightarrow> int) \<Rightarrow> resource_candidate set \<Rightarrow> date \<Rightarrow> int \<Rightarrow> date \<Rightarrow> schedule \<Rightarrow> bool" where
  "schedule_ok capacity cs start first day s \<longleftrightarrow>
     (\<forall>it \<in> set (sch_items s). start \<le> it_day it \<and> it_day it \<le> day \<and> it_candidate it \<in> cs
        \<and> 0 \<le> it_minutes it \<and> (it_summary it \<longrightarrow> it_minutes it = 20))
     \<and> (\<forall>x < day. day_minutes x (sch_items s) \<le> max 0 (capacity x))
     \<and> day_minutes day (sch_items s) = capacity day - sch_remaining s
     \<and> (0 \<le> sch_remaining s \<or> day_minutes day (sch_items s) = 0)
     \<and> map it_sequence (sch_items s) = map (\<lambda>k. first + int k) [0..<length (sch_items s)]
     \<and> sch_sequence s = first + int (length (sch_items s))"

text \<open>The sections that were used before are not scheduled; those scheduled are used.\<close>

definition sections_ok :: "uuid set \<Rightarrow> schedule \<Rightarrow> bool" where
  "sections_ok used s \<longleftrightarrow> set (item_sections (sch_items s)) \<inter> used = {}
     \<and> sch_used s = used \<union> set (item_sections (sch_items s))"

lemma day_minutes_append [simp]: "day_minutes x (its @ jts) = day_minutes x its + day_minutes x jts"
  by (simp add: day_minutes_def)

lemma day_minutes_Nil [simp]: "day_minutes x [] = 0"
  by (simp add: day_minutes_def)

lemma day_minutes_Cons [simp]:
  "day_minutes x (it # its) = (if it_day it = x then it_minutes it else 0) + day_minutes x its"
  by (simp add: day_minutes_def)

lemma item_sections_append [simp]: "item_sections (its @ jts) = item_sections its @ item_sections jts"
  by (simp add: item_sections_def)

lemma item_sections_simps [simp]: "item_sections [] = []"
  "item_sections (it # its) = (if it_summary it then [] else [item_section it]) @ item_sections its"
  by (simp_all add: item_sections_def)

lemma place_simps [simp]:
  "sch_items (place day c b m s) = sch_items s @ [\<lparr>it_candidate = c, it_day = day,
     it_sequence = sch_sequence s, it_minutes = m, it_summary = b\<rparr>]"
  "sch_used (place day c b m s) = sch_used s"
  "sch_summaries (place day c b m s) = sch_summaries s"
  "sch_remaining (place day c b m s) = sch_remaining s - m"
  "sch_sequence (place day c b m s) = sch_sequence s + 1"
  by (simp_all add: place_def)

lemma candidate_minutes_pos: "0 \<le> candidate_minutes c"
  by (simp add: candidate_minutes_def)

lemma place_ok:
  assumes "schedule_ok capacity cs start first day s" and "start \<le> day" and "c \<in> cs"
    and "0 \<le> m" and "b \<longrightarrow> m = 20" and "m \<le> sch_remaining s"
  shows "schedule_ok capacity cs start first day (place day c b m s)"
  using assms unfolding schedule_ok_def by (auto simp: algebra_simps)

lemma schedule_ok_used [simp]:
  "schedule_ok capacity cs start first day (s\<lparr>sch_used := u\<rparr>) = schedule_ok capacity cs start first day s"
  "schedule_ok capacity cs start first day (s\<lparr>sch_summaries := u\<rparr>) = schedule_ok capacity cs start first day s"
  by (simp_all add: schedule_ok_def)

lemma place_task_ok:
  assumes "schedule_ok capacity cs start first day s" and "start \<le> day" and "c \<in> cs"
    and "\<not> sch_remaining s < candidate_minutes c"
  shows "schedule_ok capacity cs start first day (place_task day c s)"
  using place_ok [OF assms(1-3) candidate_minutes_pos] assms(4) by (simp add: place_task_def Let_def)

lemma place_summary_ok:
  assumes "schedule_ok capacity cs start first day s" and "start \<le> day" and "c \<in> cs"
  shows "schedule_ok capacity cs start first day (place_summary day c s)"
  using place_ok [OF assms, of 20 True] assms(1) by (simp add: place_summary_def Let_def)

lemma fill_ok:
  assumes "start \<le> day"
  shows "schedule_ok capacity cs start first day s \<Longrightarrow> set xs \<subseteq> cs \<Longrightarrow>
      schedule_ok capacity cs start first day (initial_day day xs s)"
    and "schedule_ok capacity cs start first day s \<Longrightarrow> set xs \<subseteq> cs \<Longrightarrow>
      schedule_ok capacity cs start first day (backfill_day day xs s)"
    and "schedule_ok capacity cs start first day s \<Longrightarrow> set xs \<subseteq> cs \<Longrightarrow>
      schedule_ok capacity cs start first day (roll_day day xs s)"
  using assms
  by (induction xs arbitrary: s) (auto simp: Let_def place_task_ok place_summary_ok)

lemma day_minutes_later: "(\<forall>it \<in> set its. it_day it < day) \<Longrightarrow> day_minutes day its = 0"
  by (induction its) auto

text \<open>Between two days: the items lie before \<open>bound\<close> and every day is within its capacity.\<close>

definition week_ok :: "(date \<Rightarrow> int) \<Rightarrow> resource_candidate set \<Rightarrow> date \<Rightarrow> int \<Rightarrow> date \<Rightarrow> schedule \<Rightarrow> bool" where
  "week_ok capacity cs start first bound s \<longleftrightarrow>
     (\<forall>it \<in> set (sch_items s). start \<le> it_day it \<and> it_day it < bound \<and> it_candidate it \<in> cs
        \<and> 0 \<le> it_minutes it \<and> (it_summary it \<longrightarrow> it_minutes it = 20))
     \<and> (\<forall>x. day_minutes x (sch_items s) \<le> max 0 (capacity x))
     \<and> map it_sequence (sch_items s) = map (\<lambda>k. first + int k) [0..<length (sch_items s)]
     \<and> sch_sequence s = first + int (length (sch_items s))"

lemma day_begins:
  assumes "week_ok capacity cs start first day s"
  shows "schedule_ok capacity cs start first day (s\<lparr>sch_remaining := capacity day\<rparr>)"
proof -
  have "day_minutes day (sch_items s) = 0"
    using assms by (intro day_minutes_later) (auto simp: week_ok_def)
  then show ?thesis using assms by (force simp: week_ok_def schedule_ok_def)
qed

lemma day_ends:
  assumes "schedule_ok capacity cs start first day s"
  shows "week_ok capacity cs start first (day + 1) s"
proof -
  have "day_minutes x (sch_items s) \<le> max 0 (capacity x)" for x
  proof (cases "x \<le> day")
    case True
    then show ?thesis using assms by (cases "x = day") (auto simp: schedule_ok_def)
  next
    case False
    then have "day_minutes x (sch_items s) = 0"
      using assms by (intro day_minutes_later) (auto simp: schedule_ok_def)
    then show ?thesis by simp
  qed
  then show ?thesis using assms by (force simp: schedule_ok_def week_ok_def)
qed

lemma week_starts: "week_ok capacity cs start first start (start_schedule used first)"
  by (simp add: week_ok_def start_schedule_def)

lemma fill_days_ok:
  assumes "\<And>day s. start \<le> day \<Longrightarrow> schedule_ok capacity cs start first day s \<Longrightarrow>
      schedule_ok capacity cs start first day (fill day xs s)"
    and "start \<le> day" and "week_ok capacity cs start first day s"
  shows "week_ok capacity cs start first (day + int n) (fill_days fill capacity xs day n s)"
  using assms(2,3)
proof (induction n arbitrary: day s)
  case (Suc n)
  have "week_ok capacity cs start first (day + 1) (fill day xs (s\<lparr>sch_remaining := capacity day\<rparr>))"
    by (intro day_ends assms(1) day_begins Suc.prems)
  from Suc.IH [OF _ this] show ?case using Suc.prems(1) by (simp add: algebra_simps)
qed simp

lemma roll_days_ok:
  assumes "\<And>used. set (candidates used) \<subseteq> cs" and "start \<le> plan_end + 1"
    and "week_ok capacity cs start first (plan_end + 1) s"
  shows "week_ok capacity cs start first (max plan_end target + 1) (roll_days capacity candidates plan_end target s)"
  using assms
proof (induction capacity candidates plan_end target s rule: roll_days.induct)
  case (1 capacity candidates plan_end target s)
  let ?s = "roll_day (plan_end + 1) (candidates (sch_used s)) (s\<lparr>sch_remaining := capacity (plan_end + 1)\<rparr>)"
  have "week_ok capacity cs start first (plan_end + 1 + 1) ?s"
    by (intro day_ends fill_ok day_begins 1)
  from 1(1) [OF _ refl 1(2) _ this] show ?case
    using 1(3,4) by (subst roll_days.simps) (auto simp: Let_def max_def)
qed

text \<open>The sections of the tasks: the first week and a filled window schedule a section once.\<close>

lemma place_sections:
  assumes "sections_ok used s" and "item_section \<lparr>it_candidate = c, it_day = day,
       it_sequence = sch_sequence s, it_minutes = m, it_summary = False\<rparr> \<notin> used"
  shows "sections_ok used (place_task day c s)"
  using assms by (auto simp: sections_ok_def place_task_def Let_def item_section_def)

lemma place_task_distinct:
  assumes "sections_ok used s" and "distinct (item_sections (sch_items s))"
    and "rsec_id (rc_section c) \<notin> sch_used s"
  shows "sections_ok used (place_task day c s) \<and> distinct (item_sections (sch_items (place_task day c s)))"
  using assms by (auto simp: sections_ok_def place_task_def Let_def item_section_def)

lemma place_summary_sections [simp]:
  "sections_ok used (place_summary day c s) = sections_ok used s"
  "item_sections (sch_items (place_summary day c s)) = item_sections (sch_items s)"
  by (simp_all add: sections_ok_def place_summary_def Let_def)

lemma fill_distinct:
  assumes "sections_ok used s" and "distinct (item_sections (sch_items s))"
  shows "sections_ok used (initial_day day xs s) \<and> distinct (item_sections (sch_items (initial_day day xs s)))"
    and "sections_ok used (backfill_day day xs s) \<and> distinct (item_sections (sch_items (backfill_day day xs s)))"
  using assms by (induction xs arbitrary: s) (simp_all add: Let_def place_task_distinct)

lemma roll_day_sections:
  assumes "sections_ok used s" and "\<And>c. c \<in> set xs \<Longrightarrow> rsec_id (rc_section c) \<notin> used"
  shows "sections_ok used (roll_day day xs s)"
  using assms by (induction xs arbitrary: s) (auto simp: Let_def place_sections item_section_def)

lemma sections_ok_remaining [simp]: "sections_ok used (s\<lparr>sch_remaining := r\<rparr>) = sections_ok used s"
  by (simp add: sections_ok_def)

lemma fill_days_distinct:
  assumes "\<And>day s. sections_ok used s \<and> distinct (item_sections (sch_items s)) \<Longrightarrow>
      sections_ok used (fill day xs s) \<and> distinct (item_sections (sch_items (fill day xs s)))"
    and "sections_ok used s \<and> distinct (item_sections (sch_items s))"
  shows "sections_ok used (fill_days fill capacity xs day n s)
    \<and> distinct (item_sections (sch_items (fill_days fill capacity xs day n s)))"
  using assms(2) by (induction n arbitrary: day s) (auto simp: assms(1))

lemma roll_days_sections:
  assumes "\<And>u c. c \<in> set (candidates u) \<Longrightarrow> rsec_id (rc_section c) \<notin> u" and "sections_ok used s"
  shows "sections_ok used (roll_days capacity candidates plan_end target s)"
  using assms
proof (induction capacity candidates plan_end target s rule: roll_days.induct)
  case (1 capacity candidates plan_end target s)
  have "rsec_id (rc_section c) \<notin> used" if "c \<in> set (candidates (sch_used s))" for c
    using 1(2) [OF that] 1(3) by (auto simp: sections_ok_def)
  then have "sections_ok used (roll_day (plan_end + 1) (candidates (sch_used s))
      (s\<lparr>sch_remaining := capacity (plan_end + 1)\<rparr>))"
    using 1(3) by (intro roll_day_sections) auto
  with 1 show ?case by (subst roll_days.simps) (auto simp: Let_def)
qed

lemma start_sections [simp]: "sections_ok used (start_schedule used first)"
  "sch_items (start_schedule used first) = []"
  by (simp_all add: sections_ok_def start_schedule_def)

lemma candidate_sectionD:
  assumes "c \<in> set (resource_candidates excluded school d)"
  shows "rsec_id (rc_section c) \<notin> excluded" "rc_section c \<in> set (db_resource_sections d)"
    "\<exists>r. section_resource (rc_section c) d = Some r \<and> lr_status r = ResStatus_PUBLISHED
      \<and> lr_school_profile_id r = school"
    "\<exists>m \<in> set (db_resource_knowledge_mappings d). rkm_section_id m = rsec_id (rc_section c)
      \<and> rkm_knowledge_id m = rc_knowledge c \<and> rkm_reviewer_confirmed m"
  using assms
  by (auto simp: resource_candidates_def section_candidates_def split: option.splits if_splits)
    (metis option.inject)

lemma candidates_subset: "set (resource_candidates excluded school d) \<subseteq> set (resource_candidates {} school d)"
  by (auto simp: resource_candidates_def)

lemma candidate_valid:
  assumes "c \<in> set (resource_candidates excluded school d)"
    and "distinct (map rsec_id (db_resource_sections d))"
  shows "valid_resource (rsec_id (rc_section c)) (rc_knowledge c) d"
proof -
  have "find (\<lambda>s. rsec_id s = rsec_id (rc_section c)) (db_resource_sections d) = Some (rc_section c)"
    by (rule find_row_by_id [OF assms(2) candidate_sectionD(2) [OF assms(1)] refl])
  then show ?thesis using candidate_sectionD(3,4) [OF assms(1)]
    by (auto simp: valid_resource_def list_ex_iff)
qed

subsection \<open>What the insertion of a schedule does\<close>

lemma item_task_simps [simp]:
  "pt_id (item_task i now plan it) = i" "pt_plan_id (item_task i now plan it) = plan"
  "pt_task_date (item_task i now plan it) = it_day it"
  "pt_status (item_task i now plan it) = Task_PENDING"
  "pt_origin (item_task i now plan it) = Origin_SYSTEM"
  "pt_sequence (item_task i now plan it) = it_sequence it"
  "pt_resource_section_id (item_task i now plan it) = Some (item_section it)"
  "pt_task_type (item_task i now plan it) = TT_KNOWLEDGE_SUMMARY \<longleftrightarrow> it_summary it"
  "pt_effective_minutes (item_task i now plan it) = (if it_summary it then 20 else it_minutes it)"
  by (simp_all add: item_task_def new_task_def new_summary_task_def Let_def item_section_def)

definition item_knowledge :: "plan_task_row \<Rightarrow> plan_item \<Rightarrow> plan_task_knowledge_row" where
  "item_knowledge t it = \<lparr>ptk_task_id = pt_id t, ptk_knowledge_id = rc_knowledge (it_candidate it)\<rparr>"

definition with_tasks :: "plan_task_row list \<Rightarrow> plan_task_knowledge_row list \<Rightarrow> db \<Rightarrow> db" where
  "with_tasks ts ks d = d\<lparr>db_plan_tasks := db_plan_tasks d @ ts,
     db_plan_task_knowledge := db_plan_task_knowledge d @ ks\<rparr>"

definition tasks_of_items :: "time \<Rightarrow> uuid \<Rightarrow> plan_item list \<Rightarrow> plan_task_row list \<Rightarrow> bool" where
  "tasks_of_items now plan its ts \<longleftrightarrow> list_all2 (\<lambda>t it. t = item_task (pt_id t) now plan it) ts its"

lemma insert_items_run:
  "\<exists>ts. insert_items now plan its d = (Inr (), with_tasks ts (map2 item_knowledge ts its) d)
     \<and> tasks_of_items now plan its ts \<and> distinct (map pt_id ts)
     \<and> set (map pt_id ts) \<inter> set (map pt_id (db_plan_tasks d)) = {}"
proof (induction its arbitrary: d)
  case Nil
  show ?case by (simp add: tasks_of_items_def with_tasks_def ret_apply)
next
  case (Cons it its)
  define i where "i = fresh_id (map pt_id (db_plan_tasks d))"
  define t where "t = item_task i now plan it"
  define d1 where "d1 = with_tasks [t] [item_knowledge t it] d"
  have one: "insert_item now plan it d = (Inr (), d1)"
    by (simp add: insert_item_def andthen_apply d1_def with_tasks_def i_def t_def item_knowledge_def)
  obtain ts where ts: "insert_items now plan its d1 = (Inr (), with_tasks ts (map2 item_knowledge ts its) d1)"
    "tasks_of_items now plan its ts" "distinct (map pt_id ts)"
    "set (map pt_id ts) \<inter> set (map pt_id (db_plan_tasks d1)) = {}"
    using Cons.IH [of d1] by blast
  have "i \<notin> set (map pt_id (db_plan_tasks d))" unfolding i_def by (rule fresh_id_notin)
  then have "insert_items now plan (it # its) d =
      (Inr (), with_tasks (t # ts) (map2 item_knowledge (t # ts) (it # its)) d)
    \<and> tasks_of_items now plan (it # its) (t # ts) \<and> distinct (map pt_id (t # ts))
    \<and> set (map pt_id (t # ts)) \<inter> set (map pt_id (db_plan_tasks d)) = {}"
    using one ts by (auto simp: andthen_apply d1_def with_tasks_def tasks_of_items_def t_def)
  then show ?case by (rule exI)
qed

lemma tasks_of_items_maps:
  assumes "tasks_of_items now plan its ts"
  shows "map pt_sequence ts = map it_sequence its" "length ts = length its"
    "map pt_resource_section_id (filter (\<lambda>t. pt_task_type t \<noteq> TT_KNOWLEDGE_SUMMARY) ts) =
       map Some (item_sections its)"
    "filter (\<lambda>t. pt_plan_id t = plan) ts = ts"
proof -
  from assms have "list_all2 (\<lambda>t it. t = item_task (pt_id t) now plan it) ts its"
    by (simp add: tasks_of_items_def)
  then have "map pt_sequence ts = map it_sequence its \<and> length ts = length its
    \<and> map pt_resource_section_id (filter (\<lambda>t. pt_task_type t \<noteq> TT_KNOWLEDGE_SUMMARY) ts) =
       map Some (item_sections its)
    \<and> filter (\<lambda>t. pt_plan_id t = plan) ts = ts"
  proof (induction rule: list_all2_induct)
    case (Cons t ts it its)
    have "pt_sequence t = it_sequence it" "pt_plan_id t = plan"
      "pt_resource_section_id t = Some (item_section it)"
      "pt_task_type t = TT_KNOWLEDGE_SUMMARY \<longleftrightarrow> it_summary it"
      using item_task_simps [of "pt_id t" now plan it] Cons.hyps(1) by simp_all
    with Cons.IH show ?case by simp
  qed simp
  then show "map pt_sequence ts = map it_sequence its" "length ts = length its"
    "map pt_resource_section_id (filter (\<lambda>t. pt_task_type t \<noteq> TT_KNOWLEDGE_SUMMARY) ts) =
       map Some (item_sections its)"
    "filter (\<lambda>t. pt_plan_id t = plan) ts = ts" by blast+
qed

lemma tasks_of_items_minutes:
  assumes "tasks_of_items now plan its ts" and "\<forall>it \<in> set its. it_summary it \<longrightarrow> it_minutes it = 20"
  shows "sum_of pt_effective_minutes (filter (\<lambda>t. planned_task plan t \<and> pt_task_date t = day) ts) =
    day_minutes day its"
proof -
  from assms(1) have "list_all2 (\<lambda>t it. t = item_task (pt_id t) now plan it) ts its"
    by (simp add: tasks_of_items_def)
  then show ?thesis using assms(2)
  proof (induction rule: list_all2_induct)
    case (Cons t ts it its)
    have "pt_task_date t = it_day it" "planned_task plan t"
      "pt_effective_minutes t = it_minutes it"
      using item_task_simps [of "pt_id t" now plan it] Cons.hyps(1) Cons.prems
      by (auto simp: planned_task_def)
    with Cons show ?case by simp
  qed simp
qed

lemma tasks_of_items_in:
  assumes "tasks_of_items now plan its ts" and "t \<in> set ts"
  shows "\<exists>it \<in> set its. t = item_task (pt_id t) now plan it
    \<and> item_knowledge t it \<in> set (map2 item_knowledge ts its)"
proof -
  from assms(2) obtain n where n: "n < length ts" "ts ! n = t" by (auto simp: in_set_conv_nth)
  then have len: "n < length its" and "t = item_task (pt_id t) now plan (its ! n)"
    using assms(1) unfolding tasks_of_items_def by (auto simp: list_all2_conv_all_nth)
  moreover have "(t, its ! n) \<in> set (zip ts its)"
    using n len by (auto simp: set_zip)
  ultimately show ?thesis by (intro bexI [of _ "its ! n"]) (auto intro!: image_eqI [of _ _ "(t, its ! n)"])
qed

text \<open>A roll adds no summaries.\<close>

lemma roll_day_no_summary:
  "\<forall>it \<in> set (sch_items s). \<not> it_summary it \<Longrightarrow> \<forall>it \<in> set (sch_items (roll_day day xs s)). \<not> it_summary it"
proof (induction xs arbitrary: s)
  case (Cons x xs)
  have "\<forall>it \<in> set (sch_items (place_task day x s)). \<not> it_summary it"
    using Cons.prems by (auto simp: place_task_def Let_def)
  with Cons show ?case by (simp add: Let_def)
qed simp

lemma roll_days_no_summary:
  "\<forall>it \<in> set (sch_items s). \<not> it_summary it \<Longrightarrow>
    \<forall>it \<in> set (sch_items (roll_days capacity candidates plan_end target s)). \<not> it_summary it"
proof (induction capacity candidates plan_end target s rule: roll_days.induct)
  case (1 capacity candidates plan_end target s)
  have "\<forall>it \<in> set (sch_items (roll_day (plan_end + 1) (candidates (sch_used s))
      (s\<lparr>sch_remaining := capacity (plan_end + 1)\<rparr>))). \<not> it_summary it"
    using 1(2) by (intro roll_day_no_summary) simp
  with 1 show ?case by (subst roll_days.simps) (auto simp: Let_def)
qed

subsection \<open>What an edit changes\<close>

text \<open>Only the task \<open>i\<close>, and the knowledge bindings, have changed since \<open>d0\<close>.\<close>

definition only_task :: "uuid \<Rightarrow> db \<Rightarrow> db \<Rightarrow> bool" where
  "only_task i d0 d \<longleftrightarrow> db_weekly_plans d = db_weekly_plans d0
     \<and> db_plan_task_change_events d = db_plan_task_change_events d0
     \<and> map pt_id (db_plan_tasks d) = map pt_id (db_plan_tasks d0)
     \<and> (\<forall>t \<in> set (db_plan_tasks d0). pt_id t \<noteq> i \<longrightarrow> t \<in> set (db_plan_tasks d))"

lemma only_task_refl [simp]: "only_task i d d"
  by (simp add: only_task_def)

lemma only_task_set:
  assumes "\<And>t. pt_id (f t) = pt_id t"
  shows "keeps (only_task i d0) (set_task i f)"
  unfolding set_task_def
  by (rule keeps_modify) (auto simp: only_task_def assms map_update_rows intro: update_rows_miss)

lemma only_task_found [simp, intro]: "keeps (only_task i d0) (found_or x e)"
  by (rule keeps_found_or)

lemma only_task_bindings: "keeps (only_task i d0) (modify (\<lambda>d. d\<lparr>db_plan_task_knowledge := f d\<rparr>))"
  by (rule keeps_modify) (simp add: only_task_def)

lemma only_task_validate: "keeps P (validate_resource a b)"
  unfolding validate_resource_def by (intro keeps_andthen keeps_if keeps_app_error) auto

lemma only_task_change: "keeps (only_task (pt_id t) d0) (change_task t c)"
  unfolding change_task_def update_task_def rebind_task_def rebind_knowledge_def add_knowledge_def
    need_task_knowledge_def
  by (intro keeps_if keeps_andthen keeps_option only_task_set only_task_bindings only_task_validate
      only_task_found keeps_app_error keeps_gets keeps_ret keeps_throw keeps_lift_result)
    (auto simp: skipped_task_def edited_task_def)

text \<open>
  An edit of \<open>plan\<close> keeps the rows of other plans and the completed tasks, and appends \<open>n\<close> events
  numbered from \<open>sequence\<close>.
\<close>

definition kept_task :: "uuid \<Rightarrow> plan_task_row \<Rightarrow> bool" where
  "kept_task plan t \<longleftrightarrow> pt_plan_id t \<noteq> plan \<or> pt_status t = Task_COMPLETED"

definition edited :: "uuid \<Rightarrow> int \<Rightarrow> nat \<Rightarrow> db \<Rightarrow> db \<Rightarrow> bool" where
  "edited plan sequence n d d' \<longleftrightarrow> db_weekly_plans d' = db_weekly_plans d
     \<and> distinct (map pt_id (db_plan_tasks d'))
     \<and> (\<forall>t \<in> set (db_plan_tasks d). kept_task plan t \<longrightarrow> t \<in> set (db_plan_tasks d'))
     \<and> (\<exists>es. db_plan_task_change_events d' = db_plan_task_change_events d @ es
          \<and> (\<forall>e \<in> set es. pce_plan_id e = plan)
          \<and> map pce_change_sequence es = map (\<lambda>k. sequence + int k) [0..<n])"

lemma edited_refl: "distinct (map pt_id (db_plan_tasks d)) \<Longrightarrow> edited plan sequence 0 d d"
  by (simp add: edited_def)

lemma upt_shift: "map (\<lambda>k. a + int k) [0..<Suc n] = a # map (\<lambda>k. a + 1 + int k) [0..<n]"
  by (simp add: upt_conv_Cons map_Suc_upt [symmetric] add.assoc comp_def del: upt_Suc)

lemma edited_trans:
  assumes "edited plan sequence (Suc 0) d d1" and "edited plan (sequence + 1) n d1 d'"
  shows "edited plan sequence (Suc n) d d'"
proof -
  obtain e where e: "db_plan_task_change_events d1 = db_plan_task_change_events d @ [e]"
    "pce_plan_id e = plan" "pce_change_sequence e = sequence"
    using assms(1) by (auto simp: edited_def)
  obtain es where es: "db_plan_task_change_events d' = db_plan_task_change_events d1 @ es"
    "\<forall>e \<in> set es. pce_plan_id e = plan" "map pce_change_sequence es = map (\<lambda>k. sequence + 1 + int k) [0..<n]"
    using assms(2) by (auto simp: edited_def)
  have "\<exists>es. db_plan_task_change_events d' = db_plan_task_change_events d @ es
      \<and> (\<forall>x \<in> set es. pce_plan_id x = plan)
      \<and> map pce_change_sequence es = map (\<lambda>k. sequence + int k) [0..<Suc n]"
    unfolding upt_shift by (rule exI [of _ "e # es"]) (use e es in simp)
  moreover have "db_weekly_plans d' = db_weekly_plans d" "distinct (map pt_id (db_plan_tasks d'))"
    "\<forall>t \<in> set (db_plan_tasks d). kept_task plan t \<longrightarrow> t \<in> set (db_plan_tasks d')"
    using assms by (simp_all add: edited_def)
  ultimately show ?thesis by (simp only: edited_def)
qed

lemma create_personal_task_run:
  assumes "create_personal_task now plan c d = (Inr t, d')"
  shows "pt_id t = fresh_id (map pt_id (db_plan_tasks d))" "db_plan_tasks d' = db_plan_tasks d @ [t]"
    "db_weekly_plans d' = db_weekly_plans d" "db_plan_task_change_events d' = db_plan_task_change_events d"
    "pt_plan_id t = plan" "pt_origin t = Origin_STUDENT"
  using assms
  by (auto simp: create_personal_task_def validate_resource_def comp_simps app_error_def add_knowledge_def
      personal_task_def Let_def split: option.splits if_splits sum.splits)

lemma only_task_edited:
  assumes "only_task i d d2" and "\<forall>x \<in> set (db_plan_tasks d). kept_task plan x \<longrightarrow> pt_id x \<noteq> i"
    and "distinct (map pt_id (db_plan_tasks d))"
    and "pce_plan_id e = plan" and "pce_change_sequence e = sequence"
  shows "edited plan sequence (Suc 0) d
    (d2\<lparr>db_plan_task_change_events := db_plan_task_change_events d2 @ [e]\<rparr>)"
proof -
  have "distinct (map pt_id (db_plan_tasks d2))"
    using assms(1,3) unfolding only_task_def by metis
  moreover have "\<forall>x \<in> set (db_plan_tasks d). kept_task plan x \<longrightarrow> x \<in> set (db_plan_tasks d2)"
    using assms(1,2) unfolding only_task_def by blast
  ultimately show ?thesis
    using assms(1,4,5) by (simp add: edited_def only_task_def)
qed

lemma apply_change_edited:
  assumes "apply_change env now plan u c sequence d = (Inr q, d')"
    and "distinct (map pt_id (db_plan_tasks d))"
  shows "q = sequence + 1" and "edited plan sequence (Suc 0) d d'"
proof -
  have "q = sequence + 1 \<and> edited plan sequence (Suc 0) d d'"
  proof (cases "tc_operation c = ''CREATE''")
    case True
    then obtain t d1 e where create: "create_personal_task now plan c d = (Inr t, d1)" and q: "q = sequence + 1"
      and d': "d' = d1\<lparr>db_plan_task_change_events := db_plan_task_change_events d1 @ [e]\<rparr>"
      and e: "pce_plan_id e = plan" "pce_change_sequence e = sequence"
      using assms(1)
      by (auto simp: apply_change_def record_change_def new_change_event_def elim!: andthen_InrE)
    have "pt_id t \<notin> set (map pt_id (db_plan_tasks d))"
      using create_personal_task_run(1) [OF create] fresh_id_notin by metis
    then show ?thesis
      using create_personal_task_run [OF create] assms(2) q e by (auto simp: edited_def d')
  next
    case False
    obtain i t d1 d2 e where t: "get_task i d = Some t" "pt_plan_id t = plan" "pt_status t \<noteq> Task_COMPLETED"
      and run: "change_task t c d = (Inr (), d1)" "set_task i (\<lambda>t. t\<lparr>pt_version := pt_version t + 1\<rparr>) d1 = (Inr (), d2)"
      and q: "q = sequence + 1"
      and d': "d' = d2\<lparr>db_plan_task_change_events := db_plan_task_change_events d2 @ [e]\<rparr>"
      and e: "pce_plan_id e = plan" "pce_change_sequence e = sequence"
      using assms(1) False
      by (auto simp: apply_change_def app_error_def record_change_def new_change_event_def
          split: option.splits if_splits elim!: andthen_InrE simp del: set_rows)
    have i: "pt_id t = i" using t(1) by (auto simp: get_task_def dest: find_SomeD)
    have d1: "only_task i d d1"
      using keeps_resultD [OF only_task_change only_task_refl run(1)] by (simp add: i)
    have d2: "only_task i d d2"
      using keeps_resultD [OF only_task_set d1 run(2)] by simp
    have "pt_id x \<noteq> i" if "x \<in> set (db_plan_tasks d)" "kept_task plan x" for x
    proof
      assume "pt_id x = i"
      then have "get_task i d = Some x"
        unfolding get_task_def by (rule find_row_by_id [OF assms(2) that(1)])
      then show False using that(2) t by (simp add: kept_task_def)
    qed
    then show ?thesis using only_task_edited [OF d2 _ assms(2) e] q unfolding d' by blast
  qed
  then show "q = sequence + 1" "edited plan sequence (Suc 0) d d'" by blast+
qed

lemma apply_changes_edited:
  assumes "apply_changes env now plan u cs sequence d = (Inr q, d')"
    and "distinct (map pt_id (db_plan_tasks d))"
  shows "edited plan sequence (length cs) d d'"
  using assms
proof (induction cs arbitrary: sequence d)
  case (Cons c cs)
  obtain d1 q1 where one: "apply_change env now plan u c sequence d = (Inr q1, d1)"
    and rest: "apply_changes env now plan u cs q1 d1 = (Inr q, d')"
    using Cons.prems(1) by (auto elim: andthen_InrE)
  note step = apply_change_edited [OF one Cons.prems(2)]
  have "distinct (map pt_id (db_plan_tasks d1))" using step(2) by (simp add: edited_def)
  from Cons.IH [OF rest this] step show ?case by (auto intro: edited_trans)
qed (auto intro: edited_refl)

text \<open>The warnings and what they mark.\<close>

lemma capacity_warnings_exact:
  "day \<in> set (capacity_warnings student plan d) \<longleftrightarrow>
     (\<exists>t \<in> set (db_plan_tasks d). planned_task plan t \<and> pt_task_date t = day)
     \<and> plan_capacity student day d < planned_minutes plan day d"
  by (auto simp: capacity_warnings_def)

lemma no_warning_capacity:
  assumes "day \<notin> set (capacity_warnings student plan d)"
  shows "planned_minutes plan day d \<le> max 0 (plan_capacity student day d)"
proof (cases "\<exists>t \<in> set (db_plan_tasks d). planned_task plan t \<and> pt_task_date t = day")
  case False
  then have "filter (\<lambda>t. planned_task plan t \<and> pt_task_date t = day) (db_plan_tasks d) = []"
    by (auto simp: filter_empty_conv)
  then show ?thesis by (simp add: planned_minutes_def)
qed (use assms in \<open>auto simp: capacity_warnings_exact\<close>)

lemma sum_update_rows:
  assumes "\<And>t. P (f t) = P t" and "\<And>t. g (f t) = g t"
  shows "sum_of g (filter P (update_rows Q f rows)) = sum_of g (filter P rows)"
  by (induction rows) (auto simp: assms)

definition marked :: "uuid \<Rightarrow> date list \<Rightarrow> db \<Rightarrow> db" where
  "marked plan warned d = d\<lparr>db_plan_tasks := update_rows (\<lambda>t. pt_plan_id t = plan)
     (\<lambda>t. t\<lparr>pt_has_capacity_warning := (pt_task_date t \<in> set warned)\<rparr>) (db_plan_tasks d)\<rparr>"

lemma marked_minutes [simp]:
  "planned_minutes plan day (marked i warned d) = planned_minutes plan day d"
  "plan_capacity student day (marked i warned d) = plan_capacity student day d"
  by (simp_all add: planned_minutes_def marked_def sum_update_rows planned_task_def plan_capacity_def
      cong: option.case_cong)

lemma capacity_agrees: "plan_capacity = task_day_capacity"
  by (simp add: fun_eq_iff plan_capacity_def task_day_capacity_def)

text \<open>The tables of resources and availability are the same.\<close>

definition same_catalog :: "db \<Rightarrow> db \<Rightarrow> bool" where
  "same_catalog d d' \<longleftrightarrow> db_resource_sections d' = db_resource_sections d
     \<and> db_resource_versions d' = db_resource_versions d
     \<and> db_learning_resources d' = db_learning_resources d
     \<and> db_resource_knowledge_mappings d' = db_resource_knowledge_mappings d
     \<and> db_student_availability d' = db_student_availability d
     \<and> db_student_availability_templates d' = db_student_availability_templates d"

lemma same_catalogD:
  assumes "same_catalog d d'"
  shows "section_resource r d' = section_resource r d" "valid_resource a b d' = valid_resource a b d"
    "resource_candidates used school d' = resource_candidates used school d"
    "plan_capacity student day d' = plan_capacity student day d"
proof -
  show same: "section_resource r d' = section_resource r d" for r
    using assms by (simp add: same_catalog_def section_resource_def cong: option.case_cong)
  then have "section_candidates school d' = section_candidates school d"
    using assms by (auto simp: fun_eq_iff same_catalog_def section_candidates_def split: option.splits)
  then show "resource_candidates used school d' = resource_candidates used school d"
    using assms by (simp add: same_catalog_def resource_candidates_def)
  show "valid_resource a b d' = valid_resource a b d"
    using assms same by (simp add: same_catalog_def valid_resource_def cong: option.case_cong)
  show "plan_capacity student day d' = plan_capacity student day d"
    using assms by (simp add: same_catalog_def plan_capacity_def cong: option.case_cong)
qed

lemma same_catalog_writes [simp]:
  "same_catalog d (with_tasks ts ks d') = same_catalog d d'"
  "same_catalog d (d'\<lparr>db_weekly_plans := ps\<rparr>) = same_catalog d d'"
  "same_catalog d d"
  by (simp_all add: same_catalog_def with_tasks_def)

end
