(* ===== verification/Plan_Properties.thy ===== *)
theory Plan_Properties
  imports Learning_Plans Agent_Properties
begin

text \<open>
  The properties of learning plans: the first week, the daily roll and the edits of a student, each
  applied to a small concrete database.
\<close>

subsection \<open>Examples\<close>

definition example_section :: "uuid \<Rightarrow> resource_section_row" where
  "example_section i = \<lparr>rsec_id = i, rsec_resource_version_id = i, rsec_parent_id = None, rsec_title = ''S'',
     rsec_section_path = ''1'', rsec_level = 1, rsec_sequence = int i, rsec_page_start = Some 1,
     rsec_page_end = Some 9, rsec_suggested_units = Some 3, rsec_unit_type = None, rsec_version = 1,
     rsec_created_at = 0\<rparr>"

definition example_resource :: "uuid \<Rightarrow> resource_type \<Rightarrow> learning_resource_row" where
  "example_resource i rt = \<lparr>lr_id = i, lr_title = ''R'', lr_resource_type = rt,
     lr_status = ResStatus_PUBLISHED, lr_school_profile_id = Some 7, lr_description = [],
     lr_current_version_id = Some i, lr_published_at = Some 0, lr_version = 1, lr_created_at = 0\<rparr>"

definition example_resource_version :: "uuid \<Rightarrow> resource_version_row" where
  "example_resource_version i = \<lparr>rv_id = i, rv_resource_id = i, rv_version_number = 1,
     rv_original_filename = [], rv_media_type = [], rv_content_hash = [], rv_storage_path = [],
     rv_size_bytes = 0, rv_parser_version = [], rv_created_at = 0\<rparr>"

definition example_mapping :: "uuid \<Rightarrow> uuid \<Rightarrow> resource_knowledge_mapping_row" where
  "example_mapping i k = \<lparr>rkm_id = i, rkm_section_id = i, rkm_knowledge_id = k, rkm_confidence = 1,
     rkm_source = [], rkm_reviewer_confirmed = True, rkm_created_at = 0\<rparr>"

definition example_student :: student_row where
  "example_student = \<lparr>stu_id = 1, stu_user_id = 5, stu_target_school_id = Some 7, stu_exam_subject = [],
     stu_exam_date = None, stu_current_stage = Stage_FOUNDATION, stu_version = 1, stu_created_at = 0\<rparr>"

text \<open>A school with a course and a handout, and a student without a plan.\<close>

definition example_school_db :: db where
  "example_school_db = empty_db\<lparr>db_students := [example_student],
     db_learning_resources := [example_resource 1 Res_COURSE, example_resource 2 Res_HANDOUT],
     db_resource_versions := [example_resource_version 1, example_resource_version 2],
     db_resource_sections := [example_section 1, example_section 2],
     db_resource_knowledge_mappings := [example_mapping 1 31, example_mapping 2 32]\<rparr>"

text \<open>The same school with a student whose plan has a completed and a pending task.\<close>

definition example_plan_db :: db where
  "example_plan_db = example_school_db\<lparr>db_weekly_plans := [example_plan],
     db_plan_tasks := [example_task 1 Task_COMPLETED, example_task 2 Task_PENDING]\<rparr>"

lemma example_school_tables [simp]:
  "db_students example_school_db = [example_student]"
  "db_learning_resources example_school_db = [example_resource 1 Res_COURSE, example_resource 2 Res_HANDOUT]"
  "db_resource_versions example_school_db = [example_resource_version 1, example_resource_version 2]"
  "db_resource_sections example_school_db = [example_section 1, example_section 2]"
  "db_resource_knowledge_mappings example_school_db = [example_mapping 1 31, example_mapping 2 32]"
  "db_weekly_plans example_school_db = []" "db_plan_tasks example_school_db = []"
  "db_student_availability example_school_db = []" "db_student_availability_templates example_school_db = []"
  "db_plan_task_knowledge example_school_db = []" "db_plan_task_change_events example_school_db = []"
  by (simp_all add: example_school_db_def empty_db_def)

lemma example_rows [simp]:
  "stu_id example_student = 1" "stu_user_id example_student = 5"
  "stu_target_school_id example_student = Some 7"
  "wp_id example_plan = 1" "wp_student_id example_plan = 1" "wp_status example_plan = Plan_ACTIVE"
  "wp_version example_plan = 1" "wp_end_date example_plan = 16"
  "rsec_id (example_section i) = i" "rsec_resource_version_id (example_section i) = i"
  "rv_id (example_resource_version i) = i" "rv_resource_id (example_resource_version i) = i"
  "lr_id (example_resource i rt) = i" "lr_status (example_resource i rt) = ResStatus_PUBLISHED"
  "lr_resource_type (example_resource i rt) = rt" "lr_school_profile_id (example_resource i rt) = Some 7"
  "rkm_section_id (example_mapping i k) = i" "rkm_knowledge_id (example_mapping i k) = k"
  "rkm_reviewer_confirmed (example_mapping i k)"
  by (simp_all add: example_student_def example_plan_def example_section_def example_resource_version_def
      example_resource_def example_mapping_def)

subsection \<open>The first plan\<close>

lemma generate_first_run:
  fixes s :: student_row and d :: db
  assumes "generate_first now s start d = (Inr i, d')"
  defines "cs \<equiv> resource_candidates {} (stu_target_school_id s) d"
  defines "its \<equiv> first_week s start cs d"
  obtains ts where "i = fresh_id (map wp_id (db_weekly_plans d))"
    and "d' = with_tasks ts (map2 item_knowledge ts its)
      (d\<lparr>db_weekly_plans := db_weekly_plans d @ [first_plan now i (stu_id s) start]\<rparr>)"
    and "tasks_of_items now i its ts"
proof -
  define j where "j = fresh_id (map wp_id (db_weekly_plans d))"
  define d1 where "d1 = d\<lparr>db_weekly_plans := db_weekly_plans d @ [first_plan now j (stu_id s) start]\<rparr>"
  have same: "resource_candidates {} (stu_target_school_id s) d1 = cs" "first_week s start cs d1 = its"
    using same_catalogD [of d d1] by (simp_all add: d1_def cs_def its_def first_week_def)
  obtain ts where ts: "insert_items now j its d1 = (Inr (), with_tasks ts (map2 item_knowledge ts its) d1)"
    "tasks_of_items now j its ts"
    using insert_items_run by blast
  have "cs \<noteq> []" "i = j" "insert_items now j its d1 = (Inr (), d')"
    using transaction_InrD [OF assms(1) [unfolded generate_first_def]] same
    by (auto simp: andthen_apply app_error_def j_def [symmetric] d1_def [symmetric] ts(1) ret_apply split: if_splits)
  with ts show ?thesis using that [of ts] by (simp add: j_def d1_def)
qed

lemma first_week_ok:
  fixes s :: student_row and d :: db
  defines "cs \<equiv> resource_candidates {} (stu_target_school_id s) d"
  shows "week_ok (\<lambda>day. plan_capacity (stu_id s) day d) (set cs) start 1 (start + 7)
      (fill_days initial_day (\<lambda>day. plan_capacity (stu_id s) day d) cs start 7 (start_schedule {} 1))"
    and "distinct (item_sections (first_week s start cs d))"
proof -
  show "week_ok (\<lambda>day. plan_capacity (stu_id s) day d) (set cs) start 1 (start + 7)
      (fill_days initial_day (\<lambda>day. plan_capacity (stu_id s) day d) cs start 7 (start_schedule {} 1))"
    using fill_days_ok [OF fill_ok(1) order_refl week_starts, where n = 7] by simp
  show "distinct (item_sections (first_week s start cs d))"
    unfolding first_week_def
    using fill_days_distinct [where fill = initial_day and used = "{}", OF fill_distinct(1)]
    by (simp add: first_week_def)
qed

lemma upt_numbers: "map (\<lambda>k. 1 + int k) [0..<n] = [1..int n]"
proof (induction n)
  case (Suc n)
  have "[1..int (Suc n)] = [1..int n] @ [1 + int n]" using upto_rec2 [of 1 "1 + int n"] by (simp add: add.commute)
  with Suc show ?case by simp
qed simp

lemma first_plan_facts:
  assumes "generate_or_roll now u start d = (Inr i, d')"
    and "student_of_user u d = Some s" and "active_plan (stu_id s) d = None"
    and "pt_plan_id ` set (db_plan_tasks d) \<subseteq> wp_id ` set (db_weekly_plans d)"
    and "distinct (map rsec_id (db_resource_sections d))"
  shows "map wp_id (filter (\<lambda>p. wp_student_id p = stu_id s \<and> wp_status p = Plan_ACTIVE) (db_weekly_plans d')) = [i]"
    and "planned_minutes i day d' \<le> max 0 (plan_capacity (stu_id s) day d')"
    and "map pt_sequence (plan_tasks i d') = [1..int (length (plan_tasks i d'))]"
    and "t \<in> set (plan_tasks i d') \<Longrightarrow> start \<le> pt_task_date t \<and> pt_task_date t < start + 7
      \<and> (\<exists>section_id knowledge. pt_resource_section_id t = Some section_id
          \<and> \<lparr>ptk_task_id = pt_id t, ptk_knowledge_id = knowledge\<rparr> \<in> set (db_plan_task_knowledge d')
          \<and> valid_resource section_id knowledge d')"
    and "distinct (map pt_resource_section_id
      (filter (\<lambda>t. pt_task_type t \<noteq> TT_KNOWLEDGE_SUMMARY) (plan_tasks i d')))"
proof -
  define cs where "cs = resource_candidates {} (stu_target_school_id s) d"
  define its where "its = first_week s start cs d"
  note ok = first_week_ok(1) [of s d start, folded cs_def]
  have "generate_first now s start d = (Inr i, d')"
    using assms(1-3) by (simp add: generate_or_roll_def need_student_def andthen_apply comp_simps)
  then obtain ts where i: "i = fresh_id (map wp_id (db_weekly_plans d))"
    and d': "d' = with_tasks ts (map2 item_knowledge ts its)
      (d\<lparr>db_weekly_plans := db_weekly_plans d @ [first_plan now i (stu_id s) start]\<rparr>)"
    and ts: "tasks_of_items now i its ts"
    unfolding its_def cs_def by (rule generate_first_run)
  have "i \<notin> wp_id ` set (db_weekly_plans d)" unfolding i by simp
  then have old: "\<forall>t \<in> set (db_plan_tasks d). pt_plan_id t \<noteq> i" using assms(4) by auto
  note maps = tasks_of_items_maps [OF ts]
  have new: "plan_tasks i d' = ts"
    using old maps(4) by (auto simp: plan_tasks_def d' with_tasks_def filter_empty_conv)
  have items: "its = sch_items (fill_days initial_day (\<lambda>day. plan_capacity (stu_id s) day d) cs start 7
      (start_schedule {} 1))"
    by (simp add: its_def first_week_def)
  have "\<forall>p \<in> set (db_weekly_plans d). \<not> (wp_student_id p = stu_id s \<and> wp_status p = Plan_ACTIVE)"
    using assms(3) by (simp add: active_plan_def find_None)
  then show "map wp_id (filter (\<lambda>p. wp_student_id p = stu_id s \<and> wp_status p = Plan_ACTIVE) (db_weekly_plans d')) = [i]"
    by (simp add: d' with_tasks_def first_plan_def filter_empty_conv)
  have catalog: "same_catalog d d'" by (simp add: d')
  have "planned_minutes i day d' = day_minutes day its"
    using old tasks_of_items_minutes [OF ts, of day] ok
    by (simp add: planned_minutes_def d' with_tasks_def planned_task_def filter_empty_conv items week_ok_def)
  moreover have "plan_capacity (stu_id s) day d' = plan_capacity (stu_id s) day d"
    by (rule same_catalogD [OF catalog])
  ultimately show "planned_minutes i day d' \<le> max 0 (plan_capacity (stu_id s) day d')"
    using ok by (simp add: items week_ok_def)
  have "map it_sequence its = map (\<lambda>k. 1 + int k) [0..<length its]"
    using ok unfolding items week_ok_def by blast
  then show "map pt_sequence (plan_tasks i d') = [1..int (length (plan_tasks i d'))]"
    using maps(1,2) by (simp add: new upt_numbers)
  show "distinct (map pt_resource_section_id
      (filter (\<lambda>t. pt_task_type t \<noteq> TT_KNOWLEDGE_SUMMARY) (plan_tasks i d')))"
    using first_week_ok(2) [of s start d, folded cs_def] maps(3) by (simp add: new its_def distinct_map)
  show "start \<le> pt_task_date t \<and> pt_task_date t < start + 7
      \<and> (\<exists>section_id knowledge. pt_resource_section_id t = Some section_id
          \<and> \<lparr>ptk_task_id = pt_id t, ptk_knowledge_id = knowledge\<rparr> \<in> set (db_plan_task_knowledge d')
          \<and> valid_resource section_id knowledge d')" if t: "t \<in> set (plan_tasks i d')"
  proof -
    obtain it where it: "it \<in> set its" "t = item_task (pt_id t) now i it"
      "item_knowledge t it \<in> set (map2 item_knowledge ts its)"
      using tasks_of_items_in [OF ts] t new by blast
    have c: "it_candidate it \<in> set cs" "start \<le> it_day it" "it_day it < start + 7"
      using ok it(1) unfolding items week_ok_def by blast+
    have "valid_resource (item_section it) (rc_knowledge (it_candidate it)) d'"
      using candidate_valid [OF c(1) [unfolded cs_def] assms(5)]
      by (simp add: item_section_def same_catalogD [OF catalog])
    moreover have "pt_task_date t = it_day it" "pt_resource_section_id t = Some (item_section it)"
      by (subst it(2), simp)+
    moreover have "item_knowledge t it \<in> set (db_plan_task_knowledge d')"
      using it(3) by (simp add: d' with_tasks_def)
    ultimately show ?thesis
      using c unfolding item_knowledge_def
      by (intro conjI exI [of _ "item_section it"] exI [of _ "rc_knowledge (it_candidate it)"]) simp_all
  qed
qed

text \<open>C14. The first plan of a student is the only active one. Its tasks lie in its week, no day exceeds
  the student's capacity, the tasks are numbered from 1 without gaps, each is bound to a published
  resource that is mapped to its knowledge, and no section is scheduled twice.\<close>

theorem first_plan_is_sound:
  assumes "generate_or_roll now u start d = (Inr i, d')"
    and "student_of_user u d = Some s" and "active_plan (stu_id s) d = None"
    and "pt_plan_id ` set (db_plan_tasks d) \<subseteq> wp_id ` set (db_weekly_plans d)"
    and "distinct (map rsec_id (db_resource_sections d))"
  shows "map wp_id (filter (\<lambda>p. wp_student_id p = stu_id s \<and> wp_status p = Plan_ACTIVE) (db_weekly_plans d')) = [i]
    \<and> (\<forall>day. planned_minutes i day d' \<le> max 0 (plan_capacity (stu_id s) day d'))
    \<and> map pt_sequence (plan_tasks i d') = [1..int (length (plan_tasks i d'))]
    \<and> (\<forall>t \<in> set (plan_tasks i d'). start \<le> pt_task_date t \<and> pt_task_date t < start + 7
        \<and> (\<exists>section_id knowledge. pt_resource_section_id t = Some section_id
            \<and> \<lparr>ptk_task_id = pt_id t, ptk_knowledge_id = knowledge\<rparr> \<in> set (db_plan_task_knowledge d')
            \<and> valid_resource section_id knowledge d'))
    \<and> distinct (map pt_resource_section_id
        (filter (\<lambda>t. pt_task_type t \<noteq> TT_KNOWLEDGE_SUMMARY) (plan_tasks i d')))"
  by (intro conjI allI first_plan_facts(1-3,5) [OF assms] ballI [OF first_plan_facts(4) [OF assms]])

lemma example_candidates:
  "resource_candidates {} (Some 7) example_school_db =
    [\<lparr>rc_section = example_section 1, rc_title = ''R'', rc_knowledge = 31, rc_type = Res_COURSE\<rparr>,
     \<lparr>rc_section = example_section 2, rc_title = ''R'', rc_knowledge = 32, rc_type = Res_HANDOUT\<rparr>]"
proof -
  have "lr_title (example_resource i rt) = ''R''" "rsec_sequence (example_section i) = int i" for i rt
    by (simp_all add: example_resource_def example_section_def)
  then show ?thesis by (simp add: resource_candidates_def section_candidates_def section_resource_def)
qed

lemma example_generates:
  obtains d' where "generate_or_roll 0 5 100 example_school_db = (Inr 1, d')"
    and "same_catalog example_school_db d'"
proof -
  define d1 where "d1 = example_school_db\<lparr>db_weekly_plans := [first_plan 0 (Suc 0) (Suc 0) 100]\<rparr>"
  obtain ts where "insert_items 0 1 (first_week example_student 100
        (resource_candidates {} (Some 7) example_school_db) d1) d1 =
      (Inr (), with_tasks ts (map2 item_knowledge ts (first_week example_student 100
        (resource_candidates {} (Some 7) example_school_db) d1)) d1)"
    using insert_items_run by blast
  moreover have "resource_candidates {} (Some 7) d1 = resource_candidates {} (Some 7) example_school_db"
    by (rule same_catalogD) (simp add: d1_def)
  ultimately have "\<exists>ks. generate_or_roll 0 5 100 example_school_db = (Inr 1, with_tasks ts ks d1)"
    by (auto simp: generate_or_roll_def need_student_def student_of_user_def active_plan_def andthen_apply
        ret_apply generate_first_def transaction_def fresh_id_def d1_def [symmetric] example_candidates)
  then show ?thesis using that by (auto simp: d1_def)
qed

theorem first_plan_is_sound_witness:
  "\<exists>d'. generate_or_roll 0 5 100 example_school_db = (Inr 1, d') \<and> planned_minutes 1 100 d' \<le> 120"
proof -
  obtain d' where run: "generate_or_roll 0 5 100 example_school_db = (Inr 1, d')"
    and same: "same_catalog example_school_db d'"
    by (rule example_generates)
  have "student_of_user 5 example_school_db = Some example_student"
    "active_plan (stu_id example_student) example_school_db = None"
    by (simp_all add: student_of_user_def active_plan_def)
  from first_plan_is_sound [OF run this]
  have "planned_minutes 1 100 d' \<le> max 0 (plan_capacity (stu_id example_student) 100 d')"
    by simp
  moreover have "plan_capacity 1 100 d' = 120"
    unfolding same_catalogD(4) [OF same] by (simp add: plan_capacity_def)
  ultimately show ?thesis using run by auto
qed

subsection \<open>The daily roll\<close>

definition extended_plan :: "time \<Rightarrow> date \<Rightarrow> weekly_plan_row \<Rightarrow> weekly_plan_row" where
  "extended_plan now today p =
    p\<lparr>wp_end_date := max (wp_end_date p) (today + 6), wp_last_rolled_at := Some now\<rparr>"

lemma roll_forward_run:
  assumes "active_plan student d = Some p" and "get_student student d = Some s"
  obtains ts where "roll_forward now student today d = (Inr (wp_id p),
      (with_tasks ts (map2 item_knowledge ts (rolled_items p s (today + 6) d)) d)
      \<lparr>db_weekly_plans := update_rows (\<lambda>q. wp_id q = wp_id p) (extended_plan now today) (db_weekly_plans d)\<rparr>)"
    and "tasks_of_items now (wp_id p) (rolled_items p s (today + 6) d) ts"
proof -
  obtain ts where ts: "insert_items now (wp_id p) (rolled_items p s (today + 6) d) d =
      (Inr (), with_tasks ts (map2 item_knowledge ts (rolled_items p s (today + 6) d)) d)"
    "tasks_of_items now (wp_id p) (rolled_items p s (today + 6) d) ts"
    using insert_items_run by blast
  show ?thesis
    by (rule that [OF _ ts(2)])
      (use assms ts in \<open>simp add: roll_forward_def need_active_plan_def andthen_apply ret_apply set_plan_def
        with_tasks_def transaction_def extended_plan_def [abs_def]\<close>)
qed

lemma rolled_items_ok:
  fixes p :: weekly_plan_row and s :: student_row and d :: db and target :: date
  defines "its \<equiv> rolled_items p s target d"
  shows "day_minutes day its \<le> max 0 (plan_capacity (stu_id s) day d)"
    and "it \<in> set its \<Longrightarrow> wp_end_date p < it_day it \<and> it_day it \<le> target
      \<and> \<not> it_summary it"
    and "set (item_sections its) \<inter> scheduled_sections (plan_tasks (wp_id p) d) = {}"
    and "target \<le> wp_end_date p \<Longrightarrow> its = []"
proof -
  let ?s = "roll_days (\<lambda>day. plan_capacity (stu_id s) day d)
       (\<lambda>used. resource_candidates used (stu_target_school_id s) d) (wp_end_date p) target
       (start_schedule (scheduled_sections (plan_tasks (wp_id p) d)) (int (length (plan_tasks (wp_id p) d)) + 1))"
  have its: "its = sch_items ?s" by (simp add: its_def rolled_items_def Let_def)
  have ok: "week_ok (\<lambda>day. plan_capacity (stu_id s) day d)
      (set (resource_candidates {} (stu_target_school_id s) d)) (wp_end_date p + 1)
      (int (length (plan_tasks (wp_id p) d)) + 1) (max (wp_end_date p) target + 1) ?s"
    by (intro roll_days_ok week_starts candidates_subset) simp
  then show "day_minutes day its \<le> max 0 (plan_capacity (stu_id s) day d)"
    unfolding its week_ok_def by blast
  show "it \<in> set its \<Longrightarrow> wp_end_date p < it_day it \<and> it_day it \<le> target
      \<and> \<not> it_summary it"
    using ok roll_days_no_summary [of "start_schedule _ _"] unfolding its week_ok_def
    by (auto simp: max_def split: if_splits)
  have "sections_ok (scheduled_sections (plan_tasks (wp_id p) d)) ?s"
    by (intro roll_days_sections start_sections) (auto dest: candidate_sectionD(1))
  then show "set (item_sections its) \<inter> scheduled_sections (plan_tasks (wp_id p) d) = {}"
    by (simp add: sections_ok_def its)
  show "target \<le> wp_end_date p \<Longrightarrow> its = []"
    unfolding its by (subst roll_days.simps) simp
qed

lemma scheduled_sections_in: "Some i \<in> pt_resource_section_id ` set ts \<longleftrightarrow> i \<in> scheduled_sections ts"
  by (induction ts) (auto simp: scheduled_sections_def map_filter_simps split: option.splits)


text \<open>C15. The daily roll ends, whatever the dates of the plan, and extends the plan to a week from
  today. It keeps every task that the plan had and adds tasks on the new days only, within the
  student's capacity of each day and of sections that the plan has not scheduled before. Rolling again
  the same day adds nothing.\<close>

theorem rolled_plan_is_sound:
  assumes "active_plan student d = Some p" and "get_student student d \<noteq> None"
  shows "\<exists>d'. roll_forward now student today d = (Inr (wp_id p), d')
      \<and> active_plan student d' = Some (extended_plan now today p)
      \<and> db_plan_tasks (snd (roll_forward later student today d')) = db_plan_tasks d'
      \<and> (\<exists>ts. db_plan_tasks d' = db_plan_tasks d @ ts
          \<and> (\<forall>t \<in> set ts. pt_plan_id t = wp_id p \<and> wp_end_date p < pt_task_date t
              \<and> pt_task_date t \<le> today + 6 \<and> pt_resource_section_id t \<noteq> None
              \<and> pt_resource_section_id t \<notin> pt_resource_section_id ` set (plan_tasks (wp_id p) d))
          \<and> (\<forall>day. sum_of pt_effective_minutes (filter (\<lambda>t. pt_task_date t = day) ts)
              \<le> max 0 (plan_capacity student day d)))"
proof -
  from assms(2) obtain s where s: "get_student student d = Some s" by blast
  obtain ts where run: "roll_forward now student today d = (Inr (wp_id p),
      (with_tasks ts (map2 item_knowledge ts (rolled_items p s (today + 6) d)) d)
      \<lparr>db_weekly_plans := update_rows (\<lambda>q. wp_id q = wp_id p) (extended_plan now today) (db_weekly_plans d)\<rparr>)"
    (is "_ = (_, ?d')")
    and ts: "tasks_of_items now (wp_id p) (rolled_items p s (today + 6) d) ts"
    by (rule roll_forward_run [OF assms(1) s])
  have sid: "stu_id s = student" using s by (auto simp: get_student_def dest: find_SomeD)
  have active: "active_plan student ?d' = Some (extended_plan now today p)"
    using assms(1) by (simp add: active_plan_def with_tasks_def find_update_rows extended_plan_def)
  have again: "db_plan_tasks (snd (roll_forward later student today ?d')) = db_plan_tasks ?d'"
  proof -
    have s': "get_student student ?d' = Some s" using s by (simp add: get_student_def with_tasks_def)
    have none: "rolled_items (extended_plan now today p) s (today + 6) ?d' = []"
      by (rule rolled_items_ok(4)) (simp add: extended_plan_def)
    show ?thesis
    proof (rule roll_forward_run [OF active s', of later today])
      fix us
      assume "tasks_of_items later (wp_id (extended_plan now today p)) (rolled_items (extended_plan now today p)
        s (today + 6) ?d') us"
      then have "us = []" unfolding none by (simp add: tasks_of_items_def)
      then show ?thesis
        if "roll_forward later student today ?d' = (Inr (wp_id (extended_plan now today p)),
          (with_tasks us (map2 item_knowledge us (rolled_items (extended_plan now today p) s (today + 6) ?d'))
            ?d')\<lparr>db_weekly_plans := update_rows (\<lambda>q. wp_id q = wp_id (extended_plan now today p))
              (extended_plan later today) (db_weekly_plans ?d')\<rparr>)"
        unfolding that by (simp add: with_tasks_def)
    qed
  qed
  note ok = rolled_items_ok [where p = p and s = s and target = "today + 6" and d = d]
  show ?thesis
  proof (intro exI [of _ ?d'] exI [of _ ts] conjI ballI allI, rule run, rule active, rule again)
    show "db_plan_tasks ?d' = db_plan_tasks d @ ts" by (simp add: with_tasks_def)
  next
    fix t assume t: "t \<in> set ts"
    obtain it where it: "it \<in> set (rolled_items p s (today + 6) d)" "t = item_task (pt_id t) now (wp_id p) it"
      using tasks_of_items_in [OF ts t] by blast
    have row: "pt_plan_id t = wp_id p" "pt_task_date t = it_day it"
      "pt_resource_section_id t = Some (item_section it)"
      by (subst it(2), simp)+
    have "item_section it \<in> set (item_sections (rolled_items p s (today + 6) d))"
      using it(1) ok(2) [OF it(1)] by (auto simp: item_sections_def)
    then have "item_section it \<notin> scheduled_sections (plan_tasks (wp_id p) d)" using ok(3) by blast
    then show "pt_resource_section_id t \<notin> pt_resource_section_id ` set (plan_tasks (wp_id p) d)"
      using row by (simp add: scheduled_sections_in)
    show "pt_plan_id t = wp_id p" "wp_end_date p < pt_task_date t" "pt_task_date t \<le> today + 6"
      "pt_resource_section_id t \<noteq> None"
      using row ok(2) [OF it(1)] by simp_all
  next
    fix day
    have "planned_task (wp_id p) t" if t: "t \<in> set ts" for t
    proof -
      obtain it where it: "t = item_task (pt_id t) now (wp_id p) it" using tasks_of_items_in [OF ts t] by blast
      have "pt_plan_id t = wp_id p" "pt_origin t = Origin_SYSTEM" "pt_status t = Task_PENDING"
        by (subst it, simp)+
      then show ?thesis by (simp add: planned_task_def)
    qed
    then have "filter (\<lambda>t. pt_task_date t = day) ts =
        filter (\<lambda>t. planned_task (wp_id p) t \<and> pt_task_date t = day) ts"
      by (intro filter_cong) auto
    also have "sum_of pt_effective_minutes \<dots> = day_minutes day (rolled_items p s (today + 6) d)"
      using ok(2) by (intro tasks_of_items_minutes [OF ts]) auto
    finally show "sum_of pt_effective_minutes (filter (\<lambda>t. pt_task_date t = day) ts)
          \<le> max 0 (plan_capacity student day d)"
      using ok(1) sid by simp
  qed
qed

lemma example_plan_tables [simp]:
  "db_weekly_plans example_plan_db = [example_plan]" "db_students example_plan_db = [example_student]"
  "db_plan_tasks example_plan_db = [example_task 1 Task_COMPLETED, example_task 2 Task_PENDING]"
  "db_plan_task_change_events example_plan_db = []"
  "db_student_availability example_plan_db = []" "db_student_availability_templates example_plan_db = []"
  by (simp_all add: example_plan_db_def)

lemma example_active: "active_plan 1 example_plan_db = Some example_plan"
  by (simp add: active_plan_def)

theorem rolled_plan_is_sound_witness:
  "\<exists>d'. roll_forward 0 1 12 example_plan_db = (Inr 1, d')
     \<and> (\<exists>ts. db_plan_tasks d' = db_plan_tasks example_plan_db @ ts)
     \<and> (\<exists>p. active_plan 1 d' = Some p \<and> wp_end_date p = 18)"
proof -
  have "get_student 1 example_plan_db \<noteq> None" by (simp add: get_student_def)
  from rolled_plan_is_sound [OF example_active this, of 0 12 0] show ?thesis
    by (elim exE conjE) (auto simp: extended_plan_def)
qed

subsection \<open>Edits\<close>

lemma marked_tasks:
  "map pt_id (db_plan_tasks (marked plan warned d)) = map pt_id (db_plan_tasks d)"
  "t \<in> set (db_plan_tasks d) \<Longrightarrow> pt_plan_id t \<noteq> plan \<Longrightarrow> t \<in> set (db_plan_tasks (marked plan warned d))"
  "t \<in> set (db_plan_tasks d) \<Longrightarrow> pt_plan_id t = plan \<Longrightarrow>
    t\<lparr>pt_has_capacity_warning := (pt_task_date t \<in> set warned)\<rparr> \<in> set (db_plan_tasks (marked plan warned d))"
  "t \<in> set (plan_tasks plan (marked plan warned d)) \<Longrightarrow>
    pt_has_capacity_warning t \<longleftrightarrow> pt_task_date t \<in> set warned"
proof -
  show "map pt_id (db_plan_tasks (marked plan warned d)) = map pt_id (db_plan_tasks d)"
    by (simp add: marked_def map_update_rows)
  show "t \<in> set (db_plan_tasks d) \<Longrightarrow> pt_plan_id t \<noteq> plan \<Longrightarrow> t \<in> set (db_plan_tasks (marked plan warned d))"
    by (simp add: marked_def update_rows_miss)
  show "t \<in> set (db_plan_tasks d) \<Longrightarrow> pt_plan_id t = plan \<Longrightarrow>
      t\<lparr>pt_has_capacity_warning := (pt_task_date t \<in> set warned)\<rparr> \<in> set (db_plan_tasks (marked plan warned d))"
    using update_rows_hit [of t "db_plan_tasks d" "\<lambda>t. pt_plan_id t = plan"
        "\<lambda>t. t\<lparr>pt_has_capacity_warning := (pt_task_date t \<in> set warned)\<rparr>"]
    by (simp add: marked_def)
  assume "t \<in> set (plan_tasks plan (marked plan warned d))"
  then have plan: "pt_plan_id t = plan" and "t \<in> set (db_plan_tasks (marked plan warned d))"
    by (simp_all add: plan_tasks_def)
  then obtain r where r: "t = (if pt_plan_id r = plan
      then r\<lparr>pt_has_capacity_warning := (pt_task_date r \<in> set warned)\<rparr> else r)"
    unfolding marked_def by (auto elim: set_update_rowsE)
  then have "pt_plan_id r = plan" using plan by (cases "pt_plan_id r = plan") simp_all
  then show "pt_has_capacity_warning t \<longleftrightarrow> pt_task_date t \<in> set warned" by (simp add: r)
qed

lemma plan_rows_minutes [simp]:
  "planned_minutes plan day (d\<lparr>db_weekly_plans := ps\<rparr>) = planned_minutes plan day d"
  "plan_capacity student day (d\<lparr>db_weekly_plans := ps\<rparr>) = plan_capacity student day d"
  by (simp_all add: planned_minutes_def plan_capacity_def cong: option.case_cong)

lemma patch_tasks_run:
  assumes "patch_tasks env now u plan_id expected allow changes d = (Inr i, d')"
  obtains s p q d1 where "student_of_user u d = Some s" and "owned_plan (stu_id s) plan_id d = Some p"
    and "i = wp_id p" and "wp_version p = expected"
    and "apply_changes env now i u changes (next_change_sequence i d) d = (Inr q, d1)"
    and "allow \<or> capacity_warnings (stu_id s) i d1 = []"
    and "d' = (marked i (capacity_warnings (stu_id s) i d1) d1)
      \<lparr>db_weekly_plans := update_rows (\<lambda>p. wp_id p = i) (\<lambda>p. p\<lparr>wp_version := wp_version p + 1\<rparr>)
         (db_weekly_plans d1)\<rparr>"
  using transaction_InrD [OF assms [unfolded patch_tasks_def]] that
  by (auto simp: need_student_def found_or_def app_error_def mark_warnings_def set_plan_def marked_def
      elim!: andthen_InrE split: option.splits if_splits)

lemma plan_patch_facts:
  assumes "patch_tasks env now u plan_id expected allow changes d = (Inr i, d')"
    and "student_of_user u d = Some s"
    and "distinct (map pt_id (db_plan_tasks d))" and "distinct (map wp_id (db_weekly_plans d))"
  shows "i = plan_id \<and> (\<exists>p. get_plan i d = Some p \<and> wp_student_id p = stu_id s \<and> wp_version p = expected
      \<and> get_plan i d' = Some (p\<lparr>wp_version := expected + 1\<rparr>))"
    and "t \<in> set (db_plan_tasks d) \<Longrightarrow> pt_plan_id t \<noteq> i \<Longrightarrow> t \<in> set (db_plan_tasks d')"
    and "t \<in> set (db_plan_tasks d) \<Longrightarrow> pt_status t = Task_COMPLETED \<Longrightarrow>
      \<exists>w. t\<lparr>pt_has_capacity_warning := w\<rparr> \<in> set (db_plan_tasks d')"
    and "\<exists>es. plan_events i d' = plan_events i d @ es \<and> map pce_change_sequence es =
      map (\<lambda>k. next_change_sequence i d + int k) [0..<length changes]"
    and "allow \<or> planned_minutes i day d' \<le> max 0 (plan_capacity (stu_id s) day d')"
    and "t \<in> set (db_plan_tasks d') \<Longrightarrow> planned_task i t \<Longrightarrow> pt_has_capacity_warning t \<longleftrightarrow>
      plan_capacity (stu_id s) (pt_task_date t) d' < planned_minutes i (pt_task_date t) d'"
proof -
  obtain s' p q d1 where s': "student_of_user u d = Some s'" and p: "owned_plan (stu_id s') plan_id d = Some p"
    and i: "i = wp_id p" and version: "wp_version p = expected"
    and run: "apply_changes env now i u changes (next_change_sequence i d) d = (Inr q, d1)"
    and allow: "allow \<or> capacity_warnings (stu_id s') i d1 = []"
    and d': "d' = (marked i (capacity_warnings (stu_id s') i d1) d1)
      \<lparr>db_weekly_plans := update_rows (\<lambda>p. wp_id p = i) (\<lambda>p. p\<lparr>wp_version := wp_version p + 1\<rparr>)
         (db_weekly_plans d1)\<rparr>"
    by (rule patch_tasks_run [OF assms(1)])
  have s [simp]: "s' = s" using s' assms(2) by simp
  define warned where "warned = capacity_warnings (stu_id s) i d1"
  note ed = apply_changes_edited [OF run assms(3)]
  have plans: "db_weekly_plans d1 = db_weekly_plans d" using ed by (simp add: edited_def)
  have tasks: "db_plan_tasks d' = db_plan_tasks (marked i warned d1)" by (simp add: d' warned_def)
  have owned: "p \<in> set (db_weekly_plans d)" "wp_id p = plan_id" "wp_student_id p = stu_id s"
    using p by (auto simp: owned_plan_def dest: find_SomeD)
  then have "get_plan i d = Some p"
    unfolding get_plan_def i using assms(4) by (intro find_row_by_id) auto
  then show "i = plan_id \<and> (\<exists>p. get_plan i d = Some p \<and> wp_student_id p = stu_id s \<and> wp_version p = expected
      \<and> get_plan i d' = Some (p\<lparr>wp_version := expected + 1\<rparr>))"
    using owned version i by (simp add: get_plan_def d' plans find_update_rows)
  have keep: "t \<in> set (db_plan_tasks d1)" if "t \<in> set (db_plan_tasks d)" "kept_task i t" for t
    using ed that by (simp add: edited_def)
  show "t \<in> set (db_plan_tasks d')" if "t \<in> set (db_plan_tasks d)" "pt_plan_id t \<noteq> i"
    using keep [OF that(1)] that(2) by (simp add: tasks kept_task_def marked_tasks(2))
  show "\<exists>w. t\<lparr>pt_has_capacity_warning := w\<rparr> \<in> set (db_plan_tasks d')"
    if t: "t \<in> set (db_plan_tasks d)" "pt_status t = Task_COMPLETED"
  proof (cases "pt_plan_id t = i")
    case True
    then show ?thesis using keep [OF t(1)] t(2) marked_tasks(3) [of t d1 i warned]
      by (auto simp: tasks kept_task_def)
  next
    case False
    then have "t\<lparr>pt_has_capacity_warning := pt_has_capacity_warning t\<rparr> \<in> set (db_plan_tasks d')"
      using keep [OF t(1)] by (simp add: tasks kept_task_def marked_tasks(2))
    then show ?thesis by blast
  qed
  obtain es where es: "db_plan_task_change_events d1 = db_plan_task_change_events d @ es"
    "\<forall>e \<in> set es. pce_plan_id e = i"
    "map pce_change_sequence es = map (\<lambda>k. next_change_sequence i d + int k) [0..<length changes]"
    using ed unfolding edited_def by blast
  then show "\<exists>es. plan_events i d' = plan_events i d @ es \<and> map pce_change_sequence es =
      map (\<lambda>k. next_change_sequence i d + int k) [0..<length changes]"
    by (intro exI [of _ es]) (simp add: plan_events_def d' marked_def filter_id_conv)
  have same: "planned_minutes i day d' = planned_minutes i day d1"
    "plan_capacity (stu_id s) day d' = plan_capacity (stu_id s) day d1" for day
    by (simp_all add: d')
  show "allow \<or> planned_minutes i day d' \<le> max 0 (plan_capacity (stu_id s) day d')"
    using allow no_warning_capacity [of day "stu_id s" i d1] by (auto simp: same)
  show "pt_has_capacity_warning t \<longleftrightarrow>
      plan_capacity (stu_id s) (pt_task_date t) d' < planned_minutes i (pt_task_date t) d'"
    if t: "t \<in> set (db_plan_tasks d')" "planned_task i t"
  proof -
    from t obtain t1 where t1: "t1 \<in> set (db_plan_tasks d1)" "planned_task i t1" "pt_task_date t1 = pt_task_date t"
      unfolding tasks marked_def by (auto elim!: set_update_rowsE simp: planned_task_def split: if_splits)
    have "pt_has_capacity_warning t \<longleftrightarrow> pt_task_date t \<in> set warned"
      using t by (intro marked_tasks(4) [of _ i _ d1]) (simp add: plan_tasks_def planned_task_def tasks)
    then show ?thesis using t1 by (auto simp: warned_def capacity_warnings_exact same)
  qed
qed

text \<open>C13. An edit of a plan is checked as a whole. It is accepted only for the version that the
  student saw, which it raises by one. Completed tasks and the tasks of other plans are kept, up to the
  warning flag. Every change is logged once under consecutive numbers after those of the log. Unless
  the student allows it no day exceeds the capacity, and the flag of each planned task tells exactly
  whether its day does.\<close>

theorem plan_patch_is_checked:
  assumes "patch_tasks env now u plan_id expected allow changes d = (Inr i, d')"
    and "student_of_user u d = Some s"
    and "distinct (map pt_id (db_plan_tasks d))" and "distinct (map wp_id (db_weekly_plans d))"
  shows "i = plan_id \<and> (\<exists>p. get_plan i d = Some p \<and> wp_student_id p = stu_id s \<and> wp_version p = expected
        \<and> get_plan i d' = Some (p\<lparr>wp_version := expected + 1\<rparr>))
    \<and> (\<forall>t \<in> set (db_plan_tasks d). (pt_plan_id t \<noteq> i \<longrightarrow> t \<in> set (db_plan_tasks d'))
        \<and> (pt_status t = Task_COMPLETED \<longrightarrow>
            (\<exists>w. t\<lparr>pt_has_capacity_warning := w\<rparr> \<in> set (db_plan_tasks d'))))
    \<and> (\<exists>es. plan_events i d' = plan_events i d @ es \<and> map pce_change_sequence es =
        map (\<lambda>k. next_change_sequence i d + int k) [0..<length changes])
    \<and> (allow \<or> (\<forall>day. planned_minutes i day d' \<le> max 0 (plan_capacity (stu_id s) day d')))
    \<and> (\<forall>t \<in> set (db_plan_tasks d'). planned_task i t \<longrightarrow> (pt_has_capacity_warning t \<longleftrightarrow>
        plan_capacity (stu_id s) (pt_task_date t) d' < planned_minutes i (pt_task_date t) d'))"
proof -
  note facts = plan_patch_facts [OF assms]
  have kept: "\<forall>t \<in> set (db_plan_tasks d). (pt_plan_id t \<noteq> i \<longrightarrow> t \<in> set (db_plan_tasks d'))
      \<and> (pt_status t = Task_COMPLETED \<longrightarrow> (\<exists>w. t\<lparr>pt_has_capacity_warning := w\<rparr> \<in> set (db_plan_tasks d')))"
    by (intro ballI conjI impI facts(2,3))
  have within_capacity: "allow \<or> (\<forall>day. planned_minutes i day d' \<le> max 0 (plan_capacity (stu_id s) day d'))"
    using facts(5) by (cases allow) simp_all
  have flagged: "\<forall>t \<in> set (db_plan_tasks d'). planned_task i t \<longrightarrow> (pt_has_capacity_warning t \<longleftrightarrow>
      plan_capacity (stu_id s) (pt_task_date t) d' < planned_minutes i (pt_task_date t) d')"
    by (intro ballI impI facts(6))
  show ?thesis
    by (intro conjI [OF conjunct1 [OF facts(1)]] conjI [OF conjunct2 [OF facts(1)]]
        conjI [OF kept conjI [OF facts(4) conjI [OF within_capacity flagged]]])
qed

definition example_change :: task_change where
  "example_change = \<lparr>tc_operation = ''DELETE'', tc_task_id = Some 2, tc_expected_version = Some 1,
     tc_task_date = None, tc_task_type = None, tc_title = None, tc_description = None,
     tc_knowledge_id = None, tc_resource_section_id = None, tc_suggested_scope = None,
     tc_planned_units = None, tc_unit_type = None, tc_student_estimated_minutes = None,
     tc_sequence = None, tc_reason = None\<rparr>"

lemma example_patches:
  obtains d' where "patch_tasks example_app_env 0 5 1 1 False [example_change] example_plan_db = (Inr 1, d')"
proof -
  have rows: "pt_id (example_task i st) = i" "pt_plan_id (example_task i st) = 1" "pt_version (example_task i st) = 1"
    "pt_status (example_task i st) = st" "pt_origin (example_task i st) = Origin_SYSTEM"
    "pt_task_date (example_task i st) = 10" "pt_effective_minutes (example_task i st) = 60" for i st
    by (simp_all add: example_task_def)
  have "\<exists>d'. patch_tasks example_app_env 0 5 1 1 False [example_change] example_plan_db = (Inr 1, d')"
    by (simp add: patch_tasks_def need_student_def student_of_user_def owned_plan_def andthen_apply ret_apply
        apply_change_def example_change_def get_task_def rows change_task_def put_task_def skipped_task_def
        record_change_def mark_warnings_def set_plan_def transaction_def capacity_warnings_def
        planned_minutes_def planned_task_def plan_capacity_def)
  then show ?thesis using that by blast
qed

theorem plan_patch_is_checked_witness:
  "\<exists>d'. patch_tasks example_app_env 0 5 1 1 False [example_change] example_plan_db = (Inr 1, d')
     \<and> get_plan 1 d' = Some (example_plan\<lparr>wp_version := 2\<rparr>)
     \<and> map pce_change_sequence (plan_events 1 d') = [1]"
proof -
  obtain d' where run: "patch_tasks example_app_env 0 5 1 1 False [example_change] example_plan_db = (Inr 1, d')"
    by (rule example_patches)
  have user: "student_of_user 5 example_plan_db = Some example_student" by (simp add: student_of_user_def)
  have ids: "distinct (map pt_id (db_plan_tasks example_plan_db))" "distinct (map wp_id (db_weekly_plans example_plan_db))"
    by (simp_all add: example_task_def)
  note checked = plan_patch_is_checked [OF run user ids]
  show ?thesis
    using conjunct1 [OF conjunct2 [OF checked]] conjunct1 [OF conjunct2 [OF conjunct2 [OF conjunct2 [OF checked]]]] run
    by (auto simp: get_plan_def plan_events_def next_change_sequence_def)
qed

end
