(* ===== verification/Exam_Base.thy ===== *)
theory Exam_Base
  imports Learning_Plans Learning_Domain
begin

text \<open>
  What the exam and practice services share: the submitted results, the update of a student's
  profile of true exams, the update of the mastery of a knowledge point, and the walk over the nodes
  of a syllabus chapter.
\<close>

subsection \<open>Loops over a list\<close>

fun for_each :: "('a \<Rightarrow> unit db_comp) \<Rightarrow> 'a list \<Rightarrow> unit db_comp" where
  "for_each f [] = ret ()"
| "for_each f (x # xs) = andthen (f x) (\<lambda>_. for_each f xs)"

lemma keeps_for_each: "(\<And>x. x \<in> set xs \<Longrightarrow> keeps P (f x)) \<Longrightarrow> keeps P (for_each f xs)"
  by (induction xs) (auto intro: keeps_andthen)

subsection \<open>Submitted results\<close>

record exam_result =
  xr_question_id :: uuid
  xr_score_ratio :: pyfloat
  xr_duration_seconds :: int
  xr_looked_at_solution :: bool
  xr_error_note :: "string option"

definition get_question :: "uuid \<Rightarrow> db \<Rightarrow> question_row option" where
  "get_question i d = find (\<lambda>q. q_id q = i) (db_questions d)"

text \<open>The knowledge points of a question.\<close>

definition question_knowledge :: "uuid \<Rightarrow> db \<Rightarrow> uuid list" where
  "question_knowledge i d = map qk_knowledge_id (filter (\<lambda>k. qk_question_id k = i) (db_question_knowledge d))"

subsection \<open>The profile of true exams\<close>

definition profile_of :: "uuid \<Rightarrow> uuid \<Rightarrow> uuid \<Rightarrow> true_exam_profile_row \<Rightarrow> bool" where
  "profile_of student school knowledge p \<longleftrightarrow> tep_student_id p = student
     \<and> tep_school_profile_id p = school \<and> tep_knowledge_id p = knowledge"

definition new_profile :: "uuid \<Rightarrow> time \<Rightarrow> uuid \<Rightarrow> uuid \<Rightarrow> uuid \<Rightarrow> true_exam_profile_row" where
  "new_profile i now student school knowledge = \<lparr>tep_id = i, tep_student_id = student,
     tep_school_profile_id = school, tep_knowledge_id = knowledge, tep_attempt_count = 0,
     tep_accuracy = 0, tep_average_score_ratio = 0, tep_average_duration_seconds = 0,
     tep_created_at = now\<rparr>"

text \<open>The running means after one more result; a ratio of at least 0.6 counts as correct.\<close>

definition updated_profile :: "pyfloat \<Rightarrow> int \<Rightarrow> true_exam_profile_row \<Rightarrow> true_exam_profile_row" where
  "updated_profile ratio duration p =
    (let n = tep_attempt_count p in
     p\<lparr>tep_attempt_count := n + 1,
       tep_accuracy := (tep_accuracy p * of_int n + (if 6 / 10 \<le> ratio then 1 else 0)) / of_int (n + 1),
       tep_average_score_ratio := (tep_average_score_ratio p * of_int n + ratio) / of_int (n + 1),
       tep_average_duration_seconds :=
         py_round (of_int (tep_average_duration_seconds p * n + duration) / of_int (n + 1))\<rparr>)"

definition update_true_profile :: "time \<Rightarrow> uuid \<Rightarrow> uuid \<Rightarrow> uuid \<Rightarrow> pyfloat \<Rightarrow> int \<Rightarrow> unit db_comp" where
  "update_true_profile now student school knowledge ratio duration =
    andthen (gets (\<lambda>d. find (profile_of student school knowledge) (db_true_exam_profiles d))) (\<lambda>p. case p of
        None \<Rightarrow> modify (\<lambda>d. d\<lparr>db_true_exam_profiles := db_true_exam_profiles d @
          [updated_profile ratio duration
            (new_profile (fresh_id (map tep_id (db_true_exam_profiles d))) now student school knowledge)]\<rparr>)
      | Some p \<Rightarrow> modify (\<lambda>d. d\<lparr>db_true_exam_profiles :=
          update_rows (\<lambda>q. tep_id q = tep_id p) (updated_profile ratio duration) (db_true_exam_profiles d)\<rparr>))"

subsection \<open>Mastery of a knowledge point\<close>

definition state_of :: "uuid \<Rightarrow> uuid \<Rightarrow> student_knowledge_state_row \<Rightarrow> bool" where
  "state_of student knowledge s \<longleftrightarrow> ks_student_id s = student \<and> ks_knowledge_id s = knowledge"

definition new_knowledge_state :: "uuid \<Rightarrow> time \<Rightarrow> uuid \<Rightarrow> uuid \<Rightarrow> student_knowledge_state_row" where
  "new_knowledge_state i now student knowledge = \<lparr>ks_id = i, ks_student_id = student,
     ks_knowledge_id = knowledge, ks_mastery_score = 5 / 10, ks_confidence = 25 / 100,
     ks_last_practiced_at = None, ks_recent_accuracy = None, ks_recent_avg_duration = None,
     ks_error_streak = 0, ks_correct_streak = 0, ks_evidence_count = 0, ks_model_version = ''mastery_v1'',
     ks_version = 0, ks_created_at = now\<rparr>"

text \<open>The state's row, inserted when the student has none for the knowledge point.\<close>

definition load_knowledge_state :: "time \<Rightarrow> uuid \<Rightarrow> uuid \<Rightarrow> student_knowledge_state_row db_comp" where
  "load_knowledge_state now student knowledge =
    andthen (gets (\<lambda>d. find (state_of student knowledge) (db_student_knowledge_states d))) (\<lambda>s. case s of
        Some s \<Rightarrow> ret s
      | None \<Rightarrow>
          andthen (gets (\<lambda>d. new_knowledge_state (fresh_id (map ks_id (db_student_knowledge_states d)))
            now student knowledge)) (\<lambda>s.
          andthen (modify (\<lambda>d. d\<lparr>db_student_knowledge_states := db_student_knowledge_states d @ [s]\<rparr>))
            (\<lambda>_. ret s)))"

definition assessed_mastery :: "student_knowledge_state_row \<Rightarrow> pyfloat \<Rightarrow> difficulty \<Rightarrow> bool \<Rightarrow> exn + mastery_result" where
  "assessed_mastery s ratio level looked =
    (case new_observation ratio level looked of
       Inl e \<Rightarrow> Inl e
     | Inr obs \<Rightarrow> mastery_update default_alpha (ks_mastery_score s) (ks_evidence_count s) obs)"

text \<open>What every service assigns; \<open>extra\<close> is what it assigns besides.\<close>

definition assessed_state :: "mastery_result \<Rightarrow> time option
    \<Rightarrow> (student_knowledge_state_row \<Rightarrow> student_knowledge_state_row) \<Rightarrow> student_knowledge_state_row
    \<Rightarrow> student_knowledge_state_row" where
  "assessed_state r practised extra s = extra (s\<lparr>ks_mastery_score := mr_score r,
     ks_confidence := mr_confidence r, ks_evidence_count := mr_evidence_count r,
     ks_last_practiced_at := practised, ks_version := ks_version s + 1\<rparr>)"

definition assess_mastery :: "time \<Rightarrow> uuid \<Rightarrow> uuid \<Rightarrow> pyfloat \<Rightarrow> difficulty \<Rightarrow> bool \<Rightarrow> time option
    \<Rightarrow> (student_knowledge_state_row \<Rightarrow> student_knowledge_state_row) \<Rightarrow> unit db_comp" where
  "assess_mastery now student knowledge ratio level looked practised extra =
    andthen (load_knowledge_state now student knowledge) (\<lambda>s.
    andthen (lift_result (assessed_mastery s ratio level looked)) (\<lambda>r.
    modify (\<lambda>d. d\<lparr>db_student_knowledge_states :=
      update_rows (\<lambda>x. ks_id x = ks_id s) (assessed_state r practised extra) (db_student_knowledge_states d)\<rparr>)))"

subsection \<open>The nodes of a chapter\<close>

text \<open>
  \<open>_chapter_nodes\<close>: the breadth-first walk from a chapter over the children of every node. The loop
  ends because the parent of a node is unique and a chapter has none; on other data it need not.
\<close>

definition children_of :: "knowledge_node_row list \<Rightarrow> uuid \<Rightarrow> knowledge_node_row list" where
  "children_of nodes i = filter (\<lambda>n. kn_parent_id n = Some i) nodes"

partial_function (option) chapter_walk ::
  "knowledge_node_row list \<Rightarrow> knowledge_node_row list \<Rightarrow> knowledge_node_row list \<Rightarrow> knowledge_node_row list option" where
  "chapter_walk nodes result pending = (case pending of
     [] \<Rightarrow> Some result
   | n # rest \<Rightarrow> chapter_walk nodes (result @ [n]) (rest @ children_of nodes (kn_id n)))"

definition chapter_nodes :: "knowledge_node_row list \<Rightarrow> knowledge_node_row \<Rightarrow> knowledge_node_row list option" where
  "chapter_nodes nodes chapter = chapter_walk nodes [chapter] (children_of nodes (kn_id chapter))"

text \<open>The nodes below a chapter in the syllabus.\<close>

inductive below :: "knowledge_node_row list \<Rightarrow> knowledge_node_row \<Rightarrow> knowledge_node_row \<Rightarrow> bool" for nodes where
  below_refl: "below nodes c c"
| below_child: "below nodes c n \<Longrightarrow> m \<in> set nodes \<Longrightarrow> kn_parent_id m = Some (kn_id n) \<Longrightarrow> below nodes c m"

inductive_cases below_cases: "below nodes c n"

text \<open>
  The state of the walk: the visited and the pending nodes are distinct nodes below the chapter, and
  the children of the visited ones, and only they, have been added.
\<close>

definition walk_ok :: "knowledge_node_row list \<Rightarrow> knowledge_node_row \<Rightarrow> knowledge_node_row list
    \<Rightarrow> knowledge_node_row list \<Rightarrow> bool" where
  "walk_ok nodes c result pending \<longleftrightarrow> c \<in> set result \<and> distinct (map kn_id (result @ pending))
     \<and> set (result @ pending) \<subseteq> set nodes
     \<and> (\<forall>n \<in> set (result @ pending). below nodes c n)
     \<and> (\<forall>n \<in> set (result @ pending). n = c \<or> (\<exists>p \<in> set result. kn_parent_id n = Some (kn_id p)))
     \<and> (\<forall>p \<in> set result. set (children_of nodes (kn_id p)) \<subseteq> set (result @ pending))"

lemma children_of_in [simp]: "m \<in> set (children_of nodes i) \<longleftrightarrow> m \<in> set nodes \<and> kn_parent_id m = Some i"
  by (auto simp: children_of_def)

lemma children_of_distinct: "distinct (map kn_id nodes) \<Longrightarrow> distinct (map kn_id (children_of nodes i))"
  by (simp add: children_of_def distinct_map_filter)

lemma walk_ok_step:
  assumes "walk_ok nodes c result (n # rest)" and "distinct (map kn_id nodes)" and "kn_parent_id c = None"
  shows "walk_ok nodes c (result @ [n]) (rest @ children_of nodes (kn_id n))"
proof -
  let ?seen = "result @ n # rest"
  have dist: "distinct (map kn_id ?seen)" and below: "\<forall>m \<in> set ?seen. below nodes c m"
    and sub: "set ?seen \<subseteq> set nodes"
    and parent: "\<forall>m \<in> set ?seen. m = c \<or> (\<exists>p \<in> set result. kn_parent_id m = Some (kn_id p))"
    using assms(1) by (simp_all add: walk_ok_def)
  have fresh: "m \<notin> set ?seen" if "m \<in> set (children_of nodes (kn_id n))" for m
  proof
    assume "m \<in> set ?seen"
    then consider "m = c" | p where "p \<in> set result" "kn_parent_id m = Some (kn_id p)"
      using parent by blast
    then show False
    proof cases
      case 1
      then show False using that assms(3) by simp
    next
      case 2
      then have "kn_id p = kn_id n" using that by simp
      moreover have "kn_id n \<notin> kn_id ` set result" using dist by auto
      ultimately show False using 2(1) by (metis image_eqI)
    qed
  qed
  have "kn_id m \<notin> kn_id ` set ?seen" if "m \<in> set (children_of nodes (kn_id n))" for m
  proof
    assume "kn_id m \<in> kn_id ` set ?seen"
    then obtain x where "x \<in> set ?seen" "kn_id x = kn_id m" by fastforce
    moreover have "inj_on kn_id (set nodes)" using assms(2) by (simp add: distinct_map)
    ultimately have "x = m" using sub that by (auto dest: inj_onD)
    with \<open>x \<in> set ?seen\<close> fresh [OF that] show False by blast
  qed
  then have "set (map kn_id ?seen) \<inter> set (map kn_id (children_of nodes (kn_id n))) = {}"
    unfolding set_map disjoint_iff by blast
  then have "distinct (map kn_id (?seen @ children_of nodes (kn_id n)))"
    unfolding map_append [of kn_id ?seen] distinct_append
    using dist children_of_distinct [OF assms(2), of "kn_id n"] by blast
  moreover have "below nodes c m" if "m \<in> set (children_of nodes (kn_id n))" for m
    using that below below_child [of nodes c n m] by auto
  ultimately show ?thesis
    using assms(1) sub parent by (auto simp: walk_ok_def)
qed

lemma walk_ends:
  assumes "distinct (map kn_id nodes)" and "kn_parent_id c = None" and "walk_ok nodes c result pending"
  shows "\<exists>ns. chapter_walk nodes result pending = Some ns \<and> walk_ok nodes c ns []"
  using assms(3)
proof (induction "card (set nodes - set result)" arbitrary: result pending rule: less_induct)
  case less
  show ?case
  proof (cases pending)
    case Nil
    then show ?thesis using less.prems by (subst chapter_walk.simps) simp
  next
    case (Cons n rest)
    have "n \<in> set nodes - set result" using less.prems Cons by (auto simp: walk_ok_def)
    then have "card (set nodes - set (result @ [n])) < card (set nodes - set result)"
      by (intro psubset_card_mono) auto
    from less.hyps [OF this walk_ok_step [OF less.prems [unfolded Cons] assms(1,2)]]
    show ?thesis by (subst chapter_walk.simps) (simp add: Cons)
  qed
qed

lemma walk_done: "walk_ok nodes c ns [] \<Longrightarrow> below nodes c n \<Longrightarrow> n \<in> set ns"
proof (rotate_tac, induction rule: below.induct)
  case (below_child n m)
  then show ?case unfolding walk_ok_def by fastforce
qed (simp add: walk_ok_def)

end
