(* ===== verification/True_Exams.thy ===== *)
theory True_Exams
  imports Exam_Base
begin

text \<open>
  True exams, \<^verbatim>\<open>app/application/true_exams.py\<close>: the exams of the student's school and the submission
  of one, which records every question, the student's profile and the mastery of its knowledge points.
\<close>

definition get_true_exam :: "uuid \<Rightarrow> db \<Rightarrow> true_exam_row option" where
  "get_true_exam i d = find (\<lambda>e. te_id e = i) (db_true_exams d)"

definition list_true_exams :: "uuid \<Rightarrow> true_exam_row list db_comp" where
  "list_true_exams u =
    andthen (need_student u) (\<lambda>s. case stu_target_school_id s of
        None \<Rightarrow> app_error 422 ''TARGET_SCHOOL_REQUIRED''
      | Some school \<Rightarrow> gets (\<lambda>d. sort_key te_year
          (filter (\<lambda>e. te_school_profile_id e = school) (db_true_exams d))))"

text \<open>The exam, when it belongs to the student's school.\<close>

definition school_exam :: "student_row \<Rightarrow> uuid \<Rightarrow> true_exam_row db_comp" where
  "school_exam s exam_id =
    andthen (gets (get_true_exam exam_id)) (\<lambda>e. case e of
        None \<Rightarrow> app_error 404 ''TRUE_EXAM_NOT_FOUND''
      | Some e \<Rightarrow>
          if Some (te_school_profile_id e) \<noteq> stu_target_school_id s then app_error 404 ''TRUE_EXAM_NOT_FOUND''
          else ret e)"

definition exam_links :: "uuid \<Rightarrow> db \<Rightarrow> true_exam_question_row list" where
  "exam_links exam_id d = filter (\<lambda>l. teq_true_exam_id l = exam_id) (db_true_exam_questions d)"

definition true_exam_detail ::
  "uuid \<Rightarrow> uuid \<Rightarrow> (true_exam_row \<times> (true_exam_question_row \<times> question_row) list) db_comp" where
  "true_exam_detail u exam_id =
    andthen (need_student u) (\<lambda>s.
    andthen (school_exam s exam_id) (\<lambda>e.
    andthen (gets (\<lambda>d. List.map_filter (\<lambda>l. map_option (Pair l) (get_question (teq_question_id l) d))
      (sort_key teq_sequence (exam_links (te_id e) d)))) (\<lambda>rows. ret (e, rows))))"

definition student_profile :: "uuid \<Rightarrow> true_exam_profile_row list db_comp" where
  "student_profile u =
    andthen (need_student u) (\<lambda>s.
    gets (\<lambda>d. sort_key tep_accuracy (filter (\<lambda>p. tep_student_id p = stu_id s) (db_true_exam_profiles d))))"

subsection \<open>Submission\<close>

definition exam_error_type :: "pyfloat \<Rightarrow> error_type option" where
  "exam_error_type ratio = (if ratio < 6 / 10 then Some Err_UNKNOWN else None)"

definition exam_attempt :: "app_env \<Rightarrow> time \<Rightarrow> uuid \<Rightarrow> student_row \<Rightarrow> uuid \<Rightarrow> exam_result \<Rightarrow> question_attempt_row" where
  "exam_attempt env now i s overall r = \<lparr>qa_id = i, qa_student_id = stu_id s,
     qa_question_id = xr_question_id r, qa_plan_task_id = None, qa_true_exam_attempt_id = Some overall,
     qa_chapter_true_exam_session_id = None, qa_mock_exam_id = None, qa_context = Ctx_TRUE_EXAM,
     qa_started_at = None, qa_finished_at = Some now,
     qa_actual_duration_seconds = xr_duration_seconds r, qa_score_ratio = xr_score_ratio r,
     qa_looked_at_solution = xr_looked_at_solution r, qa_self_difficulty = None,
     qa_student_error_note = xr_error_note r, qa_agent_error_type = exam_error_type (xr_score_ratio r),
     qa_idempotency_key = ''true:'' @ ae_uuid_str env overall @ '':'' @ ae_uuid_str env (xr_question_id r),
     qa_created_at = now\<rparr>"

definition add_attempt :: "(uuid \<Rightarrow> question_attempt_row) \<Rightarrow> unit db_comp" where
  "add_attempt f = modify (\<lambda>d. d\<lparr>db_question_attempts := db_question_attempts d @
     [f (fresh_id (map qa_id (db_question_attempts d)))]\<rparr>)"

definition with_model_version :: "student_knowledge_state_row \<Rightarrow> student_knowledge_state_row" where
  "with_model_version s = s\<lparr>ks_model_version := ''mastery_v1''\<rparr>"

text \<open>\<open>_record_question\<close>.\<close>

definition record_exam_question :: "app_env \<Rightarrow> time \<Rightarrow> student_row \<Rightarrow> true_exam_row \<Rightarrow> uuid \<Rightarrow> question_row
    \<Rightarrow> exam_result \<Rightarrow> unit db_comp" where
  "record_exam_question env now s e overall q r =
    andthen (add_attempt (\<lambda>i. exam_attempt env now i s overall r)) (\<lambda>_.
    andthen (gets (question_knowledge (q_id q))) (\<lambda>ks.
    for_each (\<lambda>k.
      andthen (update_true_profile now (stu_id s) (te_school_profile_id e) k (xr_score_ratio r)
        (xr_duration_seconds r)) (\<lambda>_.
      assess_mastery now (stu_id s) k (xr_score_ratio r) (q_difficulty q) (xr_looked_at_solution r)
        (Some now) with_model_version)) ks))"

text \<open>\<open>question_map[item.question_id]\<close> of a result.\<close>

definition mapped_question :: "exam_result \<Rightarrow> question_row db_comp" where
  "mapped_question r = andthen (gets (get_question (xr_question_id r))) (\<lambda>q. found_or q (PyExc ''KeyError''))"

fun exam_score :: "exam_result list \<Rightarrow> db \<Rightarrow> pyfloat option" where
  "exam_score [] d = Some 0"
| "exam_score (r # rs) d = (case (get_question (xr_question_id r) d, exam_score rs d) of
     (Some q, Some x) \<Rightarrow> Some (xr_score_ratio r * of_int (q_score q) + x) | _ \<Rightarrow> None)"

definition new_exam_attempt :: "uuid \<Rightarrow> time \<Rightarrow> uuid \<Rightarrow> uuid \<Rightarrow> exam_result list \<Rightarrow> pyfloat \<Rightarrow> string
    \<Rightarrow> true_exam_attempt_row" where
  "new_exam_attempt i now student exam rs score key = \<lparr>tea_id = i, tea_student_id = student,
     tea_true_exam_id = exam, tea_score = score, tea_duration_seconds = sum_of xr_duration_seconds rs,
     tea_idempotency_key = key, tea_created_at = now\<rparr>"

definition add_exam_attempt :: "(uuid \<Rightarrow> true_exam_attempt_row) \<Rightarrow> true_exam_attempt_row db_comp" where
  "add_exam_attempt f =
    andthen (gets (\<lambda>d. f (fresh_id (map tea_id (db_true_exam_attempts d))))) (\<lambda>a.
    andthen (modify (\<lambda>d. d\<lparr>db_true_exam_attempts := db_true_exam_attempts d @ [a]\<rparr>)) (\<lambda>_. ret a))"

definition set_student :: "uuid \<Rightarrow> (student_row \<Rightarrow> student_row) \<Rightarrow> unit db_comp" where
  "set_student i f = modify (\<lambda>d. d\<lparr>db_students := update_rows (\<lambda>s. stu_id s = i) f (db_students d)\<rparr>)"

definition to_true_exam_stage :: "student_row \<Rightarrow> student_row" where
  "to_true_exam_stage s =
    (if stu_current_stage s \<in> {Stage_FOUNDATION, Stage_STRENGTHEN}
     then s\<lparr>stu_current_stage := Stage_TRUE_EXAM, stu_version := stu_version s + 1\<rparr> else s)"

definition submit_first :: "app_env \<Rightarrow> time \<Rightarrow> student_row \<Rightarrow> true_exam_row \<Rightarrow> exam_result list \<Rightarrow> string
    \<Rightarrow> true_exam_attempt_row db_comp" where
  "submit_first env now s e rs key =
    andthen (gets (exam_score rs)) (\<lambda>score.
    andthen (found_or score (PyExc ''KeyError'')) (\<lambda>score.
    andthen (add_exam_attempt (\<lambda>i. new_exam_attempt i now (stu_id s) (te_id e) rs score key)) (\<lambda>a.
    andthen (for_each (\<lambda>r. andthen (mapped_question r) (\<lambda>q.
      record_exam_question env now s e (tea_id a) q r)) rs) (\<lambda>_.
    andthen (set_student (stu_id s) to_true_exam_stage) (\<lambda>_. ret a)))))"

definition exam_attempt_keyed :: "uuid \<Rightarrow> string \<Rightarrow> true_exam_attempt_row \<Rightarrow> bool" where
  "exam_attempt_keyed student key a \<longleftrightarrow> tea_student_id a = student \<and> tea_idempotency_key a = key"

text \<open>\<open>TrueExamService.submit\<close>.\<close>

definition submit_true_exam :: "app_env \<Rightarrow> time \<Rightarrow> uuid \<Rightarrow> uuid \<Rightarrow> exam_result list \<Rightarrow> string
    \<Rightarrow> true_exam_attempt_row db_comp" where
  "submit_true_exam env now u exam_id rs key = transaction
    (andthen (need_student u) (\<lambda>s.
     andthen (gets (\<lambda>d. find (exam_attempt_keyed (stu_id s) key) (db_true_exam_attempts d))) (\<lambda>existing.
       case existing of
         Some a \<Rightarrow> if tea_true_exam_id a \<noteq> exam_id then app_error 409 ''IDEMPOTENCY_CONFLICT'' else ret a
       | None \<Rightarrow>
           andthen (school_exam s exam_id) (\<lambda>e.
           andthen (gets (\<lambda>d. map teq_question_id (exam_links exam_id d))) (\<lambda>assigned.
             if \<not> distinct (map xr_question_id rs) \<or> set (map xr_question_id rs) \<noteq> set assigned
             then app_error 422 ''INCOMPLETE_EXAM_SUBMISSION''
             else submit_first env now s e rs key)))))"

subsection \<open>What a submission does\<close>

text \<open>The numbers of the profiles and the knowledge states are in their ranges.\<close>

definition profile_ok :: "true_exam_profile_row \<Rightarrow> bool" where
  "profile_ok p \<longleftrightarrow> 0 \<le> tep_attempt_count p \<and> 0 \<le> tep_accuracy p \<and> tep_accuracy p \<le> 1
     \<and> 0 \<le> tep_average_score_ratio p \<and> tep_average_score_ratio p \<le> 1"

definition knowledge_state_ok :: "student_knowledge_state_row \<Rightarrow> bool" where
  "knowledge_state_ok s \<longleftrightarrow> 0 \<le> ks_mastery_score s \<and> ks_mastery_score s \<le> 1
     \<and> 0 \<le> ks_confidence s \<and> ks_confidence s \<le> 95 / 100 \<and> 0 \<le> ks_evidence_count s"

definition assessments_ok :: "db \<Rightarrow> bool" where
  "assessments_ok d \<longleftrightarrow> (\<forall>p \<in> set (db_true_exam_profiles d). profile_ok p)
     \<and> (\<forall>s \<in> set (db_student_knowledge_states d). knowledge_state_ok s)"

lemma mean_in_unit:
  assumes "0 \<le> (n::int)" and "0 \<le> (a::real)" "a \<le> 1" and "0 \<le> x" "x \<le> 1"
  shows "0 \<le> (a * of_int n + x) / of_int (n + 1)" and "(a * of_int n + x) / of_int (n + 1) \<le> 1"
proof -
  have n: "0 < (of_int (n + 1) :: real)" using assms(1) by simp
  show "0 \<le> (a * of_int n + x) / of_int (n + 1)"
    using assms n by (intro divide_nonneg_pos add_nonneg_nonneg mult_nonneg_nonneg) auto
  have "a * of_int n \<le> 1 * of_int n" using assms by (intro mult_right_mono) auto
  then show "(a * of_int n + x) / of_int (n + 1) \<le> 1" using assms(5) n by (simp add: divide_le_eq)
qed

lemma updated_profile_ok:
  assumes "profile_ok p" and "0 \<le> ratio" and "ratio \<le> 1"
  shows "profile_ok (updated_profile ratio duration p)"
  using assms mean_in_unit [of "tep_attempt_count p" "tep_accuracy p" "if 6 / 10 \<le> ratio then 1 else 0"]
    mean_in_unit [of "tep_attempt_count p" "tep_average_score_ratio p" ratio]
  by (simp add: profile_ok_def updated_profile_def Let_def)

lemma new_profile_ok: "profile_ok (new_profile i now student school k)"
  by (simp add: profile_ok_def new_profile_def)

lemma in_update_rows: "x \<in> set (update_rows P f rows) \<Longrightarrow> (\<And>r. r \<in> set rows \<Longrightarrow> Q r) \<Longrightarrow>
    (\<And>r. r \<in> set rows \<Longrightarrow> P r \<Longrightarrow> Q (f r)) \<Longrightarrow> Q x"
  by (auto simp: update_rows_def split: if_splits)

lemma keeps_update_profile:
  assumes "0 \<le> ratio" and "ratio \<le> 1"
  shows "keeps assessments_ok (update_true_profile now student school k ratio duration)"
  unfolding update_true_profile_def
  by (intro keeps_andthen keeps_gets keeps_option keeps_modify)
    (auto simp: assessments_ok_def updated_profile_ok [OF _ assms] new_profile_ok elim!: in_update_rows)

lemma assessed_state_ok:
  assumes "assessed_mastery s ratio level looked = Inr r" and "knowledge_state_ok s" and "knowledge_state_ok x"
    and "\<And>y. knowledge_state_ok (extra y) = knowledge_state_ok y"
  shows "knowledge_state_ok (assessed_state r practised extra x)"
proof -
  obtain obs where m: "mastery_update default_alpha (ks_mastery_score s) (ks_evidence_count s) obs = Inr r"
    using assms(1) by (auto simp: assessed_mastery_def split: sum.splits)
  have n: "0 \<le> ks_evidence_count s" using assms(2) by (simp add: knowledge_state_ok_def)
  have "mr_evidence_count r = ks_evidence_count s + 1" by (rule mastery_update_InrD(5) [OF m])
  then show ?thesis
    using mastery_score_unit [OF m] mastery_confidence_bounds [OF m n] n assms(4)
    by (simp add: assessed_state_def knowledge_state_ok_def [of "assessed_state _ _ _ _"]) (simp add: knowledge_state_ok_def)
qed

lemma new_knowledge_state_ok: "knowledge_state_ok (new_knowledge_state i now student k)"
  by (simp add: knowledge_state_ok_def new_knowledge_state_def)

lemma load_state_ok:
  assumes "assessments_ok d" and "load_knowledge_state now student k d = (Inr s, d')"
  shows "assessments_ok d' \<and> knowledge_state_ok s"
  using assms
  by (auto simp: load_knowledge_state_def andthen_apply assessments_ok_def new_knowledge_state_ok
      split: option.splits dest: find_SomeD)

lemma keeps_assess:
  assumes "\<And>y. knowledge_state_ok (extra y) = knowledge_state_ok y"
  shows "keeps assessments_ok (assess_mastery now student k ratio level looked practised extra)"
proof (rule keepsI)
  fix d
  assume d: "assessments_ok d"
  obtain x d1 where load: "load_knowledge_state now student k d = (x, d1)" by fastforce
  show "assessments_ok (snd (assess_mastery now student k ratio level looked practised extra d))"
  proof (cases x)
    case (Inl e)
    then have "d1 = d" using load by (auto simp: load_knowledge_state_def andthen_apply split: option.splits)
    then show ?thesis using load Inl d by (simp add: assess_mastery_def andthen_apply)
  next
    case (Inr s)
    note ok = load_state_ok [OF d load [unfolded Inr]]
    show ?thesis
    proof (cases "assessed_mastery s ratio level looked")
      case (Inr r)
      note fine = assessed_state_ok [OF Inr _ _ assms, of _ practised]
      show ?thesis
        using load \<open>x = Inr s\<close> Inr ok fine
        by (auto simp: assess_mastery_def andthen_apply ret_apply assessments_ok_def elim!: in_update_rows)
    qed (use load Inr ok in \<open>simp add: assess_mastery_def andthen_apply throw_apply\<close>)
  qed
qed

lemma with_model_version_ok [simp]: "knowledge_state_ok (with_model_version y) = knowledge_state_ok y"
  by (simp add: knowledge_state_ok_def with_model_version_def)

lemma keeps_assessments_other:
  "keeps assessments_ok (add_attempt f)" "keeps assessments_ok (set_student i g)"
  "keeps assessments_ok (add_exam_attempt h)"
  unfolding add_attempt_def set_student_def add_exam_attempt_def
  by (intro keeps_andthen keeps_gets keeps_ret keeps_modify, simp add: assessments_ok_def)+

lemma keeps_record_exam_question:
  assumes "0 \<le> xr_score_ratio r" and "xr_score_ratio r \<le> 1"
  shows "keeps assessments_ok (record_exam_question env now s e overall q r)"
  unfolding record_exam_question_def
  by (intro keeps_andthen keeps_gets keeps_for_each keeps_assessments_other keeps_update_profile assms
      keeps_assess with_model_version_ok)

text \<open>What a step appends to the attempts; the exam attempts, the questions and the students stay.\<close>

definition silent :: "db \<Rightarrow> db \<Rightarrow> bool" where
  "silent d0 d \<longleftrightarrow> db_true_exam_attempts d = db_true_exam_attempts d0 \<and> db_questions d = db_questions d0
     \<and> db_students d = db_students d0 \<and> db_question_attempts d = db_question_attempts d0"

definition appends :: "(question_attempt_row \<Rightarrow> bool) list \<Rightarrow> db \<Rightarrow> db \<Rightarrow> bool" where
  "appends ps d d' \<longleftrightarrow> db_true_exam_attempts d' = db_true_exam_attempts d \<and> db_questions d' = db_questions d
     \<and> db_students d' = db_students d
     \<and> (\<exists>as. db_question_attempts d' = db_question_attempts d @ as \<and> list_all2 (\<lambda>p a. p a) ps as)"

lemma appends_Nil: "appends [] d d"
  by (simp add: appends_def)

lemma appends_trans: "appends ps d d1 \<Longrightarrow> appends qs d1 d2 \<Longrightarrow> appends (ps @ qs) d d2"
  unfolding appends_def by (elim conjE exE) (auto intro!: list_all2_appendI)

lemma silent_rules:
  "keeps (silent d0) (update_true_profile now st sc k ratio duration)"
  "keeps (silent d0) (assess_mastery now st k ratio level looked practised extra)"
  unfolding update_true_profile_def assess_mastery_def load_knowledge_state_def
  by (intro keeps_andthen keeps_gets keeps_option keeps_modify keeps_lift_result keeps_ret;
      simp add: silent_def)+

definition attempt_of :: "uuid \<Rightarrow> uuid \<Rightarrow> exam_result \<Rightarrow> question_attempt_row \<Rightarrow> bool" where
  "attempt_of student overall r a \<longleftrightarrow> qa_student_id a = student \<and> qa_question_id a = xr_question_id r
     \<and> qa_true_exam_attempt_id a = Some overall \<and> qa_context a = Ctx_TRUE_EXAM
     \<and> qa_score_ratio a = xr_score_ratio r"

lemma record_exam_question_appends:
  assumes "record_exam_question env now s e overall q r d = (Inr (), d')"
  shows "appends [attempt_of (stu_id s) overall r] d d'"
proof -
  let ?a = "exam_attempt env now (fresh_id (map qa_id (db_question_attempts d))) s overall r"
  define d1 where "d1 = d\<lparr>db_question_attempts := db_question_attempts d @ [?a]\<rparr>"
  let ?loop = "for_each (\<lambda>k. andthen (update_true_profile now (stu_id s) (te_school_profile_id e) k
        (xr_score_ratio r) (xr_duration_seconds r)) (\<lambda>_. assess_mastery now (stu_id s) k (xr_score_ratio r)
        (q_difficulty q) (xr_looked_at_solution r) (Some now) with_model_version)) (question_knowledge (q_id q) d1)"
  have "?loop d1 = (Inr (), d')"
    using assms by (simp add: record_exam_question_def add_attempt_def andthen_apply d1_def)
  moreover have "keeps (silent d1) ?loop"
    by (intro keeps_for_each keeps_andthen silent_rules)
  ultimately have "silent d1 d'" using keeps_resultD [of "silent d1" ?loop d1] by (simp add: silent_def)
  then show ?thesis
    by (simp add: silent_def appends_def d1_def attempt_of_def exam_attempt_def)
qed

lemma record_all_appends:
  assumes "for_each (\<lambda>r. andthen (mapped_question r) (\<lambda>q. record_exam_question env now s e overall q r)) rs d
    = (Inr (), d')"
  shows "appends (map (attempt_of (stu_id s) overall) rs) d d'"
  using assms
proof (induction rs arbitrary: d)
  case (Cons r rs)
  obtain q d1 where one: "record_exam_question env now s e overall q r d = (Inr (), d1)"
    and rest: "for_each (\<lambda>r. andthen (mapped_question r) (\<lambda>q. record_exam_question env now s e overall q r)) rs d1
      = (Inr (), d')"
    using Cons.prems
    by (auto simp: mapped_question_def found_or_def elim!: andthen_InrE split: option.splits)
  show ?case
    using appends_trans [OF record_exam_question_appends [OF one] Cons.IH [OF rest]] by simp
qed (simp add: appends_Nil)

lemma submit_true_exam_first:
  assumes "submit_true_exam env now u exam_id rs key d = (Inr a, d')" and "student_of_user u d = Some s"
    and "find (exam_attempt_keyed (stu_id s) key) (db_true_exam_attempts d) = None"
  obtains e d1 where "get_true_exam exam_id d = Some e" and "Some (te_school_profile_id e) = stu_target_school_id s"
    and "distinct (map xr_question_id rs)"
    and "set (map xr_question_id rs) = set (map teq_question_id (exam_links exam_id d))"
    and "exam_score rs d = Some (tea_score a)"
    and "a = new_exam_attempt (fresh_id (map tea_id (db_true_exam_attempts d))) now (stu_id s) (te_id e) rs
        (tea_score a) key"
    and "for_each (\<lambda>r. andthen (mapped_question r) (\<lambda>q. record_exam_question env now s e (tea_id a) q r)) rs
        (d\<lparr>db_true_exam_attempts := db_true_exam_attempts d @ [a]\<rparr>) = (Inr (), d1)"
    and "d' = d1\<lparr>db_students := update_rows (\<lambda>x. stu_id x = stu_id s) to_true_exam_stage (db_students d1)\<rparr>"
  using transaction_InrD [OF assms(1) [unfolded submit_true_exam_def]] assms(2,3) that
  by (auto simp: need_student_def school_exam_def submit_first_def add_exam_attempt_def set_student_def
      app_error_def found_or_def new_exam_attempt_def elim!: andthen_InrE split: option.splits if_splits)

end
