(* ===== verification/Unlocks.thy ===== *)
theory Unlocks
  imports True_Exams "HOL-Library.List_Lexorder" "HOL-Library.Char_ord"
begin

text \<open>
  Unlocks and chapter sessions, \<^verbatim>\<open>app/application/unlocks.py\<close>: the progress of a student over the
  syllabus of the school, what it unlocks, and the sessions on the true exam questions of a chapter.

  \<open>digest\<close> is \<^verbatim>\<open>hashlib.sha256(...).hexdigest()\<close>. Codes are ordered by their characters. The results
  of a submission have the types of \<^verbatim>\<open>ExamQuestionResultRequest\<close>, so that the check of the types of
  duration and score always passes.
\<close>

subsection \<open>Queries\<close>

text \<open>\<open>_school_nodes\<close>: the syllabus of the school, in its order.\<close>

definition school_pairs :: "uuid \<Rightarrow> db \<Rightarrow> (knowledge_node_row \<times> school_knowledge_stat_row) list" where
  "school_pairs school d = concat (map (\<lambda>n. map (Pair n)
     (filter (\<lambda>k. sks_knowledge_id k = kn_id n \<and> sks_school_profile_id k = school) (db_school_knowledge_stats d)))
     (db_knowledge_nodes d))"

definition school_nodes :: "uuid option \<Rightarrow> db \<Rightarrow> knowledge_node_row list" where
  "school_nodes school d = (case school of
     None \<Rightarrow> []
   | Some i \<Rightarrow> map fst (sort_key (\<lambda>p. sks_syllabus_order (snd p)) (sort_key (\<lambda>p. kn_code (fst p)) (school_pairs i d))))"

text \<open>\<open>_progress\<close>: the student's row for a node, or one that is not stored.\<close>

definition progress_of :: "uuid \<Rightarrow> uuid \<Rightarrow> student_knowledge_progress_row \<Rightarrow> bool" where
  "progress_of student knowledge p \<longleftrightarrow> skp_student_id p = student \<and> skp_knowledge_id p = knowledge"

definition new_progress :: "uuid \<Rightarrow> time \<Rightarrow> uuid \<Rightarrow> uuid \<Rightarrow> student_knowledge_progress_row" where
  "new_progress i now student knowledge = \<lparr>skp_id = i, skp_student_id = student, skp_knowledge_id = knowledge,
     skp_status = Learn_NOT_STARTED, skp_strengthened_at = None, skp_strengthened_by_user = False,
     skp_true_exam_snapshot_version = None, skp_true_exam_completed_at = None,
     skp_specialized_unlocked_at = None, skp_version = 1, skp_created_at = now\<rparr>"

definition find_progress :: "uuid \<Rightarrow> uuid \<Rightarrow> db \<Rightarrow> student_knowledge_progress_row option" where
  "find_progress student knowledge d = find (progress_of student knowledge) (db_student_knowledge_progress d)"

definition progress_or_new :: "uuid \<Rightarrow> uuid \<Rightarrow> db \<Rightarrow> student_knowledge_progress_row" where
  "progress_or_new student knowledge d =
    (case find_progress student knowledge d of Some p \<Rightarrow> p | None \<Rightarrow> new_progress 0 0 student knowledge)"

definition load_progress :: "time \<Rightarrow> uuid \<Rightarrow> uuid \<Rightarrow> student_knowledge_progress_row db_comp" where
  "load_progress now student knowledge =
    andthen (gets (find_progress student knowledge)) (\<lambda>p. case p of
        Some p \<Rightarrow> ret p
      | None \<Rightarrow>
          andthen (gets (\<lambda>d. new_progress (fresh_id (map skp_id (db_student_knowledge_progress d))) now
            student knowledge)) (\<lambda>p.
          andthen (modify (\<lambda>d. d\<lparr>db_student_knowledge_progress := db_student_knowledge_progress d @ [p]\<rparr>))
            (\<lambda>_. ret p)))"

definition set_progress :: "uuid \<Rightarrow> (student_knowledge_progress_row \<Rightarrow> student_knowledge_progress_row)
    \<Rightarrow> unit db_comp" where
  "set_progress i f = modify (\<lambda>d. d\<lparr>db_student_knowledge_progress :=
     update_rows (\<lambda>p. skp_id p = i) f (db_student_knowledge_progress d)\<rparr>)"

definition strengthened :: "uuid \<Rightarrow> uuid \<Rightarrow> db \<Rightarrow> bool" where
  "strengthened student knowledge d \<longleftrightarrow> skp_status (progress_or_new student knowledge d) = Learn_STRENGTHENED"

text \<open>\<open>_learning_task_counts\<close>: one row for every task and binding to the knowledge.\<close>

definition counted_task :: "plan_task_row \<Rightarrow> bool" where
  "counted_task t \<longleftrightarrow> pt_task_type t \<in> set learning_task_types
     \<and> pt_status t \<notin> {Task_SUPERSEDED_LEGACY, Task_SKIPPED}"

definition knowledge_tasks :: "uuid \<Rightarrow> uuid \<Rightarrow> db \<Rightarrow> plan_task_row list" where
  "knowledge_tasks student knowledge d = filter counted_task (concat (map (\<lambda>t.
     map (\<lambda>_. t) (filter (\<lambda>k. ptk_task_id k = pt_id t \<and> ptk_knowledge_id k = knowledge) (db_plan_task_knowledge d)))
     (filter (\<lambda>t. owns_plan student (pt_plan_id t) d) (db_plan_tasks d))))"

definition learning_task_counts :: "uuid \<Rightarrow> uuid \<Rightarrow> db \<Rightarrow> int \<times> int" where
  "learning_task_counts student knowledge d =
    (let ts = knowledge_tasks student knowledge d in
     (int (length ts), int (length (filter (\<lambda>t. pt_status t = Task_COMPLETED) ts))))"

text \<open>The valid true exam questions of the school on a knowledge point.\<close>

definition true_questions :: "uuid \<Rightarrow> uuid \<Rightarrow> db \<Rightarrow> question_row list" where
  "true_questions school knowledge d = filter (\<lambda>q. q_school_profile_id q = Some school
     \<and> q_source_type q = Source_TRUE_EXAM \<and> q_quality_status q = Quality_VALID
     \<and> knowledge \<in> set (question_knowledge (q_id q) d)) (db_questions d)"

definition true_question_count :: "uuid option \<Rightarrow> uuid \<Rightarrow> db \<Rightarrow> int" where
  "true_question_count school knowledge d =
    (case school of None \<Rightarrow> 0 | Some i \<Rightarrow> int (length (true_questions i knowledge d)))"

text \<open>\<open>_true_completed_count\<close> counts the attempts, not the questions.\<close>

definition true_completed_count :: "uuid \<Rightarrow> uuid \<Rightarrow> db \<Rightarrow> int" where
  "true_completed_count student knowledge d = int (length (filter (\<lambda>a. qa_student_id a = student
     \<and> qa_context a = Ctx_TRUE_EXAM \<and> knowledge \<in> set (question_knowledge (qa_question_id a) d))
     (db_question_attempts d)))"

definition completed_all :: "student_row \<Rightarrow> uuid \<Rightarrow> db \<Rightarrow> bool" where
  "completed_all s knowledge d \<longleftrightarrow>
     true_question_count (stu_target_school_id s) knowledge d \<le> true_completed_count (stu_id s) knowledge d"

subsection \<open>Progress\<close>

record knowledge_progress_view =
  kpv_knowledge_id :: uuid
  kpv_knowledge_code :: string
  kpv_knowledge_name :: string
  kpv_status :: knowledge_learning_status
  kpv_learning_task_total :: int
  kpv_learning_task_completed :: int
  kpv_true_exam_total :: int
  kpv_true_exam_completed :: int
  kpv_true_exam_unlocked :: bool
  kpv_specialized_unlocked :: bool
  kpv_version :: int

definition node_unlocked :: "student_row \<Rightarrow> knowledge_node_row \<Rightarrow> db \<Rightarrow> bool" where
  "node_unlocked s n d \<longleftrightarrow> strengthened (stu_id s) (kn_id n) d
     \<and> 0 < true_question_count (stu_target_school_id s) (kn_id n) d \<and> completed_all s (kn_id n) d"

definition progress_view :: "student_row \<Rightarrow> knowledge_node_row \<Rightarrow> db \<Rightarrow> knowledge_progress_view" where
  "progress_view s n d =
    (let p = progress_or_new (stu_id s) (kn_id n) d; counts = learning_task_counts (stu_id s) (kn_id n) d in
     \<lparr>kpv_knowledge_id = kn_id n, kpv_knowledge_code = kn_code n, kpv_knowledge_name = kn_name n,
      kpv_status = skp_status p, kpv_learning_task_total = fst counts,
      kpv_learning_task_completed = snd counts,
      kpv_true_exam_total = true_question_count (stu_target_school_id s) (kn_id n) d,
      kpv_true_exam_completed = true_completed_count (stu_id s) (kn_id n) d,
      kpv_true_exam_unlocked = (skp_status p \<in> {Learn_STRENGTHENED, Learn_LEARNING}),
      kpv_specialized_unlocked = node_unlocked s n d, kpv_version = skp_version p\<rparr>)"

definition mark_unlocked :: "time \<Rightarrow> student_knowledge_progress_row \<Rightarrow> student_knowledge_progress_row" where
  "mark_unlocked now p = (if skp_specialized_unlocked_at p = None
     then p\<lparr>skp_specialized_unlocked_at := Some now\<rparr> else p)"

fun progress_rows :: "time \<Rightarrow> student_row \<Rightarrow> knowledge_node_row list \<Rightarrow> knowledge_progress_view list db_comp" where
  "progress_rows now s [] = ret []"
| "progress_rows now s (n # ns) =
    andthen (gets (progress_view s n)) (\<lambda>v.
    andthen (if kpv_specialized_unlocked v
             then andthen (gets (progress_or_new (stu_id s) (kn_id n))) (\<lambda>p.
                  set_progress (skp_id p) (mark_unlocked now))
             else ret ()) (\<lambda>_.
    andthen (progress_rows now s ns) (\<lambda>vs. ret (v # vs))))"

definition unlock_progress :: "time \<Rightarrow> uuid \<Rightarrow> knowledge_progress_view list db_comp" where
  "unlock_progress now u = transaction
    (andthen (need_student u) (\<lambda>s.
     andthen (gets (school_nodes (stu_target_school_id s))) (progress_rows now s)))"

subsection \<open>Specialized scopes\<close>

record weak_point =
  wpt_knowledge_id :: uuid
  wpt_knowledge_name :: string
  wpt_attempts :: int
  wpt_accuracy :: pyfloat
  wpt_true_exam_total :: int
  wpt_true_exam_completed :: int

record specialized_scope =
  ss_chapter_id :: uuid
  ss_chapter_order :: nat
  ss_chapter_code :: string
  ss_chapter_name :: string
  ss_strengthened :: bool
  ss_true_exam_total :: int
  ss_true_exam_completed :: int
  ss_specialized_unlocked :: bool
  ss_weak_points :: "weak_point list"

text \<open>The walk of \<open>chapter_nodes\<close> ends on every syllabus.\<close>

definition chapter_scope :: "knowledge_node_row list \<Rightarrow> knowledge_node_row \<Rightarrow> knowledge_node_row list" where
  "chapter_scope nodes chapter = the (chapter_nodes nodes chapter)"

definition node_profile :: "student_row \<Rightarrow> uuid \<Rightarrow> db \<Rightarrow> true_exam_profile_row option" where
  "node_profile s knowledge d = (case stu_target_school_id s of
     None \<Rightarrow> None | Some i \<Rightarrow> find (profile_of (stu_id s) i knowledge) (db_true_exam_profiles d))"

definition weak_point_of :: "student_row \<Rightarrow> db \<Rightarrow> knowledge_node_row \<Rightarrow> weak_point" where
  "weak_point_of s d n =
    (let p = node_profile s (kn_id n) d in
     \<lparr>wpt_knowledge_id = kn_id n, wpt_knowledge_name = kn_name n,
      wpt_attempts = (case p of None \<Rightarrow> 0 | Some p \<Rightarrow> tep_attempt_count p),
      wpt_accuracy = (case p of None \<Rightarrow> 1 | Some p \<Rightarrow> tep_accuracy p),
      wpt_true_exam_total = true_question_count (stu_target_school_id s) (kn_id n) d,
      wpt_true_exam_completed = true_completed_count (stu_id s) (kn_id n) d\<rparr>)"

text \<open>The sort key is the tuple (no attempts, accuracy, fewer attempts).\<close>

definition sort_weak_points :: "weak_point list \<Rightarrow> weak_point list" where
  "sort_weak_points ws = sort_key (\<lambda>w. wpt_attempts w = 0)
     (sort_key wpt_accuracy (sort_key (\<lambda>w. - wpt_attempts w) ws))"

definition scope_of :: "student_row \<Rightarrow> db \<Rightarrow> knowledge_node_row list \<Rightarrow> nat \<Rightarrow> knowledge_node_row
    \<Rightarrow> specialized_scope" where
  "scope_of s d nodes order chapter =
    (let scope = chapter_scope nodes chapter;
         asked = filter (\<lambda>n. 0 < true_question_count (stu_target_school_id s) (kn_id n) d) scope;
         total = sum_of (\<lambda>n. true_question_count (stu_target_school_id s) (kn_id n) d) asked;
         done_count = sum_of (\<lambda>n. min (true_completed_count (stu_id s) (kn_id n) d)
           (true_question_count (stu_target_school_id s) (kn_id n) d)) asked;
         strong = list_all (\<lambda>n. strengthened (stu_id s) (kn_id n) d) asked in
     \<lparr>ss_chapter_id = kn_id chapter, ss_chapter_order = order, ss_chapter_code = kn_code chapter,
      ss_chapter_name = kn_name chapter, ss_strengthened = strong, ss_true_exam_total = total,
      ss_true_exam_completed = done_count,
      ss_specialized_unlocked = (strong \<and> 0 < total \<and> total \<le> done_count),
      ss_weak_points = sort_weak_points (map (weak_point_of s d) asked)\<rparr>)"

definition specialized_scopes :: "uuid \<Rightarrow> specialized_scope list db_comp" where
  "specialized_scopes u =
    andthen (need_student u) (\<lambda>s.
    gets (\<lambda>d. let nodes = school_nodes (stu_target_school_id s) d;
        chapters = filter (\<lambda>n. kn_parent_id n = None) nodes in
      map (\<lambda>(i, c). scope_of s d nodes (Suc i) c) (enumerate 0 chapters)))"

subsection \<open>Access to mock exams\<close>

definition scope_open :: "student_row \<Rightarrow> knowledge_node_row list \<Rightarrow> db \<Rightarrow> bool" where
  "scope_open s scope d \<longleftrightarrow>
     list_ex (\<lambda>n. true_question_count (stu_target_school_id s) (kn_id n) d \<noteq> 0) scope
     \<and> list_all (\<lambda>n. true_question_count (stu_target_school_id s) (kn_id n) d \<noteq> 0 \<longrightarrow>
         strengthened (stu_id s) (kn_id n) d \<and> completed_all s (kn_id n) d) scope"

definition assert_specialized_access :: "student_row \<Rightarrow> uuid option \<Rightarrow> unit db_comp" where
  "assert_specialized_access s target = (case target of
     None \<Rightarrow> app_error 422 ''TARGET_KNOWLEDGE_REQUIRED''
   | Some i \<Rightarrow>
       andthen (gets (school_nodes (stu_target_school_id s))) (\<lambda>nodes.
         case find (\<lambda>n. kn_id n = i) nodes of
           None \<Rightarrow> app_error 422 ''SPECIALIZED_SCOPE_MUST_BE_CHAPTER''
         | Some chapter \<Rightarrow>
             if kn_parent_id chapter \<noteq> None then app_error 422 ''SPECIALIZED_SCOPE_MUST_BE_CHAPTER''
             else
               andthen (gets (scope_open s (chapter_scope nodes chapter))) (\<lambda>ok.
               if ok then ret () else app_error 409 ''SPECIALIZED_PRACTICE_LOCKED'')))"

definition all_strengthened :: "student_row \<Rightarrow> db \<Rightarrow> bool" where
  "all_strengthened s d \<longleftrightarrow>
     list_all (\<lambda>n. strengthened (stu_id s) (kn_id n) d) (school_nodes (stu_target_school_id s) d)"

definition assert_full_access :: "student_row \<Rightarrow> unit db_comp" where
  "assert_full_access s =
    andthen (gets (all_strengthened s)) (\<lambda>ok.
      if \<not> ok then app_error 409 ''FULL_MOCK_LOCKED''
      else if stu_current_stage s \<notin> {Stage_MOCK_EXAM, Stage_SPRINT}
      then app_error 409 ''FULL_MOCK_CONFIRMATION_REQUIRED''
      else ret ())"

definition assert_mock_access :: "uuid \<Rightarrow> string \<Rightarrow> uuid option \<Rightarrow> unit db_comp" where
  "assert_mock_access u mock_type target =
    andthen (need_student u) (\<lambda>s.
      if mock_type = ''SPECIALIZED'' then assert_specialized_access s target else assert_full_access s)"

definition confirm_full_mock_unlock :: "uuid \<Rightarrow> unit db_comp" where
  "confirm_full_mock_unlock u = transaction
    (andthen (need_student u) (\<lambda>s.
     andthen (gets (school_nodes (stu_target_school_id s))) (\<lambda>nodes.
     andthen (gets (all_strengthened s)) (\<lambda>ok.
       if nodes = [] then app_error 422 ''SYLLABUS_EMPTY''
       else if \<not> ok then app_error 409 ''FULL_MOCK_LOCKED''
       else set_student (stu_id s) (\<lambda>s. s\<lparr>stu_current_stage := Stage_MOCK_EXAM,
              stu_version := stu_version s + 1\<rparr>)))))"

definition strengthened_row :: "time \<Rightarrow> student_knowledge_progress_row \<Rightarrow> student_knowledge_progress_row" where
  "strengthened_row now p = p\<lparr>skp_status := Learn_STRENGTHENED, skp_strengthened_at := Some now,
     skp_strengthened_by_user := True, skp_version := skp_version p + 1\<rparr>"

definition confirm_strengthened :: "time \<Rightarrow> uuid \<Rightarrow> uuid \<Rightarrow> int option \<Rightarrow> unit db_comp" where
  "confirm_strengthened now u knowledge expected = transaction
    (andthen (need_student u) (\<lambda>s.
     andthen (gets (\<lambda>d. find (\<lambda>n. kn_id n = knowledge) (db_knowledge_nodes d))) (\<lambda>n.
     andthen (found_or n (AppErr 404 ''KNOWLEDGE_NOT_FOUND'')) (\<lambda>_.
     andthen (gets (learning_task_counts (stu_id s) knowledge)) (\<lambda>(total, completed).
       if total = 0 \<or> completed < total then app_error 422 ''LEARNING_TASKS_INCOMPLETE''
       else
         andthen (load_progress now (stu_id s) knowledge) (\<lambda>p.
           if expected \<noteq> None \<and> expected \<noteq> Some (skp_version p) then app_error 409 ''VERSION_CONFLICT''
           else set_progress (skp_id p) (strengthened_row now)))))))"

subsection \<open>Chapter sessions\<close>

text \<open>\<open>order_by(Question.year, Question.code)\<close>; a missing year comes last.\<close>

definition by_year_and_code :: "question_row list \<Rightarrow> question_row list" where
  "by_year_and_code qs = sort_key (\<lambda>q. q_year q = None)
     (sort_key (\<lambda>q. case q_year q of None \<Rightarrow> 0 | Some y \<Rightarrow> y) (sort_key q_code qs))"

definition join_colon :: "string list \<Rightarrow> string" where
  "join_colon ss = concat (case ss of [] \<Rightarrow> [] | s # rest \<Rightarrow> s # map (\<lambda>t. '':'' @ t) rest)"

definition snapshot_version_of :: "app_env \<Rightarrow> (string \<Rightarrow> string) \<Rightarrow> uuid \<Rightarrow> uuid \<Rightarrow> uuid list \<Rightarrow> string" where
  "snapshot_version_of env digest school knowledge ids =
    digest (join_colon (ae_uuid_str env school # ae_uuid_str env knowledge # map (ae_uuid_str env) ids))"

definition snapshot_ids :: "uuid \<Rightarrow> uuid \<Rightarrow> db \<Rightarrow> uuid list" where
  "snapshot_ids school knowledge d = map q_id (by_year_and_code (true_questions school knowledge d))"

definition get_session :: "uuid \<Rightarrow> db \<Rightarrow> chapter_true_exam_session_row option" where
  "get_session i d = find (\<lambda>c. cs_id c = i) (db_chapter_true_exam_sessions d)"

definition new_session :: "uuid \<Rightarrow> time \<Rightarrow> uuid \<Rightarrow> uuid \<Rightarrow> uuid \<Rightarrow> string \<Rightarrow> int
    \<Rightarrow> chapter_true_exam_session_row" where
  "new_session i now student knowledge school version n = \<lparr>cs_id = i, cs_student_id = student,
     cs_knowledge_id = knowledge, cs_school_profile_id = school, cs_question_snapshot_version = version,
     cs_status = ''ACTIVE'', cs_total_questions = n, cs_completed_questions = 0, cs_completed_at = None,
     cs_version = 1, cs_created_at = now\<rparr>"

definition session_link :: "uuid \<Rightarrow> nat \<times> uuid \<Rightarrow> chapter_true_exam_session_question_row" where
  "session_link session p = \<lparr>csq_session_id = session, csq_question_id = snd p,
     csq_sequence = int (fst p), csq_completed_at = None\<rparr>"

definition insert_session :: "app_env \<Rightarrow> (string \<Rightarrow> string) \<Rightarrow> time \<Rightarrow> uuid \<Rightarrow> uuid \<Rightarrow> uuid \<Rightarrow> uuid list
    \<Rightarrow> chapter_true_exam_session_row db_comp" where
  "insert_session env digest now student knowledge school ids =
    andthen (gets (\<lambda>d. new_session (fresh_id (map cs_id (db_chapter_true_exam_sessions d))) now student
      knowledge school (snapshot_version_of env digest school knowledge ids) (int (length ids)))) (\<lambda>c.
    andthen (modify (\<lambda>d. d\<lparr>db_chapter_true_exam_sessions := db_chapter_true_exam_sessions d @ [c],
      db_chapter_true_exam_session_questions := db_chapter_true_exam_session_questions d @
        map (session_link (cs_id c)) (enumerate 1 ids)\<rparr>)) (\<lambda>_. ret c))"

definition same_snapshot :: "uuid \<Rightarrow> uuid \<Rightarrow> string \<Rightarrow> chapter_true_exam_session_row \<Rightarrow> bool" where
  "same_snapshot student knowledge version c \<longleftrightarrow> cs_student_id c = student \<and> cs_knowledge_id c = knowledge
     \<and> cs_question_snapshot_version c = version"

definition open_session :: "app_env \<Rightarrow> (string \<Rightarrow> string) \<Rightarrow> time \<Rightarrow> student_row \<Rightarrow> uuid \<Rightarrow> uuid
    \<Rightarrow> chapter_true_exam_session_row db_comp" where
  "open_session env digest now s knowledge school =
    andthen (gets (snapshot_ids school knowledge)) (\<lambda>ids.
      if ids = [] then app_error 404 ''NO_CHAPTER_TRUE_EXAM''
      else
        let version = snapshot_version_of env digest school knowledge ids in
        andthen (gets (\<lambda>d. find (same_snapshot (stu_id s) knowledge version)
          (db_chapter_true_exam_sessions d))) (\<lambda>existing. case existing of
            Some c \<Rightarrow> ret c
          | None \<Rightarrow>
              andthen (insert_session env digest now (stu_id s) knowledge school ids) (\<lambda>c.
              andthen (gets (progress_or_new (stu_id s) knowledge)) (\<lambda>p.
              andthen (set_progress (skp_id p) (\<lambda>p. p\<lparr>skp_true_exam_snapshot_version := Some version\<rparr>))
                (\<lambda>_. ret c)))))"

definition create_chapter_session :: "app_env \<Rightarrow> (string \<Rightarrow> string) \<Rightarrow> time \<Rightarrow> uuid \<Rightarrow> uuid
    \<Rightarrow> chapter_true_exam_session_row db_comp" where
  "create_chapter_session env digest now u knowledge = transaction
    (andthen (need_student u) (\<lambda>s.
     andthen (gets (strengthened (stu_id s) knowledge)) (\<lambda>ok.
       if \<not> ok then app_error 409 ''TRUE_EXAM_LOCKED''
       else case stu_target_school_id s of
           None \<Rightarrow> app_error 422 ''TARGET_SCHOOL_REQUIRED''
         | Some school \<Rightarrow> open_session env digest now s knowledge school)))"

definition owned_session :: "student_row \<Rightarrow> uuid \<Rightarrow> chapter_true_exam_session_row db_comp" where
  "owned_session s session_id =
    andthen (gets (get_session session_id)) (\<lambda>c. case c of
        None \<Rightarrow> app_error 404 ''CHAPTER_SESSION_NOT_FOUND''
      | Some c \<Rightarrow> if cs_student_id c \<noteq> stu_id s then app_error 404 ''CHAPTER_SESSION_NOT_FOUND'' else ret c)"

definition session_links :: "uuid \<Rightarrow> db \<Rightarrow> chapter_true_exam_session_question_row list" where
  "session_links i d = filter (\<lambda>l. csq_session_id l = i) (db_chapter_true_exam_session_questions d)"

definition chapter_session_detail :: "uuid \<Rightarrow> uuid
    \<Rightarrow> (chapter_true_exam_session_row \<times> (chapter_true_exam_session_question_row \<times> question_row) list) db_comp" where
  "chapter_session_detail u session_id =
    andthen (need_student u) (\<lambda>s.
    andthen (owned_session s session_id) (\<lambda>c.
    gets (\<lambda>d. (c, List.map_filter (\<lambda>l. map_option (Pair l) (get_question (csq_question_id l) d))
      (sort_key csq_sequence (session_links (cs_id c) d))))))"

definition chapter_key :: "app_env \<Rightarrow> string \<Rightarrow> uuid \<Rightarrow> string" where
  "chapter_key env key q = key @ '':'' @ ae_uuid_str env q"

definition chapter_attempt :: "app_env \<Rightarrow> time \<Rightarrow> uuid \<Rightarrow> uuid \<Rightarrow> uuid \<Rightarrow> exam_result \<Rightarrow> string
    \<Rightarrow> question_attempt_row" where
  "chapter_attempt env now i student session r key = \<lparr>qa_id = i, qa_student_id = student,
     qa_question_id = xr_question_id r, qa_plan_task_id = None, qa_true_exam_attempt_id = None,
     qa_chapter_true_exam_session_id = Some session, qa_mock_exam_id = None, qa_context = Ctx_TRUE_EXAM,
     qa_started_at = None, qa_finished_at = Some now,
     qa_actual_duration_seconds = xr_duration_seconds r, qa_score_ratio = xr_score_ratio r,
     qa_looked_at_solution = xr_looked_at_solution r, qa_self_difficulty = None,
     qa_student_error_note = (if str_truthy (xr_error_note r) then xr_error_note r else None),
     qa_agent_error_type = exam_error_type (xr_score_ratio r),
     qa_idempotency_key = chapter_key env key (xr_question_id r), qa_created_at = now\<rparr>"

definition attempt_keyed :: "uuid \<Rightarrow> string \<Rightarrow> question_attempt_row \<Rightarrow> bool" where
  "attempt_keyed student key a \<longleftrightarrow> qa_student_id a = student \<and> qa_idempotency_key a = key"

definition complete_link :: "time \<Rightarrow> uuid \<Rightarrow> uuid \<Rightarrow> unit db_comp" where
  "complete_link now session q = modify (\<lambda>d. d\<lparr>db_chapter_true_exam_session_questions :=
     update_rows (\<lambda>l. csq_session_id l = session \<and> csq_question_id l = q)
       (\<lambda>l. l\<lparr>csq_completed_at := Some now\<rparr>) (db_chapter_true_exam_session_questions d)\<rparr>)"

text \<open>One result: its attempt is recorded once per key.\<close>

definition submit_chapter_result :: "app_env \<Rightarrow> time \<Rightarrow> student_row \<Rightarrow> chapter_true_exam_session_row
    \<Rightarrow> string \<Rightarrow> exam_result \<Rightarrow> unit db_comp" where
  "submit_chapter_result env now s c key r =
    andthen (gets (\<lambda>d. find (attempt_keyed (stu_id s) (chapter_key env key (xr_question_id r)))
      (db_question_attempts d))) (\<lambda>existing.
    andthen (if existing \<noteq> None then ret ()
       else
         andthen (add_attempt (\<lambda>i. chapter_attempt env now i (stu_id s) (cs_id c) r key)) (\<lambda>_.
         andthen (gets (question_knowledge (xr_question_id r))) (\<lambda>ks.
         for_each (\<lambda>k. update_true_profile now (stu_id s) (cs_school_profile_id c) k (xr_score_ratio r)
           (xr_duration_seconds r)) ks))) (\<lambda>_.
    complete_link now (cs_id c) (xr_question_id r)))"

definition completed_session :: "time \<Rightarrow> int \<Rightarrow> chapter_true_exam_session_row \<Rightarrow> chapter_true_exam_session_row" where
  "completed_session now n c = c\<lparr>cs_completed_questions := n, cs_status := ''COMPLETED'',
     cs_completed_at := Some now, cs_version := cs_version c + 1\<rparr>"

definition completed_progress :: "time \<Rightarrow> student_knowledge_progress_row \<Rightarrow> student_knowledge_progress_row" where
  "completed_progress now p = p\<lparr>skp_true_exam_completed_at := Some now,
     skp_specialized_unlocked_at := Some now, skp_version := skp_version p + 1\<rparr>"

definition set_session :: "uuid \<Rightarrow> (chapter_true_exam_session_row \<Rightarrow> chapter_true_exam_session_row)
    \<Rightarrow> unit db_comp" where
  "set_session i f = modify (\<lambda>d. d\<lparr>db_chapter_true_exam_sessions :=
     update_rows (\<lambda>c. cs_id c = i) f (db_chapter_true_exam_sessions d)\<rparr>)"

definition submit_chapter_session :: "app_env \<Rightarrow> time \<Rightarrow> uuid \<Rightarrow> uuid \<Rightarrow> exam_result list \<Rightarrow> string
    \<Rightarrow> unit db_comp" where
  "submit_chapter_session env now u session_id rs key = transaction
    (andthen (need_student u) (\<lambda>s.
     andthen (owned_session s session_id) (\<lambda>c.
     andthen (gets (\<lambda>d. map csq_question_id (session_links (cs_id c) d))) (\<lambda>assigned.
       if set (map xr_question_id rs) \<noteq> set assigned then app_error 422 ''INCOMPLETE_EXAM_SUBMISSION''
       else
         andthen (for_each (submit_chapter_result env now s c key) rs) (\<lambda>_.
         andthen (set_session (cs_id c) (completed_session now (int (length rs)))) (\<lambda>_.
         andthen (load_progress now (stu_id s) (cs_knowledge_id c)) (\<lambda>p.
         set_progress (skp_id p) (completed_progress now))))))))"

end
