(* ===== verification/Exam_Properties.thy ===== *)
theory Exam_Properties
  imports Unlocks Plan_Properties
begin

text \<open>
  The properties of true exams, of the unlocks and of chapter sessions, each applied to a small
  concrete database.
\<close>

subsection \<open>The scope of a chapter\<close>

text \<open>The primary keys of the syllabus tables.\<close>

definition syllabus_ok :: "db \<Rightarrow> bool" where
  "syllabus_ok d \<longleftrightarrow> distinct (map kn_id (db_knowledge_nodes d))
     \<and> distinct (map (\<lambda>k. (sks_school_profile_id k, sks_knowledge_id k)) (db_school_knowledge_stats d))"

lemma distinct_map_sort_key: "distinct (map f (sort_key g xs)) \<longleftrightarrow> distinct (map f xs)"
proof -
  have "mset (map f (sort_key g xs)) = mset (map f xs)" by simp
  then show ?thesis by (rule mset_eq_imp_distinct_iff)
qed

lemma one_stat:
  assumes "distinct (map (\<lambda>k. (sks_school_profile_id k, sks_knowledge_id k)) ks)"
  shows "length (filter (\<lambda>k. sks_knowledge_id k = i \<and> sks_school_profile_id k = school) ks) \<le> 1"
  using assms
proof (induction ks)
  case (Cons k ks)
  then show ?case by (auto simp: filter_empty_conv image_iff)
qed simp

lemma distinct_pairs:
  assumes "distinct (map kn_id ns)" and "\<And>n. length (f n) \<le> 1"
  shows "distinct (map (kn_id \<circ> fst) (concat (map (\<lambda>n. map (Pair n) (f n)) ns)))"
  using assms(1)
proof (induction ns)
  case (Cons n ns)
  have "f n = [] \<or> (\<exists>x. f n = [x])" using assms(2) [of n] by (cases "f n") auto
  then show ?case using Cons by (auto simp: comp_def)
qed simp

lemma school_nodes_distinct: "syllabus_ok d \<Longrightarrow> distinct (map kn_id (school_nodes school d))"
  using distinct_pairs [of "db_knowledge_nodes d", OF _ one_stat]
  by (auto simp: school_nodes_def school_pairs_def syllabus_ok_def distinct_map_sort_key split: option.split)

lemma chapter_walk_starts:
  assumes "distinct (map kn_id nodes)" and "c \<in> set nodes" and "kn_parent_id c = None"
  shows "walk_ok nodes c [c] (children_of nodes (kn_id c))"
proof -
  have "kn_id c \<notin> kn_id ` set (children_of nodes (kn_id c))"
  proof
    assume "kn_id c \<in> kn_id ` set (children_of nodes (kn_id c))"
    then obtain m where m: "m \<in> set nodes" "kn_parent_id m = Some (kn_id c)" "kn_id m = kn_id c" by auto
    then have "m = c" using assms(1,2) by (auto simp: distinct_map dest: inj_onD)
    then show False using m(2) assms(3) by simp
  qed
  then show ?thesis
    using assms children_of_distinct [OF assms(1)] below_refl [of nodes c] below_child [OF below_refl]
    by (auto simp: walk_ok_def)
qed

lemma chapter_nodes_run:
  assumes "distinct (map kn_id nodes)" and "c \<in> set nodes" and "kn_parent_id c = None"
  obtains ns where "chapter_nodes nodes c = Some ns" and "distinct ns"
    and "\<And>n. n \<in> set ns \<longleftrightarrow> below nodes c n"
proof -
  obtain ns where ns: "chapter_nodes nodes c = Some ns" "walk_ok nodes c ns []"
    using walk_ends [OF assms(1,3) chapter_walk_starts [OF assms]] unfolding chapter_nodes_def by blast
  have "n \<in> set ns \<longleftrightarrow> below nodes c n" for n
    using ns(2) walk_done [OF ns(2)] by (auto simp: walk_ok_def)
  moreover have "distinct ns" using ns(2) by (auto simp: walk_ok_def distinct_map)
  ultimately show ?thesis using that ns(1) by blast
qed

text \<open>The walk over a chapter of the syllabus ends, whatever the shape of the tree, and visits
  every node below the chapter, and only those, exactly once.\<close>

theorem chapter_scope_is_complete:
  assumes "syllabus_ok d" and "chapter \<in> set (school_nodes school d)" and "kn_parent_id chapter = None"
  shows "\<exists>ns. chapter_nodes (school_nodes school d) chapter = Some ns \<and> distinct ns
      \<and> (\<forall>n. n \<in> set ns \<longleftrightarrow> below (school_nodes school d) chapter n)"
  by (rule chapter_nodes_run [OF school_nodes_distinct [OF assms(1)] assms(2,3)]) blast

lemma chapter_scope_in:
  assumes "distinct (map kn_id nodes)" and "c \<in> set nodes" and "kn_parent_id c = None"
  shows "n \<in> set (chapter_scope nodes c) \<longleftrightarrow> below nodes c n"
  by (rule chapter_nodes_run [OF assms]) (simp add: chapter_scope_def)

subsection \<open>Access to mock exams\<close>

text \<open>What a student must have done: every question of every asked node below the chapter, each
  confirmed as strengthened; or all of the syllabus and the confirmation of the stage.\<close>

definition scope_earned :: "student_row \<Rightarrow> knowledge_node_row \<Rightarrow> db \<Rightarrow> bool" where
  "scope_earned s chapter d \<longleftrightarrow>
    (let nodes = school_nodes (stu_target_school_id s) d;
         asked = (\<lambda>n. below nodes chapter n \<and> true_question_count (stu_target_school_id s) (kn_id n) d \<noteq> 0) in
     (\<exists>n. asked n) \<and> (\<forall>n. asked n \<longrightarrow> strengthened (stu_id s) (kn_id n) d \<and> completed_all s (kn_id n) d))"

definition mock_earned :: "student_row \<Rightarrow> string \<Rightarrow> uuid option \<Rightarrow> db \<Rightarrow> bool" where
  "mock_earned s mock_type target d \<longleftrightarrow>
    (if mock_type = ''SPECIALIZED''
     then \<exists>chapter \<in> set (school_nodes (stu_target_school_id s) d). target = Some (kn_id chapter)
       \<and> kn_parent_id chapter = None \<and> scope_earned s chapter d
     else (\<forall>n \<in> set (school_nodes (stu_target_school_id s) d). strengthened (stu_id s) (kn_id n) d)
       \<and> stu_current_stage s \<in> {Stage_MOCK_EXAM, Stage_SPRINT})"

lemma scope_open_earned:
  assumes "syllabus_ok d" and "chapter \<in> set (school_nodes (stu_target_school_id s) d)"
    and "kn_parent_id chapter = None"
  shows "scope_open s (chapter_scope (school_nodes (stu_target_school_id s) d) chapter) d \<longleftrightarrow> scope_earned s chapter d"
  using chapter_scope_in [OF school_nodes_distinct [OF assms(1)] assms(2,3)]
  by (auto simp: scope_open_def scope_earned_def Let_def list_ex_iff list_all_iff)

lemma specialized_access:
  assumes "syllabus_ok d"
  shows "assert_specialized_access s target d = (Inr (), d) \<longleftrightarrow>
    (\<exists>chapter \<in> set (school_nodes (stu_target_school_id s) d). target = Some (kn_id chapter)
       \<and> kn_parent_id chapter = None \<and> scope_earned s chapter d)" (is "?l \<longleftrightarrow> ?r")
proof
  assume ?l
  then obtain i ch where found: "target = Some i"
    "find (\<lambda>n. kn_id n = i) (school_nodes (stu_target_school_id s) d) = Some ch"
    "kn_parent_id ch = None"
    "scope_open s (chapter_scope (school_nodes (stu_target_school_id s) d) ch) d"
    by (auto simp: assert_specialized_access_def app_error_def andthen_apply split: option.splits if_splits)
  have ch: "ch \<in> set (school_nodes (stu_target_school_id s) d)" "kn_id ch = i"
    using find_SomeD [OF found(2)] by simp_all
  then show ?r using found scope_open_earned [OF assms ch(1) found(3)] by (intro bexI [of _ ch]) simp_all
next
  assume ?r
  then obtain ch where c: "ch \<in> set (school_nodes (stu_target_school_id s) d)"
    "target = Some (kn_id ch)" "kn_parent_id ch = None" "scope_earned s ch d" by blast
  have "find (\<lambda>n. kn_id n = kn_id ch) (school_nodes (stu_target_school_id s) d) = Some ch"
    by (rule find_row_by_id [OF school_nodes_distinct [OF assms] c(1)]) simp
  then show ?l
    using c scope_open_earned [OF assms c(1,3)]
    by (simp add: assert_specialized_access_def andthen_apply ret_apply)
qed

lemma mock_access_reads_only: "snd (assert_mock_access u mock_type target d) = d"
  by (simp add: assert_mock_access_def assert_specialized_access_def assert_full_access_def need_student_def
      found_or_def app_error_def andthen_apply ret_apply throw_apply split: option.split)


subsection \<open>True exams\<close>

text \<open>C28. A true exam is recorded once, and completely. A submission answers every question of the exam
  exactly once, its score is the weighted sum of the answers, and it adds one exam attempt and one
  question attempt for every answer; profiles and masteries stay in their ranges. The same key
  afterwards returns the recorded attempt and writes nothing, or is refused for another exam.\<close>

theorem true_exam_is_recorded_once:
  assumes "submit_true_exam env now u exam_id rs key d = (Inr a, d')" and "student_of_user u d = Some s"
    and "find (exam_attempt_keyed (stu_id s) key) (db_true_exam_attempts d) = None"
  shows "distinct (map xr_question_id rs)
    \<and> set (map xr_question_id rs) = set (map teq_question_id (exam_links exam_id d))
    \<and> exam_score rs d = Some (tea_score a)
    \<and> db_true_exam_attempts d' = db_true_exam_attempts d @ [a]
    \<and> (\<exists>as. db_question_attempts d' = db_question_attempts d @ as
        \<and> list_all2 (attempt_of (stu_id s) (tea_id a)) rs as)
    \<and> ((\<forall>r \<in> set rs. 0 \<le> xr_score_ratio r \<and> xr_score_ratio r \<le> 1) \<longrightarrow> assessments_ok d \<longrightarrow> assessments_ok d')
    \<and> (\<forall>later exam rs'. submit_true_exam env later u exam rs' key d' =
        (if exam = exam_id then Inr a else Inl (AppErr 409 ''IDEMPOTENCY_CONFLICT''), d'))"
proof -
  obtain e d1 where e: "get_true_exam exam_id d = Some e" and guards: "distinct (map xr_question_id rs)"
      "set (map xr_question_id rs) = set (map teq_question_id (exam_links exam_id d))"
      "exam_score rs d = Some (tea_score a)"
    and a: "a = new_exam_attempt (fresh_id (map tea_id (db_true_exam_attempts d))) now (stu_id s) (te_id e) rs
        (tea_score a) key"
    and loop: "for_each (\<lambda>r. andthen (mapped_question r) (\<lambda>q. record_exam_question env now s e (tea_id a) q r)) rs
        (d\<lparr>db_true_exam_attempts := db_true_exam_attempts d @ [a]\<rparr>) = (Inr (), d1)"
    and d': "d' = d1\<lparr>db_students := update_rows (\<lambda>x. stu_id x = stu_id s) to_true_exam_stage (db_students d1)\<rparr>"
    by (rule submit_true_exam_first [OF assms])
  note added = record_all_appends [OF loop, unfolded appends_def]
  have attempts: "db_true_exam_attempts d' = db_true_exam_attempts d @ [a]" using added by (simp add: d')
  have answers: "\<exists>as. db_question_attempts d' = db_question_attempts d @ as
      \<and> list_all2 (attempt_of (stu_id s) (tea_id a)) rs as"
    using added by (auto simp: d' list_all2_conv_all_nth)
  have ranges: "assessments_ok d'"
    if "\<forall>r \<in> set rs. 0 \<le> xr_score_ratio r \<and> xr_score_ratio r \<le> 1" "assessments_ok d"
  proof -
    have "keeps assessments_ok (for_each (\<lambda>r. andthen (mapped_question r)
        (\<lambda>q. record_exam_question env now s e (tea_id a) q r)) rs)"
      using that(1) by (intro keeps_for_each keeps_andthen keeps_record_exam_question)
        (simp_all add: mapped_question_def keeps_andthen)
    moreover have "assessments_ok (d\<lparr>db_true_exam_attempts := db_true_exam_attempts d @ [a]\<rparr>)"
      using that(2) by (simp add: assessments_ok_def)
    ultimately have "assessments_ok d1" using loop by (rule keeps_resultD)
    then show ?thesis by (simp add: d' assessments_ok_def)
  qed
  have again: "submit_true_exam env later u exam rs' key d' =
      (if exam = exam_id then Inr a else Inl (AppErr 409 ''IDEMPOTENCY_CONFLICT''), d')" for later exam rs'
  proof -
    have user: "stu_user_id (to_true_exam_stage x) = stu_user_id x" "stu_id (to_true_exam_stage x) = stu_id x" for x
      by (simp_all add: to_true_exam_stage_def)
    have "student_of_user u d' = Some (to_true_exam_stage s)"
      using assms(2) added by (simp add: student_of_user_def d' find_update_rows user)
    moreover have "exam_attempt_keyed (stu_id s) key a" "tea_true_exam_id a = exam_id"
      using find_SomeD [OF e [unfolded get_true_exam_def]]
      by (subst a, simp add: exam_attempt_keyed_def new_exam_attempt_def)+
    ultimately show ?thesis
      using assms(3) by (simp add: submit_true_exam_def need_student_def andthen_apply ret_apply throw_apply
        attempts find_append user app_error_def transaction_def)
  qed
  show ?thesis using guards attempts answers ranges again by blast
qed

subsection \<open>Chapter sessions\<close>

text \<open>What recording the answers leaves alone.\<close>

definition unaffected :: "db \<Rightarrow> db \<Rightarrow> bool" where
  "unaffected d d' \<longleftrightarrow> db_students d' = db_students d
     \<and> db_chapter_true_exam_sessions d' = db_chapter_true_exam_sessions d
     \<and> db_student_knowledge_progress d' = db_student_knowledge_progress d
     \<and> db_student_knowledge_states d' = db_student_knowledge_states d"

lemma profiles_run:
  "\<exists>d'. for_each (\<lambda>k. update_true_profile now st sc k ratio duration) ks d = (Inr (), d')
     \<and> unaffected d d' \<and> db_question_attempts d' = db_question_attempts d
     \<and> db_chapter_true_exam_session_questions d' = db_chapter_true_exam_session_questions d"
proof (induction ks arbitrary: d)
  case (Cons k ks)
  obtain ps where one: "update_true_profile now st sc k ratio duration d =
      (Inr (), d\<lparr>db_true_exam_profiles := ps\<rparr>)"
    by (cases "find (profile_of st sc k) (db_true_exam_profiles d)")
      (auto simp: update_true_profile_def andthen_apply)
  show ?case using Cons.IH [of "d\<lparr>db_true_exam_profiles := ps\<rparr>"] one
    by (auto simp: andthen_apply unaffected_def)
qed (simp add: ret_apply unaffected_def)

definition session_attempt :: "uuid \<Rightarrow> uuid \<Rightarrow> exam_result \<Rightarrow> question_attempt_row \<Rightarrow> bool" where
  "session_attempt student session r a \<longleftrightarrow> qa_student_id a = student \<and> qa_question_id a = xr_question_id r
     \<and> qa_chapter_true_exam_session_id a = Some session \<and> qa_context a = Ctx_TRUE_EXAM
     \<and> qa_score_ratio a = xr_score_ratio r"

definition recorded :: "app_env \<Rightarrow> uuid \<Rightarrow> string \<Rightarrow> exam_result \<Rightarrow> db \<Rightarrow> bool" where
  "recorded env student key r d \<longleftrightarrow>
     find (attempt_keyed student (chapter_key env key (xr_question_id r))) (db_question_attempts d) \<noteq> None"

lemma recorded_mono:
  "recorded env st key r d \<Longrightarrow> db_question_attempts d' = db_question_attempts d @ as \<Longrightarrow> recorded env st key r d'"
  by (auto simp: recorded_def find_append split: option.splits)

definition completed_links :: "time \<Rightarrow> uuid \<Rightarrow> uuid set \<Rightarrow> db \<Rightarrow> chapter_true_exam_session_question_row list" where
  "completed_links now session qs d = update_rows (\<lambda>l. csq_session_id l = session \<and> csq_question_id l \<in> qs)
     (\<lambda>l. l\<lparr>csq_completed_at := Some now\<rparr>) (db_chapter_true_exam_session_questions d)"

lemma submit_result_run:
  "\<exists>d' as. submit_chapter_result env now s c key r d = (Inr (), d') \<and> unaffected d d'
     \<and> db_question_attempts d' = db_question_attempts d @ as \<and> length as \<le> 1
     \<and> (\<forall>a \<in> set as. session_attempt (stu_id s) (cs_id c) r a) \<and> recorded env (stu_id s) key r d'
     \<and> db_chapter_true_exam_session_questions d' = completed_links now (cs_id c) {xr_question_id r} d
     \<and> (recorded env (stu_id s) key r d \<longrightarrow> as = [] \<and> db_true_exam_profiles d' = db_true_exam_profiles d)"
proof (cases "recorded env (stu_id s) key r d")
  case True
  then show ?thesis
    by (intro exI [of _ "d\<lparr>db_chapter_true_exam_session_questions :=
          completed_links now (cs_id c) {xr_question_id r} d\<rparr>"] exI [of _ "[]"])
      (simp add: submit_chapter_result_def recorded_def andthen_apply ret_apply complete_link_def
        completed_links_def unaffected_def)
next
  case False
  let ?a = "chapter_attempt env now (fresh_id (map qa_id (db_question_attempts d))) (stu_id s) (cs_id c) r key"
  define d1 where "d1 = d\<lparr>db_question_attempts := db_question_attempts d @ [?a]\<rparr>"
  obtain d2 where d2: "for_each (\<lambda>k. update_true_profile now (stu_id s) (cs_school_profile_id c) k
      (xr_score_ratio r) (xr_duration_seconds r)) (question_knowledge (xr_question_id r) d1) d1 = (Inr (), d2)"
    "unaffected d1 d2" "db_question_attempts d2 = db_question_attempts d1"
    "db_chapter_true_exam_session_questions d2 = db_chapter_true_exam_session_questions d1"
    using profiles_run by blast
  have a: "session_attempt (stu_id s) (cs_id c) r ?a"
    "attempt_keyed (stu_id s) (chapter_key env key (xr_question_id r)) ?a"
    by (simp_all add: session_attempt_def chapter_attempt_def attempt_keyed_def)
  show ?thesis
    using False d2 a
    by (intro exI [of _ "d2\<lparr>db_chapter_true_exam_session_questions :=
          completed_links now (cs_id c) {xr_question_id r} d\<rparr>"] exI [of _ "[?a]"])
      (auto simp: submit_chapter_result_def recorded_def andthen_apply ret_apply complete_link_def
        completed_links_def unaffected_def add_attempt_def d1_def find_append)
qed

lemma completed_links_twice:
  assumes "db_chapter_true_exam_session_questions d1 = completed_links now session qs d"
  shows "completed_links now session qs' d1 = completed_links now session (qs \<union> qs') d"
  unfolding completed_links_def [of now session qs' d1] assms
  by (auto simp: completed_links_def update_rows_def)

lemma submit_results_run:
  "\<exists>d' as. for_each (submit_chapter_result env now s c key) rs d = (Inr (), d') \<and> unaffected d d'
     \<and> db_question_attempts d' = db_question_attempts d @ as \<and> length as \<le> length rs
     \<and> (\<forall>a \<in> set as. \<exists>r \<in> set rs. session_attempt (stu_id s) (cs_id c) r a)
     \<and> (\<forall>r \<in> set rs. recorded env (stu_id s) key r d')
     \<and> db_chapter_true_exam_session_questions d' = completed_links now (cs_id c) (xr_question_id ` set rs) d
     \<and> ((\<forall>r \<in> set rs. recorded env (stu_id s) key r d) \<longrightarrow>
         as = [] \<and> db_true_exam_profiles d' = db_true_exam_profiles d)"
proof (induction rs arbitrary: d)
  case Nil
  show ?case by (simp add: ret_apply unaffected_def completed_links_def update_rows_ident)
next
  case (Cons r rs)
  obtain d1 as1 where one: "submit_chapter_result env now s c key r d = (Inr (), d1)" "unaffected d d1"
    "db_question_attempts d1 = db_question_attempts d @ as1" "length as1 \<le> 1"
    "\<forall>a \<in> set as1. session_attempt (stu_id s) (cs_id c) r a" "recorded env (stu_id s) key r d1"
    "db_chapter_true_exam_session_questions d1 = completed_links now (cs_id c) {xr_question_id r} d"
    "recorded env (stu_id s) key r d \<longrightarrow> as1 = [] \<and> db_true_exam_profiles d1 = db_true_exam_profiles d"
    using submit_result_run [of env now s c key r d] by blast
  obtain d2 as2 where rest: "for_each (submit_chapter_result env now s c key) rs d1 = (Inr (), d2)"
    "unaffected d1 d2" "db_question_attempts d2 = db_question_attempts d1 @ as2" "length as2 \<le> length rs"
    "\<forall>a \<in> set as2. \<exists>r \<in> set rs. session_attempt (stu_id s) (cs_id c) r a"
    "\<forall>r \<in> set rs. recorded env (stu_id s) key r d2"
    "db_chapter_true_exam_session_questions d2 = completed_links now (cs_id c) (xr_question_id ` set rs) d1"
    "(\<forall>r \<in> set rs. recorded env (stu_id s) key r d1) \<longrightarrow>
       as2 = [] \<and> db_true_exam_profiles d2 = db_true_exam_profiles d1"
    using Cons.IH [of d1] by blast
  have kept: "recorded env (stu_id s) key r d2" by (rule recorded_mono [OF one(6) rest(3)])
  have later: "recorded env (stu_id s) key q d1" if "recorded env (stu_id s) key q d" for q
    by (rule recorded_mono [OF that one(3)])
  have links: "db_chapter_true_exam_session_questions d2 =
      completed_links now (cs_id c) (xr_question_id ` set (r # rs)) d"
    unfolding rest(7) using completed_links_twice [OF one(7), of "xr_question_id ` set rs"] by simp
  show ?case
    by (intro exI [of _ d2] exI [of _ "as1 @ as2"])
      (use one rest kept later links in \<open>auto simp: andthen_apply unaffected_def\<close>)
qed

text \<open>The end of a submission: the session and the progress of the knowledge point.\<close>

lemma progress_saved:
  "\<exists>ps. andthen (load_progress now st k) (\<lambda>p. set_progress (skp_id p) f) d =
    (Inr (), d\<lparr>db_student_knowledge_progress := ps\<rparr>)"
  by (cases "find_progress st k d") (auto simp: load_progress_def set_progress_def andthen_apply ret_apply)

lemma submit_session_run:
  assumes "student_of_user u d = Some s" and "get_session sid d = Some c" and "cs_student_id c = stu_id s"
    and "set (map xr_question_id rs) = set (map csq_question_id (session_links sid d))"
  obtains d' as where "submit_chapter_session env now u sid rs key d = (Inr (), d')"
    and "db_students d' = db_students d"
    and "get_session sid d' = Some (completed_session now (int (length rs)) c)"
    and "db_question_attempts d' = db_question_attempts d @ as" and "length as \<le> length rs"
    and "\<forall>a \<in> set as. \<exists>r \<in> set rs. session_attempt (stu_id s) sid r a"
    and "\<forall>r \<in> set rs. recorded env (stu_id s) key r d'"
    and "db_chapter_true_exam_session_questions d' = completed_links now sid (xr_question_id ` set rs) d"
    and "(\<forall>r \<in> set rs. recorded env (stu_id s) key r d) \<longrightarrow>
        as = [] \<and> db_true_exam_profiles d' = db_true_exam_profiles d"
proof -
  have sid: "cs_id c = sid" using assms(2) by (auto simp: get_session_def dest: find_SomeD)
  obtain d1 as where loop: "for_each (submit_chapter_result env now s c key) rs d = (Inr (), d1)" "unaffected d d1"
    "db_question_attempts d1 = db_question_attempts d @ as" "length as \<le> length rs"
    "\<forall>a \<in> set as. \<exists>r \<in> set rs. session_attempt (stu_id s) sid r a"
    "\<forall>r \<in> set rs. recorded env (stu_id s) key r d1"
    "db_chapter_true_exam_session_questions d1 = completed_links now sid (xr_question_id ` set rs) d"
    "(\<forall>r \<in> set rs. recorded env (stu_id s) key r d) \<longrightarrow>
       as = [] \<and> db_true_exam_profiles d1 = db_true_exam_profiles d"
    using submit_results_run [of env now s c key rs d] unfolding sid by blast
  define d2 where "d2 = d1\<lparr>db_chapter_true_exam_sessions := update_rows (\<lambda>x. cs_id x = sid)
    (completed_session now (int (length rs))) (db_chapter_true_exam_sessions d1)\<rparr>"
  obtain ps where ps: "andthen (load_progress now (stu_id s) (cs_knowledge_id c))
      (\<lambda>p. set_progress (skp_id p) (completed_progress now)) d2 = (Inr (), d2\<lparr>db_student_knowledge_progress := ps\<rparr>)"
    using progress_saved by blast
  have "set_session sid (completed_session now (int (length rs))) d1 = (Inr (), d2)"
    by (simp add: set_session_def d2_def)
  then have "submit_chapter_session env now u sid rs key d = (Inr (), d2\<lparr>db_student_knowledge_progress := ps\<rparr>)"
    using assms loop(1) ps sid
    by (simp add: submit_chapter_session_def need_student_def owned_session_def andthen_apply ret_apply
        transaction_def)
  moreover have "get_session sid (d2\<lparr>db_student_knowledge_progress := ps\<rparr>) =
      Some (completed_session now (int (length rs)) c)"
    using assms(2) loop(2) sid
    by (simp add: d2_def get_session_def unaffected_def find_update_rows completed_session_def)
  ultimately show ?thesis
    using that loop by (simp add: d2_def unaffected_def recorded_def)
qed

lemma submit_session_guards:
  assumes "submit_chapter_session env now u sid rs key d = (Inr (), d')"
  obtains s c where "student_of_user u d = Some s" and "get_session sid d = Some c" and "cs_student_id c = stu_id s"
    and "set (map xr_question_id rs) = set (map csq_question_id (session_links sid d))"
proof -
  obtain s c d1 where s: "student_of_user u d = Some s" and c: "get_session sid d = Some c" "cs_student_id c = stu_id s"
    and qs: "set (map xr_question_id rs) = set (map csq_question_id (session_links (cs_id c) d))"
    using transaction_InrD [OF assms [unfolded submit_chapter_session_def]]
    by (auto simp: need_student_def found_or_def owned_session_def app_error_def elim!: andthen_InrE
        split: option.splits if_splits)
  moreover have "cs_id c = sid" using c(1) by (auto simp: get_session_def dest: find_SomeD)
  ultimately show ?thesis using that by simp
qed

lemma completed_links_in:
  assumes "db_chapter_true_exam_session_questions d' = completed_links now sid (set (map csq_question_id (session_links sid d))) d"
  shows "map csq_question_id (session_links sid d') = map csq_question_id (session_links sid d)"
    and "l \<in> set (session_links sid d') \<Longrightarrow> csq_completed_at l \<noteq> None"
proof -
  let ?f = "\<lambda>l. if csq_session_id l = sid \<and> csq_question_id l \<in> set (map csq_question_id (session_links sid d))
    then l\<lparr>csq_completed_at := Some now\<rparr> else l"
  have "session_links sid d' = filter (\<lambda>l. csq_session_id l = sid) (map ?f (db_chapter_true_exam_session_questions d))"
    by (simp only: session_links_def [of sid d'] assms completed_links_def update_rows_def)
  also have "\<dots> = map ?f (session_links sid d)"
    unfolding filter_map by (intro arg_cong [where f = "map ?f"]) (simp add: session_links_def comp_def cong: filter_cong)
  also have "\<dots> = map (\<lambda>l. l\<lparr>csq_completed_at := Some now\<rparr>) (session_links sid d)"
    by (intro map_cong refl) (auto simp: session_links_def)
  finally have links: "session_links sid d' = map (\<lambda>l. l\<lparr>csq_completed_at := Some now\<rparr>) (session_links sid d)" .
  show "map csq_question_id (session_links sid d') = map csq_question_id (session_links sid d)"
    by (simp add: links comp_def)
  show "l \<in> set (session_links sid d') \<Longrightarrow> csq_completed_at l \<noteq> None"
    by (auto simp: links)
qed

text \<open>C29. The submission of a chapter answers every question of the session and completes the session
  and each of its questions. It adds at most one attempt per answer, for that student, session and
  question. Repeating it with its key succeeds again and adds neither attempts nor results to the
  profiles.\<close>

theorem chapter_submission_is_once:
  assumes "submit_chapter_session env now u sid rs key d = (Inr (), d')"
  shows "set (map xr_question_id rs) = set (map csq_question_id (session_links sid d))
    \<and> (\<exists>c. get_session sid d' = Some c \<and> cs_status c = ''COMPLETED'')
    \<and> (\<forall>l \<in> set (session_links sid d'). csq_completed_at l \<noteq> None)
    \<and> (\<exists>s as. student_of_user u d = Some s \<and> db_question_attempts d' = db_question_attempts d @ as
        \<and> length as \<le> length rs \<and> (\<forall>a \<in> set as. \<exists>r \<in> set rs. session_attempt (stu_id s) sid r a))
    \<and> (\<forall>later. \<exists>d2. submit_chapter_session env later u sid rs key d' = (Inr (), d2)
        \<and> db_question_attempts d2 = db_question_attempts d' \<and> db_true_exam_profiles d2 = db_true_exam_profiles d')"
proof -
  obtain s c where guards: "student_of_user u d = Some s" "get_session sid d = Some c" "cs_student_id c = stu_id s"
    "set (map xr_question_id rs) = set (map csq_question_id (session_links sid d))"
    by (rule submit_session_guards [OF assms])
  obtain as where run: "db_students d' = db_students d"
      "get_session sid d' = Some (completed_session now (int (length rs)) c)"
      "db_question_attempts d' = db_question_attempts d @ as" "length as \<le> length rs"
      "\<forall>a \<in> set as. \<exists>r \<in> set rs. session_attempt (stu_id s) sid r a"
      "\<forall>r \<in> set rs. recorded env (stu_id s) key r d'"
      "db_chapter_true_exam_session_questions d' = completed_links now sid (xr_question_id ` set rs) d"
    by (rule submit_session_run [OF guards, of env now key]) (use assms in simp)
  note links = completed_links_in [OF run(7) [folded set_map, unfolded guards(4)]]
  have again: "\<exists>d2. submit_chapter_session env later u sid rs key d' = (Inr (), d2)
      \<and> db_question_attempts d2 = db_question_attempts d' \<and> db_true_exam_profiles d2 = db_true_exam_profiles d'" for later
  proof -
    have user: "student_of_user u d' = Some s" using guards(1) run(1) by (simp add: student_of_user_def)
    have owner: "cs_student_id (completed_session now (int (length rs)) c) = stu_id s"
      using guards(3) by (simp add: completed_session_def)
    obtain d2 as2 where d2: "submit_chapter_session env later u sid rs key d' = (Inr (), d2)"
      "db_question_attempts d2 = db_question_attempts d' @ as2"
      "(\<forall>r \<in> set rs. recorded env (stu_id s) key r d') \<longrightarrow>
        as2 = [] \<and> db_true_exam_profiles d2 = db_true_exam_profiles d'"
      by (rule submit_session_run [OF user run(2) owner guards(4) [folded links(1)], of env later key])
    then show ?thesis using run(6) by simp
  qed
  show ?thesis
    using guards(1,4) run(2-5) links(2) again by (simp add: completed_session_def)
qed

text \<open>The questions that a session on a knowledge point asks.\<close>

lemma snapshot_ids_set: "set (snapshot_ids school k d) = q_id ` set (true_questions school k d)"
  by (simp add: snapshot_ids_def by_year_and_code_def)

lemma sequence_numbers: "map (\<lambda>p. int (fst p)) (enumerate 1 xs) = [1..int (length xs)]"
proof -
  have "map (\<lambda>p. int (fst p)) (enumerate 1 xs) = map int (map fst (enumerate 1 xs))"
    by (simp only: map_map comp_def)
  also have "\<dots> = map int (map Suc [0..<length xs])"
    by (simp only: map_fst_enumerate map_Suc_upt) simp
  also have "\<dots> = map (\<lambda>k. 1 + int k) [0..<length xs]" by simp
  finally show ?thesis by (simp only: upt_numbers)
qed

definition recorded_version :: "string \<Rightarrow> uuid \<Rightarrow> student_knowledge_progress_row list \<Rightarrow> student_knowledge_progress_row list" where
  "recorded_version v i = update_rows (\<lambda>p. skp_id p = i) (\<lambda>p. p\<lparr>skp_true_exam_snapshot_version := Some v\<rparr>)"

lemma create_session_run:
  assumes "create_chapter_session env digest now u k d = (Inr c, d')" and "student_of_user u d = Some s"
  obtains school v where "strengthened (stu_id s) k d" and "stu_target_school_id s = Some school"
    and "v = snapshot_version_of env digest school k (snapshot_ids school k d)"
    and "snapshot_ids school k d \<noteq> []"
    and "find (same_snapshot (stu_id s) k v) (db_chapter_true_exam_sessions d) = Some c \<and> d' = d
      \<or> find (same_snapshot (stu_id s) k v) (db_chapter_true_exam_sessions d) = None
        \<and> c = new_session (fresh_id (map cs_id (db_chapter_true_exam_sessions d))) now (stu_id s) k school v
            (int (length (snapshot_ids school k d)))
        \<and> d' = d\<lparr>db_chapter_true_exam_sessions := db_chapter_true_exam_sessions d @ [c],
            db_chapter_true_exam_session_questions := db_chapter_true_exam_session_questions d @
              map (session_link (cs_id c)) (enumerate 1 (snapshot_ids school k d)),
            db_student_knowledge_progress := recorded_version v (skp_id (progress_or_new (stu_id s) k d))
              (db_student_knowledge_progress d)\<rparr>"
proof -
  have "stu_target_school_id s \<noteq> None \<and> strengthened (stu_id s) k d \<and>
      open_session env digest now s k (the (stu_target_school_id s)) d = (Inr c, d')"
    using transaction_InrD [OF assms(1) [unfolded create_chapter_session_def]] assms(2)
    by (auto simp: need_student_def found_or_def app_error_def elim!: andthen_InrE split: option.splits if_splits)
  then show ?thesis
    using that
    by (auto simp: open_session_def insert_session_def set_progress_def app_error_def Let_def recorded_version_def
        progress_or_new_def find_progress_def elim!: andthen_InrE split: option.splits if_splits)
qed


subsection \<open>Examples\<close>

text \<open>A school with one chapter, one question on it and one true exam, and a student who has
  strengthened the chapter and answered the question.\<close>

definition example_node :: knowledge_node_row where
  "example_node = \<lparr>kn_id = 31, kn_code = ''K1'', kn_parent_id = None, kn_level = 1, kn_name = ''N'',
     kn_description = [], kn_tree_version = ''v1'', kn_created_at = 0\<rparr>"

definition example_stat :: school_knowledge_stat_row where
  "example_stat = \<lparr>sks_school_profile_id = 7, sks_knowledge_id = 31, sks_count = 1, sks_total_questions = 1,
     sks_normalized_weight = 1, sks_syllabus_order = 1, sks_years_covered = 1, sks_last_seen_year = None,
     sks_trend = [], sks_source_refs = []\<rparr>"

definition example_question :: question_row where
  "example_question = \<lparr>q_id = 51, q_code = ''Q1'', q_source_type = Source_TRUE_EXAM,
     q_school_profile_id = Some 7, q_year = Some 2020, q_question_type = [], q_difficulty = Diff_MEDIUM,
     q_score = 10, q_estimated_duration_minutes = 10, q_content = [], q_solution = [], q_answer = [],
     q_provenance = [], q_quality_status = Quality_VALID, q_content_version = [], q_created_at = 0\<rparr>"

definition example_exam :: true_exam_row where
  "example_exam = \<lparr>te_id = 61, te_school_profile_id = 7, te_year = 2020, te_title = [], te_total_score = 10,
     te_duration_minutes = 60, te_source_version = [], te_created_at = 0\<rparr>"

definition example_progress :: student_knowledge_progress_row where
  "example_progress = (new_progress 1 0 1 31)\<lparr>skp_status := Learn_STRENGTHENED\<rparr>"

definition example_result :: exam_result where
  "example_result = \<lparr>xr_question_id = 51, xr_score_ratio = 1, xr_duration_seconds = 60,
     xr_looked_at_solution = False, xr_error_note = None\<rparr>"

definition example_session :: chapter_true_exam_session_row where
  "example_session = new_session 71 0 1 31 7 ''v'' 1"

definition example_exam_db :: db where
  "example_exam_db = empty_db\<lparr>db_students := [example_student], db_knowledge_nodes := [example_node],
     db_school_knowledge_stats := [example_stat], db_questions := [example_question],
     db_question_knowledge := [\<lparr>qk_question_id = 51, qk_knowledge_id = 31, qk_is_primary = True\<rparr>],
     db_true_exams := [example_exam],
     db_true_exam_questions := [\<lparr>teq_true_exam_id = 61, teq_question_id = 51, teq_sequence = 1\<rparr>],
     db_student_knowledge_progress := [example_progress],
     db_question_attempts := [exam_attempt example_app_env 0 81 example_student 91 example_result],
     db_chapter_true_exam_sessions := [example_session],
     db_chapter_true_exam_session_questions := [session_link 71 (1, 51)]\<rparr>"

lemma example_exam_tables [simp]:
  "db_students example_exam_db = [example_student]" "db_knowledge_nodes example_exam_db = [example_node]"
  "db_school_knowledge_stats example_exam_db = [example_stat]" "db_questions example_exam_db = [example_question]"
  "db_question_knowledge example_exam_db = [\<lparr>qk_question_id = 51, qk_knowledge_id = 31, qk_is_primary = True\<rparr>]"
  "db_true_exams example_exam_db = [example_exam]"
  "db_true_exam_questions example_exam_db = [\<lparr>teq_true_exam_id = 61, teq_question_id = 51, teq_sequence = 1\<rparr>]"
  "db_student_knowledge_progress example_exam_db = [example_progress]"
  "db_question_attempts example_exam_db = [exam_attempt example_app_env 0 81 example_student 91 example_result]"
  "db_chapter_true_exam_sessions example_exam_db = [example_session]"
  "db_chapter_true_exam_session_questions example_exam_db = [session_link 71 (1, 51)]"
  "db_true_exam_attempts example_exam_db = []" "db_true_exam_profiles example_exam_db = []"
  "db_student_knowledge_states example_exam_db = []"
  by (simp_all add: example_exam_db_def empty_db_def)

lemma example_exam_rows [simp]:
  "kn_id example_node = 31" "kn_parent_id example_node = None" "sks_knowledge_id example_stat = 31"
  "sks_school_profile_id example_stat = 7" "q_id example_question = 51" "q_school_profile_id example_question = Some 7"
  "q_source_type example_question = Source_TRUE_EXAM" "q_quality_status example_question = Quality_VALID"
  "q_score example_question = 10" "q_difficulty example_question = Diff_MEDIUM"
  "te_id example_exam = 61" "te_school_profile_id example_exam = 7"
  "skp_id example_progress = 1" "skp_student_id example_progress = 1" "skp_knowledge_id example_progress = 31"
  "skp_status example_progress = Learn_STRENGTHENED" "xr_question_id example_result = 51"
  "xr_score_ratio example_result = 1" "xr_looked_at_solution example_result = False"
  "cs_id example_session = 71" "cs_student_id example_session = 1" "cs_knowledge_id example_session = 31"
  "cs_question_snapshot_version example_session = ''v''"
  by (simp_all add: example_node_def example_stat_def example_question_def example_exam_def example_progress_def
      example_result_def example_session_def new_session_def new_progress_def)

lemma example_syllabus: "syllabus_ok example_exam_db"
  by (simp add: syllabus_ok_def)

lemma example_school_nodes: "school_nodes (Some 7) example_exam_db = [example_node]"
  by (simp add: school_nodes_def school_pairs_def)

lemma example_exam_user: "student_of_user 5 example_exam_db = Some example_student"
  by (simp add: student_of_user_def)

theorem chapter_scope_is_complete_witness:
  "\<exists>ns. chapter_nodes (school_nodes (Some 7) example_exam_db) example_node = Some ns \<and> example_node \<in> set ns"
proof -
  have "example_node \<in> set (school_nodes (Some 7) example_exam_db)" by (simp add: example_school_nodes)
  from chapter_scope_is_complete [OF example_syllabus this] show ?thesis
    by (auto intro: below_refl)
qed


lemma example_links:
  "exam_links 61 example_exam_db = [\<lparr>teq_true_exam_id = 61, teq_question_id = 51, teq_sequence = 1\<rparr>]"
  by (simp add: exam_links_def)

theorem true_exam_is_recorded_once_witness:
  "\<exists>a d'. submit_true_exam example_app_env 9 5 61 [example_result] ''key'' example_exam_db = (Inr a, d')
     \<and> tea_score a = 10 \<and> db_true_exam_attempts d' = [a]
     \<and> submit_true_exam example_app_env 99 5 61 [] ''key'' d' = (Inr a, d')"
proof -
  obtain a d' where run: "submit_true_exam example_app_env 9 5 61 [example_result] ''key'' example_exam_db = (Inr a, d')"
    by (simp add: submit_true_exam_def need_student_def example_exam_user andthen_apply ret_apply school_exam_def
      get_true_exam_def example_links submit_first_def get_question_def add_exam_attempt_def mapped_question_def
      record_exam_question_def add_attempt_def question_knowledge_def update_true_profile_def assess_mastery_def
      load_knowledge_state_def assessed_mastery_def new_observation_def mastery_update_def new_knowledge_state_def
      set_student_def transaction_def Let_def lift_result_apply)
  have "find (exam_attempt_keyed (stu_id example_student) ''key'') (db_true_exam_attempts example_exam_db) = None" by simp
  from true_exam_is_recorded_once [OF run example_exam_user this]
  show ?thesis using run by (auto simp: get_question_def)
qed

theorem chapter_submission_is_once_witness:
  "\<exists>d'. submit_chapter_session example_app_env 9 5 71 [example_result] ''key'' example_exam_db = (Inr (), d')
     \<and> (\<exists>d2. submit_chapter_session example_app_env 99 5 71 [example_result] ''key'' d' = (Inr (), d2)
         \<and> db_question_attempts d2 = db_question_attempts d')"
proof -
  have found: "get_session 71 example_exam_db = Some example_session" by (simp add: get_session_def)
  have owner: "cs_student_id example_session = stu_id example_student" by simp
  have complete: "set (map xr_question_id [example_result]) = set (map csq_question_id (session_links 71 example_exam_db))"
    by (simp add: session_links_def session_link_def)
  obtain d' where run: "submit_chapter_session example_app_env 9 5 71 [example_result] ''key'' example_exam_db = (Inr (), d')"
    by (rule submit_session_run [OF example_exam_user found owner complete, of example_app_env 9 "''key''"])
  from chapter_submission_is_once [OF run] run show ?thesis by blast
qed


end
