(* ===== verification/Practice.thy ===== *)
theory Practice
  imports True_Exams Jobs
begin

text \<open>
  Practice, \<^verbatim>\<open>app/application/practice.py\<close>: the questions of a day, the attempts at them, the
  feedback on a task and the estimates that both update. A feedback that shows an anomaly creates the
  job of a diagnosis.

  A row that breaks a constraint of its table makes the flush fail with an \<open>IntegrityError\<close>. Rows of
  equal time are in their order of insertion.
\<close>

subsection \<open>The questions of a day\<close>

record practice_question =
  pq_id :: uuid
  pq_code :: string
  pq_content :: string
  pq_question_type :: string
  pq_difficulty :: string
  pq_score :: int

record practice_task =
  pk_id :: uuid
  pk_task_type :: string
  pk_estimated_min_minutes :: int
  pk_estimated_max_minutes :: int
  pk_status :: string
  pk_questions :: "practice_question list"

definition shown_question :: "question_row \<Rightarrow> practice_question" where
  "shown_question q = \<lparr>pq_id = q_id q, pq_code = q_code q, pq_content = q_content q,
     pq_question_type = q_question_type q, pq_difficulty = difficulty_value (q_difficulty q),
     pq_score = q_score q\<rparr>"

text \<open>The rows of the query, a task with a question, in the order of both sequences.\<close>

definition due_tasks :: "uuid \<Rightarrow> date \<Rightarrow> db \<Rightarrow> plan_task_row list" where
  "due_tasks student day d = filter (\<lambda>t. owns_plan student (pt_plan_id t) d \<and> pt_task_date t = day
     \<and> pt_status t \<in> {Task_PENDING, Task_IN_PROGRESS}) (db_plan_tasks d)"

definition task_questions :: "plan_task_row \<Rightarrow> db \<Rightarrow> (plan_task_row \<times> int \<times> question_row) list" where
  "task_questions t d = List.map_filter (\<lambda>l. map_option (\<lambda>q. (t, ptq_sequence l, q)) (get_question (ptq_question_id l) d))
     (filter (\<lambda>l. ptq_task_id l = pt_id t) (db_plan_task_questions d))"

definition practice_rows :: "uuid \<Rightarrow> date \<Rightarrow> db \<Rightarrow> (plan_task_row \<times> int \<times> question_row) list" where
  "practice_rows student day d = sort_key (\<lambda>(t, k, q). pt_sequence t) (sort_key (\<lambda>(t, k, q). k)
     (concat (map (\<lambda>t. task_questions t d) (due_tasks student day d))))"

text \<open>The dictionary of tasks, in the order of their first rows.\<close>

definition grouped_task :: "(plan_task_row \<times> int \<times> question_row) list \<Rightarrow> plan_task_row \<Rightarrow> practice_task" where
  "grouped_task rows t = \<lparr>pk_id = pt_id t, pk_task_type = task_type_value (pt_task_type t),
     pk_estimated_min_minutes = pt_estimated_min_minutes t, pk_estimated_max_minutes = pt_estimated_max_minutes t,
     pk_status = task_status_value (pt_status t),
     pk_questions = map (\<lambda>(_, _, q). shown_question q) (filter (\<lambda>(x, _, _). pt_id x = pt_id t) rows)\<rparr>"

definition first_task :: "(plan_task_row \<times> int \<times> question_row) list \<Rightarrow> uuid \<Rightarrow> plan_task_row option" where
  "first_task rows i = map_option fst (find (\<lambda>(t, _, _). pt_id t = i) rows)"

definition practice_today :: "uuid \<Rightarrow> date \<Rightarrow> practice_task list db_comp" where
  "practice_today u day =
    andthen (need_student u) (\<lambda>s.
    gets (\<lambda>d. let rows = practice_rows (stu_id s) day d in
      List.map_filter (\<lambda>i. map_option (grouped_task rows) (first_task rows i))
        (fromkeys (map (\<lambda>(t, _, _). pt_id t) rows))))"

subsection \<open>Attempts\<close>

definition practice_attempt :: "time \<Rightarrow> uuid \<Rightarrow> uuid \<Rightarrow> uuid option \<Rightarrow> exam_result \<Rightarrow> int option \<Rightarrow> string
    \<Rightarrow> uuid \<Rightarrow> question_attempt_row" where
  "practice_attempt now student question task r self key i = \<lparr>qa_id = i, qa_student_id = student,
     qa_question_id = question, qa_plan_task_id = task, qa_true_exam_attempt_id = None,
     qa_chapter_true_exam_session_id = None, qa_mock_exam_id = None, qa_context = Ctx_PRACTICE,
     qa_started_at = None, qa_finished_at = Some now,
     qa_actual_duration_seconds = xr_duration_seconds r, qa_score_ratio = xr_score_ratio r,
     qa_looked_at_solution = xr_looked_at_solution r, qa_self_difficulty = self,
     qa_student_error_note = xr_error_note r,
     qa_agent_error_type = (if xr_score_ratio r < 1 then Some Err_UNKNOWN else None),
     qa_idempotency_key = key, qa_created_at = now\<rparr>"

definition task_asks :: "uuid \<Rightarrow> uuid \<Rightarrow> uuid \<Rightarrow> db \<Rightarrow> bool" where
  "task_asks student task question d \<longleftrightarrow>
     list_ex (\<lambda>l. ptq_task_id l = task \<and> ptq_question_id l = question) (db_plan_task_questions d)
     \<and> list_ex (\<lambda>t. pt_id t = task \<and> owns_plan student (pt_plan_id t) d) (db_plan_tasks d)"

definition validate_task_ownership :: "uuid \<Rightarrow> uuid \<Rightarrow> uuid \<Rightarrow> unit db_comp" where
  "validate_task_ownership student task question =
    andthen (gets (task_asks student task question)) (\<lambda>ok.
      if ok then ret () else app_error 403 ''QUESTION_NOT_ASSIGNED'')"

text \<open>What an attempt assigns besides the mastery: the streaks.\<close>

definition with_streaks :: "pyfloat \<Rightarrow> student_knowledge_state_row \<Rightarrow> student_knowledge_state_row" where
  "with_streaks ratio s = s\<lparr>ks_error_streak := (if ratio < 6 / 10 then ks_error_streak s + 1 else 0),
     ks_correct_streak := (if 8 / 10 \<le> ratio then ks_correct_streak s + 1 else 0),
     ks_model_version := ''mastery_v1''\<rparr>"

definition attempt_by_key :: "uuid \<Rightarrow> string \<Rightarrow> question_attempt_row \<Rightarrow> bool" where
  "attempt_by_key student key a \<longleftrightarrow> qa_student_id a = student \<and> qa_idempotency_key a = key"

definition insert_attempt :: "(uuid \<Rightarrow> question_attempt_row) \<Rightarrow> question_attempt_row db_comp" where
  "insert_attempt f =
    andthen (gets (\<lambda>d. f (fresh_id (map qa_id (db_question_attempts d))))) (\<lambda>a.
    andthen (modify (\<lambda>d. d\<lparr>db_question_attempts := db_question_attempts d @ [a]\<rparr>)) (\<lambda>_. ret a))"

definition record_first :: "time \<Rightarrow> student_row \<Rightarrow> uuid option \<Rightarrow> exam_result \<Rightarrow> int option \<Rightarrow> string
    \<Rightarrow> question_row \<Rightarrow> question_attempt_row db_comp" where
  "record_first now s task r self key q =
    andthen (case task of None \<Rightarrow> ret ()
             | Some t \<Rightarrow> validate_task_ownership (stu_id s) t (xr_question_id r)) (\<lambda>_.
    andthen (insert_attempt (practice_attempt now (stu_id s) (xr_question_id r) task r self key)) (\<lambda>a.
    andthen (gets (question_knowledge (xr_question_id r))) (\<lambda>ks.
    andthen (for_each (\<lambda>k. assess_mastery now (stu_id s) k (xr_score_ratio r) (q_difficulty q)
      (xr_looked_at_solution r) (Some now) (with_streaks (xr_score_ratio r))) ks) (\<lambda>_.
    ret a))))"

text \<open>\<open>record_attempt\<close>; the result holds the question, the duration, the ratio and the note.\<close>

definition record_attempt :: "time \<Rightarrow> uuid \<Rightarrow> uuid option \<Rightarrow> exam_result \<Rightarrow> int option \<Rightarrow> string
    \<Rightarrow> question_attempt_row db_comp" where
  "record_attempt now u task r self key = transaction
    (andthen (need_student u) (\<lambda>s.
     andthen (gets (\<lambda>d. find (attempt_by_key (stu_id s) key) (db_question_attempts d))) (\<lambda>existing.
       case existing of
         Some a \<Rightarrow> if qa_question_id a \<noteq> xr_question_id r then app_error 409 ''IDEMPOTENCY_CONFLICT'' else ret a
       | None \<Rightarrow>
           andthen (gets (get_question (xr_question_id r))) (\<lambda>q.
           andthen (found_or q (AppErr 404 ''QUESTION_NOT_FOUND'')) (\<lambda>q.
           record_first now s task r self key q)))))"

subsection \<open>The estimate of the efficiency\<close>

definition efficiency_of :: "uuid \<Rightarrow> task_type \<Rightarrow> uuid option \<Rightarrow> efficiency_profile_row \<Rightarrow> bool" where
  "efficiency_of student tt knowledge p \<longleftrightarrow> efp_student_id p = student \<and> efp_task_type p = tt
     \<and> efp_knowledge_id p = knowledge"

definition new_efficiency :: "uuid \<Rightarrow> time \<Rightarrow> uuid \<Rightarrow> task_type \<Rightarrow> uuid option \<Rightarrow> int \<Rightarrow> efficiency_profile_row" where
  "new_efficiency i now student tt knowledge seconds = \<lparr>efp_id = i, efp_student_id = student,
     efp_task_type = tt, efp_knowledge_id = knowledge, efp_sample_count = 0,
     efp_recent_samples_seconds = [], efp_p50_duration_seconds = seconds,
     efp_p75_duration_seconds = seconds, efp_average_duration_seconds = seconds,
     efp_confidence = 25 / 100, efp_created_at = now\<rparr>"

definition load_efficiency :: "time \<Rightarrow> uuid \<Rightarrow> task_type \<Rightarrow> uuid option \<Rightarrow> int \<Rightarrow> efficiency_profile_row db_comp" where
  "load_efficiency now student tt knowledge seconds =
    andthen (gets (\<lambda>d. find (efficiency_of student tt knowledge) (db_efficiency_profiles d))) (\<lambda>p. case p of
        Some p \<Rightarrow> ret p
      | None \<Rightarrow>
          andthen (gets (\<lambda>d. new_efficiency (fresh_id (map efp_id (db_efficiency_profiles d))) now
            student tt knowledge seconds)) (\<lambda>p.
          andthen (modify (\<lambda>d. d\<lparr>db_efficiency_profiles := db_efficiency_profiles d @ [p]\<rparr>)) (\<lambda>_. ret p)))"

definition estimated_profile :: "int list \<Rightarrow> duration_estimate \<Rightarrow> efficiency_profile_row \<Rightarrow> efficiency_profile_row" where
  "estimated_profile samples e p = p\<lparr>efp_recent_samples_seconds := samples,
     efp_sample_count := de_sample_count e, efp_p50_duration_seconds := de_p50_seconds e,
     efp_p75_duration_seconds := de_p75_seconds e,
     efp_average_duration_seconds := py_round (of_int (sum_list samples) / of_nat (length samples)),
     efp_confidence := de_confidence e\<rparr>"

definition add_sample :: "time \<Rightarrow> uuid \<Rightarrow> task_type \<Rightarrow> uuid option \<Rightarrow> int \<Rightarrow> unit db_comp" where
  "add_sample now student tt knowledge seconds =
    andthen (load_efficiency now student tt knowledge seconds) (\<lambda>p.
      let samples = take_last 20 (efp_recent_samples_seconds p @ [seconds]) in
      andthen (lift_result (estimate tt samples)) (\<lambda>e.
      modify (\<lambda>d. d\<lparr>db_efficiency_profiles := update_rows (\<lambda>q. efp_id q = efp_id p)
        (estimated_profile samples e) (db_efficiency_profiles d)\<rparr>)))"

definition seconds_per :: "int \<Rightarrow> int \<Rightarrow> int" where
  "seconds_per duration n = max 1 (py_round (of_int duration / of_int n))"

definition update_efficiency :: "time \<Rightarrow> uuid \<Rightarrow> plan_task_row \<Rightarrow> int \<Rightarrow> int \<Rightarrow> unit db_comp" where
  "update_efficiency now student t duration completed =
    (if completed \<le> 0 then ret ()
     else add_sample now student (pt_task_type t) None (seconds_per duration completed))"

definition int_detail :: "jobj \<Rightarrow> string \<Rightarrow> int" where
  "int_detail detail k = (case dict_get detail k JNull of
     JInt i \<Rightarrow> i | JBool b \<Rightarrow> (if b then 1 else 0) | _ \<Rightarrow> 0)"

definition task_knowledge_id :: "uuid \<Rightarrow> db \<Rightarrow> uuid option" where
  "task_knowledge_id task d = map_option ptk_knowledge_id
     (find (\<lambda>k. ptk_task_id k = task) (db_plan_task_knowledge d))"

definition update_learning_efficiency :: "time \<Rightarrow> uuid \<Rightarrow> plan_task_row \<Rightarrow> int \<Rightarrow> jobj \<Rightarrow> unit db_comp" where
  "update_learning_efficiency now student t duration detail =
    andthen (gets (task_knowledge_id (pt_id t))) (\<lambda>knowledge.
    add_sample now student (pt_task_type t) knowledge
      (seconds_per duration (max 1 (int_detail detail ''completed_units''))))"

subsection \<open>Feedback\<close>

definition owned_task :: "uuid \<Rightarrow> uuid \<Rightarrow> plan_task_row db_comp" where
  "owned_task student task =
    andthen (gets (\<lambda>d. find (\<lambda>t. pt_id t = task \<and> owns_plan student (pt_plan_id t) d) (db_plan_tasks d))) (\<lambda>t.
    found_or t (AppErr 404 ''PLAN_TASK_NOT_FOUND''))"

definition recent_attempts :: "uuid \<Rightarrow> uuid \<Rightarrow> db \<Rightarrow> question_attempt_row list" where
  "recent_attempts student task d = take 10 (sort_key (\<lambda>a. - qa_created_at a)
     (filter (\<lambda>a. qa_student_id a = student \<and> qa_plan_task_id a = Some task) (db_question_attempts d)))"

definition same_error_streak :: "question_attempt_row list \<Rightarrow> int" where
  "same_error_streak as = int (length (takeWhile (\<lambda>a. qa_score_ratio a < 6 / 10) as))"

definition low_completion_days :: "uuid \<Rightarrow> db \<Rightarrow> int" where
  "low_completion_days student d = int (length (filter (\<lambda>f. fb_completion_ratio f < 6 / 10)
     (take 2 (sort_key (\<lambda>f. - fb_created_at f) (filter (\<lambda>f. fb_student_id f = student) (db_feedback d))))))"

text \<open>The constraints of the table.\<close>

definition ratio_ok :: "pyfloat \<Rightarrow> bool" where
  "ratio_ok x \<longleftrightarrow> 0 \<le> x \<and> x \<le> 1"

definition feedback_clash :: "feedback_row \<Rightarrow> feedback_row \<Rightarrow> bool" where
  "feedback_clash f g \<longleftrightarrow> fb_student_id f = fb_student_id g
     \<and> (fb_task_id f = fb_task_id g \<or> fb_idempotency_key f = fb_idempotency_key g)"

definition insert_feedback :: "(uuid \<Rightarrow> feedback_row) \<Rightarrow> feedback_row db_comp" where
  "insert_feedback mk =
    andthen (gets (\<lambda>d. mk (fresh_id (map fb_id (db_feedback d))))) (\<lambda>f.
    andthen (gets (\<lambda>d. list_ex (feedback_clash f) (db_feedback d))) (\<lambda>clash.
    andthen (require (\<not> clash \<and> ratio_ok (fb_completion_ratio f)) (PyExc ''IntegrityError'')) (\<lambda>_.
    andthen (modify (\<lambda>d. d\<lparr>db_feedback := db_feedback d @ [f]\<rparr>)) (\<lambda>_. ret f))))"

definition feedback_by_key :: "uuid \<Rightarrow> string \<Rightarrow> feedback_row \<Rightarrow> bool" where
  "feedback_by_key student key f \<longleftrightarrow> fb_student_id f = student \<and> fb_idempotency_key f = key"

definition feedback_status :: "pyfloat \<Rightarrow> task_status" where
  "feedback_status ratio = (if 1 \<le> ratio then Task_COMPLETED else Task_IN_PROGRESS)"

record task_feedback =
  tf_completion_ratio :: pyfloat
  tf_actual_duration_seconds :: int
  tf_completed_count :: int
  tf_correct_count :: int
  tf_looked_at_solution :: bool
  tf_perceived_difficulty :: "int option"
  tf_free_text :: "string option"

definition new_feedback :: "time \<Rightarrow> uuid \<Rightarrow> uuid \<Rightarrow> task_feedback \<Rightarrow> string \<Rightarrow> uuid \<Rightarrow> feedback_row" where
  "new_feedback now student task f key i = \<lparr>fb_id = i, fb_student_id = student, fb_task_id = task,
     fb_completion_ratio = tf_completion_ratio f,
     fb_actual_duration_seconds = tf_actual_duration_seconds f,
     fb_completed_count = tf_completed_count f, fb_correct_count = tf_correct_count f,
     fb_looked_at_solution = tf_looked_at_solution f, fb_perceived_difficulty = tf_perceived_difficulty f,
     fb_free_text = tf_free_text f, fb_idempotency_key = key, fb_feedback_version = 1, fb_detail = [],
     fb_mastery_self_score = None, fb_progress_marker = None, fb_created_at = now\<rparr>"

definition feedback_signals_of :: "uuid \<Rightarrow> plan_task_row \<Rightarrow> task_feedback \<Rightarrow> db \<Rightarrow> feedback_signals" where
  "feedback_signals_of student t f d = \<lparr>fs_completion_ratio = tf_completion_ratio f,
     fs_actual_duration_seconds = tf_actual_duration_seconds f,
     fs_expected_p75_seconds = pt_estimated_max_minutes t * 60,
     fs_recent_accuracy = (if tf_completed_count f = 0 then 0
       else of_int (tf_correct_count f) / of_int (tf_completed_count f)),
     fs_recent_attempt_count = tf_completed_count f,
     fs_same_error_streak = same_error_streak (recent_attempts student (pt_id t) d),
     fs_consecutive_low_completion_days = low_completion_days student d\<rparr>"

definition no_anomaly :: anomaly_decision where
  "no_anomaly = \<lparr>an_requires_agent = False, an_reason_codes = []\<rparr>"

text \<open>The job of the diagnosis, when the decision asks for one.\<close>

definition diagnosis_of :: "app_env \<Rightarrow> settings \<Rightarrow> time \<Rightarrow> uuid \<Rightarrow> anomaly_decision \<Rightarrow> jobj \<Rightarrow> string
    \<Rightarrow> background_job_row option db_comp" where
  "diagnosis_of env cfg now u decision payload key =
    (if an_requires_agent decision
     then andthen (create_job env cfg now u ''AGENT_DIAGNOSIS'' payload key) (\<lambda>j. ret (Some j))
     else ret None)"

definition diagnosis_payload :: "app_env \<Rightarrow> uuid \<Rightarrow> plan_task_row \<Rightarrow> anomaly_decision \<Rightarrow> jobj" where
  "diagnosis_payload env student t decision = [(''student_id'', JStr (ae_uuid_str env student)),
     (''task_id'', JStr (ae_uuid_str env (pt_id t))),
     (''reason_codes'', JList (map JStr (an_reason_codes decision)))]"

definition feedback_first :: "app_env \<Rightarrow> settings \<Rightarrow> time \<Rightarrow> uuid \<Rightarrow> student_row \<Rightarrow> uuid \<Rightarrow> task_feedback
    \<Rightarrow> string \<Rightarrow> (uuid \<times> anomaly_decision \<times> background_job_row option) db_comp" where
  "feedback_first env cfg now u s task f key =
    andthen (owned_task (stu_id s) task) (\<lambda>t.
    andthen (gets (\<lambda>d. detect (feedback_signals_of (stu_id s) t f d))) (\<lambda>decision.
    andthen (insert_feedback (new_feedback now (stu_id s) (pt_id t) f key)) (\<lambda>row.
    andthen (set_task (pt_id t) (\<lambda>t. t\<lparr>pt_status := feedback_status (tf_completion_ratio f)\<rparr>)) (\<lambda>_.
    andthen (update_efficiency now (stu_id s) t (tf_actual_duration_seconds f) (tf_completed_count f)) (\<lambda>_.
    andthen (diagnosis_of env cfg now u decision (diagnosis_payload env (stu_id s) t decision)
      (''feedback-agent:'' @ ae_uuid_str env (fb_id row))) (\<lambda>job.
    ret (fb_id row, decision, job)))))))"

definition submit_feedback :: "app_env \<Rightarrow> settings \<Rightarrow> time \<Rightarrow> uuid \<Rightarrow> uuid \<Rightarrow> task_feedback \<Rightarrow> string
    \<Rightarrow> (uuid \<times> anomaly_decision \<times> background_job_row option) db_comp" where
  "submit_feedback env cfg now u task f key = transaction
    (andthen (need_student u) (\<lambda>s.
     andthen (gets (\<lambda>d. find (feedback_by_key (stu_id s) key) (db_feedback d))) (\<lambda>existing. case existing of
         Some row \<Rightarrow> if fb_task_id row \<noteq> task then app_error 409 ''IDEMPOTENCY_CONFLICT''
             else ret (fb_id row, no_anomaly, None)
       | None \<Rightarrow> feedback_first env cfg now u s task f key)))"

subsection \<open>Feedback on learning tasks\<close>

record learning_feedback =
  lf_completion_ratio :: pyfloat
  lf_actual_duration_seconds :: int
  lf_perceived_difficulty :: "int option"
  lf_free_text :: "string option"
  lf_progress_marker :: "string option"
  lf_mastery_self_score :: "int option"
  lf_detail :: jobj

definition looked_detail :: "jobj \<Rightarrow> bool" where
  "looked_detail detail = json_truthy (dict_get detail ''looked_at_solution'' (JBool False))"

definition new_learning_feedback :: "time \<Rightarrow> uuid \<Rightarrow> uuid \<Rightarrow> learning_feedback \<Rightarrow> string \<Rightarrow> uuid \<Rightarrow> feedback_row" where
  "new_learning_feedback now student task f key i = \<lparr>fb_id = i, fb_student_id = student, fb_task_id = task,
     fb_completion_ratio = lf_completion_ratio f,
     fb_actual_duration_seconds = lf_actual_duration_seconds f,
     fb_completed_count = int_detail (lf_detail f) ''completed_units'',
     fb_correct_count = int_detail (lf_detail f) ''correct_units'',
     fb_looked_at_solution = looked_detail (lf_detail f), fb_perceived_difficulty = lf_perceived_difficulty f,
     fb_free_text = lf_free_text f, fb_idempotency_key = key, fb_feedback_version = 1,
     fb_detail = lf_detail f, fb_mastery_self_score = lf_mastery_self_score f,
     fb_progress_marker = lf_progress_marker f, fb_created_at = now\<rparr>"

definition revised_feedback :: "learning_feedback \<Rightarrow> feedback_row \<Rightarrow> feedback_row" where
  "revised_feedback f row = row\<lparr>fb_completion_ratio := lf_completion_ratio f,
     fb_actual_duration_seconds := lf_actual_duration_seconds f,
     fb_perceived_difficulty := lf_perceived_difficulty f, fb_free_text := lf_free_text f,
     fb_progress_marker := lf_progress_marker f, fb_mastery_self_score := lf_mastery_self_score f,
     fb_detail := lf_detail f, fb_completed_count := int_detail (lf_detail f) ''completed_units'',
     fb_correct_count := int_detail (lf_detail f) ''correct_units'',
     fb_looked_at_solution := looked_detail (lf_detail f),
     fb_feedback_version := fb_feedback_version row + 1\<rparr>"

definition feedback_of_task :: "uuid \<Rightarrow> uuid \<Rightarrow> feedback_row \<Rightarrow> bool" where
  "feedback_of_task student task f \<longleftrightarrow> fb_student_id f = student \<and> fb_task_id f = task"

definition revise_feedback :: "learning_feedback \<Rightarrow> feedback_row \<Rightarrow> feedback_row db_comp" where
  "revise_feedback f row =
    andthen (require (ratio_ok (lf_completion_ratio f)) (PyExc ''IntegrityError'')) (\<lambda>_.
    andthen (modify (\<lambda>d. d\<lparr>db_feedback := update_rows (\<lambda>x. fb_id x = fb_id row) (revised_feedback f)
      (db_feedback d)\<rparr>)) (\<lambda>_. ret (revised_feedback f row)))"

definition save_learning_feedback :: "time \<Rightarrow> uuid \<Rightarrow> uuid \<Rightarrow> int option \<Rightarrow> learning_feedback \<Rightarrow> string
    \<Rightarrow> feedback_row db_comp" where
  "save_learning_feedback now student task expected f key =
    andthen (gets (\<lambda>d. find (feedback_of_task student task) (db_feedback d))) (\<lambda>existing. case existing of
        None \<Rightarrow>
          if expected \<noteq> None then app_error 409 ''VERSION_CONFLICT''
          else insert_feedback (new_learning_feedback now student task f key)
      | Some row \<Rightarrow>
          if expected \<noteq> Some (fb_feedback_version row) then app_error 409 ''VERSION_CONFLICT''
          else revise_feedback f row)"

definition learning_anomaly :: "plan_task_row \<Rightarrow> pyfloat \<Rightarrow> int \<Rightarrow> jobj \<Rightarrow> anomaly_decision" where
  "learning_anomaly t ratio duration detail =
    (let expected = max (pt_effective_minutes t * 60) 1;
         completed = int_detail detail ''completed_units'';
         correct = int_detail detail ''correct_units'';
         reasons =
           (if of_int expected * (3 / 2) < (of_int duration :: pyfloat) then [''TIME_OVERRUN''] else [])
           @ (if pt_task_type t = TT_HANDOUT_PRACTICE \<and> 5 \<le> completed
                \<and> (of_int correct :: pyfloat) / of_int completed < 4 / 10 then [''LOW_ACCURACY''] else [])
           @ (if ratio < 6 / 10 then [''LOW_COMPLETION''] else [])
     in \<lparr>an_requires_agent = (reasons \<noteq> []), an_reason_codes = reasons\<rparr>)"

definition learning_payload :: "app_env \<Rightarrow> uuid \<Rightarrow> plan_task_row \<Rightarrow> anomaly_decision \<Rightarrow> jobj" where
  "learning_payload env student t decision = diagnosis_payload env student t decision
     @ [(''task_type'', JStr (task_type_value (pt_task_type t)))]"

definition upsert_learning_feedback :: "app_env \<Rightarrow> settings \<Rightarrow> time \<Rightarrow> uuid \<Rightarrow> uuid \<Rightarrow> int option
    \<Rightarrow> learning_feedback \<Rightarrow> string \<Rightarrow> (feedback_row \<times> anomaly_decision \<times> background_job_row option) db_comp" where
  "upsert_learning_feedback env cfg now u task expected f key = transaction
    (andthen (need_student u) (\<lambda>s.
     andthen (owned_task (stu_id s) task) (\<lambda>t.
       if pt_task_type t \<notin> set learning_task_types then app_error 422 ''NOT_A_LEARNING_TASK''
       else
         andthen (save_learning_feedback now (stu_id s) (pt_id t) expected f key) (\<lambda>row.
         andthen (set_task (pt_id t) (\<lambda>t. t\<lparr>pt_status := feedback_status (lf_completion_ratio f),
           pt_version := pt_version t + 1\<rparr>)) (\<lambda>_.
         andthen (update_learning_efficiency now (stu_id s) t (lf_actual_duration_seconds f) (lf_detail f)) (\<lambda>_.
         let decision = learning_anomaly t (lf_completion_ratio f) (lf_actual_duration_seconds f) (lf_detail f) in
         andthen (diagnosis_of env cfg now u decision (learning_payload env (stu_id s) t decision)
           (''learning-feedback-agent:'' @ ae_uuid_str env (fb_id row) @ '':''
             @ show_int (fb_feedback_version row))) (\<lambda>job.
         ret (row, decision, job))))))))"

end
