(* ===== verification/Practice_Properties.thy ===== *)
theory Practice_Properties
  imports Practice Exam_Properties
begin

text \<open>
  The properties of practice: attempts and feedback are recorded once, feedback on learning tasks is
  versioned, and the estimates of the efficiency stay consistent.
\<close>

subsection \<open>Attempts\<close>

lemma with_streaks_ok [simp]: "knowledge_state_ok (with_streaks ratio y) = knowledge_state_ok y"
  by (simp add: knowledge_state_ok_def with_streaks_def)

text \<open>What the update of a mastery leaves alone.\<close>

definition answers_kept :: "db \<Rightarrow> db \<Rightarrow> bool" where
  "answers_kept d d' \<longleftrightarrow> db_question_attempts d' = db_question_attempts d \<and> db_students d' = db_students d"

lemma keeps_answers: "keeps (answers_kept d0) (assess_mastery now st k ratio level looked practised extra)"
  unfolding assess_mastery_def load_knowledge_state_def
  by (intro keeps_andthen keeps_gets keeps_option keeps_modify keeps_lift_result keeps_ret;
      simp add: answers_kept_def)

lemma record_attempt_first:
  assumes "record_attempt now u task r self key d = (Inr a, d')" and "student_of_user u d = Some s"
    and "find (attempt_by_key (stu_id s) key) (db_question_attempts d) = None"
  obtains q where "get_question (xr_question_id r) d = Some q"
    and "\<forall>t. task = Some t \<longrightarrow> task_asks (stu_id s) t (xr_question_id r) d"
    and "a = practice_attempt now (stu_id s) (xr_question_id r) task r self key (fresh_id (map qa_id (db_question_attempts d)))"
    and "for_each (\<lambda>k. assess_mastery now (stu_id s) k (xr_score_ratio r) (q_difficulty q)
        (xr_looked_at_solution r) (Some now) (with_streaks (xr_score_ratio r)))
      (question_knowledge (xr_question_id r) d) (d\<lparr>db_question_attempts := db_question_attempts d @ [a]\<rparr>) = (Inr (), d')"
  using transaction_InrD [OF assms(1) [unfolded record_attempt_def]] assms(2,3) that
  by (auto simp: need_student_def record_first_def insert_attempt_def validate_task_ownership_def app_error_def
      found_or_def question_knowledge_def elim!: andthen_InrE split: option.splits if_splits)

text \<open>C32. An attempt at a question is recorded once per key. It belongs to the student and the asked
  question; an attempt for a task needs the task to be the student's and to ask the question. The
  estimates of the mastery stay in their ranges. Repeating the key returns the recorded attempt and
  writes nothing, and is refused for another question.\<close>

theorem attempt_is_recorded_once:
  assumes "record_attempt now u task r self key d = (Inr a, d')" and "student_of_user u d = Some s"
    and "find (attempt_by_key (stu_id s) key) (db_question_attempts d) = None"
  shows "db_question_attempts d' = db_question_attempts d @ [a]
    \<and> qa_student_id a = stu_id s \<and> qa_question_id a = xr_question_id r \<and> qa_score_ratio a = xr_score_ratio r
    \<and> (\<forall>t. task = Some t \<longrightarrow> task_asks (stu_id s) t (xr_question_id r) d)
    \<and> (assessments_ok d \<longrightarrow> assessments_ok d')
    \<and> (\<forall>later task' r' self'. record_attempt later u task' r' self' key d' =
        (if xr_question_id r' = xr_question_id r then Inr a else Inl (AppErr 409 ''IDEMPOTENCY_CONFLICT''), d'))"
proof -
  obtain q where "get_question (xr_question_id r) d = Some q" and asked: "\<forall>t. task = Some t \<longrightarrow> task_asks (stu_id s) t (xr_question_id r) d"
    and a: "a = practice_attempt now (stu_id s) (xr_question_id r) task r self key (fresh_id (map qa_id (db_question_attempts d)))"
    and loop: "for_each (\<lambda>k. assess_mastery now (stu_id s) k (xr_score_ratio r) (q_difficulty q)
        (xr_looked_at_solution r) (Some now) (with_streaks (xr_score_ratio r)))
      (question_knowledge (xr_question_id r) d) (d\<lparr>db_question_attempts := db_question_attempts d @ [a]\<rparr>) = (Inr (), d')"
    by (rule record_attempt_first [OF assms])
  let ?d1 = "d\<lparr>db_question_attempts := db_question_attempts d @ [a]\<rparr>"
  let ?loop = "for_each (\<lambda>k. assess_mastery now (stu_id s) k (xr_score_ratio r) (q_difficulty q)
        (xr_looked_at_solution r) (Some now) (with_streaks (xr_score_ratio r))) (question_knowledge (xr_question_id r) d)"
  have "keeps (answers_kept ?d1) ?loop" by (intro keeps_for_each keeps_answers)
  then have "answers_kept ?d1 d'" by (rule keeps_resultD [where m = ?loop, OF _ _ loop]) (simp add: answers_kept_def)
  then have kept: "db_question_attempts d' = db_question_attempts d @ [a]" "db_students d' = db_students d"
    by (simp_all add: answers_kept_def)
  have "keeps assessments_ok ?loop" by (intro keeps_for_each keeps_assess with_streaks_ok)
  then have ranges: "assessments_ok d'" if "assessments_ok d"
    by (rule keeps_resultD [where m = ?loop, OF _ _ loop]) (use that in \<open>simp add: assessments_ok_def\<close>)
  have row: "qa_student_id a = stu_id s" "qa_question_id a = xr_question_id r" "qa_score_ratio a = xr_score_ratio r"
    "attempt_by_key (stu_id s) key a"
    by (simp_all add: a practice_attempt_def attempt_by_key_def)
  have "record_attempt later u task' r' self' key d' =
      (if xr_question_id r' = xr_question_id r then Inr a else Inl (AppErr 409 ''IDEMPOTENCY_CONFLICT''), d')"
    for later task' r' self'
  proof -
    have "student_of_user u d' = Some s" using assms(2) kept(2) by (simp add: student_of_user_def)
    then show ?thesis
      using assms(3) row(2,4) by (simp add: record_attempt_def need_student_def andthen_apply ret_apply throw_apply
        kept(1) find_append app_error_def transaction_def)
  qed
  then show ?thesis using kept(1) row(1-3) asked ranges by blast
qed

subsection \<open>The estimate of the efficiency\<close>

definition efficiency_ok :: "efficiency_profile_row \<Rightarrow> bool" where
  "efficiency_ok p \<longleftrightarrow> length (efp_recent_samples_seconds p) \<le> 20
     \<and> (\<forall>x \<in> set (efp_recent_samples_seconds p). 0 < x)
     \<and> 0 < efp_p50_duration_seconds p \<and> efp_p50_duration_seconds p \<le> efp_p75_duration_seconds p
     \<and> 0 < efp_average_duration_seconds p \<and> 0 \<le> efp_confidence p \<and> efp_confidence p \<le> 95 / 100"

definition efficiencies_ok :: "db \<Rightarrow> bool" where
  "efficiencies_ok d \<longleftrightarrow> (\<forall>p \<in> set (db_efficiency_profiles d). efficiency_ok p)"

lemma estimate_of_samples:
  assumes "samples \<noteq> []" and "length samples \<le> 20" and "\<forall>x \<in> set samples. 0 < x"
  obtains e where "estimate tt samples = Inr e" and "0 < de_p50_seconds e" and "de_p50_seconds e \<le> de_p75_seconds e"
    and "0 \<le> de_confidence e" and "de_confidence e \<le> 95 / 100"
proof -
  have valid: "sort (filter (\<lambda>v. 0 < v) (take_last max_samples samples)) = sort samples"
    using assms(2,3) by (simp add: max_samples_def filter_id_conv)
  have ne: "sort samples \<noteq> []" using assms(1) by (metis length_0_conv length_sort)
  obtain e where e: "estimate tt samples = Inr e" and p: "de_p50_seconds e = percentile (sort samples) (1 / 2)"
      "de_p75_seconds e = percentile (sort samples) (3 / 4)"
    and c: "de_confidence e = round_dp 4 (min (95 / 100) (of_nat (length samples) / 20))"
    using valid ne by (simp add: estimate_def Let_def max_samples_def)
  have "hd (sort samples) \<in> set samples" using hd_in_set [OF ne] by simp
  then have "0 < hd (sort samples)" using assms(3) by blast
  then have "0 < de_p50_seconds e" using percentile_range [of "sort samples" "1 / 2"] ne p by simp
  moreover have "de_p50_seconds e \<le> de_p75_seconds e"
    using percentile_mono [of "sort samples" "1 / 2" "3 / 4"] ne p by simp
  moreover have "de_confidence e \<le> of_int 9500 / 10 ^ 4" unfolding c by (rule round_dp_upper) simp
  moreover have "0 \<le> de_confidence e" unfolding c by (rule round_dp_nonneg) simp
  ultimately show ?thesis using that e by simp
qed

lemma mean_positive:
  assumes "samples \<noteq> []" and "\<forall>x \<in> set samples. (0::int) < x"
  shows "0 < py_round (of_int (sum_list samples) / of_nat (length samples))"
proof -
  have "int (length samples) \<le> sum_list samples"
    using assms(2) by (induction samples) auto
  then have "(of_nat (length samples) :: real) \<le> of_int (sum_list samples)" by linarith
  then have "of_int 1 \<le> (of_int (sum_list samples) / of_nat (length samples) :: real)"
    using assms(1) by (simp add: le_divide_eq)
  then have "1 \<le> py_round (of_int (sum_list samples) / of_nat (length samples))" by (rule py_round_lower)
  then show ?thesis by simp
qed

definition only_profiles :: "db \<Rightarrow> db \<Rightarrow> bool" where
  "only_profiles d d' \<longleftrightarrow> (\<exists>ps. d' = d\<lparr>db_efficiency_profiles := ps\<rparr>)"

lemma add_sample_run:
  assumes "efficiencies_ok d" and "0 < seconds"
  obtains d' where "add_sample now st tt k seconds d = (Inr (), d')" and "only_profiles d d'" and "efficiencies_ok d'"
proof -
  obtain p ps where load: "load_efficiency now st tt k seconds d = (Inr p, d\<lparr>db_efficiency_profiles := ps\<rparr>)"
    and p: "efficiency_ok p" "\<forall>q \<in> set ps. efficiency_ok q"
  proof (cases "find (efficiency_of st tt k) (db_efficiency_profiles d)")
    case None
    let ?p = "new_efficiency (fresh_id (map efp_id (db_efficiency_profiles d))) now st tt k seconds"
    have "efficiency_ok ?p" using assms(2) by (simp add: efficiency_ok_def new_efficiency_def)
    then show ?thesis
      using that [of ?p "db_efficiency_profiles d @ [?p]"] None assms(1)
      by (auto simp: load_efficiency_def andthen_apply ret_apply efficiencies_ok_def)
  next
    case (Some q)
    then show ?thesis
      using that [of q "db_efficiency_profiles d"] assms(1) find_SomeD [OF Some]
      by (auto simp: load_efficiency_def andthen_apply ret_apply efficiencies_ok_def)
  qed
  define samples where "samples = take_last 20 (efp_recent_samples_seconds p @ [seconds])"
  have ok: "samples \<noteq> []" "length samples \<le> 20" "\<forall>x \<in> set samples. 0 < x"
    using p(1) assms(2) set_take_last [of 20 "efp_recent_samples_seconds p @ [seconds]"]
    by (auto simp: samples_def efficiency_ok_def take_last_def)
  obtain e where e: "estimate tt samples = Inr e" "0 < de_p50_seconds e" "de_p50_seconds e \<le> de_p75_seconds e"
    "0 \<le> de_confidence e" "de_confidence e \<le> 95 / 100"
    by (rule estimate_of_samples [OF ok])
  have "efficiency_ok (estimated_profile samples e q)" for q
    using ok e mean_positive [OF ok(1,3)] by (simp add: efficiency_ok_def estimated_profile_def)
  then have "efficiencies_ok (d\<lparr>db_efficiency_profiles :=
      update_rows (\<lambda>q. efp_id q = efp_id p) (estimated_profile samples e) ps\<rparr>)"
    using p(2) by (auto simp: efficiencies_ok_def elim!: in_update_rows)
  moreover have "add_sample now st tt k seconds d = (Inr (), d\<lparr>db_efficiency_profiles :=
      update_rows (\<lambda>q. efp_id q = efp_id p) (estimated_profile samples e) ps\<rparr>)"
    using e(1) by (simp add: add_sample_def andthen_apply load Let_def flip: samples_def)
  ultimately show ?thesis using that unfolding only_profiles_def by blast
qed

lemma seconds_per_positive: "0 < seconds_per duration n"
  by (simp add: seconds_per_def)

lemma add_sample_frame: "add_sample now st tt k seconds d = (x, d') \<Longrightarrow> only_profiles d d'"
  by (auto simp: add_sample_def load_efficiency_def andthen_apply ret_apply throw_apply lift_result_apply Let_def only_profiles_def
      split: option.splits sum.splits intro: exI [of _ "db_efficiency_profiles d"])

lemma keeps_add_sample: "0 < seconds \<Longrightarrow> keeps efficiencies_ok (add_sample now st tt k seconds)"
  by (rule keepsI) (metis add_sample_run snd_conv)

lemma keeps_efficiencies_updates:
  "keeps efficiencies_ok (update_efficiency now st t duration completed)"
  "keeps efficiencies_ok (update_learning_efficiency now st t duration detail)"
  unfolding update_efficiency_def update_learning_efficiency_def
  by (intro keeps_if keeps_ret keeps_andthen keeps_gets keeps_add_sample seconds_per_positive)+

text \<open>A new job changes the jobs and the events only.\<close>

lemma create_job_frame:
  assumes "create_job env cfg now u jt payload key d = (x, d')"
  shows "\<exists>js es. d' = d\<lparr>db_background_jobs := js, db_domain_events := es\<rparr>
    \<and> (\<forall>j. x = Inr j \<longrightarrow> j \<in> set js \<and> job_keyed u jt key j)"
proof (cases "find (job_keyed u jt key) (db_background_jobs d)")
  case (Some j)
  then have "d' = d" "\<And>k. x = Inr k \<Longrightarrow> k = j"
    using assms by (auto simp: create_job_def transaction_def comp_simps app_error_def split: if_splits)
  then show ?thesis
    using find_SomeD [OF Some]
    by (intro exI [of _ "db_background_jobs d"] exI [of _ "db_domain_events d"]) auto
next
  case None
  let ?j = "new_job cfg now (fresh_id (map bj_id (db_background_jobs d))) u jt payload key"
  have "job_keyed u jt key ?j" by (simp add: job_keyed_def new_job_def)
  moreover have "\<exists>es. d' = d\<lparr>db_background_jobs := db_background_jobs d @ [?j], db_domain_events := es\<rparr>" "x = Inr ?j"
    using assms None by (auto simp: create_job_def transaction_def comp_simps add_event_def)
  ultimately show ?thesis by (auto intro!: exI [of _ "db_background_jobs d @ [?j]"])
qed

lemma diagnosis_frame:
  assumes "diagnosis_of env cfg now u decision payload key d = (x, d')"
  shows "\<exists>js es. d' = d\<lparr>db_background_jobs := js, db_domain_events := es\<rparr>
    \<and> (\<forall>y. x = Inr y \<longrightarrow> (y = None \<longleftrightarrow> \<not> an_requires_agent decision)
        \<and> (\<forall>j. y = Some j \<longrightarrow> j \<in> set js \<and> job_keyed u ''AGENT_DIAGNOSIS'' key j))"
proof (cases "an_requires_agent decision")
  case True
  obtain z d1 where z: "create_job env cfg now u ''AGENT_DIAGNOSIS'' payload key d = (z, d1)" by fastforce
  obtain js es where "d1 = d\<lparr>db_background_jobs := js, db_domain_events := es\<rparr>"
    "\<forall>j. z = Inr j \<longrightarrow> j \<in> set js \<and> job_keyed u ''AGENT_DIAGNOSIS'' key j"
    using create_job_frame [OF z] by blast
  then show ?thesis
    using assms z True
    by (intro exI [of _ js] exI [of _ es])
      (auto simp: diagnosis_of_def andthen_apply ret_apply split: sum.splits)
next
  case False
  then show ?thesis
    using assms by (intro exI [of _ "db_background_jobs d"] exI [of _ "db_domain_events d"])
      (simp add: diagnosis_of_def)
qed

lemma keeps_diagnosis: "keeps efficiencies_ok (diagnosis_of env cfg now u decision payload key)"
proof (rule keepsI)
  fix d :: db
  assume ok: "efficiencies_ok d"
  obtain x d' where run: "diagnosis_of env cfg now u decision payload key d = (x, d')" by fastforce
  show "efficiencies_ok (snd (diagnosis_of env cfg now u decision payload key d))"
    using diagnosis_frame [OF run] ok by (auto simp: run efficiencies_ok_def)
qed

lemma keeps_feedback_steps:
  "keeps efficiencies_ok (insert_feedback f)" "keeps efficiencies_ok (set_task i g)"
  "keeps efficiencies_ok (revise_feedback l row)" "keeps efficiencies_ok (need_student u)"
  "keeps efficiencies_ok (owned_task st task)"
  unfolding insert_feedback_def set_task_def revise_feedback_def need_student_def owned_task_def
  by (intro keeps_andthen keeps_gets keeps_require keeps_ret keeps_found_or keeps_modify;
      simp add: efficiencies_ok_def)+

text \<open>The estimates of the efficiency stay consistent over every feedback: at most twenty samples
  are kept, all of them positive, the median is at most the 75th percentile, and the confidence stays
  below 0.95.\<close>

theorem efficiency_stays_consistent:
  "keeps efficiencies_ok (submit_feedback env cfg now u task f key)
    \<and> keeps efficiencies_ok (upsert_learning_feedback env cfg now u task expected l key)"
  unfolding submit_feedback_def upsert_learning_feedback_def feedback_first_def save_learning_feedback_def Let_def
  by (intro conjI keeps_transaction keeps_andthen keeps_gets keeps_option keeps_if keeps_ret keeps_app_error
      keeps_feedback_steps keeps_efficiencies_updates keeps_diagnosis)

subsection \<open>Feedback\<close>

text \<open>The constraints of the feedback table.\<close>

definition feedbacks_ok :: "db \<Rightarrow> bool" where
  "feedbacks_ok d \<longleftrightarrow> distinct (map (\<lambda>f. (fb_student_id f, fb_task_id f)) (db_feedback d))
     \<and> distinct (map (\<lambda>f. (fb_student_id f, fb_idempotency_key f)) (db_feedback d))
     \<and> (\<forall>f \<in> set (db_feedback d). ratio_ok (fb_completion_ratio f))"

text \<open>What the steps after the feedback leave alone.\<close>

definition feedback_kept :: "db \<Rightarrow> db \<Rightarrow> bool" where
  "feedback_kept d d' \<longleftrightarrow> db_feedback d' = db_feedback d \<and> db_students d' = db_students d
     \<and> db_weekly_plans d' = db_weekly_plans d \<and> db_plan_tasks d' = db_plan_tasks d"

lemma efficiency_kept:
  "update_efficiency now st t duration n d = (x, d') \<Longrightarrow> feedback_kept d d'"
  "update_learning_efficiency now st t duration detail d = (x, d') \<Longrightarrow> feedback_kept d d'"
  by (auto simp: update_efficiency_def update_learning_efficiency_def andthen_apply feedback_kept_def only_profiles_def
      split: if_splits dest!: add_sample_frame)

lemma diagnosis_kept:
  assumes "diagnosis_of env cfg now u decision payload key d = (Inr job, d')"
  shows "feedback_kept d d' \<and> (job = None \<longleftrightarrow> \<not> an_requires_agent decision)
    \<and> (\<forall>j. job = Some j \<longrightarrow> j \<in> set (db_background_jobs d') \<and> job_keyed u ''AGENT_DIAGNOSIS'' key j)"
  using diagnosis_frame [OF assms] by (auto simp: feedback_kept_def)

lemma feedback_kept_trans: "feedback_kept d d1 \<Longrightarrow> feedback_kept d1 d2 \<Longrightarrow> feedback_kept d d2"
  by (simp add: feedback_kept_def)

lemma insert_feedback_run:
  assumes "insert_feedback mk d = (Inr row, d')"
  shows "row = mk (fresh_id (map fb_id (db_feedback d))) \<and> \<not> list_ex (feedback_clash row) (db_feedback d)
    \<and> ratio_ok (fb_completion_ratio row) \<and> d' = d\<lparr>db_feedback := db_feedback d @ [row]\<rparr>"
  using assms by (auto simp: insert_feedback_def andthen_apply ret_apply require_apply split: if_splits)

lemma new_feedback_fields [simp]:
  "fb_id (new_feedback now st task f key i) = i" "fb_student_id (new_feedback now st task f key i) = st"
  "fb_task_id (new_feedback now st task f key i) = task" "fb_idempotency_key (new_feedback now st task f key i) = key"
  "fb_completion_ratio (new_feedback now st task f key i) = tf_completion_ratio f"
  by (simp_all add: new_feedback_def)

definition status_set :: "uuid \<Rightarrow> pyfloat \<Rightarrow> db \<Rightarrow> plan_task_row list" where
  "status_set task ratio d = update_rows (\<lambda>t. pt_id t = task)
     (\<lambda>t. t\<lparr>pt_status := feedback_status ratio\<rparr>) (db_plan_tasks d)"

lemma feedback_first_run:
  assumes "feedback_first env cfg now u s task f key d = (Inr (i, decision, job), d')"
  obtains t where "t \<in> set (db_plan_tasks d)" and "pt_id t = task" and "owns_plan (stu_id s) (pt_plan_id t) d"
    and "decision = detect (feedback_signals_of (stu_id s) t f d)"
    and "\<not> list_ex (feedback_clash (new_feedback now (stu_id s) task f key i)) (db_feedback d)"
    and "ratio_ok (tf_completion_ratio f)"
    and "db_feedback d' = db_feedback d @ [new_feedback now (stu_id s) task f key i]"
    and "db_students d' = db_students d" and "db_weekly_plans d' = db_weekly_plans d"
    and "db_plan_tasks d' = status_set task (tf_completion_ratio f) d"
    and "job = None \<longleftrightarrow> \<not> an_requires_agent decision"
    and "\<forall>j. job = Some j \<longrightarrow> j \<in> set (db_background_jobs d')
        \<and> job_keyed u ''AGENT_DIAGNOSIS'' (''feedback-agent:'' @ ae_uuid_str env i) j"
proof -
  obtain t d1 d2 row where t: "find (\<lambda>t. pt_id t = task \<and> owns_plan (stu_id s) (pt_plan_id t) d) (db_plan_tasks d) = Some t"
    and decision: "decision = detect (feedback_signals_of (stu_id s) t f d)"
    and insert: "insert_feedback (new_feedback now (stu_id s) (pt_id t) f key) d = (Inr row, d1)" and i: "i = fb_id row"
    and eff: "update_efficiency now (stu_id s) t (tf_actual_duration_seconds f) (tf_completed_count f)
        (d1\<lparr>db_plan_tasks := status_set (pt_id t) (tf_completion_ratio f) d1\<rparr>) = (Inr (), d2)"
    and job: "diagnosis_of env cfg now u decision (diagnosis_payload env (stu_id s) t decision)
        (''feedback-agent:'' @ ae_uuid_str env i) d2 = (Inr job, d')"
    using assms
    by (auto simp: feedback_first_def owned_task_def found_or_def set_task_def status_set_def
        elim!: andthen_InrE split: option.splits)
  have row: "pt_id t = task" "t \<in> set (db_plan_tasks d)" "owns_plan (stu_id s) (pt_plan_id t) d"
    using find_SomeD [OF t] by simp_all
  have ins: "d1 = d\<lparr>db_feedback := db_feedback d @ [new_feedback now (stu_id s) task f key i]\<rparr>"
    "\<not> list_ex (feedback_clash (new_feedback now (stu_id s) task f key i)) (db_feedback d)"
    "ratio_ok (tf_completion_ratio f)"
    using insert_feedback_run [OF insert] row(1) by (auto simp: i)
  have kept: "feedback_kept (d1\<lparr>db_plan_tasks := status_set task (tf_completion_ratio f) d1\<rparr>) d'"
    using feedback_kept_trans [OF efficiency_kept(1) [OF eff]] diagnosis_kept [OF job] row(1) by simp
  show ?thesis
    by (rule that [of t]) (use row decision ins kept diagnosis_kept [OF job] in
      \<open>simp_all add: feedback_kept_def status_set_def\<close>)
qed

lemma feedbacks_ok_append:
  assumes "feedbacks_ok d" and "\<not> list_ex (feedback_clash f) (db_feedback d)" and "ratio_ok (fb_completion_ratio f)"
    and "db_feedback d' = db_feedback d @ [f]"
  shows "feedbacks_ok d'"
  using assms by (auto simp: feedbacks_ok_def list_ex_iff feedback_clash_def)

lemma submit_feedback_first:
  assumes "student_of_user u d = Some s" and "find (feedback_by_key (stu_id s) key) (db_feedback d) = None"
  shows "submit_feedback env cfg now u task f key d = transaction (feedback_first env cfg now u s task f key) d"
  using assms by (simp add: submit_feedback_def need_student_def andthen_apply ret_apply transaction_def)

text \<open>A feedback is recorded once per key and task. The task gets its status from the completion,
  and a diagnosis job for the student is created exactly when the anomaly detector asks for one.
  Repeating the key returns the same feedback and writes nothing. A second feedback on the task under
  another key is never stored: it fails with an integrity error that leaves the database as it was.\<close>

theorem feedback_is_recorded_once:
  assumes "submit_feedback env cfg now u task f key d = (Inr (i, decision, job), d')"
    and "student_of_user u d = Some s" and "find (feedback_by_key (stu_id s) key) (db_feedback d) = None"
  shows "db_feedback d' = db_feedback d @ [new_feedback now (stu_id s) task f key i]
    \<and> (feedbacks_ok d \<longrightarrow> feedbacks_ok d')
    \<and> db_plan_tasks d' = status_set task (tf_completion_ratio f) d
    \<and> (job = None \<longleftrightarrow> \<not> an_requires_agent decision)
    \<and> (\<forall>j. job = Some j \<longrightarrow> j \<in> set (db_background_jobs d')
        \<and> job_keyed u ''AGENT_DIAGNOSIS'' (''feedback-agent:'' @ ae_uuid_str env i) j)
    \<and> (\<forall>later f'. submit_feedback env cfg later u task f' key d' = (Inr (i, no_anomaly, None), d'))
    \<and> (\<forall>later f' key'. find (feedback_by_key (stu_id s) key') (db_feedback d') = None \<longrightarrow>
        submit_feedback env cfg later u task f' key' d' = (Inl (PyExc ''IntegrityError''), d'))"
proof -
  let ?row = "new_feedback now (stu_id s) task f key i"
  have "feedback_first env cfg now u s task f key d = (Inr (i, decision, job), d')"
    using transaction_InrD assms(1) unfolding submit_feedback_first [OF assms(2,3)] by metis
  then obtain t where t: "t \<in> set (db_plan_tasks d)" "pt_id t = task" "owns_plan (stu_id s) (pt_plan_id t) d"
    and fresh: "\<not> list_ex (feedback_clash ?row) (db_feedback d)" "ratio_ok (tf_completion_ratio f)"
    and d': "db_feedback d' = db_feedback d @ [?row]" "db_students d' = db_students d"
      "db_weekly_plans d' = db_weekly_plans d" "db_plan_tasks d' = status_set task (tf_completion_ratio f) d"
    and job: "job = None \<longleftrightarrow> \<not> an_requires_agent decision" "\<forall>j. job = Some j \<longrightarrow> j \<in> set (db_background_jobs d')
        \<and> job_keyed u ''AGENT_DIAGNOSIS'' (''feedback-agent:'' @ ae_uuid_str env i) j"
    by (rule feedback_first_run)
  have ok: "feedbacks_ok d'" if "feedbacks_ok d"
    by (rule feedbacks_ok_append [OF that fresh(1) _ d'(1)]) (simp add: fresh(2) new_feedback_def)
  have user: "student_of_user u d' = Some s" using assms(2) d'(2) by (simp add: student_of_user_def)
  have again: "submit_feedback env cfg later u task f' key d' = (Inr (i, no_anomaly, None), d')" for later f'
  proof -
    have "find (feedback_by_key (stu_id s) key) (db_feedback d') = Some ?row"
      using assms(3) by (simp add: d'(1) find_append feedback_by_key_def new_feedback_def)
    then show ?thesis
      using user by (simp add: submit_feedback_def need_student_def andthen_apply ret_apply transaction_def new_feedback_def)
  qed
  have other: "submit_feedback env cfg later u task f' key' d' = (Inl (PyExc ''IntegrityError''), d')"
    if new: "find (feedback_by_key (stu_id s) key') (db_feedback d') = None" for later f' key'
  proof -
    have "t\<lparr>pt_status := feedback_status (tf_completion_ratio f)\<rparr> \<in> set (db_plan_tasks d')"
      unfolding d'(4) status_set_def using t by (intro update_rows_hit) auto
    moreover have "owns_plan (stu_id s) (pt_plan_id t) d'" using t(3) d'(3) by (simp add: owns_plan_def)
    ultimately have "find (\<lambda>t. pt_id t = task \<and> owns_plan (stu_id s) (pt_plan_id t) d') (db_plan_tasks d') \<noteq> None"
      using t(2) unfolding find_None by fastforce
    then obtain t' where t': "find (\<lambda>t. pt_id t = task \<and> owns_plan (stu_id s) (pt_plan_id t) d') (db_plan_tasks d') = Some t'"
      by blast
    moreover have "pt_id t' = task" using find_SomeD [OF t'] by simp
    moreover have "list_ex (feedback_clash (new_feedback later (stu_id s) task f' key' n)) (db_feedback d')" for n
      by (simp add: d'(1) feedback_clash_def new_feedback_def)
    ultimately show ?thesis
      by (simp add: submit_feedback_first [OF user new] feedback_first_def owned_task_def insert_feedback_def
          andthen_apply ret_apply throw_apply require_apply transaction_def)
  qed
  show ?thesis using d'(1,4) ok job again other by blast
qed

subsection \<open>Feedback on learning tasks\<close>

lemma learning_feedback_fields [simp]:
  "fb_student_id (new_learning_feedback now st task f key i) = st"
  "fb_task_id (new_learning_feedback now st task f key i) = task"
  "fb_completion_ratio (new_learning_feedback now st task f key i) = lf_completion_ratio f"
  "fb_feedback_version (new_learning_feedback now st task f key i) = 1"
  "fb_id (revised_feedback f row) = fb_id row" "fb_student_id (revised_feedback f row) = fb_student_id row"
  "fb_task_id (revised_feedback f row) = fb_task_id row"
  "fb_idempotency_key (revised_feedback f row) = fb_idempotency_key row"
  "fb_completion_ratio (revised_feedback f row) = lf_completion_ratio f"
  "fb_feedback_version (revised_feedback f row) = fb_feedback_version row + 1"
  by (simp_all add: new_learning_feedback_def revised_feedback_def)

definition version_saved :: "int option \<Rightarrow> feedback_row \<Rightarrow> bool" where
  "version_saved expected row \<longleftrightarrow> fb_feedback_version row = (case expected of None \<Rightarrow> 1 | Some v \<Rightarrow> v + 1)"

lemma save_feedback_run:
  assumes "save_learning_feedback now st task expected f key d = (Inr row, d')"
  obtains fs where "d' = d\<lparr>db_feedback := fs\<rparr>" and "version_saved expected row"
    and "fb_completion_ratio row = lf_completion_ratio f"
    and "find (feedback_of_task st task) fs = Some row" and "feedbacks_ok d \<longrightarrow> feedbacks_ok d'"
    and "length fs = length (db_feedback d) + (if expected = None then 1 else 0)"
proof (cases "find (feedback_of_task st task) (db_feedback d)")
  case None
  then have none: "expected = None"
    and run: "insert_feedback (new_learning_feedback now st task f key) d = (Inr row, d')"
    using assms by (auto simp: save_learning_feedback_def andthen_apply app_error_def split: if_splits)
  note ins = insert_feedback_run [OF run]
  have "feedback_of_task st task row" using ins by (simp add: feedback_of_task_def)
  then show ?thesis
    using that [of "db_feedback d @ [row]"] ins none None feedbacks_ok_append [of d row d']
    by (auto simp: version_saved_def find_append)
next
  case (Some old)
  then have v: "expected = Some (fb_feedback_version old)" and run: "revise_feedback f old d = (Inr row, d')"
    using assms by (auto simp: save_learning_feedback_def andthen_apply app_error_def split: if_splits)
  have row: "row = revised_feedback f old" and ratio: "ratio_ok (lf_completion_ratio f)"
    and d': "d' = d\<lparr>db_feedback := update_rows (\<lambda>x. fb_id x = fb_id old) (revised_feedback f) (db_feedback d)\<rparr>"
    using run by (auto simp: revise_feedback_def andthen_apply ret_apply require_apply split: if_splits)
  have "find (feedback_of_task st task) (update_rows (\<lambda>x. fb_id x = fb_id old) (revised_feedback f) (db_feedback d)) = Some row"
    using Some by (simp add: row find_update_rows feedback_of_task_def)
  moreover have "feedbacks_ok d'" if "feedbacks_ok d"
    using that ratio by (auto simp: feedbacks_ok_def d' map_update_rows elim!: in_update_rows)
  ultimately show ?thesis
    using that [of "update_rows (\<lambda>x. fb_id x = fb_id old) (revised_feedback f) (db_feedback d)"] d' v row
    by (simp add: version_saved_def)
qed

lemma upsert_run:
  assumes "upsert_learning_feedback env cfg now u task expected f key d = (Inr (row, decision, job), d')"
  obtains s t d1 d2 d3 where "student_of_user u d = Some s"
    and "find (\<lambda>t. pt_id t = task \<and> owns_plan (stu_id s) (pt_plan_id t) d) (db_plan_tasks d) = Some t"
    and "pt_task_type t \<in> set learning_task_types"
    and "save_learning_feedback now (stu_id s) (pt_id t) expected f key d = (Inr row, d1)"
    and "set_task (pt_id t) (\<lambda>t. t\<lparr>pt_status := feedback_status (lf_completion_ratio f), pt_version := pt_version t + 1\<rparr>) d1
        = (Inr (), d2)"
    and "update_learning_efficiency now (stu_id s) t (lf_actual_duration_seconds f) (lf_detail f) d2 = (Inr (), d3)"
    and "decision = learning_anomaly t (lf_completion_ratio f) (lf_actual_duration_seconds f) (lf_detail f)"
    and "diagnosis_of env cfg now u decision (learning_payload env (stu_id s) t decision)
        (''learning-feedback-agent:'' @ ae_uuid_str env (fb_id row) @ '':'' @ show_int (fb_feedback_version row)) d3
        = (Inr job, d')"
  using transaction_InrD [OF assms [unfolded upsert_learning_feedback_def]]
  by (auto simp: need_student_def owned_task_def found_or_def app_error_def Let_def
      elim!: andthen_InrE that split: option.splits if_splits)

text \<open>Feedback on a learning task is versioned. Saving needs the version that the student saw, none
  for the first one, and stores the next version as the only feedback of the task; the task's status
  follows the completion. Any save that expects another version than the stored one is refused and
  writes nothing, so no update is lost.\<close>

theorem learning_feedback_is_versioned:
  assumes "upsert_learning_feedback env cfg now u task expected f key d = (Inr (row, decision, job), d')"
  shows "version_saved expected row \<and> fb_completion_ratio row = lf_completion_ratio f
    \<and> (\<exists>s. student_of_user u d = Some s \<and> find (feedback_of_task (stu_id s) task) (db_feedback d') = Some row)
    \<and> (feedbacks_ok d \<longrightarrow> feedbacks_ok d')
    \<and> length (db_feedback d') = length (db_feedback d) + (if expected = None then 1 else 0)
    \<and> (\<exists>t \<in> set (db_plan_tasks d'). pt_id t = task \<and> pt_status t = feedback_status (lf_completion_ratio f))
    \<and> (job = None \<longleftrightarrow> \<not> an_requires_agent decision)
    \<and> (\<forall>later stale f' key'. stale \<noteq> Some (fb_feedback_version row) \<longrightarrow>
        upsert_learning_feedback env cfg later u task stale f' key' d' = (Inl (AppErr 409 ''VERSION_CONFLICT''), d'))"
proof -
  obtain s t d1 d2 d3 where s: "student_of_user u d = Some s"
    and t: "find (\<lambda>t. pt_id t = task \<and> owns_plan (stu_id s) (pt_plan_id t) d) (db_plan_tasks d) = Some t"
      "pt_task_type t \<in> set learning_task_types"
    and save: "save_learning_feedback now (stu_id s) (pt_id t) expected f key d = (Inr row, d1)"
    and set: "set_task (pt_id t) (\<lambda>t. t\<lparr>pt_status := feedback_status (lf_completion_ratio f), pt_version := pt_version t + 1\<rparr>) d1
        = (Inr (), d2)"
    and eff: "update_learning_efficiency now (stu_id s) t (lf_actual_duration_seconds f) (lf_detail f) d2 = (Inr (), d3)"
    and job: "diagnosis_of env cfg now u decision (learning_payload env (stu_id s) t decision)
        (''learning-feedback-agent:'' @ ae_uuid_str env (fb_id row) @ '':'' @ show_int (fb_feedback_version row)) d3
        = (Inr job, d')"
    by (rule upsert_run [OF assms])
  have [simp]: "pt_id t = task" using find_SomeD [OF t(1)] by simp
  obtain fs where fs: "d1 = d\<lparr>db_feedback := fs\<rparr>" "version_saved expected row"
    "fb_completion_ratio row = lf_completion_ratio f"
    "find (feedback_of_task (stu_id s) task) fs = Some row" "feedbacks_ok d \<longrightarrow> feedbacks_ok d1"
    "length fs = length (db_feedback d) + (if expected = None then 1 else 0)"
    by (rule save_feedback_run [OF save [simplified]])
  let ?g = "\<lambda>t. t\<lparr>pt_status := feedback_status (lf_completion_ratio f), pt_version := pt_version t + 1\<rparr>"
  have d2: "d2 = d\<lparr>db_feedback := fs, db_plan_tasks := update_rows (\<lambda>t. pt_id t = task) ?g (db_plan_tasks d)\<rparr>"
    using set by (auto simp: set_task_def fs(1))
  have "feedback_kept d2 d'" using feedback_kept_trans [OF efficiency_kept(2) [OF eff]] diagnosis_kept [OF job] by blast
  then have kept: "db_feedback d' = fs" "db_students d' = db_students d" "db_weekly_plans d' = db_weekly_plans d"
    "db_plan_tasks d' = update_rows (\<lambda>t. pt_id t = task) ?g (db_plan_tasks d)"
    by (simp_all add: feedback_kept_def d2)
  have ok: "feedbacks_ok d \<longrightarrow> feedbacks_ok d'" using fs(5) by (simp add: feedbacks_ok_def kept(1) fs(1))
  have t': "find (\<lambda>t. pt_id t = task \<and> owns_plan (stu_id s) (pt_plan_id t) d') (db_plan_tasks d') = Some (?g t)"
    using t(1) find_SomeD [OF t(1)] by (simp add: kept(3,4) find_update_rows owns_plan_def)
  have user: "student_of_user u d' = Some s" using s kept(2) by (simp add: student_of_user_def)
  have stale: "upsert_learning_feedback env cfg later u task stale f' key' d' = (Inl (AppErr 409 ''VERSION_CONFLICT''), d')"
    if "stale \<noteq> Some (fb_feedback_version row)" for later stale f' key'
  proof -
    have "pt_id (?g t) = task" using find_SomeD [OF t(1)] by simp
    then show ?thesis
      using that t(2) fs(4) by (simp add: upsert_learning_feedback_def need_student_def user owned_task_def t'
        andthen_apply ret_apply throw_apply save_learning_feedback_def kept(1) app_error_def transaction_def)
  qed
  have "?g t \<in> set (db_plan_tasks d') \<and> pt_id (?g t) = task" using find_SomeD [OF t'] by simp
  then have status: "\<exists>t \<in> set (db_plan_tasks d'). pt_id t = task \<and> pt_status t = feedback_status (lf_completion_ratio f)"
    by (intro bexI [of _ "?g t"]) simp_all
  show ?thesis
    using fs(2-4,6) s ok status stale diagnosis_kept [OF job] kept(1) by blast
qed

subsection \<open>Examples\<close>

theorem attempt_is_recorded_once_witness:
  "\<exists>a d'. record_attempt 9 5 None example_result None ''key'' example_exam_db = (Inr a, d')
     \<and> length (db_question_attempts d') = 2 \<and> assessments_ok d'
     \<and> record_attempt 99 5 None example_result None ''key'' d' = (Inr a, d')"
proof -
  have none: "find (attempt_by_key (stu_id example_student) ''key'') (db_question_attempts example_exam_db) = None"
    by (simp add: attempt_by_key_def exam_attempt_def)
  obtain a d' where run: "record_attempt 9 5 None example_result None ''key'' example_exam_db = (Inr a, d')"
    using none by (simp add: record_attempt_def need_student_def example_exam_user andthen_apply ret_apply
      get_question_def record_first_def insert_attempt_def question_knowledge_def assess_mastery_def
      load_knowledge_state_def assessed_mastery_def new_observation_def mastery_update_def new_knowledge_state_def
      transaction_def Let_def lift_result_apply)
  have "assessments_ok example_exam_db" by (simp add: assessments_ok_def)
  with attempt_is_recorded_once [OF run example_exam_user none] run show ?thesis by auto
qed

definition example_feedback :: task_feedback where
  "example_feedback = \<lparr>tf_completion_ratio = 1, tf_actual_duration_seconds = 60, tf_completed_count = 0,
     tf_correct_count = 0, tf_looked_at_solution = False, tf_perceived_difficulty = None, tf_free_text = None\<rparr>"

definition example_learning_feedback :: learning_feedback where
  "example_learning_feedback = \<lparr>lf_completion_ratio = 1, lf_actual_duration_seconds = 60,
     lf_perceived_difficulty = None, lf_free_text = None, lf_progress_marker = None,
     lf_mastery_self_score = None, lf_detail = []\<rparr>"

lemma example_feedback_rows [simp]:
  "tf_completion_ratio example_feedback = 1" "tf_actual_duration_seconds example_feedback = 60"
  "tf_completed_count example_feedback = 0" "tf_correct_count example_feedback = 0"
  by (simp_all add: example_feedback_def)

lemma example_practice_tables [simp]:
  "db_feedback example_plan_db = []" "db_question_attempts example_plan_db = []"
  "db_efficiency_profiles example_plan_db = []" "db_background_jobs example_plan_db = []"
  "db_plan_task_knowledge example_plan_db = []"
  by (simp_all add: example_plan_db_def example_school_db_def empty_db_def)

lemma example_plan_user: "student_of_user 5 example_plan_db = Some example_student"
  by (simp add: student_of_user_def)

lemma example_task_rows [simp]:
  "pt_id (example_task i st) = i" "pt_plan_id (example_task i st) = 1"
  "pt_estimated_max_minutes (example_task i st) = 60" "pt_effective_minutes (example_task i st) = 60"
  "pt_task_type (example_task i st) = TT_COURSE_LEARNING"
  by (simp_all add: example_task_def)

theorem feedback_is_recorded_once_witness:
  "\<exists>i decision job d'. submit_feedback example_app_env default_settings 9 5 2 example_feedback ''key'' example_plan_db
       = (Inr (i, decision, job), d')
     \<and> length (db_feedback d') = 1 \<and> feedbacks_ok d'
     \<and> submit_feedback example_app_env default_settings 99 5 2 example_feedback ''key'' d' = (Inr (i, no_anomaly, None), d')"
proof -
  have none: "find (feedback_by_key (stu_id example_student) ''key'') (db_feedback example_plan_db) = None" by simp
  have calm: "detect (feedback_signals_of 1 (example_task 2 Task_PENDING) example_feedback example_plan_db) = no_anomaly"
    by (simp add: detect_def feedback_signals_of_def same_error_streak_def recent_attempts_def
      low_completion_days_def no_anomaly_def)
  obtain i decision job d' where run: "submit_feedback example_app_env default_settings 9 5 2 example_feedback ''key''
      example_plan_db = (Inr (i, decision, job), d')"
    unfolding submit_feedback_first [OF example_plan_user none]
    by (simp add: feedback_first_def owned_task_def owns_plan_def andthen_apply ret_apply calm [simplified] insert_feedback_def
      ratio_ok_def set_task_def update_efficiency_def diagnosis_of_def no_anomaly_def
      require_apply transaction_def)
  have "feedbacks_ok example_plan_db" by (simp add: feedbacks_ok_def)
  with feedback_is_recorded_once [OF run example_plan_user none] run show ?thesis by auto
qed

theorem learning_feedback_is_versioned_witness:
  "\<exists>row decision job d'. upsert_learning_feedback example_app_env default_settings 9 5 2 None
       example_learning_feedback ''key'' example_plan_db = (Inr (row, decision, job), d')
     \<and> fb_feedback_version row = 1
     \<and> upsert_learning_feedback example_app_env default_settings 99 5 2 None example_learning_feedback ''key'' d'
         = (Inl (AppErr 409 ''VERSION_CONFLICT''), d')"
proof -
  let ?row = "new_learning_feedback 9 1 2 example_learning_feedback ''key'' (Suc 0)"
  let ?d1 = "example_plan_db\<lparr>db_feedback := [?row], db_plan_tasks := [example_task 1 Task_COMPLETED,
    (example_task 2 Task_PENDING)\<lparr>pt_status := Task_COMPLETED, pt_version := 2\<rparr>]\<rparr>"
  obtain d2 where eff: "add_sample 9 (Suc 0) TT_COURSE_LEARNING None (seconds_per 60 1) ?d1 = (Inr (), d2)"
    by (rule add_sample_run [of ?d1 "seconds_per 60 1" 9 "Suc 0" TT_COURSE_LEARNING None])
      (simp_all add: efficiencies_ok_def seconds_per_positive)
  obtain row decision job d' where run: "upsert_learning_feedback example_app_env default_settings 9 5 2 None
      example_learning_feedback ''key'' example_plan_db = (Inr (row, decision, job), d')"
    using eff
    by (simp add: upsert_learning_feedback_def need_student_def example_plan_user owned_task_def owns_plan_def
      andthen_apply ret_apply learning_task_types_def save_learning_feedback_def insert_feedback_def fresh_id_def
      ratio_ok_def example_learning_feedback_def set_task_def feedback_status_def example_task_def
      update_learning_efficiency_def task_knowledge_id_def int_detail_def dict_get_def learning_anomaly_def
      diagnosis_of_def require_apply transaction_def Let_def)
  from learning_feedback_is_versioned [OF run] run show ?thesis
    by (auto simp: version_saved_def)
qed

end
