(* ===== verification/Mock_Selection.thy ===== *)
theory Mock_Selection
  imports Unlocks Exam_Validator
begin

text \<open>
  The selection of the questions of a mock exam, the pure part of \<^verbatim>\<open>app/application/mock_exams.py\<close>:
  the counts per knowledge point and difficulty, the slots, the best question of every slot and the
  validation of the selection.

  A dictionary keeps its keys in the order of insertion. Ratios and weights are exact.
\<close>

subsection \<open>Counts\<close>

text \<open>\<open>max(xs, key=...)\<close> and \<open>min(xs, key=...)\<close>: the first extremal element.\<close>

fun py_max_by :: "('a \<Rightarrow> pyfloat) \<Rightarrow> 'a list \<Rightarrow> 'a option" where
  "py_max_by f [] = None"
| "py_max_by f (x # xs) = Some (foldl (\<lambda>b y. if f b < f y then y else b) x xs)"

definition py_min_by :: "('a \<Rightarrow> pyfloat) \<Rightarrow> 'a list \<Rightarrow> 'a option" where
  "py_min_by f xs = py_max_by (\<lambda>x. - f x) xs"

definition count_distribution :: "(string, pyfloat) dict \<Rightarrow> int \<Rightarrow> exn + (string, int) dict" where
  "count_distribution ratios amount =
    (let counts = map (\<lambda>(k, v). (k, py_round (v * of_int amount))) ratios;
         difference = amount - sum_list (map snd counts) in
     if difference = 0 then Inr counts
     else case py_max_by snd ratios of
         None \<Rightarrow> Inl (PyExc ''ValueError'')
       | Some (k, v) \<Rightarrow> Inr (AList.update k (dict_get counts k 0 + difference) counts))"

text \<open>\<open>_specialized_target_counts\<close>: the largest remainders get the missing questions; equal
  remainders in the order of the signals. A signal is a code with accuracy and attempts.\<close>

definition signal_weight :: "string \<times> pyfloat \<times> int \<Rightarrow> pyfloat" where
  "signal_weight s = (case s of (code, accuracy, attempts) \<Rightarrow>
     if attempts \<noteq> 0 then 1 + (1 - accuracy) * 3 else 1)"

definition raw_counts :: "(string \<times> pyfloat \<times> int) list \<Rightarrow> int \<Rightarrow> pyfloat list" where
  "raw_counts signals amount = map (\<lambda>s. of_int amount * signal_weight s / sum_list (map signal_weight signals)) signals"

definition remainder_order :: "pyfloat list \<Rightarrow> nat list" where
  "remainder_order raw = sort_desc (\<lambda>i. raw ! i - of_int \<lfloor>raw ! i\<rfloor>) [0..<length raw]"

definition target_counts :: "pyfloat list \<Rightarrow> int \<Rightarrow> int list" where
  "target_counts raw amount =
    (let counts = map floor raw;
         extra = take (nat (amount - sum_list counts)) (remainder_order raw) in
     map (\<lambda>i. counts ! i + (if i \<in> set extra then 1 else 0)) [0..<length raw])"

definition specialized_target_counts :: "(string \<times> pyfloat \<times> int) list \<Rightarrow> int \<Rightarrow> (string, int) dict" where
  "specialized_target_counts signals amount =
    foldl (\<lambda>d (code, count). if 0 < count then AList.update code count d else d) []
      (zip (map fst signals) (target_counts (raw_counts signals amount) amount))"

text \<open>\<open>_expand_balanced_counts\<close>: one of each key per round.\<close>

definition any_left :: "(string, int) dict \<Rightarrow> bool" where
  "any_left cs = list_ex (\<lambda>(k, n). 0 < n) cs"

definition round_values :: "(string, int) dict \<Rightarrow> string list" where
  "round_values cs = map fst (filter (\<lambda>(k, n). 0 < n) cs)"

definition round_rest :: "(string, int) dict \<Rightarrow> (string, int) dict" where
  "round_rest cs = map (\<lambda>(k, n). (k, if 0 < n then n - 1 else n)) cs"

lemma round_decreases: "any_left cs \<Longrightarrow>
    sum_list (map (\<lambda>(k, n). nat n) (round_rest cs)) < sum_list (map (\<lambda>(k, n). nat n) cs)"
proof (induction cs)
  case (Cons c cs)
  obtain k n where c: "c = (k, n)" by fastforce
  have le: "sum_list (map (\<lambda>(k, n). nat n) (round_rest cs)) \<le> sum_list (map (\<lambda>(k, n). nat n) cs)" for cs
    unfolding round_rest_def by (induction cs) auto
  show ?case
  proof (cases "0 < n")
    case True
    then show ?thesis using le [of cs] by (simp add: c round_rest_def)
  next
    case False
    then show ?thesis using Cons by (simp add: c any_left_def round_rest_def)
  qed
qed (simp add: any_left_def)

function expand_balanced_counts :: "(string, int) dict \<Rightarrow> string list" where
  "expand_balanced_counts cs =
    (if any_left cs then round_values cs @ expand_balanced_counts (round_rest cs) else [])"
  by auto
termination by (relation "measure (\<lambda>cs. sum_list (map (\<lambda>(k, n). nat n) cs))") (simp_all add: round_decreases)

declare expand_balanced_counts.simps [simp del]

definition knowledge_slots :: "(string, int) dict \<Rightarrow> string list" where
  "knowledge_slots cs = concat (map (\<lambda>(k, n). replicate (nat n) k) cs)"

subsection \<open>Questions\<close>

type_synonym choice = "question_row \<times> knowledge_node_row \<times> difficulty"

definition best_candidate :: "(question_row \<times> knowledge_node_row) list \<Rightarrow> string \<Rightarrow> string \<Rightarrow> uuid list
    \<Rightarrow> (question_row \<times> knowledge_node_row) option" where
  "best_candidate rows code level excluded =
    (case sort_key (\<lambda>r. q_source_type (fst r) = Source_GENERATED) (sort_key (\<lambda>r. q_code (fst r))
       (filter (\<lambda>r. kn_code (snd r) = code \<and> difficulty_value (q_difficulty (fst r)) = level
          \<and> q_id (fst r) \<notin> set excluded) rows)) of
       [] \<Rightarrow> None | r # _ \<Rightarrow> Some r)"

fun pick_questions :: "(question_row \<times> knowledge_node_row) list \<Rightarrow> uuid list \<Rightarrow> (string \<times> string) list \<Rightarrow> choice list" where
  "pick_questions rows excluded [] = []"
| "pick_questions rows excluded ((code, level) # slots) =
    (case best_candidate rows code level excluded of
       None \<Rightarrow> pick_questions rows excluded slots
     | Some (q, n) \<Rightarrow> (q, n, q_difficulty q) # pick_questions rows (q_id q # excluded) slots)"

text \<open>The valid questions with their knowledge points, ordered by source type and code.\<close>

fun source_type_index :: "source_type \<Rightarrow> nat" where
  "source_type_index Source_TRUE_EXAM = 0"
| "source_type_index Source_TEXTBOOK = 1"
| "source_type_index Source_HANDOUT = 2"
| "source_type_index Source_USER_UPLOAD = 3"
| "source_type_index Source_GENERATED = 4"
| "source_type_index Source_WRONG_QUESTION = 5"
| "source_type_index Source_DEMO = 6"

definition question_rows :: "db \<Rightarrow> (question_row \<times> knowledge_node_row) list" where
  "question_rows d = sort_key (\<lambda>r. source_type_index (q_source_type (fst r))) (sort_key (\<lambda>r. q_code (fst r))
     (concat (map (\<lambda>q. List.map_filter (\<lambda>k. map_option (Pair q) (find (\<lambda>n. kn_id n = k) (db_knowledge_nodes d)))
       (question_knowledge (q_id q) d))
       (filter (\<lambda>q. q_quality_status q = Quality_VALID) (db_questions d)))))"

definition attempted_questions :: "uuid \<Rightarrow> db \<Rightarrow> uuid list" where
  "attempted_questions student d =
     map qa_question_id (filter (\<lambda>a. qa_student_id a = student) (db_question_attempts d))"

text \<open>\<open>zip(..., strict=True)\<close> of slots of different lengths fails.\<close>

definition paired_slots :: "(string, int) dict \<Rightarrow> (string, int) dict \<Rightarrow> exn + (string \<times> string) list" where
  "paired_slots knowledge levels =
    (let ks = knowledge_slots knowledge; ls = expand_balanced_counts levels in
     if length ks \<noteq> length ls then Inl (PyExc ''ValueError'') else Inr (zip ks ls))"

text \<open>\<open>xs[:n]\<close> counts from the end when \<open>n\<close> is negative.\<close>

definition py_take :: "int \<Rightarrow> 'a list \<Rightarrow> 'a list" where
  "py_take n xs = (if 0 \<le> n then take (nat n) xs else take (length xs - nat (- n)) xs)"

definition select_questions :: "uuid \<Rightarrow> (string, int) dict \<Rightarrow> (string, int) dict \<Rightarrow> int \<Rightarrow> db \<Rightarrow> exn + choice list" where
  "select_questions student knowledge levels n d =
    (case paired_slots knowledge levels of
       Inl e \<Rightarrow> Inl e
     | Inr slots \<Rightarrow> Inr (py_take n (pick_questions (question_rows d) (attempted_questions student d) slots)))"

definition missing_pairs :: "(string, int) dict \<Rightarrow> (string, int) dict \<Rightarrow> choice list \<Rightarrow> exn + (string \<times> string) list" where
  "missing_pairs knowledge levels selected =
    (case paired_slots knowledge levels of
       Inl e \<Rightarrow> Inl e
     | Inr slots \<Rightarrow>
         let actual = map (\<lambda>(q, n, l). (kn_code n, difficulty_value l)) selected in
         Inr (concat (map (\<lambda>p. replicate (count_list slots p - count_list actual p) p) (fromkeys slots))))"

subsection \<open>Validation\<close>

text \<open>\<open>Difficulty(key)\<close>.\<close>

fun parse_difficulty :: "string \<Rightarrow> difficulty option" where
  "parse_difficulty s =
    (if s = ''BASIC'' then Some Diff_BASIC else if s = ''MEDIUM'' then Some Diff_MEDIUM
     else if s = ''COMPREHENSIVE'' then Some Diff_COMPREHENSIVE
     else if s = ''TRUE_EXAM'' then Some Diff_TRUE_EXAM else None)"

fun level_ratios :: "(string, int) dict \<Rightarrow> int \<Rightarrow> exn + (difficulty, pyfloat) dict" where
  "level_ratios [] n = Inr []"
| "level_ratios ((k, v) # rest) n =
    (case parse_difficulty k of
       None \<Rightarrow> Inl (PyExc ''ValueError'')
     | Some l \<Rightarrow>
         if n = 0 then Inl (PyExc ''ZeroDivisionError'')
         else case level_ratios rest n of
             Inl e \<Rightarrow> Inl e
           | Inr rs \<Rightarrow> Inr ((l, of_int v / of_int n) # rs))"

definition exam_question_of :: "app_env \<Rightarrow> int \<Rightarrow> choice \<Rightarrow> exam_question" where
  "exam_question_of env score c = (case c of (q, n, l) \<Rightarrow>
     \<lparr>eq_question_id = ae_uuid_str env (q_id q), eq_score = score, eq_difficulty = l,
      eq_knowledge_id = kn_code n, eq_has_answer = (q_answer q \<noteq> []),
      eq_is_valid = (q_quality_status q = Quality_VALID)\<rparr>)"

definition selection_spec :: "exam_profile_row \<Rightarrow> (string, int) dict \<Rightarrow> (difficulty, pyfloat) dict \<Rightarrow> exam_spec" where
  "selection_spec xp knowledge ratios = \<lparr>sp_total_score = xp_total_score xp,
     sp_question_count = xp_question_count xp, sp_difficulty_distribution = ratios,
     sp_knowledge_distribution = map (\<lambda>(k, v). (k, of_int v / of_int (xp_question_count xp))) knowledge,
     sp_distribution_tolerance = 1 / 1000\<rparr>"

definition validate_selection :: "app_env \<Rightarrow> exam_profile_row \<Rightarrow> (string, int) dict \<Rightarrow> (string, int) dict
    \<Rightarrow> choice list \<Rightarrow> exn + exam_validation" where
  "validate_selection env xp knowledge levels selected =
    (case level_ratios levels (xp_question_count xp) of
       Inl e \<Rightarrow> Inl e
     | Inr ratios \<Rightarrow>
         if xp_question_count xp = 0 then Inl (PyExc ''ZeroDivisionError'')
         else Inr (validate_exam (selection_spec xp knowledge ratios)
           (map (exam_question_of env (xp_total_score xp div xp_question_count xp)) selected)))"

end
