(* ===== verification/Question_Generator.thy ===== *)
theory Question_Generator
  imports App_Base
begin

text \<open>
  The generator of question candidates, \<^verbatim>\<open>app/infrastructure/adapters/question_generator.py\<close>. The
  model provider is a parameter: \<open>post\<close> is the answer of a POST of the payload to
  \<^verbatim>\<open>/chat/completions\<close>, after \<open>raise_for_status\<close> and \<open>json()\<close>, and \<open>loads\<close> is \<open>json.loads\<close>. Texts are
  in UTF-8.
\<close>

record generated_content =
  gc_content :: string
  gc_answer :: string
  gc_solution :: string
  gc_model_name :: string

record generator_env =
  ge_post :: "json \<Rightarrow> exn + json"
  ge_loads :: "string \<Rightarrow> exn + json"

definition fake_content :: "string \<Rightarrow> string \<Rightarrow> generated_content" where
  "fake_content name seed = \<lparr>
     gc_content = utf8 [229, 142, 159, 229, 136, 155, 229, 128, 153, 233, 128, 137, 233, 162, 152, 239, 188, 154, 229, 155, 180, 231, 187, 149] @ name @ utf8 [229, 174, 140, 230, 136, 144, 32] @ seed @ utf8 [32, 229, 143, 130, 230, 149, 176, 229, 136, 134, 230, 158, 144, 227, 128, 130],
     gc_answer = utf8 [229, 128, 153, 233, 128, 137, 231, 173, 148, 230, 161, 136, 32] @ seed,
     gc_solution = utf8 [228, 190, 157, 230, 141, 174] @ name @ utf8 [229, 174, 154, 228, 185, 137, 227, 128, 129, 229, 133, 172, 229, 188, 143, 229, 146, 140, 231, 186, 166, 230, 157, 159, 233, 128, 144, 230, 173, 165, 230, 177, 130, 232, 167, 163, 239, 188, 140, 229, 185, 182, 232, 191, 155, 232, 161, 140, 231, 187, 147, 230, 158, 156, 230, 160, 161, 233, 170, 140, 227, 128, 130],
     gc_model_name = ''fake-question-generator-v1''\<rparr>"

definition generation_prompt :: "string \<Rightarrow> string \<Rightarrow> string \<Rightarrow> string" where
  "generation_prompt name level seed =
     utf8 [231, 148, 159, 230, 136, 144, 228, 184, 128, 233, 129, 147, 229, 142, 159, 229, 136, 155, 232, 135, 170, 229, 138, 168, 230, 142, 167, 229, 136, 182, 229, 142, 159, 231, 144, 134, 233, 162, 152, 227, 128, 130, 229, 143, 170, 232, 190, 147, 229, 135, 186, 32, 74, 83, 79, 78, 239, 188, 140, 229, 173, 151, 230, 174, 181, 228, 184, 186, 32, 99, 111, 110, 116, 101, 110, 116, 227, 128, 129, 97, 110, 115, 119, 101, 114, 227, 128, 129, 115, 111, 108, 117, 116, 105, 111, 110, 227, 128, 130]
     @ utf8 [231, 159, 165, 232, 175, 134, 231, 130, 185, 61] @ name @ utf8 [239, 188, 140, 233, 154, 190, 229, 186, 166, 61] @ level @ utf8 [239, 188, 140, 231, 167, 141, 229, 173, 144, 61] @ seed @ utf8 [227, 128, 130]
     @ utf8 [230, 157, 161, 228, 187, 182, 229, 191, 133, 233, 161, 187, 229, 133, 133, 229, 136, 134, 239, 188, 140, 231, 173, 148, 230, 161, 136, 229, 191, 133, 233, 161, 187, 229, 143, 175, 233, 170, 140, 232, 175, 129, 239, 188, 140, 228, 184, 141, 229, 190, 151, 231, 133, 167, 230, 138, 132, 231, 156, 159, 229, 174, 158, 232, 175, 149, 233, 162, 152, 227, 128, 130]"

definition generation_payload :: "settings \<Rightarrow> string \<Rightarrow> json" where
  "generation_payload cfg prompt = JObj [(''model'', JStr (cfg_qwen_plus_model cfg)),
     (''messages'', JList [JObj [(''role'', JStr ''user''), (''content'', JStr prompt)]]),
     (''response_format'', JObj [(''type'', JStr ''json_object'')]), (''temperature'', JFloat (2 / 10))]"

text \<open>\<open>value[key]\<close> and \<open>value[0]\<close> of a JSON value.\<close>

definition json_key :: "string \<Rightarrow> json \<Rightarrow> exn + json" where
  "json_key k j = (case j of
     JObj fs \<Rightarrow> (case map_of fs k of None \<Rightarrow> Inl (PyExc ''KeyError'') | Some v \<Rightarrow> Inr v)
   | _ \<Rightarrow> Inl (PyExc ''TypeError''))"

definition json_head :: "json \<Rightarrow> exn + json" where
  "json_head j = (case j of
     JList [] \<Rightarrow> Inl (PyExc ''IndexError'')
   | JList (x # xs) \<Rightarrow> Inr x
   | JStr [] \<Rightarrow> Inl (PyExc ''IndexError'')
   | JStr (c # cs) \<Rightarrow> Inr (JStr [c])
   | JObj fs \<Rightarrow> Inl (PyExc ''KeyError'')
   | _ \<Rightarrow> Inl (PyExc ''TypeError''))"

definition then_result :: "exn + 'a \<Rightarrow> ('a \<Rightarrow> exn + 'b) \<Rightarrow> exn + 'b" where
  "then_result x f = (case x of Inl e \<Rightarrow> Inl e | Inr a \<Rightarrow> f a)"

definition json_text :: "json \<Rightarrow> exn + string" where
  "json_text j = (case j of JStr s \<Rightarrow> Inr s | _ \<Rightarrow> Inl (PyExc ''TypeError''))"

definition message_content :: "json \<Rightarrow> exn + string" where
  "message_content response =
    then_result (json_key ''choices'' response) (\<lambda>choices.
    then_result (json_head choices) (\<lambda>choice.
    then_result (json_key ''message'' choice) (\<lambda>message.
    then_result (json_key ''content'' message) json_text)))"

definition content_of_body :: "app_env \<Rightarrow> settings \<Rightarrow> json \<Rightarrow> exn + generated_content" where
  "content_of_body env cfg body =
    then_result (json_key ''content'' body) (\<lambda>content.
    then_result (json_key ''answer'' body) (\<lambda>answer.
    then_result (json_key ''solution'' body) (\<lambda>solution.
    Inr \<lparr>gc_content = json_str env content, gc_answer = json_str env answer,
      gc_solution = json_str env solution, gc_model_name = cfg_qwen_plus_model cfg\<rparr>)))"

definition generate_with_qwen :: "app_env \<Rightarrow> settings \<Rightarrow> generator_env \<Rightarrow> string \<Rightarrow> string \<Rightarrow> string
    \<Rightarrow> exn + generated_content" where
  "generate_with_qwen env cfg ge name level seed =
    then_result (ge_post ge (generation_payload cfg (generation_prompt name level seed))) (\<lambda>response.
    then_result (message_content response) (\<lambda>text.
    then_result (ge_loads ge text) (content_of_body env cfg)))"

definition generate_content :: "app_env \<Rightarrow> settings \<Rightarrow> generator_env \<Rightarrow> string \<Rightarrow> string \<Rightarrow> string
    \<Rightarrow> exn + generated_content" where
  "generate_content env cfg ge name level seed =
    (if cfg_use_fake_model cfg then Inr (fake_content name seed)
     else generate_with_qwen env cfg ge name level seed)"

end
