(* ===== verification/Mock_Exams.thy ===== *)
theory Mock_Exams
  imports Mock_Selection Question_Generator Jobs
begin

text \<open>
  Mock exams, \<^verbatim>\<open>app/application/mock_exams.py\<close>: the job that generates one, its submission, and the
  review of the question candidates that the job asks for when questions are missing.
\<close>

subsection \<open>The exam of a job\<close>

definition get_mock :: "uuid \<Rightarrow> db \<Rightarrow> mock_exam_row option" where
  "get_mock i d = find (\<lambda>m. me_id m = i) (db_mock_exams d)"

definition set_mock :: "uuid \<Rightarrow> (mock_exam_row \<Rightarrow> mock_exam_row) \<Rightarrow> unit db_comp" where
  "set_mock i f = modify (\<lambda>d. d\<lparr>db_mock_exams := update_rows (\<lambda>m. me_id m = i) f (db_mock_exams d)\<rparr>)"

definition parse_mock_type :: "string \<Rightarrow> exn + mock_exam_type" where
  "parse_mock_type s = (if s = ''SPECIALIZED'' then Inr Mock_SPECIALIZED
     else if s = ''FULL'' then Inr Mock_FULL else Inl (PyExc ''ValueError''))"

definition latest_profile :: "uuid \<Rightarrow> db \<Rightarrow> exam_profile_row option" where
  "latest_profile school d = (case sort_key (\<lambda>p. - xp_created_at p)
       (filter (\<lambda>p. xp_school_profile_id p = school) (db_exam_profiles d)) of
     [] \<Rightarrow> None | p # _ \<Rightarrow> Some p)"

definition new_mock :: "uuid \<Rightarrow> time \<Rightarrow> uuid \<Rightarrow> exam_profile_row \<Rightarrow> uuid \<Rightarrow> mock_exam_type \<Rightarrow> uuid option
    \<Rightarrow> mock_exam_row" where
  "new_mock i now student xp job mt target = \<lparr>me_id = i, me_student_id = student,
     me_exam_profile_id = xp_id xp, me_job_id = Some job, me_mock_type = mt, me_status = Exam_DRAFT,
     me_target_knowledge_id = target, me_total_score = xp_total_score xp,
     me_duration_minutes = xp_duration_minutes xp, me_strategy_version = ''mock_v1'',
     me_validation_result = None, me_version = 1, me_created_at = now\<rparr>"

definition insert_mock :: "(uuid \<Rightarrow> mock_exam_row) \<Rightarrow> mock_exam_row db_comp" where
  "insert_mock mk =
    andthen (gets (\<lambda>d. mk (fresh_id (map me_id (db_mock_exams d))))) (\<lambda>m.
    andthen (modify (\<lambda>d. d\<lparr>db_mock_exams := db_mock_exams d @ [m]\<rparr>)) (\<lambda>_. ret m))"

definition load_mock :: "app_env \<Rightarrow> background_job_row \<Rightarrow> student_row \<Rightarrow> json \<Rightarrow> mock_exam_row db_comp" where
  "load_mock env j s v =
    andthen (lift_result (parse_uuid env v)) (\<lambda>i.
    andthen (gets (get_mock i)) (\<lambda>m. case m of
        None \<Rightarrow> app_error 404 ''MOCK_EXAM_NOT_FOUND''
      | Some m \<Rightarrow>
          if me_student_id m \<noteq> stu_id s then app_error 404 ''MOCK_EXAM_NOT_FOUND''
          else andthen (set_mock (me_id m) (\<lambda>m. m\<lparr>me_job_id := Some (bj_id j)\<rparr>)) (\<lambda>_.
            ret (m\<lparr>me_job_id := Some (bj_id j)\<rparr>))))"

definition create_mock :: "app_env \<Rightarrow> time \<Rightarrow> background_job_row \<Rightarrow> student_row \<Rightarrow> exam_profile_row
    \<Rightarrow> mock_exam_row db_comp" where
  "create_mock env now j s xp =
    andthen (found_or (map_of (bj_payload j) ''mock_type'') (PyExc ''KeyError'')) (\<lambda>v.
    andthen (lift_result (parse_mock_type (json_str env v))) (\<lambda>mt.
      let target = dict_get (bj_payload j) ''target_knowledge_id'' JNull in
      if mt = Mock_SPECIALIZED \<and> \<not> json_truthy target then app_error 422 ''TARGET_KNOWLEDGE_REQUIRED''
      else
        andthen (if json_truthy target then andthen (lift_result (parse_uuid env target)) (\<lambda>i. ret (Some i))
                 else ret None) (\<lambda>t.
        insert_mock (\<lambda>i. new_mock i now (stu_id s) xp (bj_id j) mt t))))"

definition load_or_create_mock :: "app_env \<Rightarrow> time \<Rightarrow> background_job_row \<Rightarrow> student_row \<Rightarrow> exam_profile_row
    \<Rightarrow> mock_exam_row db_comp" where
  "load_or_create_mock env now j s xp =
    (let v = dict_get (bj_payload j) ''mock_exam_id'' JNull in
     if json_truthy v then load_mock env j s v else create_mock env now j s xp)"

subsection \<open>What the exam should ask\<close>

definition stat_nodes :: "uuid \<Rightarrow> db \<Rightarrow> knowledge_node_row list" where
  "stat_nodes school d = map fst (school_pairs school d)"

definition node_signal :: "uuid \<Rightarrow> uuid \<Rightarrow> db \<Rightarrow> knowledge_node_row \<Rightarrow> pyfloat \<times> int" where
  "node_signal student school d n =
    (case find (profile_of student school (kn_id n)) (db_true_exam_profiles d) of
       None \<Rightarrow> (1, 0) | Some p \<Rightarrow> (tep_accuracy p, tep_attempt_count p))"

text \<open>The weakest nodes first: those with attempts, by accuracy, then by more attempts.\<close>

definition ranked_nodes :: "(knowledge_node_row \<Rightarrow> pyfloat \<times> int) \<Rightarrow> knowledge_node_row list \<Rightarrow> knowledge_node_row list" where
  "ranked_nodes signal ns = sort_key (\<lambda>n. snd (signal n) = 0) (sort_key (\<lambda>n. fst (signal n))
     (sort_key (\<lambda>n. - snd (signal n)) ns))"

definition add_one :: "string \<Rightarrow> (string, int) dict \<Rightarrow> (string, int) dict" where
  "add_one code d = AList.update code (dict_get d code 0 + 1) d"

definition fill_outside :: "string list \<Rightarrow> nat \<Rightarrow> (string, int) dict \<Rightarrow> (string, int) dict" where
  "fill_outside fallback n d = foldl (\<lambda>d i. add_one (fallback ! (i mod length fallback)) d) d [0..<n]"

definition specialized_counts :: "student_row \<Rightarrow> exam_profile_row \<Rightarrow> knowledge_node_row list
    \<Rightarrow> (string, int) dict \<Rightarrow> db \<Rightarrow> (string, int) dict" where
  "specialized_counts s xp scope base d =
    (let signal = node_signal (stu_id s) (xp_school_profile_id xp) d;
         ranked = ranked_nodes signal scope;
         inside = py_round (of_int (xp_question_count xp) * (6 / 10));
         outside = knowledge_slots (filter (\<lambda>(code, n). code \<notin> kn_code ` set scope) base) in
     fill_outside (if outside \<noteq> [] then outside else map kn_code ranked) (nat (xp_question_count xp - inside))
       (specialized_target_counts (map (\<lambda>n. (kn_code n, signal n)) ranked) inside))"

definition node_mastery :: "uuid \<Rightarrow> db \<Rightarrow> uuid \<Rightarrow> pyfloat" where
  "node_mastery student d i = (case find (state_of student i) (db_student_knowledge_states d) of
     None \<Rightarrow> 5 / 10 | Some s \<Rightarrow> ks_mastery_score s)"

definition full_counts :: "student_row \<Rightarrow> (string, int) dict \<Rightarrow> db \<Rightarrow> (string, int) dict" where
  "full_counts s base d =
    (let nodes = filter (\<lambda>n. kn_code n \<in> fst ` set base) (db_knowledge_nodes d);
         mastery = (\<lambda>n. node_mastery (stu_id s) d (kn_id n)) in
     case (py_min_by mastery nodes, py_max_by mastery nodes) of
       (Some weakest, Some strongest) \<Rightarrow>
         if kn_code weakest \<noteq> kn_code strongest \<and> mastery weakest < 6 / 10
         then let base1 = AList.update (kn_code weakest) (min (dict_get base (kn_code weakest) 0 + 1) 2) base in
           AList.update (kn_code strongest) (max 0 (dict_get base1 (kn_code strongest) 0 - 1)) base1
         else base
     | _ \<Rightarrow> base)"

definition desired_knowledge_counts :: "student_row \<Rightarrow> exam_profile_row \<Rightarrow> mock_exam_row
    \<Rightarrow> (string, int) dict db_comp" where
  "desired_knowledge_counts s xp m =
    andthen (lift_result (count_distribution (xp_knowledge_distribution xp) (xp_question_count xp))) (\<lambda>base.
      if me_mock_type m = Mock_SPECIALIZED
      then
        andthen (gets (\<lambda>d. find (\<lambda>n. Some (kn_id n) = me_target_knowledge_id m) (db_knowledge_nodes d))) (\<lambda>target.
        andthen (gets (stat_nodes (xp_school_profile_id xp))) (\<lambda>nodes. case target of
            None \<Rightarrow> app_error 422 ''SPECIALIZED_SCOPE_MUST_BE_CHAPTER''
          | Some n \<Rightarrow>
              if kn_parent_id n \<noteq> None \<or> list_all (\<lambda>x. kn_id x \<noteq> kn_id n) nodes
              then app_error 422 ''SPECIALIZED_SCOPE_MUST_BE_CHAPTER''
              else gets (specialized_counts s xp (chapter_scope nodes n) base)))
      else gets (full_counts s base))"

subsection \<open>Candidates for review\<close>

definition candidate_metadata :: "app_env \<Rightarrow> knowledge_node_row \<Rightarrow> string \<Rightarrow> string \<Rightarrow> jobj" where
  "candidate_metadata env n code level = [(''knowledge_id'', JStr (ae_uuid_str env (kn_id n))),
     (''knowledge_code'', JStr code), (''difficulty'', JStr level),
     (''question_type'', JStr ''GENERATED_CALCULATION''), (''score'', JInt 15),
     (''estimated_duration_minutes'', JInt 18)]"

definition new_candidate :: "app_env \<Rightarrow> time \<Rightarrow> mock_exam_row \<Rightarrow> generated_content \<Rightarrow> jobj \<Rightarrow> string \<Rightarrow> uuid
    \<Rightarrow> generated_question_candidate_row" where
  "new_candidate env now m gc metadata seed i = \<lparr>gqc_id = i,
     gqc_requested_by_student_id = Some (me_student_id m), gqc_mock_exam_id = Some (me_id m),
     gqc_content = gc_content gc, gqc_answer = gc_answer gc, gqc_solution = gc_solution gc,
     gqc_metadata_json = metadata, gqc_generator_model = gc_model_name gc,
     gqc_prompt_version = ''question_generation_v1'', gqc_generation_seed = seed,
     gqc_validation_result = [(''schema_valid'', JBool True), (''answer_present'', JBool (gc_answer gc \<noteq> [])),
       (''requires_human_review'', JBool True)],
     gqc_quality_status = Quality_REVIEW_REQUIRED, gqc_created_at = now\<rparr>"

definition insert_candidate :: "(uuid \<Rightarrow> generated_question_candidate_row) \<Rightarrow> unit db_comp" where
  "insert_candidate mk = modify (\<lambda>d. d\<lparr>db_generated_question_candidates :=
     db_generated_question_candidates d @ [mk (fresh_id (map gqc_id (db_generated_question_candidates d)))]\<rparr>)"

text \<open>\<open>uuid.hex[:8]\<close> is the first group of \<open>str(uuid)\<close>.\<close>

definition generation_seed :: "app_env \<Rightarrow> mock_exam_row \<Rightarrow> nat \<Rightarrow> string" where
  "generation_seed env m k = take 8 (ae_uuid_str env (me_id m)) @ ''-'' @ show_nat (k + 1)"

definition node_of_code :: "string \<Rightarrow> db \<Rightarrow> knowledge_node_row option" where
  "node_of_code code d = find (\<lambda>n. kn_code n = code) (rev (db_knowledge_nodes d))"

definition request_candidate :: "app_env \<Rightarrow> (string \<Rightarrow> string \<Rightarrow> string \<Rightarrow> exn + generated_content) \<Rightarrow> time
    \<Rightarrow> mock_exam_row \<Rightarrow> nat \<times> string \<times> string \<Rightarrow> unit db_comp" where
  "request_candidate env generate now m p = (case p of (k, code, level) \<Rightarrow>
     andthen (gets (node_of_code code)) (\<lambda>n.
     andthen (found_or n (PyExc ''KeyError'')) (\<lambda>n.
     andthen (lift_result (generate (kn_name n) level (generation_seed env m k))) (\<lambda>gc.
     insert_candidate (new_candidate env now m gc (candidate_metadata env n code level) (generation_seed env m k))))))"

definition awaits_review :: "uuid \<Rightarrow> generated_question_candidate_row \<Rightarrow> bool" where
  "awaits_review mock c \<longleftrightarrow> gqc_mock_exam_id c = Some mock \<and> gqc_quality_status c = Quality_REVIEW_REQUIRED"

definition create_review_candidates :: "app_env \<Rightarrow> (string \<Rightarrow> string \<Rightarrow> string \<Rightarrow> exn + generated_content) \<Rightarrow> time
    \<Rightarrow> mock_exam_row \<Rightarrow> (string \<times> string) list \<Rightarrow> unit db_comp" where
  "create_review_candidates env generate now m pairs =
    andthen (gets (\<lambda>d. list_ex (awaits_review (me_id m)) (db_generated_question_candidates d))) (\<lambda>waiting.
      if waiting then ret ()
      else for_each (request_candidate env generate now m) (enumerate 0 pairs))"

text \<open>\<open>missing or [(first knowledge, first difficulty)]\<close>; \<open>next\<close> of an empty dictionary ends the coroutine.\<close>

definition review_pairs :: "(string, int) dict \<Rightarrow> (string, int) dict \<Rightarrow> (string \<times> string) list
    \<Rightarrow> exn + (string \<times> string) list" where
  "review_pairs knowledge levels missing =
    (if missing \<noteq> [] then Inr missing
     else case (knowledge, levels) of
         ((k, _) # _, (l, _) # _) \<Rightarrow> Inr [(k, l)]
       | _ \<Rightarrow> Inl (PyExc ''RuntimeError''))"

subsection \<open>The generation job\<close>

definition job_outcome :: "app_env \<Rightarrow> mock_exam_row \<Rightarrow> exam_status \<Rightarrow> jobj" where
  "job_outcome env m st = [(''mock_exam_id'', JStr (ae_uuid_str env (me_id m))), (''status'', JStr (exam_status_value st))]"

definition validation_json :: "exam_validation \<Rightarrow> jobj" where
  "validation_json v = [(''valid'', JBool (ev_valid v)), (''errors'', JList (map JStr (ev_errors v)))]"

definition wait_for_review :: "app_env \<Rightarrow> (string \<Rightarrow> string \<Rightarrow> string \<Rightarrow> exn + generated_content) \<Rightarrow> time
    \<Rightarrow> background_job_row \<Rightarrow> mock_exam_row \<Rightarrow> (string, int) dict \<Rightarrow> (string, int) dict \<Rightarrow> choice list
    \<Rightarrow> exam_validation \<Rightarrow> unit db_comp" where
  "wait_for_review env generate now j m knowledge levels selected v =
    andthen (lift_result (missing_pairs knowledge levels selected)) (\<lambda>missing.
    andthen (lift_result (review_pairs knowledge levels missing)) (\<lambda>pairs.
    andthen (create_review_candidates env generate now m pairs) (\<lambda>_.
    andthen (set_mock (me_id m) (\<lambda>m. m\<lparr>me_status := Exam_WAITING_FOR_REVIEW,
      me_validation_result := Some (validation_json v)\<rparr>)) (\<lambda>_.
    set_job (bj_id j) (\<lambda>j. j\<lparr>bj_status := Job_WAITING_FOR_REVIEW,
      bj_result := Some (job_outcome env m Exam_WAITING_FOR_REVIEW)\<rparr>)))))"

definition mock_question :: "uuid \<Rightarrow> int \<Rightarrow> nat \<times> choice \<Rightarrow> mock_exam_question_row" where
  "mock_question mock score p = (case p of (k, q, n, l) \<Rightarrow>
     \<lparr>meq_mock_exam_id = mock, meq_question_id = q_id q, meq_sequence = int k, meq_score = score\<rparr>)"

definition publish_mock :: "app_env \<Rightarrow> background_job_row \<Rightarrow> exam_profile_row \<Rightarrow> mock_exam_row \<Rightarrow> choice list
    \<Rightarrow> unit db_comp" where
  "publish_mock env j xp m selected =
    andthen (modify (\<lambda>d. d\<lparr>db_mock_exam_questions := db_mock_exam_questions d @
      map (mock_question (me_id m) (xp_total_score xp div xp_question_count xp)) (enumerate 1 selected)\<rparr>)) (\<lambda>_.
    andthen (set_mock (me_id m) (\<lambda>m. m\<lparr>me_status := Exam_PUBLISHED,
      me_validation_result := Some [(''valid'', JBool True), (''errors'', JList [])]\<rparr>)) (\<lambda>_.
    set_job (bj_id j) (\<lambda>j. j\<lparr>bj_result := Some (job_outcome env m Exam_PUBLISHED)\<rparr>)))"

definition generate_questions :: "app_env \<Rightarrow> (string \<Rightarrow> string \<Rightarrow> string \<Rightarrow> exn + generated_content) \<Rightarrow> time
    \<Rightarrow> background_job_row \<Rightarrow> student_row \<Rightarrow> exam_profile_row \<Rightarrow> mock_exam_row \<Rightarrow> unit db_comp" where
  "generate_questions env generate now j s xp m =
    andthen (modify (\<lambda>d. d\<lparr>db_mock_exam_questions :=
      filter (\<lambda>l. meq_mock_exam_id l \<noteq> me_id m) (db_mock_exam_questions d)\<rparr>)) (\<lambda>_.
    andthen (desired_knowledge_counts s xp m) (\<lambda>knowledge.
    andthen (lift_result (count_distribution (xp_difficulty_distribution xp) (xp_question_count xp))) (\<lambda>levels.
    andthen (gets (select_questions (stu_id s) knowledge levels (xp_question_count xp))) (\<lambda>selected.
    andthen (lift_result selected) (\<lambda>selected.
    andthen (lift_result (validate_selection env xp knowledge levels selected)) (\<lambda>v.
      if ev_valid v then publish_mock env j xp m selected
      else wait_for_review env generate now j m knowledge levels selected v))))))"

definition execute_mock_job :: "app_env \<Rightarrow> (string \<Rightarrow> string \<Rightarrow> string \<Rightarrow> exn + generated_content) \<Rightarrow> time
    \<Rightarrow> background_job_row \<Rightarrow> unit db_comp" where
  "execute_mock_job env generate now j =
    (case bj_user_id j of
       None \<Rightarrow> app_error 422 ''JOB_HAS_NO_OWNER''
     | Some u \<Rightarrow>
         andthen (gets (student_of_user u)) (\<lambda>s. case s of
             None \<Rightarrow> app_error 422 ''STUDENT_PROFILE_INCOMPLETE''
           | Some s \<Rightarrow> (case stu_target_school_id s of
               None \<Rightarrow> app_error 422 ''STUDENT_PROFILE_INCOMPLETE''
             | Some school \<Rightarrow>
                 andthen (gets (latest_profile school)) (\<lambda>xp.
                 andthen (found_or xp (AppErr 422 ''EXAM_PROFILE_NOT_FOUND'')) (\<lambda>xp.
                 andthen (load_or_create_mock env now j s xp) (\<lambda>m.
                 generate_questions env generate now j s xp m))))))"

subsection \<open>Submission\<close>

definition owned_mock :: "uuid \<Rightarrow> uuid \<Rightarrow> db \<Rightarrow> mock_exam_row option" where
  "owned_mock u i d = find (\<lambda>m. me_id m = i
     \<and> list_ex (\<lambda>s. stu_id s = me_student_id m \<and> stu_user_id s = u) (db_students d)) (db_mock_exams d)"

definition mock_questions :: "uuid \<Rightarrow> db \<Rightarrow> (mock_exam_question_row \<times> question_row) list" where
  "mock_questions i d = List.map_filter (\<lambda>l. map_option (Pair l) (get_question (meq_question_id l) d))
     (sort_key meq_sequence (filter (\<lambda>l. meq_mock_exam_id l = i) (db_mock_exam_questions d)))"

definition owned_exam :: "uuid \<Rightarrow> uuid \<Rightarrow> (mock_exam_row \<times> (mock_exam_question_row \<times> question_row) list) db_comp" where
  "owned_exam u i =
    andthen (gets (owned_mock u i)) (\<lambda>m.
    andthen (found_or m (AppErr 404 ''MOCK_EXAM_NOT_FOUND'')) (\<lambda>m.
    gets (\<lambda>d. (m, mock_questions (me_id m) d))))"

definition mock_attempt_keyed :: "uuid \<Rightarrow> string \<Rightarrow> mock_exam_attempt_row \<Rightarrow> bool" where
  "mock_attempt_keyed student key a \<longleftrightarrow> mea_student_id a = student \<and> mea_idempotency_key a = key"

definition mock_score :: "(mock_exam_question_row \<times> question_row) list \<Rightarrow> exam_result list \<Rightarrow> pyfloat" where
  "mock_score assigned rs = sum_list (map (\<lambda>r. case find (\<lambda>(l, q). q_id q = xr_question_id r) assigned of
     None \<Rightarrow> 0 | Some (l, q) \<Rightarrow> xr_score_ratio r * of_int (meq_score l)) rs)"

definition new_mock_attempt :: "time \<Rightarrow> mock_exam_row \<Rightarrow> exam_result list \<Rightarrow> pyfloat \<Rightarrow> string \<Rightarrow> uuid
    \<Rightarrow> mock_exam_attempt_row" where
  "new_mock_attempt now m rs score key i = \<lparr>mea_id = i, mea_student_id = me_student_id m,
     mea_mock_exam_id = me_id m, mea_score = score, mea_duration_seconds = sum_of xr_duration_seconds rs,
     mea_idempotency_key = key, mea_created_at = now\<rparr>"

definition insert_mock_attempt :: "(uuid \<Rightarrow> mock_exam_attempt_row) \<Rightarrow> mock_exam_attempt_row db_comp" where
  "insert_mock_attempt mk =
    andthen (gets (\<lambda>d. mk (fresh_id (map mea_id (db_mock_exam_attempts d))))) (\<lambda>a.
    andthen (modify (\<lambda>d. d\<lparr>db_mock_exam_attempts := db_mock_exam_attempts d @ [a]\<rparr>)) (\<lambda>_. ret a))"

definition mock_question_attempt :: "app_env \<Rightarrow> time \<Rightarrow> mock_exam_row \<Rightarrow> uuid \<Rightarrow> exam_result \<Rightarrow> uuid
    \<Rightarrow> question_attempt_row" where
  "mock_question_attempt env now m overall r i = \<lparr>qa_id = i, qa_student_id = me_student_id m,
     qa_question_id = xr_question_id r, qa_plan_task_id = None, qa_true_exam_attempt_id = None,
     qa_chapter_true_exam_session_id = None, qa_mock_exam_id = Some (me_id m), qa_context = Ctx_MOCK_EXAM,
     qa_started_at = None, qa_finished_at = Some now,
     qa_actual_duration_seconds = xr_duration_seconds r, qa_score_ratio = xr_score_ratio r,
     qa_looked_at_solution = xr_looked_at_solution r, qa_self_difficulty = None,
     qa_student_error_note = xr_error_note r, qa_agent_error_type = exam_error_type (xr_score_ratio r),
     qa_idempotency_key = ''mock:'' @ ae_uuid_str env overall @ '':'' @ ae_uuid_str env (xr_question_id r),
     qa_created_at = now\<rparr>"

definition record_mock_question :: "app_env \<Rightarrow> time \<Rightarrow> mock_exam_row \<Rightarrow> uuid
    \<Rightarrow> (mock_exam_question_row \<times> question_row) list \<Rightarrow> exam_result \<Rightarrow> unit db_comp" where
  "record_mock_question env now m overall assigned r =
    andthen (found_or (find (\<lambda>(l, q). q_id q = xr_question_id r) assigned) (PyExc ''KeyError'')) (\<lambda>(l, q).
    andthen (add_attempt (mock_question_attempt env now m overall r)) (\<lambda>_.
    andthen (gets (question_knowledge (q_id q))) (\<lambda>ks.
    for_each (\<lambda>k. assess_mastery now (me_student_id m) k (xr_score_ratio r) (q_difficulty q)
      (xr_looked_at_solution r) (Some now) id) ks)))"

definition to_mock_stage :: "student_row \<Rightarrow> student_row" where
  "to_mock_stage s = s\<lparr>stu_current_stage := Stage_MOCK_EXAM, stu_version := stu_version s + 1\<rparr>"

definition submit_mock_first :: "app_env \<Rightarrow> time \<Rightarrow> mock_exam_row
    \<Rightarrow> (mock_exam_question_row \<times> question_row) list \<Rightarrow> exam_result list \<Rightarrow> string
    \<Rightarrow> mock_exam_attempt_row db_comp" where
  "submit_mock_first env now m assigned rs key =
    andthen (insert_mock_attempt (new_mock_attempt now m rs (mock_score assigned rs) key)) (\<lambda>a.
    andthen (for_each (record_mock_question env now m (mea_id a) assigned) rs) (\<lambda>_.
    andthen (set_mock (me_id m) (\<lambda>m. m\<lparr>me_status := Exam_COMPLETED\<rparr>)) (\<lambda>_.
    andthen (set_student (me_student_id m) to_mock_stage) (\<lambda>_. ret a))))"

definition submit_mock_exam :: "app_env \<Rightarrow> time \<Rightarrow> uuid \<Rightarrow> uuid \<Rightarrow> exam_result list \<Rightarrow> string
    \<Rightarrow> mock_exam_attempt_row db_comp" where
  "submit_mock_exam env now u mock_id rs key = transaction
    (andthen (owned_exam u mock_id) (\<lambda>(m, assigned).
       if me_status m \<notin> {Exam_PUBLISHED, Exam_IN_PROGRESS} then app_error 409 ''MOCK_EXAM_NOT_PUBLISHED''
       else
         andthen (gets (\<lambda>d. find (mock_attempt_keyed (me_student_id m) key) (db_mock_exam_attempts d))) (\<lambda>existing.
           case existing of
             Some a \<Rightarrow> ret a
           | None \<Rightarrow>
               if set (map xr_question_id rs) \<noteq> set (map (\<lambda>(l, q). q_id q) assigned)
                  \<or> length rs \<noteq> length (fromkeys (map (\<lambda>(l, q). q_id q) assigned))
               then app_error 422 ''INCOMPLETE_EXAM_SUBMISSION''
               else submit_mock_first env now m assigned rs key)))"

subsection \<open>The review of candidates\<close>

definition pending_candidates :: "generated_question_candidate_row list db_comp" where
  "pending_candidates = gets (\<lambda>d. take 100 (sort_key gqc_created_at
     (filter (\<lambda>c. gqc_quality_status c = Quality_REVIEW_REQUIRED) (db_generated_question_candidates d))))"

definition metadata_field :: "generated_question_candidate_row \<Rightarrow> string \<Rightarrow> json db_comp" where
  "metadata_field c k = found_or (map_of (gqc_metadata_json c) k) (PyExc ''KeyError'')"

definition generated_question :: "app_env \<Rightarrow> time \<Rightarrow> generated_question_candidate_row \<Rightarrow> string \<Rightarrow> difficulty
    \<Rightarrow> int \<Rightarrow> int \<Rightarrow> uuid \<Rightarrow> question_row" where
  "generated_question env now c kind level score minutes i = \<lparr>q_id = i,
     q_code = ''GEN-'' @ ae_uuid_str env (gqc_id c), q_source_type = Source_GENERATED,
     q_school_profile_id = None, q_year = None, q_question_type = kind, q_difficulty = level,
     q_score = score, q_estimated_duration_minutes = minutes, q_content = gqc_content c,
     q_solution = gqc_solution c, q_answer = gqc_answer c,
     q_provenance = [(''candidate_id'', JStr (ae_uuid_str env (gqc_id c)))],
     q_quality_status = Quality_VALID, q_content_version = ''generated_v1'', q_created_at = now\<rparr>"

definition insert_question :: "(uuid \<Rightarrow> question_row) \<Rightarrow> uuid \<Rightarrow> unit db_comp" where
  "insert_question mk knowledge =
    andthen (gets (\<lambda>d. mk (fresh_id (map q_id (db_questions d))))) (\<lambda>q.
    modify (\<lambda>d. d\<lparr>db_questions := db_questions d @ [q], db_question_knowledge := db_question_knowledge d @
      [\<lparr>qk_question_id = q_id q, qk_knowledge_id = knowledge, qk_is_primary = True\<rparr>]\<rparr>))"

definition publish_candidate :: "app_env \<Rightarrow> time \<Rightarrow> generated_question_candidate_row \<Rightarrow> unit db_comp" where
  "publish_candidate env now c =
    andthen (metadata_field c ''knowledge_id'') (\<lambda>v.
    andthen (lift_result (parse_uuid env v)) (\<lambda>knowledge.
    andthen (metadata_field c ''question_type'') (\<lambda>kind.
    andthen (metadata_field c ''difficulty'') (\<lambda>level.
    andthen (found_or (parse_difficulty (json_str env level)) (PyExc ''ValueError'')) (\<lambda>level.
    andthen (metadata_field c ''score'') (\<lambda>score.
    andthen (lift_result (json_int env score)) (\<lambda>score.
    andthen (metadata_field c ''estimated_duration_minutes'') (\<lambda>minutes.
    andthen (lift_result (json_int env minutes)) (\<lambda>minutes.
    insert_question (generated_question env now c (json_str env kind) level score minutes) knowledge)))))))))"

definition set_candidate :: "uuid \<Rightarrow> question_quality \<Rightarrow> unit db_comp" where
  "set_candidate i quality = modify (\<lambda>d. d\<lparr>db_generated_question_candidates :=
     update_rows (\<lambda>c. gqc_id c = i) (\<lambda>c. c\<lparr>gqc_quality_status := quality\<rparr>) (db_generated_question_candidates d)\<rparr>)"

definition add_decision :: "time \<Rightarrow> uuid \<Rightarrow> uuid \<Rightarrow> string \<Rightarrow> string option \<Rightarrow> unit db_comp" where
  "add_decision now reviewer candidate decision reason = modify (\<lambda>d. d\<lparr>db_review_decisions :=
     db_review_decisions d @ [\<lparr>rd_id = fresh_id (map rd_id (db_review_decisions d)), rd_candidate_id = candidate,
       rd_reviewer_user_id = reviewer, rd_decision = decision, rd_reason = reason, rd_created_at = now\<rparr>]\<rparr>)"

definition resume_if_ready :: "app_env \<Rightarrow> settings \<Rightarrow> time \<Rightarrow> generated_question_candidate_row \<Rightarrow> string
    \<Rightarrow> background_job_row option db_comp" where
  "resume_if_ready env cfg now c key = (case gqc_mock_exam_id c of
     None \<Rightarrow> ret None
   | Some mock \<Rightarrow>
       andthen (gets (\<lambda>d. list_ex (\<lambda>x. awaits_review mock x \<and> gqc_id x \<noteq> gqc_id c)
         (db_generated_question_candidates d))) (\<lambda>waiting.
         if waiting then ret None
         else
           andthen (gets (get_mock mock)) (\<lambda>m. case m of
               None \<Rightarrow> ret None
             | Some m \<Rightarrow>
                 andthen (gets (get_student (me_student_id m))) (\<lambda>s. case s of
                     None \<Rightarrow> ret None
                   | Some s \<Rightarrow>
                       andthen (create_job env cfg now (stu_user_id s) ''GENERATE_MOCK''
                         [(''mock_exam_id'', JStr (ae_uuid_str env (me_id m)))] (key @ '':resume'')) (\<lambda>j.
                       ret (Some j))))))"

definition decide_candidate :: "app_env \<Rightarrow> settings \<Rightarrow> time \<Rightarrow> uuid \<Rightarrow> uuid \<Rightarrow> bool \<Rightarrow> string option \<Rightarrow> string
    \<Rightarrow> (generated_question_candidate_row \<times> background_job_row option) db_comp" where
  "decide_candidate env cfg now reviewer i approve reason key = transaction
    (andthen (gets (\<lambda>d. find (\<lambda>c. gqc_id c = i) (db_generated_question_candidates d))) (\<lambda>c.
     andthen (found_or c (AppErr 404 ''GENERATED_QUESTION_NOT_FOUND'')) (\<lambda>c.
       if gqc_quality_status c \<noteq> Quality_REVIEW_REQUIRED then ret (c, None)
       else
         let quality = (if approve then Quality_VALID else Quality_REJECTED) in
         andthen (if approve then publish_candidate env now c else ret ()) (\<lambda>_.
         andthen (set_candidate (gqc_id c) quality) (\<lambda>_.
         andthen (add_decision now reviewer (gqc_id c) (if approve then ''APPROVED'' else ''REJECTED'') reason) (\<lambda>_.
         andthen (resume_if_ready env cfg now c key) (\<lambda>j.
         ret (c\<lparr>gqc_quality_status := quality\<rparr>, j))))))))"

end
