(* ===== verification/Mock_Properties.thy ===== *)
theory Mock_Properties
  imports Mock_Exams Practice_Properties
begin

text \<open>
  The properties of mock exams: the counts and slots of a selection, the generation job, the
  submission and the review of candidates.
\<close>

subsection \<open>Counts and slots\<close>

definition positive_sum :: "(string, int) dict \<Rightarrow> nat" where
  "positive_sum cs = sum_list (map (\<lambda>(k, n). nat n) cs)"

lemma length_knowledge_slots: "length (knowledge_slots cs) = positive_sum cs"
  by (induction cs) (auto simp: knowledge_slots_def positive_sum_def)

lemma round_sum: "positive_sum cs = length (round_values cs) + positive_sum (round_rest cs)"
  by (induction cs) (auto simp: positive_sum_def round_values_def round_rest_def)

lemma no_rounds: "\<not> any_left cs \<Longrightarrow> positive_sum cs = 0"
  by (induction cs) (auto simp: any_left_def positive_sum_def)

lemma length_expand: "length (expand_balanced_counts cs) = positive_sum cs"
proof (induction cs rule: expand_balanced_counts.induct)
  case (1 cs)
  show ?case
  proof (cases "any_left cs")
    case True
    then show ?thesis using 1 round_sum [of cs] by (subst expand_balanced_counts.simps) simp
  next
    case False
    then show ?thesis using no_rounds by (subst expand_balanced_counts.simps) simp
  qed
qed

lemma count_knowledge_slots:
  "distinct (map fst cs) \<Longrightarrow> count_list (knowledge_slots cs) k = nat (dict_get cs k 0)"
proof (induction cs)
  case (Cons c cs)
  obtain a n where c: "c = (a, n)" by fastforce
  have same: "count_list (replicate m a) k = (if a = k then m else 0)" for m by (induction m) auto
  have "dict_get cs k 0 = 0" if "k \<notin> fst ` set cs"
  proof -
    have "map_of cs k = None" using that by (simp add: map_of_eq_None_iff)
    then show ?thesis by (simp add: dict_get_def)
  qed
  moreover have "dict_get (c # cs) k 0 = (if a = k then n else dict_get cs k 0)" by (simp add: c dict_get_def)
  moreover have "count_list (knowledge_slots (c # cs)) k = (if a = k then nat n else 0) + count_list (knowledge_slots cs) k"
    by (simp add: c knowledge_slots_def same)
  ultimately show ?case using Cons c by auto
qed (simp add: knowledge_slots_def dict_get_def)

lemma map_of_round: "map_of (round_rest cs) k = map_option (\<lambda>n. if 0 < n then n - 1 else n) (map_of cs k)"
  by (simp add: round_rest_def map_of_map)

lemma count_round_values:
  "distinct (map fst cs) \<Longrightarrow> count_list (round_values cs) k = (if 0 < dict_get cs k 0 then 1 else 0)"
proof (induction cs)
  case (Cons c cs)
  obtain a n where c: "c = (a, n)" by fastforce
  have "count_list (round_values cs) a = 0" if "a \<notin> fst ` set cs"
    using that by (auto simp: round_values_def count_list_0_iff)
  then show ?case using Cons c by (auto simp: round_values_def dict_get_def)
qed (simp add: round_values_def dict_get_def)

lemma count_expand:
  "distinct (map fst cs) \<Longrightarrow> count_list (expand_balanced_counts cs) k = nat (dict_get cs k 0)"
proof (induction cs rule: expand_balanced_counts.induct)
  case (1 cs)
  show ?case
  proof (cases "any_left cs")
    case True
    have "map fst (round_rest cs) = map fst cs" by (induction cs) (auto simp: round_rest_def)
    then have "count_list (expand_balanced_counts (round_rest cs)) k = nat (dict_get (round_rest cs) k 0)"
      using 1 True by simp
    then show ?thesis
      using True count_round_values [OF 1(2), of k]
      by (subst expand_balanced_counts.simps) (auto simp: dict_get_def map_of_round split: option.splits)
  next
    case False
    then have "dict_get cs k 0 \<le> 0"
      by (auto simp: any_left_def list_ex_iff dict_get_def not_less split: option.splits dest!: map_of_SomeD)
    then show ?thesis using False by (subst expand_balanced_counts.simps) simp
  qed
qed

text \<open>The slots of a selection ask each knowledge point and each difficulty exactly as often as its
  count says, and a negative count as zero. Both sides have the same number of slots exactly when the
  positive counts have the same sum; otherwise the selection fails with a value error and no exam can
  be generated.\<close>

theorem slots_follow_counts:
  assumes "distinct (map fst knowledge)" and "distinct (map fst levels)"
  shows "(case paired_slots knowledge levels of
      Inr slots \<Rightarrow> positive_sum knowledge = positive_sum levels \<and> length slots = positive_sum knowledge
        \<and> (\<forall>k. count_list (map fst slots) k = nat (dict_get knowledge k 0))
        \<and> (\<forall>l. count_list (map snd slots) l = nat (dict_get levels l 0))
    | Inl e \<Rightarrow> e = PyExc ''ValueError'' \<and> positive_sum knowledge \<noteq> positive_sum levels
        \<and> select_questions student knowledge levels n d = Inl e)"
  using count_knowledge_slots [OF assms(1)] count_expand [OF assms(2)]
  by (auto simp: paired_slots_def Let_def length_knowledge_slots length_expand select_questions_def)

subsection \<open>The shares of the weak points\<close>

lemma floor_sum:
  assumes "raw \<noteq> []"
  shows "of_int (sum_list (map floor raw)) \<le> (sum_list raw :: real)"
    and "sum_list raw < of_int (sum_list (map floor raw)) + of_nat (length raw)"
proof -
  show "of_int (sum_list (map floor raw)) \<le> sum_list raw"
    by (induction raw) (simp_all add: add_mono)
  show "sum_list raw < of_int (sum_list (map floor raw)) + of_nat (length raw)"
    using assms
  proof (induction raw)
    case (Cons x raw)
    have x: "x < of_int \<lfloor>x\<rfloor> + 1" by linarith
    show ?case
    proof (cases "raw = []")
      case True
      then show ?thesis using x by simp
    next
      case False
      then show ?thesis using add_strict_mono [OF x Cons.IH] by (simp add: algebra_simps)
    qed
  qed simp
qed

lemma sum_indicator:
  "distinct is \<Longrightarrow> set is \<subseteq> {..<n} \<Longrightarrow> sum_list (map (\<lambda>i. if i \<in> set is then 1 else 0) [0..<n]) = int (length is)"
proof -
  assume is_ok: "distinct is" "set is \<subseteq> {..<n}"
  have "sum_list (map (\<lambda>i. if i \<in> set is then 1 else 0 :: int) [0..<n]) = (\<Sum>i<n. if i \<in> set is then 1 else 0)"
    by (simp add: interv_sum_list_conv_sum_set_nat atLeast0LessThan)
  also have "\<dots> = int (card ({..<n} \<inter> set is))" by (simp add: sum.If_cases)
  also have "{..<n} \<inter> set is = set is" using is_ok(2) by blast
  finally show ?thesis using is_ok(1) by (simp add: distinct_card)
qed

lemma target_counts_sum:
  assumes "raw \<noteq> []" and "sum_list raw = of_int n"
  shows "sum_list (target_counts raw n) = n"
proof -
  let ?cs = "map floor raw" and ?m = "length raw"
  have n: "sum_list ?cs \<le> n" "n < sum_list ?cs + int ?m"
    using floor_sum [OF assms(1)] unfolding assms(2) by linarith+
  define extra where "extra = take (nat (n - sum_list ?cs)) (remainder_order raw)"
  have order: "distinct (remainder_order raw)" "set (remainder_order raw) = {..<?m}" "length (remainder_order raw) = ?m"
    by (auto simp: remainder_order_def sort_desc_def)
  have extra: "distinct extra" "set extra \<subseteq> {..<?m}" "int (length extra) = n - sum_list ?cs"
    using order n set_take_subset [of "nat (n - sum_list ?cs)" "remainder_order raw"] by (auto simp: extra_def)
  have "target_counts raw n = map (\<lambda>i. ?cs ! i + (if i \<in> set extra then 1 else 0)) [0..<?m]"
    by (simp add: target_counts_def Let_def extra_def)
  then have "sum_list (target_counts raw n) = sum_list (map ((!) ?cs) [0..<?m])
      + sum_list (map (\<lambda>i. if i \<in> set extra then 1 else 0) [0..<?m])"
    by (simp only: sum_list_addf)
  also have "map ((!) ?cs) [0..<?m] = ?cs" using map_nth [of ?cs] by simp
  finally show ?thesis using sum_indicator [OF extra(1,2)] extra(3) by simp
qed

lemma target_counts_near:
  assumes "i < length raw"
  shows "of_int (target_counts raw n ! i) \<le> raw ! i + 1" and "raw ! i - 1 < of_int (target_counts raw n ! i)"
proof -
  have "target_counts raw n ! i = \<lfloor>raw ! i\<rfloor> \<or> target_counts raw n ! i = \<lfloor>raw ! i\<rfloor> + 1"
    using assms by (auto simp: target_counts_def Let_def)
  then show "of_int (target_counts raw n ! i) \<le> raw ! i + 1" "raw ! i - 1 < of_int (target_counts raw n ! i)"
    by (elim disjE; simp; linarith)+
qed

lemma target_counts_mono:
  assumes "i < length raw" and "j < length raw" and "raw ! j < raw ! i"
  shows "target_counts raw n ! j \<le> target_counts raw n ! i"
proof -
  let ?frac = "\<lambda>i. raw ! i - of_int \<lfloor>raw ! i\<rfloor>" and ?k = "nat (n - sum_list (map floor raw))"
  have count_is: "target_counts raw n ! k = \<lfloor>raw ! k\<rfloor> + (if k \<in> set (take ?k (remainder_order raw)) then 1 else 0)"
    if "k < length raw" for k
    using that by (simp add: target_counts_def Let_def)
  have le: "\<lfloor>raw ! j\<rfloor> \<le> \<lfloor>raw ! i\<rfloor>" using assms(3) by (simp add: floor_mono)
  have "i \<in> set (take ?k (remainder_order raw))"
    if "\<lfloor>raw ! j\<rfloor> = \<lfloor>raw ! i\<rfloor>" "j \<in> set (take ?k (remainder_order raw))"
  proof (rule ccontr)
    assume out: "i \<notin> set (take ?k (remainder_order raw))"
    define front where "front = take ?k (remainder_order raw)"
    define rear where "rear = drop ?k (remainder_order raw)"
    have parts: "front @ rear = remainder_order raw" by (simp add: front_def rear_def)
    have "i \<in> set (front @ rear)" using assms(1) unfolding parts by (simp add: remainder_order_def)
    then have "i \<in> set rear" using out by (simp add: front_def)
    moreover have "sorted_wrt (\<lambda>x y. ?frac y \<le> ?frac x) (front @ rear)"
      unfolding parts remainder_order_def by (rule sorted_sort_desc)
    moreover have "j \<in> set front" using that(2) by (simp add: front_def)
    ultimately have "?frac i \<le> ?frac j" by (simp only: sorted_wrt_append)
    then show False using that(1) assms(3) by simp
  qed
  then show ?thesis
    using le count_is [OF assms(1)] count_is [OF assms(2)] by (cases "\<lfloor>raw ! j\<rfloor> = \<lfloor>raw ! i\<rfloor>") auto
qed

lemma foldl_fresh:
  assumes "distinct (map fst ps)" and "fst ` set ps \<inter> fst ` set d = {}"
  shows "foldl (\<lambda>d (code, count). if 0 < count then AList.update code count d else d) d ps =
    d @ filter (\<lambda>(code, count). (0::int) < count) ps"
  using assms
proof (induction ps arbitrary: d)
  case (Cons p ps)
  obtain c n where p: "p = (c, n)" by fastforce
  have "map_of d c = None" using Cons.prems(2) p by (auto simp: map_of_eq_None_iff)
  then have step: "AList.update c n d = d @ [(c, n)]" by (rule update_fresh)
  have "fst ` set ps \<inter> fst ` set (d @ [(c, n)]) = {}" "fst ` set ps \<inter> fst ` set d = {}"
    using Cons.prems p by auto
  then show ?case
    using Cons.IH [of "d @ [(c, n)]"] Cons.IH [of d] Cons.prems(1) step p by auto
qed simp

lemma signal_weight_pos: "fst (snd s) \<le> 1 \<Longrightarrow> 1 \<le> signal_weight s"
  by (cases s) (simp add: signal_weight_def)

lemma sum_positive:
  "(\<And>c n. (c, n) \<in> set ps \<Longrightarrow> (0::int) \<le> n) \<Longrightarrow>
    sum_list (map snd (filter (\<lambda>(c, n). 0 < n) ps)) = sum_list (map snd ps)"
proof (induction ps)
  case (Cons p ps)
  obtain c n where p: "p = (c, n)" by fastforce
  have "0 \<le> n" using Cons.prems [of c n] p by simp
  then show ?case using Cons p by (cases "0 < n") auto
qed simp

text \<open>C27. The questions of a specialized exam are shared out by weakness. The counts add up to the
  number of questions, every knowledge point is within one question of its exact share, and a weaker
  one (of larger weight) never gets fewer questions than a stronger one.\<close>

theorem weak_points_get_their_share:
  fixes signals :: "(string \<times> pyfloat \<times> int) list" and n :: int
  defines "shares \<equiv> specialized_target_counts signals n"
  assumes "signals \<noteq> []" and "distinct (map fst signals)" and "0 \<le> n" and "\<forall>s \<in> set signals. fst (snd s) \<le> 1"
  shows "sum_list (map snd shares) = n
    \<and> (\<forall>s \<in> set signals. \<bar>of_int (dict_get shares (fst s) 0)
          - of_int n * signal_weight s / sum_list (map signal_weight signals)\<bar> \<le> 1)
    \<and> (\<forall>s \<in> set signals. \<forall>t \<in> set signals. signal_weight t < signal_weight s \<longrightarrow>
          dict_get shares (fst t) 0 \<le> dict_get shares (fst s) 0)"
proof -
  let ?W = "sum_list (map signal_weight signals)" and ?raw = "raw_counts signals n"
  define cs where "cs = target_counts ?raw n"
  have weight: "1 \<le> signal_weight s" if "s \<in> set signals" for s using assms(5) that signal_weight_pos by blast
  have "0 < ?W"
  proof -
    obtain s rest where s: "signals = s # rest" using assms(2) by (cases signals) auto
    have "0 \<le> sum_list (map signal_weight rest)"
      using weight by (intro sum_list_nonneg) (auto simp: s intro: order_trans [OF zero_le_one])
    then show ?thesis using weight [of s] by (simp add: s)
  qed
  have raw_sum: "sum_list ?raw = of_int n"
  proof -
    have "sum_list ?raw = of_int n / ?W * ?W"
      unfolding raw_counts_def by (simp flip: sum_list_const_mult)
    then show ?thesis using \<open>0 < ?W\<close> by simp
  qed
  have len: "length cs = length signals" by (simp add: cs_def target_counts_def Let_def raw_counts_def)
  have raw_nth: "?raw ! i = of_int n * signal_weight (signals ! i) / ?W" if "i < length signals" for i
    using that by (simp add: raw_counts_def)
  have nonneg: "0 \<le> cs ! i" if "i < length signals" for i
  proof -
    have "0 \<le> ?raw ! i"
      using weight [OF nth_mem [OF that]] assms(4) \<open>0 < ?W\<close> by (simp add: raw_nth [OF that])
    then have "-1 < (of_int (cs ! i) :: real)"
      using target_counts_near(2) [of i ?raw n] that by (simp add: cs_def raw_counts_def)
    then show ?thesis by linarith
  qed
  have shares: "shares = filter (\<lambda>(code, count). 0 < count) (zip (map fst signals) cs)"
    unfolding shares_def specialized_target_counts_def cs_def [symmetric]
    using foldl_fresh [of "zip (map fst signals) cs" "[]"] assms(3) len by simp
  have get: "dict_get shares (fst (signals ! i)) 0 = cs ! i" if "i < length signals" for i
  proof (cases "0 < cs ! i")
    case True
    then have "(fst (signals ! i), cs ! i) \<in> set shares"
      using that len by (force simp: shares set_zip)
    moreover have "distinct (map fst shares)"
      unfolding shares by (rule distinct_map_filter) (use assms(3) len in simp)
    ultimately show ?thesis by (simp add: dict_get_def)
  next
    case False
    have "map_of shares (fst (signals ! i)) = None"
    proof (rule ccontr)
      assume "map_of shares (fst (signals ! i)) \<noteq> None"
      then obtain m where "(fst (signals ! i), m) \<in> set shares" by (auto dest: map_of_SomeD)
      then obtain k where k: "k < length signals" "fst (signals ! k) = fst (signals ! i)" "0 < cs ! k"
        using len by (auto simp: shares set_zip)
      then have "k = i" using assms(3) that by (auto simp: distinct_conv_nth)
      then show False using False k(3) by simp
    qed
    then show ?thesis using False nonneg [OF that] by (simp add: dict_get_def)
  qed
  have "sum_list (map snd shares) = sum_list (map snd (zip (map fst signals) cs))"
    unfolding shares by (rule sum_positive) (use nonneg len in \<open>auto simp: set_zip\<close>)
  also have "map snd (zip (map fst signals) cs) = cs" using len by simp
  also have "sum_list cs = n"
    unfolding cs_def by (rule target_counts_sum [OF _ raw_sum]) (simp add: raw_counts_def assms(2))
  finally have total_is: "sum_list (map snd shares) = n" .
  have near: "\<bar>of_int (dict_get shares (fst s) 0) - of_int n * signal_weight s / ?W\<bar> \<le> 1" if s: "s \<in> set signals" for s
  proof -
    obtain i where i: "i < length signals" "signals ! i = s" using s by (auto simp: in_set_conv_nth)
    then show ?thesis
      using get [OF i(1)] raw_nth [OF i(1)] target_counts_near [of i ?raw n]
      by (simp add: cs_def raw_counts_def abs_le_iff)
  qed
  have mono: "dict_get shares (fst t) 0 \<le> dict_get shares (fst s) 0"
    if st: "s \<in> set signals" "t \<in> set signals" "signal_weight t < signal_weight s" for s t
  proof (cases "n = 0")
    case True
    have "dict_get shares (fst r) 0 = 0" if r: "r \<in> set signals" for r
    proof -
      obtain i where i: "i < length signals" "signals ! i = r" using r by (auto simp: in_set_conv_nth)
      have "\<And>x. x \<in> set cs \<Longrightarrow> 0 \<le> x" using nonneg len by (auto simp: in_set_conv_nth)
      then have "\<forall>x \<in> set cs. x = 0" using sum_list_nonneg_eq_0_iff [of cs] \<open>sum_list cs = n\<close> True by simp
      moreover have "cs ! i \<in> set cs" using i len by simp
      ultimately have "cs ! i = 0" by blast
      then show ?thesis using get [OF i(1)] i(2) by simp
    qed
    then show ?thesis using st by simp
  next
    case False
    obtain i j where ij: "i < length signals" "signals ! i = s" "j < length signals" "signals ! j = t"
      using st by (auto simp: in_set_conv_nth)
    have "of_int n * signal_weight t < of_int n * signal_weight s"
      using st(3) False assms(4) by (intro mult_strict_left_mono) auto
    then have "?raw ! j < ?raw ! i"
      using ij \<open>0 < ?W\<close> by (simp add: raw_nth divide_strict_right_mono)
    then show ?thesis
      using target_counts_mono [of i ?raw j n] ij get [OF ij(1)] get [OF ij(3)] by (simp add: cs_def raw_counts_def)
  qed
  show ?thesis using total_is near mono by blast
qed

theorem slots_follow_counts_witness:
  "count_list (map fst (projr (paired_slots [(''A'', 2)] [(''X'', 1), (''Y'', 1)]))) ''A'' = 2"
proof -
  have "paired_slots [(''A'', 2)] [(''X'', 1), (''Y'', 1)] = Inr [(''A'', ''X''), (''A'', ''Y'')]"
    by (simp add: paired_slots_def Let_def knowledge_slots_def expand_balanced_counts.simps any_left_def
      round_values_def round_rest_def numeral_2_eq_2)
  then show ?thesis
    using slots_follow_counts [of "[(''A'', 2)]" "[(''X'', 1), (''Y'', 1)]"] by (simp add: dict_get_def)
qed

theorem weak_points_get_their_share_witness:
  "sum_list (map snd (specialized_target_counts [(''A'', 1 / 2, 2), (''B'', 1, 4)] 3)) = 3
    \<and> dict_get (specialized_target_counts [(''A'', 1 / 2, 2), (''B'', 1, 4)] 3) ''B'' 0
      \<le> dict_get (specialized_target_counts [(''A'', 1 / 2, 2), (''B'', 1, 4)] 3) ''A'' 0"
  using weak_points_get_their_share [of "[(''A'', 1 / 2, 2), (''B'', 1, 4)]" 3] by (simp add: signal_weight_def)

subsection \<open>Generation\<close>

lemma best_candidate_in:
  assumes "best_candidate rows code level excluded = Some (q, n)"
  shows "(q, n) \<in> set rows \<and> q_id q \<notin> set excluded \<and> kn_code n = code \<and> difficulty_value (q_difficulty q) = level"
proof -
  define xs where "xs = sort_key (\<lambda>r. q_source_type (fst r) = Source_GENERATED) (sort_key (\<lambda>r. q_code (fst r))
       (filter (\<lambda>r. kn_code (snd r) = code \<and> difficulty_value (q_difficulty (fst r)) = level
          \<and> q_id (fst r) \<notin> set excluded) rows))"
  have "(case xs of [] \<Rightarrow> None | r # _ \<Rightarrow> Some r) = Some (q, n)"
    using assms by (simp add: best_candidate_def xs_def)
  then have "(q, n) \<in> set xs" by (cases xs) auto
  then show ?thesis by (simp add: xs_def)
qed

lemma pick_questions_in:
  "c \<in> set (pick_questions rows excluded slots) \<Longrightarrow>
    (fst c, fst (snd c)) \<in> set rows \<and> snd (snd c) = q_difficulty (fst c) \<and> q_id (fst c) \<notin> set excluded"
proof (induction rows excluded slots rule: pick_questions.induct)
  case (2 rows excluded code level slots)
  show ?case
  proof (cases "best_candidate rows code level excluded")
    case None
    then show ?thesis using 2 by simp
  next
    case (Some r)
    obtain q n where r: "r = (q, n)" by fastforce
    then show ?thesis
      using "2.prems" "2.IH"(2) [OF Some r [symmetric]] best_candidate_in [of rows code level excluded q n] Some by auto
  qed
qed simp

lemma pick_questions_distinct: "distinct (map (\<lambda>c. q_id (fst c)) (pick_questions rows excluded slots))"
proof (induction rows excluded slots rule: pick_questions.induct)
  case (2 rows excluded code level slots)
  show ?case
  proof (cases "best_candidate rows code level excluded")
    case (Some r)
    obtain q n where r: "r = (q, n)" by fastforce
    have "q_id q \<notin> (\<lambda>c. q_id (fst c)) ` set (pick_questions rows (q_id q # excluded) slots)"
      using pick_questions_in [of _ rows "q_id q # excluded" slots] by fastforce
    then show ?thesis using "2.IH"(2) [OF Some r [symmetric]] Some r by simp
  qed (use 2 in simp)
qed simp

lemma question_rows_in: "(q, n) \<in> set (question_rows d) \<Longrightarrow> q \<in> set (db_questions d) \<and> q_quality_status q = Quality_VALID"
  by (auto simp: question_rows_def List.map_filter_def)

lemma set_py_take: "set (py_take n xs) \<subseteq> set xs"
  by (simp add: py_take_def set_take_subset)

lemma distinct_py_take: "distinct (map f xs) \<Longrightarrow> distinct (map f (py_take n xs))"
  by (simp add: py_take_def take_map [symmetric])

lemma select_questions_ok:
  assumes "select_questions student knowledge levels n d = Inr selected"
  shows "distinct (map (\<lambda>c. q_id (fst c)) selected)"
    and "c \<in> set selected \<Longrightarrow> fst c \<in> set (db_questions d) \<and> q_quality_status (fst c) = Quality_VALID
      \<and> q_id (fst c) \<notin> set (attempted_questions student d)"
proof -
  obtain slots where sel: "selected = py_take n (pick_questions (question_rows d) (attempted_questions student d) slots)"
    using assms by (auto simp: select_questions_def split: sum.splits)
  show "distinct (map (\<lambda>c. q_id (fst c)) selected)"
    unfolding sel by (rule distinct_py_take [OF pick_questions_distinct])
  assume "c \<in> set selected"
  then have "c \<in> set (pick_questions (question_rows d) (attempted_questions student d) slots)"
    unfolding sel by (rule subsetD [OF set_py_take])
  from pick_questions_in [OF this]
  have "(fst c, fst (snd c)) \<in> set (question_rows d)" "q_id (fst c) \<notin> set (attempted_questions student d)" by simp_all
  then show "fst c \<in> set (db_questions d) \<and> q_quality_status (fst c) = Quality_VALID
      \<and> q_id (fst c) \<notin> set (attempted_questions student d)"
    using question_rows_in [of "fst c" "fst (snd c)" d] by simp
qed

lemma valid_examD:
  assumes "ev_valid (validate_exam spec qs)"
  shows "int (length qs) = sp_question_count spec" and "distinct (map eq_question_id qs)"
    and "sum_of eq_score qs = sp_total_score spec" and "\<forall>q \<in> set qs. eq_has_answer q"
  using assms validate_exam_errors [of spec qs]
  by (simp_all add: exam_errors_def list_all_iff split: if_splits)

text \<open>A published exam asks the right number of different, valid and answered questions, none of which
  the student has tried, numbered from one, and its scores add up to the total score.\<close>

definition exam_complete :: "uuid \<Rightarrow> exam_profile_row \<Rightarrow> uuid \<Rightarrow> db \<Rightarrow> db \<Rightarrow> bool" where
  "exam_complete student xp mock d d' \<longleftrightarrow>
    (let ls = filter (\<lambda>l. meq_mock_exam_id l = mock) (db_mock_exam_questions d') in
     int (length ls) = xp_question_count xp \<and> distinct (map meq_question_id ls)
     \<and> map meq_sequence ls = [1..int (length ls)] \<and> sum_of meq_score ls = xp_total_score xp
     \<and> (\<forall>l \<in> set ls. meq_question_id l \<notin> set (attempted_questions student d)
         \<and> (\<exists>q \<in> set (db_questions d). q_id q = meq_question_id l \<and> q_quality_status q = Quality_VALID
             \<and> q_answer q \<noteq> [])))"

lemma validate_selection_InrD:
  assumes "validate_selection env xp knowledge levels selected = Inr v" and "ev_valid v"
  shows "int (length selected) = xp_question_count xp" and "\<forall>c \<in> set selected. q_answer (fst c) \<noteq> []"
    and "int (length selected) * (xp_total_score xp div xp_question_count xp) = xp_total_score xp"
proof -
  obtain ratios where v: "v = validate_exam (selection_spec xp knowledge ratios)
      (map (exam_question_of env (xp_total_score xp div xp_question_count xp)) selected)"
    using assms(1) by (auto simp: validate_selection_def split: sum.splits if_splits)
  note ok = valid_examD [OF assms(2) [unfolded v]]
  show "int (length selected) = xp_question_count xp" using ok(1) by (simp add: selection_spec_def)
  show "\<forall>c \<in> set selected. q_answer (fst c) \<noteq> []" using ok(4) by (auto simp: exam_question_of_def)
  have "sum_of eq_score (map (exam_question_of env k) selected) = int (length selected) * k" for k
    by (induction selected) (auto simp: exam_question_of_def algebra_simps split: prod.splits)
  then show "int (length selected) * (xp_total_score xp div xp_question_count xp) = xp_total_score xp"
    using ok(3) by (simp add: selection_spec_def)
qed

lemma mock_links_complete:
  assumes "validate_selection env xp knowledge levels selected = Inr v" and "ev_valid v"
    and "select_questions student knowledge levels (xp_question_count xp) d1 = Inr selected"
    and "db_questions d1 = db_questions d" and "db_question_attempts d1 = db_question_attempts d"
    and "filter (\<lambda>l. meq_mock_exam_id l = mock) (db_mock_exam_questions d') =
      map (mock_question mock (xp_total_score xp div xp_question_count xp)) (enumerate 1 selected)"
  shows "exam_complete student xp mock d d'"
proof -
  let ?k = "xp_total_score xp div xp_question_count xp"
  let ?ls = "map (mock_question mock ?k) (enumerate 1 selected)"
  note valid = validate_selection_InrD [OF assms(1,2)]
  have row: "meq_question_id (mock_question mock ?k p) = q_id (fst (snd p))"
    "meq_sequence (mock_question mock ?k p) = int (fst p)" "meq_score (mock_question mock ?k p) = ?k" for p
    by (simp_all add: mock_question_def split: prod.splits)
  have ids: "map meq_question_id ?ls = map (\<lambda>c. q_id (fst c)) selected"
  proof -
    have "map meq_question_id ?ls = map (\<lambda>c. q_id (fst c)) (map snd (enumerate 1 selected))"
      by (simp only: map_map comp_def row)
    then show ?thesis by (simp only: map_snd_enumerate)
  qed
  have "map meq_sequence ?ls = map (\<lambda>p. int (fst p)) (enumerate 1 selected)" by (simp only: map_map comp_def row)
  also have "\<dots> = [1..int (length selected)]" by (rule sequence_numbers)
  finally have seq: "map meq_sequence ?ls = [1..int (length ?ls)]" by (simp only: length_map length_enumerate)
  have "sum_of meq_score ?ls = int (length selected) * ?k"
  proof -
    have "sum_of meq_score ?ls = sum_list (map (\<lambda>_. ?k) (enumerate 1 selected))" by (simp only: map_map comp_def row)
    then show ?thesis by (simp add: sum_list_triv)
  qed
  then have score: "sum_of meq_score ?ls = xp_total_score xp" using valid(3) by simp
  have each: "meq_question_id l \<notin> set (attempted_questions student d)
      \<and> (\<exists>q \<in> set (db_questions d). q_id q = meq_question_id l \<and> q_quality_status q = Quality_VALID \<and> q_answer q \<noteq> [])"
    if l: "l \<in> set ?ls" for l
  proof -
    have "meq_question_id l \<in> set (map (\<lambda>c. q_id (fst c)) selected)"
      unfolding ids [symmetric] by (simp only: set_map) (rule imageI [OF l [unfolded set_map]])
    then obtain c where c: "c \<in> set selected" "meq_question_id l = q_id (fst c)" by auto
    then show ?thesis
      using select_questions_ok(2) [OF assms(3) c(1)] valid(2) assms(4,5) by (auto simp: attempted_questions_def)
  qed
  show ?thesis
    unfolding exam_complete_def assms(6) Let_def
    using valid(1) select_questions_ok(1) [OF assms(3)] ids seq score each by (metis length_map length_enumerate)
qed

end
