(* ===== verification/Mock_Exam_Properties.thy ===== *)
theory Mock_Exam_Properties
  imports Mock_Properties
begin

text \<open>
  The properties of the operations on mock exams: the generation job, the submission and the review of
  question candidates.
\<close>

subsection \<open>The generation job\<close>

lemma count_distribution_reads: "lift_result (count_distribution ratios n) d = (x, d') \<Longrightarrow> d' = d"
  by (simp add: lift_result_apply)

lemma desired_counts_reads: "desired_knowledge_counts s xp m d = (x, d') \<Longrightarrow> d' = d"
  by (auto simp: desired_knowledge_counts_def andthen_apply lift_result_apply app_error_def throw_apply
      split: sum.splits if_splits option.splits)

definition owned_by_job :: "background_job_row \<Rightarrow> student_row \<Rightarrow> uuid \<Rightarrow> mock_exam_row \<Rightarrow> bool" where
  "owned_by_job j s i m \<longleftrightarrow> me_id m = i \<and> me_job_id m = Some (bj_id j) \<and> me_student_id m = stu_id s"

text \<open>The exam of the job is in the table, linked to the job; nothing but the exams has changed.\<close>

lemma load_or_create_run:
  assumes "load_or_create_mock env now j s xp d = (Inr m, d')"
  shows "(\<exists>m' \<in> set (db_mock_exams d'). owned_by_job j s (me_id m) m') \<and> me_student_id m = stu_id s
    \<and> (\<exists>ms. d' = d\<lparr>db_mock_exams := ms\<rparr>)"
proof (cases "json_truthy (dict_get (bj_payload j) ''mock_exam_id'' JNull)")
  case True
  let ?link = "\<lambda>m. m\<lparr>me_job_id := Some (bj_id j)\<rparr>"
  obtain i m0 where m0: "get_mock i d = Some m0" "me_student_id m0 = stu_id s" "m = ?link m0"
    and d': "d' = d\<lparr>db_mock_exams := update_rows (\<lambda>x. me_id x = me_id m0) ?link (db_mock_exams d)\<rparr>"
    using assms True
    by (auto simp: load_or_create_mock_def Let_def load_mock_def app_error_def set_mock_def
        elim!: andthen_InrE split: option.splits if_splits)
  have "m0 \<in> set (db_mock_exams d)" using find_SomeD [OF m0(1) [unfolded get_mock_def]] by simp
  from update_rows_hit [OF this, of "\<lambda>x. me_id x = me_id m0" ?link]
  have "?link m0 \<in> set (db_mock_exams d')" by (simp add: d')
  moreover have "owned_by_job j s (me_id m) (?link m0)" using m0 by (simp add: owned_by_job_def)
  ultimately show ?thesis using m0 d' by auto
next
  case False
  obtain mt t where "m = new_mock (fresh_id (map me_id (db_mock_exams d))) now (stu_id s) xp (bj_id j) mt t"
    and "d' = d\<lparr>db_mock_exams := db_mock_exams d @ [m]\<rparr>"
    using assms False
    by (auto simp: load_or_create_mock_def Let_def create_mock_def app_error_def insert_mock_def
        elim!: andthen_InrE dest!: found_or_InrD split: option.splits if_splits)
  then show ?thesis by (auto simp: owned_by_job_def new_mock_def)
qed

text \<open>A run of requests appends one candidate that awaits review for every pair.\<close>

lemma request_candidate_run:
  assumes "request_candidate env generate now m p d = (Inr (), d')"
  shows "\<exists>c. d' = d\<lparr>db_generated_question_candidates := db_generated_question_candidates d @ [c]\<rparr>
    \<and> awaits_review (me_id m) c"
  using assms
  by (cases p) (auto simp: request_candidate_def insert_candidate_def awaits_review_def new_candidate_def
      elim!: andthen_InrE dest!: found_or_InrD)

lemma request_candidates_run:
  assumes "for_each (request_candidate env generate now m) ps d = (Inr (), d')"
  shows "\<exists>cs. d' = d\<lparr>db_generated_question_candidates := db_generated_question_candidates d @ cs\<rparr>
    \<and> length cs = length ps \<and> (\<forall>c \<in> set cs. awaits_review (me_id m) c)"
  using assms
proof (induction ps arbitrary: d)
  case (Cons p ps)
  obtain d1 where one: "request_candidate env generate now m p d = (Inr (), d1)"
    and rest: "for_each (request_candidate env generate now m) ps d1 = (Inr (), d')"
    using Cons.prems by (auto elim: andthen_InrE)
  obtain c where c: "d1 = d\<lparr>db_generated_question_candidates := db_generated_question_candidates d @ [c]\<rparr>"
    "awaits_review (me_id m) c"
    using request_candidate_run [OF one] by (elim exE conjE)
  obtain cs where "d' = d1\<lparr>db_generated_question_candidates := db_generated_question_candidates d1 @ cs\<rparr>"
    "length cs = length ps" "\<forall>c \<in> set cs. awaits_review (me_id m) c"
    using Cons.IH [OF rest] by (elim exE conjE)
  then show ?case using c by (intro exI [of _ "c # cs"]) simp
qed (auto simp: ret_apply intro: exI [of _ "[]"])

lemma create_candidates_run:
  assumes "create_review_candidates env generate now m pairs d = (Inr (), d')" and "pairs \<noteq> []"
  shows "(\<exists>cs. d' = d\<lparr>db_generated_question_candidates := cs\<rparr>)
    \<and> list_ex (awaits_review (me_id m)) (db_generated_question_candidates d')"
proof (cases "list_ex (awaits_review (me_id m)) (db_generated_question_candidates d)")
  case True
  then have "d' = d" using assms(1) by (simp add: create_review_candidates_def andthen_apply ret_apply)
  then show ?thesis using True by (auto intro: exI [of _ "db_generated_question_candidates d"])
next
  case False
  then have "for_each (request_candidate env generate now m) (enumerate 0 pairs) d = (Inr (), d')"
    using assms(1) by (simp add: create_review_candidates_def andthen_apply)
  from request_candidates_run [OF this]
  obtain cs where d': "d' = d\<lparr>db_generated_question_candidates := db_generated_question_candidates d @ cs\<rparr>"
    and cs: "length cs = length pairs" "\<forall>c \<in> set cs. awaits_review (me_id m) c"
    by (elim exE conjE) simp
  then have "list_ex (awaits_review (me_id m)) cs" using assms(2) by (cases cs) simp_all
  then show ?thesis by (simp add: d') (rule exI, rule refl)
qed

lemma review_pairs_nonempty: "review_pairs knowledge levels missing = Inr pairs \<Longrightarrow> pairs \<noteq> []"
  by (auto simp: review_pairs_def split: if_splits list.splits)

definition exam_outcome :: "background_job_row \<Rightarrow> student_row \<Rightarrow> exam_profile_row \<Rightarrow> db \<Rightarrow> db \<Rightarrow> mock_exam_row \<Rightarrow> bool" where
  "exam_outcome j s xp d d' m \<longleftrightarrow> me_job_id m = Some (bj_id j) \<and> me_student_id m = stu_id s
     \<and> (if me_status m = Exam_PUBLISHED then exam_complete (stu_id s) xp (me_id m) d d'
        else me_status m = Exam_WAITING_FOR_REVIEW
          \<and> list_ex (awaits_review (me_id m)) (db_generated_question_candidates d')
          \<and> (\<forall>b \<in> set (db_background_jobs d'). bj_id b = bj_id j \<longrightarrow> bj_status b = Job_WAITING_FOR_REVIEW))"

lemma publish_mock_run:
  assumes "publish_mock env j xp m selected d = (Inr (), d')"
    and "m0 \<in> set (db_mock_exams d)" and "owned_by_job j s (me_id m) m0"
  shows "\<exists>m1 \<in> set (db_mock_exams d'). owned_by_job j s (me_id m) m1 \<and> me_status m1 = Exam_PUBLISHED"
    and "db_mock_exam_questions d' = db_mock_exam_questions d @
      map (mock_question (me_id m) (xp_total_score xp div xp_question_count xp)) (enumerate 1 selected)"
proof -
  let ?f = "\<lambda>m. m\<lparr>me_status := Exam_PUBLISHED,
      me_validation_result := Some [(''valid'', JBool True), (''errors'', JList [])]\<rparr>"
  have "?f m0 \<in> set (update_rows (\<lambda>x. me_id x = me_id m) ?f (db_mock_exams d))"
    by (rule update_rows_hit) (use assms(2,3) in \<open>simp_all add: owned_by_job_def\<close>)
  moreover have "db_mock_exams d' = update_rows (\<lambda>x. me_id x = me_id m) ?f (db_mock_exams d)"
    using assms(1) by (auto simp: publish_mock_def set_mock_def set_job_def andthen_apply)
  moreover have "owned_by_job j s (me_id m) (?f m0)" using assms(3) by (simp add: owned_by_job_def)
  ultimately show "\<exists>m1 \<in> set (db_mock_exams d'). owned_by_job j s (me_id m) m1 \<and> me_status m1 = Exam_PUBLISHED"
    by (intro bexI [of _ "?f m0"]) simp_all
  show "db_mock_exam_questions d' = db_mock_exam_questions d @
      map (mock_question (me_id m) (xp_total_score xp div xp_question_count xp)) (enumerate 1 selected)"
    using assms(1) by (auto simp: publish_mock_def set_mock_def set_job_def andthen_apply)
qed

lemma wait_for_review_run:
  assumes "wait_for_review env generate now j m knowledge levels selected v d = (Inr (), d')"
    and "m0 \<in> set (db_mock_exams d)" and "owned_by_job j s (me_id m) m0"
  shows "\<exists>m1 \<in> set (db_mock_exams d'). owned_by_job j s (me_id m) m1 \<and> me_status m1 = Exam_WAITING_FOR_REVIEW"
    and "list_ex (awaits_review (me_id m)) (db_generated_question_candidates d')"
    and "\<forall>b \<in> set (db_background_jobs d'). bj_id b = bj_id j \<longrightarrow> bj_status b = Job_WAITING_FOR_REVIEW"
proof -
  let ?f = "\<lambda>m. m\<lparr>me_status := Exam_WAITING_FOR_REVIEW, me_validation_result := Some (validation_json v)\<rparr>"
  let ?g = "\<lambda>b. b\<lparr>bj_status := Job_WAITING_FOR_REVIEW, bj_result := Some (job_outcome env m Exam_WAITING_FOR_REVIEW)\<rparr>"
  obtain missing pairs d1 where pairs: "review_pairs knowledge levels missing = Inr pairs"
    and made: "create_review_candidates env generate now m pairs d = (Inr (), d1)"
    and d': "d' = d1\<lparr>db_mock_exams := update_rows (\<lambda>x. me_id x = me_id m) ?f (db_mock_exams d1),
      db_background_jobs := update_rows (\<lambda>x. bj_id x = bj_id j) ?g (db_background_jobs d1)\<rparr>"
    using assms(1) by (auto simp: wait_for_review_def set_mock_def set_job_def elim!: andthen_InrE)
  note made = create_candidates_run [OF made review_pairs_nonempty [OF pairs]]
  then obtain cs where d1: "d1 = d\<lparr>db_generated_question_candidates := cs\<rparr>" by (elim exE conjE)
  have "?f m0 \<in> set (update_rows (\<lambda>x. me_id x = me_id m) ?f (db_mock_exams d))"
    by (rule update_rows_hit) (use assms(2,3) in \<open>simp_all add: owned_by_job_def\<close>)
  moreover have "owned_by_job j s (me_id m) (?f m0)" using assms(3) by (simp add: owned_by_job_def)
  ultimately show "\<exists>m1 \<in> set (db_mock_exams d'). owned_by_job j s (me_id m) m1 \<and> me_status m1 = Exam_WAITING_FOR_REVIEW"
    by (intro bexI [of _ "?f m0"]) (simp_all add: d' d1)
  show "list_ex (awaits_review (me_id m)) (db_generated_question_candidates d')" using made by (simp add: d')
  show "\<forall>b \<in> set (db_background_jobs d'). bj_id b = bj_id j \<longrightarrow> bj_status b = Job_WAITING_FOR_REVIEW"
    by (auto simp: d' elim!: set_update_rowsE split: if_splits)
qed

lemma generate_questions_run:
  assumes "generate_questions env generate now j s xp m d = (Inr (), d')"
    and "m0 \<in> set (db_mock_exams d)" and "owned_by_job j s (me_id m) m0"
  shows "\<exists>m1 \<in> set (db_mock_exams d'). me_id m1 = me_id m \<and> exam_outcome j s xp d d' m1"
proof -
  define d1 where "d1 = d\<lparr>db_mock_exam_questions :=
    filter (\<lambda>l. meq_mock_exam_id l \<noteq> me_id m) (db_mock_exam_questions d)\<rparr>"
  have m0: "m0 \<in> set (db_mock_exams d1)" using assms(2) by (simp add: d1_def)
  obtain knowledge levels selected v where
    sel: "select_questions (stu_id s) knowledge levels (xp_question_count xp) d1 = Inr selected"
    and v: "validate_selection env xp knowledge levels selected = Inr v"
    and fin: "(if ev_valid v then publish_mock env j xp m selected
        else wait_for_review env generate now j m knowledge levels selected v) d1 = (Inr (), d')"
    using assms(1)
    by (auto simp: generate_questions_def d1_def lift_result_apply elim!: andthen_InrE dest: desired_counts_reads)
  show ?thesis
  proof (cases "ev_valid v")
    case True
    have run: "publish_mock env j xp m selected d1 = (Inr (), d')" using fin True by simp
    obtain m1 where m1: "m1 \<in> set (db_mock_exams d')" "owned_by_job j s (me_id m) m1" "me_status m1 = Exam_PUBLISHED"
      using publish_mock_run(1) [OF run m0 assms(3)] by (elim bexE conjE)
    let ?k = "xp_total_score xp div xp_question_count xp"
    have own: "filter (\<lambda>l. meq_mock_exam_id l = me_id m) (map (mock_question (me_id m) ?k) ps) =
        map (mock_question (me_id m) ?k) ps" for ps
      by (rule filter_True) (auto simp: mock_question_def split: prod.splits)
    have "filter (\<lambda>l. meq_mock_exam_id l = me_id m) (db_mock_exam_questions d') =
        map (mock_question (me_id m) ?k) (enumerate 1 selected)"
      unfolding publish_mock_run(2) [OF run m0 assms(3)] by (simp add: d1_def own del: filter_map)
    then have "exam_complete (stu_id s) xp (me_id m) d d'"
      by (intro mock_links_complete [OF v True sel]) (simp_all add: d1_def)
    then show ?thesis using m1 by (intro bexI [of _ m1]) (simp_all add: exam_outcome_def owned_by_job_def)
  next
    case False
    have run: "wait_for_review env generate now j m knowledge levels selected v d1 = (Inr (), d')" using fin False by simp
    obtain m1 where m1: "m1 \<in> set (db_mock_exams d')" "owned_by_job j s (me_id m) m1"
        "me_status m1 = Exam_WAITING_FOR_REVIEW"
      using wait_for_review_run(1) [OF run m0 assms(3)] by (elim bexE conjE)
    then show ?thesis
      using wait_for_review_run(2,3) [OF run m0 assms(3)]
      by (intro bexI [of _ m1]) (simp_all add: exam_outcome_def owned_by_job_def)
  qed
qed

lemma exam_complete_before [simp]:
  "exam_complete student xp mock (d\<lparr>db_mock_exams := ms\<rparr>) d' = exam_complete student xp mock d d'"
  by (simp add: exam_complete_def attempted_questions_def)

text \<open>C24. A generation job that succeeds leaves an exam of its student linked to the job. Either the exam
  is published and complete: as many different questions as the profile asks for, numbered from one,
  all valid, with an answer, not tried by the student before, and with the profile's total score. Or it waits
  for review, as does the job, and at least one candidate of the exam awaits a reviewer.\<close>

theorem generated_mock_is_complete_or_reviewed:
  assumes "execute_mock_job env generate now j d = (Inr (), d')" and "bj_user_id j = Some u"
    and "student_of_user u d = Some s"
  shows "\<exists>school xp. stu_target_school_id s = Some school \<and> latest_profile school d = Some xp
    \<and> (\<exists>m \<in> set (db_mock_exams d'). exam_outcome j s xp d d' m)"
proof -
  obtain school xp m d1 where found: "stu_target_school_id s = Some school" "latest_profile school d = Some xp"
    and m: "load_or_create_mock env now j s xp d = (Inr m, d1)"
    and gen: "generate_questions env generate now j s xp m d1 = (Inr (), d')"
    using assms
    by (auto simp: execute_mock_job_def app_error_def found_or_def elim!: andthen_InrE split: option.splits)
  note loaded = load_or_create_run [OF m]
  then obtain m0 ms where m0: "m0 \<in> set (db_mock_exams d1)" "owned_by_job j s (me_id m) m0"
    and d1: "d1 = d\<lparr>db_mock_exams := ms\<rparr>"
    by (elim conjE bexE exE)
  obtain m1 where m1: "m1 \<in> set (db_mock_exams d')" "exam_outcome j s xp d1 d' m1"
    using generate_questions_run [OF gen m0] by (elim bexE conjE)
  then have "exam_outcome j s xp d d' m1"
    by (simp add: exam_outcome_def d1 split: if_splits)
  then show ?thesis using found m1 by blast
qed

subsection \<open>Submission\<close>

text \<open>What the update of a mastery leaves alone in a submission.\<close>

definition mock_kept :: "db \<Rightarrow> db \<Rightarrow> bool" where
  "mock_kept d d' \<longleftrightarrow> db_mock_exams d' = db_mock_exams d \<and> db_mock_exam_attempts d' = db_mock_exam_attempts d
     \<and> db_students d' = db_students d \<and> db_question_attempts d' = db_question_attempts d"

lemma keeps_mock_tables: "keeps (mock_kept d0) (assess_mastery now st k ratio level looked practised extra)"
  unfolding assess_mastery_def load_knowledge_state_def
  by (intro keeps_andthen keeps_gets keeps_option keeps_modify keeps_lift_result keeps_ret;
      simp add: mock_kept_def)

definition mock_attempt_of :: "mock_exam_row \<Rightarrow> exam_result \<Rightarrow> question_attempt_row \<Rightarrow> bool" where
  "mock_attempt_of m r a \<longleftrightarrow> qa_student_id a = me_student_id m \<and> qa_question_id a = xr_question_id r
     \<and> qa_mock_exam_id a = Some (me_id m) \<and> qa_context a = Ctx_MOCK_EXAM \<and> qa_score_ratio a = xr_score_ratio r"

lemma record_mock_question_run:
  assumes "record_mock_question env now m overall assigned r d = (Inr (), d')"
  shows "\<exists>a. mock_attempt_of m r a \<and> mock_kept (d\<lparr>db_question_attempts := db_question_attempts d @ [a]\<rparr>) d'"
proof -
  let ?a = "mock_question_attempt env now m overall r (fresh_id (map qa_id (db_question_attempts d)))"
  let ?d1 = "d\<lparr>db_question_attempts := db_question_attempts d @ [?a]\<rparr>"
  obtain q :: question_row and ks where loop: "for_each (\<lambda>k. assess_mastery now (me_student_id m) k (xr_score_ratio r) (q_difficulty q)
      (xr_looked_at_solution r) (Some now) id) ks ?d1 = (Inr (), d')"
    using assms
    by (auto simp: record_mock_question_def add_attempt_def elim!: andthen_InrE dest!: found_or_InrD)
  have "mock_kept ?d1 d'"
    by (rule keeps_resultD [OF keeps_for_each [OF keeps_mock_tables] _ loop]) (simp add: mock_kept_def)
  moreover have "mock_attempt_of m r ?a" by (simp add: mock_attempt_of_def mock_question_attempt_def)
  ultimately show ?thesis by blast
qed

lemma record_mock_questions_run:
  assumes "for_each (record_mock_question env now m overall assigned) rs d = (Inr (), d')"
  shows "\<exists>as. list_all2 (mock_attempt_of m) rs as
    \<and> mock_kept (d\<lparr>db_question_attempts := db_question_attempts d @ as\<rparr>) d'"
  using assms
proof (induction rs arbitrary: d)
  case (Cons r rs)
  obtain d1 where one: "record_mock_question env now m overall assigned r d = (Inr (), d1)"
    and rest: "for_each (record_mock_question env now m overall assigned) rs d1 = (Inr (), d')"
    using Cons.prems by (auto elim: andthen_InrE)
  obtain a where a: "mock_attempt_of m r a" "mock_kept (d\<lparr>db_question_attempts := db_question_attempts d @ [a]\<rparr>) d1"
    using record_mock_question_run [OF one] by (elim exE conjE)
  obtain as where "list_all2 (mock_attempt_of m) rs as"
      "mock_kept (d1\<lparr>db_question_attempts := db_question_attempts d1 @ as\<rparr>) d'"
    using Cons.IH [OF rest] by (elim exE conjE)
  then show ?case using a by (intro exI [of _ "a # as"]) (simp add: mock_kept_def)
qed (auto simp: ret_apply mock_kept_def intro: exI [of _ "[]"])

lemma keeps_record_mock_question: "keeps assessments_ok (record_mock_question env now m overall assigned r)"
proof -
  have "keeps assessments_ok (for_each (\<lambda>k. assess_mastery now (me_student_id m) k (xr_score_ratio r) (q_difficulty q)
      (xr_looked_at_solution r) (Some now) id) ks)" for q ks
    by (intro keeps_for_each keeps_assess) simp
  then show ?thesis
    unfolding record_mock_question_def
    by (intro keeps_andthen keeps_found_or) (auto intro!: keeps_andthen keeps_gets keeps_assessments_other split: prod.splits)
qed

definition answers_complete :: "uuid list \<Rightarrow> exam_result list \<Rightarrow> bool" where
  "answers_complete ids rs \<longleftrightarrow> distinct (map xr_question_id rs) \<and> set (map xr_question_id rs) = set ids"

lemma answers_completeI:
  assumes "xr_question_id ` set rs = f ` set xs" and "length rs = length (fromkeys (map f xs))"
  shows "answers_complete (map f xs) rs"
proof -
  have "card (set (map xr_question_id rs)) = length (map xr_question_id rs)"
    using assms distinct_card [OF distinct_fromkeys [of "map f xs"]] by simp
  from card_distinct [OF this] show ?thesis using assms(1) by (simp add: answers_complete_def)
qed

lemma submit_mock_run:
  assumes "submit_mock_exam env now u mock_id rs key d = (Inr a, d')" and "owned_mock u mock_id d = Some m"
    and "find (mock_attempt_keyed (me_student_id m) key) (db_mock_exam_attempts d) = None"
  obtains d1 where "me_status m \<in> {Exam_PUBLISHED, Exam_IN_PROGRESS}"
    and "xr_question_id ` set rs = (\<lambda>(l, q). q_id q) ` set (mock_questions (me_id m) d)"
    and "length rs = length (fromkeys (map (\<lambda>(l, q). q_id q) (mock_questions (me_id m) d)))"
    and "a = new_mock_attempt now m rs (mock_score (mock_questions (me_id m) d) rs) key
        (fresh_id (map mea_id (db_mock_exam_attempts d)))"
    and "for_each (record_mock_question env now m (mea_id a) (mock_questions (me_id m) d)) rs
        (d\<lparr>db_mock_exam_attempts := db_mock_exam_attempts d @ [a]\<rparr>) = (Inr (), d1)"
    and "d' = d1\<lparr>db_mock_exams := update_rows (\<lambda>x. me_id x = me_id m) (\<lambda>m. m\<lparr>me_status := Exam_COMPLETED\<rparr>) (db_mock_exams d1),
        db_students := update_rows (\<lambda>x. stu_id x = me_student_id m) to_mock_stage (db_students d1)\<rparr>"
  using transaction_InrD [OF assms(1) [unfolded submit_mock_exam_def]] assms(2,3) that
  by (auto simp: owned_exam_def submit_mock_first_def insert_mock_attempt_def set_mock_def set_student_def app_error_def
      elim!: andthen_InrE dest!: found_or_InrD split: option.splits if_splits)

lemma owned_after_submission:
  assumes "owned_mock u i d = Some m"
  shows "owned_mock u i (d\<lparr>db_mock_exams := update_rows (\<lambda>x. me_id x = me_id m) (\<lambda>m. m\<lparr>me_status := st\<rparr>) (db_mock_exams d),
    db_students := update_rows (\<lambda>x. stu_id x = k) to_mock_stage (db_students d)\<rparr>) = Some (m\<lparr>me_status := st\<rparr>)"
proof -
  have stage: "stu_id (to_mock_stage x) = stu_id x" "stu_user_id (to_mock_stage x) = stu_user_id x" for x
    by (simp_all add: to_mock_stage_def)
  have owner: "list_ex (\<lambda>s. stu_id s = x \<and> stu_user_id s = u) (update_rows P to_mock_stage ss) =
      list_ex (\<lambda>s. stu_id s = x \<and> stu_user_id s = u) ss" for x P ss
    by (induction ss) (simp_all add: stage)
  show ?thesis
    using assms by (simp add: owned_mock_def owner find_update_rows)
qed

text \<open>C25. A mock exam is submitted once, and completely. The submission answers every question of the exam
  exactly once, its score is the weighted sum of the answers, and it adds one exam attempt and one
  question attempt per answer; the masteries stay in their ranges. From then on the exam is completed:
  every further submission of it, also a retry of the same request with the same key, is refused as not
  published and writes nothing.\<close>

theorem mock_submission_is_complete:
  assumes "submit_mock_exam env now u mock_id rs key d = (Inr a, d')" and "owned_mock u mock_id d = Some m"
    and "find (mock_attempt_keyed (me_student_id m) key) (db_mock_exam_attempts d) = None"
  shows "answers_complete (map (\<lambda>(l, q). q_id q) (mock_questions (me_id m) d)) rs
    \<and> mea_score a = mock_score (mock_questions (me_id m) d) rs
    \<and> db_mock_exam_attempts d' = db_mock_exam_attempts d @ [a]
    \<and> (\<exists>as. db_question_attempts d' = db_question_attempts d @ as \<and> list_all2 (mock_attempt_of m) rs as)
    \<and> (assessments_ok d \<longrightarrow> assessments_ok d')
    \<and> owned_mock u mock_id d' = Some (m\<lparr>me_status := Exam_COMPLETED\<rparr>)
    \<and> (\<forall>later rs' key'. submit_mock_exam env later u mock_id rs' key' d' =
        (Inl (AppErr 409 ''MOCK_EXAM_NOT_PUBLISHED''), d'))"
proof -
  obtain d1 where same: "xr_question_id ` set rs = (\<lambda>(l, q). q_id q) ` set (mock_questions (me_id m) d)"
      "length rs = length (fromkeys (map (\<lambda>(l, q). q_id q) (mock_questions (me_id m) d)))"
    and a: "a = new_mock_attempt now m rs (mock_score (mock_questions (me_id m) d) rs) key
        (fresh_id (map mea_id (db_mock_exam_attempts d)))"
    and loop: "for_each (record_mock_question env now m (mea_id a) (mock_questions (me_id m) d)) rs
        (d\<lparr>db_mock_exam_attempts := db_mock_exam_attempts d @ [a]\<rparr>) = (Inr (), d1)"
    and d': "d' = d1\<lparr>db_mock_exams := update_rows (\<lambda>x. me_id x = me_id m) (\<lambda>m. m\<lparr>me_status := Exam_COMPLETED\<rparr>) (db_mock_exams d1),
        db_students := update_rows (\<lambda>x. stu_id x = me_student_id m) to_mock_stage (db_students d1)\<rparr>"
    by (rule submit_mock_run [OF assms])
  obtain as where answers: "list_all2 (mock_attempt_of m) rs as"
    and kept: "db_mock_exams d1 = db_mock_exams d" "db_mock_exam_attempts d1 = db_mock_exam_attempts d @ [a]"
      "db_students d1 = db_students d" "db_question_attempts d1 = db_question_attempts d @ as"
    using record_mock_questions_run [OF loop] by (auto simp: mock_kept_def)
  have ranges: "assessments_ok d'" if "assessments_ok d"
  proof -
    have "assessments_ok d1"
      by (rule keeps_resultD [OF keeps_for_each [OF keeps_record_mock_question] _ loop])
        (use that in \<open>simp add: assessments_ok_def\<close>)
    then show ?thesis by (simp add: d' assessments_ok_def)
  qed
  have "owned_mock u mock_id d1 = Some m" using assms(2) kept by (simp add: owned_mock_def)
  then have owned: "owned_mock u mock_id d' = Some (m\<lparr>me_status := Exam_COMPLETED\<rparr>)"
    unfolding d' by (rule owned_after_submission)
  then have "submit_mock_exam env later u mock_id rs' key' d' = (Inl (AppErr 409 ''MOCK_EXAM_NOT_PUBLISHED''), d')"
    for later rs' key'
    by (simp add: submit_mock_exam_def owned_exam_def transaction_def andthen_apply app_error_apply ret_apply)
  then show ?thesis
    using answers_completeI [OF same] answers kept ranges owned by (auto simp: d' a new_mock_attempt_def)
qed

subsection \<open>The review of candidates\<close>

definition get_candidate :: "uuid \<Rightarrow> db \<Rightarrow> generated_question_candidate_row option" where
  "get_candidate i d = find (\<lambda>c. gqc_id c = i) (db_generated_question_candidates d)"

definition candidate_published :: "app_env \<Rightarrow> generated_question_candidate_row \<Rightarrow> db \<Rightarrow> db \<Rightarrow> bool" where
  "candidate_published env c d d' \<longleftrightarrow> (\<exists>(q :: question_row) k v. map_of (gqc_metadata_json c) ''knowledge_id'' = Some v
     \<and> parse_uuid env v = Inr k
     \<and> db_questions d' = db_questions d @ [q]
     \<and> db_question_knowledge d' = db_question_knowledge d @
         [\<lparr>qk_question_id = q_id q, qk_knowledge_id = k, qk_is_primary = True\<rparr>]
     \<and> q_id q \<notin> q_id ` set (db_questions d) \<and> q_quality_status q = Quality_VALID
     \<and> q_source_type q = Source_GENERATED \<and> q_content q = gqc_content c \<and> q_answer q = gqc_answer c)"

lemma publish_candidate_run:
  assumes "publish_candidate env now c d = (Inr (), d')"
  shows "candidate_published env c d d' \<and> (\<exists>qs ks. d' = d\<lparr>db_questions := qs, db_question_knowledge := ks\<rparr>)"
proof -
  obtain v k kind level score minutes where v: "map_of (gqc_metadata_json c) ''knowledge_id'' = Some v"
      "parse_uuid env v = Inr k"
    and d': "insert_question (generated_question env now c kind level score minutes) k d = (Inr (), d')"
    using assms
    by (auto simp: publish_candidate_def metadata_field_def elim!: andthen_InrE dest!: found_or_InrD)
  let ?q = "generated_question env now c kind level score minutes (fresh_id (map q_id (db_questions d)))"
  have "d' = d\<lparr>db_questions := db_questions d @ [?q], db_question_knowledge := db_question_knowledge d @
      [\<lparr>qk_question_id = q_id ?q, qk_knowledge_id = k, qk_is_primary = True\<rparr>]\<rparr>"
    using d' by (simp add: insert_question_def andthen_apply)
  moreover have "q_id ?q = fresh_id (map q_id (db_questions d))" "q_quality_status ?q = Quality_VALID"
    "q_source_type ?q = Source_GENERATED" "q_content ?q = gqc_content c" "q_answer ?q = gqc_answer c"
    by (simp_all add: generated_question_def)
  ultimately show ?thesis
    using v unfolding candidate_published_def
    by (intro conjI exI [of _ ?q] exI [of _ k] exI [of _ v] exI [of _ "db_questions d'"]
        exI [of _ "db_question_knowledge d'"]) simp_all
qed

lemma resume_if_ready_run:
  assumes "resume_if_ready env cfg now c key d = (Inr job, d')"
  shows "(\<exists>js es. d' = d\<lparr>db_background_jobs := js, db_domain_events := es\<rparr>)
    \<and> (job = None \<or> (\<exists>mock. gqc_mock_exam_id c = Some mock
        \<and> (\<forall>x \<in> set (db_generated_question_candidates d). awaits_review mock x \<longrightarrow> gqc_id x = gqc_id c)))"
proof (cases job)
  case None
  have "d' = d"
    using assms None by (auto simp: resume_if_ready_def andthen_apply ret_apply split: option.splits if_splits sum.splits prod.splits)
  moreover have "\<exists>js es. d = d\<lparr>db_background_jobs := js, db_domain_events := es\<rparr>"
    by (intro exI [of _ "db_background_jobs d"] exI [of _ "db_domain_events d"]) simp
  ultimately show ?thesis using None by blast
next
  case (Some j)
  obtain mock and m :: mock_exam_row and s :: student_row where mock: "gqc_mock_exam_id c = Some mock"
      "\<not> list_ex (\<lambda>x. awaits_review mock x \<and> gqc_id x \<noteq> gqc_id c) (db_generated_question_candidates d)"
    and made: "create_job env cfg now (stu_user_id s) ''GENERATE_MOCK''
      [(''mock_exam_id'', JStr (ae_uuid_str env (me_id m)))] (key @ '':resume'') d = (Inr j, d')"
    using assms Some
    by (auto simp: resume_if_ready_def elim!: andthen_InrE split: option.splits if_splits)
  show ?thesis using create_job_frame [OF made] mock by (auto simp: list_ex_iff)
qed

lemma decide_candidate_run:
  assumes "decide_candidate env cfg now reviewer i approve reason key d = (Inr (c', job), d')"
    and "get_candidate i d = Some c" and "gqc_quality_status c = Quality_REVIEW_REQUIRED"
  obtains d1 d2 where "(if approve then publish_candidate env now c else ret ()) d = (Inr (), d1)"
    and "set_candidate i (if approve then Quality_VALID else Quality_REJECTED) d1 = (Inr (), d2)"
    and "resume_if_ready env cfg now c key (d2\<lparr>db_review_decisions := db_review_decisions d2 @
       [\<lparr>rd_id = fresh_id (map rd_id (db_review_decisions d2)), rd_candidate_id = i,
         rd_reviewer_user_id = reviewer, rd_decision = (if approve then ''APPROVED'' else ''REJECTED''),
         rd_reason = reason, rd_created_at = now\<rparr>]\<rparr>) = (Inr job, d')"
    and "c' = c\<lparr>gqc_quality_status := if approve then Quality_VALID else Quality_REJECTED\<rparr>"
proof -
  have i: "gqc_id c = i" using find_SomeD [OF assms(2) [unfolded get_candidate_def]] by simp
  show ?thesis
    using transaction_InrD [OF assms(1) [unfolded decide_candidate_def]] assms(2,3) that i
    by (cases approve) (auto simp: get_candidate_def Let_def add_decision_def elim!: andthen_InrE dest!: found_or_InrD)
qed

text \<open>C26. A decision on a candidate is final. It is recorded with its reviewer and closes the candidate; an
  approval, and nothing else, publishes one new valid question with the candidate's content and answer,
  bound to its knowledge point. A job to resume the exam is created only when none of the exam's candidates
  awaits review any more. Deciding the candidate again, in whatever way, returns it as it is and writes nothing.\<close>

theorem review_decision_is_final:
  assumes "decide_candidate env cfg now reviewer i approve reason key d = (Inr (c', job), d')"
    and "get_candidate i d = Some c" and "gqc_quality_status c = Quality_REVIEW_REQUIRED"
  shows "get_candidate i d' = Some c' \<and> c' = c\<lparr>gqc_quality_status := if approve then Quality_VALID else Quality_REJECTED\<rparr>
    \<and> (\<exists>rd. db_review_decisions d' = db_review_decisions d @ [rd] \<and> rd_candidate_id rd = i
        \<and> rd_reviewer_user_id rd = reviewer \<and> rd_decision rd = (if approve then ''APPROVED'' else ''REJECTED''))
    \<and> (if approve then candidate_published env c d d' else db_questions d' = db_questions d)
    \<and> (job = None \<or> (\<exists>mock. gqc_mock_exam_id c = Some mock
        \<and> \<not> list_ex (awaits_review mock) (db_generated_question_candidates d')))
    \<and> (\<forall>later reviewer' approve' reason' key'.
        decide_candidate env cfg later reviewer' i approve' reason' key' d' = (Inr (c', None), d'))"
proof -
  let ?quality = "if approve then Quality_VALID else Quality_REJECTED"
  let ?f = "\<lambda>c. c\<lparr>gqc_quality_status := ?quality\<rparr>" and ?P = "\<lambda>c. gqc_id c = i"
  obtain d1 d2 where pub: "(if approve then publish_candidate env now c else ret ()) d = (Inr (), d1)"
    and d2: "set_candidate i ?quality d1 = (Inr (), d2)"
    and resume: "resume_if_ready env cfg now c key (d2\<lparr>db_review_decisions := db_review_decisions d2 @
       [\<lparr>rd_id = fresh_id (map rd_id (db_review_decisions d2)), rd_candidate_id = i,
         rd_reviewer_user_id = reviewer, rd_decision = (if approve then ''APPROVED'' else ''REJECTED''),
         rd_reason = reason, rd_created_at = now\<rparr>]\<rparr>) = (Inr job, d')"
    and c': "c' = ?f c"
    by (rule decide_candidate_run [OF assms])
  have d1: "\<exists>qs ks. d1 = d\<lparr>db_questions := qs, db_question_knowledge := ks\<rparr>"
    and fresh: "if approve then candidate_published env c d d1 else db_questions d1 = db_questions d"
  proof -
    have same: "\<exists>qs ks. d = d\<lparr>db_questions := qs, db_question_knowledge := ks\<rparr>"
      by (intro exI [of _ "db_questions d"] exI [of _ "db_question_knowledge d"]) simp
    have rejected: "d1 = d" if "\<not> approve" using pub that by (simp add: ret_apply)
    have approved: "candidate_published env c d d1 \<and> (\<exists>qs ks. d1 = d\<lparr>db_questions := qs, db_question_knowledge := ks\<rparr>)" if approve
      by (rule publish_candidate_run) (use pub that in simp)
    show "\<exists>qs ks. d1 = d\<lparr>db_questions := qs, db_question_knowledge := ks\<rparr>"
    proof (cases approve)
      case True
      from approved [OF this] show ?thesis by (rule conjunct2)
    next
      case False
      show ?thesis unfolding rejected [OF False] by (rule same)
    qed
    show "if approve then candidate_published env c d d1 else db_questions d1 = db_questions d"
      using approved rejected by simp
  qed
  obtain qs ks where d1: "d1 = d\<lparr>db_questions := qs, db_question_knowledge := ks\<rparr>" using d1 by (elim exE)
  have d2': "d2 = d1\<lparr>db_generated_question_candidates := update_rows ?P ?f (db_generated_question_candidates d1)\<rparr>"
    using d2 by (simp add: set_candidate_def)
  obtain js es where d': "d' = (d2\<lparr>db_review_decisions := db_review_decisions d2 @
       [\<lparr>rd_id = fresh_id (map rd_id (db_review_decisions d2)), rd_candidate_id = i,
         rd_reviewer_user_id = reviewer, rd_decision = (if approve then ''APPROVED'' else ''REJECTED''),
         rd_reason = reason, rd_created_at = now\<rparr>]\<rparr>)\<lparr>db_background_jobs := js, db_domain_events := es\<rparr>"
    using conjunct1 [OF resume_if_ready_run [OF resume]] by (elim exE)
  have cands: "db_generated_question_candidates d' = update_rows ?P ?f (db_generated_question_candidates d)"
    by (simp add: d' d2' d1)
  have found: "get_candidate i d' = Some c'"
    using assms(2) find_SomeD [OF assms(2) [unfolded get_candidate_def]]
    by (simp add: get_candidate_def cands find_update_rows c')
  have again: "decide_candidate env cfg later reviewer' i approve' reason' key' d' = (Inr (c', None), d')"
    for later reviewer' approve' reason' key'
    using found by (simp add: decide_candidate_def get_candidate_def transaction_def andthen_apply ret_apply c')
  have closed: "\<not> list_ex (awaits_review mock) (db_generated_question_candidates d')"
    if "\<forall>x \<in> set (db_generated_question_candidates d2). awaits_review mock x \<longrightarrow> gqc_id x = gqc_id c" for mock
  proof -
    have i: "gqc_id c = i" using find_SomeD [OF assms(2) [unfolded get_candidate_def]] by simp
    have "db_generated_question_candidates d' = db_generated_question_candidates d2" by (simp add: d')
    moreover have "gqc_quality_status x \<noteq> Quality_REVIEW_REQUIRED"
      if "x \<in> set (db_generated_question_candidates d')" "gqc_id x = i" for x
      using that unfolding cands by (elim set_update_rowsE) (simp split: if_splits)
    ultimately show ?thesis using that i by (auto simp: list_ex_iff awaits_review_def)
  qed
  have "job = None \<or> (\<exists>mock. gqc_mock_exam_id c = Some mock
      \<and> \<not> list_ex (awaits_review mock) (db_generated_question_candidates d'))"
    using resume_if_ready_run [OF resume] closed by auto
  moreover have "if approve then candidate_published env c d d' else db_questions d' = db_questions d"
    using fresh by (simp add: d' d2' candidate_published_def split: if_splits)
  moreover have "\<exists>rd. db_review_decisions d' = db_review_decisions d @ [rd] \<and> rd_candidate_id rd = i
      \<and> rd_reviewer_user_id rd = reviewer \<and> rd_decision rd = (if approve then ''APPROVED'' else ''REJECTED'')"
    by (cases approve) (simp_all add: d' d2' d1)
  ultimately show ?thesis using found c' again by blast
qed

subsection \<open>Examples\<close>

text \<open>A school whose exam asks one question, a student without attempts, a published exam and a candidate.\<close>

definition answered_question :: question_row where
  "answered_question = example_question\<lparr>q_answer := ''4''\<rparr>"

definition example_profile :: exam_profile_row where
  "example_profile = \<lparr>xp_id = 41, xp_school_profile_id = 7, xp_total_score = 10, xp_duration_minutes = 60,
     xp_question_count = 1, xp_structure = [], xp_difficulty_distribution = [(''MEDIUM'', 1)],
     xp_knowledge_distribution = [(''K1'', 1)], xp_profile_version = [], xp_created_at = 0\<rparr>"

definition example_mock_job :: background_job_row where
  "example_mock_job = new_job default_settings 0 2 5 ''GENERATE_MOCK'' [(''mock_type'', JStr ''FULL'')] ''key''"

definition example_mock :: mock_exam_row where
  "example_mock = (new_mock 3 0 1 example_profile 2 Mock_FULL None)\<lparr>me_status := Exam_PUBLISHED\<rparr>"

definition example_candidate :: generated_question_candidate_row where
  "example_candidate = new_candidate example_app_env 0 example_mock (fake_content ''N'' ''s'')
     (candidate_metadata example_app_env example_node ''K1'' ''MEDIUM'') ''s'' 4"

definition example_mock_db :: db where
  "example_mock_db = empty_db\<lparr>db_students := [example_student], db_knowledge_nodes := [example_node],
     db_school_knowledge_stats := [example_stat], db_questions := [answered_question],
     db_question_knowledge := [\<lparr>qk_question_id = 51, qk_knowledge_id = 31, qk_is_primary = True\<rparr>],
     db_exam_profiles := [example_profile], db_background_jobs := [example_mock_job],
     db_mock_exams := [example_mock],
     db_mock_exam_questions := [mock_question 3 10 (1, answered_question, example_node, Diff_MEDIUM)],
     db_generated_question_candidates := [example_candidate]\<rparr>"

lemma example_mock_tables [simp]:
  "db_students example_mock_db = [example_student]" "db_knowledge_nodes example_mock_db = [example_node]"
  "db_questions example_mock_db = [answered_question]"
  "db_question_knowledge example_mock_db = [\<lparr>qk_question_id = 51, qk_knowledge_id = 31, qk_is_primary = True\<rparr>]"
  "db_exam_profiles example_mock_db = [example_profile]" "db_mock_exams example_mock_db = [example_mock]"
  "db_mock_exam_questions example_mock_db = [mock_question 3 10 (1, answered_question, example_node, Diff_MEDIUM)]"
  "db_generated_question_candidates example_mock_db = [example_candidate]"
  "db_question_attempts example_mock_db = []" "db_mock_exam_attempts example_mock_db = []"
  "db_background_jobs example_mock_db = [example_mock_job]"
  "db_student_knowledge_states example_mock_db = []" "db_review_decisions example_mock_db = []"
  by (simp_all add: example_mock_db_def empty_db_def)

lemma answered_rows [simp]:
  "q_id answered_question = 51" "q_answer answered_question = ''4''" "q_quality_status answered_question = Quality_VALID"
  "q_source_type answered_question = Source_TRUE_EXAM" "q_difficulty answered_question = Diff_MEDIUM"
  "q_code answered_question = ''Q1''" "kn_code example_node = ''K1''"
  by (simp_all add: answered_question_def example_question_def example_node_def)

lemma example_mock_user: "student_of_user 5 example_mock_db = Some example_student"
  by (simp add: student_of_user_def example_student_def)

lemma example_mock_owned: "owned_mock 5 3 example_mock_db = Some example_mock"
  by (simp add: owned_mock_def example_mock_def new_mock_def example_student_def)

lemma example_question_rows: "question_rows example_mock_db = [(answered_question, example_node)]"
  by (simp add: question_rows_def question_knowledge_def List.map_filter_def)

lemma example_slots: "paired_slots [(''K1'', 1)] [(''MEDIUM'', 1)] = Inr [(''K1'', ''MEDIUM'')]"
  by (simp add: paired_slots_def Let_def knowledge_slots_def expand_balanced_counts.simps any_left_def
      round_values_def round_rest_def)

lemma py_round_one [simp]: "py_round 1 = 1"
  using py_round_of_int [of 1] by simp

lemma example_profile_rows [simp]:
  "xp_id example_profile = 41" "xp_question_count example_profile = 1" "xp_total_score example_profile = 10"
  "xp_school_profile_id example_profile = 7" "stu_id example_student = 1" "stu_target_school_id example_student = Some 7"
  "xp_difficulty_distribution example_profile = [(''MEDIUM'', 1)]" "xp_knowledge_distribution example_profile = [(''K1'', 1)]"
  "bj_id example_mock_job = 2" "bj_user_id example_mock_job = Some 5"
  "bj_payload example_mock_job = [(''mock_type'', JStr ''FULL'')]"
  by (simp_all add: example_profile_def example_student_def example_mock_job_def new_job_def)

lemma example_levels: "count_distribution [(k, 1)] 1 = Inr [(k, 1)]"
  by (simp add: count_distribution_def)

lemma example_counts:
  assumes "db_knowledge_nodes d = [example_node]" and "me_mock_type m = Mock_FULL"
  shows "desired_knowledge_counts example_student example_profile m d = (Inr [(''K1'', 1)], d)"
  using assms
  by (simp add: desired_knowledge_counts_def example_levels andthen_apply lift_result_apply full_counts_def py_min_by_def)

lemma example_selected:
  assumes "db_question_attempts d = []" and "question_rows d = [(answered_question, example_node)]"
  shows "select_questions student [(''K1'', 1)] [(''MEDIUM'', 1)] 1 d =
    Inr [(answered_question, example_node, Diff_MEDIUM)]"
  using assms
  by (simp add: select_questions_def example_slots best_candidate_def attempted_questions_def py_take_def)

lemma example_valid:
  "\<exists>v. validate_selection env example_profile [(''K1'', 1)] [(''MEDIUM'', 1)]
     [(answered_question, example_node, Diff_MEDIUM)] = Inr v \<and> ev_valid v"
  by (simp add: validate_selection_def validate_exam_def selection_spec_def exam_question_of_def)

lemma example_generation:
  assumes "db_question_attempts d = []" and "question_rows d = [(answered_question, example_node)]"
    and "db_knowledge_nodes d = [example_node]" and "me_mock_type m = Mock_FULL"
  shows "fst (generate_questions example_app_env generate now example_mock_job example_student example_profile m d) = Inr ()"
proof -
  let ?d = "d\<lparr>db_mock_exam_questions := filter (\<lambda>l. meq_mock_exam_id l \<noteq> me_id m) (db_mock_exam_questions d)\<rparr>"
  have rows: "question_rows ?d = [(answered_question, example_node)]"
    using assms(2) by (simp add: question_rows_def question_knowledge_def)
  obtain v where v: "validate_selection example_app_env example_profile [(''K1'', 1)] [(''MEDIUM'', 1)]
     [(answered_question, example_node, Diff_MEDIUM)] = Inr v" "ev_valid v"
    using example_valid by blast
  show ?thesis
    using assms v example_counts [of ?d m] example_selected [OF _ rows, of 1] example_levels [of "''MEDIUM''"]
    by (simp add: generate_questions_def andthen_apply lift_result_apply publish_mock_def set_mock_def set_job_def)
qed

definition no_generator :: "string \<Rightarrow> string \<Rightarrow> string \<Rightarrow> exn + generated_content" where
  "no_generator name level seed = Inl (HttpStatusErr 503)"

theorem generated_mock_is_complete_or_reviewed_witness:
  "\<exists>d'. execute_mock_job example_app_env no_generator 9 example_mock_job example_mock_db = (Inr (), d')
     \<and> (\<exists>m \<in> set (db_mock_exams d'). exam_outcome example_mock_job example_student example_profile example_mock_db d' m)"
proof -
  let ?m = "new_mock 4 9 1 example_profile 2 Mock_FULL None"
  let ?d1 = "example_mock_db\<lparr>db_mock_exams := [example_mock, ?m]\<rparr>"
  have load: "load_or_create_mock example_app_env 9 example_mock_job example_student example_profile example_mock_db =
      (Inr ?m, ?d1)"
    by (simp add: load_or_create_mock_def create_mock_def dict_get_def
      andthen_apply ret_apply lift_result_apply json_str_def parse_mock_type_def insert_mock_def fresh_id_def
      example_mock_def new_mock_def)
  have "question_rows ?d1 = question_rows example_mock_db" by (simp add: question_rows_def question_knowledge_def)
  then have "fst (generate_questions example_app_env no_generator 9 example_mock_job example_student example_profile ?m ?d1) = Inr ()"
    by (intro example_generation) (simp_all add: example_question_rows new_mock_def)
  then obtain d' where gen: "generate_questions example_app_env no_generator 9 example_mock_job example_student example_profile ?m ?d1 = (Inr (), d')"
    by (cases "generate_questions example_app_env no_generator 9 example_mock_job example_student example_profile ?m ?d1") simp
  have profile: "latest_profile 7 example_mock_db = Some example_profile" by (simp add: latest_profile_def)
  have run: "execute_mock_job example_app_env no_generator 9 example_mock_job example_mock_db = (Inr (), d')"
    using example_mock_user load gen profile by (simp add: execute_mock_job_def andthen_apply ret_apply)
  have "bj_user_id example_mock_job = Some 5" by simp
  from generated_mock_is_complete_or_reviewed [OF run this example_mock_user] run profile show ?thesis by auto
qed

lemma example_mock_questions: "map (\<lambda>(l, q). q_id q) (mock_questions 3 example_mock_db) = [51]"
  "mock_score (mock_questions 3 example_mock_db) [example_result] = 10"
  by (simp_all add: mock_questions_def mock_question_def get_question_def List.map_filter_def mock_score_def)

theorem mock_submission_is_complete_witness:
  "\<exists>a d'. submit_mock_exam example_app_env 9 5 3 [example_result] ''key'' example_mock_db = (Inr a, d')
     \<and> mea_score a = 10 \<and> db_mock_exam_attempts d' = [a]
     \<and> submit_mock_exam example_app_env 10 5 3 [example_result] ''key'' d' = (Inl (AppErr 409 ''MOCK_EXAM_NOT_PUBLISHED''), d')"
proof -
  obtain a d' where run: "submit_mock_exam example_app_env 9 5 3 [example_result] ''key'' example_mock_db = (Inr a, d')"
    by (simp add: submit_mock_exam_def owned_exam_def example_mock_owned example_mock_questions andthen_apply ret_apply
      example_mock_def new_mock_def submit_mock_first_def insert_mock_attempt_def record_mock_question_def
      mock_questions_def mock_question_def get_question_def List.map_filter_def
      add_attempt_def question_knowledge_def assess_mastery_def
      load_knowledge_state_def assessed_mastery_def new_observation_def mastery_update_def new_knowledge_state_def
      set_mock_def set_student_def transaction_def Let_def lift_result_apply fromkeys_def)
  have "find (mock_attempt_keyed (me_student_id example_mock) ''key'') (db_mock_exam_attempts example_mock_db) = None" by simp
  from mock_submission_is_complete [OF run example_mock_owned this]
  show ?thesis using run example_mock_questions(2) by (simp add: example_mock_def new_mock_def)
qed

lemma example_resumed:
  assumes "db_background_jobs d = [example_mock_job]"
  shows "\<exists>j d'. create_job example_app_env default_settings now 5 ''GENERATE_MOCK'' payload ''key:resume'' d = (Inr j, d')"
  using assms
  by (simp add: create_job_def transaction_def andthen_apply ret_apply add_event_def job_keyed_def example_mock_job_def
      new_job_def)

theorem review_decision_is_final_witness:
  "\<exists>c' job d'. decide_candidate example_app_env default_settings 9 8 4 True None ''key'' example_mock_db = (Inr (c', job), d')
     \<and> job \<noteq> None \<and> gqc_quality_status c' = Quality_VALID
     \<and> decide_candidate example_app_env default_settings 10 8 4 False None ''again'' d' = (Inr (c', None), d')"
proof -
  have found: "get_candidate 4 example_mock_db = Some example_candidate"
    "gqc_quality_status example_candidate = Quality_REVIEW_REQUIRED"
    by (simp_all add: get_candidate_def example_candidate_def new_candidate_def)
  have fields: "gqc_id example_candidate = 4" "gqc_mock_exam_id example_candidate = Some 3" "me_id example_mock = 3"
    "me_student_id example_mock = 1" "stu_user_id example_student = 5"
    by (simp_all add: example_candidate_def new_candidate_def example_mock_def new_mock_def example_student_def)
  obtain d1 where pub: "publish_candidate example_app_env 9 example_candidate example_mock_db = (Inr (), d1)"
    by (simp add: publish_candidate_def metadata_field_def example_candidate_def new_candidate_def candidate_metadata_def
      parse_uuid_str [OF example_app_env_ok] json_str_def json_int_def lift_result_apply insert_question_def
      andthen_apply ret_apply)
  have kept: "db_generated_question_candidates d1 = [example_candidate]" "db_mock_exams d1 = [example_mock]"
      "db_students d1 = [example_student]" "db_background_jobs d1 = [example_mock_job]"
    using publish_candidate_run [OF pub] by auto
  obtain c' job d' where run: "decide_candidate example_app_env default_settings 9 8 4 True None ''key'' example_mock_db = (Inr (c', job), d')"
      and job: "job \<noteq> None"
  proof -
    let ?d2 = "d1\<lparr>db_generated_question_candidates := [example_candidate\<lparr>gqc_quality_status := Quality_VALID\<rparr>],
      db_review_decisions := db_review_decisions d1 @ [\<lparr>rd_id = fresh_id (map rd_id (db_review_decisions d1)),
        rd_candidate_id = 4, rd_reviewer_user_id = 8, rd_decision = ''APPROVED'', rd_reason = None, rd_created_at = 9\<rparr>]\<rparr>"
    have "db_background_jobs ?d2 = [example_mock_job]" using kept by simp
    from example_resumed [OF this, of 9 "[(''mock_exam_id'', JStr (ae_uuid_str example_app_env 3))]"] obtain j d3 where
      j: "create_job example_app_env default_settings 9 5 ''GENERATE_MOCK'' [(''mock_exam_id'', JStr (ae_uuid_str example_app_env 3))]
        ''key:resume'' ?d2 = (Inr j, d3)" by (elim exE)
    have "resume_if_ready example_app_env default_settings 9 example_candidate ''key'' ?d2 = (Inr (Some j), d3)"
      using j kept by (simp add: resume_if_ready_def fields andthen_apply ret_apply get_mock_def get_student_def)
    then have "decide_candidate example_app_env default_settings 9 8 4 True None ''key'' example_mock_db =
        (Inr (example_candidate\<lparr>gqc_quality_status := Quality_VALID\<rparr>, Some j), d3)"
      using found pub kept by (simp add: decide_candidate_def transaction_def andthen_apply ret_apply Let_def get_candidate_def
        set_candidate_def add_decision_def fields)
    then show ?thesis by (rule that) simp
  qed
  from review_decision_is_final [OF run found]
  have "c' = example_candidate\<lparr>gqc_quality_status := Quality_VALID\<rparr>"
    and "decide_candidate example_app_env default_settings 10 8 4 False None ''again'' d' = (Inr (c', None), d')" by simp_all
  then show ?thesis using run job by (intro exI [of _ c'] exI [of _ job] exI [of _ d']) simp
qed

end
