(* ===== verification/Gateway_Properties.thy ===== *)
theory Gateway_Properties
  imports Model_Gateway
begin

text \<open>
  The properties of the model gateways: the requests are bounded and accounted for, the actions are well
  formed, the breaker is a function of the recent failures, and the prompt holds no secrets.
\<close>

subsection \<open>Counting requests\<close>

text \<open>A computation appends to the requests; what it returns or raises is related to their number.\<close>

definition sends :: "('a \<Rightarrow> nat \<Rightarrow> bool) \<Rightarrow> (exn \<Rightarrow> nat \<Rightarrow> bool) \<Rightarrow> 'a router_comp \<Rightarrow> bool" where
  "sends Q E m \<longleftrightarrow> (\<forall>s. \<exists>sent. rs_sent (snd (m s)) = rs_sent s @ sent
     \<and> (case fst (m s) of Inr a \<Rightarrow> Q a (length sent) | Inl e \<Rightarrow> E e (length sent)))"

lemma sendsI:
  "(\<And>s. \<exists>sent. rs_sent (snd (m s)) = rs_sent s @ sent
     \<and> (case fst (m s) of Inr a \<Rightarrow> Q a (length sent) | Inl e \<Rightarrow> E e (length sent))) \<Longrightarrow> sends Q E m"
  by (simp add: sends_def)

lemma sends_ret [intro]: "Q a 0 \<Longrightarrow> sends Q E (ret a)"
  by (simp add: sends_def ret_apply)

lemma sends_throw [intro]: "E e 0 \<Longrightarrow> sends Q E (throw e)"
  by (simp add: sends_def throw_apply)

lemma sends_lift: "(\<And>a. r = Inr a \<Longrightarrow> Q a 0) \<Longrightarrow> (\<And>e. r = Inl e \<Longrightarrow> E e 0) \<Longrightarrow> sends Q E (lift_result r)"
  unfolding sends_def lift_result_apply by (cases r) simp_all

lemma sends_gets: "(\<And>s. Q (f s) 0) \<Longrightarrow> sends Q E (gets f)"
  by (simp add: sends_def)

lemma sends_modify: "(\<And>s. rs_sent (f s) = rs_sent s) \<Longrightarrow> Q () 0 \<Longrightarrow> sends Q E (modify f)"
  by (simp add: sends_def)

lemma sends_andthen:
  assumes "sends P F m" and "\<And>a k. P a k \<Longrightarrow> sends (\<lambda>b j. Q b (k + j)) (\<lambda>e j. E e (k + j)) (f a)"
    and "\<And>e k. F e k \<Longrightarrow> E e k"
  shows "sends Q E (andthen m f)"
proof (rule sendsI)
  fix s
  obtain x s1 where m: "m s = (x, s1)" by fastforce
  obtain sent where sent: "rs_sent s1 = rs_sent s @ sent"
      "case x of Inr a \<Rightarrow> P a (length sent) | Inl e \<Rightarrow> F e (length sent)"
    using assms(1) m unfolding sends_def by (metis fst_conv snd_conv)
  show "\<exists>sent. rs_sent (snd (andthen m f s)) = rs_sent s @ sent
     \<and> (case fst (andthen m f s) of Inr a \<Rightarrow> Q a (length sent) | Inl e \<Rightarrow> E e (length sent))"
  proof (cases x)
    case (Inl e)
    then show ?thesis using m sent assms(3) by (auto simp: andthen_apply)
  next
    case (Inr a)
    then have "sends (\<lambda>b j. Q b (length sent + j)) (\<lambda>e j. E e (length sent + j)) (f a)"
      using sent(2) assms(2) by simp
    then obtain more where "rs_sent (snd (f a s1)) = rs_sent s1 @ more"
        "case fst (f a s1) of Inr b \<Rightarrow> Q b (length sent + length more) | Inl e \<Rightarrow> E e (length sent + length more)"
      unfolding sends_def by blast
    then show ?thesis
      using m Inr sent(1) by (intro exI [of _ "sent @ more"]) (simp add: andthen_apply split: sum.splits)
  qed
qed

lemma sends_handle:
  assumes "sends P F m" and "\<And>e k. F e k \<Longrightarrow> sends (\<lambda>b j. Q b (k + j)) (\<lambda>e j. E e (k + j)) (h e)"
    and "\<And>a k. P a k \<Longrightarrow> Q a k"
  shows "sends Q E (handle m h)"
proof (rule sendsI)
  fix s
  obtain x s1 where m: "m s = (x, s1)" by fastforce
  obtain sent where sent: "rs_sent s1 = rs_sent s @ sent"
      "case x of Inr a \<Rightarrow> P a (length sent) | Inl e \<Rightarrow> F e (length sent)"
    using assms(1) m unfolding sends_def by (metis fst_conv snd_conv)
  show "\<exists>sent. rs_sent (snd (handle m h s)) = rs_sent s @ sent
     \<and> (case fst (handle m h s) of Inr a \<Rightarrow> Q a (length sent) | Inl e \<Rightarrow> E e (length sent))"
  proof (cases x)
    case (Inr a)
    then show ?thesis using m sent assms(3) by (auto simp: handle_apply)
  next
    case (Inl e)
    then have "sends (\<lambda>b j. Q b (length sent + j)) (\<lambda>e j. E e (length sent + j)) (h e)"
      using sent(2) assms(2) by simp
    then obtain more where "rs_sent (snd (h e s1)) = rs_sent s1 @ more"
        "case fst (h e s1) of Inr b \<Rightarrow> Q b (length sent + length more) | Inl e \<Rightarrow> E e (length sent + length more)"
      unfolding sends_def by blast
    then show ?thesis
      using m Inl sent(1) by (intro exI [of _ "sent @ more"]) (simp add: handle_apply split: sum.splits)
  qed
qed

lemma sends_weaken:
  assumes "sends P F m" and "\<And>a k. P a k \<Longrightarrow> Q a k" and "\<And>e k. F e k \<Longrightarrow> E e k"
  shows "sends Q E m"
proof (rule sendsI)
  fix s
  show "\<exists>sent. rs_sent (snd (m s)) = rs_sent s @ sent
     \<and> (case fst (m s) of Inr a \<Rightarrow> Q a (length sent) | Inl e \<Rightarrow> E e (length sent))"
    using assms(1) [unfolded sends_def, rule_format, of s] assms(2,3) by (auto split: sum.splits)
qed

text \<open>Steps that send nothing.\<close>

lemma sends_silent: "sends (\<lambda>_ k. k = 0) (\<lambda>_ _. False) (read_clock gw)"
  "sends (\<lambda>_ k. k = 0) (\<lambda>_ _. False) (note_success model)"
  "sends (\<lambda>_ k. k = 0) (\<lambda>_ _. False) (note_failure gw model)"
  "sends (\<lambda>_ k. k = 0) (\<lambda>_ _. False) (sleep_before_retry gw n)"
  by (simp_all add: sends_def read_clock_def note_success_def note_failure_def sleep_before_retry_def set_breaker_def
      andthen_apply ret_apply)

lemma sends_available: "sends (\<lambda>_ k. k = 0) (\<lambda>e k. k = 0 \<and> e = ModelUnavailableErr []) (assert_available gw model)"
  by (simp add: sends_def assert_available_def breaker_available_def read_clock_def set_breaker_def andthen_apply
      ret_apply lift_result_apply split: option.split)

lemma request_model_sends:
  "sends (\<lambda>_ k. k = 1) (\<lambda>e k. k = 1 \<and> (\<exists>a. e = ModelUnavailableErr [a]))
     (request_model gw cfg model messages tools purpose)"
  by (rule sendsI)
    (simp add: request_model_def read_clock_def post_payload_def andthen_apply ret_apply throw_apply Let_def
      split: sum.split)

subsection \<open>Well-formed actions\<close>

definition action_ok :: "runtime_state \<Rightarrow> model_action \<Rightarrow> bool" where
  "action_ok st a \<longleftrightarrow> (case ma_tool_call a of
     Some c \<Rightarrow> \<not> ma_finish a \<and> tool_name_ok (tc_name c)
       \<and> (startswith (tc_name c) ''propose_'' \<longrightarrow> tc_idempotency_key c = Some (stable_key st (tc_name c)))
   | None \<Rightarrow> ma_finish a \<and> in_unit (ma_confidence a) \<and> length (ma_reason_codes a) \<le> 32
       \<and> (\<exists>dec. ma_decision a = Some dec \<and> dec \<noteq> [] \<and> length dec \<le> 64))"

lemma then_result_InrD: "then_result x f = Inr b \<Longrightarrow> \<exists>a. x = Inr a \<and> f a = Inr b"
  by (cases x) (simp_all add: then_result_def)

lemma then_result_InlD: "then_result x f = Inl e \<Longrightarrow> x = Inl e \<or> (\<exists>a. x = Inr a \<and> f a = Inl e)"
  by (cases x) (simp_all add: then_result_def)

lemma read_action_ok:
  assumes "read_action gw st message = Inr a"
  shows "action_ok st a"
proof -
  obtain b where b: "parse_action gw message = Inr b" and a: "a = bind_idempotency st b"
    using then_result_InrD [OF assms [unfolded read_action_def]] by auto
  show ?thesis
  proof (cases "json_truthy (dict_get message ''tool_calls'' JNull)")
    case True
    then obtain call c where c: "read_tool_call gw call = Inr c" "b = default_action\<lparr>ma_tool_call := Some c\<rparr>"
      using b by (auto simp: parse_action_def Let_def parse_call_def dest!: then_result_InrD split: if_splits sum.splits)
    obtain name arguments key where "parse_tool_call name arguments key = Inr c"
      using c(1) by (auto simp: read_tool_call_def dest!: then_result_InrD split: json.splits)
    then have "tool_name_ok (tc_name c)" by (rule parse_tool_call_sound)
    then show ?thesis by (simp add: a c(2) action_ok_def bind_idempotency_def default_action_def)
  next
    case False
    then obtain v where v: "parse_final_decision v = Inr b"
      using b by (auto simp: parse_action_def Let_def parse_decision_def split: json.splits option.splits)
    then show ?thesis
      using parse_final_decision_sound [OF v] by (simp add: a action_ok_def bind_idempotency_def)
  qed
qed

text \<open>The errors of reading an action are structured output errors or Python's own.\<close>

definition plain_error :: "exn \<Rightarrow> bool" where
  "plain_error e \<longleftrightarrow> (\<exists>n. e = PyExc n) \<or> (\<exists>as. e = StructuredOutputErr as)"

lemma plain_reads:
  "json_key k j = Inl e \<Longrightarrow> plain_error e" "json_head j = Inl e \<Longrightarrow> plain_error e"
  "json_len j = Inl e \<Longrightarrow> plain_error e" "json_iter j = Inl e \<Longrightarrow> plain_error e"
  "loads_value gw j = Inl e \<Longrightarrow> plain_error e" "parse_tool_call j a i = Inl e \<Longrightarrow> plain_error e"
  "parse_final_decision j = Inl e \<Longrightarrow> plain_error e"
  by (cases j; auto simp: plain_error_def json_key_def json_head_def json_len_def loads_value_def parse_tool_call_def
      parse_final_decision_def split: option.splits list.splits if_splits)+

lemma plain_then:
  assumes "\<And>e. x = Inl e \<Longrightarrow> plain_error e" and "\<And>a e. f a = Inl e \<Longrightarrow> plain_error e"
  shows "then_result x f = Inl e \<Longrightarrow> plain_error e"
  using assms by (auto dest: then_result_InlD)

lemma plain_py [simp]: "plain_error (PyExc n)" "plain_error (StructuredOutputErr as)"
  by (simp_all add: plain_error_def)

lemma read_tool_call_plain: "read_tool_call gw call = Inl e \<Longrightarrow> plain_error e"
  unfolding read_tool_call_def
proof (erule plain_then [rotated 2])
  show "json_key ''function'' call = Inl e \<Longrightarrow> plain_error e" for e by (rule plain_reads)
  fix f e
  assume "(case f of
        JObj fs \<Rightarrow>
          then_result (loads_value gw (json_or (dict_get fs ''arguments'' JNull) (JStr ''{}''))) (\<lambda>arguments.
          then_result (json_key ''name'' f) (\<lambda>name.
            parse_tool_call name arguments (case call of JObj cs \<Rightarrow> dict_get cs ''id'' JNull | _ \<Rightarrow> JNull)))
      | _ \<Rightarrow> Inl (PyExc ''AttributeError'')) = Inl e"
  then show "plain_error e"
    by (cases f) (auto dest!: then_result_InlD dest: plain_reads)
qed

lemma read_action_plain: "read_action gw st message = Inl e \<Longrightarrow> plain_error e"
  unfolding read_action_def
proof (erule plain_then [rotated 2])
  let ?calls = "dict_get message ''tool_calls'' JNull" and ?content = "dict_get message ''content'' JNull"
  fix e
  assume a: "parse_action gw message = Inl e"
  show "plain_error e"
  proof (cases "json_truthy ?calls")
    case True
    then have "parse_call gw ?calls ?content = Inl e" using a by (simp add: parse_action_def Let_def)
    then show ?thesis
      unfolding parse_call_def
      by (rule plain_then [rotated 2])
        (auto intro: plain_reads dest!: then_result_InlD dest: read_tool_call_plain split: if_splits sum.splits)
  next
    case False
    then show ?thesis
      using a by (auto simp: parse_action_def Let_def parse_decision_def split: json.splits option.splits dest: plain_reads)
  qed
qed simp

lemma json_iter_py: "json_iter j = Inl e \<Longrightarrow> e = PyExc ''TypeError''"
  by (cases j) auto

lemma prompt_messages_py: "prompt_messages gw st = Inl e \<Longrightarrow> e = PyExc ''TypeError''"
proof -
  have "prompt_attempt_ids env obs = Inl e \<Longrightarrow> e = PyExc ''TypeError''" for env obs
    by (induction obs) (auto dest!: then_result_InlD dest: json_iter_py split: option.splits json.splits)
  then show "prompt_messages gw st = Inl e \<Longrightarrow> e = PyExc ''TypeError''"
    by (auto simp: prompt_messages_def dest!: then_result_InlD)
qed

subsection \<open>One decision\<close>

definition sums_ok :: "model_result \<Rightarrow> bool" where
  "sums_ok r \<longleftrightarrow> mr_input_tokens r = sum_of at_input_tokens (mr_attempts r)
     \<and> mr_output_tokens r = sum_of at_output_tokens (mr_attempts r)
     \<and> mr_latency_ms r = sum_of at_latency_ms (mr_attempts r)"

text \<open>A result accounts for its requests; so do the errors that carry attempts, as far as the code keeps them.\<close>

definition accounted :: "runtime_state \<Rightarrow> model_result \<Rightarrow> nat \<Rightarrow> bool" where
  "accounted st r k \<longleftrightarrow> 0 < k \<and> length (mr_attempts r) = k \<and> sums_ok r \<and> action_ok st (mr_action r)"

definition failed_with :: "exn \<Rightarrow> nat \<Rightarrow> bool" where
  "failed_with e k \<longleftrightarrow> (case e of
     ModelUnavailableErr ats \<Rightarrow> length ats = k | StructuredOutputErr ats \<Rightarrow> length ats \<le> k | _ \<Rightarrow> True)"

definition gateway_cap :: "int \<Rightarrow> nat" where
  "gateway_cap remaining = (if remaining \<le> 1 then 1 else 2)"

lemma result_of_attempts_ok:
  "action_ok st a \<Longrightarrow> ats \<noteq> [] \<Longrightarrow> accounted st (result_of_attempts model a ats n) (length ats)"
  by (simp add: accounted_def sums_ok_def result_of_attempts_def)

lemma failed_with_simps [simp]:
  "failed_with (ModelUnavailableErr ats) k \<longleftrightarrow> length ats = k"
  "failed_with (StructuredOutputErr ats) k \<longleftrightarrow> length ats \<le> k" "failed_with (PyExc n) k"
  by (simp_all add: failed_with_def)

lemma action_error_sends:
  assumes "read_action gw st message = Inl e" and "length ats \<le> k"
  shows "failed_with (case e of StructuredOutputErr _ \<Rightarrow> StructuredOutputErr ats | _ \<Rightarrow> e) k"
  using read_action_plain [OF assms(1)] assms(2) by (auto simp: plain_error_def)

lemma repair_model_sends:
  "sends (\<lambda>r k. k = 1 \<and> accounted st r (Suc k) \<and> 1 < remaining_model_calls st)
     (\<lambda>e k. failed_with e (Suc k) \<and> k \<le> 1 \<and> (k = 1 \<longrightarrow> 1 < remaining_model_calls st)
        \<and> (\<forall>ats. e = ModelUnavailableErr ats \<longrightarrow> k = 1))
     (repair_model gw cfg model st messages tools message primary)"
proof (cases "remaining_model_calls st \<le> 1 \<or> remaining_repair_calls st \<le> 0")
  case True
  then show ?thesis unfolding repair_model_def by (simp only: if_True) (rule sends_throw, simp)
next
  case False
  have request: "sends (\<lambda>_ k. k = 1) (\<lambda>e k. k = 1 \<and> (\<exists>a b. e = ModelUnavailableErr [a, b]))
    (handle (request_model gw cfg model (repair_messages gw messages message) tools ''REPAIR'')
       (\<lambda>e. case e of ModelUnavailableErr ats \<Rightarrow> throw (ModelUnavailableErr (primary # ats)) | _ \<Rightarrow> throw e))"
    by (rule sends_handle [OF request_model_sends]) (auto intro!: sends_throw)
  show ?thesis
    unfolding repair_model_def
  proof (simp only: False if_False, rule sends_andthen [OF request])
    fix x :: "jobj \<times> model_attempt" and k :: nat
    assume k: "k = 1"
    obtain repaired attempt where x: "x = (repaired, attempt)" by fastforce
    show "sends (\<lambda>r j. k + j = 1 \<and> accounted st r (Suc (k + j)) \<and> 1 < remaining_model_calls st)
        (\<lambda>e j. failed_with e (Suc (k + j)) \<and> k + j \<le> 1 \<and> (k + j = 1 \<longrightarrow> 1 < remaining_model_calls st)
          \<and> (\<forall>ats. e = ModelUnavailableErr ats \<longrightarrow> k + j = 1))
        (case x of (repaired, attempt) \<Rightarrow> (case read_action gw st repaired of
             Inr a \<Rightarrow> ret (result_of_attempts model a [primary, attempt] 1)
           | Inl (StructuredOutputErr _) \<Rightarrow> throw (StructuredOutputErr [primary, attempt])
           | Inl e \<Rightarrow> throw e))"
    proof (cases "read_action gw st repaired")
      case (Inr a)
      then show ?thesis
        using k False result_of_attempts_ok [OF read_action_ok [OF Inr], of "[primary, attempt]"]
        by (auto simp: x numeral_2_eq_2 intro!: sends_ret)
    next
      case (Inl e)
      then show ?thesis
        using k False read_action_plain [OF Inl] by (auto simp: x plain_error_def intro!: sends_throw)
    qed
  qed (use False in auto)
qed

lemma gateway_decide_sends:
  "sends (\<lambda>r k. accounted st r k \<and> k \<le> gateway_cap (remaining_model_calls st))
     (\<lambda>e k. failed_with e k \<and> k \<le> gateway_cap (remaining_model_calls st)
        \<and> (\<forall>ats. e = ModelUnavailableErr ats \<longrightarrow> 0 < k))
     (gateway_decide gw cfg model st tools)"
  unfolding gateway_decide_def
proof (rule sends_andthen [where P = "\<lambda>_ k. k = 0" and F = "\<lambda>e k. k = 0 \<and> e = PyExc ''TypeError''"])
  show "sends (\<lambda>_ k. k = 0) (\<lambda>e k. k = 0 \<and> e = PyExc ''TypeError'') (lift_result (prompt_messages gw st))"
    by (rule sends_lift) (auto dest: prompt_messages_py)
next
  fix messages and k0 :: nat
  assume k0: "k0 = 0"
  show "sends (\<lambda>r j. accounted st r (k0 + j) \<and> k0 + j \<le> gateway_cap (remaining_model_calls st))
      (\<lambda>e j. failed_with e (k0 + j) \<and> k0 + j \<le> gateway_cap (remaining_model_calls st)
        \<and> (\<forall>ats. e = ModelUnavailableErr ats \<longrightarrow> 0 < k0 + j))
      (andthen (request_model gw cfg model messages tools ''PRIMARY'') (\<lambda>(message, primary).
        case read_action gw st message of
          Inr a \<Rightarrow> ret (result_of_attempts model a [primary] 0)
        | Inl (StructuredOutputErr _) \<Rightarrow> repair_model gw cfg model st messages tools message primary
        | Inl e \<Rightarrow> throw e))"
  proof (rule sends_andthen [OF request_model_sends])
    fix x :: "jobj \<times> model_attempt" and k :: nat
    assume k: "k = 1"
    obtain message primary where x: "x = (message, primary)" by fastforce
    show "sends (\<lambda>r j. accounted st r (k0 + (k + j)) \<and> k0 + (k + j) \<le> gateway_cap (remaining_model_calls st))
        (\<lambda>e j. failed_with e (k0 + (k + j)) \<and> k0 + (k + j) \<le> gateway_cap (remaining_model_calls st)
          \<and> (\<forall>ats. e = ModelUnavailableErr ats \<longrightarrow> 0 < k0 + (k + j)))
        (case x of (message, primary) \<Rightarrow> (case read_action gw st message of
            Inr a \<Rightarrow> ret (result_of_attempts model a [primary] 0)
          | Inl (StructuredOutputErr _) \<Rightarrow> repair_model gw cfg model st messages tools message primary
          | Inl e \<Rightarrow> throw e))"
    proof (cases "read_action gw st message")
      case (Inr a)
      then show ?thesis
        using k k0 result_of_attempts_ok [OF read_action_ok [OF Inr], of "[primary]"]
        by (auto simp: x gateway_cap_def intro!: sends_ret)
    next
      case (Inl e)
      have "sends (\<lambda>r j. accounted st r (k0 + (k + j)) \<and> k0 + (k + j) \<le> gateway_cap (remaining_model_calls st))
        (\<lambda>e j. failed_with e (k0 + (k + j)) \<and> k0 + (k + j) \<le> gateway_cap (remaining_model_calls st)
          \<and> (\<forall>ats. e = ModelUnavailableErr ats \<longrightarrow> 0 < k0 + (k + j)))
        (repair_model gw cfg model st messages tools message primary)"
        by (rule sends_weaken [OF repair_model_sends]) (auto simp: k k0 gateway_cap_def)
      then show ?thesis
        using Inl k k0 read_action_plain [OF Inl]
        by (auto simp: x plain_error_def gateway_cap_def intro!: sends_throw)
    qed
  qed (auto simp: k0 gateway_cap_def)
qed auto

subsection \<open>The calls of the router\<close>

lemma action_ok_budget [simp]: "action_ok (budget_state st available failed) = action_ok st"
  by (simp add: action_ok_def fun_eq_iff stable_key_def budget_state_def cong: option.case_cong)

lemma accounted_budget [simp]: "accounted (budget_state st available failed) = accounted st"
  by (simp add: accounted_def fun_eq_iff)

lemma remaining_budget [simp]:
  "remaining_model_calls (budget_state st available failed) = max 0 (available - int (length failed))"
  by (simp add: remaining_model_calls_def budget_state_def)

lemma sum_of_append: "sum_of f (xs @ ys) = (sum_of f xs + sum_of f ys :: int)"
  by simp

lemma with_failed_accounted:
  "accounted st r k \<Longrightarrow> accounted st (with_failed failed r) (length failed + k)"
  by (auto simp: accounted_def sums_ok_def with_failed_def sum_of_append)

lemma try_gateway_sends:
  "sends (\<lambda>r k. accounted st r (length failed + k) \<and> k \<le> gateway_cap (max 0 (available - int (length failed))))
     (\<lambda>e k. failed_with e k \<and> k \<le> gateway_cap (max 0 (available - int (length failed)))
        \<and> (\<forall>ats. e = ModelUnavailableErr ats \<longrightarrow> 0 < k))
     (try_gateway gw cfg g st tools available failed)"
  unfolding try_gateway_def
proof (rule sends_andthen [OF gateway_decide_sends])
  fix r and k :: nat
  assume "accounted (budget_state st available failed) r k
    \<and> k \<le> gateway_cap (remaining_model_calls (budget_state st available failed))"
  then have ok: "accounted st r k" "k \<le> gateway_cap (max 0 (available - int (length failed)))" by simp_all
  show "sends (\<lambda>r j. accounted st r (length failed + (k + j)) \<and> k + j \<le> gateway_cap (max 0 (available - int (length failed))))
      (\<lambda>e j. failed_with e (k + j) \<and> k + j \<le> gateway_cap (max 0 (available - int (length failed)))
        \<and> (\<forall>ats. e = ModelUnavailableErr ats \<longrightarrow> 0 < k + j))
      (andthen (note_success (model_of cfg g)) (\<lambda>_. ret (with_failed failed r)))"
    by (rule sends_andthen [OF sends_silent(2)]) (auto simp: ok with_failed_accounted intro!: sends_ret)
qed simp

declare call_attempts.simps [simp del]

lemma last_attempt_sends:
  "sends (\<lambda>r k. accounted st r (length failed + k) \<and> k \<le> gateway_cap (max 0 (available - int (length failed))))
     (\<lambda>e k. failed_with e (length failed + k) \<and> k \<le> gateway_cap (max 0 (available - int (length failed)))
        \<and> (\<forall>ats. e = ModelUnavailableErr ats \<longrightarrow> 0 < k))
     (call_attempts gw cfg Plus fallback st tools available n (Suc 0) failed)"
proof (simp only: call_attempts.simps, rule sends_handle [OF try_gateway_sends])
  fix e and k :: nat
  assume e: "failed_with e k \<and> k \<le> gateway_cap (max 0 (available - int (length failed)))
    \<and> (\<forall>ats. e = ModelUnavailableErr ats \<longrightarrow> 0 < k)"
  show "sends (\<lambda>r j. accounted st r (length failed + (k + j)) \<and> k + j \<le> gateway_cap (max 0 (available - int (length failed))))
     (\<lambda>e j. failed_with e (length failed + (k + j)) \<and> k + j \<le> gateway_cap (max 0 (available - int (length failed)))
        \<and> (\<forall>ats. e = ModelUnavailableErr ats \<longrightarrow> 0 < k + j))
     (case e of ModelUnavailableErr ats \<Rightarrow>
        andthen (note_failure gw (model_of cfg Plus)) (\<lambda>_.
          if Plus = Flash then fallback (failed @ ats)
          else if \<not> list_ex (\<lambda>a. retryable_code (at_error_code a)) ats \<or> (0::nat) = 0
          then throw (ModelUnavailableErr (failed @ ats))
          else andthen (sleep_before_retry gw n) (\<lambda>_.
            throw (ModelUnavailableErr (failed @ ats))))
    | _ \<Rightarrow> throw e)"
  proof (cases "\<exists>ats. e = ModelUnavailableErr ats")
    case True
    then obtain ats where ats: "e = ModelUnavailableErr ats" by blast
    show ?thesis
      unfolding ats exn.case
      by (rule sends_andthen [OF sends_silent(3)]) (use e ats in \<open>auto intro!: sends_throw\<close>)
  next
    case False
    have "failed_with e (length failed + k)" using e False by (cases e) (auto simp: failed_with_def)
    then show ?thesis using e False by (cases e) (auto intro!: sends_throw)
  qed
qed simp

text \<open>A first attempt may use two requests with its repair, and the retry uses one whatever is left: the
  calls of the plus model exceed their budget by at most one.\<close>

lemma two_attempts_sends:
  assumes "2 \<le> available"
  shows "sends (\<lambda>r k. accounted st r k \<and> int k \<le> available + 1)
     (\<lambda>e k. failed_with e k \<and> int k \<le> available + 1)
     (call_attempts gw cfg Plus fallback st tools available n (Suc (Suc 0)) [])"
proof (simp only: call_attempts.simps(2) [of gw cfg Plus fallback st tools available n "Suc 0"],
    rule sends_handle [OF try_gateway_sends])
  show "accounted st r (length [] + k) \<and> k \<le> gateway_cap (max 0 (available - int (length []))) \<Longrightarrow>
      accounted st r k \<and> int k \<le> available + 1" for r and k :: nat
    using assms by (auto simp: gateway_cap_def split: if_splits)
  fix e and k :: nat
  assume e: "failed_with e k \<and> k \<le> gateway_cap (max 0 (available - int (length [])))
    \<and> (\<forall>ats. e = ModelUnavailableErr ats \<longrightarrow> 0 < k)"
  then have k: "int k \<le> 2" using assms by (auto simp: gateway_cap_def split: if_splits)
  show "sends (\<lambda>r j. accounted st r (k + j) \<and> int (k + j) \<le> available + 1)
     (\<lambda>e j. failed_with e (k + j) \<and> int (k + j) \<le> available + 1)
     (case e of ModelUnavailableErr ats \<Rightarrow>
        andthen (note_failure gw (model_of cfg Plus)) (\<lambda>_.
          if Plus = Flash then fallback ([] @ ats)
          else if \<not> list_ex (\<lambda>a. retryable_code (at_error_code a)) ats \<or> Suc 0 = 0
          then throw (ModelUnavailableErr ([] @ ats))
          else andthen (sleep_before_retry gw n) (\<lambda>_.
            call_attempts gw cfg Plus fallback st tools available (Suc n) (Suc 0) ([] @ ats)))
    | _ \<Rightarrow> throw e)"
  proof (cases "\<exists>ats. e = ModelUnavailableErr ats")
    case True
    then obtain ats where ats: "e = ModelUnavailableErr ats" by blast
    then have len: "length ats = k" "0 < k" using e by auto
    have retry: "sends (\<lambda>r j. accounted st r (k + j) \<and> int (k + j) \<le> available + 1)
       (\<lambda>e j. failed_with e (k + j) \<and> int (k + j) \<le> available + 1)
       (call_attempts gw cfg Plus fallback st tools available (Suc n) (Suc 0) ats)"
      by (rule sends_weaken [OF last_attempt_sends])
        (use len k assms in \<open>auto simp: gateway_cap_def split: if_splits\<close>)
    have again: "sends (\<lambda>r j. accounted st r (k + j) \<and> int (k + j) \<le> available + 1)
       (\<lambda>e j. failed_with e (k + j) \<and> int (k + j) \<le> available + 1)
       (andthen (sleep_before_retry gw n) (\<lambda>_.
          call_attempts gw cfg Plus fallback st tools available (Suc n) (Suc 0) ats))"
      by (rule sends_andthen [OF sends_silent(4)]) (use retry in auto)
    show ?thesis
      unfolding ats exn.case append_Nil
      by (rule sends_andthen [OF sends_silent(3)])
        (use again len k assms in \<open>auto intro!: sends_throw\<close>)
  next
    case False
    then show ?thesis using e k assms by (cases e) (auto simp: failed_with_def intro!: sends_throw)
  qed
qed

definition plus_calls_ok :: "runtime_state \<Rightarrow> int \<Rightarrow> model_result router_comp \<Rightarrow> bool" where
  "plus_calls_ok st budget m \<longleftrightarrow> sends (\<lambda>r k. accounted st r k \<and> int k \<le> budget + 1 \<and> 0 < budget)
     (\<lambda>e k. failed_with e k \<and> int k \<le> (if 0 < budget then budget + 1 else 0)) m"

lemma call_plus_sends: "plus_calls_ok st budget (call_plus gw cfg st tools budget)"
  unfolding plus_calls_ok_def call_plus_def call_gateway_def
proof (rule sends_andthen [OF sends_available])
  fix u and k :: nat
  assume k: "k = 0"
  let ?loop = "call_attempts gw cfg Plus (\<lambda>failed. throw (ModelUnavailableErr failed)) st tools (max 0 budget) 1
    (nat (min (rp_max_attempts router_policy) (max 0 budget))) []"
  have tries: "nat (min (rp_max_attempts router_policy) (max 0 budget)) = (if 2 \<le> budget then Suc (Suc 0) else Suc 0)"
    if "0 < budget"
    using that by (auto simp: router_policy_def)
  have "sends (\<lambda>r k. accounted st r k \<and> int k \<le> budget + 1 \<and> 0 < budget)
     (\<lambda>e k. failed_with e k \<and> int k \<le> (if 0 < budget then budget + 1 else 0)) ?loop" if "0 < budget"
  proof (cases "2 \<le> budget")
    case True
    show ?thesis
      unfolding tries [OF that] using True that
      by (simp add: max_def) (rule sends_weaken [OF two_attempts_sends], auto)
  next
    case False
    show ?thesis
      unfolding tries [OF that] using False that
      by simp (rule sends_weaken [OF last_attempt_sends], auto simp: gateway_cap_def)
  qed
  then show "sends (\<lambda>r j. accounted st r (k + j) \<and> int (k + j) \<le> budget + 1 \<and> 0 < budget)
     (\<lambda>e j. failed_with e (k + j) \<and> int (k + j) \<le> (if 0 < budget then budget + 1 else 0))
     (let available = max 0 budget in
      if available \<le> 0 then throw (ModelUnavailableErr [])
      else call_attempts gw cfg Plus (\<lambda>failed. throw (ModelUnavailableErr failed)) st tools available 1
        (nat (min (if Plus = Flash then 1 else rp_max_attempts router_policy) available)) [])"
    by (auto simp: Let_def k intro!: sends_throw)
qed auto

lemma flash_fallback_sends:
  assumes "length failed = k" and "int k \<le> available + 1" and "0 < available" and "0 < k"
  shows "sends (\<lambda>r j. accounted st r (k + j) \<and> int (k + j) \<le> available + 1)
     (\<lambda>e j. failed_with e (k + j) \<and> int (k + j) \<le> available + 1)
     (flash_fallback gw cfg st tools available failed)"
proof (cases "available \<le> int k")
  case True
  then show ?thesis using assms by (auto simp: flash_fallback_def intro!: sends_throw)
next
  case False
  have plus: "sends (\<lambda>r j. accounted st r j \<and> int (k + j) \<le> available + 1)
     (\<lambda>e j. failed_with e j \<and> int (k + j) \<le> available + 1)
     (call_plus gw cfg st tools (available - int k))"
    by (rule sends_weaken [OF call_plus_sends [unfolded plus_calls_ok_def]])
      (use False in \<open>auto split: if_splits\<close>)
  have handled: "sends (\<lambda>r j. accounted st r j \<and> int (k + j) \<le> available + 1)
     (\<lambda>e j. failed_with e (k + j) \<and> int (k + j) \<le> available + 1)
     (handle (call_plus gw cfg st tools (available - int k))
       (\<lambda>e. case e of ModelUnavailableErr ats \<Rightarrow> throw (ModelUnavailableErr (failed @ ats)) | _ \<Rightarrow> throw e))"
  proof (rule sends_handle [OF plus])
    fix e and j :: nat
    assume "failed_with e j \<and> int (k + j) \<le> available + 1"
    then show "sends (\<lambda>r i. accounted st r (j + i) \<and> int (k + (j + i)) \<le> available + 1)
       (\<lambda>e i. failed_with e (k + (j + i)) \<and> int (k + (j + i)) \<le> available + 1)
       (case e of ModelUnavailableErr ats \<Rightarrow> throw (ModelUnavailableErr (failed @ ats)) | _ \<Rightarrow> throw e)"
      using assms(1) by (cases e) (auto simp: failed_with_def intro!: sends_throw)
  qed simp
  have tail: "sends (\<lambda>b i. accounted st b (k + (j + i)) \<and> int (k + (j + i)) \<le> available + 1)
      (\<lambda>e i. failed_with e (k + (j + i)) \<and> int (k + (j + i)) \<le> available + 1) (ret (with_failed failed r))"
    if "accounted st r j \<and> int (k + j) \<le> available + 1" for r and j :: nat
    by (rule sends_ret) (use that assms(1) with_failed_accounted [of st r j failed] in simp)
  show ?thesis
    unfolding flash_fallback_def using False assms(1)
    by (simp only: if_False) (rule sends_andthen [OF handled]; use tail in simp)
qed

lemma call_flash_sends:
  "sends (\<lambda>r k. accounted st r k \<and> int k \<le> budget + 1 \<and> 0 < budget)
     (\<lambda>e k. failed_with e k \<and> int k \<le> (if 0 < budget then budget + 1 else 0))
     (call_flash gw cfg st tools budget)"
  unfolding call_flash_def call_gateway_def
proof (rule sends_andthen [OF sends_available])
  fix u and k :: nat
  assume k: "k = 0"
  let ?fb = "flash_fallback gw cfg st tools (max 0 budget)"
  have loop: "sends (\<lambda>r k. accounted st r k \<and> int k \<le> budget + 1)
     (\<lambda>e k. failed_with e k \<and> int k \<le> budget + 1)
     (call_attempts gw cfg Flash ?fb st tools (max 0 budget) n (Suc 0) [])" if "0 < budget" for n
  proof (simp only: call_attempts.simps, rule sends_handle [OF try_gateway_sends])
    show "accounted st r (length [] + k) \<and> k \<le> gateway_cap (max 0 (max 0 budget - int (length []))) \<Longrightarrow>
        accounted st r k \<and> int k \<le> budget + 1" for r and k :: nat
      using that by (auto simp: gateway_cap_def split: if_splits)
    fix e and k :: nat
    assume e: "failed_with e k \<and> k \<le> gateway_cap (max 0 (max 0 budget - int (length [])))
      \<and> (\<forall>ats. e = ModelUnavailableErr ats \<longrightarrow> 0 < k)"
    then have k: "int k \<le> budget + 1" using that by (auto simp: gateway_cap_def split: if_splits)
    show "sends (\<lambda>r j. accounted st r (k + j) \<and> int (k + j) \<le> budget + 1)
     (\<lambda>e j. failed_with e (k + j) \<and> int (k + j) \<le> budget + 1)
     (case e of ModelUnavailableErr ats \<Rightarrow>
        andthen (note_failure gw (model_of cfg Flash)) (\<lambda>_.
          if Flash = Flash then ?fb ([] @ ats)
          else if \<not> list_ex (\<lambda>a. retryable_code (at_error_code a)) ats \<or> (0::nat) = 0
          then throw (ModelUnavailableErr ([] @ ats))
          else andthen (sleep_before_retry gw n) (\<lambda>_. throw (ModelUnavailableErr ([] @ ats))))
      | _ \<Rightarrow> throw e)"
    proof (cases "\<exists>ats. e = ModelUnavailableErr ats")
      case True
      then obtain ats where ats: "e = ModelUnavailableErr ats" by blast
      then have len: "length ats = k" "0 < k" using e by auto
      have fb: "sends (\<lambda>r j. accounted st r (k + j) \<and> int (k + j) \<le> budget + 1)
         (\<lambda>e j. failed_with e (k + j) \<and> int (k + j) \<le> budget + 1) (?fb ats)"
        using flash_fallback_sends [OF len(1), of budget st gw cfg tools] k that len(2) by simp
      show ?thesis
        unfolding ats exn.case append_Nil simp_thms if_True
        by (rule sends_andthen [OF sends_silent(3)]) (use fb in auto)
    next
      case False
      then show ?thesis using e k by (cases e) (auto simp: failed_with_def intro!: sends_throw)
    qed
  qed
  have one: "nat (min 1 (max 0 budget)) = Suc 0" if "0 < budget" using that by auto
  show "sends (\<lambda>r j. accounted st r (k + j) \<and> int (k + j) \<le> budget + 1 \<and> 0 < budget)
     (\<lambda>e j. failed_with e (k + j) \<and> int (k + j) \<le> (if 0 < budget then budget + 1 else 0))
     (let available = max 0 budget in
      if available \<le> 0 then throw (ModelUnavailableErr [])
      else call_attempts gw cfg Flash ?fb st tools available 1
        (nat (min (if Flash = Flash then 1 else rp_max_attempts router_policy) available)) [])"
  proof (cases "0 < budget")
    case True
    then show ?thesis using loop [OF True, of 1] one by (simp add: Let_def k)
  next
    case False
    then show ?thesis by (auto simp: Let_def k intro!: sends_throw)
  qed
qed auto

lemma accounted_combine:
  assumes "accounted st r k" and "accounted st f j"
  shows "accounted st (combine_results r f) (k + j)"
  using assms by (simp add: accounted_def sums_ok_def combine_results_def)

lemma router_decide_sends:
  assumes "\<not> cfg_use_fake_model cfg"
  shows "sends (\<lambda>r k. accounted st r k \<and> int k \<le> remaining_model_calls st + 1 \<and> 0 < remaining_model_calls st)
     (\<lambda>e k. (\<forall>ats. e = ModelUnavailableErr ats \<or> e = StructuredOutputErr ats \<longrightarrow> length ats \<le> k)
        \<and> int k \<le> (if 0 < remaining_model_calls st then remaining_model_calls st + 1 else 0))
     (router_decide gw cfg st tools)"
proof -
  let ?n = "remaining_model_calls st"
  have err: "\<forall>ats. e = ModelUnavailableErr ats \<or> e = StructuredOutputErr ats \<longrightarrow> length ats \<le> k"
    if "failed_with e k" for e k
    using that by auto
  have plus: "sends (\<lambda>r k. accounted st r k \<and> int k \<le> ?n + 1 \<and> 0 < ?n)
     (\<lambda>e k. (\<forall>ats. e = ModelUnavailableErr ats \<or> e = StructuredOutputErr ats \<longrightarrow> length ats \<le> k)
        \<and> int k \<le> (if 0 < ?n then ?n + 1 else 0)) (call_plus gw cfg st tools ?n)"
    by (rule sends_weaken [OF call_plus_sends [unfolded plus_calls_ok_def]]) (use err in auto)
  have second: "sends (\<lambda>f j. accounted st (combine_results r f) (k + j) \<and> int (k + j) \<le> ?n + 1)
     (\<lambda>e j. (\<forall>ats. e = ModelUnavailableErr ats \<or> e = StructuredOutputErr ats \<longrightarrow> length ats \<le> k + j)
        \<and> int (k + j) \<le> ?n + 1) (call_plus gw cfg st tools (?n - mr_model_call_count r))"
    if r: "accounted st r k" and left: "\<not> ?n \<le> mr_model_call_count r" for r k
  proof -
    have count: "mr_model_call_count r = int k"
      using r by (auto simp: accounted_def mr_model_call_count_def)
    show ?thesis
      by (rule sends_weaken [OF call_plus_sends [unfolded plus_calls_ok_def]])
        (use left r accounted_combine in \<open>auto simp: count split: if_splits\<close>)
  qed
  have flash: "sends (\<lambda>r k. accounted st r k \<and> int k \<le> ?n + 1 \<and> 0 < ?n)
     (\<lambda>e k. (\<forall>ats. e = ModelUnavailableErr ats \<or> e = StructuredOutputErr ats \<longrightarrow> length ats \<le> k)
        \<and> int k \<le> (if 0 < ?n then ?n + 1 else 0))
     (andthen (call_flash gw cfg st tools ?n) (\<lambda>r.
        if 75 / 100 \<le> ma_confidence (mr_action r) \<or> ?n \<le> mr_model_call_count r then ret r
        else andthen (call_plus gw cfg st tools (?n - mr_model_call_count r)) (\<lambda>f. ret (combine_results r f))))"
  proof (rule sends_andthen [OF call_flash_sends])
    fix r and k :: nat
    assume r: "accounted st r k \<and> int k \<le> ?n + 1 \<and> 0 < ?n"
    show "sends (\<lambda>r j. accounted st r (k + j) \<and> int (k + j) \<le> ?n + 1 \<and> 0 < ?n)
       (\<lambda>e j. (\<forall>ats. e = ModelUnavailableErr ats \<or> e = StructuredOutputErr ats \<longrightarrow> length ats \<le> k + j)
         \<and> int (k + j) \<le> (if 0 < ?n then ?n + 1 else 0))
       (if 75 / 100 \<le> ma_confidence (mr_action r) \<or> ?n \<le> mr_model_call_count r then ret r
        else andthen (call_plus gw cfg st tools (?n - mr_model_call_count r)) (\<lambda>f. ret (combine_results r f)))"
    proof (cases "75 / 100 \<le> ma_confidence (mr_action r) \<or> ?n \<le> mr_model_call_count r")
      case True
      then show ?thesis using r by (auto intro!: sends_ret)
    next
      case False
      then have left: "\<not> ?n \<le> mr_model_call_count r" by blast
      show ?thesis
        using False r
        by (simp only: if_False) (rule sends_andthen [OF second [OF _ left]]; auto intro!: sends_ret)
    qed
  qed (use err in auto)
  show ?thesis unfolding router_decide_def using assms plus flash by simp
qed

subsection \<open>Properties of the router\<close>

text \<open>C17. Every model call is accounted for. A decision of the router sends at most one request more than
  the calls that remain, and none when none remain. A result lists exactly one attempt per request, and its
  tokens and latency are their sums; an error lists at most the requests that were made.\<close>

theorem model_calls_are_accounted:
  assumes "\<not> cfg_use_fake_model cfg" and "router_decide gw cfg st tools s = (x, s')"
  shows "\<exists>sent. rs_sent s' = rs_sent s @ sent \<and> int (length sent) \<le> remaining_model_calls st + 1
    \<and> (remaining_model_calls st = 0 \<longrightarrow> sent = [])
    \<and> (case x of
        Inr r \<Rightarrow> length (mr_attempts r) = length sent \<and> sums_ok r
      | Inl e \<Rightarrow> \<forall>ats. e = ModelUnavailableErr ats \<or> e = StructuredOutputErr ats \<longrightarrow> length ats \<le> length sent)"
proof -
  have "0 \<le> remaining_model_calls st" by (simp add: remaining_model_calls_def)
  then show ?thesis
    using router_decide_sends [OF assms(1), of st gw tools, unfolded sends_def, rule_format, of s] assms(2)
    by (auto simp: accounted_def split: sum.splits if_splits)
qed

text \<open>C18. The router returns well-formed actions only: one call of a tool with a valid name, whose
  idempotency key is the stable key of the step when it proposes something, or a final decision with a
  confidence between 0 and 1 and no tool call.\<close>

theorem chosen_action_is_well_formed:
  assumes "\<not> cfg_use_fake_model cfg" and "router_decide gw cfg st tools s = (Inr r, s')"
  shows "action_ok st (mr_action r)"
  using router_decide_sends [OF assms(1), of st gw tools, unfolded sends_def, rule_format, of s] assms(2)
  by (auto simp: accounted_def)

subsection \<open>The breaker and the history of failures\<close>

text \<open>The failures since the last success that lie in the window of the last one.\<close>

definition recent_failures :: "pyfloat list \<Rightarrow> pyfloat list" where
  "recent_failures ts = filter (\<lambda>t. last ts - t \<le> breaker_window) ts"

definition breaker_after :: "pyfloat list \<Rightarrow> breaker" where
  "breaker_after ts = foldl (\<lambda>b t. breaker_failure t b) closed_breaker ts"

lemma breaker_after_snoc: "breaker_after (ts @ [t]) = breaker_failure t (breaker_after ts)"
  by (simp add: breaker_after_def)

lemma dropWhile_filter_sorted:
  fixes ts :: "pyfloat list"
  shows "sorted ts \<Longrightarrow> dropWhile (\<lambda>t. w < now - t) ts = filter (\<lambda>t. now - t \<le> w) ts"
proof (induction ts)
  case (Cons t ts)
  show ?case
  proof (cases "w < now - t")
    case False
    then have "filter (\<lambda>t. now - t \<le> w) ts = ts"
      using Cons.prems by (intro filter_True) fastforce
    then show ?thesis using False by simp
  qed (use Cons in simp)
qed simp

lemma breaker_after_failures:
  "sorted ts \<Longrightarrow> br_failures (breaker_after ts) = recent_failures ts"
proof (induction ts rule: rev_induct)
  case (snoc t ts)
  have sorted: "sorted ts" "\<forall>x \<in> set ts. x \<le> t" using snoc.prems by (simp_all add: sorted_append)
  have inner: "sorted (recent_failures ts @ [t])"
    using sorted by (auto simp: recent_failures_def sorted_append sorted_filter [where f = id, simplified])
  have old: "filter (\<lambda>x. t - x \<le> breaker_window) (recent_failures ts) = filter (\<lambda>x. t - x \<le> breaker_window) ts"
  proof (cases "ts = []")
    case False
    then have "last ts \<le> t" using sorted(2) by simp
    then show ?thesis by (auto simp: recent_failures_def intro!: filter_cong)
  qed (simp add: recent_failures_def)
  show ?case
    using snoc.IH [OF sorted(1)] dropWhile_filter_sorted [OF inner] old
    by (simp add: breaker_after_snoc breaker_failure_def Let_def recent_failures_def breaker_window_def)
qed (simp add: breaker_after_def closed_breaker_def recent_failures_def)

lemma breaker_opens:
  "sorted (ts @ [t]) \<Longrightarrow> br_opened_at (breaker_after (ts @ [t])) =
     (if breaker_threshold \<le> length (recent_failures (ts @ [t])) then Some t else br_opened_at (breaker_after ts))"
  using breaker_after_failures [of "ts @ [t]"]
  by (simp add: breaker_after_snoc breaker_failure_def Let_def)

lemma breaker_stays_closed:
  "sorted ts \<Longrightarrow> (\<And>p q. ts = p @ q \<Longrightarrow> length (recent_failures p) < breaker_threshold) \<Longrightarrow>
     br_opened_at (breaker_after ts) = None"
proof (induction ts rule: rev_induct)
  case (snoc t ts)
  have "br_opened_at (breaker_after ts) = None"
  proof (rule snoc.IH)
    show "sorted ts" using snoc.prems(1) by (simp add: sorted_append)
    show "\<And>p q. ts = p @ q \<Longrightarrow> length (recent_failures p) < breaker_threshold"
      using snoc.prems(2) by (metis append.assoc)
  qed
  moreover have "length (recent_failures (ts @ [t])) < breaker_threshold" using snoc.prems(2) [of "ts @ [t]" "[]"] by simp
  ultimately show ?case using breaker_opens [OF snoc.prems(1)] by simp
qed (simp add: breaker_after_def closed_breaker_def)

text \<open>The breaker of a model is a function of its failures since the last success: it keeps those within
  a minute of the last one. When five are within a minute, no request is sent to the model for thirty seconds
  after the last failure and every call fails at once; as long as no minute has five, every call goes ahead.\<close>

theorem breaker_refines_history:
  assumes "sorted ts" and "rs_breakers s (model_of cfg g) = breaker_after ts"
  shows "br_failures (breaker_after ts) = recent_failures ts
    \<and> (breaker_threshold \<le> length (recent_failures ts) \<longrightarrow> gw_clock gw (rs_reads s) - last ts < breaker_cooldown \<longrightarrow>
        call_gateway gw cfg g fallback st tools budget s = (Inl (ModelUnavailableErr []), s\<lparr>rs_reads := rs_reads s + 1\<rparr>))
    \<and> ((\<forall>p q. ts = p @ q \<longrightarrow> length (recent_failures p) < breaker_threshold) \<longrightarrow>
        fst (assert_available gw (model_of cfg g) s) = Inr ())"
proof (intro conjI impI)
  show "br_failures (breaker_after ts) = recent_failures ts" by (rule breaker_after_failures [OF assms(1)])
next
  assume full: "breaker_threshold \<le> length (recent_failures ts)"
    and soon: "gw_clock gw (rs_reads s) - last ts < breaker_cooldown"
  then obtain us t where ts: "ts = us @ [t]"
    by (cases ts rule: rev_cases) (auto simp: recent_failures_def breaker_threshold_def)
  then have "br_opened_at (breaker_after ts) = Some t" using breaker_opens assms(1) full by simp
  then show "call_gateway gw cfg g fallback st tools budget s =
      (Inl (ModelUnavailableErr []), s\<lparr>rs_reads := rs_reads s + 1\<rparr>)"
    using soon assms(2) by (simp add: call_gateway_def assert_available_def read_clock_def andthen_apply ret_apply
      lift_result_apply breaker_available_def ts)
next
  assume "\<forall>p q. ts = p @ q \<longrightarrow> length (recent_failures p) < breaker_threshold"
  then have "br_opened_at (breaker_after ts) = None" using breaker_stays_closed [OF assms(1)] by blast
  then show "fst (assert_available gw (model_of cfg g) s) = Inr ()"
    using assms(2) by (simp add: assert_available_def read_clock_def set_breaker_def andthen_apply ret_apply
      lift_result_apply breaker_available_def)
qed

subsection \<open>The prompt\<close>

definition char_count :: "string \<Rightarrow> nat" where
  "char_count s = length (filter (\<lambda>c. \<not> continuation c) s)"

fun short_values :: "json \<Rightarrow> bool" where
  "short_values (JObj d) = list_all (\<lambda>kv. short_values (snd kv)) d"
| "short_values (JList xs) = (length xs \<le> 100 \<and> list_all short_values xs)"
| "short_values (JStr s) = (char_count s \<le> 2000)"
| "short_values _ = True"

lemma take_chars_short: "char_count (take_chars n s) \<le> n"
  by (induction n s rule: take_chars.induct) (auto simp: char_count_def split: nat.splits)

lemma take_chars_id: "char_count s \<le> n \<Longrightarrow> take_chars n s = s"
  by (induction n s rule: take_chars.induct) (auto simp: char_count_def split: nat.splits if_splits)

lemma sanitize_redacts: "redacted (sanitize_untrusted v)"
  by (induction v rule: sanitize_untrusted.induct) (auto simp: list_all_iff dest!: in_set_takeD)

lemma sanitize_shortens: "short_values (sanitize_untrusted v)"
proof (induction v rule: sanitize_untrusted.induct)
  case (3 s)
  then show ?case using take_chars_short by simp
qed (auto simp: list_all_iff char_count_def dest!: in_set_takeD)

lemma sanitize_id: "redacted v \<Longrightarrow> short_values v \<Longrightarrow> sanitize_untrusted v = v"
proof (induction v rule: sanitize_untrusted.induct)
  case (1 d)
  then show ?case by (auto simp: list_all_iff intro!: map_idI)
next
  case (2 xs)
  then show ?case by (auto simp: list_all_iff intro!: map_idI)
qed (auto simp: take_chars_id)

text \<open>What the provider sees of the observations is sanitized at every depth: no value under a sensitive
  key, no list of more than 100 elements, no text of more than 2000 characters; sanitizing again changes nothing.\<close>

theorem prompt_is_sanitized:
  "redacted (sanitize_untrusted v) \<and> short_values (sanitize_untrusted v)
    \<and> sanitize_untrusted (sanitize_untrusted v) = sanitize_untrusted v"
  using sanitize_redacts sanitize_shortens sanitize_id by blast

subsection \<open>Examples\<close>

definition answer_with :: "string \<Rightarrow> json" where
  "answer_with text = JObj [(''choices'', JList [JObj [(''message'', JObj [(''content'', JStr text)])]])]"

definition example_decision :: json where
  "example_decision = JObj [(''decision'', JStr ''UNCERTAIN''), (''confidence'', JFloat (1 / 2)), (''finish'', JBool True)]"

text \<open>A provider whose first answer is malformed, whose repair fails with status 503, and whose third answer
  is a decision.\<close>

definition example_answers :: "(exn + json) list" where
  "example_answers = [Inr (answer_with ''?''), Inl (HttpStatusErr 503), Inr (answer_with ''D'')]"

definition example_gateway :: gateway_env where
  "example_gateway = \<lparr>gw_post = (\<lambda>sent payload. example_answers ! (length sent mod 3)), gw_clock = (\<lambda>n. 0), gw_sample = (\<lambda>n. 0),
     gw_loads = (\<lambda>t. if t = ''D'' then Some example_decision else None), gw_dumps = (\<lambda>j. []),
     gw_error_text = (\<lambda>m. []), gw_app = \<lparr>ae_uuid_str = (\<lambda>u. []), ae_uuid_of = (\<lambda>s. None), ae_date_iso = (\<lambda>d. []),
       ae_date_of = (\<lambda>s. None), ae_isoformat = (\<lambda>t. []), ae_repr = (\<lambda>j. []), ae_int_of = (\<lambda>s. None), ae_float_of = (\<lambda>s. None)\<rparr>\<rparr>"

definition live_settings :: settings where
  "live_settings = default_settings\<lparr>cfg_use_fake_model := False\<rparr>"

definition example_router :: router_state where
  "example_router = \<lparr>rs_breakers = (\<lambda>m. closed_breaker), rs_sent = [], rs_reads = 0, rs_slept = []\<rparr>"

definition two_calls_left :: runtime_state where
  "two_calls_left = (new_runtime_state ''r'' ''s'' ''DIAGNOSE'' 0)\<lparr>model_call_limit := 2\<rparr>"

lemma example_live: "\<not> cfg_use_fake_model live_settings"
  by (simp add: live_settings_def)

lemma example_states:
  "remaining_model_calls two_calls_left = 2" "goal two_calls_left = ''DIAGNOSE''" "observations two_calls_left = []"
  "observations (budget_state two_calls_left a f) = []"
  "remaining_repair_calls (budget_state two_calls_left a f) = 1"
  by (simp_all add: two_calls_left_def new_runtime_state_def remaining_model_calls_def remaining_repair_calls_def
      budget_state_def)

lemma example_reads:
  "read_action example_gateway st [(''content'', JStr ''?'')] = Inl (StructuredOutputErr [])"
  "\<exists>a. read_action example_gateway st [(''content'', JStr ''D'')] = Inr a"
  by (simp_all add: read_action_def then_result_def parse_action_def Let_def dict_get_def parse_decision_def
      example_gateway_def example_decision_def parse_final_decision_def only_keys_def checked_def length_between_def
      in_unit_def optional_def)

lemma example_responses:
  "read_response (gw_app example_gateway) (answer_with t) = Inr ([(''content'', JStr t)], 0, 0)"
  by (simp add: read_response_def answer_with_def then_result_def json_key_def json_head_def dict_get_def json_int_def)

definition after_request :: "settings \<Rightarrow> string \<Rightarrow> json list \<Rightarrow> json list \<Rightarrow> router_state \<Rightarrow> router_state" where
  "after_request cfg model messages tools s = s\<lparr>rs_sent := rs_sent s @ [request_payload cfg model messages tools],
     rs_reads := rs_reads s + 2\<rparr>"

lemma after_request_sent [simp]:
  "length (rs_sent (after_request cfg model messages tools s)) = Suc (length (rs_sent s))"
  by (simp add: after_request_def)

lemma example_request:
  "example_answers ! (length (rs_sent s) mod 3) = Inr (answer_with t) \<Longrightarrow>
    request_model example_gateway cfg model messages tools purpose s =
      (Inr ([(''content'', JStr t)], attempt_succeeded model purpose 0 0 0), after_request cfg model messages tools s)"
  "example_answers ! (length (rs_sent s) mod 3) = Inl (HttpStatusErr 503) \<Longrightarrow>
    request_model example_gateway cfg model messages tools purpose s =
      (Inl (ModelUnavailableErr [attempt_failed model purpose 0 ''MODEL_HTTP_503'']), after_request cfg model messages tools s)"
proof -
  have sent: "gw_post example_gateway sent payload = example_answers ! (length sent mod 3)"
    "gw_clock example_gateway n = 0" for sent payload n
    by (simp_all add: example_gateway_def)
  have code: "model_error_code (HttpStatusErr 503) = ''MODEL_HTTP_503''"
    by (simp add: model_error_code_def show_int_def show_nat.simps show_digit_def)
  have zero: "py_round 0 = 0" by (simp add: py_round_def)
  show "example_answers ! (length (rs_sent s) mod 3) = Inr (answer_with t) \<Longrightarrow>
    request_model example_gateway cfg model messages tools purpose s =
      (Inr ([(''content'', JStr t)], attempt_succeeded model purpose 0 0 0), after_request cfg model messages tools s)"
    by (simp add: request_model_def read_clock_def post_payload_def andthen_apply ret_apply sent zero Let_def
      then_result_def example_responses after_request_def)
  show "example_answers ! (length (rs_sent s) mod 3) = Inl (HttpStatusErr 503) \<Longrightarrow>
    request_model example_gateway cfg model messages tools purpose s =
      (Inl (ModelUnavailableErr [attempt_failed model purpose 0 ''MODEL_HTTP_503'']), after_request cfg model messages tools s)"
    by (simp add: request_model_def read_clock_def post_payload_def andthen_apply ret_apply throw_apply sent zero Let_def
      then_result_def code after_request_def)
qed

lemma example_prompt: "observations st = [] \<Longrightarrow> \<exists>ms. prompt_messages example_gateway st = Inr ms"
  by (simp add: prompt_messages_def then_result_def)

text \<open>With two calls left, the malformed answer, its failed repair and the retry make three requests.\<close>

lemma example_first:
  assumes "length (rs_sent s) mod 3 = 0"
  shows "\<exists>ats s'. gateway_decide example_gateway cfg model (budget_state two_calls_left 2 []) tools s =
      (Inl (ModelUnavailableErr (ats @ [attempt_failed model ''REPAIR'' 0 ''MODEL_HTTP_503''])), s')
    \<and> length (rs_sent s') = length (rs_sent s) + 2"
proof -
  let ?st = "budget_state two_calls_left 2 []"
  obtain ms where ms: "prompt_messages example_gateway ?st = Inr ms" using example_prompt example_states(4) by blast
  let ?s1 = "after_request cfg model ms tools s"
  have first: "example_answers ! (length (rs_sent s) mod 3) = Inr (answer_with ''?'')"
    using assms by (simp add: example_answers_def)
  have "Suc (length (rs_sent s)) mod 3 = 1" using assms by presburger
  then have second: "example_answers ! (length (rs_sent ?s1) mod 3) = Inl (HttpStatusErr 503)"
    by (simp add: example_answers_def)
  show ?thesis
    using example_states(5) [of 2 "[]"] ms
    by (simp add: gateway_decide_def andthen_apply lift_result_apply example_request(1) [OF first] example_reads
      repair_model_def handle_apply example_request(2) [OF second] throw_apply)
qed

lemma example_second:
  assumes "length (rs_sent s) mod 3 = 2"
  shows "\<exists>r s'. gateway_decide example_gateway cfg model (budget_state two_calls_left 2 failed) tools s = (Inr r, s')
    \<and> length (rs_sent s') = length (rs_sent s) + 1 \<and> length (mr_attempts r) = 1"
proof -
  let ?st = "budget_state two_calls_left 2 failed"
  obtain ms where ms: "prompt_messages example_gateway ?st = Inr ms" using example_prompt example_states(4) by blast
  obtain a where a: "read_action example_gateway ?st [(''content'', JStr ''D'')] = Inr a" using example_reads(2) by blast
  have third: "example_answers ! (length (rs_sent s) mod 3) = Inr (answer_with ''D'')"
    using assms by (simp add: example_answers_def)
  show ?thesis
    using ms a
    by (simp add: gateway_decide_def andthen_apply lift_result_apply example_request(1) [OF third] ret_apply
      result_of_attempts_def)
qed

lemma example_router_run:
  obtains r' s' where "router_decide example_gateway live_settings two_calls_left [] example_router = (Inr r', s')"
    and "length (rs_sent s') = 3"
proof -
  let ?model = "cfg_qwen_plus_model live_settings"
  have avail: "assert_available example_gateway ?model example_router =
      (Inr (), example_router\<lparr>rs_reads := 1, rs_breakers := (\<lambda>m. closed_breaker)\<rparr>)"
    by (simp add: assert_available_def read_clock_def set_breaker_def andthen_apply ret_apply lift_result_apply
      breaker_available_def example_router_def closed_breaker_def fun_upd_idem)
  let ?s1 = "example_router\<lparr>rs_reads := 1, rs_breakers := (\<lambda>m. closed_breaker)\<rparr>"
  obtain ats s2 where first: "gateway_decide example_gateway live_settings ?model (budget_state two_calls_left 2 []) [] ?s1 =
      (Inl (ModelUnavailableErr (ats @ [attempt_failed ?model ''REPAIR'' 0 ''MODEL_HTTP_503''])), s2)"
    and s2: "length (rs_sent s2) = 2"
    using example_first [of ?s1 live_settings ?model "[]"] by (auto simp: example_router_def)
  let ?ats = "ats @ [attempt_failed ?model ''REPAIR'' 0 ''MODEL_HTTP_503'']"
  obtain s3 where noted: "note_failure example_gateway ?model s2 = (Inr (), s3)" "rs_sent s3 = rs_sent s2"
    by (simp add: note_failure_def read_clock_def set_breaker_def andthen_apply ret_apply)
  obtain s4 where slept: "sleep_before_retry example_gateway 1 s3 = (Inr (), s4)" "rs_sent s4 = rs_sent s3"
    by (simp add: sleep_before_retry_def)
  obtain r s5 where second: "gateway_decide example_gateway live_settings ?model (budget_state two_calls_left 2 ?ats) [] s4 = (Inr r, s5)"
    and s5: "length (rs_sent s5) = 3"
    using example_second [of s4 live_settings ?model ?ats "[]"] s2 noted slept by auto
  have retry: "list_ex (\<lambda>a. retryable_code (at_error_code a)) ?ats"
    by (simp add: retryable_code_def attempt_failed_def)
  have tries: "nat (min (rp_max_attempts router_policy) (max 0 2)) = Suc (Suc 0)"
    by (simp add: router_policy_def)
  have "call_attempts example_gateway live_settings Plus fb two_calls_left [] 2 (Suc 0) (Suc (Suc 0)) [] ?s1 =
        (Inr (with_failed ?ats r), snd (note_success ?model s5))" for fb
      using first noted slept second retry
      by (simp add: call_attempts.simps try_gateway_def model_of_def handle_apply andthen_apply throw_apply ret_apply
        note_success_def set_breaker_def)
    then have "call_plus example_gateway live_settings two_calls_left [] 2 example_router =
        (Inr (with_failed ?ats r), snd (note_success ?model s5))"
      using avail tries by (simp add: call_plus_def call_gateway_def model_of_def andthen_apply Let_def numeral_2_eq_2)
    then have "router_decide example_gateway live_settings two_calls_left [] example_router =
        (Inr (with_failed ?ats r), snd (note_success ?model s5))"
      by (simp add: router_decide_def example_live example_states)
    then show ?thesis by (rule that) (use s5 in \<open>simp add: note_success_def set_breaker_def\<close>)
qed

theorem model_calls_are_accounted_witness:
  "\<exists>r s'. router_decide example_gateway live_settings two_calls_left [] example_router = (Inr r, s')
     \<and> length (rs_sent s') = 3 \<and> length (mr_attempts r) = 3 \<and> remaining_model_calls two_calls_left = 2"
proof -
  obtain r s' where run: "router_decide example_gateway live_settings two_calls_left [] example_router = (Inr r, s')"
    and three: "length (rs_sent s') = 3"
    by (rule example_router_run)
  have "length (mr_attempts r) = 3"
    using model_calls_are_accounted [OF example_live run] three by (auto simp: example_router_def)
  then show ?thesis using run three example_states(1) by blast
qed

theorem chosen_action_is_well_formed_witness:
  "\<exists>r s'. router_decide example_gateway live_settings two_calls_left [] example_router = (Inr r, s')
     \<and> action_ok two_calls_left (mr_action r)"
proof -
  obtain r s' where run: "router_decide example_gateway live_settings two_calls_left [] example_router = (Inr r, s')"
    by (rule example_router_run)
  from chosen_action_is_well_formed [OF example_live run] run show ?thesis by blast
qed

theorem breaker_refines_history_witness:
  "call_gateway example_gateway live_settings Plus (\<lambda>f. throw (ModelUnavailableErr f)) two_calls_left [] 2
     (example_router\<lparr>rs_breakers := (\<lambda>m. breaker_after [0, 0, 0, 0, 0])\<rparr>) =
   (Inl (ModelUnavailableErr []), example_router\<lparr>rs_breakers := (\<lambda>m. breaker_after [0, 0, 0, 0, 0]), rs_reads := 1\<rparr>)"
proof -
  let ?s = "example_router\<lparr>rs_breakers := (\<lambda>m. breaker_after [0, 0, 0, 0, 0])\<rparr>"
  have "sorted [0, 0, 0, 0, 0 :: pyfloat]" "rs_breakers ?s (model_of live_settings Plus) = breaker_after [0, 0, 0, 0, 0]"
    by simp_all
  from breaker_refines_history [OF this, of example_gateway "\<lambda>f. throw (ModelUnavailableErr f)" two_calls_left "[]" 2]
  show ?thesis
    by (simp add: recent_failures_def breaker_window_def breaker_threshold_def breaker_cooldown_def example_router_def
      example_gateway_def)
qed

end
