(* ===== verification/Otp.thy ===== *)
theory Otp
  imports App_Base
begin

text \<open>
  One-time passwords: \<^verbatim>\<open>app/infrastructure/adapters/otp.py\<close>, with the store in memory and the store in Redis
  behind the protocol \<open>OtpStore\<close>.

  \<open>mac\<close> is \<^verbatim>\<open>hmac.new(secret, message, sha256).hexdigest()\<close> under the store's secret. The Redis client is the
  parameter \<open>'r redis\<close>: its operations take the time of the server, and \<open>redis_ok\<close> states what its
  documentation promises of values and expiry. \<open>int_of\<close> is \<open>int(text)\<close>, without a value where it raises.
\<close>

subsection \<open>The store in memory\<close>

record otp_record =
  otr_digest :: string
  otr_expires_at :: pyfloat
  otr_attempts :: int

type_synonym otp_memory = "(string \<times> string, otp_record) dict"

definition otp_digest :: "(string \<Rightarrow> string) \<Rightarrow> string \<Rightarrow> string \<Rightarrow> string \<Rightarrow> string" where
  "otp_digest mac phone code purpose = mac (phone @ '':'' @ purpose @ '':'' @ code)"

definition memory_issue :: "(string \<Rightarrow> string) \<Rightarrow> string \<Rightarrow> pyfloat \<Rightarrow> string \<Rightarrow> string \<Rightarrow> string
    \<Rightarrow> (exn, otp_memory, string) comp" where
  "memory_issue mac fixed now phone client_ip purpose =
    andthen (modify (AList.update (phone, purpose) \<lparr>otr_digest = otp_digest mac phone fixed purpose,
      otr_expires_at = now + 300, otr_attempts = 0\<rparr>)) (\<lambda>_. ret fixed)"

definition one_more_attempt :: "otp_record \<Rightarrow> otp_record" where
  "one_more_attempt r = r\<lparr>otr_attempts := otr_attempts r + 1\<rparr>"

definition otp_invalid :: exn where "otp_invalid = AppErr 401 ''OTP_INVALID''"
definition otp_expired :: exn where "otp_expired = AppErr 401 ''OTP_EXPIRED''"
definition otp_exceeded :: exn where "otp_exceeded = AppErr 429 ''OTP_ATTEMPTS_EXCEEDED''"
definition otp_limited :: exn where "otp_limited = AppErr 429 ''OTP_RATE_LIMITED''"

definition memory_verify :: "(string \<Rightarrow> string) \<Rightarrow> pyfloat \<Rightarrow> string \<Rightarrow> string \<Rightarrow> string
    \<Rightarrow> (exn, otp_memory, unit) comp" where
  "memory_verify mac now phone code purpose =
    andthen (gets (\<lambda>m. map_of m (phone, purpose))) (\<lambda>found. case found of
        None \<Rightarrow> throw otp_expired
      | Some r \<Rightarrow>
          if otr_expires_at r \<le> now then throw otp_expired
          else if 5 \<le> otr_attempts r then throw otp_exceeded
          else if otr_digest r \<noteq> otp_digest mac phone code purpose then
            andthen (modify (AList.update (phone, purpose) (one_more_attempt r))) (\<lambda>_. throw otp_invalid)
          else modify (AList.delete (phone, purpose)))"

subsection \<open>The store in Redis\<close>

record 'r redis =
  rd_get :: "time \<Rightarrow> string \<Rightarrow> 'r \<Rightarrow> string option"
  rd_set :: "time \<Rightarrow> string \<Rightarrow> string \<Rightarrow> int \<Rightarrow> 'r \<Rightarrow> 'r"
  rd_set_nx :: "time \<Rightarrow> string \<Rightarrow> string \<Rightarrow> int \<Rightarrow> 'r \<Rightarrow> bool \<times> 'r"
  rd_delete :: "time \<Rightarrow> string \<Rightarrow> 'r \<Rightarrow> 'r"
  rd_ttl :: "time \<Rightarrow> string \<Rightarrow> 'r \<Rightarrow> int"
  rd_incr :: "time \<Rightarrow> string \<Rightarrow> 'r \<Rightarrow> int \<times> 'r"
  rd_expire :: "time \<Rightarrow> string \<Rightarrow> int \<Rightarrow> 'r \<Rightarrow> 'r"

text \<open>The documented behaviour of the commands: a value set with \<open>EX\<close> is read until its time to live has
  passed, \<open>SET NX\<close> writes only a key that is not there, a command touches its own key only, and a key that
  nobody writes keeps its value or expires.\<close>

definition redis_ok :: "'r redis \<Rightarrow> bool" where
  "redis_ok rd \<longleftrightarrow>
     (\<forall>now k v ttl r t j. 0 < ttl \<longrightarrow> rd_get rd t j (rd_set rd now k v ttl r)
        = (if j = k then if t < now + ttl then Some v else None else rd_get rd t j r))
   \<and> (\<forall>now k r t j. rd_get rd t j (rd_delete rd now k r) = (if j = k then None else rd_get rd t j r))
   \<and> (\<forall>now k v ttl r. rd_set_nx rd now k v ttl r
        = (if rd_get rd now k r = None then (True, rd_set rd now k v ttl r) else (False, r)))
   \<and> (\<forall>now k r t j. j \<noteq> k \<longrightarrow> rd_get rd t j (snd (rd_incr rd now k r)) = rd_get rd t j r)
   \<and> (\<forall>now k ttl r t j. j \<noteq> k \<longrightarrow> rd_get rd t j (rd_expire rd now k ttl r) = rd_get rd t j r)
   \<and> (\<forall>t t' j r. t \<le> t' \<longrightarrow> rd_get rd t' j r = rd_get rd t j r \<or> rd_get rd t' j r = None)"

definition otp_key :: "string \<Rightarrow> string \<Rightarrow> string" where
  "otp_key phone purpose = ''otp:code:'' @ purpose @ '':'' @ phone"

text \<open>The limits: one code a minute for a phone, then the counters of the phone and of the address.\<close>

fun count_limits :: "'r redis \<Rightarrow> time \<Rightarrow> (string \<times> int \<times> int) list \<Rightarrow> (exn, 'r, unit) comp" where
  "count_limits rd now [] = ret ()"
| "count_limits rd now ((key, maximum, ttl) # limits) =
    andthen (gets (rd_incr rd now key)) (\<lambda>p.
    andthen (modify (\<lambda>_. snd p)) (\<lambda>_.
    andthen (if fst p = 1 then modify (rd_expire rd now key ttl) else ret ()) (\<lambda>_.
      if maximum < fst p then throw otp_limited else count_limits rd now limits)))"

definition minute_key :: "string \<Rightarrow> string" where
  "minute_key phone = ''otp:rate:minute:'' @ phone"

definition rate_limits :: "string \<Rightarrow> string \<Rightarrow> (string \<times> int \<times> int) list" where
  "rate_limits phone client_ip = [(''otp:rate:hour:'' @ phone, 5, 3600),
     (''otp:rate:day:'' @ phone, 10, 86400), (''otp:rate:ip:'' @ client_ip, 20, 3600)]"

definition check_rate_limit :: "'r redis \<Rightarrow> time \<Rightarrow> string \<Rightarrow> string \<Rightarrow> (exn, 'r, unit) comp" where
  "check_rate_limit rd now phone client_ip =
    andthen (gets (rd_set_nx rd now (minute_key phone) ''1'' 60)) (\<lambda>p.
    andthen (modify (\<lambda>_. snd p)) (\<lambda>_.
      if \<not> fst p then throw otp_limited else count_limits rd now (rate_limits phone client_ip)))"

text \<open>The code is the fixed one, or \<open>draw\<close>, the number below a million from \<open>secrets.randbelow\<close>, with six
  digits.\<close>

definition pad6 :: "nat \<Rightarrow> string" where
  "pad6 n = replicate (6 - length (show_nat n)) (CHR ''0'') @ show_nat n"

definition new_code :: "string option \<Rightarrow> nat \<Rightarrow> string" where
  "new_code fixed draw = (case fixed of Some c \<Rightarrow> if c = [] then pad6 draw else c | None \<Rightarrow> pad6 draw)"

definition redis_issue :: "'r redis \<Rightarrow> (string \<Rightarrow> string) \<Rightarrow> string option \<Rightarrow> nat \<Rightarrow> time \<Rightarrow> string \<Rightarrow> string
    \<Rightarrow> string \<Rightarrow> (exn, 'r, string) comp" where
  "redis_issue rd mac fixed draw now phone client_ip purpose =
    andthen (check_rate_limit rd now phone client_ip) (\<lambda>_.
    andthen (modify (rd_set rd now (otp_key phone purpose)
      (otp_digest mac phone (new_code fixed draw) purpose @ '':0'') 300)) (\<lambda>_.
    ret (new_code fixed draw)))"

text \<open>\<open>payload.rsplit('':'', 1)\<close> in two parts.\<close>

definition rsplit_colon :: "string \<Rightarrow> (string \<times> string) option" where
  "rsplit_colon s = (case dropWhile (\<lambda>c. c \<noteq> CHR '':'') (rev s) of
     [] \<Rightarrow> None
   | _ # d \<Rightarrow> Some (rev d, rev (takeWhile (\<lambda>c. c \<noteq> CHR '':'') (rev s))))"

definition read_payload :: "(string \<Rightarrow> int option) \<Rightarrow> string \<Rightarrow> exn + string \<times> int" where
  "read_payload int_of s = (case rsplit_colon s of
     None \<Rightarrow> Inl (PyExc ''ValueError'')
   | Some (digest, text) \<Rightarrow> (case int_of text of
       None \<Rightarrow> Inl (PyExc ''ValueError'') | Some n \<Rightarrow> Inr (digest, n)))"

definition redis_verify :: "'r redis \<Rightarrow> (string \<Rightarrow> int option) \<Rightarrow> (string \<Rightarrow> string) \<Rightarrow> time \<Rightarrow> string \<Rightarrow> string
    \<Rightarrow> string \<Rightarrow> (exn, 'r, unit) comp" where
  "redis_verify rd int_of mac now phone code purpose =
    (let key = otp_key phone purpose in
     andthen (gets (rd_get rd now key)) (\<lambda>found. case found of
         None \<Rightarrow> throw otp_expired
       | Some payload \<Rightarrow>
           andthen (lift_result (read_payload int_of payload)) (\<lambda>(digest, attempts).
             if 5 \<le> attempts then andthen (modify (rd_delete rd now key)) (\<lambda>_. throw otp_exceeded)
             else if digest \<noteq> otp_digest mac phone code purpose then
               andthen (gets (\<lambda>r. max (rd_ttl rd now key r) 1)) (\<lambda>ttl.
               andthen (modify (rd_set rd now key (digest @ '':'' @ show_int (attempts + 1)) ttl)) (\<lambda>_.
                 throw otp_invalid))
             else modify (rd_delete rd now key))))"

subsection \<open>The contract of a store\<close>

text \<open>A guess that is compared with the code: it is accepted, or refused as wrong.\<close>

definition guess_compared :: "exn + unit \<Rightarrow> bool" where
  "guess_compared r \<longleftrightarrow> r = Inr () \<or> r = Inl otp_invalid"

text \<open>\<open>budget t phone purpose s\<close> bounds the guesses at the code that will still be compared.\<close>

locale otp_contract =
  fixes issue :: "'t::linorder \<Rightarrow> string \<Rightarrow> string \<Rightarrow> string \<Rightarrow> (exn, 'o, string) comp"
    and verify :: "'t \<Rightarrow> string \<Rightarrow> string \<Rightarrow> string \<Rightarrow> (exn, 'o, unit) comp"
    and budget :: "'t \<Rightarrow> string \<Rightarrow> string \<Rightarrow> 'o \<Rightarrow> nat"
  assumes budget_later: "t \<le> t' \<Longrightarrow> budget t' p u s \<le> budget t p u s"
    and budget_issued: "issue t p ip u s = (Inr c, s') \<Longrightarrow> budget t p u s' \<le> 5"
    and budget_verify: "verify t p c u s = (r, s') \<Longrightarrow> budget t q w s' \<le> budget t q w s"
    and budget_compared: "verify t p c u s = (r, s') \<Longrightarrow> guess_compared r \<Longrightarrow> budget t p u s' < budget t p u s"
    and budget_accepted: "verify t p c u s = (Inr (), s') \<Longrightarrow> budget t p u s' = 0"

text \<open>A run of guesses \<open>(t, phone, code, purpose)\<close> and the results of those at one code.\<close>

type_synonym 't guess = "'t \<times> string \<times> string \<times> string"

fun guess_results :: "('t \<Rightarrow> string \<Rightarrow> string \<Rightarrow> string \<Rightarrow> (exn, 'o, unit) comp) \<Rightarrow> string \<Rightarrow> string
    \<Rightarrow> 't guess list \<Rightarrow> 'o \<Rightarrow> (exn + unit) list" where
  "guess_results verify phone purpose [] s = []"
| "guess_results verify phone purpose ((t, p, c, u) # gs) s =
    (case verify t p c u s of (r, s') \<Rightarrow>
      (if p = phone \<and> u = purpose then [r] else []) @ guess_results verify phone purpose gs s')"

context otp_contract
begin

lemma guesses_within_budget:
  assumes "sorted (t0 # map fst gs)"
  shows "length (filter guess_compared (guess_results verify phone purpose gs s)) \<le> budget t0 phone purpose s"
  using assms
proof (induction gs arbitrary: s t0)
  case (Cons g gs)
  obtain t p c u where g: "g = (t, p, c, u)" by (cases g)
  obtain r s' where v: "verify t p c u s = (r, s')" by (cases "verify t p c u s")
  have "t0 \<le> t" and "sorted (t # map fst gs)" using Cons.prems g by auto
  then have "length (filter guess_compared (guess_results verify phone purpose gs s')) \<le> budget t phone purpose s'"
    by (intro Cons.IH) simp
  moreover have "budget t phone purpose s' \<le> budget t phone purpose s" by (rule budget_verify [OF v])
  moreover have "budget t phone purpose s \<le> budget t0 phone purpose s" by (rule budget_later) fact
  moreover have "p = phone \<Longrightarrow> u = purpose \<Longrightarrow> guess_compared r \<Longrightarrow> budget t phone purpose s' < budget t phone purpose s"
    using budget_compared [OF v] by simp
  ultimately show ?case using g v by auto
qed simp

lemma guesses_accepted_once:
  assumes "sorted (t0 # map fst gs)"
  shows "length (filter ((=) (Inr ())) (guess_results verify phone purpose gs s))
    \<le> (if budget t0 phone purpose s = 0 then 0 else 1)"
  using assms
proof (induction gs arbitrary: s t0)
  case (Cons g gs)
  obtain t p c u where g: "g = (t, p, c, u)" by (cases g)
  obtain r s' where v: "verify t p c u s = (r, s')" by (cases "verify t p c u s")
  have t: "t0 \<le> t" "sorted (t # map fst gs)" using Cons.prems g by auto
  have rest: "length (filter ((=) (Inr ())) (guess_results verify phone purpose gs s'))
      \<le> (if budget t phone purpose s' = 0 then 0 else 1)"
    by (rule Cons.IH) fact
  have "budget t phone purpose s' \<le> budget t0 phone purpose s"
    using budget_verify [OF v] budget_later [OF t(1)] by (rule le_trans)
  moreover have "p = phone \<Longrightarrow> u = purpose \<Longrightarrow> r = Inr () \<Longrightarrow>
      budget t phone purpose s' = 0 \<and> 0 < budget t0 phone purpose s"
    using budget_accepted budget_compared [OF v] v budget_later [OF t(1), of phone purpose s]
    by (auto simp: guess_compared_def)
  ultimately show ?case using g v rest by (auto split: if_splits)
qed simp

lemma issued_code_is_limited:
  assumes "issue t0 phone ip purpose s = (Inr code, s')" and "sorted (t0 # map fst gs)"
  shows "length (filter guess_compared (guess_results verify phone purpose gs s')) \<le> 5
    \<and> length (filter ((=) (Inr ())) (guess_results verify phone purpose gs s')) \<le> 1"
  using guesses_within_budget [OF assms(2), of phone purpose s']
    guesses_accepted_once [OF assms(2), of phone purpose s'] budget_issued [OF assms(1)]
  by (auto split: if_splits)

end

subsection \<open>The stores keep the contract\<close>

definition memory_budget :: "pyfloat \<Rightarrow> string \<Rightarrow> string \<Rightarrow> otp_memory \<Rightarrow> nat" where
  "memory_budget now phone purpose m = (case map_of m (phone, purpose) of
     None \<Rightarrow> 0 | Some r \<Rightarrow> if otr_expires_at r \<le> now then 0 else nat (5 - otr_attempts r))"

lemma otp_errors_differ [simp]: "otp_expired \<noteq> otp_invalid" "otp_exceeded \<noteq> otp_invalid" "otp_limited \<noteq> otp_invalid"
  "otp_invalid \<noteq> otp_expired" "otp_invalid \<noteq> otp_exceeded" "otp_expired \<noteq> otp_exceeded"
  by (simp_all add: otp_expired_def otp_exceeded_def otp_limited_def otp_invalid_def)

lemma guess_compared_simps [simp]: "guess_compared (Inr ())" "guess_compared (Inl otp_invalid)"
  "\<not> guess_compared (Inl otp_expired)" "\<not> guess_compared (Inl otp_exceeded)"
  "\<not> guess_compared (Inl (PyExc n))"
  by (simp_all add: guess_compared_def otp_invalid_def otp_expired_def otp_exceeded_def)

lemma memory_verify_cases:
  assumes "memory_verify mac t p c u m = (r, m')"
  obtains (refused) "m' = m" and "\<not> guess_compared r"
  | (wrong) x where "map_of m (p, u) = Some x" and "t < otr_expires_at x" and "otr_attempts x < 5"
      and "r = Inl otp_invalid" and "m' = AList.update (p, u) (one_more_attempt x) m"
  | (accepted) x where "map_of m (p, u) = Some x" and "t < otr_expires_at x" and "otr_attempts x < 5"
      and "r = Inr ()" and "m' = AList.delete (p, u) m"
  using assms unfolding memory_verify_def
  by (auto simp: comp_simps split: option.splits if_splits)

interpretation mem_otp: otp_contract "memory_issue mac fixed" "memory_verify mac" memory_budget for mac fixed
proof (unfold_locales, goal_cases)
  case 1
  then show ?case by (auto simp: memory_budget_def split: option.split)
next
  case 2
  then show ?case by (auto simp: memory_issue_def memory_budget_def comp_simps update_conv')
next
  case 3
  from 3 show ?case
    by (cases rule: memory_verify_cases)
      (auto simp: memory_budget_def update_conv' delete_conv' one_more_attempt_def split: option.split)
next
  case 4
  from 4(1) show ?case
    by (cases rule: memory_verify_cases)
      (use 4(2) in \<open>auto simp: memory_budget_def update_conv' delete_conv' one_more_attempt_def\<close>)
next
  case 5
  from 5 show ?case
    by (cases rule: memory_verify_cases) (auto simp: memory_budget_def delete_conv' otp_invalid_def)
qed


definition payload_budget :: "(string \<Rightarrow> int option) \<Rightarrow> string \<Rightarrow> nat" where
  "payload_budget int_of payload = (case read_payload int_of payload of Inl _ \<Rightarrow> 0 | Inr (_, n) \<Rightarrow> nat (5 - n))"

definition redis_budget :: "'r redis \<Rightarrow> (string \<Rightarrow> int option) \<Rightarrow> time \<Rightarrow> string \<Rightarrow> string \<Rightarrow> 'r \<Rightarrow> nat" where
  "redis_budget rd int_of now phone purpose r = (case rd_get rd now (otp_key phone purpose) r of
     None \<Rightarrow> 0 | Some payload \<Rightarrow> payload_budget int_of payload)"

lemma redis_laws:
  assumes "redis_ok rd"
  shows redis_get_set: "0 < ttl \<Longrightarrow> rd_get rd t j (rd_set rd now k v ttl r)
      = (if j = k then if t < now + ttl then Some v else None else rd_get rd t j r)"
    and redis_get_delete: "rd_get rd t j (rd_delete rd now k r) = (if j = k then None else rd_get rd t j r)"
    and redis_set_nx: "rd_set_nx rd now k v ttl r
      = (if rd_get rd now k r = None then (True, rd_set rd now k v ttl r) else (False, r))"
    and redis_get_incr: "j \<noteq> k \<Longrightarrow> rd_get rd t j (snd (rd_incr rd now k r)) = rd_get rd t j r"
    and redis_get_expire: "j \<noteq> k \<Longrightarrow> rd_get rd t j (rd_expire rd now k ttl r) = rd_get rd t j r"
    and redis_get_later: "t \<le> t' \<Longrightarrow> rd_get rd t' j r = rd_get rd t j r \<or> rd_get rd t' j r = None"
  using assms by (simp_all add: redis_ok_def)

text \<open>A payload is read back: the numeral has no colon.\<close>

lemma show_digit_not_colon: "n < 10 \<Longrightarrow> show_digit n \<noteq> CHR '':''"
  by (auto simp: show_digit_def nth_Cons' numeral_eq_Suc less_Suc_eq)

lemma show_nat_no_colon: "CHR '':'' \<notin> set (show_nat n)"
proof (induction n rule: show_nat.induct)
  case (1 n)
  then show ?case
    using show_digit_not_colon [of n] show_digit_not_colon [of "n mod 10"]
    by (subst show_nat.simps) auto
qed

lemma rsplit_colon_append:
  assumes "CHR '':'' \<notin> set text"
  shows "rsplit_colon (digest @ '':'' @ text) = Some (digest, text)"
proof -
  have all: "\<forall>c\<in>set (rev text). c \<noteq> CHR '':''" using assms by auto
  have "dropWhile (\<lambda>c. c \<noteq> CHR '':'') (rev text @ CHR '':'' # rev digest) = CHR '':'' # rev digest"
    using all by (subst dropWhile_append2) auto
  moreover have "takeWhile (\<lambda>c. c \<noteq> CHR '':'') (rev text @ CHR '':'' # rev digest) = rev text"
    using all by (subst takeWhile_append2) auto
  ultimately show ?thesis by (simp add: rsplit_colon_def)
qed

lemma show_int_no_colon: "CHR '':'' \<notin> set (show_int n)"
  by (simp add: show_int_def show_nat_no_colon)

lemma payload_roundtrip:
  "(\<And>n. int_of (show_int n) = Some n) \<Longrightarrow> read_payload int_of (digest @ '':'' @ show_int n) = Inr (digest, n)"
  by (simp only: read_payload_def rsplit_colon_append [OF show_int_no_colon]) simp

lemma redis_verify_cases:
  assumes "redis_verify rd int_of mac t p c u r = (x, r')"
  obtains (refused) "r' = r" and "\<not> guess_compared x"
  | (exceeded) "r' = rd_delete rd t (otp_key p u) r" and "x = Inl otp_exceeded"
  | (wrong) payload digest n where "rd_get rd t (otp_key p u) r = Some payload"
      and "read_payload int_of payload = Inr (digest, n)" and "n < 5" and "x = Inl otp_invalid"
      and "r' = rd_set rd t (otp_key p u) (digest @ '':'' @ show_int (n + 1)) (max (rd_ttl rd t (otp_key p u) r) 1) r"
  | (accepted) payload digest n where "rd_get rd t (otp_key p u) r = Some payload"
      and "read_payload int_of payload = Inr (digest, n)" and "n < 5" and "x = Inr ()"
      and "r' = rd_delete rd t (otp_key p u) r"
  using assms unfolding redis_verify_def Let_def
  by (auto simp: comp_simps read_payload_def split: option.splits if_splits sum.splits prod.splits)

lemma redis_otp_contract:
  assumes ok: "redis_ok rd" and int_of: "\<And>n. int_of (show_int n) = Some n"
  shows "otp_contract (redis_issue rd mac fixed draw) (redis_verify rd int_of mac) (redis_budget rd int_of)"
proof (unfold_locales, goal_cases)
  case (1 t t' p u s)
  then show ?case
    using redis_get_later [OF ok 1, of "otp_key p u" s] by (auto simp: redis_budget_def split: option.split)
next
  case (2 t p ip u s c s')
  have "payload_budget int_of (d @ '':0'') = 5" for d
    using payload_roundtrip [OF int_of, of d 0]
    by (simp add: payload_budget_def show_int_def show_nat.simps [of 0] show_digit_def)
  with 2 show ?case
    by (auto simp: redis_issue_def comp_simps redis_budget_def redis_get_set [OF ok] split: prod.splits sum.splits)
next
  case (3 t p c u s r s' q w)
  from 3 show ?case
  proof (cases rule: redis_verify_cases)
    case (wrong payload digest n)
    then show ?thesis
      by (auto simp: redis_budget_def redis_get_set [OF ok] payload_budget_def payload_roundtrip [OF int_of]
          simp del: append.simps split: option.split)
  qed (auto simp: redis_budget_def redis_get_delete [OF ok] split: option.split)
next
  case (4 t p c u s r s')
  from 4(1) show ?case
  proof (cases rule: redis_verify_cases)
    case (wrong payload digest n)
    then show ?thesis
      by (simp add: redis_budget_def redis_get_set [OF ok] payload_budget_def payload_roundtrip [OF int_of]
          del: append.simps)
  qed (use 4(2) in \<open>auto simp: redis_budget_def redis_get_delete [OF ok] payload_budget_def\<close>)
next
  case (5 t p c u s s')
  from 5 show ?case
    by (cases rule: redis_verify_cases) (auto simp: redis_budget_def redis_get_delete [OF ok] otp_invalid_def otp_exceeded_def)
qed

end
