(* ===== verification/Accounts.thy ===== *)
theory Accounts
  imports Otp Agent_Runs "HOL-Library.List_Lexorder" "HOL-Library.Char_ord"
begin

text \<open>
  Accounts: \<^verbatim>\<open>app/application/auth.py\<close> (codes, log-in, rotation of refresh tokens, deletion of an account),
  \<^verbatim>\<open>app/infrastructure/adapters/security.py\<close>, the guards of \<^verbatim>\<open>app/api/dependencies.py\<close>, and the purge of
  \<^verbatim>\<open>app/application/account_purge.py\<close>.

  The libraries are the parameter \<open>auth_env\<close>: \<open>phonenumbers\<close> (parsing, validity, E.164), HMAC and Fernet for the
  phone, SHA-256 for tokens, the encoding and the verified decoding of a JWT. The password store is any
  \<open>otp_store\<close>; an operation on both keeps a pair of states. \<open>refresh\<close> stands for the new random token. Python
  assigns \<open>replacement.id\<close> before the flush that generates it, so \<open>replaced_by_id\<close> stays empty.
\<close>

record auth_env =
  au_parse_phone :: "string \<Rightarrow> nat option"
  au_valid_phone :: "nat \<Rightarrow> bool"
  au_e164 :: "nat \<Rightarrow> string"
  au_lookup_hash :: "string \<Rightarrow> string"
  au_encrypt :: "string \<Rightarrow> string"
  au_token_hash :: "string \<Rightarrow> string"
  au_issuer :: string
  au_jwt_encode :: "jobj \<Rightarrow> string"
  au_jwt_decode :: "time \<Rightarrow> string \<Rightarrow> jobj option"
  au_app :: app_env

record ('t, 'o) otp_store =
  os_issue :: "'t \<Rightarrow> string \<Rightarrow> string \<Rightarrow> string \<Rightarrow> (exn, 'o, string) comp"
  os_verify :: "'t \<Rightarrow> string \<Rightarrow> string \<Rightarrow> string \<Rightarrow> (exn, 'o, unit) comp"

record auth_tokens =
  tok_access :: string
  tok_refresh :: string
  tok_type :: string
  tok_expires_in :: int

record current_user =
  cu_user_id :: uuid
  cu_roles :: "string set"
  cu_status :: user_status

text \<open>Operations on the password store and on the database.\<close>

definition on_otp :: "(exn, 'o, 'a) comp \<Rightarrow> (exn, 'o \<times> db, 'a) comp" where
  "on_otp m = (\<lambda>(o', d). case m o' of (r, o'') \<Rightarrow> (r, (o'', d)))"

definition on_db :: "'a db_comp \<Rightarrow> (exn, 'o \<times> db, 'a) comp" where
  "on_db m = (\<lambda>(o', d). case m d of (r, d') \<Rightarrow> (r, (o', d')))"

subsection \<open>Phones and tokens\<close>

definition normalize_phone :: "auth_env \<Rightarrow> string \<Rightarrow> exn + string" where
  "normalize_phone au raw = (case au_parse_phone au raw of
     None \<Rightarrow> Inl (AppErr 422 ''INVALID_PHONE'')
   | Some p \<Rightarrow> if \<not> au_valid_phone au p then Inl (AppErr 422 ''INVALID_PHONE'') else Inr (au_e164 au p))"

definition fixed_sms :: "string \<Rightarrow> string \<Rightarrow> string \<Rightarrow> exn + unit" where
  "fixed_sms phone code purpose = Inr ()"

definition unconfigured_sms :: "string \<Rightarrow> string \<Rightarrow> string \<Rightarrow> exn + unit" where
  "unconfigured_sms phone code purpose = Inl (PyExc ''RuntimeError'')"

definition user_roles :: "uuid \<Rightarrow> db \<Rightarrow> user_role list" where
  "user_roles user d = map ur_role (filter (\<lambda>r. ur_user_id r = user) (db_user_roles d))"

definition access_claims :: "auth_env \<Rightarrow> settings \<Rightarrow> time \<Rightarrow> uuid \<Rightarrow> user_role list \<Rightarrow> jobj" where
  "access_claims au cfg now user granted =
    [(''sub'', JStr (ae_uuid_str (au_app au) user)),
     (''roles'', JList (map JStr (sort (map role_value (remdups granted))))),
     (''iss'', JStr (au_issuer au)), (''iat'', JInt now),
     (''exp'', JInt (now + cfg_access_token_minutes cfg * 60)), (''type'', JStr ''access'')]"

definition new_refresh_session :: "auth_env \<Rightarrow> settings \<Rightarrow> time \<Rightarrow> uuid \<Rightarrow> uuid \<Rightarrow> string \<Rightarrow> refresh_session_row" where
  "new_refresh_session au cfg now i user refresh = \<lparr>rs_id = i, rs_user_id = user,
     rs_token_hash = au_token_hash au refresh, rs_expires_at = now + days (cfg_refresh_token_days cfg),
     rs_revoked_at = None, rs_replaced_by_id = None, rs_created_at = now\<rparr>"

definition new_tokens :: "auth_env \<Rightarrow> settings \<Rightarrow> time \<Rightarrow> uuid \<Rightarrow> user_role list \<Rightarrow> string \<Rightarrow> auth_tokens" where
  "new_tokens au cfg now user granted refresh = \<lparr>tok_access = au_jwt_encode au (access_claims au cfg now user granted),
     tok_refresh = refresh, tok_type = ''bearer'', tok_expires_in = cfg_access_token_minutes cfg * 60\<rparr>"

text \<open>\<open>session.add\<close> of a refresh session; the hash of a token is unique.\<close>

definition session_of_token :: "string \<Rightarrow> db \<Rightarrow> refresh_session_row option" where
  "session_of_token h d = find (\<lambda>s. rs_token_hash s = h) (db_refresh_sessions d)"

definition add_refresh_session :: "auth_env \<Rightarrow> settings \<Rightarrow> time \<Rightarrow> uuid \<Rightarrow> string \<Rightarrow> unit db_comp" where
  "add_refresh_session au cfg now user refresh =
    andthen (gets (session_of_token (au_token_hash au refresh))) (\<lambda>clash.
    andthen (require (clash = None) (PyExc ''IntegrityError'')) (\<lambda>_.
      modify (\<lambda>d. d\<lparr>db_refresh_sessions := db_refresh_sessions d
        @ [new_refresh_session au cfg now (fresh_id (map rs_id (db_refresh_sessions d))) user refresh]\<rparr>)))"

definition issue_tokens :: "auth_env \<Rightarrow> settings \<Rightarrow> time \<Rightarrow> uuid \<Rightarrow> string \<Rightarrow> auth_tokens db_comp" where
  "issue_tokens au cfg now user refresh = transaction
    (andthen (gets (user_roles user)) (\<lambda>granted.
     andthen (add_refresh_session au cfg now user refresh) (\<lambda>_.
       ret (new_tokens au cfg now user granted refresh))))"

subsection \<open>Log-in\<close>

definition request_sms_code :: "auth_env \<Rightarrow> ('t, 'o) otp_store \<Rightarrow> (string \<Rightarrow> string \<Rightarrow> string \<Rightarrow> exn + unit) \<Rightarrow> 't
    \<Rightarrow> string \<Rightarrow> string \<Rightarrow> string \<Rightarrow> (exn, 'o, unit) comp" where
  "request_sms_code au store sms now raw client_ip purpose =
    andthen (lift_result (normalize_phone au raw)) (\<lambda>phone.
    andthen (os_issue store now phone client_ip purpose) (\<lambda>code. lift_result (sms phone code purpose)))"

definition user_of_phone :: "auth_env \<Rightarrow> string \<Rightarrow> db \<Rightarrow> user_row option" where
  "user_of_phone au phone d = find (\<lambda>u. usr_phone_lookup_hash u = au_lookup_hash au phone) (db_users d)"

definition new_user :: "auth_env \<Rightarrow> time \<Rightarrow> uuid \<Rightarrow> string \<Rightarrow> user_row" where
  "new_user au now i phone = \<lparr>usr_id = i, usr_phone_lookup_hash = au_lookup_hash au phone,
     usr_phone_ciphertext = au_encrypt au phone, usr_status = User_ACTIVE, usr_version = 1, usr_created_at = now\<rparr>"

definition find_or_create_user :: "auth_env \<Rightarrow> time \<Rightarrow> string \<Rightarrow> user_row db_comp" where
  "find_or_create_user au now phone =
    andthen (gets (user_of_phone au phone)) (\<lambda>found. case found of
        Some u \<Rightarrow> ret u
      | None \<Rightarrow>
          andthen (gets (\<lambda>d. new_user au now (fresh_id (map usr_id (db_users d))) phone)) (\<lambda>u.
          andthen (modify (\<lambda>d. d\<lparr>db_users := db_users d @ [u],
            db_user_roles := db_user_roles d @ [\<lparr>ur_user_id = usr_id u, ur_role = Role_STUDENT\<rparr>]\<rparr>)) (\<lambda>_. ret u)))"

text \<open>The user is committed before the status is checked.\<close>

definition log_in :: "auth_env \<Rightarrow> settings \<Rightarrow> time \<Rightarrow> string \<Rightarrow> string \<Rightarrow> auth_tokens db_comp" where
  "log_in au cfg now phone refresh =
    andthen (find_or_create_user au now phone) (\<lambda>u.
    andthen (require (usr_status u = User_ACTIVE) (AppErr 403 ''ACCOUNT_UNAVAILABLE'')) (\<lambda>_.
      issue_tokens au cfg now (usr_id u) refresh))"

definition login_with_sms :: "auth_env \<Rightarrow> settings \<Rightarrow> ('t, 'o) otp_store \<Rightarrow> 't \<Rightarrow> time \<Rightarrow> string \<Rightarrow> string \<Rightarrow> string
    \<Rightarrow> (exn, 'o \<times> db, auth_tokens) comp" where
  "login_with_sms au cfg store clock now raw code refresh =
    andthen (lift_result (normalize_phone au raw)) (\<lambda>phone.
    andthen (on_otp (os_verify store clock phone code ''LOGIN'')) (\<lambda>_.
      on_db (log_in au cfg now phone refresh)))"

subsection \<open>Refresh and log-out\<close>

definition revoke_all_sessions :: "uuid \<Rightarrow> unit db_comp" where
  "revoke_all_sessions user = modify (\<lambda>d. d\<lparr>db_refresh_sessions :=
     filter (\<lambda>s. rs_user_id s \<noteq> user) (db_refresh_sessions d)\<rparr>)"

definition revoke_session :: "time \<Rightarrow> uuid \<Rightarrow> unit db_comp" where
  "revoke_session now i = modify (\<lambda>d. d\<lparr>db_refresh_sessions :=
     update_rows (\<lambda>s. rs_id s = i) (\<lambda>s. s\<lparr>rs_revoked_at := Some now\<rparr>) (db_refresh_sessions d)\<rparr>)"

definition refresh_tokens :: "auth_env \<Rightarrow> settings \<Rightarrow> time \<Rightarrow> string \<Rightarrow> string \<Rightarrow> auth_tokens db_comp" where
  "refresh_tokens au cfg now token refresh =
    andthen (gets (session_of_token (au_token_hash au token))) (\<lambda>found. case found of
        None \<Rightarrow> app_error 401 ''INVALID_REFRESH_TOKEN''
      | Some s \<Rightarrow>
          if rs_expires_at s \<le> now then app_error 401 ''INVALID_REFRESH_TOKEN''
          else if rs_revoked_at s \<noteq> None then
            andthen (revoke_all_sessions (rs_user_id s)) (\<lambda>_. app_error 401 ''REFRESH_TOKEN_REUSED'')
          else transaction
            (andthen (gets (user_roles (rs_user_id s))) (\<lambda>granted.
             andthen (revoke_session now (rs_id s)) (\<lambda>_.
             andthen (add_refresh_session au cfg now (rs_user_id s) refresh) (\<lambda>_.
               ret (new_tokens au cfg now (rs_user_id s) granted refresh))))))"

definition logout :: "auth_env \<Rightarrow> time \<Rightarrow> string \<Rightarrow> unit db_comp" where
  "logout au now token =
    andthen (gets (session_of_token (au_token_hash au token))) (\<lambda>found. case found of
        None \<Rightarrow> ret ()
      | Some s \<Rightarrow> if rs_revoked_at s = None then revoke_session now (rs_id s) else ret ())"

subsection \<open>Deletion of an account\<close>

definition user_by_id :: "uuid \<Rightarrow> db \<Rightarrow> user_row option" where
  "user_by_id i d = find (\<lambda>u. usr_id u = i) (db_users d)"

definition deletion_of :: "uuid \<Rightarrow> db \<Rightarrow> account_deletion_row option" where
  "deletion_of user d = find (\<lambda>a. ad_user_id a = user) (db_account_deletions d)"

definition set_user_status :: "uuid \<Rightarrow> user_status \<Rightarrow> unit db_comp" where
  "set_user_status i st = modify (\<lambda>d. d\<lparr>db_users :=
     update_rows (\<lambda>u. usr_id u = i) (\<lambda>u. u\<lparr>usr_status := st\<rparr>) (db_users d)\<rparr>)"

definition new_deletion :: "time \<Rightarrow> uuid \<Rightarrow> uuid \<Rightarrow> account_deletion_row" where
  "new_deletion now i user = \<lparr>ad_id = i, ad_user_id = user, ad_requested_at = now, ad_purge_after = now + days 30,
     ad_cancelled_at = None, ad_purged_at = None, ad_created_at = now\<rparr>"

definition renewed_deletion :: "time \<Rightarrow> account_deletion_row \<Rightarrow> account_deletion_row" where
  "renewed_deletion now a = a\<lparr>ad_requested_at := now, ad_purge_after := now + days 30, ad_cancelled_at := None\<rparr>"

definition set_deletion :: "uuid \<Rightarrow> (account_deletion_row \<Rightarrow> account_deletion_row) \<Rightarrow> unit db_comp" where
  "set_deletion i f = modify (\<lambda>d. d\<lparr>db_account_deletions :=
     update_rows (\<lambda>a. ad_id a = i) f (db_account_deletions d)\<rparr>)"

definition request_account_deletion :: "time \<Rightarrow> uuid \<Rightarrow> time db_comp" where
  "request_account_deletion now user =
    andthen (gets (user_by_id user)) (\<lambda>found. case found of
        None \<Rightarrow> app_error 404 ''USER_NOT_FOUND''
      | Some u \<Rightarrow>
          andthen (gets (deletion_of user)) (\<lambda>existing.
          andthen (case existing of
              None \<Rightarrow> modify (\<lambda>d. d\<lparr>db_account_deletions := db_account_deletions d
                @ [new_deletion now (fresh_id (map ad_id (db_account_deletions d))) user]\<rparr>)
            | Some a \<Rightarrow> set_deletion (ad_id a) (renewed_deletion now)) (\<lambda>_.
          andthen (set_user_status user User_DELETION_PENDING) (\<lambda>_.
          andthen (revoke_all_sessions user) (\<lambda>_. ret (now + days 30))))))"

definition cancel_account_deletion :: "time \<Rightarrow> uuid \<Rightarrow> unit db_comp" where
  "cancel_account_deletion now user =
    andthen (gets (\<lambda>d. (user_by_id user d, deletion_of user d))) (\<lambda>found. case found of
        (Some u, Some a) \<Rightarrow>
          if ad_purged_at a \<noteq> None then app_error 409 ''DELETION_NOT_PENDING''
          else
            andthen (set_deletion (ad_id a) (\<lambda>a. a\<lparr>ad_cancelled_at := Some now\<rparr>)) (\<lambda>_.
              set_user_status user User_ACTIVE)
      | _ \<Rightarrow> app_error 409 ''DELETION_NOT_PENDING'')"

subsection \<open>The guards of a request\<close>

definition known_roles :: "json list \<Rightarrow> bool" where
  "known_roles vs \<longleftrightarrow> list_all (\<lambda>v. v \<in> {JStr ''STUDENT'', JStr ''REVIEWER'', JStr ''ADMIN''}) vs"

definition decode_access_token :: "auth_env \<Rightarrow> time \<Rightarrow> string \<Rightarrow> exn + current_user" where
  "decode_access_token au now token = (case au_jwt_decode au now token of
     None \<Rightarrow> Inl (AppErr 401 ''INVALID_ACCESS_TOKEN'')
   | Some payload \<Rightarrow>
       if map_of payload ''type'' \<noteq> Some (JStr ''access'') then Inl (AppErr 401 ''INVALID_ACCESS_TOKEN'')
       else (case map_of payload ''sub'' of
           Some (JStr s) \<Rightarrow>
             (case (ae_uuid_of (au_app au) s, json_iter (dict_get payload ''roles'' (JList []))) of
                (Some u, Inr vs) \<Rightarrow>
                  if known_roles vs
                  then Inr \<lparr>cu_user_id = u, cu_roles = set (map (json_str (au_app au)) vs), cu_status = User_ACTIVE\<rparr>
                  else Inl (AppErr 401 ''INVALID_ACCESS_TOKEN'')
              | _ \<Rightarrow> Inl (AppErr 401 ''INVALID_ACCESS_TOKEN''))
         | Some _ \<Rightarrow> Inl (PyExc ''AttributeError'')
         | None \<Rightarrow> Inl (PyExc ''KeyError'')))"

definition get_authenticated_user :: "auth_env \<Rightarrow> time \<Rightarrow> (string \<times> string) option \<Rightarrow> current_user db_comp" where
  "get_authenticated_user au now credentials = (case credentials of
     None \<Rightarrow> app_error 401 ''AUTHENTICATION_REQUIRED''
   | Some (scheme, token) \<Rightarrow>
       if map lower_char scheme \<noteq> ''bearer'' then app_error 401 ''AUTHENTICATION_REQUIRED''
       else
         andthen (lift_result (decode_access_token au now token)) (\<lambda>t.
         andthen (gets (user_by_id (cu_user_id t))) (\<lambda>found. case found of
             None \<Rightarrow> app_error 401 ''ACCOUNT_UNAVAILABLE''
           | Some u \<Rightarrow>
               if usr_status u = User_DISABLED then app_error 401 ''ACCOUNT_UNAVAILABLE''
               else
                 andthen (gets (user_roles (usr_id u))) (\<lambda>granted.
                 ret \<lparr>cu_user_id = usr_id u, cu_roles = set (map role_value granted), cu_status = usr_status u\<rparr>))))"

definition get_current_user :: "auth_env \<Rightarrow> time \<Rightarrow> (string \<times> string) option \<Rightarrow> current_user db_comp" where
  "get_current_user au now credentials =
    andthen (get_authenticated_user au now credentials) (\<lambda>u.
      if cu_status u \<noteq> User_ACTIVE then app_error 403 ''ACCOUNT_DELETION_PENDING'' else ret u)"

end
