(* ===== verification/Account_Purge.thy ===== *)
theory Account_Purge
  imports Accounts
begin

text \<open>
  The purge of accounts, \<^verbatim>\<open>app/application/account_purge.py\<close>, with the foreign keys of
  \<^verbatim>\<open>app/infrastructure/db/models.py\<close>: a row is deleted with what it belongs to (\<open>ondelete=CASCADE\<close>), a
  reference is cleared (\<open>SET NULL\<close>), and a delete that leaves another reference behind fails.

  \<open>held\<close> tells which users are referenced by the two tables of resource imports and resource reviews, whose
  foreign keys to users have no \<open>ondelete\<close>.
\<close>

definition without :: "('r \<Rightarrow> 'i) \<Rightarrow> 'i list \<Rightarrow> 'r list \<Rightarrow> 'r list" where
  "without g gone rows = filter (\<lambda>r. g r \<notin> set gone) rows"

definition cleared :: "'i list \<Rightarrow> 'i option \<Rightarrow> 'i option" where
  "cleared gone x = (case x of Some i \<Rightarrow> if i \<in> set gone then None else x | None \<Rightarrow> None)"

definition ids_in :: "('r \<Rightarrow> 'i) \<Rightarrow> ('r \<Rightarrow> 'j) \<Rightarrow> 'j list \<Rightarrow> 'r list \<Rightarrow> 'i list" where
  "ids_in idf g gone rows = map idf (filter (\<lambda>r. g r \<in> set gone) rows)"

subsection \<open>Deleting runs, plans and exams\<close>

definition delete_runs :: "uuid list \<Rightarrow> db \<Rightarrow> db" where
  "delete_runs gone d =
    (let steps = ids_in stp_id stp_run_id gone (db_agent_steps d) in
     d\<lparr>db_agent_runs := without ag_id gone (db_agent_runs d),
       db_agent_steps := without stp_run_id gone (db_agent_steps d),
       db_model_invocations := without mi_step_id steps (without mi_run_id gone (db_model_invocations d)),
       db_tool_invocations := without ti_run_id gone (db_tool_invocations d),
       db_checkpoints := without ck_run_id gone (db_checkpoints d),
       db_tool_execution_records := without txr_run_id gone (db_tool_execution_records d),
       db_guardrail_events := map (\<lambda>g. g\<lparr>ge_step_id := cleared steps (ge_step_id g)\<rparr>)
         (without ge_run_id gone (db_guardrail_events d)),
       db_proposals := without pr_run_id gone (db_proposals d),
       db_shadow_evaluations := without se_source_run_id gone (db_shadow_evaluations d)\<rparr>)"

definition delete_jobs :: "uuid list \<Rightarrow> db \<Rightarrow> db" where
  "delete_jobs gone d = delete_runs (ids_in ag_id ag_job_id gone (db_agent_runs d))
     (d\<lparr>db_background_jobs := without bj_id gone (db_background_jobs d),
        db_shadow_evaluations := map (\<lambda>e. e\<lparr>se_job_id := cleared gone (se_job_id e)\<rparr>) (db_shadow_evaluations d)\<rparr>)"

definition delete_plans :: "uuid list \<Rightarrow> db \<Rightarrow> db" where
  "delete_plans gone d =
    (let tasks = ids_in pt_id pt_plan_id gone (db_plan_tasks d) in
     d\<lparr>db_weekly_plans := without wp_id gone (db_weekly_plans d),
       db_plan_tasks := without pt_plan_id gone (db_plan_tasks d),
       db_plan_task_change_events := map (\<lambda>e. e\<lparr>pce_task_id := cleared tasks (pce_task_id e)\<rparr>)
         (without pce_plan_id gone (db_plan_task_change_events d)),
       db_plan_task_knowledge := without ptk_task_id tasks (db_plan_task_knowledge d),
       db_plan_task_questions := without ptq_task_id tasks (db_plan_task_questions d)\<rparr>)"

definition delete_sessions :: "uuid list \<Rightarrow> db \<Rightarrow> db" where
  "delete_sessions gone d =
     d\<lparr>db_chapter_true_exam_sessions := without cs_id gone (db_chapter_true_exam_sessions d),
       db_chapter_true_exam_session_questions := without csq_session_id gone (db_chapter_true_exam_session_questions d),
       db_question_attempts := map (\<lambda>a. a\<lparr>qa_chapter_true_exam_session_id :=
         cleared gone (qa_chapter_true_exam_session_id a)\<rparr>) (db_question_attempts d)\<rparr>"

definition delete_mocks :: "uuid list \<Rightarrow> db \<Rightarrow> db" where
  "delete_mocks gone d =
     d\<lparr>db_mock_exams := without me_id gone (db_mock_exams d),
       db_mock_exam_questions := without meq_mock_exam_id gone (db_mock_exam_questions d),
       db_generated_question_candidates := map (\<lambda>c. c\<lparr>gqc_mock_exam_id := cleared gone (gqc_mock_exam_id c)\<rparr>)
         (db_generated_question_candidates d)\<rparr>"

text \<open>The rows of the students themselves.\<close>

definition delete_student_rows :: "uuid list \<Rightarrow> db \<Rightarrow> db" where
  "delete_student_rows gone d =
     d\<lparr>db_students := without stu_id gone (db_students d),
       db_student_availability := without sa_student_id gone (db_student_availability d),
       db_student_availability_templates := without sat_student_id gone (db_student_availability_templates d),
       db_student_knowledge_progress := without skp_student_id gone (db_student_knowledge_progress d),
       db_question_attempts := without qa_student_id gone (db_question_attempts d),
       db_feedback := without fb_student_id gone (db_feedback d),
       db_student_knowledge_states := without ks_student_id gone (db_student_knowledge_states d),
       db_error_profiles := without ep_student_id gone (db_error_profiles d),
       db_efficiency_profiles := without efp_student_id gone (db_efficiency_profiles d),
       db_target_school_change_previews := without tcp_student_id gone (db_target_school_change_previews d),
       db_true_exam_attempts := without tea_student_id gone (db_true_exam_attempts d),
       db_true_exam_profiles := without tep_student_id gone (db_true_exam_profiles d),
       db_mock_exam_attempts := without mea_student_id gone (db_mock_exam_attempts d),
       db_proposals := without pr_student_id gone (db_proposals d),
       db_generated_question_candidates := map (\<lambda>c. c\<lparr>gqc_requested_by_student_id :=
         cleared gone (gqc_requested_by_student_id c)\<rparr>) (db_generated_question_candidates d)\<rparr>"

definition delete_students :: "uuid list \<Rightarrow> db \<Rightarrow> db" where
  "delete_students gone d =
     delete_runs (ids_in ag_id ag_student_id gone (db_agent_runs d))
    (delete_plans (ids_in wp_id wp_student_id gone (db_weekly_plans d))
    (delete_sessions (ids_in cs_id cs_student_id gone (db_chapter_true_exam_sessions d))
    (delete_mocks (ids_in me_id me_student_id gone (db_mock_exams d))
    (delete_student_rows gone d))))"

text \<open>\<open>DELETE FROM users\<close>: the students of the user first, then the rows of the user.\<close>

definition delete_user_rows :: "uuid \<Rightarrow> db \<Rightarrow> db" where
  "delete_user_rows user d =
     d\<lparr>db_users := without usr_id [user] (db_users d),
       db_user_roles := without ur_user_id [user] (db_user_roles d),
       db_refresh_sessions := without rs_user_id [user] (db_refresh_sessions d),
       db_account_deletions := without ad_user_id [user] (db_account_deletions d),
       db_background_jobs := map (\<lambda>j. j\<lparr>bj_user_id := cleared [user] (bj_user_id j)\<rparr>) (db_background_jobs d),
       db_plan_task_change_events := map (\<lambda>e. e\<lparr>pce_actor_user_id := cleared [user] (pce_actor_user_id e)\<rparr>)
         (db_plan_task_change_events d),
       db_proposals := map (\<lambda>p. p\<lparr>pr_reviewer_user_id := cleared [user] (pr_reviewer_user_id p)\<rparr>) (db_proposals d),
       db_shadow_evaluations := without se_requested_by_user_id [user] (db_shadow_evaluations d)\<rparr>"

definition cascade_user :: "uuid \<Rightarrow> db \<Rightarrow> db" where
  "cascade_user user d = delete_user_rows user
     (delete_students (ids_in stu_id stu_user_id [user] (db_students d)) d)"

text \<open>The references without \<open>ondelete\<close>, which must not point to a deleted row.\<close>

definition references_kept :: "db \<Rightarrow> bool" where
  "references_kept d \<longleftrightarrow>
     list_all (\<lambda>r. rd_reviewer_user_id r \<in> set (map usr_id (db_users d))) (db_review_decisions d)
   \<and> list_all (\<lambda>f. fb_task_id f \<in> set (map pt_id (db_plan_tasks d))) (db_feedback d)
   \<and> list_all (\<lambda>a. case qa_plan_task_id a of None \<Rightarrow> True | Some t \<Rightarrow> t \<in> set (map pt_id (db_plan_tasks d)))
       (db_question_attempts d)
   \<and> list_all (\<lambda>a. mea_mock_exam_id a \<in> set (map me_id (db_mock_exams d))) (db_mock_exam_attempts d)
   \<and> list_all (\<lambda>t. ti_step_id t \<in> set (map stp_id (db_agent_steps d))) (db_tool_invocations d)"

subsection \<open>The purge\<close>

definition due_deletions :: "time \<Rightarrow> db \<Rightarrow> account_deletion_row list" where
  "due_deletions now d = filter (\<lambda>a. ad_purge_after a \<le> now \<and> ad_cancelled_at a = None \<and> ad_purged_at a = None)
     (db_account_deletions d)"

definition purge_batch :: "time \<Rightarrow> nat \<Rightarrow> db \<Rightarrow> account_deletion_row list" where
  "purge_batch now limit d = take limit (sort_key ad_purge_after (due_deletions now d))"

definition student_id_of :: "uuid \<Rightarrow> db \<Rightarrow> uuid option" where
  "student_id_of user d = map_option stu_id (find (\<lambda>s. stu_user_id s = user) (db_students d))"

text \<open>The four statements for one account.\<close>

definition forget_user :: "uuid \<Rightarrow> db \<Rightarrow> db" where
  "forget_user user d =
    (let aggregates = user # (case student_id_of user d of Some i \<Rightarrow> [i] | None \<Rightarrow> []);
         d1 = d\<lparr>db_domain_events := without ev_aggregate_id aggregates (db_domain_events d)\<rparr>;
         d2 = delete_jobs (ids_in bj_id bj_user_id [Some user] (db_background_jobs d1)) d1;
         d3 = d2\<lparr>db_review_decisions := without rd_reviewer_user_id [user] (db_review_decisions d2)\<rparr>
     in cascade_user user d3)"

definition purge_user :: "(uuid \<Rightarrow> bool) \<Rightarrow> uuid \<Rightarrow> unit db_comp" where
  "purge_user held user =
    andthen (gets (forget_user user)) (\<lambda>d'.
    andthen (require (\<not> held user \<and> references_kept d') (PyExc ''IntegrityError'')) (\<lambda>_. modify (\<lambda>_. d')))"

fun purge_all :: "(uuid \<Rightarrow> bool) \<Rightarrow> account_deletion_row list \<Rightarrow> unit db_comp" where
  "purge_all held [] = ret ()"
| "purge_all held (a # as) = andthen (purge_user held (ad_user_id a)) (\<lambda>_. purge_all held as)"

definition purge_due :: "(uuid \<Rightarrow> bool) \<Rightarrow> time \<Rightarrow> nat \<Rightarrow> nat db_comp" where
  "purge_due held now limit = transaction
    (andthen (gets (purge_batch now limit)) (\<lambda>batch.
     andthen (purge_all held batch) (\<lambda>_. ret (length batch))))"

end
