(* ===== verification/Numerals.thy ===== *)
theory Numerals
  imports Text
begin

text \<open>
  Reading the decimal numerals that \<open>str(n)\<close> writes, as \<open>int(text)\<close> does, and that \<open>show_nat\<close> is injective, also
  with leading zeros.
\<close>

definition digit_value :: "char \<Rightarrow> nat" where
  "digit_value c = of_char c - 48"

definition decimal_nat :: "string \<Rightarrow> nat" where
  "decimal_nat s = foldl (\<lambda>n c. 10 * n + digit_value c) 0 s"

definition decimal_int :: "string \<Rightarrow> int option" where
  "decimal_int s = (case s of
     [] \<Rightarrow> None
   | c # cs \<Rightarrow> Some (if c = CHR ''-'' then - int (decimal_nat cs) else int (decimal_nat s)))"

lemma digit_value_show: "n < 10 \<Longrightarrow> digit_value (show_digit n) = n"
  by (auto simp: digit_value_def show_digit_def nth_Cons' numeral_eq_Suc less_Suc_eq)

lemma show_digit_not_minus: "n < 10 \<Longrightarrow> show_digit n \<noteq> CHR ''-''"
  by (auto simp: show_digit_def nth_Cons' numeral_eq_Suc less_Suc_eq)

lemma decimal_nat_show: "decimal_nat (show_nat n) = n"
proof (induction n rule: show_nat.induct)
  case (1 n)
  then show ?case
    by (subst show_nat.simps) (auto simp: decimal_nat_def digit_value_show)
qed

lemma hd_show_nat: "hd (show_nat n) \<noteq> CHR ''-''"
proof (induction n rule: show_nat.induct)
  case (1 n)
  then show ?case
    by (subst show_nat.simps) (auto simp: show_digit_not_minus hd_append)
qed

lemma decimal_int_show: "decimal_int (show_int n) = Some n"
proof (cases "n < 0")
  case False
  then obtain c cs where "show_nat (nat n) = c # cs" by (cases "show_nat (nat n)") (use length_show_nat in auto)
  moreover have "decimal_nat (show_nat (nat n)) = nat n" by (rule decimal_nat_show)
  ultimately show ?thesis using False hd_show_nat [of "nat n"] by (simp add: show_int_def decimal_int_def)
qed (simp add: show_int_def decimal_int_def decimal_nat_show)

lemma decimal_nat_zeros: "decimal_nat (replicate k (CHR ''0'') @ s) = decimal_nat s"
  by (induction k) (simp_all add: decimal_nat_def digit_value_def)

end
