(* ===== verification/Account_Properties.thy ===== *)
theory Account_Properties
  imports Account_Purge Job_Properties Numerals
begin

text \<open>
  What holds of accounts: the guesses at a code, the rotation of refresh tokens, the access token, the freeze of
  an account that is to be deleted, and the purge.
\<close>

subsection \<open>The purge\<close>

definition students_of :: "uuid list \<Rightarrow> db \<Rightarrow> uuid list" where
  "students_of users d = ids_in stu_id stu_user_id users (db_students d)"

text \<open>Rows that a user or a student owns directly: those of the gone are deleted, the others are kept.\<close>

definition owned_rows_gone :: "uuid list \<Rightarrow> uuid list \<Rightarrow> db \<Rightarrow> db \<Rightarrow> bool" where
  "owned_rows_gone users students d d' \<longleftrightarrow>
     db_users d' = without usr_id users (db_users d)
   \<and> db_user_roles d' = without ur_user_id users (db_user_roles d)
   \<and> db_refresh_sessions d' = without rs_user_id users (db_refresh_sessions d)
   \<and> db_account_deletions d' = without ad_user_id users (db_account_deletions d)
   \<and> db_review_decisions d' = without rd_reviewer_user_id users (db_review_decisions d)
   \<and> db_students d' = without stu_id students (db_students d)
   \<and> db_student_availability d' = without sa_student_id students (db_student_availability d)
   \<and> db_student_availability_templates d' = without sat_student_id students (db_student_availability_templates d)
   \<and> db_student_knowledge_progress d' = without skp_student_id students (db_student_knowledge_progress d)
   \<and> db_feedback d' = without fb_student_id students (db_feedback d)
   \<and> db_student_knowledge_states d' = without ks_student_id students (db_student_knowledge_states d)
   \<and> db_error_profiles d' = without ep_student_id students (db_error_profiles d)
   \<and> db_efficiency_profiles d' = without efp_student_id students (db_efficiency_profiles d)
   \<and> db_target_school_change_previews d' = without tcp_student_id students (db_target_school_change_previews d)
   \<and> db_true_exam_attempts d' = without tea_student_id students (db_true_exam_attempts d)
   \<and> db_true_exam_profiles d' = without tep_student_id students (db_true_exam_profiles d)
   \<and> db_mock_exam_attempts d' = without mea_student_id students (db_mock_exam_attempts d)
   \<and> db_weekly_plans d' = without wp_student_id students (db_weekly_plans d)
   \<and> db_chapter_true_exam_sessions d' = without cs_student_id students (db_chapter_true_exam_sessions d)
   \<and> db_mock_exams d' = without me_student_id students (db_mock_exams d)"

text \<open>Nothing of the gone is left in the tables that are emptied through other rows.\<close>

definition nothing_left :: "uuid list \<Rightarrow> uuid list \<Rightarrow> db \<Rightarrow> bool" where
  "nothing_left users students d \<longleftrightarrow>
     (\<forall>j\<in>set (db_background_jobs d). bj_user_id j \<notin> Some ` set users)
   \<and> (\<forall>e\<in>set (db_domain_events d). ev_aggregate_id e \<notin> set users \<union> set students)
   \<and> (\<forall>r\<in>set (db_agent_runs d). ag_student_id r \<notin> set students)
   \<and> (\<forall>p\<in>set (db_proposals d). pr_student_id p \<notin> set students)
   \<and> (\<forall>a\<in>set (db_question_attempts d). qa_student_id a \<notin> set students)"

text \<open>Primary keys, and one student for a user.\<close>

definition unique_ids :: "db \<Rightarrow> bool" where
  "unique_ids d \<longleftrightarrow> distinct (map wp_id (db_weekly_plans d)) \<and> distinct (map cs_id (db_chapter_true_exam_sessions d))
     \<and> distinct (map me_id (db_mock_exams d)) \<and> distinct (map stu_user_id (db_students d))"

text \<open>What belongs to nobody in particular.\<close>

definition shared_rows_kept :: "db \<Rightarrow> db \<Rightarrow> bool" where
  "shared_rows_kept d d' \<longleftrightarrow>
     db_school_profiles d' = db_school_profiles d \<and> db_knowledge_nodes d' = db_knowledge_nodes d
   \<and> db_learning_resources d' = db_learning_resources d \<and> db_resource_versions d' = db_resource_versions d
   \<and> db_resource_sections d' = db_resource_sections d
   \<and> db_resource_knowledge_mappings d' = db_resource_knowledge_mappings d
   \<and> db_school_knowledge_stats d' = db_school_knowledge_stats d
   \<and> db_questions d' = db_questions d \<and> db_question_knowledge d' = db_question_knowledge d
   \<and> db_exam_profiles d' = db_exam_profiles d \<and> db_true_exams d' = db_true_exams d
   \<and> db_true_exam_questions d' = db_true_exam_questions d"

lemmas delete_defs = delete_runs_def delete_jobs_def delete_plans_def delete_sessions_def delete_mocks_def
  delete_student_rows_def delete_students_def delete_user_rows_def cascade_user_def forget_user_def Let_def

lemma without_ids_in:
  "distinct (map idf rows) \<Longrightarrow> without idf (ids_in idf g gone rows) rows = without g gone rows"
  unfolding without_def by (rule filter_cong) (auto simp: ids_in_def distinct_map dest: inj_onD)

lemma without_cong: "set a = set b \<Longrightarrow> without g a rows = without g b rows"
  by (simp add: without_def)

lemma without_without: "without g b (without g a rows) = without g (a @ b) rows"
  by (auto simp: without_def intro!: filter_cong)

lemma distinct_without: "distinct (map f rows) \<Longrightarrow> distinct (map f (without g gone rows))"
  by (simp add: without_def distinct_map inj_on_def)

lemma set_without: "x \<in> set (without g gone rows) \<longleftrightarrow> x \<in> set rows \<and> g x \<notin> set gone"
  by (simp add: without_def)

lemma set_ids_in: "i \<in> set (ids_in idf g gone rows) \<longleftrightarrow> (\<exists>r\<in>set rows. g r \<in> set gone \<and> idf r = i)"
  by (auto simp: ids_in_def)

lemma forget_user_owned: "unique_ids d \<Longrightarrow> owned_rows_gone [u] (students_of [u] d) d (forget_user u d)"
  by (simp add: owned_rows_gone_def students_of_def delete_defs unique_ids_def without_ids_in)

lemma forget_user_shared: "shared_rows_kept d (forget_user u d)"
  by (simp add: shared_rows_kept_def delete_defs)

lemma owned_unique: "owned_rows_gone us ss d d' \<Longrightarrow> unique_ids d \<Longrightarrow> unique_ids d'"
  by (simp add: owned_rows_gone_def unique_ids_def distinct_without)

lemma students_of_Cons:
  assumes "owned_rows_gone [u] (students_of [u] d) d d1"
  shows "set (students_of [u] d @ students_of us d1) = set (students_of (u # us) d)"
proof -
  have "db_students d1 = without stu_id (students_of [u] d) (db_students d)" using assms by (simp add: owned_rows_gone_def)
  then have "i \<in> set (students_of us d1) \<longleftrightarrow>
      (\<exists>r\<in>set (db_students d). stu_user_id r \<in> set us \<and> stu_id r = i) \<and> i \<notin> set (students_of [u] d)" for i
    by (auto simp: students_of_def set_ids_in set_without)
  then show ?thesis by (auto simp: students_of_def set_ids_in)
qed

lemma owned_trans:
  assumes 1: "owned_rows_gone [u] (students_of [u] d) d d1" and 2: "owned_rows_gone us (students_of us d1) d1 d2"
  shows "owned_rows_gone (u # us) (students_of (u # us) d) d d2"
proof -
  note c = without_cong [OF students_of_Cons [OF 1, of us]]
  show ?thesis using 1 2 by (simp add: owned_rows_gone_def without_without c)
qed

lemma filter_eq_find: "distinct (map g rows) \<Longrightarrow> find (\<lambda>r. g r = u) rows = Some r \<Longrightarrow> filter (\<lambda>r. g r = u) rows = [r]"
proof (induction rows)
  case (Cons x rows)
  show ?case
  proof (cases "g x = u")
    case True
    with Cons.prems(1) have "filter (\<lambda>r. g r = u) rows = []" by (auto simp: filter_empty_conv image_iff)
    with True Cons.prems(2) show ?thesis by simp
  qed (use Cons in simp)
qed simp

lemma student_id_of_students:
  assumes "distinct (map stu_user_id (db_students d))"
  shows "set (students_of [u] d) = set (case student_id_of u d of Some i \<Rightarrow> [i] | None \<Rightarrow> [])"
proof (cases "find (\<lambda>s. stu_user_id s = u) (db_students d)")
  case None
  moreover from None have "\<not> (\<exists>r. r \<in> set (db_students d) \<and> stu_user_id r = u)" by (simp add: find_None_iff)
  ultimately show ?thesis by (auto simp: students_of_def student_id_of_def ids_in_def)
next
  case (Some r)
  then have r: "r \<in> set (db_students d)" "stu_user_id r = u" by (auto simp: find_Some_iff)
  have "filter (\<lambda>q. stu_user_id q = u) (db_students d) = [r]"
    using assms Some by (rule filter_eq_find)
  with Some show ?thesis by (simp add: students_of_def student_id_of_def ids_in_def)
qed

lemma cleared_eq_Some [simp]: "cleared gone x = Some i \<longleftrightarrow> x = Some i \<and> i \<notin> set gone"
  by (auto simp: cleared_def split: option.splits if_splits)

lemma forget_user_leaves:
  assumes "unique_ids d"
  shows "nothing_left [u] (students_of [u] d) (forget_user u d)"
proof -
  have "distinct (map stu_user_id (db_students d))" using assms by (simp add: unique_ids_def)
  note ids = student_id_of_students [OF this, of u]
  have key: "r \<in> set (without idf (ids_in idf g gone rows) rows) \<Longrightarrow> g r \<notin> set gone"
    for r and idf :: "'r \<Rightarrow> uuid" and g :: "'r \<Rightarrow> uuid" and gone and rows :: "'r list"
    by (auto simp: set_without set_ids_in)
  have "\<forall>j\<in>set (db_background_jobs (forget_user u d)). bj_user_id j \<noteq> Some u"
    by (auto simp: delete_defs)
  moreover have "\<forall>e\<in>set (db_domain_events (forget_user u d)). ev_aggregate_id e \<notin> set [u] \<union> set (students_of [u] d)"
    unfolding ids by (simp add: delete_defs set_without split: option.split)
  moreover have "\<forall>r\<in>set (db_agent_runs (forget_user u d)). ag_student_id r \<notin> set (students_of [u] d)"
    by (auto simp: delete_defs students_of_def dest: key)
  moreover have "\<forall>p\<in>set (db_proposals (forget_user u d)). pr_student_id p \<notin> set (students_of [u] d)"
    by (auto simp: delete_defs students_of_def set_without set_ids_in)
  moreover have "\<forall>a\<in>set (db_question_attempts (forget_user u d)). qa_student_id a \<notin> set (students_of [u] d)"
    by (auto simp: delete_defs students_of_def set_without set_ids_in)
  ultimately show ?thesis by (simp add: nothing_left_def)
qed

lemma forget_user_keeps:
  assumes "nothing_left us ss d"
  shows "nothing_left us ss (forget_user v d)"
proof -
  have "\<forall>j\<in>set (db_background_jobs (forget_user v d)). bj_user_id j \<notin> Some ` set us"
    using assms by (fastforce simp: nothing_left_def delete_defs set_without)
  moreover have "\<forall>e\<in>set (db_domain_events (forget_user v d)). ev_aggregate_id e \<notin> set us \<union> set ss"
    using assms by (simp add: nothing_left_def delete_defs set_without)
  moreover have "\<forall>r\<in>set (db_agent_runs (forget_user v d)). ag_student_id r \<notin> set ss"
    using assms by (simp add: nothing_left_def delete_defs set_without)
  moreover have "\<forall>p\<in>set (db_proposals (forget_user v d)). pr_student_id p \<notin> set ss"
    using assms by (simp add: nothing_left_def delete_defs set_without)
  moreover have "\<forall>a\<in>set (db_question_attempts (forget_user v d)). qa_student_id a \<notin> set ss"
    using assms by (simp add: nothing_left_def delete_defs set_without)
  ultimately show ?thesis by (simp add: nothing_left_def)
qed

lemma nothing_left_union:
  "nothing_left us ss d \<Longrightarrow> nothing_left vs ts d \<Longrightarrow> set ws = set us \<union> set vs \<Longrightarrow> set xs = set ss \<union> set ts \<Longrightarrow>
    nothing_left ws xs d"
  by (auto simp: nothing_left_def)

text \<open>A successful run of the loop.\<close>

lemma purge_all_owned:
  assumes "purge_all held as d = (Inr (), d')" and "unique_ids d"
  shows "owned_rows_gone (map ad_user_id as) (students_of (map ad_user_id as) d) d d' \<and> shared_rows_kept d d'
    \<and> (\<forall>a\<in>set as. \<not> held (ad_user_id a))"
  using assms
proof (induction as arbitrary: d)
  case Nil
  then show ?case by (simp add: owned_rows_gone_def shared_rows_kept_def students_of_def ids_in_def without_def)
next
  case (Cons a as)
  define d1 where "d1 = forget_user (ad_user_id a) d"
  have run: "purge_all held as d1 = (Inr (), d')" and ok: "\<not> held (ad_user_id a)"
    using Cons.prems(1) by (auto simp: purge_user_def comp_simps d1_def split: if_splits)
  note first = forget_user_owned [OF Cons.prems(2), of "ad_user_id a", folded d1_def]
  note rest = Cons.IH [OF run owned_unique [OF first Cons.prems(2)]]
  show ?case
    using owned_trans [OF first, of "map ad_user_id as" d'] rest ok
      forget_user_shared [of d "ad_user_id a", folded d1_def]
    by (simp add: shared_rows_kept_def)
qed

lemma purge_all_keeps_left:
  "nothing_left us ss d \<Longrightarrow> purge_all held as d = (Inr (), d') \<Longrightarrow> nothing_left us ss d'"
proof (induction as arbitrary: d)
  case (Cons a as)
  from Cons.prems(2) have "purge_all held as (forget_user (ad_user_id a) d) = (Inr (), d')"
    by (auto simp: purge_user_def comp_simps split: if_splits)
  then show ?case by (rule Cons.IH [OF forget_user_keeps [OF Cons.prems(1)]])
qed simp

lemma purge_all_left:
  assumes "purge_all held as d = (Inr (), d')" and "unique_ids d"
  shows "nothing_left (map ad_user_id as) (students_of (map ad_user_id as) d) d'"
  using assms
proof (induction as arbitrary: d)
  case Nil
  then show ?case by (simp add: nothing_left_def students_of_def ids_in_def)
next
  case (Cons a as)
  define d1 where "d1 = forget_user (ad_user_id a) d"
  have run: "purge_all held as d1 = (Inr (), d')"
    using Cons.prems(1) by (auto simp: purge_user_def comp_simps d1_def split: if_splits)
  note first = forget_user_owned [OF Cons.prems(2), of "ad_user_id a", folded d1_def]
  have "nothing_left [ad_user_id a] (students_of [ad_user_id a] d) d'"
    by (rule purge_all_keeps_left [OF _ run]) (simp add: d1_def forget_user_leaves Cons.prems(2))
  with Cons.IH [OF run owned_unique [OF first Cons.prems(2)]] show ?case
    by (rule nothing_left_union) (use students_of_Cons [OF first, of "map ad_user_id as"] in auto)
qed

lemma purge_all_held:
  assumes "a \<in> set as" and "held (ad_user_id a)"
  shows "\<exists>d'. purge_all held as d = (Inl (PyExc ''IntegrityError''), d')"
  using assms
proof (induction as arbitrary: d)
  case (Cons b as)
  then show ?case
    by (cases "\<not> held (ad_user_id b) \<and> references_kept (forget_user (ad_user_id b) d)")
      (auto simp: purge_user_def comp_simps)
qed simp


subsection \<open>Codes\<close>

text \<open>Redis as a map with expiry times.\<close>

type_synonym redis_map = "string \<Rightarrow> (string \<times> time) option"

definition map_get :: "time \<Rightarrow> string \<Rightarrow> redis_map \<Rightarrow> string option" where
  "map_get now k r = (case r k of None \<Rightarrow> None | Some (v, until) \<Rightarrow> if now < until then Some v else None)"

definition map_set :: "time \<Rightarrow> string \<Rightarrow> string \<Rightarrow> int \<Rightarrow> redis_map \<Rightarrow> redis_map" where
  "map_set now k v ttl r = r(k \<mapsto> (v, now + ttl))"

definition map_until :: "string \<Rightarrow> redis_map \<Rightarrow> time" where
  "map_until k r = (case r k of None \<Rightarrow> 10 ^ 12 | Some (_, until) \<Rightarrow> until)"

definition map_count :: "time \<Rightarrow> string \<Rightarrow> redis_map \<Rightarrow> int" where
  "map_count now k r = (case map_get now k r of None \<Rightarrow> 1 | Some v \<Rightarrow> the (decimal_int v) + 1)"

definition map_redis :: "redis_map redis" where
  "map_redis = \<lparr>rd_get = map_get, rd_set = map_set,
     rd_set_nx = (\<lambda>now k v ttl r. if map_get now k r = None then (True, map_set now k v ttl r) else (False, r)),
     rd_delete = (\<lambda>now k r. r(k := None)), rd_ttl = (\<lambda>now k r. map_until k r - now),
     rd_incr = (\<lambda>now k r. (map_count now k r, r(k \<mapsto> (show_int (map_count now k r), map_until k r)))),
     rd_expire = (\<lambda>now k ttl r. case r k of None \<Rightarrow> r | Some (v, _) \<Rightarrow> r(k \<mapsto> (v, now + ttl)))\<rparr>"

lemma map_redis_ok: "redis_ok map_redis"
  unfolding redis_ok_def
  by (auto simp: map_redis_def map_get_def map_set_def split: option.split prod.split)

lemma redis_issued:
  assumes "redis_ok rd" and "redis_issue rd mac fixed draw t0 phone ip purpose r = (Inr code, r')"
  shows "rd_get rd t (otp_key phone purpose) r'
    = (if t < t0 + 300 then Some (otp_digest mac phone code purpose @ '':0'') else None)"
  using assms(2) by (auto simp: redis_issue_def comp_simps redis_get_set [OF assms(1)] split: prod.splits sum.splits)

text \<open>C22. Of a code that the store in Redis has issued, whatever guesses follow at this and other codes, at most five
  are compared with the code and at most one is accepted; the right code is accepted as the first guess until it
  expires after 300 seconds.\<close>

theorem otp_guesses_are_limited:
  assumes "redis_ok rd" and "\<And>n. int_of (show_int n) = Some n"
    and "redis_issue rd mac fixed draw t0 phone ip purpose r = (Inr code, r')" and "sorted (t0 # map fst gs)"
  shows "length (filter guess_compared (guess_results (redis_verify rd int_of mac) phone purpose gs r')) \<le> 5
    \<and> length (filter ((=) (Inr ())) (guess_results (redis_verify rd int_of mac) phone purpose gs r')) \<le> 1
    \<and> fst (redis_verify rd int_of mac t phone code purpose r') = (if t < t0 + 300 then Inr () else Inl otp_expired)"
proof -
  have contract: "otp_contract (redis_issue rd mac fixed draw) (redis_verify rd int_of mac) (redis_budget rd int_of)"
    by (rule redis_otp_contract) (use assms in auto)
  have "read_payload int_of (otp_digest mac phone code purpose @ '':'' @ show_int 0)
      = Inr (otp_digest mac phone code purpose, 0)"
    by (rule payload_roundtrip) (rule assms)
  then have "fst (redis_verify rd int_of mac t phone code purpose r') = (if t < t0 + 300 then Inr () else Inl otp_expired)"
    using redis_issued [OF assms(1,3), of t]
    by (simp add: redis_verify_def Let_def comp_simps show_int_def show_nat.simps [of 0] show_digit_def)
  with otp_contract.issued_code_is_limited [OF contract assms(3,4)] show ?thesis by simp
qed

definition example_guesses :: "time guess list" where
  "example_guesses = [(1, ''+86'', ''000000'', ''LOGIN''), (2, ''+86'', ''000042'', ''LOGIN''), (3, ''+86'', ''000042'', ''LOGIN'')]"

lemma show_nat_42: "show_nat 42 = ''42''" "show_nat 0 = ''0''" "show_nat 1 = ''1''"
  by (simp_all add: show_nat.simps show_digit_def)

definition example_issue :: "(exn + string) \<times> redis_map" where
  "example_issue = redis_issue map_redis id None 42 0 ''+86'' ''::1'' ''LOGIN'' (\<lambda>_. None)"

lemma example_code: "new_code None 42 = ''000042''"
  unfolding new_code_def pad6_def option.case show_nat_42 by (simp add: numeral_eq_Suc)

lemma example_issued: "fst example_issue = Inr ''000042''"
  by (simp add: example_issue_def redis_issue_def check_rate_limit_def comp_simps map_redis_def map_get_def map_set_def
      minute_key_def rate_limits_def map_count_def map_until_def example_code show_int_def show_nat_42)

lemma otp_guesses_are_limited_witness:
  "length (filter guess_compared (guess_results (redis_verify map_redis decimal_int id) ''+86'' ''LOGIN'' example_guesses
      (snd example_issue))) \<le> 5
    \<and> fst (redis_verify map_redis decimal_int id 1 ''+86'' ''000042'' ''LOGIN'' (snd example_issue)) = Inr ()"
  using otp_guesses_are_limited [OF map_redis_ok decimal_int_show, of id None 42 0 "''+86''" "''::1''" "''LOGIN''"
      "\<lambda>_. None" "''000042''" "snd example_issue" example_guesses 1] example_issued
  by (simp add: example_issue_def [symmetric] prod_eq_iff example_guesses_def)

text \<open>A sequence of calls on the store; the phones to which a code was sent.\<close>

datatype otp_call = Otp_Issue time string string string nat | Otp_Verify time string string string

fun otp_call_time :: "otp_call \<Rightarrow> time" where
  "otp_call_time (Otp_Issue t _ _ _ _) = t"
| "otp_call_time (Otp_Verify t _ _ _) = t"

fun codes_sent :: "'r redis \<Rightarrow> (string \<Rightarrow> int option) \<Rightarrow> (string \<Rightarrow> string) \<Rightarrow> string option \<Rightarrow> otp_call list \<Rightarrow> 'r
    \<Rightarrow> string list" where
  "codes_sent rd int_of mac fixed [] r = []"
| "codes_sent rd int_of mac fixed (Otp_Issue t phone ip purpose draw # cs) r =
    (case redis_issue rd mac fixed draw t phone ip purpose r of (x, r') \<Rightarrow>
      (case x of Inr _ \<Rightarrow> [phone] | Inl _ \<Rightarrow> []) @ codes_sent rd int_of mac fixed cs r')"
| "codes_sent rd int_of mac fixed (Otp_Verify t phone code purpose # cs) r =
    (case redis_verify rd int_of mac t phone code purpose r of (_, r') \<Rightarrow> codes_sent rd int_of mac fixed cs r')"

text \<open>The key of the minute is set for the time of a window.\<close>

definition minute_set :: "'r redis \<Rightarrow> string \<Rightarrow> time \<Rightarrow> 'r \<Rightarrow> bool" where
  "minute_set rd phone t0 r \<longleftrightarrow> (\<forall>t<t0 + 60. rd_get rd t (minute_key phone) r \<noteq> None)"

lemma keys_differ [simp]: "minute_key p \<noteq> otp_key q u" "minute_key p = minute_key q \<longleftrightarrow> p = q"
  "list_all (\<lambda>(k, _). k \<noteq> minute_key p) (rate_limits q ip)"
  by (simp_all add: minute_key_def otp_key_def rate_limits_def)

lemma verify_keeps_minute:
  assumes "redis_ok rd" and "minute_set rd phone t0 r"
  shows "minute_set rd phone t0 (snd (redis_verify rd int_of mac t p c u r))"
proof (cases "redis_verify rd int_of mac t p c u r")
  case (Pair x r')
  from Pair show ?thesis
    by (cases rule: redis_verify_cases)
      (use assms(2) Pair in \<open>auto simp: minute_set_def redis_get_set [OF assms(1)] redis_get_delete [OF assms(1)]\<close>)
qed

lemma limits_keep_minute:
  assumes "redis_ok rd"
  shows "list_all (\<lambda>(k, _). k \<noteq> minute_key phone) limits \<Longrightarrow> minute_set rd phone t0 r \<Longrightarrow>
    minute_set rd phone t0 (snd (count_limits rd now limits r))"
proof (induction limits arbitrary: r)
  case (Cons l limits)
  obtain k m ttl where l: "l = (k, m, ttl)" by (cases l)
  with Cons.prems have k: "minute_key phone \<noteq> k" and rest: "list_all (\<lambda>(k, _). k \<noteq> minute_key phone) limits" by auto
  define r1 where "r1 = snd (rd_incr rd now k r)"
  have 1: "minute_set rd phone t0 r1"
    using Cons.prems(2) k by (simp add: r1_def minute_set_def redis_get_incr [OF assms])
  then have 2: "minute_set rd phone t0 (rd_expire rd now k ttl r1)"
    using k by (simp add: minute_set_def redis_get_expire [OF assms])
  show ?case using l 1 2 Cons.IH [OF rest] by (simp add: comp_simps r1_def)
qed (simp add: comp_simps)

lemma issue_keeps_minute:
  assumes ok: "redis_ok rd" and set: "minute_set rd phone t0 r" and t: "t < t0 + 60"
  shows "minute_set rd phone t0 (snd (redis_issue rd mac fixed draw t p ip u r))
    \<and> (p = phone \<longrightarrow> fst (redis_issue rd mac fixed draw t p ip u r) = Inl otp_limited)"
proof (cases "rd_get rd t (minute_key p) r")
  case (Some v)
  then show ?thesis
    using set by (auto simp: redis_issue_def check_rate_limit_def comp_simps redis_set_nx [OF ok])
next
  case None
  with set t have p: "p \<noteq> phone" by (auto simp: minute_set_def)
  define r1 where "r1 = rd_set rd t (minute_key p) ''1'' 60 r"
  have "minute_set rd phone t0 r1" using set p by (simp add: r1_def minute_set_def redis_get_set [OF ok])
  then have 2: "minute_set rd phone t0 (snd (count_limits rd t (rate_limits p ip) r1))"
    by (intro limits_keep_minute [OF ok]) simp_all
  obtain x r2 where c: "count_limits rd t (rate_limits p ip) r1 = (x, r2)" by (cases "count_limits rd t (rate_limits p ip) r1")
  have "minute_set rd phone t0 (snd (redis_issue rd mac fixed draw t p ip u r))"
    using None 2 c by (cases x)
      (auto simp: redis_issue_def check_rate_limit_def comp_simps redis_set_nx [OF ok] r1_def minute_set_def redis_get_set [OF ok])
  with p show ?thesis by simp
qed

text \<open>When a code was sent to a phone, no call in the following sixty seconds sends another one to it, whatever
  codes are requested and guessed in between, for any purpose and from any address.\<close>

theorem codes_are_rate_limited:
  assumes "redis_ok rd" and "redis_issue rd mac fixed draw t0 phone ip purpose r = (Inr code, r')"
    and "\<forall>c\<in>set calls. t0 \<le> otp_call_time c \<and> otp_call_time c < t0 + 60"
  shows "phone \<notin> set (codes_sent rd int_of mac fixed calls r')"
proof -
  have "minute_set rd phone t0 r'"
  proof -
    define r1 where "r1 = rd_set rd t0 (minute_key phone) ''1'' 60 r"
    have "minute_set rd phone t0 r1" by (simp add: r1_def minute_set_def redis_get_set [OF assms(1)])
    then have "minute_set rd phone t0 (snd (count_limits rd t0 (rate_limits phone ip) r1))"
      by (intro limits_keep_minute [OF assms(1)]) simp_all
    then show ?thesis
      using assms(2) by (auto simp: redis_issue_def check_rate_limit_def comp_simps redis_set_nx [OF assms(1)] r1_def
          minute_set_def redis_get_set [OF assms(1)] split: if_splits prod.splits sum.splits)
  qed
  then show ?thesis using assms(3)
  proof (induction calls arbitrary: r')
    case (Cons c calls)
    show ?case
    proof (cases c)
      case (Otp_Issue t p ip' u dr)
      with Cons.prems(2) have "t < t0 + 60" by simp
      note step = issue_keeps_minute [OF assms(1) Cons.prems(1) this, of mac fixed dr p ip' u]
      from Otp_Issue step Cons.IH Cons.prems(2) show ?thesis
        by (cases "redis_issue rd mac fixed dr t p ip' u r'") (auto split: sum.split)
    next
      case (Otp_Verify t p co u)
      with verify_keeps_minute [OF assms(1) Cons.prems(1), of int_of mac t p co u] Cons.IH Cons.prems(2) show ?thesis
        by (cases "redis_verify rd int_of mac t p co u r'") auto
    qed
  qed simp
qed

lemma codes_are_rate_limited_witness:
  "''+86'' \<notin> set (codes_sent map_redis decimal_int id None [Otp_Verify 5 ''+86'' ''000042'' ''LOGIN'',
      Otp_Issue 59 ''+86'' ''::2'' ''LOGIN'' 43] (snd example_issue))"
  using codes_are_rate_limited [OF map_redis_ok, of id None 42 0 "''+86''" "''::1''" "''LOGIN''"
      "\<lambda>_. None" "''000042''" "snd example_issue" "[Otp_Verify 5 ''+86'' ''000042'' ''LOGIN'',
      Otp_Issue 59 ''+86'' ''::2'' ''LOGIN'' 43]" decimal_int] example_issued
  by (simp add: example_issue_def [symmetric] prod_eq_iff)

subsection \<open>Tokens\<close>

lemma session_of_token_SomeD: "session_of_token h d = Some s \<Longrightarrow> s \<in> set (db_refresh_sessions d) \<and> rs_token_hash s = h"
  by (auto simp: session_of_token_def find_Some_iff)

text \<open>Unique columns of refresh sessions.\<close>

definition unique_sessions :: "db \<Rightarrow> bool" where
  "unique_sessions d \<longleftrightarrow> distinct (map rs_id (db_refresh_sessions d)) \<and> distinct (map rs_token_hash (db_refresh_sessions d))"

text \<open>A refreshed token: its session is revoked, a new session is added and nothing else changes.\<close>

definition rotated :: "auth_env \<Rightarrow> settings \<Rightarrow> time \<Rightarrow> refresh_session_row \<Rightarrow> string \<Rightarrow> db \<Rightarrow> db" where
  "rotated au cfg now s refresh d = d\<lparr>db_refresh_sessions :=
     update_rows (\<lambda>x. x = s) (\<lambda>s. s\<lparr>rs_revoked_at := Some now\<rparr>) (db_refresh_sessions d)
     @ [new_refresh_session au cfg now (fresh_id (map rs_id (db_refresh_sessions d))) (rs_user_id s) refresh]\<rparr>"

lemma same_hashes:
  "rs_token_hash ` set (update_rows (\<lambda>x. rs_id x = rs_id s) (\<lambda>s. s\<lparr>rs_revoked_at := Some now\<rparr>) (db_refresh_sessions d))
    = rs_token_hash ` set (db_refresh_sessions d)"
  using arg_cong [where f = set, OF map_update_rows, of "\<lambda>x. rs_id x = rs_id s" rs_token_hash
      "\<lambda>s. s\<lparr>rs_revoked_at := Some now\<rparr>" "db_refresh_sessions d"] by simp

lemma refresh_tokens_InrD:
  assumes "refresh_tokens au cfg now token refresh d = (Inr toks, d')" and "unique_sessions d"
  obtains s where "session_of_token (au_token_hash au token) d = Some s" and "rs_revoked_at s = None"
    and "now < rs_expires_at s" and "d' = rotated au cfg now s refresh d"
    and "session_of_token (au_token_hash au refresh) (rotated au cfg now s refresh d)
      = Some (new_refresh_session au cfg now (fresh_id (map rs_id (db_refresh_sessions d))) (rs_user_id s) refresh)"
    and "toks = new_tokens au cfg now (rs_user_id s) (user_roles (rs_user_id s) d) refresh"
    and "au_token_hash au refresh \<notin> rs_token_hash ` set (db_refresh_sessions d)"
proof -
  obtain s where s: "session_of_token (au_token_hash au token) d = Some s"
    using assms(1) by (auto simp: refresh_tokens_def comp_simps app_error_def split: option.splits)
  have same: "update_rows (\<lambda>x. rs_id x = rs_id s) f (db_refresh_sessions d) = update_rows (\<lambda>x. x = s) f (db_refresh_sessions d)" for f
    using assms(2) session_of_token_SomeD [OF s]
    by (auto simp: update_rows_def unique_sessions_def distinct_map dest: inj_onD)
  have "session_of_token (au_token_hash au refresh) (d\<lparr>db_refresh_sessions :=
      update_rows (\<lambda>x. rs_id x = rs_id s) (\<lambda>s. s\<lparr>rs_revoked_at := Some now\<rparr>) (db_refresh_sessions d)\<rparr>) = None"
    and rest: "rs_revoked_at s = None" "now < rs_expires_at s" "d' = rotated au cfg now s refresh d"
      "toks = new_tokens au cfg now (rs_user_id s) (user_roles (rs_user_id s) d) refresh"
    using assms(1) s
    by (auto simp: refresh_tokens_def comp_simps app_error_def add_refresh_session_def revoke_session_def
        revoke_all_sessions_def transaction_def rotated_def same map_update_rows split: if_splits)
  then have fresh: "au_token_hash au refresh \<notin> rs_token_hash ` set (db_refresh_sessions d)"
    by (subst same_hashes [of s now d, symmetric]) (auto simp: session_of_token_def find_None_iff)
  then have "find (\<lambda>x. rs_token_hash x = au_token_hash au refresh) (db_refresh_sessions d) = None"
    by (auto simp: find_None_iff image_iff)
  then have "session_of_token (au_token_hash au refresh) (rotated au cfg now s refresh d)
      = Some (new_refresh_session au cfg now (fresh_id (map rs_id (db_refresh_sessions d))) (rs_user_id s) refresh)"
    by (simp add: session_of_token_def rotated_def find_append find_update_rows new_refresh_session_def)
  with s rest fresh that show thesis by blast
qed

lemma refresh_unknown:
  "session_of_token (au_token_hash au token) d = None \<Longrightarrow>
    refresh_tokens au cfg now token refresh d = (Inl (AppErr 401 ''INVALID_REFRESH_TOKEN''), d)"
  by (simp add: refresh_tokens_def comp_simps)

text \<open>C19. A refresh token works once. A refresh revokes the session of the token and adds one session for the same
  user, that lasts the configured days. A second use of the old token before it expires, with any new token, is
  answered with \<open>REFRESH_TOKEN_REUSED\<close>, deletes every session of the user and no other, and after it neither the old
  token nor the one that replaced it is valid.\<close>

theorem refresh_token_works_once:
  assumes "unique_sessions d" and "refresh_tokens au cfg now token refresh d = (Inr toks, d')"
  shows "\<exists>s :: refresh_session_row. session_of_token (au_token_hash au token) d = Some s
    \<and> rs_revoked_at s = None \<and> now < rs_expires_at s \<and> d' = rotated au cfg now s refresh d \<and> tok_refresh toks = refresh
    \<and> session_of_token (au_token_hash au refresh) d' = Some (new_refresh_session au cfg now
        (fresh_id (map rs_id (db_refresh_sessions d))) (rs_user_id s) refresh)
    \<and> (\<forall>later other cfg'. later < rs_expires_at s \<longrightarrow>
        (case refresh_tokens au cfg' later token other d' of (r, d'') \<Rightarrow>
          r = Inl (AppErr 401 ''REFRESH_TOKEN_REUSED'')
          \<and> d'' = d'\<lparr>db_refresh_sessions := filter (\<lambda>x. rs_user_id x \<noteq> rs_user_id s) (db_refresh_sessions d')\<rparr>
          \<and> (\<forall>t\<in>{token, refresh}. \<forall>time any cfg''.
              refresh_tokens au cfg'' time t any d'' = (Inl (AppErr 401 ''INVALID_REFRESH_TOKEN''), d''))))"
proof -
  obtain s where s: "session_of_token (au_token_hash au token) d = Some s" "rs_revoked_at s = None"
      "now < rs_expires_at s" "d' = rotated au cfg now s refresh d"
      "session_of_token (au_token_hash au refresh) (rotated au cfg now s refresh d)
        = Some (new_refresh_session au cfg now (fresh_id (map rs_id (db_refresh_sessions d))) (rs_user_id s) refresh)"
      "toks = new_tokens au cfg now (rs_user_id s) (user_roles (rs_user_id s) d) refresh"
      "au_token_hash au refresh \<notin> rs_token_hash ` set (db_refresh_sessions d)"
    by (rule refresh_tokens_InrD [OF assms(2,1)])
  let ?old = "s\<lparr>rs_revoked_at := Some now\<rparr>"
  have mem: "s \<in> set (db_refresh_sessions d)" "rs_token_hash s = au_token_hash au token"
    using session_of_token_SomeD [OF s(1)] by auto
  have hash: "x \<in> set (db_refresh_sessions d) \<Longrightarrow> rs_token_hash x = au_token_hash au token \<Longrightarrow> x = s" for x :: refresh_session_row
    using assms(1) mem by (metis unique_sessions_def distinct_map inj_onD)
  have old: "session_of_token (au_token_hash au token) d' = Some ?old"
  proof -
    have "find (\<lambda>x. rs_token_hash x = au_token_hash au token) (db_refresh_sessions d) = Some s"
      using s(1) by (simp add: session_of_token_def)
    then have "find (\<lambda>x. rs_token_hash x = au_token_hash au token)
        (update_rows (\<lambda>x. x = s) (\<lambda>s. s\<lparr>rs_revoked_at := Some now\<rparr>) (db_refresh_sessions d)) = Some ?old"
      by (subst find_update_rows) auto
    then show ?thesis by (simp add: session_of_token_def s(4) rotated_def find_append)
  qed
  have family: "x \<in> set (db_refresh_sessions d') \<Longrightarrow> rs_token_hash x \<in> {au_token_hash au token, au_token_hash au refresh}
      \<Longrightarrow> rs_user_id x = rs_user_id s" for x :: refresh_session_row
  proof -
    assume x: "x \<in> set (db_refresh_sessions d')"
      and h: "rs_token_hash x \<in> {au_token_hash au token, au_token_hash au refresh}"
    from x consider "x = ?old" | "x \<in> set (db_refresh_sessions d)" | "rs_user_id x = rs_user_id s"
      by (auto simp: s(4) rotated_def new_refresh_session_def elim!: set_update_rowsE split: if_splits)
    then show "rs_user_id x = rs_user_id s" using h hash [of x] s(7) by cases (auto simp: image_iff)
  qed
  let ?rest = "d'\<lparr>db_refresh_sessions := filter (\<lambda>x. rs_user_id x \<noteq> rs_user_id s) (db_refresh_sessions d')\<rparr>"
  have gone: "session_of_token h ?rest = None" if "h \<in> {au_token_hash au token, au_token_hash au refresh}" for h
    using family that by (auto simp: session_of_token_def find_None_iff)
  have reuse: "refresh_tokens au cfg' later token other d' = (Inl (AppErr 401 ''REFRESH_TOKEN_REUSED''), ?rest)"
    if "later < rs_expires_at s" for later other cfg'
    using old that by (simp add: refresh_tokens_def comp_simps revoke_all_sessions_def)
  have last: "refresh_tokens au cfg'' time t any ?rest = (Inl (AppErr 401 ''INVALID_REFRESH_TOKEN''), ?rest)"
    if "t \<in> {token, refresh}" for t time any cfg''
    by (rule refresh_unknown, rule gone) (use that in auto)
  have "tok_refresh toks = refresh" by (simp add: s(6) new_tokens_def)
  moreover have "case refresh_tokens au cfg' later token other d' of (r, d'') \<Rightarrow>
      r = Inl (AppErr 401 ''REFRESH_TOKEN_REUSED'') \<and> d'' = ?rest \<and> (\<forall>t\<in>{token, refresh}. \<forall>time any cfg''.
        refresh_tokens au cfg'' time t any d'' = (Inl (AppErr 401 ''INVALID_REFRESH_TOKEN''), d''))"
    if "later < rs_expires_at s" for later other cfg'
    unfolding reuse [OF that] prod.case using last by blast
  ultimately show ?thesis
    using s(1-4) s(5) [folded s(4)] by (intro exI [of _ s] conjI allI impI) (assumption | rule refl)+
qed

subsection \<open>Access tokens\<close>

text \<open>What PyJWT promises of the claims of an access token: the token decodes to them before its expiry and raises
  afterwards.\<close>

definition jwt_ok :: "auth_env \<Rightarrow> bool" where
  "jwt_ok au \<longleftrightarrow> (\<forall>cfg now user granted t.
     au_jwt_decode au t (au_jwt_encode au (access_claims au cfg now user granted))
     = (if t < now + cfg_access_token_minutes cfg * 60 then Some (access_claims au cfg now user granted) else None))"

lemma role_value_known: "role_value v \<in> {''STUDENT'', ''REVIEWER'', ''ADMIN''}"
  by (cases v) simp_all

lemma lower_bearer: "lower_char CHR ''B'' = CHR ''b''" "lower_char CHR ''e'' = CHR ''e''"
  "lower_char CHR ''a'' = CHR ''a''" "lower_char CHR ''r'' = CHR ''r''"
  by code_simp+

lemma decode_issued:
  assumes "jwt_ok au" and "app_env_ok (au_app au)"
  shows "decode_access_token au t (au_jwt_encode au (access_claims au cfg now user granted))
    = (if t < now + cfg_access_token_minutes cfg * 60
       then Inr \<lparr>cu_user_id = user, cu_roles = set (map role_value granted), cu_status = User_ACTIVE\<rparr>
       else Inl (AppErr 401 ''INVALID_ACCESS_TOKEN''))"
proof -
  let ?claims = "access_claims au cfg now user granted"
  have "au_jwt_decode au t (au_jwt_encode au ?claims)
      = (if t < now + cfg_access_token_minutes cfg * 60 then Some ?claims else None)"
    using assms(1) unfolding jwt_ok_def by blast
  moreover have "known_roles (map JStr (sort (map role_value (remdups granted))))"
    using role_value_known by (fastforce simp: known_roles_def list_all_iff)
  ultimately show ?thesis
    using assms(2) by (simp add: decode_access_token_def access_claims_def dict_get_def json_str_def image_image)
qed

lemma user_by_id_SomeD: "user_by_id i d = Some u \<Longrightarrow> u \<in> set (db_users d) \<and> usr_id u = i"
  by (auto simp: user_by_id_def find_Some_iff)

lemma user_by_id_self: "user_by_id i d = Some u \<Longrightarrow> user_by_id (usr_id u) d = Some u"
  using user_by_id_SomeD by blast

lemma user_by_id_of: "distinct (map usr_id (db_users d)) \<Longrightarrow> u \<in> set (db_users d) \<Longrightarrow> user_by_id (usr_id u) d = Some u"
  unfolding user_by_id_def by (rule find_row_by_id) auto

lemma issue_tokens_InrD:
  assumes "issue_tokens au cfg now user refresh d = (Inr toks, d')"
  shows "toks = new_tokens au cfg now user (user_roles user d) refresh
    \<and> d' = d\<lparr>db_refresh_sessions := db_refresh_sessions d
        @ [new_refresh_session au cfg now (fresh_id (map rs_id (db_refresh_sessions d))) user refresh]\<rparr>"
  using assms by (auto simp: issue_tokens_def add_refresh_session_def transaction_def comp_simps split: if_splits)

lemma find_or_create_user_InrD:
  assumes "find_or_create_user au now phone d = (Inr u, d')" and "distinct (map usr_id (db_users d))"
  shows "user_of_phone au phone d' = Some u \<and> distinct (map usr_id (db_users d')) \<and> u \<in> set (db_users d')
    \<and> db_refresh_sessions d' = db_refresh_sessions d"
proof (cases "user_of_phone au phone d")
  case None
  with assms show ?thesis
    by (auto simp: find_or_create_user_def comp_simps user_of_phone_def find_append new_user_def fresh_id_notin)
next
  case (Some x)
  with assms have "u = x" "d' = d" by (simp_all add: find_or_create_user_def comp_simps)
  with Some assms(2) show ?thesis by (auto simp: user_of_phone_def dest: find_SomeD)
qed

text \<open>C23. The access token of a log-in identifies its user: until it expires the guard of a request returns the user
  with that phone and the roles stored for the user, and from then on it answers \<open>INVALID_ACCESS_TOKEN\<close>. A
  log-in with a phone that has no account creates one, a student's.\<close>

theorem access_token_identifies_the_user:
  assumes "jwt_ok au" and "app_env_ok (au_app au)" and "distinct (map usr_id (db_users d))"
    and "log_in au cfg now phone refresh d = (Inr toks, d')"
  shows "\<exists>u :: user_row. user_of_phone au phone d' = Some u
    \<and> (\<forall>t. get_current_user au t (Some (''Bearer'', tok_access toks)) d' =
        (if t < now + tok_expires_in toks
         then (Inr \<lparr>cu_user_id = usr_id u, cu_roles = role_value ` set (user_roles (usr_id u) d'),
                    cu_status = User_ACTIVE\<rparr>, d')
         else (Inl (AppErr 401 ''INVALID_ACCESS_TOKEN''), d')))
    \<and> (user_of_phone au phone d = None \<longrightarrow> Role_STUDENT \<in> set (user_roles (usr_id u) d'))"
proof -
  obtain u d1 where u: "find_or_create_user au now phone d = (Inr u, d1)" "usr_status u = User_ACTIVE"
      "issue_tokens au cfg now (usr_id u) refresh d1 = (Inr toks, d')"
    using assms(4) by (auto simp: log_in_def comp_simps split: if_splits prod.splits sum.splits)
  note created = find_or_create_user_InrD [OF u(1) assms(3)]
  note issued = issue_tokens_InrD [OF u(3)]
  have same: "db_users d' = db_users d1" "db_user_roles d' = db_user_roles d1" using issued by simp_all
  have tok: "tok_access toks = au_jwt_encode au (access_claims au cfg now (usr_id u) (user_roles (usr_id u) d1))"
    and exp: "tok_expires_in toks = cfg_access_token_minutes cfg * 60"
    using issued by (simp_all add: new_tokens_def)
  have "user_by_id (usr_id u) d' = Some u" using created user_by_id_of [of d' u] same by simp
  then have guard: "get_current_user au t (Some (''Bearer'', tok_access toks)) d' =
      (if t < now + tok_expires_in toks
       then (Inr \<lparr>cu_user_id = usr_id u, cu_roles = role_value ` set (user_roles (usr_id u) d'),
                  cu_status = User_ACTIVE\<rparr>, d')
       else (Inl (AppErr 401 ''INVALID_ACCESS_TOKEN''), d'))" for t
    using u(2)
    by (simp add: get_current_user_def get_authenticated_user_def comp_simps tok exp decode_issued assms(1,2) lower_bearer)
  have "user_of_phone au phone d = None \<longrightarrow> Role_STUDENT \<in> set (user_roles (usr_id u) d')"
    using u(1)
    by (auto simp: find_or_create_user_def comp_simps user_roles_def same new_user_def
        intro!: image_eqI [where x = "\<lparr>ur_user_id = fresh_id (map usr_id (db_users d)), ur_role = Role_STUDENT\<rparr>"])
  with guard created same show ?thesis
    by (intro exI [of _ u]) (simp add: user_of_phone_def)
qed

subsection \<open>The freeze of an account\<close>

definition unique_deletions :: "db \<Rightarrow> bool" where
  "unique_deletions d \<longleftrightarrow> distinct (map ad_id (db_account_deletions d)) \<and> distinct (map ad_user_id (db_account_deletions d))"

text \<open>The request of a user: the one row of the table for the user.\<close>

lemma deletion_requested:
  assumes "request_account_deletion now user d = (Inr due, d')" and "unique_deletions d"
  obtains a where "deletion_of user d' = Some a" and "ad_purge_after a = now + days 30" and "ad_cancelled_at a = None"
    and "ad_purged_at a = (case deletion_of user d of None \<Rightarrow> None | Some b \<Rightarrow> ad_purged_at b)"
    and "unique_deletions d'" and "due = now + days 30"
    and "db_users d' = update_rows (\<lambda>u. usr_id u = user) (\<lambda>u. u\<lparr>usr_status := User_DELETION_PENDING\<rparr>) (db_users d)"
    and "db_refresh_sessions d' = filter (\<lambda>s. rs_user_id s \<noteq> user) (db_refresh_sessions d)"
proof (cases "deletion_of user d")
  case None
  let ?a = "new_deletion now (fresh_id (map ad_id (db_account_deletions d))) user"
  obtain u where "user_by_id user d = Some u"
    using assms(1) by (auto simp: request_account_deletion_def comp_simps split: option.splits)
  with None assms(1) have d': "d' = d\<lparr>db_account_deletions := db_account_deletions d @ [?a],
      db_users := update_rows (\<lambda>u. usr_id u = user) (\<lambda>u. u\<lparr>usr_status := User_DELETION_PENDING\<rparr>) (db_users d),
      db_refresh_sessions := filter (\<lambda>s. rs_user_id s \<noteq> user) (db_refresh_sessions d)\<rparr>" "due = now + days 30"
    by (simp_all add: request_account_deletion_def comp_simps set_user_status_def revoke_all_sessions_def)
  have "find (\<lambda>a. ad_user_id a = user) (db_account_deletions d) = None" using None by (simp add: deletion_of_def)
  then have "deletion_of user d' = Some ?a" and "unique_deletions d'"
    using assms(2) by (simp add: deletion_of_def d' find_append new_deletion_def)
      (use None assms(2) in \<open>auto simp: deletion_of_def unique_deletions_def d' new_deletion_def find_None_iff\<close>)
  with d' None that [of ?a] show thesis by (simp add: new_deletion_def)
next
  case (Some b)
  obtain u where "user_by_id user d = Some u"
    using assms(1) by (auto simp: request_account_deletion_def comp_simps split: option.splits)
  with Some assms(1) have d': "d' = d\<lparr>db_account_deletions :=
        update_rows (\<lambda>a. ad_id a = ad_id b) (renewed_deletion now) (db_account_deletions d),
      db_users := update_rows (\<lambda>u. usr_id u = user) (\<lambda>u. u\<lparr>usr_status := User_DELETION_PENDING\<rparr>) (db_users d),
      db_refresh_sessions := filter (\<lambda>s. rs_user_id s \<noteq> user) (db_refresh_sessions d)\<rparr>" "due = now + days 30"
    by (simp_all add: request_account_deletion_def comp_simps set_user_status_def set_deletion_def revoke_all_sessions_def)
  have "deletion_of user d' = Some (renewed_deletion now b)"
    using Some by (simp add: deletion_of_def d' find_update_rows renewed_deletion_def)
  moreover have "unique_deletions d'"
    using assms(2) by (simp add: unique_deletions_def d' map_update_rows renewed_deletion_def)
  ultimately show thesis using d' Some that [of "renewed_deletion now b"] by (simp add: renewed_deletion_def)
qed

lemma only_deletion:
  "unique_deletions d \<Longrightarrow> deletion_of user d = Some a \<Longrightarrow> x \<in> set (db_account_deletions d) \<Longrightarrow> ad_user_id x = user \<Longrightarrow> x = a"
  unfolding deletion_of_def unique_deletions_def by (metis (mono_tags, lifting) distinct_map find_SomeD inj_onD)

lemma status_of_user:
  "user_by_id i d = Some u \<Longrightarrow> distinct (map usr_id (db_users d)) \<Longrightarrow> v \<in> set (db_users d) \<Longrightarrow> usr_id v = i \<Longrightarrow> v = u"
  by (metis distinct_map inj_onD user_by_id_SomeD)

text \<open>The guards never let in a user whose account is not active.\<close>

lemma current_user_active:
  assumes "get_current_user au t credentials d = (Inr cu, d')"
  shows "\<exists>u. user_by_id (cu_user_id cu) d = Some u \<and> usr_status u = User_ACTIVE"
proof -
  have "\<exists>u. user_by_id (usr_id u) d = Some u \<and> cu_user_id cu = usr_id u \<and> usr_status u = User_ACTIVE"
    using assms
    by (auto simp: get_current_user_def get_authenticated_user_def comp_simps app_error_def
        split: option.splits if_splits sum.splits prod.splits dest: user_by_id_self)
  then show ?thesis by auto
qed

text \<open>C20. A request to delete an account takes effect in thirty days and freezes the account at once: no session of the
  user is left, a refresh with any of the user's tokens fails, the guard of a request lets the user in with no token,
  and a log-in with the user's phone is refused without a change. The purge does not take the account before the
  thirty days, and after a cancellation the account is active and the purge never takes it.\<close>

theorem deletion_freezes_the_account:
  assumes "distinct (map usr_id (db_users d))" and "unique_deletions d" and "unique_sessions d"
    and "\<forall>a\<in>set (db_account_deletions d). ad_purged_at a = None"
    and "request_account_deletion now user d = (Inr due, d')"
  shows "due = now + days 30 \<and> (\<forall>s\<in>set (db_refresh_sessions d'). rs_user_id s \<noteq> user)
    \<and> (\<forall>au cfg token t any s. session_of_token (au_token_hash au token) d = Some s \<and> rs_user_id s = user \<longrightarrow>
        refresh_tokens au cfg t token any d' = (Inl (AppErr 401 ''INVALID_REFRESH_TOKEN''), d'))
    \<and> (\<forall>au t credentials cu x. get_current_user au t credentials d' = (Inr cu, x) \<longrightarrow> cu_user_id cu \<noteq> user)
    \<and> (\<forall>au cfg t phone any u. user_of_phone au phone d' = Some u \<and> usr_id u = user \<longrightarrow>
        log_in au cfg t phone any d' = (Inl (AppErr 403 ''ACCOUNT_UNAVAILABLE''), d'))
    \<and> (\<forall>t. user \<in> ad_user_id ` set (due_deletions t d') \<longleftrightarrow> due \<le> t)
    \<and> (\<forall>later. \<exists>d''. cancel_account_deletion later user d' = (Inr (), d'')
        \<and> (\<exists>u. user_by_id user d'' = Some u \<and> usr_status u = User_ACTIVE)
        \<and> (\<forall>t. user \<notin> ad_user_id ` set (due_deletions t d'')))"
proof -
  obtain a where a: "deletion_of user d' = Some a" "ad_purge_after a = now + days 30" "ad_cancelled_at a = None"
      "ad_purged_at a = (case deletion_of user d of None \<Rightarrow> None | Some b \<Rightarrow> ad_purged_at b)"
      "unique_deletions d'" "due = now + days 30"
      "db_users d' = update_rows (\<lambda>u. usr_id u = user) (\<lambda>u. u\<lparr>usr_status := User_DELETION_PENDING\<rparr>) (db_users d)"
      "db_refresh_sessions d' = filter (\<lambda>s. rs_user_id s \<noteq> user) (db_refresh_sessions d)"
    by (rule deletion_requested [OF assms(5,2)])
  have purged: "ad_purged_at a = None"
    using a(4) assms(4) by (auto simp: deletion_of_def split: option.splits dest: find_SomeD)
  have a_in: "a \<in> set (db_account_deletions d')" "ad_user_id a = user"
    using a(1) by (auto simp: deletion_of_def dest: find_SomeD)
  obtain u0 where u0: "user_by_id user d = Some u0"
    using assms(5) by (auto simp: request_account_deletion_def comp_simps split: option.splits)
  let ?u = "u0\<lparr>usr_status := User_DELETION_PENDING\<rparr>"
  have u: "user_by_id user d' = Some ?u"
    using u0 user_by_id_SomeD [OF u0] by (simp add: user_by_id_def a(7) find_update_rows)
  have ids: "distinct (map usr_id (db_users d'))" using assms(1) by (simp add: a(7) map_update_rows)
  have refresh: "session_of_token h d' = None" if "session_of_token h d = Some s" "rs_user_id s = user" for h s
  proof -
    have "x = s" if "x \<in> set (db_refresh_sessions d)" "rs_token_hash x = h" for x :: refresh_session_row
      using assms(3) that session_of_token_SomeD [OF \<open>session_of_token h d = Some s\<close>]
      by (metis unique_sessions_def distinct_map inj_onD)
    then show ?thesis using that(2) by (auto simp: session_of_token_def find_None_iff a(8))
  qed
  have guard: "cu_user_id cu \<noteq> user" if "get_current_user au t credentials d' = (Inr cu, x)" for au t credentials cu x
    using current_user_active [OF that] u by auto
  have login: "log_in au cfg t phone any d' = (Inl (AppErr 403 ''ACCOUNT_UNAVAILABLE''), d')"
    if "user_of_phone au phone d' = Some v" "usr_id v = user" for au cfg t phone any v
  proof -
    have "v \<in> set (db_users d')" using that(1) by (auto simp: user_of_phone_def dest: find_SomeD)
    then have "v = ?u" using status_of_user [OF u ids] that(2) by simp
    with that(1) show ?thesis by (simp add: log_in_def find_or_create_user_def comp_simps)
  qed
  have due: "user \<in> ad_user_id ` set (due_deletions t d') \<longleftrightarrow> now + days 30 \<le> t" for t
  proof
    assume "user \<in> ad_user_id ` set (due_deletions t d')"
    then obtain x where "x \<in> set (db_account_deletions d')" "ad_user_id x = user" "ad_purge_after x \<le> t"
      by (auto simp: due_deletions_def)
    with only_deletion [OF a(5,1), of x] show "now + days 30 \<le> t" by (simp add: a(2))
  next
    assume "now + days 30 \<le> t"
    then have "a \<in> set (due_deletions t d')" by (simp add: due_deletions_def a_in a(2,3) purged)
    then show "user \<in> ad_user_id ` set (due_deletions t d')" by (rule rev_image_eqI) (simp add: a_in)
  qed
  have cancel: "\<exists>d''. cancel_account_deletion later user d' = (Inr (), d'')
      \<and> (\<exists>u. user_by_id user d'' = Some u \<and> usr_status u = User_ACTIVE)
      \<and> (\<forall>t. user \<notin> ad_user_id ` set (due_deletions t d''))" for later
  proof -
    let ?d = "d'\<lparr>db_account_deletions := update_rows (\<lambda>x. ad_id x = ad_id a) (\<lambda>x. x\<lparr>ad_cancelled_at := Some later\<rparr>)
        (db_account_deletions d'), db_users := update_rows (\<lambda>u. usr_id u = user) (\<lambda>u. u\<lparr>usr_status := User_ACTIVE\<rparr>) (db_users d')\<rparr>"
    have "cancel_account_deletion later user d' = (Inr (), ?d)"
      using u a(1) purged by (simp add: cancel_account_deletion_def comp_simps set_deletion_def set_user_status_def)
    moreover have "user_by_id user ?d = Some (?u\<lparr>usr_status := User_ACTIVE\<rparr>)"
      using u user_by_id_SomeD [OF u] by (simp add: user_by_id_def find_update_rows)
    moreover have "user \<notin> ad_user_id ` set (due_deletions t ?d)" for t
    proof
      assume "user \<in> ad_user_id ` set (due_deletions t ?d)"
      then obtain x where x: "x \<in> set (db_account_deletions d')" "ad_user_id x = user" "ad_id x \<noteq> ad_id a"
        by (auto simp: due_deletions_def elim!: set_update_rowsE split: if_splits)
      with only_deletion [OF a(5,1) x(1,2)] show False by simp
    qed
    ultimately show ?thesis by (intro exI [of _ ?d]) auto
  qed
  have sessions: "\<forall>s\<in>set (db_refresh_sessions d'). rs_user_id s \<noteq> user" by (simp add: a(8))
  have tokens: "\<forall>au cfg token t any s. session_of_token (au_token_hash au token) d = Some s \<and> rs_user_id s = user \<longrightarrow>
      refresh_tokens au cfg t token any d' = (Inl (AppErr 401 ''INVALID_REFRESH_TOKEN''), d')"
    using refresh refresh_unknown by blast
  have guards: "\<forall>au t credentials cu x. get_current_user au t credentials d' = (Inr cu, x) \<longrightarrow> cu_user_id cu \<noteq> user"
    using guard by (intro allI impI)
  have logins: "\<forall>au cfg t phone any u. user_of_phone au phone d' = Some u \<and> usr_id u = user \<longrightarrow>
      log_in au cfg t phone any d' = (Inl (AppErr 403 ''ACCOUNT_UNAVAILABLE''), d')"
    by (intro allI impI, elim conjE) (rule login)
  show ?thesis
    unfolding a(6)
    by (rule conjI [OF refl conjI [OF sessions conjI [OF tokens conjI [OF guards conjI [OF logins conjI]]]]])
      (rule allI, rule due, rule allI, rule cancel)
qed

subsection \<open>Examples\<close>

definition encode_claims :: "jobj \<Rightarrow> string" where
  "encode_claims claims =
    (case (map_of claims ''sub'', map_of claims ''roles'', map_of claims ''iat'', map_of claims ''exp'') of
       (Some (JStr s), Some (JList rs), Some (JInt i), Some (JInt e)) \<Rightarrow>
         ((s @ '':'' @ map (\<lambda>r. case r of JStr x \<Rightarrow> hd x | _ \<Rightarrow> CHR ''?'') rs) @ '':'' @ show_int i) @ '':'' @ show_int e
     | _ \<Rightarrow> [])"

definition role_of_letter :: "char \<Rightarrow> string" where
  "role_of_letter c = (if c = CHR ''A'' then ''ADMIN'' else if c = CHR ''R'' then ''REVIEWER'' else ''STUDENT'')"

definition decode_claims :: "time \<Rightarrow> string \<Rightarrow> jobj option" where
  "decode_claims t token = (case rsplit_colon token of
     None \<Rightarrow> None
   | Some (a, e) \<Rightarrow> (case rsplit_colon a of
       None \<Rightarrow> None
     | Some (b, i) \<Rightarrow> (case rsplit_colon b of
         None \<Rightarrow> None
       | Some (s, rs) \<Rightarrow> if t < the (decimal_int e)
           then Some [(''sub'', JStr s), (''roles'', JList (map (\<lambda>c. JStr (role_of_letter c)) rs)),
             (''iss'', JStr ''adaptive''), (''iat'', JInt (the (decimal_int i))), (''exp'', JInt (the (decimal_int e))),
             (''type'', JStr ''access'')]
           else None)))"

definition example_auth :: auth_env where
  "example_auth = \<lparr>au_parse_phone = (\<lambda>s. Some (length s)), au_valid_phone = (\<lambda>_. True), au_e164 = show_nat,
     au_lookup_hash = id, au_encrypt = id, au_token_hash = id, au_issuer = ''adaptive'',
     au_jwt_encode = encode_claims, au_jwt_decode = decode_claims, au_app = example_app_env\<rparr>"

lemma example_auth_simps [simp]:
  "au_token_hash example_auth = id" "au_lookup_hash example_auth = id" "au_encrypt example_auth = id"
  "au_app example_auth = example_app_env" "au_issuer example_auth = ''adaptive''"
  "au_jwt_encode example_auth = encode_claims" "au_jwt_decode example_auth = decode_claims"
  by (simp_all add: example_auth_def)

lemma role_letters: "role_of_letter (hd (role_value v)) = role_value v" "hd (role_value v) \<noteq> CHR '':''"
  by (cases v; simp add: role_of_letter_def)+

lemma example_jwt_ok: "jwt_ok example_auth"
proof -
  have "decode_claims t (encode_claims (access_claims example_auth cfg now user granted))
      = (if t < now + cfg_access_token_minutes cfg * 60 then Some (access_claims example_auth cfg now user granted) else None)"
    for t cfg now user granted
  proof -
    let ?names = "sort (map role_value (remdups granted))"
    have letters: "map (\<lambda>c. JStr (role_of_letter c)) (map hd ?names) = map JStr ?names"
      using role_letters(1) by (auto simp: comp_def)
    have "CHR '':'' \<notin> set (map hd ?names)" using role_letters(2) by fastforce
    note rsplit_colon_append [OF this] rsplit_colon_append [OF show_int_no_colon]
    with letters show ?thesis
      by (simp add: encode_claims_def access_claims_def decode_claims_def comp_def decimal_int_show del: append_assoc append.simps)
  qed
  then show ?thesis by (simp add: jwt_ok_def)
qed

definition example_user :: user_row where
  "example_user = \<lparr>usr_id = 1, usr_phone_lookup_hash = ''+86'', usr_phone_ciphertext = ''+86'', usr_status = User_ACTIVE,
     usr_version = 1, usr_created_at = 0\<rparr>"

definition example_session :: refresh_session_row where
  "example_session = \<lparr>rs_id = 1, rs_user_id = 1, rs_token_hash = ''old'', rs_expires_at = 1000, rs_revoked_at = None,
     rs_replaced_by_id = None, rs_created_at = 0\<rparr>"

definition example_account_db :: db where
  "example_account_db = empty_db\<lparr>db_users := [example_user], db_refresh_sessions := [example_session],
     db_user_roles := [\<lparr>ur_user_id = 1, ur_role = Role_STUDENT\<rparr>]\<rparr>"

lemma example_account_tables [simp]:
  "db_users example_account_db = [example_user]" "db_refresh_sessions example_account_db = [example_session]"
  "db_account_deletions example_account_db = []" "db_weekly_plans example_account_db = []"
  "db_chapter_true_exam_sessions example_account_db = []" "db_mock_exams example_account_db = []"
  "db_students example_account_db = []"
  by (simp_all add: example_account_db_def empty_db_def)

lemma example_unique: "unique_sessions example_account_db" "unique_deletions example_account_db" "unique_ids example_account_db"
  "distinct (map usr_id (db_users example_account_db))"
  by (simp_all add: unique_sessions_def unique_deletions_def unique_ids_def)

lemma refresh_token_works_once_witness:
  "\<exists>toks d'. refresh_tokens example_auth default_settings 10 ''old'' ''new'' example_account_db = (Inr toks, d')
    \<and> (\<exists>s. session_of_token ''new'' d' = Some s) \<and> fst (refresh_tokens example_auth default_settings 11 ''old'' ''x'' d')
      = Inl (AppErr 401 ''REFRESH_TOKEN_REUSED'')"
proof -
  obtain toks d' where run: "refresh_tokens example_auth default_settings 10 ''old'' ''new'' example_account_db = (Inr toks, d')"
    by (simp add: refresh_tokens_def session_of_token_def example_session_def comp_simps revoke_session_def
        add_refresh_session_def transaction_def update_rows_def)
  from refresh_token_works_once [OF example_unique(1) run] obtain s :: refresh_session_row
    where old: "session_of_token (au_token_hash example_auth ''old'') example_account_db = Some s"
      and new: "session_of_token (au_token_hash example_auth ''new'') d' = Some (new_refresh_session example_auth
        default_settings 10 (fresh_id (map rs_id (db_refresh_sessions example_account_db))) (rs_user_id s) ''new'')"
      and reuse: "\<forall>later other cfg'. later < rs_expires_at s \<longrightarrow>
        (case refresh_tokens example_auth cfg' later ''old'' other d' of (r, d'') \<Rightarrow>
          r = Inl (AppErr 401 ''REFRESH_TOKEN_REUSED'')
          \<and> d'' = d'\<lparr>db_refresh_sessions := filter (\<lambda>x. rs_user_id x \<noteq> rs_user_id s) (db_refresh_sessions d')\<rparr>
          \<and> (\<forall>t\<in>{''old'', ''new''}. \<forall>time any cfg''.
              refresh_tokens example_auth cfg'' time t any d'' = (Inl (AppErr 401 ''INVALID_REFRESH_TOKEN''), d'')))"
    by blast
  have "(11::int) < rs_expires_at s"
    using old by (auto simp: session_of_token_def example_session_def)
  from reuse [rule_format, OF this, of default_settings "''x''"] run new show ?thesis
    by (cases "refresh_tokens example_auth default_settings 11 ''old'' ''x'' d'") simp
qed

lemma access_token_identifies_the_user_witness:
  "\<exists>toks d'. log_in example_auth default_settings 10 ''+86'' ''new'' example_account_db = (Inr toks, d')
    \<and> (\<exists>u. user_of_phone example_auth ''+86'' d' = Some u)"
proof -
  obtain toks d' where run: "log_in example_auth default_settings 10 ''+86'' ''new'' example_account_db = (Inr toks, d')"
    by (simp add: log_in_def find_or_create_user_def user_of_phone_def example_user_def comp_simps issue_tokens_def
        session_of_token_def example_session_def add_refresh_session_def transaction_def)
  have "app_env_ok (au_app example_auth)" by (simp add: example_app_env_ok)
  from access_token_identifies_the_user [OF example_jwt_ok this example_unique(4) run] run show ?thesis by blast
qed

lemma deletion_freezes_the_account_witness:
  "\<exists>d'. request_account_deletion 10 1 example_account_db = (Inr (10 + days 30), d') \<and> db_refresh_sessions d' = []"
proof -
  obtain due d' where run: "request_account_deletion 10 1 example_account_db = (Inr due, d')"
    by (simp add: request_account_deletion_def user_by_id_def example_user_def comp_simps deletion_of_def
        set_user_status_def revoke_all_sessions_def)
  have "\<forall>a\<in>set (db_account_deletions example_account_db). ad_purged_at a = None" by simp
  from deletion_freezes_the_account [OF example_unique(4,2,1) this run] run show ?thesis
    by (auto simp: request_account_deletion_def user_by_id_def example_user_def comp_simps deletion_of_def
        set_user_status_def revoke_all_sessions_def example_session_def)
qed

definition example_frozen_db :: db where
  "example_frozen_db = snd (request_account_deletion 10 1 example_account_db)"

lemma example_frozen_tables:
  "db_users example_frozen_db = [example_user\<lparr>usr_status := User_DELETION_PENDING\<rparr>]"
  "db_account_deletions example_frozen_db = [new_deletion 10 1 1]" "db_students example_frozen_db = []"
  "unique_ids example_frozen_db"
  by (simp_all add: example_frozen_db_def request_account_deletion_def user_by_id_def example_user_def comp_simps
      deletion_of_def set_user_status_def revoke_all_sessions_def update_rows_def unique_ids_def fresh_id_def)

lemma example_purge_batch: "purge_batch (10 + days 30) 100 example_frozen_db = [new_deletion 10 1 1]"
  by (simp add: purge_batch_def due_deletions_def example_frozen_tables new_deletion_def)

lemma forget_user_references:
  "db_review_decisions d = [] \<Longrightarrow> db_feedback d = [] \<Longrightarrow> db_question_attempts d = [] \<Longrightarrow>
    db_mock_exam_attempts d = [] \<Longrightarrow> db_tool_invocations d = [] \<Longrightarrow> references_kept (forget_user u d)"
  by (simp add: delete_defs references_kept_def without_def)

lemma example_references: "references_kept (forget_user u example_frozen_db)"
  by (rule forget_user_references)
    (simp_all add: example_frozen_db_def request_account_deletion_def user_by_id_def example_user_def comp_simps
      deletion_of_def set_user_status_def revoke_all_sessions_def, simp_all add: example_account_db_def empty_db_def)


end
