(* ===== verification/Students.thy ===== *)
theory Students
  imports Unlocks
begin

text \<open>
  The profile of a student and the time a student has (\<^verbatim>\<open>app/application/students.py\<close>), the catalog of schools and
  knowledge (\<^verbatim>\<open>app/application/catalog.py\<close>), and the change of the target school
  (\<^verbatim>\<open>app/application/school_change.py\<close>).

  The unique and check constraints of the availability tables make an insert fail with an \<open>IntegrityError\<close>. The order
  of a Python set of identifiers is arbitrary: the model lists them in the order of the syllabus table.
\<close>

subsection \<open>Profile\<close>

record student_profile_data =
  spd_id :: uuid
  spd_target_school_id :: "uuid option"
  spd_exam_subject :: string
  spd_exam_date :: "date option"
  spd_current_stage :: student_stage
  spd_version :: int

definition profile_data :: "student_row \<Rightarrow> student_profile_data" where
  "profile_data s = \<lparr>spd_id = stu_id s, spd_target_school_id = stu_target_school_id s,
     spd_exam_subject = stu_exam_subject s, spd_exam_date = stu_exam_date s,
     spd_current_stage = stu_current_stage s, spd_version = stu_version s\<rparr>"

definition get_profile :: "uuid \<Rightarrow> student_profile_data db_comp" where
  "get_profile user = andthen (need_student user) (\<lambda>s. ret (profile_data s))"

definition school_by_id :: "uuid \<Rightarrow> db \<Rightarrow> school_profile_row option" where
  "school_by_id i d = find (\<lambda>s. sp_id s = i) (db_school_profiles d)"

definition active_school :: "uuid \<Rightarrow> exn \<Rightarrow> school_profile_row db_comp" where
  "active_school i e =
    andthen (gets (school_by_id i)) (\<lambda>found.
    andthen (found_or found e) (\<lambda>s.
    andthen (require (sp_status s = ''ACTIVE'') e) (\<lambda>_. ret s)))"

definition new_student :: "time \<Rightarrow> uuid \<Rightarrow> uuid \<Rightarrow> uuid \<Rightarrow> date \<Rightarrow> student_row" where
  "new_student now i user school exam_date = \<lparr>stu_id = i, stu_user_id = user, stu_target_school_id = Some school,
     stu_exam_subject = utf8 [232, 135, 170, 229, 138, 168, 230, 142, 167, 229, 136, 182, 229, 142, 159, 231, 144, 134],
     stu_exam_date = Some exam_date, stu_current_stage = Stage_FOUNDATION, stu_version = 1, stu_created_at = now\<rparr>"

definition updated_student :: "uuid \<Rightarrow> date \<Rightarrow> student_row \<Rightarrow> student_row" where
  "updated_student school exam_date s = s\<lparr>stu_target_school_id := Some school, stu_exam_date := Some exam_date,
     stu_version := stu_version s + 1\<rparr>"

definition upsert_profile :: "time \<Rightarrow> uuid \<Rightarrow> uuid \<Rightarrow> date \<Rightarrow> int option \<Rightarrow> student_profile_data db_comp" where
  "upsert_profile now user school exam_date expected_version = transaction
    (andthen (active_school school (AppErr 422 ''SCHOOL_UNAVAILABLE'')) (\<lambda>_.
     andthen (gets (student_of_user user)) (\<lambda>found. case found of
         None \<Rightarrow>
           andthen (gets (\<lambda>d. new_student now (fresh_id (map stu_id (db_students d))) user school exam_date)) (\<lambda>s.
           andthen (modify (\<lambda>d. d\<lparr>db_students := db_students d @ [s]\<rparr>)) (\<lambda>_. ret (profile_data s)))
       | Some s \<Rightarrow>
           if expected_version = None \<or> expected_version \<noteq> Some (stu_version s)
           then app_error 409 ''VERSION_CONFLICT''
           else
             andthen (modify (\<lambda>d. d\<lparr>db_students := update_rows (\<lambda>x. stu_id x = stu_id s)
               (updated_student school exam_date) (db_students d)\<rparr>)) (\<lambda>_.
             ret (profile_data (updated_student school exam_date s))))))"

subsection \<open>Availability\<close>

definition minutes_ok :: "int \<Rightarrow> bool" where
  "minutes_ok m \<longleftrightarrow> 0 \<le> m \<and> m \<le> 1440"

definition availability_rows :: "time \<Rightarrow> uuid \<Rightarrow> uuid \<Rightarrow> (date \<times> int) list \<Rightarrow> student_availability_row list" where
  "availability_rows now first student xs = map (\<lambda>(k, day, minutes). \<lparr>sa_id = first + k, sa_student_id = student,
     sa_available_date = day, sa_available_minutes = minutes, sa_created_at = now\<rparr>) (List.enumerate 0 xs)"

definition replace_availability :: "time \<Rightarrow> uuid \<Rightarrow> (date \<times> int) list \<Rightarrow> student_availability_row list db_comp" where
  "replace_availability now user xs = transaction
    (andthen (need_student user) (\<lambda>s.
     andthen (require (distinct (map fst xs)) (AppErr 422 ''DUPLICATE_AVAILABILITY_DATE'')) (\<lambda>_.
     andthen (gets (\<lambda>d. availability_rows now (fresh_id (map sa_id (db_student_availability d))) (stu_id s) xs)) (\<lambda>rows.
     andthen (require (list_all (minutes_ok \<circ> snd) xs) (PyExc ''IntegrityError'')) (\<lambda>_.
     andthen (modify (\<lambda>d. d\<lparr>db_student_availability :=
       filter (\<lambda>r. sa_student_id r \<noteq> stu_id s) (db_student_availability d) @ rows\<rparr>)) (\<lambda>_. ret rows))))))"

definition template_rows :: "time \<Rightarrow> uuid \<Rightarrow> uuid \<Rightarrow> (int \<times> int) list \<Rightarrow> student_availability_template_row list" where
  "template_rows now first student xs = map (\<lambda>(k, day, minutes). \<lparr>sat_id = first + k, sat_student_id = student,
     sat_weekday = day, sat_available_minutes = minutes, sat_created_at = now\<rparr>) (List.enumerate 0 xs)"

definition replace_availability_template :: "time \<Rightarrow> uuid \<Rightarrow> (int \<times> int) list
    \<Rightarrow> student_availability_template_row list db_comp" where
  "replace_availability_template now user xs = transaction
    (andthen (need_student user) (\<lambda>s.
     andthen (require (set (map fst xs) = {0, 1, 2, 3, 4, 5, 6}) (AppErr 422 ''INVALID_WEEKDAY_TEMPLATE'')) (\<lambda>_.
     andthen (gets (\<lambda>d. template_rows now (fresh_id (map sat_id (db_student_availability_templates d))) (stu_id s) xs)) (\<lambda>rows.
     andthen (require (distinct (map fst xs) \<and> list_all (minutes_ok \<circ> snd) xs) (PyExc ''IntegrityError'')) (\<lambda>_.
     andthen (modify (\<lambda>d. d\<lparr>db_student_availability_templates :=
       filter (\<lambda>r. sat_student_id r \<noteq> stu_id s) (db_student_availability_templates d) @ rows\<rparr>)) (\<lambda>_. ret rows))))))"

subsection \<open>Catalog\<close>

definition list_schools :: "db \<Rightarrow> school_profile_row list" where
  "list_schools d = sort_key sp_code (filter (\<lambda>s. sp_status s = ''ACTIVE'') (db_school_profiles d))"

definition knowledge_tree :: "uuid \<Rightarrow> knowledge_node_row list db_comp" where
  "knowledge_tree school =
    andthen (gets (school_by_id school)) (\<lambda>found.
    andthen (found_or found (AppErr 404 ''SCHOOL_NOT_FOUND'')) (\<lambda>_.
      gets (\<lambda>d. sort_key kn_level (sort_key kn_code (db_knowledge_nodes d)))))"

subsection \<open>Change of the target school\<close>

definition syllabus_ids :: "uuid option \<Rightarrow> db \<Rightarrow> uuid list" where
  "syllabus_ids school d = (case school of
     None \<Rightarrow> []
   | Some i \<Rightarrow> fromkeys (map sks_knowledge_id (filter (\<lambda>k. sks_school_profile_id k = i) (db_school_knowledge_stats d))))"

definition change_preview :: "app_env \<Rightarrow> uuid list \<Rightarrow> uuid list \<Rightarrow> jobj" where
  "change_preview env old new =
    (let shared = filter (\<lambda>i. i \<in> set new) old; added = filter (\<lambda>i. i \<notin> set old) new;
         removed = filter (\<lambda>i. i \<notin> set new) old in
     [(''shared_knowledge_count'', JInt (int (length shared))), (''new_knowledge_count'', JInt (int (length added))),
      (''removed_knowledge_count'', JInt (int (length removed))),
      (''shared_knowledge_ids'', JList (map (JStr \<circ> ae_uuid_str env) shared)),
      (''new_knowledge_ids'', JList (map (JStr \<circ> ae_uuid_str env) added))])"

definition new_preview :: "app_env \<Rightarrow> time \<Rightarrow> uuid \<Rightarrow> student_row \<Rightarrow> uuid \<Rightarrow> db \<Rightarrow> target_school_change_preview_row" where
  "new_preview env now i s school d = \<lparr>tcp_id = i, tcp_student_id = stu_id s, tcp_from_school_id = stu_target_school_id s,
     tcp_to_school_id = school, tcp_status = Change_PREVIEW,
     tcp_preview = change_preview env (syllabus_ids (stu_target_school_id s) d) (syllabus_ids (Some school) d),
     tcp_expires_at = now + 24 * 3600, tcp_applied_at = None, tcp_version = 1, tcp_created_at = now\<rparr>"

definition preview_change :: "app_env \<Rightarrow> time \<Rightarrow> uuid \<Rightarrow> uuid \<Rightarrow> target_school_change_preview_row db_comp" where
  "preview_change env now user school = transaction
    (andthen (need_student user) (\<lambda>s.
     andthen (active_school school (AppErr 404 ''SCHOOL_NOT_FOUND'')) (\<lambda>target.
     andthen (gets (\<lambda>d. new_preview env now (fresh_id (map tcp_id (db_target_school_change_previews d))) s (sp_id target) d)) (\<lambda>p.
     andthen (modify (\<lambda>d. d\<lparr>db_target_school_change_previews := db_target_school_change_previews d @ [p]\<rparr>)) (\<lambda>_. ret p)))))"

text \<open>The active plan, the tasks that the new syllabus does not cover, and their supersession.\<close>

definition active_plan_of :: "uuid \<Rightarrow> db \<Rightarrow> weekly_plan_row option" where
  "active_plan_of student d = find (\<lambda>p. wp_student_id p = student \<and> wp_status p = Plan_ACTIVE) (db_weekly_plans d)"

definition outside_syllabus :: "uuid list \<Rightarrow> plan_task_row \<Rightarrow> db \<Rightarrow> bool" where
  "outside_syllabus ids t d \<longleftrightarrow>
     list_ex (\<lambda>k. ptk_task_id k = pt_id t \<and> ptk_knowledge_id k \<notin> set ids) (db_plan_task_knowledge d)"

definition dropped_task :: "uuid list \<Rightarrow> weekly_plan_row \<Rightarrow> db \<Rightarrow> plan_task_row \<Rightarrow> bool" where
  "dropped_task ids p d t \<longleftrightarrow> pt_plan_id t = wp_id p \<and> pt_status t = Task_PENDING \<and> \<not> pt_is_personal t
     \<and> pt_origin t = Origin_SYSTEM \<and> outside_syllabus ids t d"

definition drop_tasks :: "uuid \<Rightarrow> uuid \<Rightarrow> unit db_comp" where
  "drop_tasks student school =
    andthen (gets (active_plan_of student)) (\<lambda>plan. case plan of
        None \<Rightarrow> ret ()
      | Some p \<Rightarrow> modify (\<lambda>d. d\<lparr>db_plan_tasks := update_rows (dropped_task (syllabus_ids (Some school) d) p d)
          (\<lambda>t. t\<lparr>pt_status := Task_SUPERSEDED\<rparr>) (db_plan_tasks d)\<rparr>))"

definition find_preview :: "uuid \<Rightarrow> uuid \<Rightarrow> db \<Rightarrow> target_school_change_preview_row option" where
  "find_preview student i d =
     find (\<lambda>p. tcp_id p = i \<and> tcp_student_id p = student) (db_target_school_change_previews d)"

definition set_preview :: "uuid \<Rightarrow> (target_school_change_preview_row \<Rightarrow> target_school_change_preview_row) \<Rightarrow> unit db_comp" where
  "set_preview i f = modify (\<lambda>d. d\<lparr>db_target_school_change_previews :=
     update_rows (\<lambda>p. tcp_id p = i) f (db_target_school_change_previews d)\<rparr>)"

definition applied_preview :: "time \<Rightarrow> target_school_change_preview_row \<Rightarrow> target_school_change_preview_row" where
  "applied_preview now p = p\<lparr>tcp_status := Change_APPLIED, tcp_applied_at := Some now, tcp_version := tcp_version p + 1\<rparr>"

definition apply_school_change :: "time \<Rightarrow> uuid \<Rightarrow> uuid \<Rightarrow> target_school_change_preview_row db_comp" where
  "apply_school_change now user i =
    andthen (need_student user) (\<lambda>s.
    andthen (gets (find_preview (stu_id s) i)) (\<lambda>found.
    andthen (found_or found (AppErr 404 ''SCHOOL_CHANGE_PREVIEW_NOT_FOUND'')) (\<lambda>p.
      if tcp_status p \<noteq> Change_PREVIEW then ret p
      else if tcp_expires_at p \<le> now then
        andthen (set_preview i (\<lambda>p. p\<lparr>tcp_status := Change_EXPIRED\<rparr>)) (\<lambda>_.
          app_error 409 ''SCHOOL_CHANGE_PREVIEW_EXPIRED'')
      else
        andthen (modify (\<lambda>d. d\<lparr>db_students := update_rows (\<lambda>x. stu_id x = stu_id s)
          (\<lambda>x. x\<lparr>stu_target_school_id := Some (tcp_to_school_id p)\<rparr>) (db_students d)\<rparr>)) (\<lambda>_.
        andthen (drop_tasks (stu_id s) (tcp_to_school_id p)) (\<lambda>_.
        andthen (set_preview i (applied_preview now)) (\<lambda>_. ret (applied_preview now p)))))))"

end
