(* ===== verification/Student_Properties.thy ===== *)
theory Student_Properties
  imports Students Job_Properties
begin

text \<open>
  What holds of the profile of a student, of the week template, and of the change of the target school.
\<close>

definition unique_students :: "db \<Rightarrow> bool" where
  "unique_students d \<longleftrightarrow> distinct (map stu_id (db_students d)) \<and> distinct (map stu_user_id (db_students d))"

lemma need_student_apply: "need_student u d = (case student_of_user u d of
    None \<Rightarrow> (Inl (AppErr 404 ''STUDENT_PROFILE_NOT_FOUND''), d) | Some s \<Rightarrow> (Inr s, d))"
  by (simp add: need_student_def comp_simps split: option.split)

lemma student_of_userD: "student_of_user u d = Some s \<Longrightarrow> s \<in> set (db_students d) \<and> stu_user_id s = u"
  by (auto simp: student_of_user_def dest: find_SomeD)

lemma active_school_InrD:
  "active_school i e d = (Inr s, d') \<Longrightarrow> d' = d \<and> school_by_id i d = Some s \<and> sp_status s = ''ACTIVE''"
  by (auto simp: active_school_def comp_simps found_or_def split: option.splits if_splits)

subsection \<open>Profile\<close>

lemma upsert_profile_InrD:
  assumes "upsert_profile now user school day v d = (Inr r, d')"
  shows "\<exists>sp. school_by_id school d = Some sp \<and> sp_status sp = ''ACTIVE'' \<and>
    (case student_of_user user d of
       None \<Rightarrow> (\<exists>i. i = fresh_id (map stu_id (db_students d)) \<and> r = profile_data (new_student now i user school day)
         \<and> d' = d\<lparr>db_students := db_students d @ [new_student now i user school day]\<rparr>)
     | Some s \<Rightarrow> v = Some (stu_version s) \<and> r = profile_data (updated_student school day s)
         \<and> d' = d\<lparr>db_students := update_rows (\<lambda>x. stu_id x = stu_id s) (updated_student school day) (db_students d)\<rparr>)"
  using assms
  by (auto simp: upsert_profile_def comp_simps app_error_def dest!: transaction_InrD active_school_InrD
      split: prod.splits sum.splits option.splits if_splits)

text \<open>A profile is saved for an active school only, and each version of it is replaced once: a successful update
  names the version it replaces and raises it by one, changes no other student, and a second update that names
  the same version is refused with \<open>VERSION_CONFLICT\<close> and changes nothing; what was saved is what is read.\<close>

theorem profile_updates_are_versioned:
  assumes "unique_students d" and "upsert_profile now user school day v d = (Inr r, d')"
  shows "(\<exists>sp. school_by_id school d = Some sp \<and> sp_status sp = ''ACTIVE'')
    \<and> get_profile user d' = (Inr r, d') \<and> spd_target_school_id r = Some school \<and> spd_exam_date r = Some day
    \<and> (case student_of_user user d of None \<Rightarrow> spd_version r = 1
       | Some s \<Rightarrow> v = Some (stu_version s) \<and> spd_version r = stu_version s + 1 \<and> spd_id r = stu_id s)
    \<and> filter (\<lambda>s. stu_user_id s \<noteq> user) (db_students d') = filter (\<lambda>s. stu_user_id s \<noteq> user) (db_students d)
    \<and> unique_students d'
    \<and> (\<forall>later other day' w. w \<noteq> Some (spd_version r) \<longrightarrow>
        (\<exists>e. upsert_profile later user other day' w d' = (Inl e, d')
          \<and> (e = AppErr 422 ''SCHOOL_UNAVAILABLE'' \<or> e = AppErr 409 ''VERSION_CONFLICT'')))"
proof -
  from upsert_profile_InrD [OF assms(2)] obtain sp where sp: "school_by_id school d = Some sp" "sp_status sp = ''ACTIVE''"
    by blast
  obtain s' where s': "student_of_user user d' = Some s'" and r: "r = profile_data s'"
    and new: "stu_target_school_id s' = Some school" "stu_exam_date s' = Some day"
    and ver: "case student_of_user user d of None \<Rightarrow> stu_version s' = 1
       | Some s \<Rightarrow> v = Some (stu_version s) \<and> stu_version s' = stu_version s + 1 \<and> stu_id s' = stu_id s"
    and others: "filter (\<lambda>s. stu_user_id s \<noteq> user) (db_students d') = filter (\<lambda>s. stu_user_id s \<noteq> user) (db_students d)"
    and uniq: "unique_students d'"
  proof (cases "student_of_user user d")
    case None
    let ?s = "new_student now (fresh_id (map stu_id (db_students d))) user school day"
    have d': "d' = d\<lparr>db_students := db_students d @ [?s]\<rparr>" "r = profile_data ?s"
      using upsert_profile_InrD [OF assms(2)] None by auto
    have none: "find (\<lambda>s. stu_user_id s = user) (db_students d) = None" using None by (simp add: student_of_user_def)
    then have "user \<notin> stu_user_id ` set (db_students d)" by (auto simp: find_None_iff)
    with none assms(1) None show thesis
      by (intro that [of ?s]) (simp_all add: d' student_of_user_def find_append new_student_def unique_students_def)
  next
    case (Some s)
    let ?f = "updated_student school day"
    have d': "d' = d\<lparr>db_students := update_rows (\<lambda>x. stu_id x = stu_id s) ?f (db_students d)\<rparr>" "r = profile_data (?f s)"
      and v: "v = Some (stu_version s)"
      using upsert_profile_InrD [OF assms(2)] Some by auto
    have same: "stu_user_id x = user" if "x \<in> set (db_students d)" "stu_id x = stu_id s" for x
      using student_of_userD [OF Some] assms(1) that by (metis unique_students_def distinct_map inj_onD)
    have "filter (\<lambda>s. stu_user_id s \<noteq> user) (db_students d') = filter (\<lambda>s. stu_user_id s \<noteq> user) (db_students d)"
    proof -
      have "filter (\<lambda>s. stu_user_id s \<noteq> user) (update_rows (\<lambda>x. stu_id x = stu_id s) ?f rows)
          = filter (\<lambda>s. stu_user_id s \<noteq> user) rows" if "set rows \<subseteq> set (db_students d)" for rows
        using that same by (induction rows) (auto simp: update_rows_def updated_student_def)
      then show ?thesis by (simp add: d')
    qed
    with Some assms(1) v show thesis
      by (intro that [of "?f s"])
        (simp_all add: d' student_of_user_def find_update_rows updated_student_def unique_students_def map_update_rows)
  qed
  have again: "\<exists>e. upsert_profile later user other day' w d' = (Inl e, d')
      \<and> (e = AppErr 422 ''SCHOOL_UNAVAILABLE'' \<or> e = AppErr 409 ''VERSION_CONFLICT'')"
    if "w \<noteq> Some (spd_version r)" for later other day' w
  proof -
    have w: "w \<noteq> Some (stu_version s')" using that by (simp add: r profile_data_def)
    show ?thesis
    proof (cases "\<exists>sp. school_by_id other d' = Some sp \<and> sp_status sp = ''ACTIVE''")
      case True
      with w s' show ?thesis by (auto simp: upsert_profile_def transaction_def comp_simps active_school_def)
    next
      case False
      then show ?thesis
        by (cases "school_by_id other d'") (auto simp: upsert_profile_def transaction_def comp_simps active_school_def)
    qed
  qed
  have "get_profile user d' = (Inr r, d')" using s' by (simp add: get_profile_def need_student_apply comp_simps r)
  then show ?thesis
    using sp new ver others uniq again by (auto simp: r profile_data_def split: option.splits)
qed

definition example_school :: school_profile_row where
  "example_school = \<lparr>sp_id = 7, sp_code = ''S'', sp_school_name = ''N'', sp_major = ''M'', sp_subject_code = ''801'',
     sp_subject_name = ''A'', sp_syllabus_version = ''1'', sp_source_version = ''1'', sp_status = ''ACTIVE'', sp_created_at = 0\<rparr>"

definition example_catalog_db :: db where
  "example_catalog_db = empty_db\<lparr>db_school_profiles := [example_school],
     db_students := [new_student 0 1 1 7 100]\<rparr>"

lemma example_catalog_tables [simp]:
  "db_school_profiles example_catalog_db = [example_school]" "db_students example_catalog_db = [new_student 0 1 1 7 100]"
  "db_weekly_plans example_catalog_db = []" "db_plan_tasks example_catalog_db = []"
  "db_school_knowledge_stats example_catalog_db = []" "db_target_school_change_previews example_catalog_db = []"
  "db_student_availability_templates example_catalog_db = []" "db_student_availability example_catalog_db = []"
  by (simp_all add: example_catalog_db_def empty_db_def)

lemma example_students_unique: "unique_students example_catalog_db"
  by (simp add: unique_students_def)

lemma profile_updates_are_versioned_witness:
  "\<exists>r d'. upsert_profile 5 1 7 200 (Some 1) example_catalog_db = (Inr r, d') \<and> spd_version r = 2
    \<and> fst (upsert_profile 6 1 7 300 (Some 1) d') \<noteq> Inr r"
proof -
  obtain r d' where run: "upsert_profile 5 1 7 200 (Some 1) example_catalog_db = (Inr r, d')"
    by (simp add: upsert_profile_def transaction_def comp_simps active_school_def school_by_id_def example_school_def
        student_of_user_def new_student_def)
  have s: "student_of_user 1 example_catalog_db = Some (new_student 0 1 1 7 100)"
    by (simp add: student_of_user_def new_student_def)
  note profile_updates_are_versioned [OF example_students_unique run]
  then have v: "spd_version r = 2" and again: "w \<noteq> Some (spd_version r) \<Longrightarrow> \<exists>e. upsert_profile later 1 other day' w d' = (Inl e, d')"
    for later other day' w
    using s by (auto simp: new_student_def) blast
  from again [of "Some 1" 6 7 300] v run show ?thesis by auto
qed

subsection \<open>Week template\<close>

lemma template_rows_simps:
  "map sat_weekday (template_rows now i student xs) = map fst xs"
  "map sat_available_minutes (template_rows now i student xs) = map snd xs"
  "r \<in> set (template_rows now i student xs) \<Longrightarrow> sat_student_id r = student"
proof -
  define row where "row = (\<lambda>(k, day, minutes). \<lparr>sat_id = i + k, sat_student_id = student, sat_weekday = day,
      sat_available_minutes = minutes, sat_created_at = now\<rparr>)"
  have "map sat_weekday (map row (List.enumerate n xs)) = map fst xs"
    and "map sat_available_minutes (map row (List.enumerate n xs)) = map snd xs" for n
    by (induction xs arbitrary: n) (auto simp: row_def)
  then show "map sat_weekday (template_rows now i student xs) = map fst xs"
    "map sat_available_minutes (template_rows now i student xs) = map snd xs"
    unfolding template_rows_def row_def by blast+
  show "sat_student_id r = student" if "r \<in> set (template_rows now i student xs)"
    using that by (auto simp: template_rows_def)
qed

text \<open>A week template that the request schema lets through (seven entries, weekdays from 0 to 6, minutes from 0 to 1440)
  never breaks a constraint of its table: it either names each weekday once, and then replaces the template of the
  student, in the given order, and no other, or it is refused with \<open>INVALID_WEEKDAY_TEMPLATE\<close> without a change.\<close>

theorem week_template_is_complete:
  assumes "student_of_user user d = Some s" and "length xs = 7"
    and "\<forall>(w, m)\<in>set xs. 0 \<le> w \<and> w \<le> 6 \<and> 0 \<le> m \<and> m \<le> 1440"
  shows "case replace_availability_template now user xs d of
      (Inr rows, d') \<Rightarrow> map sat_weekday rows = map fst xs \<and> map sat_available_minutes rows = map snd xs
        \<and> (\<forall>w\<in>{0..6}. \<exists>!m. (w, m) \<in> set xs)
        \<and> filter (\<lambda>r. sat_student_id r = stu_id s) (db_student_availability_templates d') = rows
        \<and> filter (\<lambda>r. sat_student_id r \<noteq> stu_id s) (db_student_availability_templates d')
          = filter (\<lambda>r. sat_student_id r \<noteq> stu_id s) (db_student_availability_templates d)
    | (Inl e, d') \<Rightarrow> e = AppErr 422 ''INVALID_WEEKDAY_TEMPLATE'' \<and> d' = d \<and> (\<exists>w\<in>{0..6}. w \<notin> set (map fst xs))"
proof (cases "set (map fst xs) = {0, 1, 2, 3, 4, 5, 6}")
  case False
  have sub: "set (map fst xs) \<subseteq> {0..6}" using assms(3) by auto
  have "{0, 1, 2, 3, 4, 5, 6} = {0..6::int}" by auto
  with False sub have "\<exists>w\<in>{0..6}. w \<notin> set (map fst xs)" by auto
  with False assms(1) show ?thesis
    by (simp add: replace_availability_template_def transaction_def comp_simps need_student_apply)
next
  case True
  have "card (set (map fst xs)) = length (map fst xs)" using True assms(2) by simp
  then have dist: "distinct (map fst xs)" by (rule card_distinct)
  have minutes: "list_all (minutes_ok \<circ> snd) xs" using assms(3) by (auto simp: list_all_iff minutes_ok_def)
  have once: "\<forall>w\<in>{0..6}. \<exists>!m. (w, m) \<in> set xs"
  proof
    fix w :: int
    assume "w \<in> {0..6}"
    then have "w \<in> set (map fst xs)" unfolding True by auto
    then obtain m where m: "(w, m) \<in> set xs" by auto
    moreover have "m' = m" if "(w, m') \<in> set xs" for m' using eq_key_imp_eq_value [OF dist that m] .
    ultimately show "\<exists>!m. (w, m) \<in> set xs" by blast
  qed
  let ?i = "fresh_id (map sat_id (db_student_availability_templates d))"
  have "replace_availability_template now user xs d = (Inr (template_rows now ?i (stu_id s) xs),
      d\<lparr>db_student_availability_templates := filter (\<lambda>r. sat_student_id r \<noteq> stu_id s) (db_student_availability_templates d)
        @ template_rows now ?i (stu_id s) xs\<rparr>)"
    using True dist minutes assms(1)
    by (simp add: replace_availability_template_def transaction_def comp_simps need_student_apply)
  moreover have "filter (\<lambda>r. sat_student_id r = stu_id s) (template_rows now ?i (stu_id s) xs) = template_rows now ?i (stu_id s) xs"
    "filter (\<lambda>r. sat_student_id r \<noteq> stu_id s) (template_rows now ?i (stu_id s) xs) = []"
    using template_rows_simps(3) by (auto simp: filter_id_conv filter_empty_conv)
  ultimately show ?thesis using once by (simp add: template_rows_simps(1,2))
qed

lemma week_template_is_complete_witness:
  "\<exists>rows d'. replace_availability_template 5 1 [(0, 60), (1, 60), (2, 60), (3, 60), (4, 60), (5, 0), (6, 120)] example_catalog_db
      = (Inr rows, d') \<and> length (db_student_availability_templates d') = 7"
proof -
  let ?xs = "[(0, 60), (1, 60), (2, 60), (3, 60), (4, 60), (5, 0), (6, 120)] :: (int \<times> int) list"
  have s: "student_of_user 1 example_catalog_db = Some (new_student 0 1 1 7 100)"
    by (simp add: student_of_user_def new_student_def)
  obtain r d' where run: "replace_availability_template 5 1 ?xs example_catalog_db = (r, d')"
    by (cases "replace_availability_template 5 1 ?xs example_catalog_db")
  from week_template_is_complete [OF s, of ?xs 5] run
  have "case r of Inr rows \<Rightarrow> map sat_weekday rows = map fst ?xs
      \<and> filter (\<lambda>r. sat_student_id r = 1) (db_student_availability_templates d') = rows
      \<and> filter (\<lambda>r. sat_student_id r \<noteq> 1) (db_student_availability_templates d') = []
    | Inl e \<Rightarrow> \<exists>w\<in>{0..6}. w \<notin> set (map fst ?xs)"
    by (auto simp: new_student_def split: sum.splits)
  moreover have "\<not> (\<exists>w\<in>{0..6}. w \<notin> set (map fst ?xs))"
    by (auto simp: numeral_eq_Suc)
  ultimately obtain rows where rows: "r = Inr rows" "map sat_weekday rows = map fst ?xs"
      "filter (\<lambda>r. sat_student_id r = 1) (db_student_availability_templates d') = rows"
      "filter (\<lambda>r. sat_student_id r \<noteq> 1) (db_student_availability_templates d') = []"
    by (cases r) auto
  have "length rows = 7" using arg_cong [where f = length, OF rows(2)] by simp
  moreover have "db_student_availability_templates d' = rows"
    using rows(3,4) by (metis (mono_tags, lifting) filter_True filter_empty_conv)
  ultimately show ?thesis using run rows(1) by blast
qed

subsection \<open>Change of the target school\<close>

text \<open>The tasks after a change: those of the active plan that the student has not begun, that the system made and
  that have a knowledge point outside the new syllabus are superseded.\<close>

definition tasks_after_change :: "uuid \<Rightarrow> uuid \<Rightarrow> db \<Rightarrow> plan_task_row list" where
  "tasks_after_change student school d = map (\<lambda>t.
     if (\<exists>p. active_plan_of student d = Some p \<and> pt_plan_id t = wp_id p) \<and> pt_status t = Task_PENDING
       \<and> \<not> pt_is_personal t \<and> pt_origin t = Origin_SYSTEM
       \<and> (\<exists>k\<in>set (db_plan_task_knowledge d). ptk_task_id k = pt_id t
         \<and> \<not> (\<exists>x\<in>set (db_school_knowledge_stats d). sks_school_profile_id x = school \<and> sks_knowledge_id x = ptk_knowledge_id k))
     then t\<lparr>pt_status := Task_SUPERSEDED\<rparr> else t) (db_plan_tasks d)"

lemma set_syllabus_ids: "set (syllabus_ids (Some school) d)
    = {k. \<exists>x\<in>set (db_school_knowledge_stats d). sks_school_profile_id x = school \<and> sks_knowledge_id x = k}"
  by (auto simp: syllabus_ids_def image_iff)

lemma drop_tasks_apply: "drop_tasks student school d = (Inr (), d\<lparr>db_plan_tasks := tasks_after_change student school d\<rparr>)"
proof (cases "active_plan_of student d")
  case None
  then show ?thesis by (simp add: drop_tasks_def comp_simps tasks_after_change_def)
next
  case (Some p)
  have "update_rows (dropped_task (syllabus_ids (Some school) d) p d) (\<lambda>t. t\<lparr>pt_status := Task_SUPERSEDED\<rparr>) (db_plan_tasks d)
      = tasks_after_change student school d"
    unfolding update_rows_def tasks_after_change_def
    by (rule map_cong) (auto simp: Some dropped_task_def outside_syllabus_def list_ex_iff set_syllabus_ids)
  with Some show ?thesis by (simp add: drop_tasks_def comp_simps)
qed


definition example_preview :: target_school_change_preview_row where
  "example_preview = \<lparr>tcp_id = 3, tcp_student_id = 1, tcp_from_school_id = Some 7, tcp_to_school_id = 8,
     tcp_status = Change_PREVIEW, tcp_preview = [], tcp_expires_at = 100, tcp_applied_at = None, tcp_version = 1, tcp_created_at = 0\<rparr>"

definition example_change_db :: db where
  "example_change_db = example_catalog_db\<lparr>db_target_school_change_previews := [example_preview]\<rparr>"


end
