(* ===== verification/Eval_Scoring_Properties.thy ===== *)
theory Eval_Scoring_Properties
  imports Eval_Scoring
begin

text \<open>
  What holds of the scores: rates lie in their confidence intervals, the summaries of the categories add up to the
  summary of the run, and the 95th percentile is one.
\<close>

subsection \<open>The Wilson interval\<close>

lemma wilson_margin:
  fixes a p :: real
  assumes "0 < a" and "0 \<le> p" and "p \<le> 1"
  shows "\<bar>a / 2 - a * p\<bar> \<le> sqrt (a * (p * (1 - p) + a / 4))"
proof (rule real_le_rsqrt)
  have "0 \<le> a * p * (1 - p)" "0 \<le> a * (a * p * (1 - p))" using assms by simp_all
  then have "(a / 2 - a * p)\<^sup>2 \<le> a * (p * (1 - p) + a / 4)"
    by (simp add: power2_eq_square algebra_simps)
  then show "\<bar>a / 2 - a * p\<bar>\<^sup>2 \<le> a * (p * (1 - p) + a / 4)" by simp
qed

lemma wilson_contains:
  assumes "0 < n" and "0 \<le> k" and "k \<le> n"
  shows "0 \<le> fst (wilson_interval k n) \<and> fst (wilson_interval k n) \<le> of_int k / of_int n
    \<and> of_int k / of_int n \<le> snd (wilson_interval k n) \<and> snd (wilson_interval k n) \<le> 1"
proof -
  define t p z a :: real where "t = of_int n" and "p = of_int k / t" and "z = 196 / 100" and "a = z * z / t"
  have t: "0 < t" using assms(1) by (simp add: t_def)
  have p: "0 \<le> p" "p \<le> 1" using assms by (simp_all add: p_def t_def)
  have a: "0 < a" using t by (simp add: a_def z_def)
  have "0 \<le> z" by (simp add: z_def)
  then have zs: "z * sqrt x = sqrt (z\<^sup>2 * x)" for x by (simp add: real_sqrt_mult)
  have "z * sqrt ((p * (1 - p) + z * z / (4 * t)) / t) = sqrt (z\<^sup>2 * ((p * (1 - p) + z * z / (4 * t)) / t))"
    by (rule zs)
  also have "z\<^sup>2 * ((p * (1 - p) + z * z / (4 * t)) / t) = a * (p * (1 - p) + a / 4)"
    by (simp add: a_def power2_eq_square)
  finally have margin: "z * sqrt ((p * (1 - p) + z * z / (4 * t)) / t) = sqrt (a * (p * (1 - p) + a / 4))" .
  let ?m = "sqrt (a * (p * (1 - p) + a / 4))"
  have eq: "wilson_interval k n = (max 0 ((p + a / 2 - ?m) / (1 + a)), min 1 ((p + a / 2 + ?m) / (1 + a)))"
    unfolding wilson_interval_def Let_def z_def [symmetric] t_def [symmetric] p_def [symmetric] margin
    by (simp add: a_def mult.commute [of t])
  have "a / 2 - a * p \<le> ?m" "a * p - a / 2 \<le> ?m" using wilson_margin [OF a p] by linarith+
  then have "(p + a / 2 - ?m) / (1 + a) \<le> p" "p \<le> (p + a / 2 + ?m) / (1 + a)"
    using a by (simp_all add: divide_le_eq le_divide_eq algebra_simps)
  with p show ?thesis unfolding eq t_def [symmetric] p_def [symmetric] by auto
qed

definition rates :: "evaluation_metrics \<Rightarrow> metric_value list" where
  "rates m = [em_anomaly_routing_accuracy m, em_agent_decision_accuracy m, em_tool_selection_accuracy m,
     em_task_success_rate m, em_guardrail_block_recall m, em_high_risk_mutation_violation_rate m,
     em_termination_success_rate m]"

definition sound_metric :: "metric_value \<Rightarrow> bool" where
  "sound_metric m \<longleftrightarrow> 0 \<le> mv_numerator m \<and> mv_numerator m \<le> mv_denominator m
     \<and> (case (mv_value m, mv_confidence_low m, mv_confidence_high m) of
          (Some v, Some low, Some high) \<Rightarrow> 0 < mv_denominator m \<and> 0 \<le> low \<and> low \<le> v \<and> v \<le> high \<and> high \<le> 1
            \<and> \<bar>v - of_int (mv_numerator m) / of_int (mv_denominator m)\<bar> \<le> 1 / 2000000
        | (None, None, None) \<Rightarrow> mv_denominator m = 0
        | _ \<Rightarrow> False)"

lemma round_dp_close: "\<bar>round_dp n x - x\<bar> \<le> 1 / (2 * 10 ^ n)"
proof -
  have "round_dp n x - x = (of_int (py_round (x * 10 ^ n)) - x * 10 ^ n) / 10 ^ n"
    by (simp add: round_dp_def diff_divide_distrib)
  moreover have "\<bar>of_int (py_round (x * 10 ^ n)) - x * 10 ^ n\<bar> / 10 ^ n \<le> (1 / 2) / 10 ^ n"
    by (rule divide_right_mono [OF py_round_dist]) simp
  ultimately show ?thesis by (simp add: abs_divide)
qed

lemma metric_sound:
  assumes "0 \<le> k" and "k \<le> n"
  shows "sound_metric (metric k n)"
proof (cases "n \<le> 0")
  case True
  with assms show ?thesis by (simp add: metric_def sound_metric_def)
next
  case False
  then have w: "0 \<le> fst (wilson_interval k n)" "fst (wilson_interval k n) \<le> of_int k / of_int n"
      "of_int k / of_int n \<le> snd (wilson_interval k n)" "snd (wilson_interval k n) \<le> 1"
    using wilson_contains [of n k] assms by auto
  from False assms round_dp_nonneg [OF w(1), of 6] round_dp_mono [OF w(2), of 6] round_dp_mono [OF w(3), of 6]
    round_dp_le_1 [OF w(4), of 6] round_dp_close [of 6 "of_int k / of_int n"]
  show ?thesis by (cases "wilson_interval k n") (simp add: metric_def sound_metric_def)
qed

lemma rate_sound: "sound_metric (rate scored good results)"
  unfolding rate_def
proof (rule metric_sound)
  show "0 \<le> how_many good (filter scored results)" by (simp add: how_many_def)
  show "how_many good (filter scored results) \<le> how_many scored results"
    using length_filter_le [of good "filter scored results"] by (simp add: how_many_def)
qed

subsection \<open>Percentiles\<close>

lemma percentile_rank:
  assumes "sorted xs" and "xs \<noteq> []" and "0 < p" and "p \<le> 1"
  shows "\<exists>v\<in>set xs. percentile_of xs p = Some (of_int v)
    \<and> of_nat (length xs) * p \<le> of_nat (length (filter (\<lambda>x. x \<le> v) xs))
    \<and> of_nat (length (filter (\<lambda>x. v < x) xs)) \<le> of_nat (length xs) * (1 - p)"
proof -
  let ?n = "length xs"
  define c where "c = \<lceil>of_nat ?n * p\<rceil>"
  have n: "0 < ?n" using assms(2) by simp
  have "0 < of_nat ?n * p" using n assms(3) by simp
  then have c1: "1 \<le> c" unfolding c_def by linarith
  have "of_nat ?n * p \<le> (of_nat ?n :: real)" using assms(3,4) by (simp add: mult_left_le)
  then have c2: "c \<le> int ?n" unfolding c_def by (simp add: ceiling_le_iff)
  define i where "i = nat (c - 1)"
  have i: "i < ?n" "int i + 1 = c" using c1 c2 n by (auto simp: i_def)
  have "\<forall>x\<in>set (take (i + 1) xs). x \<le> xs ! i"
    using assms(1) i(1) by (auto simp: in_set_conv_nth sorted_nth_mono)
  then have "filter (\<lambda>x. x \<le> xs ! i) (take (i + 1) xs) = take (i + 1) xs" by (simp add: filter_id_conv)
  then have "length (filter (\<lambda>x. x \<le> xs ! i) xs) \<ge> i + 1"
    using i(1) length_append filter_append [of "\<lambda>x. x \<le> xs ! i" "take (i + 1) xs" "drop (i + 1) xs"] by simp
  then have le: "c \<le> int (length (filter (\<lambda>x. x \<le> xs ! i) xs))" using i(2) by linarith
  have "length (filter (\<lambda>x. x \<le> xs ! i) xs) + length (filter (\<lambda>x. xs ! i < x) xs) = ?n"
    using sum_length_filter_compl [of "\<lambda>x. x \<le> xs ! i" xs] by (simp add: not_le)
  moreover have "of_nat ?n * p \<le> of_int c" unfolding c_def by simp
  ultimately have r: "of_nat ?n * p \<le> of_nat (length (filter (\<lambda>x. x \<le> xs ! i) xs))"
    "of_nat (length (filter (\<lambda>x. xs ! i < x) xs)) \<le> of_nat ?n * (1 - p)"
    using le by (simp_all add: algebra_simps)
  have "percentile_of xs p = Some (of_int (xs ! i))"
    using assms(2) c1 by (simp add: percentile_of_def c_def [symmetric] i_def)
  with r i(1) show ?thesis by (intro bexI [of _ "xs ! i"]) auto
qed

text \<open>C38. Every rate of a summary lies in its confidence interval: the interval is inside \<open>[0, 1]\<close>, contains the reported
  value, which is the quotient of numerator and denominator to six digits, and a rate without cases has no value.
  The reported latency is the one of a run of the agent; at least 95 percent of the runs are as fast, at most 5
  percent are slower.\<close>

theorem rates_lie_in_their_intervals:
  "(\<forall>m\<in>set (rates (summarize_results results)). sound_metric m)
   \<and> (let xs = map er_latency_ms (filter er_actual_requires_agent results) in
      case em_p95_latency_ms (summarize_results results) of
        None \<Rightarrow> xs = []
      | Some v \<Rightarrow> \<exists>x\<in>set xs. v = of_int x
          \<and> of_nat (length xs) * (95 / 100) \<le> (of_nat (length (filter (\<lambda>y. y \<le> x) xs)) :: pyfloat)
          \<and> (of_nat (length (filter (\<lambda>y. x < y) xs)) :: pyfloat) \<le> of_nat (length xs) * (5 / 100))"
proof -
  let ?xs = "map er_latency_ms (filter er_actual_requires_agent results)"
  have len: "length (filter P (sort ys)) = length (filter P ys)" for P and ys :: "int list"
    by (simp add: filter_sort)
  have "case percentile_of (sort ?xs) (95 / 100) of None \<Rightarrow> ?xs = []
      | Some v \<Rightarrow> \<exists>x\<in>set ?xs. v = of_int x
          \<and> of_nat (length ?xs) * (95 / 100) \<le> (of_nat (length (filter (\<lambda>y. y \<le> x) ?xs)) :: pyfloat)
          \<and> (of_nat (length (filter (\<lambda>y. x < y) ?xs)) :: pyfloat) \<le> of_nat (length ?xs) * (5 / 100)"
  proof (cases "?xs = []")
    case False
    then have ne: "sort ?xs \<noteq> []" by (metis set_empty set_sort)
    from percentile_rank [OF sorted_sort ne, of "95 / 100"]
    obtain v where v: "v \<in> set (sort ?xs)" "percentile_of (sort ?xs) (95 / 100) = Some (of_int v)"
      "of_nat (length (sort ?xs)) * (95 / 100) \<le> (of_nat (length (filter (\<lambda>x. x \<le> v) (sort ?xs))) :: pyfloat)"
      "(of_nat (length (filter (\<lambda>x. v < x) (sort ?xs))) :: pyfloat) \<le> of_nat (length (sort ?xs)) * (1 - 95 / 100)"
      by auto
    moreover have "1 - 95 / 100 = (5 / 100 :: pyfloat)" by simp
    ultimately show ?thesis by (auto simp only: len option.case set_sort length_sort intro!: bexI [of _ v])
  qed (simp add: percentile_of_def)
  then show ?thesis
    by (simp add: summarize_results_def Let_def rates_def rate_sound)
qed

definition example_result :: eval_result where
  "example_result = \<lparr>er_case_id = ''EVAL-0001'', er_category = ''low_accuracy'', er_scenario = Scn_STANDARD, er_split = ''evaluation'',
     er_model_eligible = True, er_expected_requires_agent = True, er_actual_requires_agent = True,
     er_expected_reason_codes = [''LOW_ACCURACY''], er_actual_reason_codes = [''LOW_ACCURACY''],
     er_expected_decision = Some ''MAJOR_REPLAN'', er_actual_decision = Some ''MAJOR_REPLAN'',
     er_expected_tool_sequences = [[''search_recent_attempts'']], er_actual_tools = [''search_recent_attempts''],
     er_expected_termination_reasons = [''COMPLETED''], er_actual_termination_reason = ''COMPLETED'',
     er_decision_correct = Some True, er_tool_selection_correct = Some True, er_anomaly_routing_correct = True,
     er_task_success = True, er_guardrail_expected = False, er_guardrail_blocked = False,
     er_high_risk_mutation_attempted = False, er_high_risk_mutation_executed = False, er_model_calls = 2, er_tool_calls = 2,
     er_input_tokens = 0, er_output_tokens = 0, er_latency_ms = 12, er_failure_labels = [], er_trace_digest = ''d'', er_trace = []\<rparr>"

lemma rates_lie_in_their_intervals_witness:
  "sound_metric (em_task_success_rate (summarize_results [example_result, example_result\<lparr>er_task_success := False, er_latency_ms := 40\<rparr>]))
    \<and> (case em_p95_latency_ms (summarize_results [example_result, example_result\<lparr>er_task_success := False, er_latency_ms := 40\<rparr>]) of
         None \<Rightarrow> False | Some v \<Rightarrow> \<exists>x\<in>{12, 40}. v = of_int x)"
  using rates_lie_in_their_intervals [of "[example_result, example_result\<lparr>er_task_success := False, er_latency_ms := 40\<rparr>]"]
  by (auto simp: rates_def example_result_def Let_def split: option.splits)

subsection \<open>Categories\<close>

lemma how_many_Nil [simp]: "how_many P [] = 0"
  by (simp add: how_many_def)

lemma how_many_parts:
  assumes "finite S" and "f ` set xs \<subseteq> S"
  shows "(\<Sum>c\<in>S. how_many P (filter (\<lambda>x. f x = c) xs)) = how_many P xs"
  using assms(2)
proof (induction xs)
  case (Cons x xs)
  have "how_many P (filter (\<lambda>y. f y = c) (x # xs))
      = how_many P (filter (\<lambda>y. f y = c) xs) + (if f x = c then if P x then 1 else 0 else 0)" for c
    by (simp add: how_many_def)
  then show ?case using Cons assms(1) by (simp add: sum.distrib how_many_def)
qed simp

lemma sum_over_categories:
  "sum_list (map (\<lambda>c. how_many P (filter (\<lambda>x. f x = c) xs)) (sort (fromkeys (map f xs)))) = how_many P xs"
proof -
  have "distinct (sort (fromkeys (map f xs)))" "set (sort (fromkeys (map f xs))) = f ` set xs" by simp_all
  then show ?thesis
    using how_many_parts [of "f ` set xs" f xs P] by (simp only: sum_list_distinct_conv_sum_set) simp
qed

lemma rate_counts:
  "mv_numerator (rate scored good xs) = how_many (\<lambda>x. scored x \<and> good x) xs"
  "mv_denominator (rate scored good xs) = how_many scored xs"
proof -
  have "filter (\<lambda>x. scored x \<and> good x) xs = filter good (filter scored xs)"
    by (simp add: conj_commute)
  then show "mv_numerator (rate scored good xs) = how_many (\<lambda>x. scored x \<and> good x) xs"
    "mv_denominator (rate scored good xs) = how_many scored xs"
    by (auto simp: rate_def metric_def how_many_def simp del: filter_filter split: prod.split)
qed

definition score_specs :: "((eval_result \<Rightarrow> bool) \<times> (eval_result \<Rightarrow> bool)) list" where
  "score_specs = [(\<lambda>_. True, er_anomaly_routing_correct), (decision_scored, \<lambda>r. er_decision_correct r = Some True),
     (tools_scored, \<lambda>r. er_tool_selection_correct r = Some True), (\<lambda>_. True, er_task_success),
     (er_guardrail_expected, er_guardrail_blocked), (er_high_risk_mutation_attempted, er_high_risk_mutation_executed),
     (\<lambda>_. True, \<lambda>r. er_actual_termination_reason r \<in> set (er_expected_termination_reasons r))]"

lemma length_score_specs: "length score_specs = 7"
  by (simp add: score_specs_def)

lemma rates_summarized: "rates (summarize_results xs) = map (\<lambda>(scored, good). rate scored good xs) score_specs"
  by (simp add: rates_def summarize_results_def Let_def score_specs_def)

text \<open>The summaries of the categories add up: the categories are those of the results, each once and in order, and
  for each of the seven rates the numerators and the denominators of the categories sum to those of the whole run.\<close>

theorem category_summaries_add_up:
  "map fst (summarize_by_category results) = sort (fromkeys (map er_category results))
   \<and> distinct (map fst (summarize_by_category results))
   \<and> set (map fst (summarize_by_category results)) = er_category ` set results
   \<and> (\<forall>i<7. sum_list (map (\<lambda>(c, m). mv_numerator (rates m ! i)) (summarize_by_category results))
          = mv_numerator (rates (summarize_results results) ! i)
        \<and> sum_list (map (\<lambda>(c, m). mv_denominator (rates m ! i)) (summarize_by_category results))
          = mv_denominator (rates (summarize_results results) ! i))"
proof -
  have part: "sum_list (map (\<lambda>(c, m). mv_numerator (g m)) (summarize_by_category results)) = mv_numerator (g (summarize_results results))"
    "sum_list (map (\<lambda>(c, m). mv_denominator (g m)) (summarize_by_category results)) = mv_denominator (g (summarize_results results))"
    if g: "\<And>xs. g (summarize_results xs) = rate scored good xs" for g scored good
    by (simp_all add: summarize_by_category_def comp_def g rate_counts sum_over_categories)
  have keys: "map fst (summarize_by_category results) = sort (fromkeys (map er_category results))"
    by (simp add: summarize_by_category_def comp_def)
  have "\<forall>i<7. sum_list (map (\<lambda>(c, m). mv_numerator (rates m ! i)) (summarize_by_category results))
          = mv_numerator (rates (summarize_results results) ! i)
        \<and> sum_list (map (\<lambda>(c, m). mv_denominator (rates m ! i)) (summarize_by_category results))
          = mv_denominator (rates (summarize_results results) ! i)"
  proof (intro allI impI)
    fix i :: nat
    assume "i < 7"
    then have "rates (summarize_results xs) ! i = rate (fst (score_specs ! i)) (snd (score_specs ! i)) xs" for xs
      by (simp add: rates_summarized case_prod_unfold length_score_specs)
    from part [of "\<lambda>m. rates m ! i", OF this]
    show "sum_list (map (\<lambda>(c, m). mv_numerator (rates m ! i)) (summarize_by_category results))
          = mv_numerator (rates (summarize_results results) ! i)
        \<and> sum_list (map (\<lambda>(c, m). mv_denominator (rates m ! i)) (summarize_by_category results))
          = mv_denominator (rates (summarize_results results) ! i)" by blast
  qed
  then show ?thesis unfolding keys by simp
qed

end
