(* ===== verification/Eval_Dataset_Properties.thy ===== *)
theory Eval_Dataset_Properties
  imports Eval_Dataset Numerals
begin

text \<open>
  What holds of the generated dataset: for every random source the generator returns, its cases are valid and their
  labels agree with the anomaly detector.
\<close>

subsection \<open>Computations that always return\<close>

definition yields :: "(exn, 'g, 'a) comp \<Rightarrow> ('a \<Rightarrow> bool) \<Rightarrow> bool" where
  "yields m Q \<longleftrightarrow> (\<forall>g. \<exists>a g'. m g = (Inr a, g') \<and> Q a)"

lemma yields_ret: "Q a \<Longrightarrow> yields (ret a) Q"
  by (simp add: yields_def)

lemma yields_draw: "(\<And>g. Q (fst (f g))) \<Longrightarrow> yields (draw f) Q"
  by (auto simp: yields_def draw_def split: prod.split) (metis fst_conv)

lemma yields_andthen: "yields m P \<Longrightarrow> (\<And>a. P a \<Longrightarrow> yields (k a) Q) \<Longrightarrow> yields (andthen m k) Q"
proof (unfold yields_def, intro allI)
  fix g
  assume m: "\<forall>g. \<exists>a g'. m g = (Inr a, g') \<and> P a" and k: "\<And>a. P a \<Longrightarrow> \<forall>g. \<exists>b g'. k a g = (Inr b, g') \<and> Q b"
  obtain a g' where "m g = (Inr a, g')" "P a" using m by blast
  moreover obtain b g'' where "k a g' = (Inr b, g'')" "Q b" using k [OF \<open>P a\<close>] by blast
  ultimately show "\<exists>b g'. andthen m k g = (Inr b, g') \<and> Q b" by (simp add: andthen_apply)
qed

lemma yields_mono: "yields m P \<Longrightarrow> (\<And>a. P a \<Longrightarrow> Q a) \<Longrightarrow> yields m Q"
  unfolding yields_def by blast

lemma yields_if: "(b \<Longrightarrow> yields m Q) \<Longrightarrow> (\<not> b \<Longrightarrow> yields n Q) \<Longrightarrow> yields (if b then m else n) Q"
  by simp

lemma yields_require: "b \<Longrightarrow> yields m Q \<Longrightarrow> yields (andthen (require b e) (\<lambda>_. m)) Q"
  by (simp add: require_def)

lemma yields_True: "yields (draw f) (\<lambda>_. True)"
  by (rule yields_draw) simp

lemma yields_randint: "rng_ok rg \<Longrightarrow> a \<le> b \<Longrightarrow> yields (draw (rg_randint rg a b)) (\<lambda>n. a \<le> n \<and> n \<le> b)"
  by (rule yields_draw) (simp add: rng_ok_def)

lemma yields_uniform: "rng_ok rg \<Longrightarrow> a \<le> b \<Longrightarrow> yields (draw (rg_uniform rg a b)) (\<lambda>x. a \<le> x \<and> x \<le> b)"
  by (rule yields_draw) (simp add: rng_ok_def)

lemma yields_choice: "rng_ok rg \<Longrightarrow> xs \<noteq> [] \<Longrightarrow> yields (rng_choice rg xs) (\<lambda>x. x \<in> set xs)"
  unfolding rng_choice_def
  by (rule yields_andthen [where P = "\<lambda>i. i < length xs"]) (auto intro!: yields_draw yields_ret simp: rng_ok_def)

lemma yields_run:
  assumes "yields m Q"
  obtains a g' where "m g = (Inr a, g')" and "Q a"
  using assms unfolding yields_def by blast

subsection \<open>Signals\<close>

text \<open>A feedback without an anomaly.\<close>

definition calm :: "feedback_signals \<Rightarrow> bool" where
  "calm s \<longleftrightarrow> 75 / 100 \<le> fs_completion_ratio s \<and> fs_completion_ratio s \<le> 1
     \<and> 1200 \<le> fs_expected_p75_seconds s \<and> 0 < fs_actual_duration_seconds s
     \<and> of_int (fs_actual_duration_seconds s) \<le> of_int (fs_expected_p75_seconds s) * (3 / 2 :: pyfloat)
     \<and> 65 / 100 \<le> fs_recent_accuracy s \<and> fs_recent_accuracy s \<le> 95 / 100 \<and> 5 \<le> fs_recent_attempt_count s
     \<and> 0 \<le> fs_same_error_streak s \<and> fs_same_error_streak s \<le> 2
     \<and> 0 \<le> fs_consecutive_low_completion_days s \<and> fs_consecutive_low_completion_days s \<le> 1"

lemma py_round_bounds: "x - 1 / 2 \<le> of_int (py_round x) \<and> of_int (py_round x) \<le> x + 1 / 2"
  using py_round_dist [of x] by linarith

lemma draw_duration_yields:
  assumes "rng_ok rg" and "low \<le> high" and "0 \<le> e"
  shows "yields (draw_duration rg e low high)
    (\<lambda>n. of_int e * low - 1 / 2 \<le> of_int n \<and> of_int n \<le> of_int e * high + (1 / 2 :: pyfloat))"
  unfolding draw_duration_def
proof (rule yields_andthen [OF yields_uniform [OF assms(1,2)]], rule yields_ret)
  fix u
  assume u: "low \<le> u \<and> u \<le> high"
  have "of_int e * low \<le> of_int e * u" "of_int e * u \<le> of_int e * high"
    using u assms(3) by (simp_all add: mult_left_mono)
  with py_round_bounds [of "of_int e * u"]
  show "of_int e * low - 1 / 2 \<le> of_int (py_round (of_int e * u))
    \<and> of_int (py_round (of_int e * u)) \<le> of_int e * high + (1 / 2 :: pyfloat)" by linarith
qed

lemma base_signals_calm: "rng_ok rg \<Longrightarrow> yields (base_signals rg) calm"
  unfolding base_signals_def
proof (intro yields_andthen [OF yields_randint] yields_andthen [OF yields_uniform] yields_andthen [OF draw_duration_yields])
qed (auto intro!: yields_ret simp: calm_def)

text \<open>The signals of a category, and what the detector says of them.\<close>

definition major_categories :: "string list" where
  "major_categories = [''low_accuracy'', ''repeated_error'', ''multi_anomaly'']"

definition signals_match :: "string \<Rightarrow> feedback_signals \<Rightarrow> bool" where
  "signals_match category s \<longleftrightarrow> signals_valid s
     \<and> an_requires_agent (detect s) = (category \<noteq> ''normal_feedback'')
     \<and> (''LOW_ACCURACY'' \<in> set (an_reason_codes (detect s)) \<or> ''REPEATED_ERROR'' \<in> set (an_reason_codes (detect s)))
        = (category \<in> set major_categories)"

lemma signals_matchI:
  assumes "signals_valid s" and "an_reason_codes (detect s) = codes" and "(codes \<noteq> []) = (category \<noteq> ''normal_feedback'')"
    and "(''LOW_ACCURACY'' \<in> set codes \<or> ''REPEATED_ERROR'' \<in> set codes) = (category \<in> set major_categories)"
  shows "signals_match category s"
  using assms by (simp add: signals_match_def) (simp add: detect_def Let_def)

definition minor_category :: "string \<Rightarrow> bool" where
  "minor_category c \<longleftrightarrow> c \<noteq> ''normal_feedback'' \<and> c \<notin> set major_categories"

lemma match_normal:
  "signals_valid s \<Longrightarrow> an_reason_codes (detect s) = [] \<Longrightarrow> signals_match ''normal_feedback'' s"
  by (rule signals_matchI [of _ "[]"]) (simp_all add: major_categories_def)

lemma match_minor:
  "signals_valid s \<Longrightarrow> an_reason_codes (detect s) = codes \<Longrightarrow> codes \<noteq> [] \<Longrightarrow> ''LOW_ACCURACY'' \<notin> set codes \<Longrightarrow>
    ''REPEATED_ERROR'' \<notin> set codes \<Longrightarrow> minor_category category \<Longrightarrow> signals_match category s"
  by (rule signals_matchI) (simp_all add: minor_category_def)

lemma match_major:
  "signals_valid s \<Longrightarrow> an_reason_codes (detect s) = codes \<Longrightarrow>
    ''LOW_ACCURACY'' \<in> set codes \<or> ''REPEATED_ERROR'' \<in> set codes \<Longrightarrow> category \<in> set major_categories \<Longrightarrow> signals_match category s"
  by (rule signals_matchI) (auto simp: major_categories_def)

text \<open>The codes of the detector after each change of calm signals.\<close>

lemma calm_valid: "calm s \<Longrightarrow> signals_valid s"
  by (simp add: calm_def signals_valid_def)

lemma calm_codes: "calm s \<Longrightarrow> an_reason_codes (detect s) = []"
  by (simp add: calm_def detect_def Let_def)

lemma over_codes:
  "calm s \<Longrightarrow> of_int (fs_expected_p75_seconds s) * (3 / 2) < (of_int n :: pyfloat) \<Longrightarrow>
    an_reason_codes (detect (s\<lparr>fs_actual_duration_seconds := n\<rparr>)) = [''TIME_OVERRUN'']"
  by (simp add: calm_def detect_def Let_def)

lemma accuracy_codes:
  "calm s \<Longrightarrow> u \<le> 39 / 100 \<Longrightarrow> an_reason_codes (detect (s\<lparr>fs_recent_accuracy := u\<rparr>)) = [''LOW_ACCURACY'']"
  by (simp add: calm_def detect_def Let_def)

lemma streak_codes:
  "calm s \<Longrightarrow> 3 \<le> n \<Longrightarrow> an_reason_codes (detect (s\<lparr>fs_same_error_streak := n\<rparr>)) = [''REPEATED_ERROR'']"
  by (simp add: calm_def detect_def Let_def)

lemma completion_codes:
  "calm s \<Longrightarrow> u \<le> 59 / 100 \<Longrightarrow> 2 \<le> n \<Longrightarrow>
    an_reason_codes (detect (s\<lparr>fs_completion_ratio := u, fs_consecutive_low_completion_days := n\<rparr>)) = [''LOW_COMPLETION'']"
  by (simp add: calm_def detect_def Let_def)

lemma streak_in_codes: "3 \<le> fs_same_error_streak s \<Longrightarrow> ''REPEATED_ERROR'' \<in> set (an_reason_codes (detect s))"
  by (simp add: detect_def Let_def)

lemma with_duration_yields:
  assumes "rng_ok rg" and "calm s" and "151 / 100 \<le> high"
  shows "yields (with_duration rg high s) (\<lambda>s'. \<exists>n. s' = s\<lparr>fs_actual_duration_seconds := n\<rparr> \<and> 0 < n
    \<and> of_int (fs_expected_p75_seconds s) * (3 / 2) < (of_int n :: pyfloat))"
  unfolding with_duration_def
proof (rule yields_andthen [OF draw_duration_yields [OF assms(1,3)]])
  show "0 \<le> fs_expected_p75_seconds s" using assms(2) by (simp add: calm_def)
  fix n
  assume n: "of_int (fs_expected_p75_seconds s) * (151 / 100) - 1 / 2 \<le> (of_int n :: pyfloat)
    \<and> of_int n \<le> of_int (fs_expected_p75_seconds s) * high + 1 / 2"
  have "(1200 :: pyfloat) \<le> of_int (fs_expected_p75_seconds s)" using assms(2) by (simp add: calm_def)
  with n have "of_int (fs_expected_p75_seconds s) * (3 / 2) < (of_int n :: pyfloat)" and "0 < (of_int n :: pyfloat)"
    by linarith+
  then show "yields (ret (s\<lparr>fs_actual_duration_seconds := n\<rparr>)) (\<lambda>s'. \<exists>n. s' = s\<lparr>fs_actual_duration_seconds := n\<rparr> \<and> 0 < n
    \<and> of_int (fs_expected_p75_seconds s) * (3 / 2) < (of_int n :: pyfloat))"
    by (intro yields_ret) auto
qed

lemma with_low_accuracy_yields: "rng_ok rg \<Longrightarrow>
    yields (with_low_accuracy rg s) (\<lambda>s'. \<exists>u. s' = s\<lparr>fs_recent_accuracy := u\<rparr> \<and> 5 / 100 \<le> u \<and> u \<le> 39 / 100)"
  unfolding with_low_accuracy_def by (rule yields_andthen [OF yields_uniform]) (auto intro!: yields_ret)

lemma with_streak_yields: "rng_ok rg \<Longrightarrow>
    yields (with_streak rg s) (\<lambda>s'. \<exists>n. s' = s\<lparr>fs_same_error_streak := n\<rparr> \<and> 3 \<le> n)"
  unfolding with_streak_def by (rule yields_andthen [OF yields_randint]) (auto intro!: yields_ret)

lemma with_low_completion_yields: "rng_ok rg \<Longrightarrow>
    yields (with_low_completion rg s) (\<lambda>s'. \<exists>u n. s' = s\<lparr>fs_completion_ratio := u, fs_consecutive_low_completion_days := n\<rparr>
      \<and> 1 / 10 \<le> u \<and> u \<le> 59 / 100 \<and> 2 \<le> n)"
  unfolding with_low_completion_def
  by (rule yields_andthen [OF yields_uniform], assumption, simp, rule yields_andthen [OF yields_randint], assumption, simp)
    (auto intro!: yields_ret)

lemma category_signals_match:
  assumes ok: "rng_ok rg" and calm: "calm s"
  shows "yields (category_signals rg category s) (signals_match category)"
proof -
  consider (over) "category \<in> {''time_overrun'', ''transient_tool_timeout'', ''prompt_injection''}"
    | (accuracy) "category = ''low_accuracy''" | (streak) "category = ''repeated_error''"
    | (completion) "category = ''low_completion''" | (multi) "category = ''multi_anomaly''"
    | (normal) "category = ''normal_feedback''"
    | (other) "category \<notin> {''time_overrun'', ''transient_tool_timeout'', ''prompt_injection''}" "category \<noteq> ''low_accuracy''"
        "category \<noteq> ''repeated_error''" "category \<noteq> ''low_completion''" "category \<noteq> ''multi_anomaly''"
        "category \<noteq> ''normal_feedback''"
    by argo
  then show ?thesis
  proof cases
    case over
    have "yields (with_duration rg (24 / 10) s) (signals_match category)"
      by (rule yields_mono [OF with_duration_yields [OF ok calm]]) (use over calm in \<open>auto simp: calm_def signals_valid_def minor_category_def major_categories_def intro!: match_minor [OF _ over_codes [OF calm]]\<close>)
    then show ?thesis using over by (simp add: category_signals_def)
  next
    case accuracy
    have "yields (with_low_accuracy rg s) (signals_match category)"
      by (rule yields_mono [OF with_low_accuracy_yields [OF ok]]) (use accuracy calm in \<open>auto simp: calm_def signals_valid_def major_categories_def intro!: match_major [OF _ accuracy_codes [OF calm]]\<close>)
    then show ?thesis using accuracy by (simp add: category_signals_def)
  next
    case streak
    have "yields (with_streak rg s) (signals_match category)"
      by (rule yields_mono [OF with_streak_yields [OF ok]]) (use streak calm in \<open>auto simp: calm_def signals_valid_def major_categories_def intro!: match_major [OF _ streak_codes [OF calm]]\<close>)
    then show ?thesis using streak by (simp add: category_signals_def)
  next
    case completion
    have "yields (with_low_completion rg s) (signals_match category)"
      by (rule yields_mono [OF with_low_completion_yields [OF ok]]) (use completion calm in \<open>auto simp: calm_def signals_valid_def minor_category_def major_categories_def intro!: match_minor [OF _ completion_codes [OF calm]]\<close>)
    then show ?thesis using completion by (simp add: category_signals_def)
  next
    case normal
    then show ?thesis using match_normal [OF calm_valid [OF calm] calm_codes [OF calm]] by (simp add: category_signals_def yields_ret)
  next
    case other
    have "yields (with_duration rg 2 s) (signals_match category)"
      by (rule yields_mono [OF with_duration_yields [OF ok calm]]) (use other calm in \<open>auto simp: calm_def signals_valid_def minor_category_def major_categories_def intro!: match_minor [OF _ over_codes [OF calm]]\<close>)
    then show ?thesis using other by (simp add: category_signals_def)
  next
    case multi
    have "yields (andthen (with_duration rg (24 / 10) s) (\<lambda>s.
       andthen (with_low_accuracy rg s) (\<lambda>s.
       andthen (with_streak rg s) (\<lambda>s.
       andthen (draw (rg_random rg)) (\<lambda>x.
         if 1 / 2 < x then with_low_completion rg s else ret s))))) (signals_match category)"
    proof (rule yields_andthen [OF with_duration_yields [OF ok calm]])
      show "151 / 100 \<le> (24 / 10 :: pyfloat)" by simp
      fix s1 assume s1: "\<exists>n. s1 = s\<lparr>fs_actual_duration_seconds := n\<rparr> \<and> 0 < n
        \<and> of_int (fs_expected_p75_seconds s) * (3 / 2) < (of_int n :: pyfloat)"
      show "yields (andthen (with_low_accuracy rg s1) (\<lambda>s. andthen (with_streak rg s) (\<lambda>s.
          andthen (draw (rg_random rg)) (\<lambda>x. if 1 / 2 < x then with_low_completion rg s else ret s)))) (signals_match category)"
      proof (rule yields_andthen [OF with_low_accuracy_yields [OF ok]], rule yields_andthen [OF with_streak_yields [OF ok]],
          rule yields_andthen [OF yields_True], rule yields_if)
        fix s2 s3 assume s2: "\<exists>u. s2 = s1\<lparr>fs_recent_accuracy := u\<rparr> \<and> 5 / 100 \<le> u \<and> u \<le> 39 / 100"
          and s3: "\<exists>n. s3 = s2\<lparr>fs_same_error_streak := n\<rparr> \<and> 3 \<le> n"
        show "yields (with_low_completion rg s3) (signals_match category)"
          by (rule yields_mono [OF with_low_completion_yields [OF ok]]) (use s1 s2 s3 multi calm in \<open>auto simp: calm_def signals_valid_def major_categories_def streak_in_codes intro!: match_major [OF _ refl]\<close>)
        show "yields (ret s3) (signals_match category)"
          by (rule yields_ret) (use s1 s2 s3 multi calm in \<open>auto simp: calm_def signals_valid_def major_categories_def streak_in_codes intro!: match_major [OF _ refl]\<close>)
      qed
    qed
    then show ?thesis using multi by (simp add: category_signals_def)
  qed
qed

lemma draw_signals_match: "rng_ok rg \<Longrightarrow> yields (draw_signals rg category) (signals_match category)"
  unfolding draw_signals_def
  by (rule yields_andthen [OF base_signals_calm], assumption, rule yields_andthen [OF category_signals_match], assumption+,
    rule yields_require) (auto simp: signals_match_def intro: yields_ret)

end
