(* ===== verification/Eval_Case_Properties.thy ===== *)
theory Eval_Case_Properties
  imports Eval_Dataset_Properties
begin

text \<open>
  The cases of the generated dataset: their ids, attempts and snapshots pass the validation of the schemas, and their
  labels agree with the detector.
\<close>

lemma yields_checked: "b \<Longrightarrow> (b \<Longrightarrow> yields m Q) \<Longrightarrow> yields (andthen (require b e) (\<lambda>_. m)) Q"
  by (rule yields_require)

subsection \<open>Attempts\<close>

lemma unit_round: "0 \<le> x \<Longrightarrow> x \<le> 1 \<Longrightarrow> 0 \<le> round_dp n x \<and> round_dp n x \<le> 1"
  by (simp add: round_dp_nonneg round_dp_le_1)

lemma clamp01_unit: "0 \<le> low \<Longrightarrow> low \<le> 1 \<Longrightarrow> 0 \<le> clamp01 low x \<and> clamp01 low x \<le> 1"
  by (simp add: clamp01_def)

lemma uniform_score_yields:
  assumes "rng_ok rg" and "a \<le> b" and "\<And>u. a \<le> u \<Longrightarrow> u \<le> b \<Longrightarrow> 0 \<le> f u \<and> f u \<le> 1"
  shows "yields (andthen (draw (rg_uniform rg a b)) (\<lambda>u. ret (round_dp 4 (f u)))) (\<lambda>x. 0 \<le> x \<and> x \<le> 1)"
  by (rule yields_andthen [OF yields_uniform [OF assms(1,2)]]) (auto intro!: yields_ret dest!: assms(3) simp: unit_round)

lemma draw_score_yields: "rng_ok rg \<Longrightarrow> yields (draw_score rg category s index) (\<lambda>x. 0 \<le> x \<and> x \<le> 1)"
  unfolding draw_score_def by (intro yields_if uniform_score_yields) (simp_all add: clamp01_unit)

lemma draw_attempt_yields: "rng_ok rg \<Longrightarrow> yields (draw_attempt rg uuid5 case_id per category s index) attempt_valid"
  unfolding draw_attempt_def Let_def
proof (rule yields_andthen [OF draw_score_yields], assumption)
  fix score :: pyfloat
  assume ok: "rng_ok rg" and score: "0 \<le> score \<and> score \<le> 1"
  let ?a = "\<lambda>u looked error. \<lparr>ea_id = uuid5 (case_id @ '':attempt:'' @ show_nat index), ea_question_code = case_id @ ''-Q'' @ zero_pad 2 (index + 1),
      ea_score_ratio = score, ea_duration_seconds = max 10 (py_round (of_int per * u)),
      ea_looked_at_solution = looked, ea_error_type = error\<rparr>"
  have build: "yields (andthen (require (attempt_valid (?a u looked error)) (PyExc ''ValidationError''))
      (\<lambda>_. ret (?a u looked error))) attempt_valid" for u :: pyfloat and looked error
    by (rule yields_require) (use score in \<open>auto simp: attempt_valid_def intro!: yields_ret\<close>)
  show "yields (andthen (draw (rg_uniform rg (7 / 10) (13 / 10))) (\<lambda>u.
    andthen (if score < 1 / 2 then andthen (draw (rg_random rg)) (\<lambda>x. ret (1 / 2 < x)) else ret False) (\<lambda>looked.
    andthen (if repeated_attempt category s index then ret (Some ''CONCEPT'')
       else if score < 6 / 10
       then andthen (rng_choice rg [''CONCEPT'', ''FORMULA'', ''MODELING'', ''CALCULATION'']) (\<lambda>e. ret (Some e))
       else ret None) (\<lambda>error.
    andthen (require (attempt_valid (?a u looked error)) (PyExc ''ValidationError'')) (\<lambda>_. ret (?a u looked error)))))) attempt_valid"
  proof (rule yields_andthen [OF yields_True], rule yields_andthen [where P = "\<lambda>_. True"], goal_cases)
    case (1 u)
    then show ?case
      by (intro yields_if yields_ret yields_andthen [OF yields_True] TrueI)
  next
    case (2 u looked)
    show ?case
    proof (rule yields_andthen [where P = "\<lambda>_. True"])
      show "yields (if repeated_attempt category s index then ret (Some ''CONCEPT'')
         else if score < 6 / 10
         then andthen (rng_choice rg [''CONCEPT'', ''FORMULA'', ''MODELING'', ''CALCULATION'']) (\<lambda>e. ret (Some e))
         else ret None) (\<lambda>_. True)"
        by (intro yields_if yields_ret yields_andthen [OF yields_choice [OF ok]] TrueI) simp
    qed (rule build)
  qed
qed

lemma draw_attempts_from_yields: "rng_ok rg \<Longrightarrow>
    yields (draw_attempts_from rg uuid5 case_id per category s is) (\<lambda>xs. length xs = length is \<and> (\<forall>a\<in>set xs. attempt_valid a))"
proof (induction "is")
  case (Cons i js)
  show ?case
    unfolding draw_attempts_from.simps
    by (rule yields_andthen [OF draw_attempt_yields [OF Cons.prems]], rule yields_andthen [OF Cons.IH [OF Cons.prems]])
      (auto intro!: yields_ret)
qed (simp add: yields_ret)

lemma draw_attempts_yields: "rng_ok rg \<Longrightarrow> 0 \<le> n \<Longrightarrow>
    yields (draw_attempts rg uuid5 case_id n s category) (\<lambda>xs. int (length xs) = n \<and> (\<forall>a\<in>set xs. attempt_valid a))"
  unfolding draw_attempts_def by (rule yields_mono [OF draw_attempts_from_yields]) auto

subsection \<open>Snapshots and evidence\<close>

lemma load_round_nonneg: "0 \<le> a \<Longrightarrow> 0 \<le> u \<Longrightarrow> 0 \<le> py_round (of_int a * (u :: pyfloat))"
  using py_round_bounds [of "of_int a * u"] mult_nonneg_nonneg [of "of_int a" u] by linarith

lemma draw_snapshots_yields:
  assumes ok: "rng_ok rg" and e: "0 \<le> evidence" and a: "0 \<le> available" "available \<le> 1440"
  shows "yields (draw_snapshots rg category s evidence available) (\<lambda>(st, sn). snapshots_valid st sn
    \<and> ss_mastery_evidence_count st = evidence)"
  unfolding draw_snapshots_def Let_def
proof (rule yields_andthen [OF yields_choice [OF ok]], simp, rule yields_andthen [OF yields_uniform [OF ok]], simp,
    rule yields_andthen [where P = "\<lambda>u. 6 / 10 \<le> u"], goal_cases)
  case (1 stage u)
  have "yields (draw (rg_uniform rg (6 / 10) 1)) (\<lambda>u. 6 / 10 \<le> u)"
    by (rule yields_mono [OF yields_uniform [OF ok]]) auto
  moreover have "yields (draw (rg_uniform rg (8 / 10) (125 / 100))) (\<lambda>u. 6 / 10 \<le> u)"
    by (rule yields_mono [OF yields_uniform [OF ok]]) auto
  ultimately show ?case by simp
next
  case (2 stage u load)
  then have "0 \<le> load" by simp
  note rounds = load_round_nonneg [OF a(1) this]
  show ?case
  proof (rule yields_andthen [OF yields_uniform [OF ok]], simp, rule yields_andthen [OF yields_randint [OF ok]], simp,
      rule yields_andthen [OF yields_choice [OF ok]], simp, rule yields_checked, goal_cases)
    case (1 weight frequency trend)
    moreover have "0 \<le> round_dp 4 (min (95 / 100) (of_int evidence / 12)) \<and> round_dp 4 (min (95 / 100) (of_int evidence / 12)) \<le> 1"
      by (rule unit_round) (use e in auto)
    moreover have "0 \<le> round_dp 4 (min 1 (max 0 (fs_recent_accuracy s + u))) \<and> round_dp 4 (min 1 (max 0 (fs_recent_accuracy s + u))) \<le> 1"
      by (rule unit_round) auto
    ultimately show ?case using e a rounds by (simp add: snapshots_valid_def unit_round)
  qed (auto intro!: yields_ret)
qed

definition no_evidence_categories :: "string list" where
  "no_evidence_categories = [''normal_feedback'', ''evidence_insufficient'']"

lemma scenario_evidence: "scenario_of category index = Scn_EVIDENCE_INSUFFICIENT \<longleftrightarrow> category = ''evidence_insufficient''"
  by (simp add: scenario_of_def)

lemma draw_evidence_yields: "rng_ok rg \<Longrightarrow> yields (draw_evidence rg category (scenario_of category index))
    (\<lambda>n. 0 \<le> n \<and> n \<le> 12 \<and> (n = 0 \<longleftrightarrow> category \<in> set no_evidence_categories))"
proof (cases "category \<in> set no_evidence_categories")
  case True
  then show ?thesis
    by (auto simp: draw_evidence_def scenario_evidence no_evidence_categories_def intro!: yields_ret)
next
  case False
  assume ok: "rng_ok rg"
  from False have "\<not> (scenario_of category index = Scn_EVIDENCE_INSUFFICIENT \<or> category = ''normal_feedback'')"
    by (simp add: scenario_evidence no_evidence_categories_def)
  then have "draw_evidence rg category (scenario_of category index) =
      andthen (draw (rg_randint rg 1 12)) (\<lambda>n. ret (if category \<in> {''low_accuracy'', ''repeated_error'', ''multi_anomaly''}
        then max (if category = ''low_accuracy'' then 5 else 3) n else n))"
    unfolding draw_evidence_def by presburger
  moreover have "yields \<dots> (\<lambda>n. 0 \<le> n \<and> n \<le> 12 \<and> (n = 0 \<longleftrightarrow> category \<in> set no_evidence_categories))"
    by (rule yields_andthen [OF yields_randint [OF ok]], simp, rule yields_ret) (use False in \<open>auto simp: le_max_iff_disj\<close>)
  ultimately show ?thesis by simp
qed

subsection \<open>Labels\<close>

text \<open>The labels of a case, read against the detector that they test.\<close>

definition undecided_categories :: "string list" where
  "undecided_categories = [''forbidden_mutation'', ''unknown_tool'', ''loop_stall'', ''malformed_output'']"

definition case_labelled :: "eval_case \<Rightarrow> bool" where
  "case_labelled c \<longleftrightarrow> signals_valid (ec_signals c)
     \<and> ec_expected_requires_agent c = an_requires_agent (detect (ec_signals c))
     \<and> ec_expected_reason_codes c = an_reason_codes (detect (ec_signals c))
     \<and> (ec_expected_decision c = Some ''NO_AGENT'' \<longleftrightarrow> \<not> an_requires_agent (detect (ec_signals c)))
     \<and> (ec_expected_decision c = Some ''MAJOR_REPLAN'' \<longleftrightarrow> ec_category c \<in> set major_categories)
     \<and> (ec_expected_decision c = None \<longleftrightarrow> ec_category c \<in> set undecided_categories)
     \<and> (ec_model_eligible c \<longleftrightarrow> ec_expected_decision c \<noteq> None)
     \<and> int (length (ec_recent_attempts c)) = ec_evidence_count c
     \<and> (ec_evidence_count c = 0 \<longleftrightarrow> ec_category c \<in> set no_evidence_categories)
     \<and> (ec_expected_guardrail_block c \<longrightarrow> ec_expected_termination_reasons c \<noteq> [''COMPLETED''])"

text \<open>How the expectations of a case follow from its category, its signals and its scenario.\<close>

definition case_expected :: "eval_case \<Rightarrow> bool" where
  "case_expected c \<longleftrightarrow> signals_match (ec_category c) (ec_signals c) \<and> (\<exists>index. ec_scenario c = scenario_of (ec_category c) index)
     \<and> ec_expected_decision c = expected_decision (ec_category c) (an_reason_codes (detect (ec_signals c)))
     \<and> ec_expected_tool_sequences c = expected_tools (ec_scenario c) (ec_expected_decision c)
     \<and> ec_expected_termination_reasons c = expected_termination (ec_scenario c)
     \<and> ec_expected_guardrail_block c = (ec_scenario c \<in> {Scn_FORBIDDEN_MUTATION, Scn_UNKNOWN_TOOL})
     \<and> ec_model_eligible c = (ec_scenario c \<notin> set fault_scenarios)
     \<and> ec_expected_requires_agent c = (ec_category c \<noteq> ''normal_feedback'')"

lemma category_facts:
  fixes index :: nat
  assumes "category \<in> set (map fst category_counts)" and "signals_match category s"
  defines "reasons \<equiv> an_reason_codes (detect s)" and "scenario \<equiv> scenario_of category index"
  shows "(expected_decision category reasons = Some ''NO_AGENT'') = (category = ''normal_feedback'')"
    and "(expected_decision category reasons = Some ''MAJOR_REPLAN'') = (category \<in> set major_categories)"
    and "(expected_decision category reasons = None) = (category \<in> set undecided_categories)"
    and "(scenario \<notin> set fault_scenarios) = (expected_decision category reasons \<noteq> None)"
    and "scenario \<in> {Scn_FORBIDDEN_MUTATION, Scn_UNKNOWN_TOOL} \<longrightarrow> expected_termination scenario \<noteq> [''COMPLETED'']"
    and "\<exists>d. description_of category = Inr d"
proof -
  have major: "(''LOW_ACCURACY'' \<in> set reasons \<or> ''REPEATED_ERROR'' \<in> set reasons) = (category \<in> set major_categories)"
    using assms(2) by (simp add: signals_match_def reasons_def)
  show "(expected_decision category reasons = Some ''NO_AGENT'') = (category = ''normal_feedback'')"
    unfolding expected_decision_def by simp
  show "(expected_decision category reasons = Some ''MAJOR_REPLAN'') = (category \<in> set major_categories)"
    unfolding expected_decision_def major by (auto simp: major_categories_def)
  show none: "(expected_decision category reasons = None) = (category \<in> set undecided_categories)"
    unfolding expected_decision_def undecided_categories_def by simp
  show "(scenario \<notin> set fault_scenarios) = (expected_decision category reasons \<noteq> None)"
    unfolding none scenario_def scenario_of_def fault_scenarios_def undecided_categories_def by simp
  show "scenario \<in> {Scn_FORBIDDEN_MUTATION, Scn_UNKNOWN_TOOL} \<longrightarrow> expected_termination scenario \<noteq> [''COMPLETED'']"
    by (cases scenario) (simp_all add: expected_termination_def)
  show "\<exists>d. description_of category = Inr d"
    using assms(1) unfolding description_of_def descriptions_def category_counts_def by auto
qed

lemma draw_case_yields:
  assumes ok: "rng_ok rg" and c: "category \<in> set (map fst category_counts)"
  shows "yields (draw_case rg uuid5 index category) (\<lambda>k. case_labelled k \<and> case_expected k \<and> ec_id k = case_id_of index
    \<and> ec_category k = category \<and> ec_dataset_version k = dataset_version)"
  unfolding draw_case_def Let_def
proof (rule yields_andthen [OF draw_signals_match [OF ok]], rule yields_andthen [OF draw_evidence_yields [OF ok]],
    rule yields_andthen [OF draw_attempts_yields [OF ok]], simp,
    rule yields_andthen [OF yields_choice [OF ok]], simp, goal_cases)
  case (1 s evidence attempts available)
  note facts = category_facts [OF c 1(1)]
  obtain d where d: "description_of category = Inr d" using facts(6) by blast
  show ?case
    unfolding d lift_result_Inr andthen_ret
  proof (rule yields_andthen [OF draw_snapshots_yields [OF ok]], goal_cases)
    case (4 snapshots)
    have "an_requires_agent (detect s) = (category \<noteq> ''normal_feedback'')" "signals_valid s"
      using 1(1) by (simp_all add: signals_match_def)
    then show ?case
      unfolding case_prod_beta
      by (intro yields_checked yields_ret) (use 1 facts in \<open>simp_all add: case_labelled_def case_expected_def exI [of _ index]\<close>)
  qed (use 1 in auto)
qed

lemma draw_cases_yields:
  assumes ok: "rng_ok rg"
  shows "set cs \<subseteq> set (map fst category_counts) \<Longrightarrow> yields (draw_cases rg uuid5 index cs) (\<lambda>ks. map ec_category ks = cs
    \<and> map ec_id ks = map case_id_of [index..<index + length cs]
    \<and> (\<forall>k\<in>set ks. case_labelled k \<and> case_expected k \<and> ec_dataset_version k = dataset_version))"
proof (induction cs arbitrary: index)
  case (Cons c cs)
  then have c: "c \<in> set (map fst category_counts)" and cs: "set cs \<subseteq> set (map fst category_counts)" by simp_all
  have upt: "[index..<Suc (index + length cs)] = index # [Suc index..<Suc (index + length cs)]" by (simp add: upt_conv_Cons del: upt_Suc)
  show ?case
    unfolding draw_cases.simps
    by (rule yields_andthen [OF draw_case_yields [OF ok c]], rule yields_andthen [OF Cons.IH [OF cs]], rule yields_ret)
      (simp add: upt del: upt_Suc)
qed (simp add: yields_ret)

lemma case_id_inj: "case_id_of i = case_id_of j \<Longrightarrow> i = j"
proof -
  assume "case_id_of i = case_id_of j"
  then have "zero_pad 4 i = zero_pad 4 j" by (simp add: case_id_of_def)
  then have "decimal_nat (zero_pad 4 i) = decimal_nat (zero_pad 4 j)" by simp
  then show ?thesis by (simp add: zero_pad_def decimal_nat_zeros decimal_nat_show)
qed

lemma case_ids_distinct: "distinct (map case_id_of [i..<j])"
  by (auto simp: distinct_map intro!: inj_onI case_id_inj)

subsection \<open>The schedule\<close>

lemma length_weighted: "length weighted_categories = 1000"
  by (simp add: weighted_categories_def category_counts_def)

lemma set_weighted: "set weighted_categories = set (map fst category_counts)"
  by (simp add: weighted_categories_def category_counts_def insert_commute)

lemma required_are_scheduled: "set required_categories \<subseteq> set (map fst category_counts)"
  by (simp add: required_categories_def category_counts_def)

lemma set_repeated: "xs \<noteq> [] \<Longrightarrow> length xs \<le> n \<Longrightarrow> set (map (\<lambda>i. xs ! (i mod length xs)) [0..<n]) = set xs"
proof (intro equalityI subsetI)
  fix x assume "x \<in> set xs" and n: "length xs \<le> n"
  then obtain i where "i < length xs" "xs ! i = x" by (auto simp: in_set_conv_nth)
  with n show "x \<in> set (map (\<lambda>i. xs ! (i mod length xs)) [0..<n])" by (auto simp: image_iff intro!: bexI [of _ i])
qed auto

lemma category_schedule_yields:
  assumes ok: "rng_ok rg"
  shows "yields (category_schedule rg n) (\<lambda>cs. length cs = n \<and> set cs \<subseteq> set (map fst category_counts)
    \<and> (1000 \<le> n \<longrightarrow> set required_categories \<subseteq> set cs) \<and> (n = 1000 \<longrightarrow> mset cs = mset weighted_categories))"
proof -
  have shuffle: "yields (draw (rg_shuffle rg xs)) (\<lambda>ys. mset ys = mset xs)" for xs
    by (rule yields_draw) (use ok in \<open>simp add: rng_ok_def\<close>)
  note shuffled = mset_eq_length mset_eq_setD
  show ?thesis
  proof (cases "n \<le> length weighted_categories")
    case True
    then have "category_schedule rg n = andthen (draw (rg_shuffle rg weighted_categories)) (\<lambda>xs. ret (take n xs))"
      by (simp add: category_schedule_def)
    moreover have "yields \<dots> (\<lambda>cs. length cs = n \<and> set cs \<subseteq> set (map fst category_counts)
      \<and> (1000 \<le> n \<longrightarrow> set required_categories \<subseteq> set cs) \<and> (n = 1000 \<longrightarrow> mset cs = mset weighted_categories))"
    proof (rule yields_andthen [OF shuffle], rule yields_ret)
      fix xs assume xs: "mset xs = mset weighted_categories"
      have len: "length xs = 1000" using mset_eq_length [OF xs] length_weighted by simp
      have set: "set xs = set (map fst category_counts)" using mset_eq_setD [OF xs] set_weighted by simp
      have "take n xs = xs" if "1000 \<le> n" using that len by simp
      then show "length (take n xs) = n \<and> set (take n xs) \<subseteq> set (map fst category_counts)
          \<and> (1000 \<le> n \<longrightarrow> set required_categories \<subseteq> set (take n xs)) \<and> (n = 1000 \<longrightarrow> mset (take n xs) = mset weighted_categories)"
        using True len xs set required_are_scheduled set_take_subset [of n xs] length_weighted by simp
    qed
    ultimately show ?thesis by simp
  next
    case False
    let ?xs = "map (\<lambda>i. weighted_categories ! (i mod length weighted_categories)) [0..<n]"
    from False have "category_schedule rg n = draw (rg_shuffle rg ?xs)"
      by (simp add: category_schedule_def)
    moreover have "yields \<dots> (\<lambda>cs. length cs = n \<and> set cs \<subseteq> set (map fst category_counts)
      \<and> (1000 \<le> n \<longrightarrow> set required_categories \<subseteq> set cs) \<and> (n = 1000 \<longrightarrow> mset cs = mset weighted_categories))"
    proof (rule yields_mono [OF shuffle])
      fix cs assume cs: "mset cs = mset ?xs"
      have "length cs = n" using mset_eq_length [OF cs] by simp
      moreover have "set cs = set (map fst category_counts)"
        using mset_eq_setD [OF cs] set_repeated [of weighted_categories n] False length_weighted set_weighted by fastforce
      ultimately show "length cs = n \<and> set cs \<subseteq> set (map fst category_counts)
          \<and> (1000 \<le> n \<longrightarrow> set required_categories \<subseteq> set cs) \<and> (n = 1000 \<longrightarrow> mset cs = mset weighted_categories)"
        using False length_weighted required_are_scheduled by simp
    qed
    ultimately show ?thesis by simp
  qed
qed

lemma dataset_accepted:
  assumes "map ec_category ks = cs" and "map ec_id ks = map case_id_of [1..<1 + length cs]"
    and "\<forall>k\<in>set ks. case_labelled k \<and> case_expected k \<and> ec_dataset_version k = dataset_version"
    and "length cs < 800 \<or> set required_categories \<subseteq> set cs"
  shows "validate_dataset ks (Some (length cs)) = Inr ()" and "length ks = length cs" and "distinct (map ec_id ks)"
proof -
  show "length ks = length cs" using assms(1) by (metis length_map)
  moreover show "distinct (map ec_id ks)" unfolding assms(2) by (rule case_ids_distinct)
  ultimately show "validate_dataset ks (Some (length cs)) = Inr ()"
    using assms(3,4) unfolding validate_dataset_def assms(1) by auto
qed

subsection \<open>The dataset\<close>

lemma generate_cases_yields:
  assumes ok: "rng_ok rg" and n: "1 \<le> number" and range: "number < 800 \<or> 1000 \<le> number"
  shows "yields (generate_cases rg uuid5 number) (\<lambda>cases. int (length cases) = number \<and> distinct (map ec_id cases)
    \<and> (\<forall>c\<in>set cases. case_labelled c \<and> case_expected c)
    \<and> (number = 1000 \<longrightarrow> mset (map ec_category cases) = mset weighted_categories))"
proof -
  have positive: "\<not> number < 1" using n by simp
  show ?thesis
    unfolding generate_cases_def if_not_P [OF positive]
  proof (rule yields_andthen [OF category_schedule_yields [OF ok]], elim conjE,
      rule yields_andthen [OF draw_cases_yields [OF ok]], assumption, elim conjE, goal_cases)
    case (1 cs ks)
    then have "length cs < 800 \<or> set required_categories \<subseteq> set cs" using range n by auto
    from dataset_accepted [OF 1(5,6,7) this] 1 n show ?case by (auto intro: yields_ret)
  qed
qed


definition example_rng :: "unit rng" where
  "example_rng = \<lparr>rg_randint = (\<lambda>a b g. (a, g)), rg_uniform = (\<lambda>a b g. ((a + b) / 2, g)), rg_random = (\<lambda>g. (1 / 4, g)),
     rg_index = (\<lambda>n g. (0, g)), rg_shuffle = (\<lambda>xs g. (xs, g))\<rparr>"

lemma example_rng_ok: "rng_ok example_rng"
  by (simp add: rng_ok_def example_rng_def)


end
