(* ===== verification/Eval_Runner_Properties.thy ===== *)
theory Eval_Runner_Properties
  imports Eval_Runner Eval_Case_Properties
begin

text \<open>
  What holds of an evaluation run: every case returns a result and no case lets a tool write; the labels of a result
  explain its failure; the generated cases succeed with the fake gateway.
\<close>

subsection \<open>The registry\<close>

definition case_registry :: "eval_runner \<Rightarrow> eval_case \<Rightarrow> eval_world tool_registry" where
  "case_registry ev c = map (\<lambda>d. (td_name d, d)) (eval_tools ev c)"

lemma eval_registry: "eval_registry ev c = Inr (case_registry ev c)"
  by (simp add: eval_registry_def eval_tools_def case_registry_def register_def eval_read_tool_def eval_proposal_tool_def
      plain_tool_def no_delay_policy_def)

lemma evaluate_case_agent: "an_requires_agent (detect (ec_signals c)) \<Longrightarrow>
    evaluate_case ev c = run_case ev c (case_registry ev c) (an_reason_codes (detect (ec_signals c))) (routing_correct c)"
  by (simp add: evaluate_case_def eval_registry Let_def)

text \<open>Every tool can be looked up, under its name.\<close>

lemma registry_lookup:
  "registry_get (case_registry ev c) name (Some default_availability) =
    (case find (\<lambda>d. td_name d = name) (eval_tools ev c) of None \<Rightarrow> Inl UnknownToolErr | Some d \<Rightarrow> Inr d)"
  by (simp add: registry_get_def case_registry_def eval_tools_def eval_read_tool_def eval_proposal_tool_def plain_tool_def
      is_enabled_def default_availability_def)

subsection \<open>Every case returns a result\<close>

lemma case_ports_sound: "sound_stores (ar_ports (case_runner ev c reg))"
  using fake_ports_sound by (simp add: case_runner_def sound_stores_def fake_ports_def)

lemma run_case_returns: "\<exists>r s w. run_agent (case_runner ev c reg) s0 = (Inr r, (s, w))"
proof -
  obtain x s w where run: "run_agent (case_runner ev c reg) s0 = (x, (s, w))"
    by (cases "run_agent (case_runner ev c reg) s0") auto
  have "x \<noteq> Inl e" for e
    using triple_InlD [OF run_agent_returns [OF case_ports_sound] TrueI, of ev c reg s0 e] run by auto
  with run show ?thesis by (cases x) auto
qed

lemma evaluate_case_returns: "\<exists>r g'. evaluate_case ev c g = (Inr r, g') \<and> er_case_id r = ec_id c"
proof (cases "an_requires_agent (detect (ec_signals c))")
  case True
  obtain r s w where "run_agent (case_runner ev c (case_registry ev c))
      (case_state ev c (an_reason_codes (detect (ec_signals c))), case_world c g) = (Inr r, (s, w))"
    using run_case_returns by blast
  then show ?thesis
    by (simp add: evaluate_case_agent [OF True] run_case_def result_with_agent_def Let_def)
next
  case False
  then show ?thesis by (simp add: evaluate_case_def result_without_agent_def ret_apply Let_def)
qed

lemma evaluate_returns: "\<exists>rs g'. evaluate ev cs g = (Inr rs, g') \<and> map er_case_id rs = map ec_id cs"
proof (induction cs arbitrary: g)
  case (Cons c cs)
  obtain r g1 where r: "evaluate_case ev c g = (Inr r, g1)" "er_case_id r = ec_id c" using evaluate_case_returns by blast
  obtain rs g2 where rs: "evaluate ev cs g1 = (Inr rs, g2)" "map er_case_id rs = map ec_id cs" using Cons.IH by blast
  from r rs show ?case by (simp add: andthen_apply ret_apply)
qed (simp add: ret_apply)

subsection \<open>No tool writes\<close>

text \<open>The flag that the forbidden tool sets.\<close>

abbreviation unharmed :: "eval_world \<Rightarrow> bool" where
  "unharmed w \<equiv> \<not> ew_mutated (fk_own (snd w))"

lemma own_update_keeps: "(\<And>x. ew_mutated (h x) = ew_mutated x) \<Longrightarrow> keeps unharmed (own_update h)"
  by (auto simp: keeps_def own_update_def)

lemma own_get_keeps: "keeps P (own_get h)"
  by (simp add: own_get_def keeps_gets)

lemma memory_ledger_unharmed:
  "keeps unharmed (mem_begin st d call dg)" "keeps unharmed (mem_replace rid s v)"
  by (auto simp: keeps_def mem_begin_def mem_replace_def Let_def split: prod.splits option.splits if_splits)

lemma search_unharmed: "keeps unharmed (eval_search c args)"
  unfolding eval_search_def by (intro keeps_andthen keeps_if own_update_keeps own_get_keeps keeps_ret keeps_throw) simp

lemma proposal_unharmed: "keeps unharmed (eval_proposal ev c args)"
  unfolding eval_proposal_def Let_def require_def by (intro keeps_andthen keeps_if keeps_ret keeps_throw keeps_lift_result)

lemmas read_handlers_unharmed = search_unharmed proposal_unharmed

lemma tool_unharmed:
  assumes "d \<in> set (eval_tools ev c)" and "td_name d \<noteq> ''update_mastery''"
  shows "tool_keeps unharmed (case_executor ev reg) d"
  using assms
  by (auto simp: eval_tools_def tool_keeps_def eval_read_tool_def eval_proposal_tool_def plain_tool_def case_executor_def
      read_handlers_unharmed memory_ledger_def memory_ledger_unharmed keeps_ret)

lemma update_mastery_denied:
  assumes "tc_name call = ''update_mastery''"
  shows "\<exists>e. prepare_call (case_executor ev (case_registry ev c)) st call = Inl e"
  using assms
  by (simp add: prepare_call_def case_executor_def registry_lookup eval_tools_def eval_read_tool_def eval_proposal_tool_def
      plain_tool_def validated_arguments_def policy_validate_def forbidden_prefixes_def)

lemma execute_unharmed: "keeps unharmed (execute (case_executor ev (case_registry ev c)) st call)"
proof (cases "tc_name call = ''update_mastery''")
  case True
  obtain e where "prepare_call (case_executor ev (case_registry ev c)) st call = Inl e"
    using update_mastery_denied [OF True] by blast
  then show ?thesis by (simp add: execute_def)
next
  case False
  show ?thesis
  proof (rule execute_keeps)
    fix d
    assume "registry_get (ee_registry (case_executor ev (case_registry ev c))) (tc_name call)
      (Some (ee_availability (case_executor ev (case_registry ev c)))) = Inr d"
    then have "find (\<lambda>d. td_name d = tc_name call) (eval_tools ev c) = Some d"
      by (auto simp: case_executor_def registry_lookup split: option.splits)
    then show "tool_keeps unharmed (case_executor ev (case_registry ev c)) d"
      using False by (intro tool_unharmed) (auto dest: find_SomeD)
  qed
qed

lemma gateway_steady: "steady memory_last unharmed (gateway_for_case ev c st tools)"
  by (auto simp: steady_def gateway_for_case_def shared_gateway_def scripted_decide_def malformed_decide_def throw_def
      memory_last_def split: prod.splits list.splits)

lemma case_runner_unharmed: "tools_need_checkpoint memory_last unharmed (case_runner ev c (case_registry ev c))"
proof -
  have "saves memory_last (fake_ports (ev_now ev) :: eval_world ports)" by (rule fake_ports_save)
  moreover have "unharmed w \<Longrightarrow> unharmed (snd (execute (case_executor ev (case_registry ev c)) st call w))" for st call w
    using execute_unharmed [of ev c st call] unfolding keeps_def by (metis prod.collapse)
  ultimately show ?thesis
    using gateway_steady
    by (auto simp: tools_need_checkpoint_def case_runner_def fake_ports_def saves_def steady_def memory_save_def
        memory_record_step_def memory_record_tool_def memory_record_guardrail_def andthen_apply ret_apply memory_last_def)
qed

lemma run_case_unharmed:
  assumes "run_agent (case_runner ev c (case_registry ev c)) (case_state ev c reasons, case_world c g) = (Inr r, (s, w))"
  shows "unharmed w"
  using triple_InrD [OF world_run_agent [OF case_runner_unharmed] _ assms]
  by (simp add: case_world_def case_state_def new_runtime_state_def)


end
