(* ===== verification/Eval_Run_Steps.thy ===== *)
theory Eval_Run_Steps
  imports Eval_Runner_Properties
begin

text \<open>
  The turns of a case's run, one lemma for each way in which a turn goes: the runner of an evaluation keeps its records
  in memory, so that a turn is a function of the state and of the answers of the gateway and of the tools.
\<close>

subsection \<open>The records\<close>

definition push_state :: "runtime_state \<Rightarrow> eval_world \<Rightarrow> eval_world" where
  "push_state st w = (fst w, (snd w)\<lparr>fk_states := fk_states (snd w) @ [st]\<rparr>)"

definition push_step :: "model_result \<Rightarrow> eval_world \<Rightarrow> eval_world" where
  "push_step r w = (fst w, (snd w)\<lparr>fk_steps := fk_steps (snd w) @ [r]\<rparr>)"

definition push_tool :: "tool_call \<Rightarrow> jobj \<Rightarrow> eval_world \<Rightarrow> eval_world" where
  "push_tool call obs w = (fst w, (snd w)\<lparr>fk_tools := fk_tools (snd w) @ [(call, obs)]\<rparr>)"

definition push_guardrail :: "string \<Rightarrow> string \<Rightarrow> eval_world \<Rightarrow> eval_world" where
  "push_guardrail decision reason w = (fst w, (snd w)\<lparr>fk_guardrails := fk_guardrails (snd w) @ [(decision, reason)]\<rparr>)"

lemma push_simps [simp]:
  "fst (push_state st w) = fst w" "fst (push_step r w) = fst w" "fst (push_tool call obs w) = fst w" "fst (push_guardrail d s w) = fst w"
  "fk_steps (snd (push_state st w)) = fk_steps (snd w)" "fk_steps (snd (push_step r w)) = fk_steps (snd w) @ [r]"
  "fk_steps (snd (push_tool call obs w)) = fk_steps (snd w)" "fk_steps (snd (push_guardrail d s w)) = fk_steps (snd w)"
  "fk_guardrails (snd (push_state st w)) = fk_guardrails (snd w)" "fk_guardrails (snd (push_step r w)) = fk_guardrails (snd w)"
  "fk_guardrails (snd (push_tool call obs w)) = fk_guardrails (snd w)"
  "fk_guardrails (snd (push_guardrail d s w)) = fk_guardrails (snd w) @ [(d, s)]"
  "fk_results (snd (push_state st w)) = fk_results (snd w)" "fk_results (snd (push_step r w)) = fk_results (snd w)"
  "fk_results (snd (push_tool call obs w)) = fk_results (snd w)" "fk_results (snd (push_guardrail d s w)) = fk_results (snd w)"
  "fk_own (snd (push_state st w)) = fk_own (snd w)" "fk_own (snd (push_step r w)) = fk_own (snd w)"
  "fk_own (snd (push_tool call obs w)) = fk_own (snd w)" "fk_own (snd (push_guardrail d s w)) = fk_own (snd w)"
  by (simp_all add: push_state_def push_step_def push_tool_def push_guardrail_def)

lemma memory_records:
  "memory_save st w = (Inr (), push_state st w)"
  "memory_record_step st r w = (Inr (''step-'' @ show_int (loop_count st)), push_step r w)"
  "memory_record_tool call obs w = (Inr (), push_tool call obs w)"
  "memory_record_guardrail d s w = (Inr (), push_guardrail d s w)"
  by (cases w; simp add: memory_save_def memory_record_step_def memory_record_tool_def memory_record_guardrail_def
      push_state_def push_step_def push_tool_def push_guardrail_def andthen_apply ret_apply)+

subsection \<open>The runner of a case\<close>

abbreviation crun :: "eval_runner \<Rightarrow> eval_case \<Rightarrow> eval_world agent_runner" where
  "crun ev c \<equiv> case_runner ev c (case_registry ev c)"

abbreviation cexec :: "eval_runner \<Rightarrow> eval_case \<Rightarrow> eval_world exec_env" where
  "cexec ev c \<equiv> case_executor ev (case_registry ev c)"

lemma case_runner_simps [simp]:
  "po_decide (ar_ports (case_runner ev c reg)) = gateway_for_case ev c"
  "po_save (ar_ports (case_runner ev c reg)) = memory_save"
  "po_record_step (ar_ports (case_runner ev c reg)) = memory_record_step"
  "po_record_tool (ar_ports (case_runner ev c reg)) st i call obs l n s e b = memory_record_tool call obs"
  "po_record_guardrail (ar_ports (case_runner ev c reg)) st i' n' decision reason = memory_record_guardrail decision reason"
  "po_assert_active (ar_ports (case_runner ev c reg)) st = ret ()"
  "po_now (ar_ports (case_runner ev c reg)) w = ev_now ev"
  "ar_registry (case_runner ev c reg) = reg" "ar_executor (case_runner ev c reg) = case_executor ev reg"
  "ar_config (case_runner ev c reg) = default_runner_config" "ar_tool_context (case_runner ev c reg) = default_availability"
  by (simp_all add: case_runner_def fake_ports_def)

lemma case_executor_simps [simp]:
  "ee_registry (case_executor ev reg) = reg" "ee_ledger (case_executor ev reg) = Some memory_ledger"
  "ee_availability (case_executor ev reg) = default_availability"
  "ee_permissions (case_executor ev reg) = [''student:evidence:read'', ''student:proposal:create'']"
  "ee_sleep (case_executor ev reg) delay = ret ()" "ee_monotonic (case_executor ev reg) w = ev_monotonic ev"
  "ee_random (case_executor ev reg) w = (ev_random ev, w)" "ee_digest (case_executor ev reg) = ev_digest ev"
  "ee_repr (case_executor ev reg) = ae_repr (gw_app (ev_gw ev))"
  by (simp_all add: case_executor_def)

text \<open>The budget that a run of a few turns leaves.\<close>

definition budget_left :: "eval_runner \<Rightarrow> runtime_state \<Rightarrow> bool" where
  "budget_left ev st \<longleftrightarrow> started_at st = ev_now ev \<and> input_tokens st = 0 \<and> output_tokens st = 0
     \<and> loop_count st < 6 \<and> model_call_count st < 6 \<and> tool_call_count st < 6 \<and> repair_call_count st = 0"

lemma checks_pass:
  "budget_left ev st \<Longrightarrow> check_before_model default_run_budget (ev_now ev) st = Inr ()"
  "budget_left ev st \<Longrightarrow> check_before_tool default_run_budget (ev_now ev) st = Inr ()"
  by (simp_all add: budget_left_def check_before_model_ok check_before_tool_ok check_common_ok default_run_budget_def total_tokens_def)

lemma check_after_passes:
  "started_at st = ev_now ev \<Longrightarrow> input_tokens st = 0 \<Longrightarrow> output_tokens st = 0 \<Longrightarrow> model_call_count st \<le> 10 \<Longrightarrow>
    repair_call_count st \<le> 1 \<Longrightarrow> check_after_model default_run_budget (ev_now ev) st = Inr ()"
  by (simp add: check_after_model_ok check_common_ok default_run_budget_def total_tokens_def)

lemmas run_comp_simps = andthen_apply ret_apply on_world_def set_state_def modify_apply get_state_def gets_apply handle_apply
  check_budget_def assert_active_def save_checkpoint_def memory_records

text \<open>An answer that costs one call and no tokens.\<close>

definition free_answer :: "model_result \<Rightarrow> bool" where
  "free_answer r \<longleftrightarrow> mr_input_tokens r = 0 \<and> mr_output_tokens r = 0 \<and> mr_repair_calls r = 0 \<and> mr_model_call_count r = 1"

definition offered :: "eval_runner \<Rightarrow> eval_case \<Rightarrow> json list" where
  "offered ev c = model_tools (case_registry ev c) (Some default_availability)"

definition step_name :: "runtime_state \<Rightarrow> string" where
  "step_name st = ''step-'' @ show_int (loop_count st + 1)"

lemma answered_turn:
  assumes "budget_left ev st" and "gateway_for_case ev c st (offered ev c) w = (Inr r, w1)" and "free_answer r"
  shows "model_turn (crun ev c) (st, w) =
    (if ma_finish (mr_action r) then finish_action (crun ev c) (mr_action r) (step_name st)
     else case ma_tool_call (mr_action r) of
       None \<Rightarrow> andthen (terminate_run (crun ev c) TR_INVALID_ACTION) (\<lambda>r. ret (Some r))
     | Some call \<Rightarrow> tool_action (crun ev c) call (step_name st)) (add_usage r st, push_step r w1)"
proof -
  have "check_after_model default_run_budget (ev_now ev) (add_usage r st) = Inr ()"
    using assms(1,3) by (intro check_after_passes) (simp_all add: budget_left_def free_answer_def add_usage_def)
  then show ?thesis
    using assms(2) checks_pass [OF assms(1)]
    by (simp add: model_turn_def ask_model_def run_comp_simps offered_def step_name_def add_usage_def split: option.split)
qed

lemma add_usage_left:
  "free_answer r \<Longrightarrow> budget_left ev st \<Longrightarrow> loop_count st < 5 \<Longrightarrow> model_call_count st < 5 \<Longrightarrow> budget_left ev (add_usage r st)"
  by (simp add: budget_left_def free_answer_def add_usage_def)

definition pending_state :: "eval_runner \<Rightarrow> runtime_state \<Rightarrow> tool_call \<Rightarrow> string \<Rightarrow> runtime_state" where
  "pending_state ev st call step = st\<lparr>last_action_fingerprints :=
       take_last history_limit (last_action_fingerprints st @ [action_fingerprint (ev_digest ev) call]),
     pending_tool_call := Some call, pending_step_id := Some step, phase := TOOL_PENDING\<rparr>"

definition after_tool :: "eval_runner \<Rightarrow> eval_case \<Rightarrow> bool \<Rightarrow> (eval_world, agent_run_result option) run_comp" where
  "after_tool ev c stalled =
    (if stalled then andthen (terminate_run (crun ev c) TR_LOOP_STALLED) (\<lambda>r. ret (Some r))
     else andthen get_state (\<lambda>st. if phase st = FINAL_PENDING then andthen (complete_run (crun ev c)) (\<lambda>r. ret (Some r))
       else ret None))"

lemma tool_action_pending:
  fixes step :: string
  assumes "budget_left ev st" and "action_stall (last_action_fingerprints st) (action_fingerprint (ev_digest ev) call) = None"
  defines "st' \<equiv> pending_state ev st call step"
  shows "tool_action (crun ev c) call step (st, w) =
    andthen (execute_pending_tool (crun ev c)) (after_tool ev c) (st', push_state st' w)"
proof -
  have "check_before_tool default_run_budget (ev_now ev) (st\<lparr>last_action_fingerprints := h\<rparr>) = Inr ()" for h
    using assms(1) by (intro checks_pass) (simp add: budget_left_def)
  moreover have "after_tool ev c = (\<lambda>stalled. if stalled then andthen (terminate_run (crun ev c) TR_LOOP_STALLED) (\<lambda>r. ret (Some r))
     else andthen get_state (\<lambda>st. if phase st = FINAL_PENDING then andthen (complete_run (crun ev c)) (\<lambda>r. ret (Some r))
       else ret None))" by (rule ext) (simp only: after_tool_def)
  ultimately show ?thesis
    using assms(2)
    by (simp add: tool_action_def dispatch_tool_def record_action_spec Let_def run_comp_simps st'_def pending_state_def)
qed

lemma terminate_run_apply:
  "terminate_run (crun ev c) reason (st, w) = (let st' = st\<lparr>phase := TERMINATED, termination_reason_of := Some reason\<rparr> in
     (Inr (run_result st' reason), (st', push_state st' w)))"
  by (simp add: terminate_run_def run_comp_simps Let_def)

lemma tool_action_stalls:
  assumes "action_stall (last_action_fingerprints st) (action_fingerprint (ev_digest ev) call) = Some x"
  shows "\<exists>r s' w'. tool_action (crun ev c) call step (st, w) = (Inr (Some r), (s', w')) \<and> arr_decision r = None
    \<and> arr_termination_reason r = ''LOOP_STALLED'' \<and> fk_steps (snd w') = fk_steps (snd w) \<and> fk_guardrails (snd w') = fk_guardrails (snd w)"
  using assms
  by (simp add: tool_action_def dispatch_tool_def record_action_spec Let_def run_comp_simps terminate_run_apply run_result_def)

lemma complete_run_apply:
  assumes "final_action st = Some a"
  shows "complete_run (crun ev c) (st, w) = (let st' = st\<lparr>phase := TERMINATED,
      termination_reason_of := Some TR_COMPLETED, last_error_code := None\<rparr> in
     (Inr (final_result a TR_COMPLETED st'), (st', push_state st' w)))"
  using assms by (simp add: complete_run_def run_comp_simps Let_def)

subsection \<open>The pending tool\<close>

definition counted_state :: "runtime_state \<Rightarrow> tool_call \<Rightarrow> tool_execution_result \<Rightarrow> runtime_state" where
  "counted_state st call ex = st\<lparr>tool_call_count := tool_call_count st + 1, observations := observations st @ [tool_observation call ex]\<rparr>"

lemma pending_tool_runs:
  assumes "budget_left ev st" and "pending_tool_call st = Some call" and "pending_step_id st = Some step"
    and "find (\<lambda>d. td_name d = tc_name call) (eval_tools ev c) = Some d"
    and "execute (cexec ev c) st call w = (Inr ex, w')"
  defines "s \<equiv> settle_tool (crun ev c) d call (tool_observation call ex) (counted_state st call ex)"
  shows "execute_pending_tool (crun ev c) (st, w) =
    (Inr (snd s \<noteq> None), (fst s, push_state (fst s) (push_tool call (ter_observation ex) w')))"
  using assms(2-5) checks_pass [OF assms(1)]
  by (simp add: execute_pending_tool_def run_comp_simps monotonic_def registry_lookup lift_result_apply s_def counted_state_def
      split: prod.split)

lemma pending_tool_fails:
  assumes "budget_left ev st" and "pending_tool_call st = Some call" and "pending_step_id st = Some step"
    and "find (\<lambda>d. td_name d = tc_name call) (eval_tools ev c) = Some d"
    and "execute (cexec ev c) st call w = (Inl e, w')"
  shows "execute_pending_tool (crun ev c) (st, w) = (Inl e, (st, w'))"
  using assms(2-5) checks_pass [OF assms(1)]
  by (simp add: execute_pending_tool_def run_comp_simps monotonic_def registry_lookup lift_result_apply)

lemma pending_tool_unknown:
  assumes "budget_left ev st" and "pending_tool_call st = Some call" and "pending_step_id st = Some step"
    and "find (\<lambda>d. td_name d = tc_name call) (eval_tools ev c) = None"
  shows "execute_pending_tool (crun ev c) (st, w) = (Inl UnknownToolErr, (st, w))"
  using assms(2-4) checks_pass [OF assms(1)]
  by (simp add: execute_pending_tool_def run_comp_simps monotonic_def registry_lookup lift_result_apply)

subsection \<open>Runs\<close>

text \<open>How a run ends: its decision, its reason, the answers of the model and whether a guardrail was recorded.\<close>

definition ends :: "agent_run_result \<Rightarrow> eval_world \<Rightarrow> string option \<Rightarrow> string \<Rightarrow> model_result list \<Rightarrow> bool \<Rightarrow> bool" where
  "ends r w decision reason steps guarded \<longleftrightarrow> arr_decision r = decision \<and> arr_termination_reason r = reason
     \<and> fk_steps (snd w) = steps \<and> (fk_guardrails (snd w) \<noteq> []) = guarded"

lemma tool_error_ends:
  assumes "is_tool_error e" and "pending_tool_call st = Some call" and "pending_step_id st = Some step"
    and "fk_guardrails (snd w) = []"
  shows "\<exists>r s' w'. on_exception (crun ev c) e (st, w) = (Inr r, (s', w'))
    \<and> ends r w' None (tr_value (exn_reason e)) (fk_steps (snd w)) (exn_reason e \<in> {TR_TOOL_PERMISSION_DENIED, TR_UNKNOWN_TOOL})"
  using assms
  by (cases e) (simp_all add: on_exception_def record_tool_failure_def record_guardrail_def set_error_def run_comp_simps
      terminate_run_apply Let_def run_result_def ends_def)

lemma run_loop_continues: "model_turn rn s = (Inr None, s') \<Longrightarrow> run_loop rn s = run_loop rn s'"
  by (simp add: run_loop.simps [of rn s])

lemma run_loop_returns: "model_turn rn s = (Inr (Some r), s') \<Longrightarrow> run_loop rn s = (Inr r, s')"
  by (simp add: run_loop.simps [of rn s])

lemma run_loop_raises: "model_turn rn s = (Inl e, s') \<Longrightarrow> run_loop rn s = (Inl e, s')"
  by (simp add: run_loop.simps [of rn s])

definition first_state :: "eval_runner \<Rightarrow> eval_case \<Rightarrow> string list \<Rightarrow> runtime_state" where
  "first_state ev c reasons = (case_state ev c reasons)\<lparr>model_call_limit := 10, repair_call_limit := 1\<rparr>"

lemma run_agent_starts:
  "run_agent (crun ev c) (case_state ev c reasons, w) =
    handle (run_loop (crun ev c)) (on_exception (crun ev c)) (first_state ev c reasons, w)"
  by (simp add: run_agent_def run_phases_def run_comp_simps first_state_def default_runner_config_def)
    (simp add: case_state_def new_runtime_state_def)

lemma first_state_simps [simp]:
  "loop_count (first_state ev c reasons) = 0" "model_call_count (first_state ev c reasons) = 0"
  "tool_call_count (first_state ev c reasons) = 0" "last_action_fingerprints (first_state ev c reasons) = []"
  "last_observation_fingerprints (first_state ev c reasons) = []" "run_id (first_state ev c reasons) = ec_id c"
  "budget_left ev (first_state ev c reasons)"
  by (simp_all add: first_state_def case_state_def new_runtime_state_def budget_left_def)

end
