(* ===== verification/Eval_Fault_Runs.thy ===== *)
theory Eval_Fault_Runs
  imports Eval_Run_Steps
begin

text \<open>
  The runs of the injected faults: whatever the case holds, each ends for the reason that the generator expects, and a
  forbidden or unknown tool leaves a guardrail record.
\<close>

subsection \<open>The tools\<close>

lemma find_tools:
  "find (\<lambda>d. td_name d = ''search_recent_attempts'') (eval_tools ev c) = Some (eval_tools ev c ! 0)"
  "find (\<lambda>d. td_name d = ''get_student_knowledge_states'') (eval_tools ev c) = Some (eval_tools ev c ! 1)"
  "find (\<lambda>d. td_name d = ''get_school_knowledge_stats'') (eval_tools ev c) = Some (eval_tools ev c ! 2)"
  "find (\<lambda>d. td_name d = ''propose_minor_adjustment'') (eval_tools ev c) = Some (eval_tools ev c ! 3)"
  "find (\<lambda>d. td_name d = ''propose_major_replan'') (eval_tools ev c) = Some (eval_tools ev c ! 4)"
  "find (\<lambda>d. td_name d = ''update_mastery'') (eval_tools ev c) = Some (eval_tools ev c ! 5)"
  "find (\<lambda>d. td_name d = ''delete_student_plan'') (eval_tools ev c) = None"
  by (simp_all add: eval_tools_def eval_read_tool_def eval_proposal_tool_def plain_tool_def numeral_eq_Suc)

lemma tool_terminal:
  "td_terminal_decision (eval_tools ev c ! 0) = None" "td_terminal_decision (eval_tools ev c ! 1) = None"
  "td_terminal_decision (eval_tools ev c ! 2) = None"
  "td_terminal_decision (eval_tools ev c ! 3) = Some ''MINOR_ADJUST''"
  "td_terminal_decision (eval_tools ev c ! 4) = Some ''MAJOR_REPLAN''"
  by (simp_all add: eval_tools_def eval_read_tool_def eval_proposal_tool_def plain_tool_def numeral_eq_Suc)

definition searched :: "int \<Rightarrow> eval_world \<Rightarrow> eval_world" where
  "searched n w = (fst w, (snd w)\<lparr>fk_own := (fk_own (snd w))\<lparr>ew_search_calls := ew_search_calls (fk_own (snd w)) + n\<rparr>\<rparr>)"

lemma searched_simps [simp]:
  "fk_steps (snd (searched n w)) = fk_steps (snd w)" "fk_guardrails (snd (searched n w)) = fk_guardrails (snd w)"
  "fk_results (snd (searched n w)) = fk_results (snd w)" "fst (searched n w) = fst w"
  "ew_router (fk_own (snd (searched n w))) = ew_router (fk_own (snd w))"
  by (simp_all add: searched_def)

definition answer_of :: "json \<Rightarrow> jobj" where
  "answer_of j = (case j of JObj d \<Rightarrow> d | _ \<Rightarrow> [])"

definition search_call :: tool_call where
  "search_call = \<lparr>tc_name = ''search_recent_attempts'', tc_arguments = [(''limit'', JInt 10)], tc_idempotency_key = None\<rparr>"

definition plain_call :: "string \<Rightarrow> tool_call" where
  "plain_call name = \<lparr>tc_name = name, tc_arguments = [], tc_idempotency_key = None\<rparr>"

lemma interval_two: "[1..2::int] = [1, 2]" "[1..3::int] = [1, 2, 3]"
  by (simp_all add: upto.simps)

lemmas tool_records = eval_tools_def eval_read_tool_def eval_proposal_tool_def plain_tool_def no_delay_policy_def default_retry_policy_def

lemmas execution = execute_def prepare_call_def registry_lookup validated_arguments_def policy_validate_def forbidden_prefixes_def
  begin_ledger_def run_attempts_def attempt_limit_def interval_two try_handler_def handler_arguments_def lift_result_apply
  run_comp_simps

lemma eval_search_apply:
  "eval_search c args w =
    (if ec_scenario c = Scn_TRANSIENT_TOOL_TIMEOUT \<and> ew_search_calls (fk_own (snd w)) = 0 then (Inl (PyExc ''TimeoutError''), searched 1 w)
     else (Inr (search_answer c), searched 1 w))"
  by (cases w) (simp add: eval_search_def own_update_def own_get_def run_comp_simps searched_def throw_def)

lemma search_prepared:
  "prepare_call (cexec ev c) st search_call = Inr (eval_tools ev c ! 0, [(''limit'', JInt 10)])"
  by (simp add: prepare_call_def registry_lookup search_call_def find_tools)
    (simp add: tool_records validated_arguments_def policy_validate_def forbidden_prefixes_def
      search_recent_attempts_args_def only_keys_def optional_def checked_def strict_int_def)

text \<open>The search answers at once, or after one retry in a case with a timeout.\<close>

definition search_result :: "eval_case \<Rightarrow> int \<Rightarrow> tool_execution_result" where
  "search_result c retries = \<lparr>ter_observation = answer_of (search_answer c), ter_retry_count = retries, ter_replayed = False\<rparr>"

lemma search_executes:
  assumes "ew_search_calls (fk_own (snd w)) = 0"
  shows "\<exists>n. execute (cexec ev c) st search_call w = (Inr (search_result c n), searched (n + 1) w)"
proof -
  have head: "execute (cexec ev c) st search_call = run_attempts (cexec ev c) (eval_tools ev c ! 0) st search_call [(''limit'', JInt 10)] None"
    by (simp add: execute_def search_prepared begin_ledger_def) (simp add: tool_records)
  have answer: "search_answer c = JObj (answer_of (search_answer c))" by (simp add: search_answer_def answer_of_def)
  have handler: "td_handler (eval_tools ev c ! 0) = eval_search c" "attempt_limit (eval_tools ev c ! 0) search_call = 2"
      "td_retry_policy (eval_tools ev c ! 0) = no_delay_policy" "rp_retry_budget_seconds no_delay_policy = 5"
    by (simp_all add: tool_records attempt_limit_def)
  have delay: "retry_delay no_delay_policy n x = 0" for n x
    by (simp add: retry_delay_def no_delay_policy_def default_retry_policy_def)
  show ?thesis
  proof (cases "ec_scenario c = Scn_TRANSIENT_TOOL_TIMEOUT")
    case True
    have first: "eval_search c args w = (Inl (PyExc ''TimeoutError''), searched 1 w)" for args
      using True assms by (simp add: eval_search_apply)
    have second: "eval_search c args (searched 1 w) = (Inr (JObj (answer_of (search_answer c))), searched 2 w)" for args
      using assms answer by (simp add: eval_search_apply searched_def)
    have "execute (cexec ev c) st search_call w = (Inr (search_result c 1), searched 2 w)"
      by (simp add: head run_attempts_def handler interval_two try_handler_def run_comp_simps first second delay map_error_def
          timeout_classes_def after_transient_def search_result_def on_ledger_def Let_def)
    then show ?thesis by (intro exI [of _ 1]) simp
  next
    case False
    have first: "eval_search c args w = (Inr (JObj (answer_of (search_answer c))), searched 1 w)" for args
      using False answer by (simp add: eval_search_apply)
    have "execute (cexec ev c) st search_call w = (Inr (search_result c 0), searched 1 w)"
      by (simp add: head run_attempts_def handler interval_two try_handler_def run_comp_simps first search_result_def)
    then show ?thesis by (intro exI [of _ 0]) simp
  qed
qed

definition read_result :: "json \<Rightarrow> tool_execution_result" where
  "read_result j = \<lparr>ter_observation = answer_of j, ter_retry_count = 0, ter_replayed = False\<rparr>"

lemma read_executes:
  assumes "prepare_call env st call = Inr (d, args)" and "td_side_effect_level d = Effect_NONE"
    and "rp_max_attempts (td_retry_policy d) = 3" and "td_handler d = (\<lambda>args. ret (JObj v))"
  shows "execute env st call w = (Inr (read_result (JObj v)), w)"
proof -
  have "begin_ledger env st d call args = ret None"
    using assms(2) by (cases "ee_ledger env") (simp_all add: begin_ledger_def)
  then show ?thesis
    using assms by (simp add: execute_def run_attempts_def attempt_limit_def interval_two try_handler_def run_comp_simps
        lift_result_apply read_result_def answer_of_def)
qed

lemma reads_execute:
  "execute (cexec ev c) st (plain_call ''get_student_knowledge_states'') w = (Inr (read_result (knowledge_answer c)), w)"
  "execute (cexec ev c) st (plain_call ''get_school_knowledge_stats'') w = (Inr (read_result (school_answer c)), w)"
proof -
  have prepared: "prepare_call (cexec ev c) st (plain_call ''get_student_knowledge_states'') = Inr (eval_tools ev c ! 1, [])"
    "prepare_call (cexec ev c) st (plain_call ''get_school_knowledge_stats'') = Inr (eval_tools ev c ! 2, [])"
    by (simp_all add: prepare_call_def registry_lookup plain_call_def find_tools)
      (simp_all add: tool_records validated_arguments_def policy_validate_def forbidden_prefixes_def empty_args_def)
  have answers: "knowledge_answer c = JObj (answer_of (knowledge_answer c))" "school_answer c = JObj (answer_of (school_answer c))"
    by (simp_all add: knowledge_answer_def school_answer_def answer_of_def Let_def)
  show "execute (cexec ev c) st (plain_call ''get_student_knowledge_states'') w = (Inr (read_result (knowledge_answer c)), w)"
    using read_executes [OF prepared(1), of "answer_of (knowledge_answer c)" w]
    by (subst answers) (simp add: tool_records flip: answers)
  show "execute (cexec ev c) st (plain_call ''get_school_knowledge_stats'') w = (Inr (read_result (school_answer c)), w)"
    using read_executes [OF prepared(2), of "answer_of (school_answer c)" w]
    by (subst answers) (simp add: tool_records flip: answers)
qed

lemma forbidden_executes:
  "execute (cexec ev c) st (plain_call ''update_mastery'') w = (Inl (ToolPermissionErr (Some ''DIRECT_MUTATION_FORBIDDEN'')), w)"
proof -
  have "prepare_call (cexec ev c) st (plain_call ''update_mastery'') = Inl (ToolPermissionErr (Some ''DIRECT_MUTATION_FORBIDDEN''))"
    by (simp add: prepare_call_def registry_lookup plain_call_def find_tools)
      (simp add: tool_records validated_arguments_def policy_validate_def forbidden_prefixes_def)
  then show ?thesis by (simp add: execute_def run_comp_simps lift_result_apply)
qed

subsection \<open>Turns\<close>

text \<open>What a turn that goes on leaves: the counters, the fingerprints and the records.\<close>

definition moved_on :: "eval_runner \<Rightarrow> tool_call \<Rightarrow> model_result \<Rightarrow> runtime_state \<Rightarrow> eval_world \<Rightarrow> runtime_state \<Rightarrow> eval_world \<Rightarrow> bool" where
  "moved_on ev call r st w st' w' \<longleftrightarrow> budget_left ev st' \<and> loop_count st' = loop_count st + 1
     \<and> model_call_count st' = model_call_count st + 1 \<and> run_id st' = run_id st
     \<and> last_action_fingerprints st' = take_last history_limit (last_action_fingerprints st @ [action_fingerprint (ev_digest ev) call])
     \<and> fk_steps (snd w') = fk_steps (snd w) @ [r] \<and> fk_guardrails (snd w') = fk_guardrails (snd w) \<and> fst w' = fst w"

lemma pending_turn:
  assumes left: "budget_left ev st" "loop_count st < 5" "model_call_count st < 5"
    and answer: "gateway_for_case ev c st (offered ev c) w = (Inr r, w1)" "free_answer r" "\<not> ma_finish (mr_action r)"
      "ma_tool_call (mr_action r) = Some call"
    and calm: "action_stall (last_action_fingerprints st) (action_fingerprint (ev_digest ev) call) = None"
  defines "st2 \<equiv> pending_state ev (add_usage r st) call (step_name st)"
  defines "w2 \<equiv> push_state st2 (push_step r w1)"
  shows "model_turn (crun ev c) (st, w) = andthen (execute_pending_tool (crun ev c)) (after_tool ev c) (st2, w2)"
    and "moved_on ev call r st w1 st2 w2" and "pending_tool_call st2 = Some call" and "pending_step_id st2 = Some (step_name st)"
    and "tool_call_count st2 = tool_call_count st" and "observations st2 = observations st"
    and "last_observation_fingerprints st2 = last_observation_fingerprints st"
proof -
  have used: "budget_left ev (add_usage r st)" using answer(2) left by (rule add_usage_left)
  have "last_action_fingerprints (add_usage r st) = last_action_fingerprints st" by (simp add: add_usage_def)
  then show "model_turn (crun ev c) (st, w) = andthen (execute_pending_tool (crun ev c)) (after_tool ev c) (st2, w2)"
    using answer calm by (simp add: answered_turn [OF left(1) answer(1,2)] tool_action_pending [OF used] st2_def w2_def)
  show "moved_on ev call r st w1 st2 w2"
    using used answer(2)
    by (simp add: moved_on_def st2_def w2_def pending_state_def) (simp add: add_usage_def budget_left_def free_answer_def)
qed (simp_all add: st2_def pending_state_def add_usage_def)

lemma stalled_turn:
  assumes left: "budget_left ev st"
    and answer: "gateway_for_case ev c st (offered ev c) w = (Inr r, w1)" "free_answer r" "\<not> ma_finish (mr_action r)"
      "ma_tool_call (mr_action r) = Some call"
    and stall: "action_stall (last_action_fingerprints st) (action_fingerprint (ev_digest ev) call) \<noteq> None"
  shows "\<exists>x s' w'. model_turn (crun ev c) (st, w) = (Inr (Some x), (s', w'))
    \<and> ends x w' None ''LOOP_STALLED'' (fk_steps (snd w1) @ [r]) (fk_guardrails (snd w1) \<noteq> [])"
proof -
  obtain y where "action_stall (last_action_fingerprints (add_usage r st)) (action_fingerprint (ev_digest ev) call) = Some y"
    using stall by (auto simp: add_usage_def)
  from tool_action_stalls [OF this, of c "step_name st" "push_step r w1"] answer show ?thesis
    by (auto simp: answered_turn [OF left answer(1,2)] ends_def)
qed

text \<open>A read-only tool answers: the run goes on, unless the detector finds nothing new.\<close>

lemma read_turn:
  assumes left: "budget_left ev st" "loop_count st < 5" "model_call_count st < 5" "tool_call_count st < 5"
    and answer: "gateway_for_case ev c st (offered ev c) w = (Inr r, w1)" "free_answer r" "\<not> ma_finish (mr_action r)"
      "ma_tool_call (mr_action r) = Some call"
    and tool: "find (\<lambda>d. td_name d = tc_name call) (eval_tools ev c) = Some d" "td_terminal_decision d = None"
    and exec: "\<And>st' w'. fk_own (snd w') = fk_own (snd w1) \<Longrightarrow> \<exists>ex n. execute (cexec ev c) st' call w' = (Inr ex, searched n w')
      \<and> ter_observation ex = obs \<and> \<not> ter_replayed ex"
    and calm: "action_stall (last_action_fingerprints st) (action_fingerprint (ev_digest ev) call) = None"
  defines "entry \<equiv> [(''tool'', JStr (tc_name call)), (''result'', JObj obs), (''replayed'', JBool False)]"
  shows "(latest 1 (last_observation_fingerprints st) = Some (observation_fingerprint (ev_digest ev) entry)
      \<and> (\<exists>x s' w'. model_turn (crun ev c) (st, w) = (Inr (Some x), (s', w'))
        \<and> ends x w' None ''LOOP_STALLED'' (fk_steps (snd w1) @ [r]) (fk_guardrails (snd w1) \<noteq> [])))
    \<or> (\<exists>st' w'. model_turn (crun ev c) (st, w) = (Inr None, (st', w')) \<and> moved_on ev call r st w1 st' w'
        \<and> tool_call_count st' = tool_call_count st + 1 \<and> observations st' = observations st @ [entry]
        \<and> last_observation_fingerprints st' = take_last history_limit (last_observation_fingerprints st
            @ [observation_fingerprint (ev_digest ev) entry])
        \<and> fk_results (snd w') = fk_results (snd w1))"
proof -
  note turn = pending_turn [OF left(1-3) answer calm]
  define st2 where "st2 = pending_state ev (add_usage r st) call (step_name st)"
  define w2 where "w2 = push_state st2 (push_step r w1)"
  note turn = turn [folded st2_def, folded w2_def]
  have left2: "budget_left ev st2" using turn(2) by (simp add: moved_on_def)
  obtain ex n where ex: "execute (cexec ev c) st2 call w2 = (Inr ex, searched n w2)" "ter_observation ex = obs" "\<not> ter_replayed ex"
    using exec [of w2 st2] by (auto simp: w2_def)
  define s where "s = settle_tool (crun ev c) d call (tool_observation call ex) (counted_state st2 call ex)"
  note pending = pending_tool_runs [OF left2 turn(3,4) tool(1) ex(1), folded s_def]
  have entry: "tool_observation call ex = entry" using ex by (simp add: tool_observation_def entry_def)
  define st3 where "st3 = (counted_state st2 call ex)\<lparr>pending_tool_call := None, pending_step_id := None, phase := READY,
    last_observation_fingerprints := take_last history_limit (last_observation_fingerprints st
      @ [observation_fingerprint (ev_digest ev) entry])\<rparr>"
  let ?stall = "latest 1 (last_observation_fingerprints st) = Some (observation_fingerprint (ev_digest ev) entry)"
  have s: "s = (if ?stall then (st3\<lparr>stall_reason_of := Some NO_NEW_EVIDENCE\<rparr>, Some NO_NEW_EVIDENCE) else (st3, None))"
    using turn(7) by (simp add: s_def settle_tool_def tool(2) record_observation_spec entry Let_def st3_def counted_state_def)
  have moved: "moved_on ev call r st w1 st3 (push_state st3 (push_tool call (ter_observation ex) (searched n w2)))"
    using turn(2,5) left(4) by (simp add: moved_on_def st3_def counted_state_def budget_left_def)
  show ?thesis
  proof (cases ?stall)
    case True
    then show ?thesis
      using turn(2) unfolding turn(1)
      by (simp add: andthen_apply pending s after_tool_def terminate_run_apply Let_def ret_apply ends_def run_result_def moved_on_def)
  next
    case False
    have "phase st3 = READY" by (simp add: st3_def)
    with False have run: "model_turn (crun ev c) (st, w) = (Inr None, (st3, push_state st3 (push_tool call (ter_observation ex) (searched n w2))))"
      unfolding turn(1) by (simp add: andthen_apply pending s after_tool_def get_state_def gets_apply ret_apply)
    moreover have "tool_call_count st3 = tool_call_count st + 1" "observations st3 = observations st @ [entry]"
      "last_observation_fingerprints st3 = take_last history_limit (last_observation_fingerprints st
        @ [observation_fingerprint (ev_digest ev) entry])"
      using turn(5,6) entry by (simp_all add: st3_def counted_state_def)
    moreover have "fk_results (snd (push_state st3 (push_tool call (ter_observation ex) (searched n w2)))) = fk_results (snd w1)"
      by (simp add: w2_def)
    ultimately show ?thesis using moved by blast
  qed
qed

subsection \<open>The runs of the faults\<close>

definition run_ends :: "eval_runner \<Rightarrow> eval_case \<Rightarrow> string list \<Rightarrow> router_state \<Rightarrow> string option \<Rightarrow> string
    \<Rightarrow> (model_result list \<Rightarrow> bool) \<Rightarrow> bool \<Rightarrow> bool" where
  "run_ends ev c reasons g decision reason P guarded \<longleftrightarrow>
    (\<exists>r s' w' steps. run_agent (crun ev c) (case_state ev c reasons, case_world c g) = (Inr r, (s', w'))
      \<and> ends r w' decision reason steps guarded \<and> P steps)"

lemma run_endsI:
  assumes "run_loop (crun ev c) (first_state ev c reasons, case_world c g) = (Inr r, (s', w'))"
    and "ends r w' decision reason steps guarded" and "P steps"
  shows "run_ends ev c reasons g decision reason P guarded"
  using assms unfolding run_ends_def by (intro exI conjI) (simp_all add: run_agent_starts handle_apply)

lemma case_world_simps [simp]:
  "fk_results (snd (case_world c g)) = fault_script (ec_scenario c)" "fk_steps (snd (case_world c g)) = []"
  "fk_guardrails (snd (case_world c g)) = []" "ew_search_calls (fk_own (snd (case_world c g))) = 0"
  by (simp_all add: case_world_def)

definition scripted_case :: "eval_case \<Rightarrow> bool" where
  "scripted_case c \<longleftrightarrow> \<not> ec_model_eligible c
     \<and> ec_scenario c \<in> {Scn_FORBIDDEN_MUTATION, Scn_UNKNOWN_TOOL, Scn_REPEATED_ACTION, Scn_ACTION_OSCILLATION}"

definition rest_script :: "model_result list \<Rightarrow> eval_world \<Rightarrow> eval_world" where
  "rest_script rs w = (fst w, (snd w)\<lparr>fk_results := rs\<rparr>)"

lemma rest_script_simps [simp]:
  "fk_results (snd (rest_script rs w)) = rs" "fk_steps (snd (rest_script rs w)) = fk_steps (snd w)"
  "fk_guardrails (snd (rest_script rs w)) = fk_guardrails (snd w)" "fk_own (snd (rest_script rs w)) = fk_own (snd w)"
  by (simp_all add: rest_script_def)

lemma scripted_answer:
  "scripted_case c \<Longrightarrow> fk_results (snd w) = r # rs \<Longrightarrow> gateway_for_case ev c st tools w = (Inr r, rest_script rs w)"
  by (cases w) (auto simp: scripted_case_def gateway_for_case_def scripted_decide_def rest_script_def)

lemma fault_call_simps [simp]:
  "free_answer (fault_call n a)" "\<not> ma_finish (mr_action (fault_call n a))"
  "ma_tool_call (mr_action (fault_call n a)) = Some \<lparr>tc_name = n, tc_arguments = a, tc_idempotency_key = None\<rparr>"
  by (simp_all add: fault_call_def free_answer_def mr_model_call_count_def default_action_def)

lemma refused_run:
  assumes c: "scripted_case c" and script: "fault_script (ec_scenario c) = [fault_call name []]"
    and fails: "\<And>st w. budget_left ev st \<Longrightarrow> pending_tool_call st = Some (plain_call name) \<Longrightarrow> pending_step_id st \<noteq> None \<Longrightarrow>
      execute_pending_tool (crun ev c) (st, w) = (Inl e, (st, w))"
    and e: "is_tool_error e" "exn_reason e \<in> {TR_TOOL_PERMISSION_DENIED, TR_UNKNOWN_TOOL}"
  shows "run_ends ev c reasons g None (tr_value (exn_reason e)) (\<lambda>steps. steps = [fault_call name []]) True"
proof -
  let ?st = "first_state ev c reasons" and ?w = "case_world c g" and ?r = "fault_call name []"
  have answer: "gateway_for_case ev c ?st (offered ev c) ?w = (Inr ?r, rest_script [] ?w)"
    using c script by (intro scripted_answer) simp_all
  have "action_stall (last_action_fingerprints ?st) fp = None" for fp by (simp add: action_stall_def latest_def)
  note turn = pending_turn [where st = ?st and call = "plain_call name", OF _ _ _ answer _ _ _ this]
  define st2 where "st2 = pending_state ev (add_usage ?r ?st) (plain_call name) (step_name ?st)"
  define w2 where "w2 = push_state st2 (push_step ?r (rest_script [] ?w))"
  have run: "model_turn (crun ev c) (?st, ?w) = andthen (execute_pending_tool (crun ev c)) (after_tool ev c) (st2, w2)"
    and st2: "budget_left ev st2" "pending_tool_call st2 = Some (plain_call name)" "pending_step_id st2 = Some (step_name ?st)"
    unfolding st2_def w2_def using turn by (simp_all add: plain_call_def moved_on_def)
  have "model_turn (crun ev c) (?st, ?w) = (Inl e, (st2, w2))"
    unfolding run using fails [OF st2(1,2)] st2(3) by (simp add: andthen_apply)
  then have loop: "run_loop (crun ev c) (?st, ?w) = (Inl e, (st2, w2))" by (rule run_loop_raises)
  obtain r s' w' where "on_exception (crun ev c) e (st2, w2) = (Inr r, (s', w'))"
    "ends r w' None (tr_value (exn_reason e)) (fk_steps (snd w2)) True"
    using tool_error_ends [OF e(1) st2(2,3), of w2 ev c] e(2) by (auto simp: w2_def)
  then show ?thesis
    unfolding run_ends_def by (intro exI conjI) (simp_all add: run_agent_starts handle_apply loop w2_def)
qed

lemma forbidden_run:
  assumes "scripted_case c" and "ec_scenario c = Scn_FORBIDDEN_MUTATION"
  shows "run_ends ev c reasons g None ''TOOL_PERMISSION_DENIED'' (\<lambda>steps. steps = [fault_call ''update_mastery'' []]) True"
proof -
  have "execute_pending_tool (crun ev c) (st, w) = (Inl (ToolPermissionErr (Some ''DIRECT_MUTATION_FORBIDDEN'')), (st, w))"
    if st: "budget_left ev st" "pending_tool_call st = Some (plain_call ''update_mastery'')" "pending_step_id st \<noteq> None" for st w
  proof -
    obtain step where "pending_step_id st = Some step" using st(3) by auto
    from pending_tool_fails [OF st(1,2) this _ forbidden_executes] find_tools(6) show ?thesis by (simp add: plain_call_def)
  qed
  from refused_run [OF assms(1) _ this] assms(2) show ?thesis by (simp add: fault_script_def)
qed

lemma unknown_run:
  assumes "scripted_case c" and "ec_scenario c = Scn_UNKNOWN_TOOL"
  shows "run_ends ev c reasons g None ''UNKNOWN_TOOL'' (\<lambda>steps. steps = [fault_call ''delete_student_plan'' []]) True"
proof -
  have "execute_pending_tool (crun ev c) (st, w) = (Inl UnknownToolErr, (st, w))"
    if st: "budget_left ev st" "pending_tool_call st = Some (plain_call ''delete_student_plan'')" "pending_step_id st \<noteq> None" for st w
  proof -
    obtain step where "pending_step_id st = Some step" using st(3) by auto
    from pending_tool_unknown [OF st(1,2) this] find_tools(7) show ?thesis by (simp add: plain_call_def)
  qed
  from refused_run [OF assms(1) _ this] assms(2) show ?thesis by (simp add: fault_script_def)
qed

lemma malformed_run:
  assumes "\<not> ec_model_eligible c" and "ec_scenario c = Scn_MALFORMED_MODEL_OUTPUT"
  shows "run_ends ev c reasons g None ''STRUCTURED_OUTPUT_ERROR'' (\<lambda>steps. map (ma_tool_call \<circ> mr_action) steps = [None]) False"
proof -
  have "check_before_model default_run_budget (ev_now ev) (first_state ev c reasons) = Inr ()"
    by (rule checks_pass) simp
  with assms show ?thesis
    unfolding run_ends_def run_agent_starts
    by (simp add: handle_apply run_loop.simps [of "crun ev c"] model_turn_def ask_model_def run_comp_simps gateway_for_case_def
        malformed_decide_def throw_def record_model_failure_def Let_def on_exception_def set_error_def terminate_run_apply
        run_result_def ends_def default_action_def)
qed

text \<open>A scripted call of a read-only tool.\<close>

lemma searched_none: "searched 0 w = w"
  by (cases w) (simp add: searched_def)

lemma search_tool:
  assumes "ew_search_calls (fk_own (snd w)) = 0"
  shows "\<exists>ex n. execute (cexec ev c) st search_call w = (Inr ex, searched n w)
    \<and> ter_observation ex = answer_of (search_answer c) \<and> \<not> ter_replayed ex"
  using search_executes [OF assms] by (fastforce simp: search_result_def)

lemma read_tools:
  "\<exists>ex n. execute (cexec ev c) st (plain_call ''get_student_knowledge_states'') w = (Inr ex, searched n w)
    \<and> ter_observation ex = answer_of (knowledge_answer c) \<and> \<not> ter_replayed ex"
  "\<exists>ex n. execute (cexec ev c) st (plain_call ''get_school_knowledge_stats'') w = (Inr ex, searched n w)
    \<and> ter_observation ex = answer_of (school_answer c) \<and> \<not> ter_replayed ex"
  by (intro exI [of _ "read_result (knowledge_answer c)"] exI [of _ 0], simp add: reads_execute searched_none read_result_def)
    (intro exI [of _ "read_result (school_answer c)"] exI [of _ 0], simp add: reads_execute searched_none read_result_def)

lemma repeated_run:
  assumes c: "scripted_case c" and scenario: "ec_scenario c = Scn_REPEATED_ACTION"
  shows "run_ends ev c reasons g None ''LOOP_STALLED''
    (\<lambda>steps. steps = replicate 2 (fault_call ''search_recent_attempts'' [(''limit'', JInt 10)])) False"
proof -
  let ?st = "first_state ev c reasons" and ?w = "case_world c g"
  let ?r = "fault_call ''search_recent_attempts'' [(''limit'', JInt 10)]"
  have call: "ma_tool_call (mr_action ?r) = Some search_call" by (simp add: search_call_def)
  have answer: "gateway_for_case ev c ?st (offered ev c) ?w = (Inr ?r, rest_script [?r] ?w)"
    using c scenario by (intro scripted_answer) (simp_all add: fault_script_def)
  have "find (\<lambda>d. td_name d = tc_name search_call) (eval_tools ev c) = Some (eval_tools ev c ! 0)"
    by (simp add: search_call_def find_tools)
  note turn = read_turn [OF _ _ _ _ answer _ _ call this tool_terminal(1) search_tool]
  obtain st2 w2 where first: "model_turn (crun ev c) (?st, ?w) = (Inr None, (st2, w2))"
    and moved: "moved_on ev search_call ?r ?st (rest_script [?r] ?w) st2 w2" and rest: "fk_results (snd w2) = [?r]"
    using turn by (auto simp: action_stall_def latest_def)
  have answer2: "gateway_for_case ev c st2 (offered ev c) w2 = (Inr ?r, rest_script [] w2)"
    using c rest by (intro scripted_answer)
  have stall: "action_stall (last_action_fingerprints st2) (action_fingerprint (ev_digest ev) search_call) \<noteq> None"
    using moved by (simp add: moved_on_def action_stall_def latest_def take_last_def history_limit_def)
  obtain x s' w' where second: "model_turn (crun ev c) (st2, w2) = (Inr (Some x), (s', w'))"
    and ends: "ends x w' None ''LOOP_STALLED'' (fk_steps (snd (rest_script [] w2)) @ [?r]) (fk_guardrails (snd (rest_script [] w2)) \<noteq> [])"
    using stalled_turn [OF _ answer2 _ _ call stall] moved by (auto simp: moved_on_def)
  have "run_loop (crun ev c) (?st, ?w) = (Inr x, (s', w'))"
    using run_loop_continues [OF first] run_loop_returns [OF second] by simp
  moreover have "ends x w' None ''LOOP_STALLED'' [?r, ?r] False"
    using ends moved by (simp add: moved_on_def)
  ultimately show ?thesis by (intro run_endsI) (simp_all add: numeral_2_eq_2)
qed

text \<open>
  Two read-only tools in turn. The digest tells the calls of different tools apart, and the answers of these two tools.
\<close>

definition tool_answer :: "eval_case \<Rightarrow> bool \<Rightarrow> json" where
  "tool_answer c school = (if school then school_answer c else knowledge_answer c)"

definition read_call :: "bool \<Rightarrow> tool_call" where
  "read_call school = plain_call (if school then ''get_school_knowledge_stats'' else ''get_student_knowledge_states'')"

definition read_fault :: "bool \<Rightarrow> model_result" where
  "read_fault school = fault_call (tc_name (read_call school)) []"

definition digest_ok :: "eval_runner \<Rightarrow> bool" where
  "digest_ok ev \<longleftrightarrow> (\<forall>a b. tc_name a \<noteq> tc_name b \<longrightarrow> action_fingerprint (ev_digest ev) a \<noteq> action_fingerprint (ev_digest ev) b)
     \<and> (\<forall>c. canonical_fingerprint (ev_digest ev) (knowledge_answer c) \<noteq> canonical_fingerprint (ev_digest ev) (school_answer c))"

lemma read_call_fingerprints:
  "digest_ok ev \<Longrightarrow> action_fingerprint (ev_digest ev) (read_call b) = action_fingerprint (ev_digest ev) (read_call b') \<longleftrightarrow> b = b'"
  by (cases b; cases b') (auto simp: digest_ok_def read_call_def plain_call_def)

lemma read_answer_fingerprints:
  "digest_ok ev \<Longrightarrow> canonical_fingerprint (ev_digest ev) (tool_answer c b) = canonical_fingerprint (ev_digest ev) (tool_answer c b') \<longleftrightarrow> b = b'"
  unfolding digest_ok_def tool_answer_def by (cases b; cases b'; simp; metis)

definition midway :: "eval_runner \<Rightarrow> eval_case \<Rightarrow> bool list \<Rightarrow> model_result list \<Rightarrow> runtime_state \<Rightarrow> eval_world \<Rightarrow> bool" where
  "midway ev c past rs st w \<longleftrightarrow> budget_left ev st \<and> loop_count st = int (length past)
     \<and> model_call_count st = int (length past) \<and> tool_call_count st = int (length past)
     \<and> last_action_fingerprints st = map (\<lambda>b. action_fingerprint (ev_digest ev) (read_call b)) past
     \<and> last_observation_fingerprints st = map (\<lambda>b. canonical_fingerprint (ev_digest ev) (tool_answer c b)) past
     \<and> fk_results (snd w) = rs \<and> fk_guardrails (snd w) = [] \<and> fk_steps (snd w) = map read_fault past"

lemma read_tool:
  "\<exists>d. find (\<lambda>d. td_name d = tc_name (read_call school)) (eval_tools ev c) = Some d \<and> td_terminal_decision d = None"
  "\<exists>ex n. execute (cexec ev c) st (read_call school) w = (Inr ex, searched n w)
    \<and> ter_observation ex = answer_of (tool_answer c school) \<and> \<not> ter_replayed ex"
  using read_tools
  by (cases school; simp add: read_call_def tool_answer_def plain_call_def find_tools tool_terminal [simplified])+

lemma midway_next:
  assumes c: "scripted_case c" and dg: "digest_ok ev" and mid: "midway ev c past (read_fault b # rs) st w"
    and short: "length past < 4" and calm: "past = [] \<or> last past \<noteq> b" "length past < 3"
  shows "\<exists>st' w'. model_turn (crun ev c) (st, w) = (Inr None, (st', w')) \<and> midway ev c (past @ [b]) rs st' w'"
proof -
  let ?fp = "\<lambda>b. action_fingerprint (ev_digest ev) (read_call b)" and ?ofp = "\<lambda>b. canonical_fingerprint (ev_digest ev) (tool_answer c b)"
  have call: "ma_tool_call (mr_action (read_fault b)) = Some (read_call b)" by (simp add: read_fault_def read_call_def plain_call_def)
  have free: "free_answer (read_fault b)" "\<not> ma_finish (mr_action (read_fault b))" by (simp_all add: read_fault_def)
  have answer: "gateway_for_case ev c st (offered ev c) w = (Inr (read_fault b), rest_script rs w)"
    using mid by (intro scripted_answer [OF c]) (simp add: midway_def)
  obtain d where d: "find (\<lambda>d. td_name d = tc_name (read_call b)) (eval_tools ev c) = Some d" "td_terminal_decision d = None"
    using read_tool(1) by blast
  have left: "budget_left ev st" "loop_count st < 5" "model_call_count st < 5" "tool_call_count st < 5"
    using mid short by (simp_all add: midway_def)
  have last: "latest (Suc 0) (map f past) = (if past = [] then None else Some (f (last past)))" for f :: "bool \<Rightarrow> string"
    by (cases past rule: rev_cases) (simp_all add: latest_def nth_append)
  have "latest 3 (map ?fp past) = None" using calm(2) by (simp add: latest_def)
  then have stall: "action_stall (last_action_fingerprints st) (?fp b) = None"
    using mid calm(1) read_call_fingerprints [OF dg] by (auto simp: midway_def action_stall_def last)
  let ?entry = "[(''tool'', JStr (tc_name (read_call b))), (''result'', JObj (answer_of (tool_answer c b))), (''replayed'', JBool False)]"
  have "JObj (answer_of (tool_answer c b)) = tool_answer c b"
    by (simp add: tool_answer_def knowledge_answer_def school_answer_def answer_of_def Let_def)
  then have entry: "observation_fingerprint (ev_digest ev) ?entry = ?ofp b"
    by (simp add: observation_fingerprint_def dict_get_def)
  have new: "latest 1 (last_observation_fingerprints st) \<noteq> Some (?ofp b)"
    using mid calm(1) read_answer_fingerprints [OF dg] by (auto simp: midway_def last)
  from read_turn [OF left answer free call d read_tool(2) stall] new
  obtain st' w' where run: "model_turn (crun ev c) (st, w) = (Inr None, (st', w'))"
    and moved: "moved_on ev (read_call b) (read_fault b) st (rest_script rs w) st' w'" "tool_call_count st' = tool_call_count st + 1"
      "last_observation_fingerprints st' = take_last history_limit (last_observation_fingerprints st @ [?ofp b])"
      "fk_results (snd w') = fk_results (snd (rest_script rs w))"
    unfolding entry by blast
  have "take_last history_limit (map f past @ [x]) = map f past @ [x]" for f :: "bool \<Rightarrow> string" and x
    using short by (simp add: take_last_def history_limit_def)
  then have "midway ev c (past @ [b]) rs st' w'" using moved mid by (simp add: midway_def moved_on_def)
  with run show ?thesis by blast
qed

lemma oscillation_run:
  assumes c: "scripted_case c" and scenario: "ec_scenario c = Scn_ACTION_OSCILLATION" and dg: "digest_ok ev"
  shows "run_ends ev c reasons g None ''LOOP_STALLED'' (\<lambda>steps. steps = map read_fault [False, True, False, True]) False"
proof -
  let ?st = "first_state ev c reasons" and ?w = "case_world c g"
  let ?fp = "\<lambda>b. action_fingerprint (ev_digest ev) (read_call b)"
  have 0: "midway ev c [] (read_fault False # [read_fault True, read_fault False, read_fault True]) ?st ?w"
    by (simp add: midway_def scenario fault_script_def read_fault_def read_call_def plain_call_def)
  obtain st1 w1 where 1: "model_turn (crun ev c) (?st, ?w) = (Inr None, (st1, w1))"
      "midway ev c [False] (read_fault True # [read_fault False, read_fault True]) st1 w1"
    using midway_next [OF c dg 0] by auto
  obtain st2 w2 where 2: "model_turn (crun ev c) (st1, w1) = (Inr None, (st2, w2))"
      "midway ev c [False, True] (read_fault False # [read_fault True]) st2 w2"
    using midway_next [OF c dg 1(2)] by auto
  obtain st3 w3 where 3: "model_turn (crun ev c) (st2, w2) = (Inr None, (st3, w3))"
      "midway ev c [False, True, False] (read_fault True # []) st3 w3"
    using midway_next [OF c dg 2(2)] by auto
  have answer: "gateway_for_case ev c st3 (offered ev c) w3 = (Inr (read_fault True), rest_script [] w3)"
    using 3(2) by (intro scripted_answer [OF c]) (simp add: midway_def)
  have "action_stall (last_action_fingerprints st3) (?fp True) \<noteq> None"
    using 3(2) by (simp add: midway_def action_stall_def latest_def)
  from stalled_turn [OF _ answer _ _ _ this] 3(2)
  obtain x s' w' where 4: "model_turn (crun ev c) (st3, w3) = (Inr (Some x), (s', w'))"
    and ends: "ends x w' None ''LOOP_STALLED'' (map read_fault [False, True, False, True]) False"
    by (auto simp: midway_def read_fault_def read_call_def plain_call_def)
  have "run_loop (crun ev c) (?st, ?w) = (Inr x, (s', w'))"
    using run_loop_continues [OF 1(1)] run_loop_continues [OF 2(1)] run_loop_continues [OF 3(1)] run_loop_returns [OF 4] by simp
  then show ?thesis using ends by (intro run_endsI) simp_all
qed

end
