(* ===== verification/Eval_Fake_Runs.thy ===== *)
theory Eval_Fake_Runs
  imports Eval_Fault_Runs
begin

text \<open>
  The runs with the fake gateway: it searches the attempts, and then proposes the change that the reason codes ask for,
  or gives up when there is no evidence.
\<close>

definition fake_case :: "eval_runner \<Rightarrow> eval_case \<Rightarrow> bool" where
  "fake_case ev c \<longleftrightarrow> ev_gateway ev = ''fake'' \<and> ec_model_eligible c"

lemma fake_answer:
  assumes "fake_case ev c" and "fake_decide (gw_app (ev_gw ev)) st = Inr r"
  shows "gateway_for_case ev c st tools w = (Inr r, w)"
  using assms
  by (cases w) (simp add: fake_case_def gateway_for_case_def shared_gateway_def shared_decide_def lift_result_apply ret_apply)

lemma fake_result_free [simp]: "free_answer (fake_result a)" "mr_action (fake_result a) = a"
  by (simp_all add: free_answer_def fake_result_def result_of_attempts_def fake_attempt_def attempt_succeeded_def
      mr_model_call_count_def)

subsection \<open>The search\<close>

definition search_entry :: "eval_case \<Rightarrow> jobj" where
  "search_entry c = [(''tool'', JStr ''search_recent_attempts''), (''result'', search_answer c), (''replayed'', JBool False)]"

definition search_step :: model_result where
  "search_step = fake_result (default_action\<lparr>ma_tool_call := Some search_call\<rparr>)"

lemma search_step_simps [simp]:
  "free_answer search_step" "\<not> ma_finish (mr_action search_step)" "ma_tool_call (mr_action search_step) = Some search_call"
  by (simp_all add: search_step_def default_action_def)

lemma fake_search_turn:
  assumes "fake_case ev c"
  obtains st w where "model_turn (crun ev c) (first_state ev c reasons, case_world c g) = (Inr None, (st, w))"
    and "moved_on ev search_call search_step (first_state ev c reasons) (case_world c g) st w"
    and "observations st = observations (first_state ev c reasons) @ [search_entry c]"
proof -
  let ?st = "first_state ev c reasons" and ?w = "case_world c g"
  have answer: "gateway_for_case ev c ?st (offered ev c) ?w = (Inr search_step, ?w)"
    by (rule fake_answer [OF assms]) (simp add: fake_decide_def search_step_def search_call_def)
  have find: "find (\<lambda>d. td_name d = tc_name search_call) (eval_tools ev c) = Some (eval_tools ev c ! 0)"
    by (simp add: search_call_def find_tools)
  have exec: "\<exists>ex n. execute (cexec ev c) st' search_call w' = (Inr ex, searched n w')
      \<and> ter_observation ex = answer_of (search_answer c) \<and> \<not> ter_replayed ex"
    if "fk_own (snd w') = fk_own (snd ?w)" for st' w'
    using that by (intro search_tool) simp
  have "[(''tool'', JStr (tc_name search_call)), (''result'', JObj (answer_of (search_answer c))), (''replayed'', JBool False)]
      = search_entry c"
    by (simp add: search_call_def search_entry_def search_answer_def answer_of_def)
  with read_turn [OF _ _ _ _ answer _ _ _ find tool_terminal(1) exec] show thesis
    using that by (auto simp: action_stall_def latest_def)
qed

subsection \<open>Evidence\<close>

definition case_refs :: "eval_runner \<Rightarrow> eval_case \<Rightarrow> string list" where
  "case_refs ev c = (let task = (if ec_evidence_count c \<noteq> 0 then ev_uuid5 ev (ec_id c @ '':task'') else '''') in
     fromkeys ((if task \<noteq> [] then [task] else []) @ map ea_id (ec_recent_attempts c)))"

definition first_entry :: "eval_runner \<Rightarrow> eval_case \<Rightarrow> string list \<Rightarrow> jobj" where
  "first_entry ev c reasons = hd (observations (first_state ev c reasons))"

lemma first_observations: "observations (first_state ev c reasons) = [first_entry ev c reasons]"
  by (simp add: first_entry_def first_state_def case_state_def)

lemma first_entry_keys:
  "map_of (first_entry ev c reasons) ''reason_codes'' = Some (JList (map JStr reasons))"
  "map_of (first_entry ev c reasons) ''task_id'' = Some (JStr (if ec_evidence_count c \<noteq> 0 then ev_uuid5 ev (ec_id c @ '':task'') else ''''))"
  "map_of (first_entry ev c reasons) ''result'' = None"
  by (simp_all add: first_entry_def first_state_def case_state_def)

lemma map_json_str: "map (json_str env) (map JStr xs) = xs"
  by (simp add: comp_def json_str_def)

lemma gathered_refs:
  assumes "observations st = [first_entry ev c reasons, search_entry c]"
  shows "attempt_refs env st = Inr (case_refs ev c)" and "runtime_evidence_refs repr st = Inr (case_refs ev c)"
    and "initial_reasons st = Inr (map JStr reasons)"
proof -
  have ids: "map (json_str env) (map (\<lambda>a. JStr (ea_id a)) xs) = map ea_id xs" for xs
    by (simp add: comp_def json_str_def)
  have strs: "map (py_str repr) (map (\<lambda>a. JStr (ea_id a)) xs) = map ea_id xs" for xs
    by (simp add: comp_def py_str_def)
  show "attempt_refs env st = Inr (case_refs ev c)"
    using assms by (simp add: attempt_refs_def then_result_def dict_get_def first_entry_keys search_entry_def search_answer_def
        case_refs_def Let_def json_str_def comp_def)
  show "runtime_evidence_refs repr st = Inr (case_refs ev c)"
    using assms by (simp add: runtime_evidence_refs_def observation_refs_def dict_get_def first_entry_keys search_entry_def search_answer_def
        case_refs_def Let_def py_str_def comp_def)
  show "initial_reasons st = Inr (map JStr reasons)"
    using assms by (simp add: initial_reasons_def dict_get_def first_entry_keys)
qed

lemma case_refs_empty:
  "ec_evidence_count c = int (length (ec_recent_attempts c)) \<Longrightarrow> case_refs ev c = [] \<longleftrightarrow> ec_evidence_count c = 0"
  by (cases "ec_recent_attempts c") (auto simp: case_refs_def Let_def)

subsection \<open>The proposal\<close>

definition major_reasons :: "string list \<Rightarrow> bool" where
  "major_reasons reasons \<longleftrightarrow> ''LOW_ACCURACY'' \<in> set reasons \<or> ''REPEATED_ERROR'' \<in> set reasons"

lemma is_major_strings: "is_major (map JStr reasons) = major_reasons reasons"
  by (auto simp: is_major_def major_reasons_def)

definition proposal_name :: "string list \<Rightarrow> string" where
  "proposal_name reasons = (if major_reasons reasons then ''propose_major_replan'' else ''propose_minor_adjustment'')"

definition proposal_decision :: "string list \<Rightarrow> string" where
  "proposal_decision reasons = (if major_reasons reasons then ''MAJOR_REPLAN'' else ''MINOR_ADJUST'')"

definition proposal_call :: "eval_runner \<Rightarrow> eval_case \<Rightarrow> string list \<Rightarrow> tool_call" where
  "proposal_call ev c reasons = \<lparr>tc_name = proposal_name reasons,
     tc_arguments = [(''reason_codes'', JList (map JStr reasons)), (''confidence'', JFloat (88 / 100)),
       (''evidence_refs'', JList (map JStr (case_refs ev c))), (''adjustment_factor'', JFloat (8 / 10))],
     tc_idempotency_key = Some (ec_id c @ '':'' @ proposal_name reasons @ '':v2'')\<rparr>"

definition proposal_index :: "string list \<Rightarrow> nat" where
  "proposal_index reasons = (if major_reasons reasons then 4 else 3)"

lemma proposal_found:
  "find (\<lambda>d. td_name d = tc_name (proposal_call ev c reasons)) (eval_tools ev c) = Some (eval_tools ev c ! proposal_index reasons)"
  by (simp add: proposal_call_def proposal_name_def proposal_index_def find_tools)

lemma proposal_tool_is:
  "eval_tools ev c ! proposal_index reasons = eval_proposal_tool ev c (proposal_name reasons)"
  by (simp add: proposal_index_def proposal_name_def eval_tools_def numeral_eq_Suc)

lemma proposal_name_allowed: "\<not> list_ex (startswith (proposal_name reasons)) forbidden_prefixes"
  by (simp add: proposal_name_def forbidden_prefixes_def)

lemma proposal_prepared:
  assumes "runtime_evidence_refs (ae_repr (gw_app (ev_gw ev))) st = Inr refs" and "1 \<le> length reasons" "length reasons \<le> 16"
  shows "\<exists>args. prepare_call (cexec ev c) st (proposal_call ev c reasons) = Inr (eval_proposal_tool ev c (proposal_name reasons), args)
    \<and> map_of args ''evidence_refs'' = Some (JList (map JStr refs))"
proof -
  let ?d = "eval_proposal_tool ev c (proposal_name reasons)" and ?call = "proposal_call ev c reasons"
  have valid: "proposal_args (AList.delete ''evidence_refs'' (tc_arguments ?call)) = Some [(''reason_codes'', JList (map JStr reasons)),
      (''confidence'', JFloat (88 / 100)), (''adjustment_factor'', JFloat (8 / 10))]"
    using assms(2,3)
    by (simp add: proposal_call_def proposal_args_def only_keys_def need_def optional_def checked_def
        length_between_def in_unit_def)
  have "td_risk ?d = Risk_PROPOSAL" "td_args_model ?d = Some \<lparr>am_dump = proposal_args, am_schema = ev_schema ev (proposal_name reasons)\<rparr>"
    "td_idempotency_required ?d" "td_required_permissions ?d = [''student:proposal:create'']"
    by (simp_all add: eval_proposal_tool_def plain_tool_def)
  then show ?thesis
    using valid assms(1) proposal_found [of ev c reasons] proposal_name_allowed [of reasons]
    by (simp add: prepare_call_def registry_lookup proposal_tool_is validated_arguments_def policy_validate_def)
      (simp add: proposal_call_def)
qed

lemma eval_proposal_apply:
  assumes "map_of args ''evidence_refs'' = Some (JList (map JStr refs))" and "refs \<noteq> []"
  shows "\<exists>v. eval_proposal ev c args w = (Inr (JObj v), w)"
  using assms by (simp add: eval_proposal_def dict_get_def require_apply run_comp_simps lift_result_apply json_length_def)

lemma proposal_executes:
  assumes st: "runtime_evidence_refs (ae_repr (gw_app (ev_gw ev))) st = Inr refs" "refs \<noteq> []"
    and reasons: "1 \<le> length reasons" "length reasons \<le> 16" and w: "fst w = []"
  shows "\<exists>ex recs. execute (cexec ev c) st (proposal_call ev c reasons) w = (Inr ex, (recs, snd w))"
proof -
  let ?d = "eval_proposal_tool ev c (proposal_name reasons)" and ?call = "proposal_call ev c reasons"
  obtain args where args: "prepare_call (cexec ev c) st ?call = Inr (?d, args)"
    and refs: "map_of args ''evidence_refs'' = Some (JList (map JStr refs))"
    using proposal_prepared [OF st(1) reasons] by blast
  have d: "td_handler ?d = eval_proposal ev c" "td_side_effect_level ?d = Effect_IDEMPOTENT_WRITE" "td_retry_policy ?d = no_delay_policy"
    "rp_max_attempts no_delay_policy = 2"
    by (simp_all add: eval_proposal_tool_def plain_tool_def no_delay_policy_def)
  have key: "tc_idempotency_key ?call = Some (ec_id c @ '':'' @ proposal_name reasons @ '':v2'')" by (simp add: proposal_call_def)
  then have truthy: "str_truthy (tc_idempotency_key ?call)" by simp
  obtain x where x: "w = ([], x)" using w by (cases w) auto
  define i where "i = fresh_id ([] :: uuid list)"
  have begun: "\<exists>recs. begin_ledger (cexec ev c) st ?d ?call args w = (Inr (Some \<lparr>le_record_id = i, le_status = Ledger_STARTED,
      le_is_new = True, le_result = None\<rparr>), ([recs], x)) \<and> le_record_id (snd recs) = i"
    using d(2) key truthy x by (simp add: begin_ledger_def memory_ledger_def mem_begin_def run_comp_simps i_def Let_def)
  then obtain rc where begun: "begin_ledger (cexec ev c) st ?d ?call args w = (Inr (Some \<lparr>le_record_id = i, le_status = Ledger_STARTED,
      le_is_new = True, le_result = None\<rparr>), ([rc], x))" and rc: "le_record_id (snd rc) = i" by blast
  have "map_of (handler_arguments ?call args) ''evidence_refs'' = Some (JList (map JStr refs))"
    using refs truthy by (simp add: handler_arguments_def update_conv')
  from eval_proposal_apply [OF this st(2), of ev c "([rc], x)"]
  obtain v where v: "eval_proposal ev c (handler_arguments ?call args) ([rc], x) = (Inr (JObj v), ([rc], x))" by blast
  have stored: "\<exists>recs. ledger_succeed (cexec ev c) st i v ([rc], x) = (Inr (), (recs, x))"
    using rc by (cases rc) (simp add: ledger_succeed_def memory_ledger_def mem_replace_def)
  then show ?thesis
    unfolding x by (auto simp: execute_def args begun [unfolded x] lift_result_apply run_comp_simps run_attempts_def attempt_limit_def d truthy
        interval_two try_handler_def v)
qed

definition proposal_step :: "eval_runner \<Rightarrow> eval_case \<Rightarrow> string list \<Rightarrow> model_result" where
  "proposal_step ev c reasons = fake_result (default_action\<lparr>ma_tool_call := Some (proposal_call ev c reasons)\<rparr>)"

lemma proposal_step_simps [simp]:
  "free_answer (proposal_step ev c reasons)" "\<not> ma_finish (mr_action (proposal_step ev c reasons))"
  "ma_tool_call (mr_action (proposal_step ev c reasons)) = Some (proposal_call ev c reasons)"
  by (simp_all add: proposal_step_def default_action_def)

definition uncertain_step :: model_result where
  "uncertain_step = fake_result \<lparr>ma_decision = Some ''UNCERTAIN'', ma_confidence = 4 / 10,
     ma_reason_codes = [''INSUFFICIENT_EVIDENCE''], ma_tool_call = None, ma_finish = True\<rparr>"

lemma fake_second_answer:
  assumes "observations st = [first_entry ev c reasons, search_entry c]" and "loop_count st = 1" and "run_id st = ec_id c"
  shows "fake_decide env st = Inr (if case_refs ev c = [] then uncertain_step else proposal_step ev c reasons)"
  using assms(2,3) gathered_refs [OF assms(1)]
  by (simp add: fake_decide_def then_result_def uncertain_step_def fake_proposal_def proposal_step_def proposal_call_def
      is_major_strings proposal_name_def Let_def)

lemma uncertain_turn:
  assumes "budget_left ev st" and "gateway_for_case ev c st (offered ev c) w = (Inr uncertain_step, w)"
  shows "\<exists>x s' w'. model_turn (crun ev c) (st, w) = (Inr (Some x), (s', w'))
    \<and> ends x w' (Some ''UNCERTAIN'') ''COMPLETED'' (fk_steps (snd w) @ [uncertain_step]) (fk_guardrails (snd w) \<noteq> [])"
proof -
  have "free_answer uncertain_step" by (simp add: uncertain_step_def)
  note turn = answered_turn [OF assms this]
  show ?thesis
    unfolding turn by (simp add: uncertain_step_def finish_action_def run_comp_simps complete_run_apply Let_def final_result_def ends_def)
qed

lemma proposal_turn:
  assumes left: "budget_left ev st" "loop_count st = 1" "model_call_count st = 1"
    and answer: "gateway_for_case ev c st (offered ev c) w = (Inr (proposal_step ev c reasons), w)"
    and obs: "observations st = [first_entry ev c reasons, search_entry c]" "case_refs ev c \<noteq> []"
    and reasons: "1 \<le> length reasons" "length reasons \<le> 16" and w: "fst w = []"
    and fps: "last_action_fingerprints st = [fp]" "fp \<noteq> action_fingerprint (ev_digest ev) (proposal_call ev c reasons)"
  shows "\<exists>x s' w'. model_turn (crun ev c) (st, w) = (Inr (Some x), (s', w'))
    \<and> ends x w' (Some (proposal_decision reasons)) ''COMPLETED'' (fk_steps (snd w) @ [proposal_step ev c reasons])
      (fk_guardrails (snd w) \<noteq> [])"
proof -
  let ?call = "proposal_call ev c reasons" and ?r = "proposal_step ev c reasons"
  have "action_stall (last_action_fingerprints st) (action_fingerprint (ev_digest ev) ?call) = None"
    using fps by (simp add: action_stall_def latest_def)
  note turn = pending_turn [OF left(1) _ _ answer _ _ _ this]
  define st2 where "st2 = pending_state ev (add_usage ?r st) ?call (step_name st)"
  define w2 where "w2 = push_state st2 (push_step ?r w)"
  have run: "model_turn (crun ev c) (st, w) = andthen (execute_pending_tool (crun ev c)) (after_tool ev c) (st2, w2)"
    and st2: "budget_left ev st2" "pending_tool_call st2 = Some ?call" "pending_step_id st2 = Some (step_name st)"
      "observations st2 = observations st"
    unfolding st2_def w2_def using turn left(2,3) by (simp_all add: moved_on_def)
  have "runtime_evidence_refs (ae_repr (gw_app (ev_gw ev))) st2 = Inr (case_refs ev c)"
    using st2(4) obs(1) by (intro gathered_refs) simp
  from proposal_executes [OF this obs(2) reasons, of w2 c]
  obtain ex recs where ex: "execute (cexec ev c) st2 ?call w2 = (Inr ex, (recs, snd w2))" using w by (auto simp: w2_def)
  let ?d = "eval_tools ev c ! proposal_index reasons"
  define s where "s = settle_tool (crun ev c) ?d ?call (tool_observation ?call ex) (counted_state st2 ?call ex)"
  note pending = pending_tool_runs [OF st2(1-3) proposal_found ex, folded s_def]
  have terminal: "td_terminal_decision ?d = Some (proposal_decision reasons)" "str_truthy (td_terminal_decision ?d)"
    by (simp_all add: proposal_tool_is eval_proposal_tool_def proposal_name_def proposal_decision_def)
  have s: "snd s = None" "phase (fst s) = FINAL_PENDING" "\<exists>a. final_action (fst s) = Some a \<and> ma_decision a = Some (proposal_decision reasons)"
    using terminal by (simp_all add: s_def settle_tool_def terminal_action_def Let_def)
  from s(3) obtain a where a: "final_action (fst s) = Some a" "ma_decision a = Some (proposal_decision reasons)" by blast
  have w2: "fk_steps (snd w2) = fk_steps (snd w) @ [?r]" "fk_guardrails (snd w2) = fk_guardrails (snd w)"
    by (simp_all add: w2_def)
  show ?thesis
    unfolding run by (simp add: andthen_apply pending s(1,2) after_tool_def complete_run_apply [OF a(1)] Let_def final_result_def ends_def
        a(2) get_state_def gets_apply ret_apply w2)
qed

subsection \<open>The runs\<close>

lemma fake_run:
  assumes c: "fake_case ev c" and count: "ec_evidence_count c = int (length (ec_recent_attempts c))"
    and reasons: "1 \<le> length reasons" "length reasons \<le> 16"
    and digest: "action_fingerprint (ev_digest ev) search_call \<noteq> action_fingerprint (ev_digest ev) (proposal_call ev c reasons)"
  shows "if ec_evidence_count c = 0
    then run_ends ev c reasons g (Some ''UNCERTAIN'') ''COMPLETED'' (\<lambda>steps. steps = [search_step, uncertain_step]) False
    else run_ends ev c reasons g (Some (proposal_decision reasons)) ''COMPLETED''
      (\<lambda>steps. steps = [search_step, proposal_step ev c reasons]) False"
proof -
  let ?st = "first_state ev c reasons" and ?w = "case_world c g"
  obtain st w where first: "model_turn (crun ev c) (?st, ?w) = (Inr None, (st, w))"
    and moved: "moved_on ev search_call search_step ?st ?w st w"
    and obs: "observations st = observations ?st @ [search_entry c]"
    by (rule fake_search_turn [OF c])
  have obs: "observations st = [first_entry ev c reasons, search_entry c]"
    using obs first_observations by simp
  have st: "budget_left ev st" "loop_count st = 1" "model_call_count st = 1" "run_id st = ec_id c" "fst w = []"
      "last_action_fingerprints st = [action_fingerprint (ev_digest ev) search_call]"
      "fk_steps (snd w) = [search_step]" "fk_guardrails (snd w) = []"
    using moved by (simp_all add: moved_on_def take_last_def history_limit_def case_world_def)
  note second = fake_second_answer [OF obs st(2,4)]
  have loop: "run_loop (crun ev c) (?st, ?w) = run_loop (crun ev c) (st, w)" by (rule run_loop_continues [OF first])
  show ?thesis
  proof (cases "ec_evidence_count c = 0")
    case True
    then have "gateway_for_case ev c st (offered ev c) w = (Inr uncertain_step, w)"
      using case_refs_empty [OF count, of ev] second by (intro fake_answer [OF c]) simp
    from uncertain_turn [OF st(1) this] st(7,8)
    obtain x s' w' where "model_turn (crun ev c) (st, w) = (Inr (Some x), (s', w'))"
      and "ends x w' (Some ''UNCERTAIN'') ''COMPLETED'' [search_step, uncertain_step] False" by auto
    then show ?thesis using True loop run_loop_returns by (auto intro!: run_endsI)
  next
    case False
    then have refs: "case_refs ev c \<noteq> []" using case_refs_empty [OF count, of ev] by simp
    then have "gateway_for_case ev c st (offered ev c) w = (Inr (proposal_step ev c reasons), w)"
      using second by (intro fake_answer [OF c]) simp
    from proposal_turn [OF st(1-3) this obs refs reasons st(5,6) digest] st(7,8)
    obtain x s' w' where "model_turn (crun ev c) (st, w) = (Inr (Some x), (s', w'))"
      and "ends x w' (Some (proposal_decision reasons)) ''COMPLETED'' [search_step, proposal_step ev c reasons] False" by auto
    then show ?thesis using False loop run_loop_returns by (auto intro!: run_endsI)
  qed
qed

end
