(* ===== verification/Eval_Bad_Cases.thy ===== *)
theory Eval_Bad_Cases
  imports Eval_Runner
begin

text \<open>
  The bad cases of an evaluation, \<^verbatim>\<open>app/evaluation/bad_cases.py\<close>: the choice of the results, their records, and the
  promotion to the regression set, and the report of a run. A JSONL file is the list of the objects on its lines. Parameters are the
  SHA-256 digest of \<^verbatim>\<open>json.dumps\<close>, the text of the current time, and the validation of a case by pydantic.
\<close>

record bad_env =
  be_digest :: "json \<Rightarrow> string"
  be_now :: string
  be_case_of :: "json \<Rightarrow> exn + eval_case"

subsection \<open>Dumps\<close>

definition json_strs :: "string list \<Rightarrow> json" where
  "json_strs xs = JList (map JStr xs)"

definition json_bool_option :: "bool option \<Rightarrow> json" where
  "json_bool_option = json_of_option JBool"

definition dump_attempt :: "eval_attempt \<Rightarrow> json" where
  "dump_attempt a = JObj [(''id'', JStr (ea_id a)), (''question_code'', JStr (ea_question_code a)),
     (''score_ratio'', JFloat (ea_score_ratio a)), (''duration_seconds'', JInt (ea_duration_seconds a)),
     (''looked_at_solution'', JBool (ea_looked_at_solution a)), (''error_type'', json_of_option JStr (ea_error_type a))]"

definition dump_signals :: "feedback_signals \<Rightarrow> json" where
  "dump_signals s = JObj [(''completion_ratio'', JFloat (fs_completion_ratio s)),
     (''actual_duration_seconds'', JInt (fs_actual_duration_seconds s)),
     (''expected_p75_seconds'', JInt (fs_expected_p75_seconds s)), (''recent_accuracy'', JFloat (fs_recent_accuracy s)),
     (''recent_attempt_count'', JInt (fs_recent_attempt_count s)), (''same_error_streak'', JInt (fs_same_error_streak s)),
     (''consecutive_low_completion_days'', JInt (fs_consecutive_low_completion_days s))]"

definition dump_student :: "student_snapshot \<Rightarrow> json" where
  "dump_student s = JObj [(''stage'', JStr (ss_stage s)), (''mastery_score'', JFloat (ss_mastery_score s)),
     (''mastery_confidence'', JFloat (ss_mastery_confidence s)), (''mastery_evidence_count'', JInt (ss_mastery_evidence_count s)),
     (''available_minutes'', JInt (ss_available_minutes s)), (''planned_minutes'', JInt (ss_planned_minutes s))]"

definition dump_school :: "school_snapshot \<Rightarrow> json" where
  "dump_school s = JObj [(''normalized_weight'', JFloat (sn_normalized_weight s)),
     (''exam_frequency'', JInt (sn_exam_frequency s)), (''trend'', JStr (sn_trend s))]"

definition dump_case :: "eval_case \<Rightarrow> json" where
  "dump_case c = JObj [(''id'', JStr (ec_id c)), (''dataset_version'', JStr (ec_dataset_version c)),
     (''source'', JStr (ec_source c)), (''split'', JStr (ec_split c)), (''category'', JStr (ec_category c)),
     (''scenario'', JStr (scenario_value (ec_scenario c))), (''description'', JStr (ec_description c)),
     (''school_code'', JStr (ec_school_code c)), (''knowledge_code'', JStr (ec_knowledge_code c)),
     (''task_type'', JStr (ec_task_type c)), (''signals'', dump_signals (ec_signals c)),
     (''evidence_count'', JInt (ec_evidence_count c)), (''recent_attempts'', JList (map dump_attempt (ec_recent_attempts c))),
     (''student_snapshot'', dump_student (ec_student_snapshot c)), (''school_snapshot'', dump_school (ec_school_snapshot c)),
     (''prompt_injection_text'', json_of_option JStr (ec_prompt_injection_text c)),
     (''expected_requires_agent'', JBool (ec_expected_requires_agent c)),
     (''expected_reason_codes'', json_strs (ec_expected_reason_codes c)),
     (''expected_decision'', json_of_option JStr (ec_expected_decision c)),
     (''expected_tool_sequences'', JList (map json_strs (ec_expected_tool_sequences c))),
     (''expected_termination_reasons'', json_strs (ec_expected_termination_reasons c)),
     (''expected_guardrail_block'', JBool (ec_expected_guardrail_block c)), (''model_eligible'', JBool (ec_model_eligible c)),
     (''tags'', json_strs (ec_tags c))]"

definition dump_result :: "eval_result \<Rightarrow> json" where
  "dump_result r = JObj [(''case_id'', JStr (er_case_id r)), (''category'', JStr (er_category r)),
     (''scenario'', JStr (scenario_value (er_scenario r))), (''split'', JStr (er_split r)),
     (''model_eligible'', JBool (er_model_eligible r)), (''expected_requires_agent'', JBool (er_expected_requires_agent r)),
     (''actual_requires_agent'', JBool (er_actual_requires_agent r)),
     (''expected_reason_codes'', json_strs (er_expected_reason_codes r)),
     (''actual_reason_codes'', json_strs (er_actual_reason_codes r)),
     (''expected_decision'', json_of_option JStr (er_expected_decision r)),
     (''actual_decision'', json_of_option JStr (er_actual_decision r)),
     (''expected_tool_sequences'', JList (map json_strs (er_expected_tool_sequences r))),
     (''actual_tools'', json_strs (er_actual_tools r)),
     (''expected_termination_reasons'', json_strs (er_expected_termination_reasons r)),
     (''actual_termination_reason'', JStr (er_actual_termination_reason r)),
     (''decision_correct'', json_bool_option (er_decision_correct r)),
     (''tool_selection_correct'', json_bool_option (er_tool_selection_correct r)),
     (''anomaly_routing_correct'', JBool (er_anomaly_routing_correct r)), (''task_success'', JBool (er_task_success r)),
     (''guardrail_expected'', JBool (er_guardrail_expected r)), (''guardrail_blocked'', JBool (er_guardrail_blocked r)),
     (''high_risk_mutation_attempted'', JBool (er_high_risk_mutation_attempted r)),
     (''high_risk_mutation_executed'', JBool (er_high_risk_mutation_executed r)),
     (''model_calls'', JInt (er_model_calls r)), (''tool_calls'', JInt (er_tool_calls r)),
     (''input_tokens'', JInt (er_input_tokens r)), (''output_tokens'', JInt (er_output_tokens r)),
     (''latency_ms'', JInt (er_latency_ms r)), (''failure_labels'', json_strs (er_failure_labels r)),
     (''trace_digest'', JStr (er_trace_digest r)), (''trace'', JObj (er_trace r))]"

subsection \<open>Triage\<close>

definition triage_owner :: "string \<Rightarrow> string" where
  "triage_owner label =
    (if label \<in> {''DECISION_MISMATCH'', ''INSUFFICIENT_EVIDENCE_HANDLING''} then ''PROMPT_ROUTER_EVIDENCE''
     else if label \<in> {''TOOL_SELECTION_MISMATCH'', ''TOOL_VALIDATION_FAILURE''} then ''TOOL_SCHEMA''
     else if label \<in> {''GUARDRAIL_MISS'', ''HIGH_RISK_MUTATION_EXECUTED''} then ''POLICY_GUARD''
     else if label \<in> {''LOOP_TERMINATION_MISMATCH'', ''TERMINATION_MISMATCH''} then ''LOOP_RUNTIME''
     else ''HARNESS_RUNTIME'')"

definition suggestions :: "(string \<times> string) list" where
  "suggestions = [(''DECISION_MISMATCH'', utf8 [230, 163, 128, 230, 159, 165, 32, 82, 101, 97, 115, 111, 110, 32, 67, 111, 100, 101, 32, 229, 136, 176, 229, 134, 179, 231, 173, 150, 231, 154, 132, 231, 186, 166, 230, 157, 159, 227, 128, 129, 80, 114, 111, 109, 112, 116, 32, 231, 164, 186, 228, 190, 139, 228, 184, 142, 230, 168, 161, 229, 158, 139, 232, 183, 175, 231, 148, 177, 227, 128, 130]),
     (''INSUFFICIENT_EVIDENCE_HANDLING'', utf8 [230, 143, 144, 233, 171, 152, 32, 69, 118, 105, 100, 101, 110, 99, 101, 32, 230, 156, 128, 229, 176, 143, 230, 149, 176, 233, 135, 143, 227, 128, 129, 229, 189, 146, 229, 177, 158, 228, 184, 142, 231, 137, 136, 230, 156, 172, 230, 160, 161, 233, 170, 140, 239, 188, 140, 229, 185, 182, 229, 188, 186, 229, 136, 182, 32, 85, 78, 67, 69, 82, 84, 65, 73, 78, 227, 128, 130]),
     (''TOOL_SELECTION_MISMATCH'', utf8 [230, 148, 182, 231, 180, 167, 32, 84, 111, 111, 108, 32, 230, 143, 143, 232, 191, 176, 227, 128, 129, 229, 143, 130, 230, 149, 176, 32, 83, 99, 104, 101, 109, 97, 32, 229, 146, 140, 230, 140, 137, 229, 156, 186, 230, 153, 175, 230, 154, 180, 233, 156, 178, 231, 154, 132, 32, 84, 111, 111, 108, 32, 233, 155, 134, 229, 144, 136, 227, 128, 130]),
     (''TOOL_VALIDATION_FAILURE'', utf8 [232, 161, 165, 229, 133, 133, 32, 80, 121, 100, 97, 110, 116, 105, 99, 32, 229, 143, 130, 230, 149, 176, 231, 186, 166, 230, 157, 159, 228, 184, 142, 230, 168, 161, 229, 158, 139, 232, 190, 147, 229, 135, 186, 32, 82, 101, 112, 97, 105, 114, 32, 230, 160, 183, 228, 190, 139, 227, 128, 130]),
     (''GUARDRAIL_MISS'', utf8 [229, 162, 158, 229, 138, 160, 233, 163, 142, 233, 153, 169, 229, 133, 131, 230, 149, 176, 230, 141, 174, 227, 128, 129, 230, 157, 131, 233, 153, 144, 231, 187, 145, 229, 174, 154, 229, 146, 140, 32, 71, 117, 97, 114, 100, 114, 97, 105, 108, 32, 229, 155, 158, 229, 189, 146, 32, 67, 97, 115, 101, 227, 128, 130]),
     (''HIGH_RISK_MUTATION_EXECUTED'', utf8 [231, 171, 139, 229, 141, 179, 233, 152, 187, 230, 150, 173, 231, 155, 180, 230, 142, 165, 229, 134, 153, 32, 84, 111, 111, 108, 239, 188, 140, 229, 185, 182, 230, 163, 128, 230, 159, 165, 230, 156, 141, 229, 138, 161, 231, 171, 175, 230, 157, 131, 233, 153, 144, 228, 184, 142, 32, 76, 101, 100, 103, 101, 114, 227, 128, 130]),
     (''LOOP_TERMINATION_MISMATCH'', utf8 [232, 176, 131, 230, 149, 180, 233, 135, 141, 229, 164, 141, 229, 138, 168, 228, 189, 156, 227, 128, 129, 230, 151, 160, 230, 150, 176, 232, 175, 129, 230, 141, 174, 229, 146, 140, 32, 65, 47, 66, 32, 230, 140, 175, 232, 141, 161, 231, 170, 151, 229, 143, 163, 227, 128, 130]),
     (''TERMINATION_MISMATCH'', utf8 [230, 160, 184, 229, 175, 185, 233, 148, 153, 232, 175, 175, 229, 136, 134, 231, 177, 187, 227, 128, 129, 82, 101, 116, 114, 121, 32, 77, 97, 116, 114, 105, 120, 32, 228, 184, 142, 231, 187, 136, 230, 173, 162, 229, 142, 159, 229, 155, 160, 230, 152, 160, 229, 176, 132, 227, 128, 130]),
     (''ANOMALY_ROUTING_MISMATCH'', utf8 [228, 191, 174, 230, 173, 163, 231, 161, 174, 229, 174, 154, 230, 128, 167, 229, 188, 130, 229, 184, 184, 233, 152, 136, 229, 128, 188, 239, 188, 140, 233, 129, 191, 229, 133, 141, 228, 184, 141, 229, 191, 133, 232, 166, 129, 231, 154, 132, 230, 168, 161, 229, 158, 139, 232, 176, 131, 231, 148, 168, 227, 128, 130])]"

definition suggestion :: "string \<Rightarrow> string" where
  "suggestion label = (case map_of suggestions label of Some s \<Rightarrow> s | None \<Rightarrow> utf8 [233, 128, 154, 232, 191, 135, 229, 143, 170, 232, 175, 187, 32, 82, 101, 112, 108, 97, 121, 32, 229, 164, 141, 231, 142, 176, 229, 185, 182, 232, 161, 165, 229, 133, 133, 230, 156, 128, 229, 176, 143, 229, 155, 158, 229, 189, 146, 32, 67, 97, 115, 101, 227, 128, 130])"

subsection \<open>Bad cases\<close>

definition is_bad :: "eval_result \<Rightarrow> bool" where
  "is_bad r \<longleftrightarrow> \<not> er_task_success r \<or> er_decision_correct r = Some False \<or> er_tool_selection_correct r = Some False
     \<or> er_high_risk_mutation_executed r"

definition fingerprint_source :: "eval_case \<Rightarrow> eval_result \<Rightarrow> json" where
  "fingerprint_source c r = JObj [(''category'', JStr (ec_category c)), (''scenario'', JStr (scenario_value (ec_scenario c))),
     (''knowledge_code'', JStr (ec_knowledge_code c)), (''task_type'', JStr (ec_task_type c)),
     (''expected_decision'', json_of_option JStr (ec_expected_decision c)),
     (''actual_decision'', json_of_option JStr (er_actual_decision r)), (''actual_tools'', json_strs (er_actual_tools r)),
     (''termination'', JStr (er_actual_termination_reason r)), (''failures'', json_strs (er_failure_labels r))]"

definition bad_case :: "bad_env \<Rightarrow> eval_case \<Rightarrow> eval_result \<Rightarrow> jobj" where
  "bad_case env c r =
    (let primary = (case er_failure_labels r of [] \<Rightarrow> ''UNKNOWN_FAILURE'' | l # _ \<Rightarrow> l) in
     [(''schema_version'', JStr ''bad_case_v1''), (''fingerprint'', JStr (be_digest env (fingerprint_source c r))),
      (''primary_failure'', JStr primary), (''failure_labels'', json_strs (er_failure_labels r)),
      (''triage_owner'', JStr (triage_owner primary)), (''suggested_optimization'', JStr (suggestion primary)),
      (''case'', dump_case c), (''result'', dump_result r),
      (''replay_command'', JStr (''python scripts/run_evaluation.py --case-id '' @ ec_id c
        @ utf8 [32, 45, 45, 103, 97, 116, 101, 119, 97, 121, 32, 102, 97, 107, 101, 32, 45, 45, 111, 117, 116, 112, 117, 116, 45, 114, 111, 111, 116, 32, 68, 58, 92, 67, 111, 100, 101, 120, 84, 101, 109, 112, 92, 229, 141, 131, 228, 186, 186, 229, 141, 131, 230, 161, 136, 232, 175, 132, 230, 181, 139, 228, 184, 154, 229, 138, 161, 230, 149, 176, 230, 141, 174])),
      (''created_at'', JStr (be_now env))])"

text \<open>A later case with the same id replaces an earlier one in \<open>case_map\<close>.\<close>

fun bad_cases_of :: "bad_env \<Rightarrow> (string \<rightharpoonup> eval_case) \<Rightarrow> eval_result list \<Rightarrow> exn + jobj list" where
  "bad_cases_of env cases [] = Inr []"
| "bad_cases_of env cases (r # rs) =
    then_result (case cases (er_case_id r) of None \<Rightarrow> Inl (PyExc ''KeyError'') | Some c \<Rightarrow> Inr (bad_case env c r)) (\<lambda>b.
    then_result (bad_cases_of env cases rs) (\<lambda>bs. Inr (b # bs)))"

definition write_bad_cases :: "bad_env \<Rightarrow> eval_case list \<Rightarrow> eval_result list \<Rightarrow> exn + jobj list" where
  "write_bad_cases env cases results =
     bad_cases_of env (map_of (rev (map (\<lambda>c. (ec_id c, c)) cases))) (filter is_bad results)"

subsection \<open>Promotion\<close>

definition fingerprint_of :: "jobj \<Rightarrow> exn + json" where
  "fingerprint_of item = (case map_of item ''fingerprint'' of None \<Rightarrow> Inl (PyExc ''KeyError'')
     | Some (JList _) \<Rightarrow> Inl (PyExc ''TypeError'') | Some (JObj _) \<Rightarrow> Inl (PyExc ''TypeError'') | Some f \<Rightarrow> Inr f)"

fun fingerprints_of :: "jobj list \<Rightarrow> exn + json list" where
  "fingerprints_of [] = Inr []"
| "fingerprints_of (item # items) =
    then_result (fingerprint_of item) (\<lambda>f. then_result (fingerprints_of items) (\<lambda>fs. Inr (f # fs)))"

definition promote_item :: "bad_env \<Rightarrow> jobj \<Rightarrow> jobj" where
  "promote_item env item = AList.update ''promotion_status'' (JStr ''REGRESSION'')
     (AList.update ''promoted_at'' (JStr (be_now env)) item)"

text \<open>The loop: the regression set, the known fingerprints and the number promoted.\<close>

fun promote_from :: "bad_env \<Rightarrow> jobj list \<Rightarrow> jobj list \<Rightarrow> json list \<Rightarrow> int \<Rightarrow> exn + (jobj list \<times> int)" where
  "promote_from env [] existing known promoted = Inr (existing, promoted)"
| "promote_from env (item # items) existing known promoted =
    then_result (fingerprint_of item) (\<lambda>f.
      if f \<in> set known then promote_from env items existing known promoted
      else promote_from env items (existing @ [promote_item env item]) (known @ [f]) (promoted + 1))"

record promotion =
  pm_incoming :: int
  pm_promoted :: int
  pm_total :: int

text \<open>The counts and the regression file after the call; the file may not exist before.\<close>

definition promote_bad_cases :: "bad_env \<Rightarrow> jobj list \<Rightarrow> jobj list option \<Rightarrow> exn + (promotion \<times> jobj list)" where
  "promote_bad_cases env incoming regression =
    (let existing = (case regression of None \<Rightarrow> [] | Some items \<Rightarrow> items) in
     then_result (fingerprints_of existing) (\<lambda>known.
     then_result (promote_from env incoming existing known 0) (\<lambda>(result, promoted).
     Inr (\<lparr>pm_incoming = int (length incoming), pm_promoted = promoted, pm_total = int (length result)\<rparr>, result))))"

fun load_cases :: "bad_env \<Rightarrow> jobj list \<Rightarrow> exn + eval_case list" where
  "load_cases env [] = Inr []"
| "load_cases env (item # items) =
    then_result (case map_of item ''case'' of None \<Rightarrow> Inl (PyExc ''KeyError'') | Some j \<Rightarrow> be_case_of env j) (\<lambda>c.
    then_result (load_cases env items) (\<lambda>cs. Inr (c # cs)))"

definition keep_first :: "eval_case list \<Rightarrow> eval_case list" where
  "keep_first cs = fold (\<lambda>c kept. if ec_id c \<in> set (map ec_id kept) then kept else kept @ [c]) cs []"

definition load_regression_cases :: "bad_env \<Rightarrow> jobj list \<Rightarrow> exn + eval_case list" where
  "load_regression_cases env items = then_result (load_cases env items) (\<lambda>cs. Inr (keep_first cs))"

subsection \<open>The report\<close>

record evaluation_report =
  rp_schema_version :: string
  rp_run_id :: string
  rp_created_at :: string
  rp_dataset_version :: string
  rp_dataset_hash :: string
  rp_dataset_path :: string
  rp_gateway :: string
  rp_model_name :: string
  rp_prompt_version :: string
  rp_policy_version :: string
  rp_tool_schema_version :: string
  rp_case_count :: int
  rp_metrics :: evaluation_metrics
  rp_category_metrics :: "(string \<times> evaluation_metrics) list"
  rp_bad_case_count :: int
  rp_bad_case_path :: string
  rp_result_path :: string
  rp_caveats :: "string list"

definition evaluation_caveats :: "eval_runner \<Rightarrow> string list" where
  "evaluation_caveats ev =
    (if ev_gateway ev \<in> {''fake'', ''fake-legacy''} then
       [utf8 [70, 97, 107, 101, 32, 103, 97, 116, 101, 119, 97, 121, 32, 231, 187, 147, 230, 158, 156, 229, 143, 170, 233, 170, 140, 232, 175, 129, 32, 72, 97, 114, 110, 101, 115, 115, 227, 128, 129, 232, 167, 132, 229, 136, 153, 229, 146, 140, 232, 175, 132, 230, 181, 139, 231, 174, 161, 231, 186, 191, 239, 188, 140, 228, 184, 141, 228, 187, 163, 232, 161, 168, 231, 156, 159, 229, 174, 158, 230, 168, 161, 229, 158, 139, 230, 149, 136, 230, 158, 156, 227, 128, 130],
        utf8 [70, 97, 107, 101, 32, 103, 97, 116, 101, 119, 97, 121, 32, 228, 184, 141, 228, 186, 167, 231, 148, 159, 231, 156, 159, 229, 174, 158, 32, 84, 111, 107, 101, 110, 239, 188, 140, 97, 118, 101, 114, 97, 103, 101, 95, 116, 111, 107, 101, 110, 115, 95, 112, 101, 114, 95, 97, 103, 101, 110, 116, 95, 114, 117, 110, 32, 232, 174, 176, 228, 184, 186, 228, 184, 141, 229, 143, 175, 231, 148, 168, 227, 128, 130],
        utf8 [231, 174, 128, 229, 142, 134, 228, 184, 173, 231, 154, 132, 231, 156, 159, 229, 174, 158, 230, 168, 161, 229, 158, 139, 231, 153, 190, 229, 136, 134, 230, 175, 148, 229, 191, 133, 233, 161, 187, 228, 187, 165, 32, 45, 45, 103, 97, 116, 101, 119, 97, 121, 32, 113, 119, 101, 110, 32, 231, 154, 132, 231, 139, 172, 231, 171, 139, 230, 138, 165, 229, 145, 138, 228, 184, 186, 229, 135, 134, 227, 128, 130]]
     else
       [utf8 [230, 149, 176, 230, 141, 174, 228, 184, 186, 228, 184, 154, 229, 138, 161, 231, 156, 159, 229, 174, 158, 229, 136, 134, 229, 184, 131, 231, 154, 132, 229, 144, 136, 230, 136, 144, 32, 67, 97, 115, 101, 239, 188, 140, 228, 184, 141, 229, 140, 133, 229, 144, 171, 231, 156, 159, 229, 174, 158, 229, 173, 166, 231, 148, 159, 32, 80, 73, 73, 227, 128, 130],
        utf8 [230, 168, 161, 229, 158, 139, 231, 187, 147, 230, 158, 156, 229, 143, 151, 228, 190, 155, 229, 186, 148, 229, 149, 134, 231, 137, 136, 230, 156, 172, 227, 128, 129, 233, 153, 144, 230, 181, 129, 229, 146, 140, 233, 135, 135, 230, 160, 183, 230, 151, 182, 233, 151, 180, 229, 189, 177, 229, 147, 141, 239, 188, 140, 230, 138, 165, 229, 145, 138, 229, 155, 186, 229, 174, 154, 232, 174, 176, 229, 189, 149, 230, 168, 161, 229, 158, 139, 228, 184, 142, 230, 149, 176, 230, 141, 174, 32, 72, 97, 115, 104, 227, 128, 130]])"

definition report_model_name :: "eval_runner \<Rightarrow> string" where
  "report_model_name ev =
    (if ev_gateway ev = ''fake'' then fake_model_name
     else if ev_gateway ev = ''fake-legacy'' then ''fake-diagnosis-legacy-v1''
     else cfg_qwen_plus_model (ev_settings ev))"

text \<open>
  \<open>run_to_output\<close> without the files: the results, the bad cases and the report. \<open>run_name\<close> is the name of the run, a
  UTC time stamp with the gateway; the two paths are those of the files that are written.
\<close>

definition run_to_output :: "eval_runner \<Rightarrow> bad_env \<Rightarrow> string \<Rightarrow> string \<Rightarrow> string \<Rightarrow> string \<Rightarrow> string \<Rightarrow> eval_case list
    \<Rightarrow> (eval_result list \<times> jobj list \<times> evaluation_report) router_comp" where
  "run_to_output ev env run_name dataset_path dataset_hash result_path bad_path cases =
    andthen (evaluate ev cases) (\<lambda>results.
    andthen (lift_result (write_bad_cases env cases results)) (\<lambda>bad.
    andthen (require (cases \<noteq> []) (PyExc ''IndexError'')) (\<lambda>_.
    ret (results, bad, \<lparr>rp_schema_version = ''evaluation_report_v1'', rp_run_id = run_name, rp_created_at = be_now env,
      rp_dataset_version = ec_dataset_version (hd cases), rp_dataset_hash = dataset_hash, rp_dataset_path = dataset_path,
      rp_gateway = ev_gateway ev, rp_model_name = report_model_name ev, rp_prompt_version = ''diagnosis_v3'',
      rp_policy_version = policy_version_v2, rp_tool_schema_version = ''learning_tools_v2'',
      rp_case_count = int (length cases), rp_metrics = summarize_results results,
      rp_category_metrics = summarize_by_category results, rp_bad_case_count = int (length bad),
      rp_bad_case_path = bad_path, rp_result_path = result_path, rp_caveats = evaluation_caveats ev\<rparr>))))"

end
