(* ===== verification/Eval_Run_Properties.thy ===== *)
theory Eval_Run_Properties
  imports Eval_Fake_Runs Eval_Bad_Cases Eval_Scoring_Properties
begin

text \<open>
  The evaluation of the generated dataset: the results of every case, and the success of every generated case with the
  fake gateway.
\<close>

lemma singleton_if_subset: "{x. x = a \<and> P} \<subseteq> S \<longleftrightarrow> (P \<longrightarrow> a \<in> S)"
  by auto

subsection \<open>Results\<close>

lemma unharmed_result:
  assumes "run_agent (crun ev c) (case_state ev c reasons, case_world c g) = (Inr r, (s, w))"
  shows "\<not> er_high_risk_mutation_executed (result_with_agent ev c reasons routing r w)"
  using run_case_unharmed [OF assms] by (simp add: result_with_agent_def Let_def)

lemma evaluate_case_cases:
  obtains "\<not> an_requires_agent (detect (ec_signals c))" and
      "evaluate_case ev c g = (Inr (result_without_agent ev c (an_reason_codes (detect (ec_signals c))) (routing_correct c)), g)"
  | r s w g' where "an_requires_agent (detect (ec_signals c))"
    and "run_agent (crun ev c) (case_state ev c (an_reason_codes (detect (ec_signals c))), case_world c g) = (Inr r, (s, w))"
    and "evaluate_case ev c g = (Inr (result_with_agent ev c (an_reason_codes (detect (ec_signals c))) (routing_correct c) r w), g')"
proof (cases "an_requires_agent (detect (ec_signals c))")
  case True
  obtain r s w where run: "run_agent (crun ev c) (case_state ev c (an_reason_codes (detect (ec_signals c))), case_world c g) = (Inr r, (s, w))"
    using run_case_returns by blast
  with True show thesis by (intro that(2) [OF True run]) (simp add: evaluate_case_agent run_case_def)
next
  case False
  then show thesis by (intro that(1)) (simp_all add: evaluate_case_def ret_apply Let_def)
qed

lemma evaluate_unharmed:
  "\<exists>rs g'. evaluate ev cs g = (Inr rs, g') \<and> map er_case_id rs = map ec_id cs
    \<and> list_all (\<lambda>r. \<not> er_high_risk_mutation_executed r) rs"
proof (induction cs arbitrary: g)
  case (Cons c cs)
  obtain r g1 where r: "evaluate_case ev c g = (Inr r, g1)" "\<not> er_high_risk_mutation_executed r" "er_case_id r = ec_id c"
    by (cases rule: evaluate_case_cases [of c ev g])
      (auto dest: unharmed_result simp: result_without_agent_def result_with_agent_def Let_def)
  obtain rs g2 where "evaluate ev cs g1 = (Inr rs, g2) \<and> map er_case_id rs = map ec_id cs
    \<and> list_all (\<lambda>r. \<not> er_high_risk_mutation_executed r) rs" using Cons.IH by blast
  with r show ?case by (simp add: andthen_apply ret_apply)
qed (simp add: ret_apply)

text \<open>C36. 
  C0. The evaluation of any cases, with any of the gateways, returns: one result for each case, in order, and in none
  of them a tool has written, whatever the model answers. The tool that would write is registered, and the policy
  refuses it.
\<close>

theorem evaluation_writes_nothing:
  "\<exists>rs g'. evaluate ev cs g = (Inr rs, g') \<and> map er_case_id rs = map ec_id cs
    \<and> list_all (\<lambda>r. \<not> er_high_risk_mutation_executed r) rs"
  by (rule evaluate_unharmed)

text \<open>
  C0. The labels of a result explain its failure: a run of the agent succeeds exactly when it has no label beside the
  two that only concern tools, and a case that ends without the agent fails with a label unless only the expected
  termination excludes it.
\<close>

theorem failures_are_labelled:
  "\<exists>r g'. evaluate_case ev c g = (Inr r, g') \<and> er_task_success r =
    (set (er_failure_labels r) \<subseteq> {''TOOL_SELECTION_MISMATCH'', ''TOOL_VALIDATION_FAILURE''}
     \<and> (er_actual_requires_agent r \<or> ''COMPLETED'' \<in> set (ec_expected_termination_reasons c)))"
proof (cases rule: evaluate_case_cases [of c ev g])
  case 1
  then show ?thesis by (auto simp: result_without_agent_def Let_def)
next
  case (2 r s w g')
  have "er_task_success (result_with_agent ev c reasons routing r w) =
      (set (er_failure_labels (result_with_agent ev c reasons routing r w)) \<subseteq> {''TOOL_SELECTION_MISMATCH'', ''TOOL_VALIDATION_FAILURE''})"
    for reasons routing
    by (cases "decision_verdict c r = Some False") (simp_all add: result_with_agent_def Let_def failure_labels_def singleton_if_subset, blast?)
  with 2 show ?thesis by (simp add: result_with_agent_def Let_def)
qed

subsection \<open>The generated cases\<close>

definition flawless :: "eval_result \<Rightarrow> bool" where
  "flawless r \<longleftrightarrow> er_task_success r \<and> er_failure_labels r = [] \<and> er_decision_correct r \<noteq> Some False
     \<and> er_tool_selection_correct r \<noteq> Some False"

lemma labelled_routing: "case_labelled c \<Longrightarrow> routing_correct c"
  by (simp add: case_labelled_def routing_correct_def Let_def)

lemma matched_run:
  assumes agent: "an_requires_agent (detect (ec_signals c))" and routing: "routing_correct c"
    and ends: "\<And>g. run_ends ev c (an_reason_codes (detect (ec_signals c))) g d reason (\<lambda>steps. steps \<in> P) guarded"
    and decision: "ec_expected_decision c = None \<or> ec_expected_decision c = d"
    and reason: "reason \<in> set (ec_expected_termination_reasons c)" "reason \<noteq> ''TOOL_VALIDATION_FAILED''"
    and guard: "ec_expected_guardrail_block c \<Longrightarrow> guarded"
    and tools: "\<And>steps. steps \<in> P \<Longrightarrow>
      List.map_filter (\<lambda>r. map_option tc_name (ma_tool_call (mr_action r))) steps \<in> set (ec_expected_tool_sequences c)"
  shows "\<exists>r g'. evaluate_case ev c g = (Inr r, g') \<and> flawless r"
proof -
  obtain r s w steps where run: "run_agent (crun ev c) (case_state ev c (an_reason_codes (detect (ec_signals c))), case_world c g) = (Inr r, (s, w))"
    and e: "ends r w d reason steps guarded" "steps \<in> P"
    using ends [of g] unfolding run_ends_def by blast
  have "selected_tools w \<in> set (ec_expected_tool_sequences c)"
    using tools [OF e(2)] e(1) by (simp add: selected_tools_def ends_def)
  moreover have "decision_verdict c r \<noteq> Some False"
    using decision e(1) by (auto simp: decision_verdict_def ends_def split: option.split)
  ultimately have "flawless (result_with_agent ev c (an_reason_codes (detect (ec_signals c))) (routing_correct c) r w)"
    using e(1) reason routing guard run_case_unharmed [OF run]
    by (auto simp: flawless_def result_with_agent_def Let_def failure_labels_def ends_def)
  with run show ?thesis by (simp add: evaluate_case_agent [OF agent] run_case_def)
qed

lemma run_ends_in: "run_ends ev c reasons g d reason (\<lambda>steps. steps = x) guarded \<Longrightarrow>
    run_ends ev c reasons g d reason (\<lambda>steps. steps \<in> {x}) guarded"
  by simp

text \<open>The kinds of scenario that a generated case can have.\<close>

lemma fault_case_flawless:
  assumes c: "case_labelled c" "case_expected c" and dg: "digest_ok ev" and fault: "ec_scenario c \<in> set fault_scenarios"
  shows "\<exists>r g'. evaluate_case ev c g = (Inr r, g') \<and> flawless r"
proof -
  let ?reasons = "an_reason_codes (detect (ec_signals c))"
  have no: "\<not> ec_model_eligible c" using c(2) fault by (simp add: case_expected_def)
  have none: "ec_expected_decision c = None" using c(1) no by (simp add: case_labelled_def)
  have tools: "ec_expected_tool_sequences c = expected_tools (ec_scenario c) None"
    and reasons: "ec_expected_termination_reasons c = expected_termination (ec_scenario c)"
    and guard: "ec_expected_guardrail_block c = (ec_scenario c \<in> {Scn_FORBIDDEN_MUTATION, Scn_UNKNOWN_TOOL})"
    using c(2) none by (simp_all add: case_expected_def)
  have agent: "an_requires_agent (detect (ec_signals c))" using c(1) none by (auto simp: case_labelled_def)
  note matched = matched_run [OF agent labelled_routing [OF c(1)] _ disjI1 [OF none]]
  have scripted: "scripted_case c" if "ec_scenario c \<noteq> Scn_MALFORMED_MODEL_OUTPUT"
    using that no fault by (simp add: scripted_case_def fault_scenarios_def)
  consider "ec_scenario c = Scn_FORBIDDEN_MUTATION" | "ec_scenario c = Scn_UNKNOWN_TOOL" | "ec_scenario c = Scn_REPEATED_ACTION"
    | "ec_scenario c = Scn_ACTION_OSCILLATION" | "ec_scenario c = Scn_MALFORMED_MODEL_OUTPUT"
    using fault by (auto simp: fault_scenarios_def)
  then show ?thesis
  proof cases
    case 1
    show ?thesis
      by (rule matched [OF run_ends_in [OF forbidden_run [OF scripted]]])
        (use 1 in \<open>simp_all add: tools reasons expected_tools_def expected_termination_def map_filter_def fault_call_def default_action_def\<close>)
  next
    case 2
    show ?thesis
      by (rule matched [OF run_ends_in [OF unknown_run [OF scripted]]])
        (use 2 in \<open>simp_all add: tools reasons expected_tools_def expected_termination_def map_filter_def fault_call_def default_action_def\<close>)
  next
    case 3
    show ?thesis
      by (rule matched [OF run_ends_in [OF repeated_run [OF scripted]]])
        (use 3 in \<open>simp_all add: tools reasons guard expected_tools_def expected_termination_def map_filter_def fault_call_def default_action_def numeral_2_eq_2\<close>)
  next
    case 4
    show ?thesis
      by (rule matched [OF run_ends_in [OF oscillation_run [OF scripted _ dg]]])
        (use 4 in \<open>simp_all add: tools reasons guard expected_tools_def expected_termination_def map_filter_def fault_call_def default_action_def
          read_fault_def read_call_def plain_call_def\<close>)
  next
    case 5
    have "run_ends ev c ?reasons g None ''STRUCTURED_OUTPUT_ERROR'' (\<lambda>steps. steps \<in> {xs. map (ma_tool_call \<circ> mr_action) xs = [None]}) False" for g
      using malformed_run [OF no 5] by simp
    then show ?thesis
      by (rule matched)
        (use 5 in \<open>auto simp: tools reasons guard expected_tools_def expected_termination_def map_filter_def\<close>)
  qed
qed

lemma detect_codes: "length (an_reason_codes (detect s)) \<le> 16" "an_requires_agent (detect s) \<Longrightarrow> 1 \<le> length (an_reason_codes (detect s))"
proof -
  show "length (an_reason_codes (detect s)) \<le> 16" by (simp add: detect_def Let_def)
  have "an_requires_agent (detect s) \<longleftrightarrow> an_reason_codes (detect s) \<noteq> []" by (simp only: detect_def Let_def anomaly_decision.simps)
  then show "an_requires_agent (detect s) \<Longrightarrow> 1 \<le> length (an_reason_codes (detect s))" by (simp add: Suc_le_eq)
qed

lemma calls_apart:
  "digest_ok ev \<Longrightarrow> action_fingerprint (ev_digest ev) search_call \<noteq> action_fingerprint (ev_digest ev) (proposal_call ev c reasons)"
proof -
  assume "digest_ok ev"
  moreover have "tc_name search_call \<noteq> tc_name (proposal_call ev c reasons)"
    by (simp add: search_call_def proposal_call_def proposal_name_def)
  ultimately show ?thesis unfolding digest_ok_def by blast
qed

lemma fake_case_flawless:
  assumes c: "case_labelled c" "case_expected c" and dg: "digest_ok ev" and ev: "ev_gateway ev = ''fake''"
    and agent: "an_requires_agent (detect (ec_signals c))" and plain: "ec_scenario c \<notin> set fault_scenarios"
  shows "\<exists>r g'. evaluate_case ev c g = (Inr r, g') \<and> flawless r"
proof -
  let ?reasons = "an_reason_codes (detect (ec_signals c))"
  have fake: "fake_case ev c" using c(2) ev plain by (simp add: fake_case_def case_expected_def)
  have count: "ec_evidence_count c = int (length (ec_recent_attempts c))" using c(1) by (simp add: case_labelled_def)
  note run = fake_run [OF fake count detect_codes(2) [OF agent] detect_codes(1) calls_apart [OF dg]]
  have decision: "ec_expected_decision c = expected_decision (ec_category c) ?reasons" using c(2) unfolding case_expected_def by blast
  have normal: "ec_category c \<noteq> ''normal_feedback''"
    using c agent unfolding case_expected_def case_labelled_def by metis
  have undecided: "ec_category c \<notin> set undecided_categories"
    using c plain unfolding case_labelled_def case_expected_def by metis
  have guard: "\<not> ec_expected_guardrail_block c" and tools: "ec_expected_tool_sequences c = expected_tools (ec_scenario c) (ec_expected_decision c)"
    using c(2) plain by (auto simp: case_expected_def fault_scenarios_def)
  have reasons: "''COMPLETED'' \<in> set (ec_expected_termination_reasons c)"
    using c(2) plain by (cases "ec_scenario c") (simp_all add: case_expected_def expected_termination_def fault_scenarios_def)
  have insufficient: "ec_scenario c = Scn_EVIDENCE_INSUFFICIENT \<longleftrightarrow> ec_category c = ''evidence_insufficient''"
    using c(2) scenario_evidence unfolding case_expected_def by metis
  note matched = matched_run [OF agent labelled_routing [OF c(1)] _ disjI2 reasons _ _]
  show ?thesis
  proof (cases "ec_evidence_count c = 0")
    case True
    then have category: "ec_category c = ''evidence_insufficient''" using c(1) normal by (simp add: case_labelled_def no_evidence_categories_def)
    have "run_ends ev c ?reasons g (Some ''UNCERTAIN'') ''COMPLETED'' (\<lambda>steps. steps \<in> {[search_step, uncertain_step]}) False" for g
      using run [of g] True by simp
    then show ?thesis
      by (rule matched) (use category insufficient guard in \<open>simp_all add: decision expected_decision_def tools expected_tools_def map_filter_def
        search_step_def uncertain_step_def search_call_def default_action_def\<close>)
  next
    case False
    then have category: "ec_category c \<noteq> ''evidence_insufficient''" using c(1) by (simp add: case_labelled_def no_evidence_categories_def)
    have d: "ec_expected_decision c = Some (proposal_decision ?reasons)"
      using normal category undecided by (simp add: decision expected_decision_def undecided_categories_def proposal_decision_def major_reasons_def)
    have ends: "run_ends ev c ?reasons g (Some (proposal_decision ?reasons)) ''COMPLETED''
        (\<lambda>steps. steps \<in> {[search_step, proposal_step ev c ?reasons]}) False" for g
      using run [of g] False by simp
    have "[''search_recent_attempts'', proposal_name ?reasons] \<in> set (ec_expected_tool_sequences c)"
      using plain insufficient category by (cases "ec_scenario c")
        (simp_all add: tools d expected_tools_def proposal_decision_def proposal_name_def fault_scenarios_def Let_def)
    then show ?thesis
      by (intro matched [OF ends d]) (use guard in \<open>simp_all add: map_filter_def search_step_def proposal_step_def search_call_def
        proposal_call_def default_action_def\<close>)
  qed
qed

lemma quiet_case_flawless:
  assumes c: "case_labelled c" "case_expected c" and quiet: "\<not> an_requires_agent (detect (ec_signals c))"
  shows "\<exists>r g'. evaluate_case ev c g = (Inr r, g') \<and> flawless r"
proof -
  have category: "ec_category c = ''normal_feedback''" using c quiet by (simp add: case_labelled_def case_expected_def)
  obtain index where "ec_scenario c = scenario_of (ec_category c) index" using c(2) unfolding case_expected_def by blast
  then have "ec_scenario c = Scn_STANDARD" unfolding category by (simp add: scenario_of_def)
  then have "''COMPLETED'' \<in> set (ec_expected_termination_reasons c)" using c(2) by (simp add: case_expected_def expected_termination_def)
  moreover have "ec_expected_decision c = Some ''NO_AGENT''" using c(1) quiet by (simp add: case_labelled_def)
  ultimately show ?thesis
    using labelled_routing [OF c(1)] quiet
    by (simp add: evaluate_case_def ret_apply Let_def flawless_def result_without_agent_def)
qed

lemma generated_case_flawless:
  assumes "case_labelled c" "case_expected c" and "digest_ok ev" and "ev_gateway ev = ''fake''"
  shows "\<exists>r g'. evaluate_case ev c g = (Inr r, g') \<and> flawless r"
  using fault_case_flawless [OF assms(1-3)] fake_case_flawless [OF assms] quiet_case_flawless [OF assms(1,2)] by blast

subsection \<open>The evaluation of the generated dataset\<close>

lemma evaluate_flawless:
  assumes "digest_ok ev" and "ev_gateway ev = ''fake''" and "\<forall>c\<in>set cs. case_labelled c \<and> case_expected c"
  shows "\<exists>rs g'. evaluate ev cs g = (Inr rs, g') \<and> length rs = length cs \<and> list_all flawless rs"
  using assms(3)
proof (induction cs arbitrary: g)
  case (Cons c cs)
  obtain r g1 where r: "evaluate_case ev c g = (Inr r, g1)" "flawless r"
    using generated_case_flawless [OF _ _ assms(1,2), of c g] Cons.prems by auto
  obtain rs g2 where "evaluate ev cs g1 = (Inr rs, g2) \<and> length rs = length cs \<and> list_all flawless rs"
    using Cons.IH [of g1] Cons.prems by auto
  with r show ?case by (simp add: andthen_apply ret_apply)
qed (simp add: ret_apply)

lemma flawless_not_bad:
  assumes "list_all flawless rs" and "list_all (\<lambda>r. \<not> er_high_risk_mutation_executed r) rs"
  shows "write_bad_cases env cs rs = Inr []"
proof -
  have "filter is_bad rs = []" using assms by (auto simp: list_all_iff filter_empty_conv is_bad_def flawless_def)
  then show ?thesis by (simp add: write_bad_cases_def)
qed

lemma flawless_rate:
  assumes "list_all flawless rs" and "rs \<noteq> []"
  shows "mv_value (em_task_success_rate (summarize_results rs)) = Some 1"
proof -
  have "filter er_task_success rs = rs" using assms(1) by (auto simp: list_all_iff filter_id_conv flawless_def)
  moreover have "py_round (1000000 :: pyfloat) = 1000000" using py_round_of_int [of 1000000] by simp
  ultimately show ?thesis
    using assms(2) by (simp add: summarize_results_def Let_def rate_def metric_def how_many_def round_dp_def split: prod.split)
qed

text \<open>C34. 
  C0. With the fake gateway the pipeline agrees with itself: whatever the random source draws, the evaluation of the
  generated cases gives one result for each, every result is a success without a failure label, no case becomes a bad
  case, and the report says so with a task success rate of one. So an injected fault ends as its scenario expects, by the policy,
  the registry, the stall detector or the output check, and a diagnosed case ends with the decision that its reason
  codes ask for. The digest is assumed to tell calls of different tools apart and the answers of the two read-only
  tools.
\<close>

theorem fake_evaluation_succeeds:
  assumes rg: "rng_ok rg" and n: "1 \<le> number" "number < 800 \<or> 1000 \<le> number"
    and dg: "digest_ok ev" and fake: "ev_gateway ev = ''fake''"
  shows "\<exists>cases g1 rs report g2. generate_cases rg uuid5 number g = (Inr cases, g1)
    \<and> run_to_output ev env run_name path hash result_path bad_path cases router = (Inr (rs, [], report), g2)
    \<and> int (length rs) = number \<and> list_all (\<lambda>r. er_task_success r \<and> er_failure_labels r = []) rs
    \<and> rp_bad_case_count report = 0 \<and> mv_value (em_task_success_rate (rp_metrics report)) = Some 1"
proof -
  obtain cases g1 where cs: "generate_cases rg uuid5 number g = (Inr cases, g1)" "int (length cases) = number"
      "\<forall>c\<in>set cases. case_labelled c \<and> case_expected c"
    using generate_cases_yields [OF rg n, of uuid5] unfolding yields_def by blast
  obtain rs g2 where rs: "evaluate ev cases router = (Inr rs, g2)" "length rs = length cases" "list_all flawless rs"
    using evaluate_flawless [OF dg fake cs(3)] by blast
  have "list_all (\<lambda>r. \<not> er_high_risk_mutation_executed r) rs"
    using evaluate_unharmed [of ev cases router] rs(1) by auto
  moreover have "rs \<noteq> []" using cs(2) rs(2) n(1) by auto
  moreover have "list_all (\<lambda>r. er_task_success r \<and> er_failure_labels r = []) rs"
    using rs(3) by (auto simp: list_all_iff flawless_def)
  ultimately show ?thesis
    using cs(1,2) rs flawless_not_bad [OF rs(3)] flawless_rate [OF rs(3)]
    by (auto simp: run_to_output_def andthen_apply lift_result_apply require_apply ret_apply)
qed

text \<open>A digest that keeps the name of a tool, and the kind of an answer.\<close>

definition example_digest :: "json \<Rightarrow> string" where
  "example_digest j = (case j of
     JObj d \<Rightarrow> (case map_of d ''name'' of Some (JStr s) \<Rightarrow> s | _ \<Rightarrow> if map_of d ''states'' \<noteq> None then ''states'' else ''stats'')
   | _ \<Rightarrow> [])"

definition example_eval_runner :: eval_runner where
  "example_eval_runner = \<lparr>ev_gateway = ''fake'', ev_settings = default_settings,
     ev_gw = \<lparr>gw_post = (\<lambda>sent payload. Inl (HttpStatusErr 503)), gw_clock = (\<lambda>n. 0), gw_sample = (\<lambda>n. 0), gw_loads = (\<lambda>t. None),
       gw_dumps = (\<lambda>j. []), gw_error_text = (\<lambda>m. []), gw_app = \<lparr>ae_uuid_str = (\<lambda>u. []), ae_uuid_of = (\<lambda>s. None),
       ae_date_iso = (\<lambda>d. []), ae_date_of = (\<lambda>s. None), ae_isoformat = (\<lambda>t. []), ae_repr = (\<lambda>j. []), ae_int_of = (\<lambda>s. None),
       ae_float_of = (\<lambda>s. None)\<rparr>\<rparr>,
     ev_uuid5 = id, ev_now = 0, ev_monotonic = 0, ev_random = 0, ev_latency = (\<lambda>c. 0), ev_digest = example_digest,
     ev_trace_digest = example_digest, ev_schema = (\<lambda>n. JNull)\<rparr>"

lemma map_of_sort_key:
  assumes "distinct (map fst xs)"
  shows "map_of (sort_key fst xs) = map_of xs"
proof -
  have "mset (map fst (sort_key fst xs)) = mset (map fst xs)" by (simp only: mset_map mset_sort)
  then have "distinct (map fst (sort_key fst xs))" using assms mset_eq_imp_distinct_iff by blast
  then show ?thesis using assms by (simp add: map_of_inject_set)
qed

lemma example_digest_ok: "digest_ok example_eval_runner"
proof -
  have call: "action_fingerprint example_digest call = tc_name call" for call
    by (simp add: action_fingerprint_def canonical_fingerprint_def example_digest_def map_of_sort_key)
  have "canonical_fingerprint example_digest (knowledge_answer c) = ''states''"
    "canonical_fingerprint example_digest (school_answer c) = ''stats''" for c
    by (simp_all add: canonical_fingerprint_def knowledge_answer_def school_answer_def Let_def example_digest_def)
  then show ?thesis by (simp add: digest_ok_def example_eval_runner_def call)
qed

definition example_bad_env :: bad_env where
  "example_bad_env = \<lparr>be_digest = example_digest, be_now = ''t'', be_case_of = (\<lambda>j. Inl value_error)\<rparr>"

theorem fake_evaluation_succeeds_witness:
  "\<exists>cases g1 rs report g2. generate_cases example_rng id 1000 () = (Inr cases, g1)
    \<and> run_to_output example_eval_runner example_bad_env ''run'' ''cases'' ''hash'' ''results'' ''bad'' cases
      \<lparr>rs_breakers = (\<lambda>m. closed_breaker), rs_sent = [], rs_reads = 0, rs_slept = []\<rparr> = (Inr (rs, [], report), g2)
    \<and> int (length rs) = 1000 \<and> list_all (\<lambda>r. er_task_success r \<and> er_failure_labels r = []) rs
    \<and> rp_bad_case_count report = 0 \<and> mv_value (em_task_success_rate (rp_metrics report)) = Some 1"
  by (rule fake_evaluation_succeeds [OF example_rng_ok _ _ example_digest_ok]) (simp_all add: example_eval_runner_def)

subsection \<open>Promotion\<close>

lemma then_result_Inr: "then_result x f = Inr y \<longleftrightarrow> (\<exists>a. x = Inr a \<and> f a = Inr y)"
  by (cases x) (simp_all add: then_result_def)

lemma fingerprint_of_promoted: "fingerprint_of (promote_item env item) = fingerprint_of item"
  by (simp add: fingerprint_of_def promote_item_def update_conv')

lemma fingerprints_of_snoc:
  "fingerprints_of xs = Inr fs \<Longrightarrow> fingerprint_of x = Inr f \<Longrightarrow> fingerprints_of (xs @ [x]) = Inr (fs @ [f])"
  by (induction xs arbitrary: fs) (auto simp: then_result_Inr)

lemma promote_from_spec:
  "promote_from env items existing known n = Inr (result, m) \<Longrightarrow> fingerprints_of existing = Inr known \<Longrightarrow> distinct known \<Longrightarrow>
    \<exists>new fs. result = existing @ new \<and> m = n + int (length new) \<and> fingerprints_of result = Inr fs \<and> distinct fs
      \<and> set known \<subseteq> set fs \<and> list_all (\<lambda>i. \<exists>f\<in>set fs. fingerprint_of i = Inr f) items"
proof (induction env items existing known n rule: promote_from.induct)
  case (2 env item items existing known n)
  obtain f where f: "fingerprint_of item = Inr f" using 2(3) by (auto simp: then_result_Inr)
  show ?case
  proof (cases "f \<in> set known")
    case True
    then have "promote_from env items existing known n = Inr (result, m)" using 2(3) f by (simp add: then_result_def)
    from 2(1) [OF True this 2(4,5)] True f show ?thesis by (auto 0 3)
  next
    case False
    have snoc: "fingerprints_of (existing @ [promote_item env item]) = Inr (known @ [f])"
      using 2(4) f by (intro fingerprints_of_snoc) (simp_all add: fingerprint_of_promoted)
    have run: "promote_from env items (existing @ [promote_item env item]) (known @ [f]) (n + 1) = Inr (result, m)"
      using 2(3) f False by (simp add: then_result_def)
    from 2(2) [OF False run snoc] 2(5) False obtain new fs where
      "result = (existing @ [promote_item env item]) @ new" "m = n + 1 + int (length new)" "fingerprints_of result = Inr fs"
      "distinct fs" "set (known @ [f]) \<subseteq> set fs" "list_all (\<lambda>i. \<exists>f\<in>set fs. fingerprint_of i = Inr f) items" by auto
    with f show ?thesis by (intro exI [of _ "promote_item env item # new"] exI [of _ fs]) auto
  qed
qed simp

lemma promote_from_known:
  "list_all (\<lambda>i. \<exists>f\<in>set known. fingerprint_of i = Inr f) items \<Longrightarrow> promote_from env items existing known n = Inr (existing, n)"
  by (induction items) (auto simp: then_result_def)


definition example_item :: "string \<Rightarrow> jobj" where
  "example_item f = [(''fingerprint'', JStr f)]"

lemma example_promotion:
  "promote_bad_cases example_bad_env [example_item ''a'', example_item ''b''] (Some [example_item ''a''])
    = Inr (\<lparr>pm_incoming = 2, pm_promoted = 1, pm_total = 2\<rparr>, [example_item ''a'', promote_item example_bad_env (example_item ''b'')])"
  "fingerprints_of [example_item ''a''] = Inr [JStr ''a'']"
  by (simp_all add: promote_bad_cases_def then_result_def fingerprint_of_def example_item_def)


end
