(* ===== verification/Spec2Isabelle.thy ===== *)
theory Spec2Isabelle
  imports Harness_Properties Harness_Db_Properties Domain_Properties Job_Properties Agent_Properties
    Plan_Properties Exam_Properties Practice_Properties Mock_Exam_Properties Gateway_Properties
    Account_Properties Student_Properties Eval_Scoring_Properties Eval_Case_Properties Eval_Run_Properties
begin

text \<open>
  A verification development for the adaptive learning agent: a FastAPI service
  (\<^verbatim>\<open>src/app\<close>) in which a student works through a question bank, background jobs prepare and
  diagnose the work, and an agent that calls a language model proposes changes of the plan.

  \<^bold>\<open>The program and its parts.\<close> A request creates a background job
  (\<^verbatim>\<open>app/application/jobs.py\<close>); a worker claims it (\<^verbatim>\<open>app/workers/tasks.py\<close>) and runs the
  handler of its type. The diagnosis handler (\<^verbatim>\<open>app/application/agent_runs.py\<close>) takes a lease on
  the run (\<^verbatim>\<open>app/harness/lease.py\<close>), builds the tools of the agent
  (\<^verbatim>\<open>app/infrastructure/adapters/learning_tools.py\<close>) and starts the loop of the harness
  (\<^verbatim>\<open>app/harness/runner.py\<close>), which asks the model for an action, saves a checkpoint, executes the
  tool through a policy, a retry loop and a ledger of side effects (\<^verbatim>\<open>app/harness/tools.py\<close>), and
  traces every step. The stores of the harness write to the database under a fencing token. The
  proposals that the agent makes are decided by the student through the API. The domain rules
  (\<^verbatim>\<open>app/domain\<close>) are pure functions that the services call.

  \<^bold>\<open>Theories, in the order of the code.\<close>
  \<^item> \<open>Prelude\<close>: computations with a state and exceptions (\<open>comp\<close>), transactions, tables keyed by
    identifiers, sorting and JSON vocabulary, with the collections \<open>comp_simps\<close> and
    \<open>table_simps\<close> that carry the later proofs. \<open>Enums\<close> is \<^verbatim>\<open>domain/enums.py\<close>, \<open>Text\<close> the decimal
    numerals and non-ASCII literals that the code writes.
  \<^item> \<open>Harness_Contracts\<close>, \<open>Harness_Budget\<close>, \<open>Harness_Stall\<close>, \<open>Harness_Schemas\<close>,
    \<open>Harness_Tools\<close>, \<open>Harness_Ledger\<close>, \<open>Harness_Executor\<close>, \<open>Harness_Runner\<close>: the agent harness
    over abstract ports, one theory per file (\<^verbatim>\<open>tools.py\<close> is split into definitions, ledger
    and executor). \<open>Harness_Fakes\<close> holds the in-memory ports of \<^verbatim>\<open>harness/fakes.py\<close>;
    \<open>Harness_Safety\<close> the invariants of a run for any ports.
  \<^item> \<open>Rows_Runs\<close>, \<open>Rows_Learning\<close>, \<open>Rows_Exams\<close>, \<open>Database\<close>: the mapped classes of
    \<^verbatim>\<open>infrastructure/db/models.py\<close> as records and the database as a record of tables.
    \<open>Harness_Store\<close>, \<open>Harness_Db_Ledger\<close>, \<open>Harness_Lease\<close>: the ports of the harness over the
    database, and the leases, with a step relation for the interleaving of several workers.
  \<^item> \<open>Learning_Domain\<close>, \<open>Planner\<close>, \<open>Exam_Validator\<close>: the domain rules.
  \<^item> \<open>App_Base\<close>, \<open>Jobs\<close>, \<open>Learning_Tools\<close>, \<open>Agent_Runs\<close>, \<open>Proposals\<close>: settings, background
    jobs with dispatcher and worker, the tools, the diagnosis service, and what the API does with
    runs and proposals.
  \<^item> \<open>Learning_Plans\<close> is \<^verbatim>\<open>application/learning_plans.py\<close> and the generation job of
    \<^verbatim>\<open>application/plans.py\<close>: the first plan, the daily roll, patches and their audit.
  \<^item> \<open>Exam_Base\<close>, \<open>Unlocks\<close>, \<open>True_Exams\<close>: progress gates, chapter sessions over a snapshot of the
    question bank, and the records of real examinations.
  \<^item> \<open>Practice\<close>: attempts, feedback of tasks and efficiency profiles.
  \<^item> \<open>Mock_Selection\<close>, \<open>Question_Generator\<close>, \<open>Mock_Exams\<close>: the choice of questions by slot, the
    generator with its validation, and generation, submission and review of mock examinations.
  \<^item> \<open>Model_Gateway\<close>: prompt, request, parsing and repair of a model answer, circuit breaker and
    router (\<^verbatim>\<open>infrastructure/adapters/model_gateway.py\<close>).
  \<^item> \<open>Otp\<close>, \<open>Accounts\<close>, \<open>Account_Purge\<close>: one-time codes in memory and in Redis, log-in, refresh,
    deletion, and the purge of accounts with its cascades.
  \<^item> \<open>Students\<close>: profiles, availability, the week template, catalog and change of target school.
  \<^item> \<open>Eval_Scoring\<close>, \<open>Eval_Dataset\<close>, \<open>Eval_Runner\<close>, \<open>Eval_Bad_Cases\<close>: the summaries of an evaluation
    run, the generator of its cases, the run of a case through the harness on in-memory stores, and the
    bad cases with their promotion and the report (\<^verbatim>\<open>app/evaluation\<close>). \<open>Numerals\<close> reads the decimal
    numerals of \<open>Text\<close> back.
  \<^item> \<open>Harness_Properties\<close>, \<open>Harness_Db_Properties\<close>, \<open>Domain_Properties\<close>, \<open>Job_Properties\<close>,
    \<open>Agent_Properties\<close>, \<open>Plan_Properties\<close>, \<open>Exam_Properties\<close>, \<open>Practice_Properties\<close>,
    \<open>Mock_Properties\<close>, \<open>Mock_Exam_Properties\<close>, \<open>Gateway_Properties\<close>, \<open>Account_Properties\<close>,
    \<open>Student_Properties\<close>, \<open>Eval_Scoring_Properties\<close>, \<open>Eval_Dataset_Properties\<close>,
    \<open>Eval_Case_Properties\<close>, \<open>Eval_Run_Properties\<close>: the properties, each followed by its application to
    a concrete input. \<open>Eval_Runner_Properties\<close>, \<open>Eval_Run_Steps\<close>, \<open>Eval_Fault_Runs\<close> and
    \<open>Eval_Fake_Runs\<close> lead to the last: what a run of the harness on a case keeps, one turn of it, the runs
    of the injected faults, and those of the fake model.

  \<^bold>\<open>How state and effects are modelled.\<close> A method of a service is a computation that maps a
  database (\<open>db\<close>) to a result or an exception and a new database. \<open>transaction\<close> undoes the
  writes of a session that raises, as \<^verbatim>\<open>async with session.begin()\<close> does. Row locks are read as
  the serialisation of sessions that they enforce: the interleaving of workers is a sequence of
  whole sessions (\<open>lease_step\<close>, \<open>job_step\<close>). UUIDs are natural numbers and a new one is one that
  no row has. Time is an argument in seconds and dates count days. A float is a real number:
  the arithmetic is read exactly, and rounding is modelled where the code calls \<^verbatim>\<open>round\<close>. The
  exceptions of a part are a datatype, and a method that raises returns \<open>Inl\<close>.

  \<^bold>\<open>Parameters.\<close> What lies outside the repository is an argument: the model gateway and its
  answers, the digest and \<^verbatim>\<open>json.dumps\<close>, \<^verbatim>\<open>repr\<close> of floats, text forms of UUIDs and times, and the
  coercions of pydantic. What the code relies on is a named hypothesis (\<open>pydantic_ok\<close>,
  \<open>store_env_ok\<close>, \<open>app_env_ok\<close>) that states documented behaviour, such as that parsing what was
  dumped returns it; each property with such a hypothesis is applied to a concrete function.

  \<^bold>\<open>Interfaces.\<close> The tool executor relies on a ledger of side effects only through the locale
  \<open>ledger_contract\<close>: it is interpreted on the memory ledger (\<open>mem\<close>) and on the fenced table of
  the database (\<open>dbl\<close>), and the at-most-once property of the executor is proved once inside it.
  The accounts rely on a store of one-time codes through \<open>otp_contract\<close>: it is interpreted on the
  memory store (\<open>mem_otp\<close>) and, for every Redis that keeps its documented commands (\<open>redis_ok\<close>),
  on the Redis store (\<open>redis_otp_contract\<close>).

  \<^bold>\<open>What is shown.\<close>
  \<^item> Harness: a run makes at most \<^verbatim>\<open>max_steps\<close> turns and \<^verbatim>\<open>max_tool_calls\<close> calls for every
    behaviour of its collaborators; a tool starts only under a checkpoint that names it; a
    reported decision is saved; a recorded side effect runs once per idempotency key; the number of
    handler calls is bounded by the retry policy; the bounded stall window refines the whole
    history; final decisions are well-formed.
  \<^item> Database ports: one worker passes the fence in every interleaving, a stale worker writes
    nothing, a checkpoint round trip, redaction of observations.
  \<^item> Jobs: the invariant of attempts over every reachable database, the refinement of the worker
    to the machine of one job, single claims, idempotent creation, settlement of failures and
    recovery of abandoned jobs.
  \<^item> Proposals: final decisions, approval only on current evidence, owned evidence, the capacity
    of a day under minor adjustments.
  \<^item> Domain: soundness of both planning strategies, exactness of the anomaly detector and of the
    exam validator, bounds of mastery updates and of estimates.

  \<^item> Plans: the first plan and the rolled plan keep capacity, order and ownership; a patch is
    applied to the version it names, checked and recorded.
  \<^item> Exams and practice: chapter sessions are snapshots, submissions are recorded once, mock
    access is earned, feedback and attempts are recorded once.
  \<^item> Mock examinations: a generated examination is complete or goes to review, weak points get
    their share, submissions are complete, review decisions final.
  \<^item> Model gateway: every call is accounted for, the chosen action is well-formed, the circuit
    breaker refines the history of outcomes.
  \<^item> Accounts: refresh tokens work once, guesses and requests of codes are limited, deletion
    freezes an account, the purge deletes what is due and nothing else.
  \<^item> Students: the version of a profile guards its update; a change of school applies once.
  \<^item> Evaluation: rates lie in their intervals; generated cases agree with the detector; whatever the
    random source draws, the evaluation of the generated cases with the fake gateway succeeds on every case
    and files no bad case (for digests that tell the tools apart, \<open>digest_ok\<close>); with any gateway no
    evaluation executes the forbidden tool; the labels of a result explain its failure; bad cases are promoted
    once.

  \<^bold>\<open>Loops and fuel.\<close> The loop of the runner recurses on the steps that the budget leaves, and
  the retry loop on the attempts that the policy leaves; both are total because the code checks
  these limits before each turn. The daily roll recurses on the days up to today, the balanced
  counts of a mock examination on the questions still missing, decimal numerals on the number. The
  walk along the chapters is a \<open>partial_function\<close>, for a bank whose chapters form a cycle, with a
  theorem that it ends on every bank without one. No definition takes fuel.

  \<^bold>\<open>Not modelled.\<close> HTTP clients and the command line, logging and metrics, file parsing and
  storage (\<^verbatim>\<open>application/resources.py\<close>), seed data (\<^verbatim>\<open>application/seed.py\<close>) and migrations: they only
  move data in and out. The routing layer (\<^verbatim>\<open>app/api\<close>) is the framework's. A JSONL file of the
  evaluation is the list of its objects, its Markdown reports are output only, and its cases run one after
  the other where the code lets several wait at a time. The older
  persistence of \<^verbatim>\<open>plans.py\<close> is not reached from any entry point. The heartbeat task of a lease is
  a renewal step of the step relation, and \<^verbatim>\<open>asyncio.timeout\<close> an exception of the handler.
\<close>

end
